(* ===== verification/Prelude.thy ===== *)
theory Prelude
  imports Main "HOL-Library.State_Monad" "HOL-Library.Finite_Map" "HOL-Library.Word"
begin

text \<open>
  What every other theory of the development shares.

  \<^item> Go's \<open>error\<close> values: a text, and the API-machinery reason that
    \<open>apierrors.IsNotFound\<close> and its kin read through any \<open>%w\<close> wrapping.
  \<^item> Effects. A controller talks to the API server, to the event recorder and to the
    metrics registry. A run of a controller is a state-monad program over the history of the
    calls issued so far; the answer to a call is a function of that history, so nothing is
    assumed of the service and two equal calls may be answered differently.
  \<^item> \<open>wp\<close>, a weakest-precondition reading of such programs, and \<open>emits\<close>, the
    safety reading (every call a program issues satisfies a predicate), with their rules.
\<close>

section \<open>Collections of facts\<close>

named_theorems effect_simps \<open>equations that run an effect program\<close>
named_theorems emits_intros \<open>introduction rules for emits\<close>

section \<open>Errors\<close>

text \<open>
  The reasons of \<open>k8s.io/apimachinery\<close> the code asks for, and every other error.
\<close>

datatype err_reason = NotFound | AlreadyExists | Forbidden | OtherReason

datatype go_error = GoError (err_reason: err_reason) (err_text: string)

type_synonym 'a result = "go_error + 'a"

definition errorf :: "string \<Rightarrow> go_error" where
  "errorf msg = GoError OtherReason msg"

text \<open>\<open>fmt.Errorf("prefix: %w", err)\<close> keeps the reason of the wrapped error.\<close>

definition wrapf :: "string \<Rightarrow> go_error \<Rightarrow> go_error" where
  "wrapf prefix e = GoError (err_reason e) (prefix @ '': '' @ err_text e)"

definition is_not_found :: "go_error \<Rightarrow> bool" where
  "is_not_found e = (err_reason e = NotFound)"

definition is_already_exists :: "go_error \<Rightarrow> bool" where
  "is_already_exists e = (err_reason e = AlreadyExists)"

text \<open>\<open>client.IgnoreNotFound(err)\<close> of a non-nil error, as a reconcile's error return.\<close>

definition ignore_not_found :: "go_error \<Rightarrow> unit result" where
  "ignore_not_found e = (if is_not_found e then Inr () else Inl e)"

lemma errorf_simps [simp]:
  "err_reason (errorf m) = OtherReason" "err_text (errorf m) = m"
  "\<not> is_not_found (errorf m)" "\<not> is_already_exists (errorf m)"
  by (simp_all add: errorf_def is_not_found_def is_already_exists_def)

lemma wrapf_simps [simp]:
  "err_reason (wrapf p e) = err_reason e" "err_text (wrapf p e) = p @ '': '' @ err_text e"
  "is_not_found (wrapf p e) = is_not_found e"
  by (simp_all add: wrapf_def is_not_found_def)

lemma errorf_inject [simp]: "errorf a = errorf b \<longleftrightarrow> a = b"
  by (simp add: errorf_def)

lemma sum_Inl_or_Inr: "(\<exists>e. r = Inl e) \<or> (\<exists>x. r = Inr x)"
  by (cases r) auto

section \<open>Effects\<close>

type_synonym ('c, 'a) eff = "('c list, 'a) state"

abbreviation ret :: "'a \<Rightarrow> ('c, 'a) eff" where
  "ret \<equiv> State_Monad.return"

abbreviation bind_eff :: "('c, 'a) eff \<Rightarrow> ('a \<Rightarrow> ('c, 'b) eff) \<Rightarrow> ('c, 'b) eff" where
  "bind_eff \<equiv> State_Monad.bind"

text \<open>Issue the call \<open>c\<close>; its answer depends on the history before it.\<close>

definition perform :: "'c \<Rightarrow> ('c list \<Rightarrow> 'a) \<Rightarrow> ('c, 'a) eff" where
  "perform c answer = State (\<lambda>h. (answer h, h @ [c]))"

text \<open>A call whose answer the code does not look at (an event, a metric).\<close>

definition emit :: "'c \<Rightarrow> ('c, unit) eff" where
  "emit c = perform c (\<lambda>_. ())"

definition when_eff :: "bool \<Rightarrow> ('c, unit) eff \<Rightarrow> ('c, unit) eff" where
  "when_eff b m = (if b then m else ret ())"

text \<open>
  \<open>if err := m; err != nil { return err }\<close> followed by the rest: the rest runs on the
  value, an error is returned as it is.
\<close>

definition try_bind :: "('c, 'a result) eff \<Rightarrow> ('a \<Rightarrow> ('c, 'b result) eff) \<Rightarrow> ('c, 'b result) eff" where
  "try_bind m k = bind_eff m (\<lambda>r. case r of Inl e \<Rightarrow> ret (Inl e) | Inr a \<Rightarrow> k a)"

lemma run_perform [simp, effect_simps]: "run_state (perform c f) h = (f h, h @ [c])"
  by (simp add: perform_def)

lemma run_emit [simp, effect_simps]: "run_state (emit c) h = ((), h @ [c])"
  by (simp add: emit_def)

lemma run_when_eff [simp, effect_simps]:
  "run_state (when_eff b m) h = (if b then run_state m h else ((), h))"
  by (simp add: when_eff_def)

lemma run_try_bind [effect_simps]:
  "run_state (try_bind m k) h =
     (case run_state m h of (Inl e, h') \<Rightarrow> (Inl e, h') | (Inr a, h') \<Rightarrow> run_state (k a) h')"
  by (simp add: try_bind_def split: prod.splits sum.splits)

subsection \<open>Weakest preconditions\<close>

definition wp :: "('c, 'a) eff \<Rightarrow> ('a \<Rightarrow> 'c list \<Rightarrow> bool) \<Rightarrow> 'c list \<Rightarrow> bool" where
  "wp m Q h = (case run_state m h of (a, h') \<Rightarrow> Q a h')"

lemma wp_ret [simp]: "wp (ret a) Q h = Q a h"
  by (simp add: wp_def)

lemma wp_bind [simp]: "wp (bind_eff m k) Q h = wp m (\<lambda>a. wp (k a) Q) h"
  by (simp add: wp_def split: prod.splits)

lemma wp_perform [simp]: "wp (perform c f) Q h = Q (f h) (h @ [c])"
  by (simp add: wp_def)

lemma wp_emit [simp]: "wp (emit c) Q h = Q () (h @ [c])"
  by (simp add: wp_def)

lemma wp_when_eff [simp]: "wp (when_eff b m) Q h = (if b then wp m Q h else Q () h)"
  by (simp add: when_eff_def)

lemma wp_try_bind [simp]:
  "wp (try_bind m k) Q h =
     wp m (\<lambda>r h'. case r of Inl e \<Rightarrow> Q (Inl e) h' | Inr a \<Rightarrow> wp (k a) Q h') h"
  by (simp add: wp_def run_try_bind split: prod.splits sum.splits)

lemma wp_mono: "wp m Q h \<Longrightarrow> (\<And>a h'. Q a h' \<Longrightarrow> R a h') \<Longrightarrow> wp m R h"
  by (auto simp: wp_def split: prod.splits)

lemma wp_conj: "wp m (\<lambda>a h. Q a h \<and> R a h) h \<longleftrightarrow> wp m Q h \<and> wp m R h"
  by (simp add: wp_def split: prod.splits)

lemma wp_runD: "wp m Q h \<Longrightarrow> run_state m h = (a, h') \<Longrightarrow> Q a h'"
  by (simp add: wp_def)

lemma wp_runI: "(\<And>a h'. run_state m h = (a, h') \<Longrightarrow> Q a h') \<Longrightarrow> wp m Q h"
  by (simp add: wp_def split: prod.splits)

subsection \<open>What a program issues\<close>

text \<open>
  \<open>emits Q m\<close>: whatever the history and the answers, \<open>m\<close> only appends to the
  history, and only calls that satisfy \<open>Q\<close>.
\<close>

definition emits :: "('c \<Rightarrow> bool) \<Rightarrow> ('c, 'a) eff \<Rightarrow> bool" where
  "emits Q m \<longleftrightarrow> (\<forall>h. \<exists>t. snd (run_state m h) = h @ t \<and> list_all Q t)"

lemma emitsD: "emits Q m \<Longrightarrow> run_state m h = (a, h') \<Longrightarrow> \<exists>t. h' = h @ t \<and> list_all Q t"
  by (metis emits_def snd_conv)

lemma emits_run: "emits Q m \<Longrightarrow> list_all Q (snd (run_state m []))"
  by (metis emits_def append_Nil)

lemma emits_ret [simp, emits_intros]: "emits Q (ret a)"
  by (simp add: emits_def)

lemma emits_perform [simp]: "emits Q (perform c f) \<longleftrightarrow> Q c"
  by (auto simp: emits_def)

lemma emits_performI [emits_intros]: "Q c \<Longrightarrow> emits Q (perform c f)"
  by simp

lemma emits_emit [simp]: "emits Q (emit c) \<longleftrightarrow> Q c"
  by (simp add: emit_def)

lemma emits_emitI [emits_intros]: "Q c \<Longrightarrow> emits Q (emit c)"
  by simp

lemma emits_bind [emits_intros]:
  assumes "emits Q m" and "\<And>a. emits Q (k a)"
  shows "emits Q (bind_eff m k)"
  unfolding emits_def
proof
  fix h
  obtain a h1 where m: "run_state m h = (a, h1)" by fastforce
  obtain t1 where t1: "h1 = h @ t1" "list_all Q t1" using emitsD [OF assms(1) m] by blast
  obtain b h2 where k: "run_state (k a) h1 = (b, h2)" by fastforce
  obtain t2 where t2: "h2 = h1 @ t2" "list_all Q t2" using emitsD [OF assms(2) k] by blast
  show "\<exists>t. snd (run_state (bind_eff m k) h) = h @ t \<and> list_all Q t"
    using m k t1 t2 by auto
qed

text \<open>A call of which only the answer the environment gives is used.\<close>

lemma emits_query:
  assumes "Q c" "\<And>h. emits Q (k (f h))"
  shows "emits Q (bind_eff (perform c f) k)"
  unfolding emits_def
proof
  fix h
  obtain t where "snd (run_state (k (f h)) (h @ [c])) = (h @ [c]) @ t" "list_all Q t"
    using assms(2) [of h] unfolding emits_def by blast
  then show "\<exists>t. snd (run_state (bind_eff (perform c f) k) h) = h @ t \<and> list_all Q t"
    using assms(1) by (intro exI [of _ "c # t"]) (simp add: perform_def)
qed

lemma emits_when [emits_intros]: "(b \<Longrightarrow> emits Q m) \<Longrightarrow> emits Q (when_eff b m)"
  by (simp add: when_eff_def)

lemma emits_try [emits_intros]:
  "emits Q m \<Longrightarrow> (\<And>a. emits Q (k a)) \<Longrightarrow> emits Q (try_bind m k)"
  unfolding try_bind_def by (auto intro!: emits_bind split: sum.splits)

lemma emits_mono: "emits P m \<Longrightarrow> (\<And>c. P c \<Longrightarrow> Q c) \<Longrightarrow> emits Q m"
  by (fastforce simp: emits_def list_all_iff)

lemma emits_if [emits_intros]:
  "(b \<Longrightarrow> emits Q m) \<Longrightarrow> (\<not> b \<Longrightarrow> emits Q n) \<Longrightarrow> emits Q (if b then m else n)"
  by simp

lemma emits_case_sum [emits_intros]:
  "(\<And>e. r = Inl e \<Longrightarrow> emits Q (f e)) \<Longrightarrow> (\<And>a. r = Inr a \<Longrightarrow> emits Q (g a)) \<Longrightarrow>
   emits Q (case r of Inl e \<Rightarrow> f e | Inr a \<Rightarrow> g a)"
  by (cases r) simp_all

lemma emits_case_option [emits_intros]:
  "(r = None \<Longrightarrow> emits Q f) \<Longrightarrow> (\<And>a. r = Some a \<Longrightarrow> emits Q (g a)) \<Longrightarrow>
   emits Q (case r of None \<Rightarrow> f | Some a \<Rightarrow> g a)"
  by (cases r) simp_all

lemma emits_case_prod [emits_intros]:
  "(\<And>a b. p = (a, b) \<Longrightarrow> emits Q (f a b)) \<Longrightarrow> emits Q (case p of (a, b) \<Rightarrow> f a b)"
  by (cases p) simp

subsection \<open>What a program issues and returns\<close>

text \<open>
  \<open>ensures Q R m\<close>: as \<open>emits Q m\<close>, and every value \<open>m\<close> returns satisfies \<open>R\<close>.
\<close>

definition ensures :: "('c \<Rightarrow> bool) \<Rightarrow> ('a \<Rightarrow> bool) \<Rightarrow> ('c, 'a) eff \<Rightarrow> bool" where
  "ensures Q R m \<longleftrightarrow>
     (\<forall>h. \<exists>t. snd (run_state m h) = h @ t \<and> list_all Q t \<and> R (fst (run_state m h)))"

lemma emits_ensures: "emits Q m \<longleftrightarrow> ensures Q (\<lambda>_. True) m"
  by (simp add: emits_def ensures_def)

lemma ensures_emits: "ensures Q R m \<Longrightarrow> emits Q m"
  by (auto simp: emits_def ensures_def)

lemma ensures_ret: "R a \<Longrightarrow> ensures Q R (ret a)"
  by (simp add: ensures_def)

lemma ensures_perform: "Q c \<Longrightarrow> (\<And>h. R (f h)) \<Longrightarrow> ensures Q R (perform c f)"
  by (auto simp: ensures_def)

lemma ensures_bind:
  assumes "ensures Q R m" and "\<And>a. R a \<Longrightarrow> ensures Q S (k a)"
  shows "ensures Q S (bind_eff m k)"
  unfolding ensures_def
proof
  fix h
  obtain a h1 where m: "run_state m h = (a, h1)" by fastforce
  obtain t1 where t1: "h1 = h @ t1" "list_all Q t1" "R a"
    using assms(1) m unfolding ensures_def by (metis fst_conv snd_conv)
  obtain b h2 where k: "run_state (k a) h1 = (b, h2)" by fastforce
  obtain t2 where t2: "h2 = h1 @ t2" "list_all Q t2" "S b"
    using assms(2) [OF t1(3)] k unfolding ensures_def by (metis fst_conv snd_conv)
  show "\<exists>t. snd (run_state (bind_eff m k) h) = h @ t \<and> list_all Q t \<and> S (fst (run_state (bind_eff m k) h))"
    using m k t1 t2 by auto
qed

lemma ensures_weaken:
  "ensures Q R m \<Longrightarrow> (\<And>a. R a \<Longrightarrow> S a) \<Longrightarrow> ensures Q S m"
  by (fastforce simp: ensures_def)

lemma ensures_try:
  assumes "ensures Q R m" "\<And>a. R (Inr a) \<Longrightarrow> ensures Q S (k a)" "\<And>e. R (Inl e) \<Longrightarrow> S (Inl e)"
  shows "ensures Q S (try_bind m k)"
  unfolding try_bind_def
  by (rule ensures_bind [OF assms(1)]) (auto split: sum.splits intro: ensures_ret assms(2,3))

lemma ensures_case_result:
  "(\<And>e. r = Inl e \<Longrightarrow> ensures Q R (f e)) \<Longrightarrow> (\<And>a. r = Inr a \<Longrightarrow> ensures Q R (g a)) \<Longrightarrow>
   ensures Q R (case r of Inl e \<Rightarrow> f e | Inr a \<Rightarrow> g a)"
  by (cases r) simp_all

lemma wp_ensures: "ensures Q R m \<Longrightarrow> wp m (\<lambda>a h'. R a \<and> (\<exists>t. h' = h @ t \<and> list_all Q t)) h"
  by (auto simp: ensures_def wp_def split: prod.splits) (metis fst_conv snd_conv)+

lemma ensures_run: "ensures Q R m \<Longrightarrow> list_all Q (snd (run_state m [])) \<and> R (fst (run_state m []))"
  by (metis ensures_def append_Nil)

lemma ensures_mono_calls: "ensures Q R m \<Longrightarrow> (\<And>c. Q c \<Longrightarrow> P c) \<Longrightarrow> ensures P R m"
  by (fastforce simp: ensures_def list_all_iff)

text \<open>A program that only issues calls satisfying \<open>Q\<close>, its value unconstrained.\<close>

lemma ensures_of_emits: "emits Q m \<Longrightarrow> (\<And>a. R a) \<Longrightarrow> ensures Q R m"
  by (auto simp: emits_def ensures_def)

text \<open>A program only extends the history.\<close>

lemma wp_appends:
  assumes "emits (\<lambda>_. True) m" "\<And>a u. wp (k a) Q (h @ u)"
  shows "wp (bind_eff m k) Q h"
proof -
  obtain a h' where m: "run_state m h = (a, h')" by fastforce
  then obtain u where "h' = h @ u" using emitsD [OF assms(1) m] by blast
  then show ?thesis using m assms(2) by (simp add: wp_def)
qed

lemma wp_try_appends:
  assumes "emits (\<lambda>_. True) m" "\<And>e h'. Q (Inl e) h'" "\<And>a u. wp (k a) Q (h @ u)"
  shows "wp (try_bind m k) Q h"
  unfolding try_bind_def by (rule wp_appends [OF assms(1)]) (auto split: sum.split intro: assms)

lemma wp_try_ensures:
  assumes "ensures P R m" "\<And>e t. R (Inl e) \<Longrightarrow> list_all P t \<Longrightarrow> Q (Inl e) (h @ t)"
    and "\<And>a t. R (Inr a) \<Longrightarrow> list_all P t \<Longrightarrow> wp (k a) Q (h @ t)"
  shows "wp (try_bind m k) Q h"
  unfolding wp_try_bind
  by (rule wp_mono [OF wp_ensures [OF assms(1)]]) (use assms(2,3) in \<open>auto split: sum.split\<close>)

section \<open>Go maps with string keys\<close>

text \<open>
  A nil map and an empty map answer every lookup alike, and the code creates the map before
  the first store; both are the empty finite map here. Reading a missing key of a
  \<open>map[string]string\<close> gives the zero value, the empty string.
\<close>

type_synonym str_map = "(string, string) fmap"

definition str_get :: "str_map \<Rightarrow> string \<Rightarrow> string" where
  "str_get m k = (case fmlookup m k of None \<Rightarrow> '''' | Some v \<Rightarrow> v)"

lemma str_get_empty [simp]: "str_get fmempty k = ''''"
  by (simp add: str_get_def)

lemma str_get_upd [simp]: "str_get (fmupd k v m) k' = (if k = k' then v else str_get m k')"
  by (simp add: str_get_def)

lemma fmupd_same: "fmlookup m k = Some v \<Longrightarrow> fmupd k v m = m"
  by (rule fmap_ext) auto

text \<open>\<open>maps.Copy(dst, src)\<close>: every entry of \<open>src\<close> is stored in \<open>dst\<close>.\<close>

definition maps_copy :: "(string, 'v) fmap \<Rightarrow> (string, 'v) fmap \<Rightarrow> (string, 'v) fmap" where
  "maps_copy dst src = dst ++\<^sub>f src"

lemma maps_copy_lookup [simp]:
  "fmlookup (maps_copy dst src) k =
     (case fmlookup src k of None \<Rightarrow> fmlookup dst k | Some v \<Rightarrow> Some v)"
  by (simp add: maps_copy_def fmlookup_dom_iff split: option.splits)

lemma maps_copy_again [simp]: "maps_copy (maps_copy dst src) src = maps_copy dst src"
  by (rule fmap_ext) (simp split: option.splits)

section \<open>Durations and requests\<close>

text \<open>
  A \<open>time.Duration\<close> is a number of nanoseconds; a \<open>time.Time\<close> is its distance in
  nanoseconds from the zero time, so that \<open>t.IsZero()\<close> is \<open>t = 0\<close>.
\<close>

type_synonym duration = int
type_synonym time = int

definition second :: duration where "second = 1000000000"
definition minute :: duration where "minute = 60 * second"
definition millisecond :: duration where "millisecond = 1000000"

definition max_duration :: duration where "max_duration = 2 ^ 63 - 1"
definition min_duration :: duration where "min_duration = - (2 ^ 63)"

text \<open>\<open>t.Sub(u)\<close> saturates at the ends of the 64-bit duration.\<close>

definition time_sub :: "time \<Rightarrow> time \<Rightarrow> duration" where
  "time_sub t u = max min_duration (min max_duration (t - u))"

text \<open>\<open>ctrl.Result\<close>: only \<open>RequeueAfter\<close> is used by this program.\<close>

record ctrl_result =
  requeue_after :: duration

definition no_requeue :: ctrl_result where
  "no_requeue = \<lparr>requeue_after = 0\<rparr>"

definition requeue_in :: "duration \<Rightarrow> ctrl_result" where
  "requeue_in d = \<lparr>requeue_after = d\<rparr>"

lemma requeue_simps [simp]:
  "requeue_after no_requeue = 0" "requeue_after (requeue_in d) = d"
  by (simp_all add: no_requeue_def requeue_in_def)

lemma second_pos [simp]: "0 < second" "0 < minute" "0 < millisecond"
  by (simp_all add: second_def minute_def millisecond_def)

end
