(* ===== verification/GoStrings.thy ===== *)
theory GoStrings
  imports Prelude "HOL-Library.List_Lexorder" "HOL-Library.Char_ord" "HOL-Library.Sublist"
begin

text \<open>
  The part of Go's \<open>strings\<close>, \<open>strconv\<close>, \<open>sort\<close> and \<open>fmt\<close> packages the
  program uses, on strings as sequences of bytes (Isabelle's \<open>char\<close> is one byte). Go
  strings are UTF-8: \<open>strings.TrimSpace\<close> removes the Unicode white space, whose
  encodings are the byte sequences \<open>space_runes\<close>. Case folding and quoting are exact for
  ASCII, which covers every constant the code compares with; bytes above 127 pass through
  \<open>%q\<close> unchanged, as those of printable runes do.
\<close>

section \<open>Prefixes, suffixes and searching\<close>

definition has_prefix :: "string \<Rightarrow> string \<Rightarrow> bool" where
  "has_prefix s p = (take (length p) s = p)"

definition has_suffix :: "string \<Rightarrow> string \<Rightarrow> bool" where
  "has_suffix s p = has_prefix (rev s) (rev p)"

definition trim_prefix :: "string \<Rightarrow> string \<Rightarrow> string" where
  "trim_prefix s p = (if has_prefix s p then drop (length p) s else s)"

definition trim_suffix :: "string \<Rightarrow> string \<Rightarrow> string" where
  "trim_suffix s p = (if has_suffix s p then take (length s - length p) s else s)"

fun str_contains :: "string \<Rightarrow> string \<Rightarrow> bool" where
  "str_contains [] p = (p = [])"
| "str_contains (c # s) p = (has_prefix (c # s) p \<or> str_contains s p)"

lemma has_prefix_append [simp]: "has_prefix (p @ s) p"
  by (simp add: has_prefix_def)

lemma has_prefix_iff: "has_prefix s p \<longleftrightarrow> (\<exists>t. s = p @ t)"
  by (metis append_take_drop_id has_prefix_append has_prefix_def)

lemma has_suffix_iff: "has_suffix s p \<longleftrightarrow> (\<exists>t. s = t @ p)"
  unfolding has_suffix_def has_prefix_iff by (metis rev_append rev_rev_ident)

lemma has_suffix_append [simp]: "has_suffix (s @ p) p"
  by (auto simp: has_suffix_iff)

lemma trim_prefix_append [simp]: "trim_prefix (p @ s) p = s"
  by (simp add: trim_prefix_def)

lemma str_contains_iff: "str_contains s p \<longleftrightarrow> (\<exists>u v. s = u @ p @ v)"
proof (induction s)
  case Nil
  then show ?case by simp
next
  case (Cons c s)
  have "str_contains (c # s) p \<longleftrightarrow> (\<exists>v. c # s = p @ v) \<or> (\<exists>u v. s = u @ p @ v)"
    using Cons.IH by (simp add: has_prefix_iff)
  also have "\<dots> \<longleftrightarrow> (\<exists>u v. c # s = u @ p @ v)"
    by (metis append_Cons append_Nil list.inject neq_Nil_conv)
  finally show ?case .
qed

section \<open>Splitting and joining\<close>

text \<open>\<open>strings.Split(s, sep)\<close> for a one-byte separator.\<close>

fun split_char :: "char \<Rightarrow> string \<Rightarrow> string list" where
  "split_char d [] = [[]]"
| "split_char d (c # s) =
     (if c = d then [] # split_char d s
      else (case split_char d s of [] \<Rightarrow> [[c]] | w # ws \<Rightarrow> (c # w) # ws))"

text \<open>\<open>strings.Cut\<close>, and \<open>strings.SplitN(s, sep, 2)\<close> where the separator occurs.\<close>

fun cut_char :: "char \<Rightarrow> string \<Rightarrow> string \<times> string \<times> bool" where
  "cut_char d [] = ([], [], False)"
| "cut_char d (c # s) =
     (if c = d then ([], s, True)
      else (case cut_char d s of (a, b, found) \<Rightarrow> (c # a, b, found)))"

text \<open>The bytes from the last occurrence of \<open>d\<close>: (before it, after it).\<close>

definition cut_last :: "char \<Rightarrow> string \<Rightarrow> (string \<times> string) option" where
  "cut_last d s =
     (case cut_char d (rev s) of
        (b, a, True) \<Rightarrow> Some (rev a, rev b)
      | (_, _, False) \<Rightarrow> None)"

fun str_join :: "string list \<Rightarrow> string \<Rightarrow> string" where
  "str_join [] sep = []"
| "str_join [w] sep = w"
| "str_join (w # ws) sep = w @ sep @ str_join ws sep"

lemma split_char_not_Nil [simp]: "split_char d s \<noteq> []"
  by (cases s) (auto split: list.splits)

lemma split_char_no_sep: "w \<in> set (split_char d s) \<Longrightarrow> d \<notin> set w"
  by (induction s arbitrary: w) (auto split: if_splits list.splits)

lemma join_split_char: "str_join (split_char d s) [d] = s"
proof (induction s)
  case Nil
  then show ?case by simp
next
  case (Cons c s)
  obtain w ws where ws: "split_char d s = w # ws"
    by (cases "split_char d s") auto
  then show ?case using Cons.IH by (cases ws) auto
qed

lemma split_char_append:
  "d \<notin> set a \<Longrightarrow> split_char d (a @ d # b) = a # split_char d b"
  by (induction a) auto

lemma split_char_single: "d \<notin> set a \<Longrightarrow> split_char d a = [a]"
  by (induction a) auto

lemma cut_char_found: "d \<notin> set a \<Longrightarrow> cut_char d (a @ d # b) = (a, b, True)"
  by (induction a) auto

lemma cut_char_absent: "d \<notin> set a \<Longrightarrow> cut_char d a = (a, [], False)"
  by (induction a) auto

lemma cut_char_parts:
  "cut_char d s = (a, b, True) \<Longrightarrow> s = a @ d # b \<and> d \<notin> set a"
  by (induction s arbitrary: a) (auto split: if_splits prod.splits)

lemma cut_char_not_found:
  "cut_char d s = (a, b, False) \<Longrightarrow> d \<notin> set s \<and> a = s \<and> b = []"
  by (induction s arbitrary: a) (auto split: if_splits prod.splits)

lemma cut_last_found: "d \<notin> set b \<Longrightarrow> cut_last d (a @ d # b) = Some (a, b)"
  using cut_char_found [of d "rev b" "rev a"] by (simp add: cut_last_def)

lemma cut_last_absent: "d \<notin> set s \<Longrightarrow> cut_last d s = None"
  using cut_char_absent [of d "rev s"] by (simp add: cut_last_def)

lemma cut_last_SomeD: "cut_last d s = Some (a, b) \<Longrightarrow> s = a @ d # b \<and> d \<notin> set b"
  unfolding cut_last_def
  by (auto split: prod.splits bool.splits dest!: cut_char_parts)
     (metis append.assoc append_Cons append_Nil rev.simps(2) rev_append rev_rev_ident)+

section \<open>Trimming\<close>

text \<open>
  The UTF-8 encodings of the code points with the Unicode property White_Space, the set
  \<open>unicode.IsSpace\<close> accepts.
\<close>

definition ascii_spaces :: "char list" where
  "ascii_spaces = [CHR 0x20, CHR 0x09, CHR 0x0A, CHR 0x0B, CHR 0x0C, CHR 0x0D]"

definition space_runes :: "string list" where
  "space_runes = map (\<lambda>c. [c]) ascii_spaces @
     [[CHR 0xC2, CHR 0x85], [CHR 0xC2, CHR 0xA0], [CHR 0xE1, CHR 0x9A, CHR 0x80],
      [CHR 0xE2, CHR 0x80, CHR 0x80], [CHR 0xE2, CHR 0x80, CHR 0x81], [CHR 0xE2, CHR 0x80, CHR 0x82],
      [CHR 0xE2, CHR 0x80, CHR 0x83], [CHR 0xE2, CHR 0x80, CHR 0x84], [CHR 0xE2, CHR 0x80, CHR 0x85],
      [CHR 0xE2, CHR 0x80, CHR 0x86], [CHR 0xE2, CHR 0x80, CHR 0x87], [CHR 0xE2, CHR 0x80, CHR 0x88],
      [CHR 0xE2, CHR 0x80, CHR 0x89], [CHR 0xE2, CHR 0x80, CHR 0x8A], [CHR 0xE2, CHR 0x80, CHR 0xA8],
      [CHR 0xE2, CHR 0x80, CHR 0xA9], [CHR 0xE2, CHR 0x80, CHR 0xAF], [CHR 0xE2, CHR 0x81, CHR 0x9F],
      [CHR 0xE3, CHR 0x80, CHR 0x80]]"

definition leading_rune :: "string list \<Rightarrow> string \<Rightarrow> string option" where
  "leading_rune ps s = find (has_prefix s) ps"

lemma leading_rune_Some:
  "leading_rune ps s = Some p \<Longrightarrow> p \<in> set ps \<and> has_prefix s p"
  by (auto simp: leading_rune_def find_Some_iff)

lemma leading_rune_shorter:
  assumes "leading_rune ps s = Some p" "p \<noteq> []"
  shows "length (drop (length p) s) < length s"
proof -
  obtain t where "s = p @ t"
    using leading_rune_Some [OF assms(1)] by (auto simp: has_prefix_iff)
  then show ?thesis using assms(2) by simp
qed

function trim_front :: "string list \<Rightarrow> string \<Rightarrow> string" where
  "trim_front ps s =
     (case leading_rune ps s of
        None \<Rightarrow> s
      | Some p \<Rightarrow> if p = [] then s else trim_front ps (drop (length p) s))"
  by pat_completeness auto
termination
proof (relation "measure (\<lambda>(ps, s). length s)")
  show "wf (measure (\<lambda>(ps, s). length (s :: string)))" by (rule wf_measure)
next
  fix ps s p
  assume "leading_rune ps s = Some p" "p \<noteq> []"
  then show "((ps, drop (length p) s), ps, s) \<in> measure (\<lambda>(ps, s). length s)"
    unfolding in_measure split_conv by (rule leading_rune_shorter)
qed

declare trim_front.simps [simp del]

definition trim_back :: "string list \<Rightarrow> string \<Rightarrow> string" where
  "trim_back ps s = rev (trim_front (map rev ps) (rev s))"

definition TrimSpace :: "string \<Rightarrow> string" where
  "TrimSpace s = trim_back space_runes (trim_front space_runes s)"

text \<open>\<open>strings.TrimRight(s, cutset)\<close> for a one-byte ASCII cutset.\<close>

definition trim_right_char :: "char \<Rightarrow> string \<Rightarrow> string" where
  "trim_right_char d s = rev (dropWhile (\<lambda>c. c = d) (rev s))"

lemma leading_rune_None:
  "leading_rune ps s = None \<longleftrightarrow> (\<forall>p \<in> set ps. \<not> has_prefix s p)"
  by (auto simp: leading_rune_def find_None_iff)

lemma trim_front_fixed: "leading_rune ps s = None \<Longrightarrow> trim_front ps s = s"
  by (subst trim_front.simps) simp

lemma trim_front_suffix: "\<exists>u. s = u @ trim_front ps s"
proof (induction ps s rule: trim_front.induct)
  case (1 ps s)
  show ?case
  proof (cases "leading_rune ps s")
    case None
    then show ?thesis by (simp add: trim_front_fixed)
  next
    case (Some p)
    show ?thesis
    proof (cases "p = []")
      case True
      with Some show ?thesis by (subst trim_front.simps) simp
    next
      case False
      with Some "1.IH" obtain u where "drop (length p) s = u @ trim_front ps (drop (length p) s)"
        by blast
      moreover have "s = p @ drop (length p) s"
        using leading_rune_Some [OF Some] by (auto simp: has_prefix_iff)
      ultimately have "s = (p @ u) @ trim_front ps (drop (length p) s)"
        by (metis append_assoc)
      moreover have "trim_front ps s = trim_front ps (drop (length p) s)"
        by (subst trim_front.simps) (simp add: Some False)
      ultimately show ?thesis by metis
    qed
  qed
qed

lemma trim_front_done:
  assumes "\<forall>p \<in> set ps. p \<noteq> []"
  shows "leading_rune ps (trim_front ps s) = None"
  using assms
proof (induction ps s rule: trim_front.induct)
  case (1 ps s)
  show ?case
  proof (cases "leading_rune ps s")
    case None
    then show ?thesis by (simp add: trim_front_fixed)
  next
    case (Some p)
    then have "p \<noteq> []" using "1.prems" leading_rune_Some by blast
    with Some "1.IH" "1.prems" have "leading_rune ps (trim_front ps (drop (length p) s)) = None"
      by blast
    with Some \<open>p \<noteq> []\<close> show ?thesis by (subst trim_front.simps) simp
  qed
qed

lemma has_prefix_of_prefix: "has_prefix t p \<Longrightarrow> s = t @ v \<Longrightarrow> has_prefix s p"
  by (auto simp: has_prefix_iff)

lemma leading_rune_prefix: "leading_rune ps (t @ v) = None \<Longrightarrow> leading_rune ps t = None"
  by (auto simp: leading_rune_None intro: has_prefix_of_prefix)

lemma space_runes_nonempty: "\<forall>p \<in> set space_runes. p \<noteq> []"
  by (auto simp: space_runes_def)

text \<open>A trimmed string neither starts nor ends with white space.\<close>

definition trimmed :: "string \<Rightarrow> bool" where
  "trimmed s \<longleftrightarrow> leading_rune space_runes s = None \<and>
     leading_rune (map rev space_runes) (rev s) = None"

lemma TrimSpace_trimmed: "trimmed (TrimSpace s)"
proof -
  let ?t = "trim_front space_runes s" and ?r = "map rev space_runes"
  have front: "leading_rune space_runes ?t = None"
    by (rule trim_front_done [OF space_runes_nonempty])
  obtain u where "rev ?t = u @ trim_front ?r (rev ?t)"
    using trim_front_suffix by blast
  then have "?t = TrimSpace s @ rev u"
    by (metis TrimSpace_def rev_append rev_rev_ident trim_back_def)
  with front have "leading_rune space_runes (TrimSpace s) = None"
    by (metis leading_rune_prefix)
  moreover have "\<forall>p \<in> set ?r. p \<noteq> []" using space_runes_nonempty by auto
  then have "leading_rune ?r (rev (TrimSpace s)) = None"
    by (simp add: TrimSpace_def trim_back_def trim_front_done)
  ultimately show ?thesis by (simp add: trimmed_def)
qed

lemma TrimSpace_id: "trimmed s \<Longrightarrow> TrimSpace s = s"
  by (simp add: trimmed_def TrimSpace_def trim_back_def trim_front_fixed)

lemma TrimSpace_idem [simp]: "TrimSpace (TrimSpace s) = TrimSpace s"
  by (simp add: TrimSpace_id TrimSpace_trimmed)

lemma trimmed_iff: "trimmed s \<longleftrightarrow> TrimSpace s = s"
  by (metis TrimSpace_id TrimSpace_trimmed)

lemma TrimSpace_Nil [simp]: "TrimSpace [] = []"
  by (rule TrimSpace_id) (auto simp: trimmed_def leading_rune_None has_prefix_def space_runes_def)

lemma TrimSpace_infix: "\<exists>u v. s = u @ TrimSpace s @ v"
proof -
  obtain u where u: "s = u @ trim_front space_runes s" using trim_front_suffix by blast
  obtain v where "rev (trim_front space_runes s) =
      v @ trim_front (map rev space_runes) (rev (trim_front space_runes s))"
    using trim_front_suffix by blast
  then have "trim_front space_runes s = TrimSpace s @ rev v"
    by (metis TrimSpace_def rev_append rev_rev_ident trim_back_def)
  with u show ?thesis by metis
qed

text \<open>Enough to be trimmed: printable ASCII other than the blank at both ends.\<close>

definition graphic :: "char \<Rightarrow> bool" where
  "graphic c \<longleftrightarrow> 0x21 \<le> (of_char c :: nat) \<and> (of_char c :: nat) < 0x7F"

lemma graphic_not_space:
  assumes "p \<in> set space_runes" "graphic c"
  shows "hd p \<noteq> c \<and> last p \<noteq> c"
  using assms unfolding space_runes_def ascii_spaces_def graphic_def by auto

lemma trimmed_graphic:
  assumes "s \<noteq> []" "graphic (hd s)" "graphic (last s)"
  shows "trimmed s"
proof -
  have "\<not> has_prefix s p" if "p \<in> set space_runes" for p
  proof
    assume "has_prefix s p"
    with that have "hd s = hd p"
      using space_runes_nonempty by (auto simp: has_prefix_iff)
    with graphic_not_space [OF that assms(2)] show False by simp
  qed
  moreover have "\<not> has_prefix (rev s) (rev p)" if "p \<in> set space_runes" for p
  proof
    assume "has_prefix (rev s) (rev p)"
    then have "has_suffix s p" by (simp add: has_suffix_def)
    with that have "last s = last p"
      using space_runes_nonempty by (auto simp: has_suffix_iff)
    with graphic_not_space [OF that assms(3)] show False by simp
  qed
  ultimately show ?thesis by (auto simp: trimmed_def leading_rune_None)
qed

lemma TrimSpace_graphic:
  "s \<noteq> [] \<Longrightarrow> graphic (hd s) \<Longrightarrow> graphic (last s) \<Longrightarrow> TrimSpace s = s"
  by (rule TrimSpace_id) (rule trimmed_graphic)

section \<open>Case folding, quoting, decimal numbers\<close>

definition ascii_lower :: "char \<Rightarrow> char" where
  "ascii_lower c = (let n = (of_char c :: nat) in if 65 \<le> n \<and> n \<le> 90 then char_of (n + 32) else c)"

definition ToLower :: "string \<Rightarrow> string" where
  "ToLower s = map ascii_lower s"

text \<open>
  \<open>strings.EqualFold\<close> folds the letters of ASCII; the other foldings of Unicode relate no
  byte of the constants the program compares with (\<open>enabled\<close>, \<open>true\<close>,
  \<open>ACTIVE\<close>, \<open>amazon-vpc-cni\<close>) to a rune outside ASCII.
\<close>

definition EqualFold :: "string \<Rightarrow> string \<Rightarrow> bool" where
  "EqualFold s t \<longleftrightarrow> ToLower s = ToLower t"

text \<open>The verb \<open>%q\<close> of \<open>fmt\<close>.\<close>

definition hex_digit :: "nat \<Rightarrow> char" where
  "hex_digit n = ''0123456789abcdef'' ! (n mod 16)"

definition quote_char :: "char \<Rightarrow> string" where
  "quote_char c =
     (if c = CHR 0x22 then [CHR 0x5C, CHR 0x22]
      else if c = CHR 0x5C then [CHR 0x5C, CHR 0x5C]
      else if c = CHR 0x07 then [CHR 0x5C, CHR ''a'']
      else if c = CHR 0x08 then [CHR 0x5C, CHR ''b'']
      else if c = CHR 0x0C then [CHR 0x5C, CHR ''f'']
      else if c = CHR 0x0A then [CHR 0x5C, CHR ''n'']
      else if c = CHR 0x0D then [CHR 0x5C, CHR ''r'']
      else if c = CHR 0x09 then [CHR 0x5C, CHR ''t'']
      else if c = CHR 0x0B then [CHR 0x5C, CHR ''v'']
      else if (of_char c :: nat) < 32 \<or> c = CHR 0x7F
        then [CHR 0x5C, CHR ''x'', hex_digit (of_char c div 16), hex_digit (of_char c)]
      else [c])"

definition quote :: "string \<Rightarrow> string" where
  "quote s = CHR 0x22 # concat (map quote_char s) @ [CHR 0x22]"

definition digit_char :: "nat \<Rightarrow> char" where
  "digit_char n = char_of (48 + n mod 10)"

fun show_nat :: "nat \<Rightarrow> string" where
  "show_nat n = (if n < 10 then [digit_char n] else show_nat (n div 10) @ [digit_char n])"

declare show_nat.simps [simp del]

text \<open>The verb \<open>%d\<close>, and \<open>strconv.Itoa\<close>.\<close>

definition show_int :: "int \<Rightarrow> string" where
  "show_int i = (if i < 0 then CHR ''-'' # show_nat (nat (- i)) else show_nat (nat i))"

definition is_digit :: "char \<Rightarrow> bool" where
  "is_digit c \<longleftrightarrow> 48 \<le> (of_char c :: nat) \<and> (of_char c :: nat) \<le> 57"

definition digit_val :: "char \<Rightarrow> nat" where
  "digit_val c = of_char c - 48"

definition nat_of_digits :: "string \<Rightarrow> nat" where
  "nat_of_digits s = foldl (\<lambda>n c. 10 * n + digit_val c) 0 s"

text \<open>
  \<open>strconv.Atoi\<close> on a 64-bit machine: an optional sign, at least one digit, and a value
  that fits an \<open>int64\<close>; \<open>None\<close> is either of its two errors.
\<close>

definition atoi :: "string \<Rightarrow> int option" where
  "atoi s =
     (let neg = has_prefix s ''-'';
          ds = (if neg \<or> has_prefix s ''+'' then drop 1 s else s);
          v = (if neg then - int (nat_of_digits ds) else int (nat_of_digits ds))
      in if ds = [] \<or> \<not> list_all is_digit ds then None
         else if v < - (2 ^ 63) \<or> 2 ^ 63 \<le> v then None
         else Some v)"

definition sort_strings :: "string list \<Rightarrow> string list" where
  "sort_strings ss = sort ss"

lemma EqualFold_refl [simp]: "EqualFold s s"
  by (simp add: EqualFold_def)

lemma of_char_digit [simp]: "(of_char (digit_char n) :: nat) = 48 + n mod 10"
  by (simp add: digit_char_def)

lemma digit_char_digit [simp]: "is_digit (digit_char n)" "digit_val (digit_char n) = n mod 10"
  by (auto simp: is_digit_def digit_val_def)

lemma nat_of_digits_snoc [simp]: "nat_of_digits (s @ [c]) = 10 * nat_of_digits s + digit_val c"
  by (simp add: nat_of_digits_def)

lemma nat_of_digits_Nil [simp]: "nat_of_digits [] = 0"
  by (simp add: nat_of_digits_def)

lemma show_nat_digits: "list_all is_digit (show_nat n) \<and> show_nat n \<noteq> []"
proof (induction n rule: show_nat.induct)
  case (1 n)
  then show ?case by (subst (1 2) show_nat.simps) simp
qed

lemma nat_of_digits_show [simp]: "nat_of_digits (show_nat n) = n"
proof (induction n rule: show_nat.induct)
  case (1 n)
  show ?case
  proof (cases "n < 10")
    case True
    then show ?thesis
      using nat_of_digits_snoc [of "[]" "digit_char n"] by (subst show_nat.simps) simp
  next
    case False
    with 1 show ?thesis by (subst show_nat.simps) simp
  qed
qed

lemma is_digit_ne: "is_digit c \<Longrightarrow> \<not> is_digit d \<Longrightarrow> c \<noteq> d"
  by auto

lemma show_nat_not_in: "\<not> is_digit d \<Longrightarrow> d \<notin> set (show_nat n)"
  using show_nat_digits [of n] by (auto simp: list_all_iff)

lemma show_nat_not_sign:
  "\<not> has_prefix (show_nat n) ''-'' \<and> \<not> has_prefix (show_nat n) ''+''"
  using show_nat_not_in [of "CHR ''-''" n] show_nat_not_in [of "CHR ''+''" n]
  by (auto simp: has_prefix_iff is_digit_def)

lemma atoi_show_nat: "n < 2 ^ 63 \<Longrightarrow> atoi (show_nat n) = Some (int n)"
  using show_nat_digits [of n] show_nat_not_sign [of n]
  by (simp add: atoi_def Let_def)

lemma nat_of_digits_bound:
  "list_all is_digit s \<Longrightarrow> nat_of_digits s < 10 ^ length s"
proof (induction s rule: rev_induct)
  case Nil
  then show ?case by simp
next
  case (snoc c s)
  then have "nat_of_digits s < 10 ^ length s" "digit_val c \<le> 9"
    by (auto simp: is_digit_def digit_val_def)
  then show ?case by simp
qed

lemma sort_strings_set [simp]: "set (sort_strings ss) = set ss"
  by (simp add: sort_strings_def)

lemma sort_strings_sorted [simp]: "sorted (sort_strings ss)"
  by (simp add: sort_strings_def)

end
