(* ===== verification/GoUrl.thy ===== *)
theory GoUrl
  imports GoStrings
begin

text \<open>
  Go's \<open>net/url\<close> (Go 1.25.7, the version \<open>go.mod\<close> names), as far as
  \<open>internal/endpoint\<close> reads its result: \<open>Parse\<close>, \<open>Hostname\<close> and \<open>Port\<close>.
  Whether the text between brackets is an IPv6 address (\<open>netip.ParseAddr\<close>, and not
  \<open>Is4\<close>) is a parameter, a function that gives the error text or \<open>None\<close>.
\<close>

section \<open>Characters\<close>

definition is_alnum :: "char \<Rightarrow> bool" where
  "is_alnum c = (let n = (of_char c :: nat) in
     48 \<le> n \<and> n \<le> 57 \<or> 65 \<le> n \<and> n \<le> 90 \<or> 97 \<le> n \<and> n \<le> 122)"

definition is_alpha :: "char \<Rightarrow> bool" where
  "is_alpha c = (is_alnum c \<and> \<not> is_digit c)"

definition is_hex :: "char \<Rightarrow> bool" where
  "is_hex c = (let n = (of_char c :: nat) in
     48 \<le> n \<and> n \<le> 57 \<or> 65 \<le> n \<and> n \<le> 70 \<or> 97 \<le> n \<and> n \<le> 102)"

definition unhex :: "char \<Rightarrow> nat" where
  "unhex c = (let n = (of_char c :: nat) in
     if n \<le> 57 then n - 48 else if n \<le> 70 then n - 55 else n - 87)"

definition is_ctl :: "char \<Rightarrow> bool" where
  "is_ctl c = ((of_char c :: nat) < 32 \<or> c = CHR 0x7F)"

section \<open>Escapes\<close>

datatype encoding = encodeHost | encodeZone | encodePath | encodeUserPassword | encodeFragment

text \<open>\<open>shouldEscape\<close> in the two modes that consult it while unescaping.\<close>

definition should_escape_host :: "char \<Rightarrow> bool" where
  "should_escape_host c =
     (\<not> is_alnum c \<and> c \<notin> set ''!$&()*+,;=:[]<>-_.~'' \<and> c \<noteq> CHR 0x22 \<and> c \<noteq> CHR 0x27)"

definition EscapeError :: "string \<Rightarrow> go_error" where
  "EscapeError s = errorf (''invalid URL escape '' @ quote s)"

definition InvalidHostError :: "string \<Rightarrow> go_error" where
  "InvalidHostError s = errorf (''invalid character '' @ quote s @ '' in host name'')"

fun unescape :: "encoding \<Rightarrow> string \<Rightarrow> string result" where
  "unescape mode [] = Inr []"
| "unescape mode (c # s) =
     (if c = CHR ''%'' then
        (case s of
           a # b # t \<Rightarrow>
             (if \<not> is_hex a \<or> \<not> is_hex b then Inl (EscapeError [c, a, b])
              else if mode = encodeHost \<and> unhex a < 8 \<and> [a, b] \<noteq> ''25'' then Inl (EscapeError [c, a, b])
              else if mode = encodeZone \<and> [a, b] \<noteq> ''25'' \<and> 16 * unhex a + unhex b \<noteq> 32 \<and>
                      should_escape_host (char_of (16 * unhex a + unhex b))
                then Inl (EscapeError [c, a, b])
              else map_sum id (\<lambda>r. char_of (16 * unhex a + unhex b) # r) (unescape mode t))
         | _ \<Rightarrow> Inl (EscapeError (c # s)))
      else if (mode = encodeHost \<or> mode = encodeZone) \<and> (of_char c :: nat) < 128 \<and> should_escape_host c
        then Inl (InvalidHostError [c])
      else map_sum id (\<lambda>r. c # r) (unescape mode s))"

section \<open>Host and authority\<close>

fun valid_optional_port :: "string \<Rightarrow> bool" where
  "valid_optional_port [] = True"
| "valid_optional_port (c # s) = (c = CHR '':'' \<and> list_all is_digit s)"

text \<open>The first occurrence of \<open>%25\<close>, which introduces an IPv6 zone.\<close>

fun split_zone :: "string \<Rightarrow> (string \<times> string) option" where
  "split_zone [] = None"
| "split_zone (c # s) =
     (if has_prefix (c # s) ''%25'' then Some ([], c # s)
      else map_option (\<lambda>(a, b). (c # a, b)) (split_zone s))"

definition parse_host :: "(string \<Rightarrow> string option) \<Rightarrow> string \<Rightarrow> string result" where
  "parse_host ip_err host =
     (case cut_last (CHR ''['') host of
        Some (_, after_open) \<Rightarrow>
          (case cut_last (CHR '']'') host of
             None \<Rightarrow> Inl (errorf ''missing ']' in host'')
           | Some (_, colon_port) \<Rightarrow>
               if \<not> valid_optional_port colon_port
               then Inl (errorf (''invalid port '' @ quote colon_port @ '' after host''))
               else (case unescape encodeHost colon_port of
                 Inl e \<Rightarrow> Inl e
               | Inr port \<Rightarrow>
                   let hostname = take (length after_open - length colon_port - 1) after_open
                   in (case (case split_zone hostname of
                               Some (h, z) \<Rightarrow>
                                 (case unescape encodeHost h of
                                    Inl e \<Rightarrow> Inl e
                                  | Inr h' \<Rightarrow> map_sum id (\<lambda>z'. h' @ z') (unescape encodeZone z))
                             | None \<Rightarrow> unescape encodeHost hostname) of
                         Inl e \<Rightarrow> Inl e
                       | Inr name \<Rightarrow>
                           (case ip_err name of
                              Some msg \<Rightarrow> Inl (errorf msg)
                            | None \<Rightarrow> Inr (''['' @ name @ '']'' @ port)))))
      | None \<Rightarrow>
          (case cut_last (CHR '':'') host of
             Some (_, port) \<Rightarrow>
               if \<not> valid_optional_port (CHR '':'' # port)
               then Inl (errorf (''invalid port '' @ quote (CHR '':'' # port) @ '' after host''))
               else unescape encodeHost host
           | None \<Rightarrow> unescape encodeHost host))"

definition valid_userinfo :: "string \<Rightarrow> bool" where
  "valid_userinfo s = list_all
     (\<lambda>c. is_alnum c \<or> c \<in> set ''-._:~!$&()*+,;=%@'' \<or> c = CHR 0x27) s"

text \<open>The user name and, where there is one, the password.\<close>

type_synonym userinfo = "string \<times> string option"

definition parse_authority ::
    "(string \<Rightarrow> string option) \<Rightarrow> string \<Rightarrow> (userinfo option \<times> string) result" where
  "parse_authority ip_err authority =
     (case cut_last (CHR ''@'') authority of
        None \<Rightarrow> map_sum id (\<lambda>h. (None, h)) (parse_host ip_err authority)
      | Some (info, hostport) \<Rightarrow>
          (case parse_host ip_err hostport of
             Inl e \<Rightarrow> Inl e
           | Inr host \<Rightarrow>
               if \<not> valid_userinfo info then Inl (errorf ''net/url: invalid userinfo'')
               else (case cut_char (CHR '':'') info of
                  (user, pw, False) \<Rightarrow>
                    map_sum id (\<lambda>u. (Some (u, None), host)) (unescape encodeUserPassword info)
                | (user, pw, True) \<Rightarrow>
                    (case unescape encodeUserPassword user of
                       Inl e \<Rightarrow> Inl e
                     | Inr u \<Rightarrow> map_sum id (\<lambda>p. (Some (u, Some p), host))
                                 (unescape encodeUserPassword pw)))))"

section \<open>Parse\<close>

record url =
  url_Scheme :: string
  url_Opaque :: string
  url_User :: "userinfo option"
  url_Host :: string
  url_Path :: string
  url_RawQuery :: string
  url_Fragment :: string

definition empty_url :: url where
  "empty_url = \<lparr>url_Scheme = '''', url_Opaque = '''', url_User = None, url_Host = '''',
     url_Path = '''', url_RawQuery = '''', url_Fragment = ''''\<rparr>"

text \<open>
  \<open>getScheme\<close>: the letters read so far are the accumulator; an invalid byte means that
  there is no scheme.
\<close>

fun scheme_loop :: "string \<Rightarrow> string \<Rightarrow> string \<Rightarrow> (string \<times> string) result" where
  "scheme_loop raw acc [] = Inr ('''', raw)"
| "scheme_loop raw acc (c # s) =
     (if is_alpha c then scheme_loop raw (acc @ [c]) s
      else if is_digit c \<or> c \<in> set ''+-.'' then
        (if acc = [] then Inr ('''', raw) else scheme_loop raw (acc @ [c]) s)
      else if c = CHR '':'' then
        (if acc = [] then Inl (errorf ''missing protocol scheme'') else Inr (acc, s))
      else Inr ('''', raw))"

definition get_scheme :: "string \<Rightarrow> (string \<times> string) result" where
  "get_scheme raw = scheme_loop raw [] raw"

definition set_path :: "url \<Rightarrow> string \<Rightarrow> url result" where
  "set_path u p = map_sum id (\<lambda>s. u\<lparr>url_Path := s\<rparr>) (unescape encodePath p)"

definition split_query :: "string \<Rightarrow> string \<times> string" where
  "split_query rest =
     (if has_suffix rest ''?'' \<and> length (filter (\<lambda>c. c = CHR ''?'') rest) = 1
      then (butlast rest, '''')
      else (case cut_char (CHR ''?'') rest of (a, b, _) \<Rightarrow> (a, b)))"

definition parse_url_nofrag :: "(string \<Rightarrow> string option) \<Rightarrow> string \<Rightarrow> url result" where
  "parse_url_nofrag ip_err raw =
     (if list_ex is_ctl raw then Inl (errorf ''net/url: invalid control character in URL'')
      else if raw = ''*'' then Inr (empty_url\<lparr>url_Path := ''*''\<rparr>)
      else (case get_scheme raw of
        Inl e \<Rightarrow> Inl e
      | Inr (scheme0, rest0) \<Rightarrow>
          let scheme = ToLower scheme0;
              (rest, query) = split_query rest0;
              u = empty_url\<lparr>url_Scheme := scheme, url_RawQuery := query\<rparr>
          in if \<not> has_prefix rest ''/'' \<and> scheme \<noteq> '''' then Inr (u\<lparr>url_Opaque := rest\<rparr>)
             else if \<not> has_prefix rest ''/'' \<and> CHR '':'' \<in> set (fst (cut_char (CHR ''/'') rest))
               then Inl (errorf ''first path segment in URL cannot contain colon'')
             else if (scheme \<noteq> '''' \<or> \<not> has_prefix rest ''///'') \<and> has_prefix rest ''//'' then
               (let authority = takeWhile (\<lambda>c. c \<noteq> CHR ''/'') (drop 2 rest);
                    path = dropWhile (\<lambda>c. c \<noteq> CHR ''/'') (drop 2 rest)
                in case parse_authority ip_err authority of
                     Inl e \<Rightarrow> Inl e
                   | Inr (user, host) \<Rightarrow> set_path (u\<lparr>url_User := user, url_Host := host\<rparr>) path)
             else set_path u rest))"

text \<open>\<open>url.Parse\<close>; an error is the inner error of the \<open>*url.Error\<close> it returns.\<close>

definition parse_url :: "(string \<Rightarrow> string option) \<Rightarrow> string \<Rightarrow> url result" where
  "parse_url ip_err raw =
     (case cut_char (CHR ''#'') raw of
        (u, frag, _) \<Rightarrow>
          (case parse_url_nofrag ip_err u of
             Inl e \<Rightarrow> Inl e
           | Inr r \<Rightarrow>
               if frag = '''' then Inr r
               else map_sum id (\<lambda>f. r\<lparr>url_Fragment := f\<rparr>) (unescape encodeFragment frag)))"

text \<open>With the \<open>*url.Error\<close> around it, which names the text that did not parse.\<close>

definition url_Parse :: "(string \<Rightarrow> string option) \<Rightarrow> string \<Rightarrow> url result" where
  "url_Parse ip_err raw =
     (case parse_url ip_err raw of
        Inr u \<Rightarrow> Inr u
      | Inl e \<Rightarrow>
          let u = fst (cut_char (CHR ''#'') raw) in
          Inl (wrapf (''parse '' @ quote (if isl (parse_url_nofrag ip_err u) then u else raw)) e))"

definition split_host_port :: "string \<Rightarrow> string \<times> string" where
  "split_host_port hp =
     (let (host, port) = (case cut_last (CHR '':'') hp of
            Some (h, p) \<Rightarrow> if list_all is_digit p then (h, p) else (hp, '''')
          | None \<Rightarrow> (hp, ''''))
      in (if has_prefix host ''['' \<and> has_suffix host '']'' then butlast (tl host) else host, port))"

definition url_Hostname :: "url \<Rightarrow> string" where
  "url_Hostname u = fst (split_host_port (url_Host u))"

definition url_Port :: "url \<Rightarrow> string" where
  "url_Port u = snd (split_host_port (url_Host u))"

section \<open>Plain host names\<close>

text \<open>Bytes a DNS name or an IPv4 address is made of: they pass \<open>unescape\<close> unchanged.\<close>

definition host_char :: "char \<Rightarrow> bool" where
  "host_char c \<longleftrightarrow> is_alnum c \<or> c = CHR ''-'' \<or> c = CHR ''.''"

lemma is_alnum_digit: "is_digit c \<Longrightarrow> is_alnum c"
  by (simp add: is_alnum_def is_digit_def Let_def)

lemma digit_host_char: "is_digit c \<Longrightarrow> host_char c"
  by (simp add: host_char_def is_alnum_digit)

lemma not_host_char [simp]:
  "\<not> host_char (CHR ''%'')" "\<not> host_char (CHR ''['')" "\<not> host_char (CHR '']'')"
  "\<not> host_char (CHR '':'')" "\<not> host_char (CHR ''@'')" "\<not> host_char (CHR ''/'')"
  "\<not> host_char (CHR ''?'')" "\<not> host_char (CHR ''#'')"
  by (simp_all add: host_char_def is_alnum_def)

lemma host_char_graphic: "host_char c \<Longrightarrow> graphic c"
  by (auto simp: host_char_def is_alnum_def graphic_def Let_def)

lemma graphic_not_ctl: "graphic c \<Longrightarrow> \<not> is_ctl c"
  by (auto simp: is_ctl_def graphic_def)

lemma host_char_no_escape: "host_char c \<Longrightarrow> \<not> should_escape_host c"
  by (auto simp: host_char_def should_escape_host_def)

lemma unescape_plain:
  "\<forall>c \<in> set s. \<not> should_escape_host c \<and> c \<noteq> CHR ''%'' \<Longrightarrow> unescape mode s = Inr s"
  by (induction s) auto

lemma parse_host_plain:
  assumes "\<forall>c \<in> set h. host_char c" "list_all is_digit p"
  shows "parse_host ip_err (h @ CHR '':'' # p) = Inr (h @ CHR '':'' # p)"
proof -
  have p: "\<forall>c \<in> set p. host_char c"
    using assms(2) digit_host_char by (auto simp: list_all_iff)
  have "CHR ''['' \<notin> set (h @ CHR '':'' # p)" "CHR '':'' \<notin> set p"
    using assms(1) p not_host_char by fastforce+
  moreover have "unescape encodeHost (h @ CHR '':'' # p) = Inr (h @ CHR '':'' # p)"
  proof (intro unescape_plain ballI)
    fix c assume "c \<in> set (h @ CHR '':'' # p)"
    then have "host_char c \<or> c = CHR '':''" using assms(1) p by auto
    then show "\<not> should_escape_host c \<and> c \<noteq> CHR ''%''"
    proof
      assume "host_char c"
      then show ?thesis using host_char_no_escape not_host_char by blast
    next
      assume "c = CHR '':''"
      then show ?thesis by (simp add: should_escape_host_def)
    qed
  qed
  ultimately show ?thesis
    using assms(2) by (simp add: parse_host_def cut_last_absent cut_last_found)
qed

section \<open>url.JoinPath\<close>

text \<open>\<open>shouldEscape\<close> and \<open>escape\<close> for a path.\<close>

definition should_escape_path :: "char \<Rightarrow> bool" where
  "should_escape_path c = (\<not> is_alnum c \<and> c \<notin> set ''-_.~$&+,/:;=@'')"

definition upper_hex :: "nat \<Rightarrow> char" where
  "upper_hex n = ''0123456789ABCDEF'' ! (n mod 16)"

definition escape_path :: "string \<Rightarrow> string" where
  "escape_path s = concat (map (\<lambda>c.
     if should_escape_path c then [CHR ''%'', upper_hex (of_char c div 16), upper_hex (of_char c)] else [c]) s)"

definition valid_encoded_path :: "string \<Rightarrow> bool" where
  "valid_encoded_path s = list_all (\<lambda>c.
     c \<in> set ''!$&()*+,;=:@[]%'' \<or> c = CHR 0x27 \<or> \<not> should_escape_path c) s"

text \<open>\<open>path.Clean\<close> of a rooted path, as the list of its components.\<close>

definition clean_step :: "string list \<Rightarrow> string \<Rightarrow> string list" where
  "clean_step acc w = (if w = '''' \<or> w = ''.'' then acc else if w = ''..'' then butlast acc else acc @ [w])"

definition clean_rooted :: "string \<Rightarrow> string list" where
  "clean_rooted s = foldl clean_step [] (split_char (CHR ''/'') s)"

text \<open>The text of a URL with the scheme \<open>https\<close>, no host, and the path set to \<open>p\<close>.\<close>

definition https_url_of_path :: "string \<Rightarrow> string" where
  "https_url_of_path p =
     (case unescape encodePath p of
        Inl _ \<Rightarrow> ''https:''
      | Inr path \<Rightarrow>
          if path = '''' then ''https:''
          else ''https://'' @
            (if p \<noteq> escape_path path \<and> valid_encoded_path p then p
             else if path = ''*'' then ''*'' else escape_path path))"

definition JoinPath_https :: "string \<Rightarrow> string" where
  "JoinPath_https elem =
     (let p = str_join (clean_rooted elem) ''/'' in
      https_url_of_path (if has_suffix elem ''/'' \<and> \<not> has_suffix p ''/'' then p @ ''/'' else p))"

lemma split_char_absent: "d \<notin> set s \<Longrightarrow> split_char d s = [s]"
  by (induction s) auto

text \<open>An address without a slash is only given the scheme.\<close>

lemma JoinPath_https_plain:
  assumes "\<forall>c \<in> set s. host_char c \<or> c = CHR '':''" "s \<notin> {'''', ''.'', ''..''}"
  shows "JoinPath_https s = ''https://'' @ s"
proof -
  have plain: "\<forall>c \<in> set s. \<not> should_escape_path c \<and> \<not> should_escape_host c \<and> c \<noteq> CHR ''%''"
  proof
    fix c assume "c \<in> set s"
    then have "host_char c \<or> c = CHR '':''" using assms(1) by blast
    then show "\<not> should_escape_path c \<and> \<not> should_escape_host c \<and> c \<noteq> CHR ''%''"
      by (auto simp: should_escape_path_def should_escape_host_def host_char_def is_alnum_def)
  qed
  have slash: "CHR ''/'' \<notin> set s" using assms(1) not_host_char(6) by fastforce
  have "escape_path s = s" using plain unfolding escape_path_def by (induction s) auto
  moreover have "unescape encodePath s = Inr s" using unescape_plain [of s encodePath] plain by blast
  moreover have "\<not> has_suffix s ''/''" using slash by (auto simp: has_suffix_iff)
  moreover have "s \<noteq> ''*''" using assms(1) by (auto simp: host_char_def is_alnum_def)
  ultimately show ?thesis
    using assms(2) by (simp add: JoinPath_https_def clean_rooted_def split_char_absent slash clean_step_def
        https_url_of_path_def)
qed

end
