(* ===== verification/Endpoint.thy ===== *)
theory Endpoint
  imports GoUrl
begin

text \<open>
  \<open>internal/endpoint/parse.go\<close>: the control plane endpoint an instance reports, as the
  \<open>clusterv1.APIEndpoint\<close> (host and 32-bit port) the CAPI objects carry.
\<close>

record APIEndpoint =
  ep_Host :: string
  ep_Port :: "32 word"

definition no_endpoint :: APIEndpoint where
  "no_endpoint = \<lparr>ep_Host = '''', ep_Port = 0\<rparr>"

text \<open>\<open>APIEndpoint.IsZero\<close>.\<close>

definition endpoint_is_zero :: "APIEndpoint \<Rightarrow> bool" where
  "endpoint_is_zero ep \<longleftrightarrow> ep_Host ep = '''' \<and> ep_Port ep = 0"

text \<open>The checks on the parsed URL, and the port, of \<open>Parse\<close>.\<close>

definition endpoint_of_url :: "url \<Rightarrow> APIEndpoint result" where
  "endpoint_of_url u =
     (if url_Scheme u \<noteq> ''https'' then Inl (errorf (''unsupported scheme '' @ quote (url_Scheme u)))
      else if url_User u \<noteq> None then Inl (errorf ''userinfo is not supported'')
      else if url_RawQuery u \<noteq> '''' then Inl (errorf ''query is not supported'')
      else if url_Fragment u \<noteq> '''' then Inl (errorf ''fragment is not supported'')
      else if url_Path u \<noteq> '''' \<and> url_Path u \<noteq> ''/'' then Inl (errorf ''path is not supported'')
      else if url_Host u = '''' then Inl (errorf ''host is empty'')
      else if has_suffix (url_Host u) '':'' then Inl (errorf ''port is empty'')
      else let host = url_Hostname u in
        if host = '''' then Inl (errorf ''host is empty'')
        else if url_Port u = '''' then Inr \<lparr>ep_Host = host, ep_Port = 443\<rparr>
        else (case atoi (url_Port u) of
            None \<Rightarrow> Inl (errorf (''invalid port '' @ quote (url_Port u)))
          | Some n \<Rightarrow>
              if n < 1 \<or> n > 65535 then Inl (errorf (''invalid port '' @ show_int n))
              else Inr \<lparr>ep_Host = host, ep_Port = word_of_int n\<rparr>))"

definition Parse :: "(string \<Rightarrow> string option) \<Rightarrow> string \<Rightarrow> APIEndpoint result" where
  "Parse ip_err raw =
     (let endpoint = TrimSpace raw in
      if endpoint = '''' then Inl (errorf ''endpoint is empty'')
      else let candidate = (if str_contains endpoint ''://'' then endpoint else ''https://'' @ endpoint)
        in (case parse_url ip_err candidate of
              Inl e \<Rightarrow> Inl (errorf (''parse endpoint: '' @ err_text e))
            | Inr u \<Rightarrow> endpoint_of_url u))"

section \<open>Ports and hosts\<close>

definition valid_port :: "32 word \<Rightarrow> bool" where
  "valid_port p \<longleftrightarrow> 1 \<le> sint p \<and> sint p \<le> 65535"

definition valid_endpoint :: "APIEndpoint \<Rightarrow> bool" where
  "valid_endpoint ep \<longleftrightarrow> ep_Host ep \<noteq> '''' \<and> valid_port (ep_Port ep)"

lemma sint_word_of_int_port:
  assumes "0 \<le> n" "n \<le> 65535"
  shows "sint (word_of_int n :: 32 word) = n"
  using assms unfolding int_word_sint by (simp add: mod_pos_pos_trivial)

lemma valid_port_443 [simp]: "valid_port 443"
  by (simp add: valid_port_def)

lemma endpoint_of_url_valid: "endpoint_of_url u = Inr ep \<Longrightarrow> valid_endpoint ep"
  by (auto simp: endpoint_of_url_def valid_endpoint_def Let_def valid_port_def
        sint_word_of_int_port split: if_splits option.splits)

section \<open>Reading back a written endpoint\<close>

text \<open>The parse of a URL made of a scheme, a plain host and a decimal port.\<close>

lemma scheme_https: "get_scheme (''https://'' @ s) = Inr (''https'', ''//'' @ s)"
  by (simp add: get_scheme_def is_alpha_def is_alnum_def is_digit_def)

lemma parse_url_host_port:
  assumes "\<forall>c \<in> set h. host_char c" "list_all is_digit p"
  shows "parse_url ip_err (''https://'' @ h @ CHR '':'' # p) =
     Inr (empty_url\<lparr>url_Scheme := ''https'', url_Host := h @ CHR '':'' # p\<rparr>)"
proof -
  let ?hp = "h @ CHR '':'' # p"
  have hp: "\<forall>c \<in> set ?hp. host_char c \<or> c = CHR '':''"
    using assms digit_host_char by (auto simp: list_all_iff)
  have no: "c \<notin> set ?hp" if "\<not> host_char c" "c \<noteq> CHR '':''" for c
    using hp that by blast
  have "\<not> is_ctl c" if "c \<in> set ?hp" for c
  proof -
    have "\<not> is_ctl (CHR '':'')" by (simp add: is_ctl_def)
    then show ?thesis using hp that host_char_graphic graphic_not_ctl by blast
  qed
  then have "\<not> list_ex is_ctl ?hp" by (auto simp: list_ex_iff)
  moreover have "\<not> list_ex is_ctl ''https://''" by (simp add: is_ctl_def)
  ultimately have ctl: "\<not> list_ex is_ctl (''https://'' @ ?hp)" by (metis list_ex_append)
  have frag: "cut_char (CHR ''#'') (''https://'' @ ?hp) = (''https://'' @ ?hp, [], False)"
    by (rule cut_char_absent) (use no [of "CHR ''#''"] in simp)
  have q: "CHR ''?'' \<notin> set (''//'' @ ?hp)" using no [of "CHR ''?''"] by simp
  then have "filter (\<lambda>c. c = CHR ''?'') (''//'' @ ?hp) = []" by (auto simp: filter_empty_conv)
  then have query: "split_query (''//'' @ ?hp) = (''//'' @ ?hp, [])"
    using cut_char_absent [OF q] by (simp add: split_query_def del: append.simps)
  have slash: "CHR ''/'' \<notin> set ?hp" using no [of "CHR ''/''"] by simp
  then have tw: "takeWhile (\<lambda>c. c \<noteq> CHR ''/'') p = p" and dw: "dropWhile (\<lambda>c. c \<noteq> CHR ''/'') p = []"
    by (auto simp: takeWhile_eq_all_conv dropWhile_eq_Nil_conv)
  have hw: "takeWhile (\<lambda>c. c \<noteq> CHR ''/'') (h @ x) = h @ takeWhile (\<lambda>c. c \<noteq> CHR ''/'') x"
    "dropWhile (\<lambda>c. c \<noteq> CHR ''/'') (h @ x) = dropWhile (\<lambda>c. c \<noteq> CHR ''/'') x" for x
    using slash by (auto intro!: takeWhile_append2 dropWhile_append2)
  have auth: "parse_authority ip_err ?hp = Inr (None, ?hp)"
    using no [of "CHR ''@''"] parse_host_plain [OF assms]
    by (simp add: parse_authority_def cut_last_absent)
  have "parse_url_nofrag ip_err (''https://'' @ ?hp) =
     Inr (empty_url\<lparr>url_Scheme := ''https'', url_Host := ?hp\<rparr>)"
    unfolding parse_url_nofrag_def scheme_https
    using ctl query auth
    by (simp add: tw dw hw has_prefix_def ToLower_def ascii_lower_def Let_def set_path_def empty_url_def)
  then show ?thesis unfolding parse_url_def frag by (simp only: prod.case sum.case refl if_True)
qed

lemma host_port_split:
  assumes "\<forall>c \<in> set h. host_char c" "list_all is_digit p"
  shows "split_host_port (h @ CHR '':'' # p) = (h, p)"
proof -
  have "CHR '':'' \<notin> set p" using assms(2) by (auto simp: list_all_iff is_digit_def)
  moreover have "\<not> has_prefix h ''[''"
    using assms(1) by (auto simp: has_prefix_iff)
  ultimately show ?thesis
    using assms(2) by (simp add: split_host_port_def cut_last_found)
qed

lemma Parse_host_port:
  assumes h: "h \<noteq> ''''" "\<forall>c \<in> set h. host_char c" and n: "1 \<le> n" "n \<le> 65535"
  shows "Parse ip_err (''https://'' @ h @ CHR '':'' # show_nat n) =
    Inr \<lparr>ep_Host = h, ep_Port = word_of_int (int n)\<rparr>"
proof -
  let ?hp = "h @ CHR '':'' # show_nat n" and ?s = "''https://'' @ h @ CHR '':'' # show_nat n"
  have digits: "list_all is_digit (show_nat n)" "show_nat n \<noteq> []"
    using show_nat_digits by auto
  have last: "last ?hp \<in> set (show_nat n)" using digits(2) by simp
  then have d: "is_digit (last ?hp)" using digits(1) by (simp add: list_all_iff)
  then have "graphic (last ?s)" using digit_host_char host_char_graphic by simp
  moreover have "graphic (hd ?s)" by (simp add: graphic_def)
  ultimately have trim: "TrimSpace ?s = ?s" by (intro TrimSpace_graphic) simp_all
  have scheme: "str_contains ?s ''://''"
    unfolding str_contains_iff by (rule exI [of _ "''https''"]) simp
  have "last ?hp \<noteq> CHR '':''" using d by (auto simp: is_digit_def)
  then have suffix: "\<not> has_suffix ?hp '':''" unfolding has_suffix_iff by force
  have "endpoint_of_url (empty_url\<lparr>url_Scheme := ''https'', url_Host := ?hp\<rparr>) =
     Inr \<lparr>ep_Host = h, ep_Port = word_of_int (int n)\<rparr>"
    using h n suffix digits host_port_split [OF h(2) digits(1)] atoi_show_nat [of n]
    by (simp add: endpoint_of_url_def empty_url_def url_Hostname_def url_Port_def)
  then show ?thesis
    using trim scheme parse_url_host_port [OF h(2) digits(1), of ip_err]
    by (simp add: Parse_def Let_def del: append_Cons)
qed

lemma Parse_valid_endpoint: "Parse ip_err raw = Inr ep \<Longrightarrow> valid_endpoint ep"
  by (auto simp: Parse_def Let_def split: if_splits sum.splits dest: endpoint_of_url_valid)

section \<open>Properties\<close>

text \<open>
  An endpoint that is accepted has a non-empty host and a port between 1 and 65535, so the
  conversion to the 32-bit port field keeps its value; no accepted text has a scheme other than
  https, user information, a query, a fragment or a path.
\<close>

theorem Parse_valid:
  assumes "Parse ip_err raw = Inr ep"
  shows "valid_endpoint ep \<and>
    (\<exists>u. parse_url ip_err (if str_contains (TrimSpace raw) ''://'' then TrimSpace raw
                           else ''https://'' @ TrimSpace raw) = Inr u \<and>
       url_Scheme u = ''https'' \<and> url_User u = None \<and> url_RawQuery u = '''' \<and>
       url_Fragment u = '''' \<and> url_Path u \<in> {'''', ''/''} \<and> ep_Host ep = url_Hostname u)"
proof -
  obtain u where u: "parse_url ip_err (if str_contains (TrimSpace raw) ''://'' then TrimSpace raw
       else ''https://'' @ TrimSpace raw) = Inr u" "endpoint_of_url u = Inr ep"
    using assms by (auto simp: Parse_def Let_def split: if_splits sum.splits)
  have "valid_endpoint ep" using endpoint_of_url_valid [OF u(2)] .
  moreover have "url_Scheme u = ''https'' \<and> url_User u = None \<and> url_RawQuery u = '''' \<and>
     url_Fragment u = '''' \<and> url_Path u \<in> {'''', ''/''} \<and> ep_Host ep = url_Hostname u"
    using u(2) by (cases "url_User u") (auto simp: endpoint_of_url_def Let_def split: if_splits option.splits)
  ultimately show ?thesis using u(1) by blast
qed

theorem Parse_valid_witness:
  "valid_endpoint \<lparr>ep_Host = ''api.example.com'', ep_Port = 6443\<rparr>"
proof -
  have "Parse (\<lambda>_. None) ''api.example.com:6443'' = Inr \<lparr>ep_Host = ''api.example.com'', ep_Port = 6443\<rparr>"
    by code_simp
  then show ?thesis using Parse_valid [of "\<lambda>_. None"] by blast
qed

end
