(* ===== verification/K8sModel.thy ===== *)
theory K8sModel
  imports GoStrings
begin

text \<open>
  The objects of the Kubernetes and Cluster API libraries the program reads and writes, with
  the fields it uses, and the library functions it calls on them.

  The libraries are not part of the repository. Their pure functions are the fields of one
  record, \<open>apilib\<close>, an argument of every definition that uses them; what the program
  relies on is the predicate \<open>apilib_laws\<close>, the documented behaviour of those functions.
  \<open>ref_lib\<close> is one instance of it, which shows that the laws can hold.

  A transition time, a resource version and the managed fields are bookkeeping of the server
  and of the libraries; no code of the program reads them and they are left out.
\<close>

section \<open>Dynamic documents\<close>

text \<open>
  The values of \<open>encoding/json\<close> decoded into \<open>any\<close>. The API server's decoder gives
  \<open>JInt\<close> (an \<open>int64\<close>) for an integral number; \<open>encoding/json\<close> itself gives
  \<open>JFloat\<close> (a \<open>float64\<close>, kept by its shortest decimal text) for every number.
\<close>

datatype json =
    JNull
  | JBool bool
  | JInt int
  | JFloat string
  | JStr string
  | JArr "json list"
  | JObj "(string, json) fmap"

type_synonym doc = "(string, json) fmap"

definition go_type_name :: "json \<Rightarrow> string" where
  "go_type_name v =
     (case v of
        JNull \<Rightarrow> ''<nil>''
      | JBool _ \<Rightarrow> ''bool''
      | JInt _ \<Rightarrow> ''int64''
      | JFloat _ \<Rightarrow> ''float64''
      | JStr _ \<Rightarrow> ''string''
      | JArr _ \<Rightarrow> ''[]interface {}''
      | JObj _ \<Rightarrow> ''map[string]interface {}'')"

definition as_object :: "json \<Rightarrow> doc option" where
  "as_object v = (case v of JObj m \<Rightarrow> Some m | _ \<Rightarrow> None)"

definition as_string :: "json \<Rightarrow> string option" where
  "as_string v = (case v of JStr s \<Rightarrow> Some s | _ \<Rightarrow> None)"

text \<open>The value at a path of nested objects.\<close>

datatype at_path = Missing | NotAnObject | At json

fun json_at :: "json \<Rightarrow> string list \<Rightarrow> at_path" where
  "json_at v [] = At v"
| "json_at v (k # ks) =
     (case v of
        JObj m \<Rightarrow> (case fmlookup m k of None \<Rightarrow> Missing | Some w \<Rightarrow> json_at w ks)
      | JNull \<Rightarrow> Missing
      | _ \<Rightarrow> NotAnObject)"

section \<open>Metadata\<close>

record owner_ref =
  or_APIVersion :: string
  or_Kind :: string
  or_Name :: string
  or_UID :: string
  or_Controller :: "bool option"
  or_BlockOwnerDeletion :: "bool option"

record obj_meta =
  om_Name :: string
  om_Namespace :: string
  om_UID :: string
  om_Generation :: "64 word"
  om_Labels :: str_map
  om_Annotations :: str_map
  om_OwnerReferences :: "owner_ref list"
  om_Finalizers :: "string list"
  om_DeletionTimestamp :: "time option"

definition new_meta :: "string \<Rightarrow> string \<Rightarrow> obj_meta" where
  "new_meta namespace name =
     \<lparr>om_Name = name, om_Namespace = namespace, om_UID = '''', om_Generation = 0,
      om_Labels = fmempty, om_Annotations = fmempty, om_OwnerReferences = [],
      om_Finalizers = [], om_DeletionTimestamp = None\<rparr>"

record gvk =
  gvk_Group :: string
  gvk_Version :: string
  gvk_Kind :: string

text \<open>A namespaced name, \<open>client.ObjectKey\<close> and the request of a reconcile.\<close>

record object_key =
  key_Namespace :: string
  key_Name :: string

definition object_key :: "string \<Rightarrow> string \<Rightarrow> object_key" where
  "object_key ns name = \<lparr>key_Namespace = ns, key_Name = name\<rparr>"

text \<open>
  \<open>unstructured.Unstructured\<close>: its API version and kind, its metadata, and the other
  top-level entries of its \<open>Object\<close> map.
\<close>

record unstructured =
  un_GVK :: gvk
  un_meta :: obj_meta
  un_Object :: doc

definition new_unstructured :: "gvk \<Rightarrow> string \<Rightarrow> string \<Rightarrow> unstructured" where
  "new_unstructured g ns name = \<lparr>un_GVK = g, un_meta = new_meta ns name, un_Object = fmempty\<rparr>"

definition key_of :: "obj_meta \<Rightarrow> object_key" where
  "key_of m = object_key (om_Namespace m) (om_Name m)"

section \<open>Conditions\<close>

definition ConditionTrue :: string where "ConditionTrue = ''True''"
definition ConditionFalse :: string where "ConditionFalse = ''False''"

record condition =
  co_Type :: string
  co_Status :: string
  co_Reason :: string
  co_Message :: string
  co_ObservedGeneration :: "64 word"

definition cond_of :: "string \<Rightarrow> string \<Rightarrow> string \<Rightarrow> string \<Rightarrow> condition" where
  "cond_of t s r m =
     \<lparr>co_Type = t, co_Status = s, co_Reason = r, co_Message = m, co_ObservedGeneration = 0\<rparr>"

lemma condition_status_distinct [simp]:
  "ConditionTrue \<noteq> ConditionFalse" "ConditionFalse \<noteq> ConditionTrue"
  by (simp_all add: ConditionTrue_def ConditionFalse_def)

text \<open>The three fields a change of which is worth an event.\<close>

definition same_report :: "condition \<Rightarrow> condition \<Rightarrow> bool" where
  "same_report c d \<longleftrightarrow>
     co_Status c = co_Status d \<and> co_Reason c = co_Reason d \<and> co_Message c = co_Message d"

section \<open>Cluster API and core objects\<close>

record contract_ref =
  cr_APIGroup :: string
  cr_Kind :: string
  cr_Name :: string

text \<open>\<open>ContractVersionedObjectReference.IsDefined\<close> is a library function (see below).\<close>

text \<open>A variable of the topology, its value as raw JSON.\<close>

record topology_variable =
  tv_Name :: string
  tv_Raw :: string

text \<open>
  \<open>Spec.Topology\<close> is read by its variables only; it is \<open>None\<close> where
  \<open>Topology.IsDefined()\<close> is false.
\<close>

record cluster =
  cl_meta :: obj_meta
  cl_InfrastructureRef :: contract_ref
  cl_ControlPlaneRef :: contract_ref
  cl_Conditions :: "condition list"
  cl_Topology :: "topology_variable list option"

record secret =
  se_meta :: obj_meta
  se_Type :: string
  se_Data :: str_map

definition ClusterNameLabel :: string where
  "ClusterNameLabel = ''cluster.x-k8s.io/cluster-name''"

definition EventTypeNormal :: string where "EventTypeNormal = ''Normal''"
definition EventTypeWarning :: string where "EventTypeWarning = ''Warning''"

section \<open>The libraries\<close>

record apilib =
  lib_NestedString :: "doc \<Rightarrow> string list \<Rightarrow> (string \<times> bool) result"
  lib_NestedBool :: "doc \<Rightarrow> string list \<Rightarrow> (bool \<times> bool) result"
  lib_NestedMap :: "doc \<Rightarrow> string list \<Rightarrow> (doc \<times> bool) result"
  lib_NestedInt64 :: "doc \<Rightarrow> string list \<Rightarrow> (64 word \<times> bool) result"
  lib_FindStatusCondition :: "condition list \<Rightarrow> string \<Rightarrow> condition option"
  lib_SetStatusCondition :: "condition list \<Rightarrow> condition \<Rightarrow> condition list"
  lib_RemoveStatusCondition :: "condition list \<Rightarrow> string \<Rightarrow> condition list"
  lib_conditions_Set :: "obj_meta \<Rightarrow> condition list \<Rightarrow> condition \<Rightarrow> condition list"
  lib_conditions_Delete :: "condition list \<Rightarrow> string \<Rightarrow> condition list"
  lib_SetControllerReference :: "gvk \<Rightarrow> obj_meta \<Rightarrow> obj_meta \<Rightarrow> obj_meta result"
  lib_SetOwnerReference :: "gvk \<Rightarrow> obj_meta \<Rightarrow> obj_meta \<Rightarrow> obj_meta result"
  lib_ParseGroupVersion :: "string \<Rightarrow> (string \<times> string) result"
  lib_RefIsDefined :: "contract_ref \<Rightarrow> bool"
  lib_json_Unmarshal :: "string \<Rightarrow> json result"
  lib_clientcmd_Load :: "string \<Rightarrow> go_error option"
  lib_ip_literal_error :: "string \<Rightarrow> string option"
  lib_NestedSlice :: "doc \<Rightarrow> string list \<Rightarrow> (json list \<times> bool) result"
  lib_SetNestedField :: "doc \<Rightarrow> json \<Rightarrow> string list \<Rightarrow> doc result"
  lib_AddFinalizer :: "obj_meta \<Rightarrow> string \<Rightarrow> obj_meta"
  lib_RemoveFinalizer :: "obj_meta \<Rightarrow> string \<Rightarrow> obj_meta"
  lib_ContainsFinalizer :: "obj_meta \<Rightarrow> string \<Rightarrow> bool"
  lib_GVKString :: "gvk \<Rightarrow> string"

text \<open>
  The typed reads of a nested field: a missing field (or a missing parent) is not found and no
  error; a field of another type, or a parent that is no object, is an error.
\<close>

definition nested_spec :: "(json \<Rightarrow> 'a option) \<Rightarrow> 'a \<Rightarrow> (doc \<Rightarrow> string list \<Rightarrow> ('a \<times> bool) result) \<Rightarrow> bool" where
  "nested_spec sel zero read \<longleftrightarrow>
     (\<forall>m p. case json_at (JObj m) p of
        Missing \<Rightarrow> read m p = Inr (zero, False)
      | NotAnObject \<Rightarrow> (\<exists>e. read m p = Inl e)
      | At v \<Rightarrow> (case sel v of Some x \<Rightarrow> read m p = Inr (x, True) | None \<Rightarrow> (\<exists>e. read m p = Inl e)))"

definition as_bool :: "json \<Rightarrow> bool option" where
  "as_bool v = (case v of JBool b \<Rightarrow> Some b | _ \<Rightarrow> None)"

definition as_int64 :: "json \<Rightarrow> 64 word option" where
  "as_int64 v = (case v of JInt i \<Rightarrow> Some (word_of_int i) | _ \<Rightarrow> None)"

definition as_array :: "json \<Rightarrow> json list option" where
  "as_array v = (case v of JArr vs \<Rightarrow> Some vs | _ \<Rightarrow> None)"

definition nested_laws :: "apilib \<Rightarrow> bool" where
  "nested_laws lib \<longleftrightarrow>
     nested_spec as_string '''' (lib_NestedString lib) \<and>
     nested_spec as_bool False (lib_NestedBool lib) \<and>
     nested_spec as_object fmempty (lib_NestedMap lib) \<and>
     nested_spec as_int64 0 (lib_NestedInt64 lib) \<and>
     nested_spec as_array [] (lib_NestedSlice lib)"

text \<open>
  Storing a value at a path creates the maps that are missing on the way; a value on the way that
  is no map is an error.
\<close>

fun set_at :: "doc \<Rightarrow> string list \<Rightarrow> json \<Rightarrow> doc option" where
  "set_at d [] v = None"
| "set_at d [k] v = Some (fmupd k v d)"
| "set_at d (k # k' # ks) v =
     (case fmlookup d k of
        None \<Rightarrow> map_option (\<lambda>m. fmupd k (JObj m) d) (set_at fmempty (k' # ks) v)
      | Some (JObj m) \<Rightarrow> map_option (\<lambda>m'. fmupd k (JObj m') d) (set_at m (k' # ks) v)
      | Some _ \<Rightarrow> None)"

definition set_nested_laws :: "apilib \<Rightarrow> bool" where
  "set_nested_laws lib \<longleftrightarrow>
     (\<forall>d v p. p \<noteq> [] \<longrightarrow> (case set_at d p v of
        Some d' \<Rightarrow> lib_SetNestedField lib d v p = Inr d'
      | None \<Rightarrow> (\<exists>e. lib_SetNestedField lib d v p = Inl e)))"

text \<open>The finalizer functions work on the set of finalizers and leave the rest alone.\<close>

definition finalizer_laws :: "apilib \<Rightarrow> bool" where
  "finalizer_laws lib \<longleftrightarrow>
     (\<forall>m f. \<exists>fs. lib_AddFinalizer lib m f = m\<lparr>om_Finalizers := fs\<rparr> \<and> set fs = insert f (set (om_Finalizers m))) \<and>
     (\<forall>m f. f \<in> set (om_Finalizers m) \<longrightarrow> lib_AddFinalizer lib m f = m) \<and>
     (\<forall>m f. \<exists>fs. lib_RemoveFinalizer lib m f = m\<lparr>om_Finalizers := fs\<rparr> \<and> set fs = set (om_Finalizers m) - {f}) \<and>
     (\<forall>m f. lib_ContainsFinalizer lib m f \<longleftrightarrow> f \<in> set (om_Finalizers m))"

text \<open>
  Setting a condition makes it the one that is found for its type and leaves the other types
  alone; deleting one makes it absent. \<open>conditions.Set\<close> may fill in the observed
  generation.
\<close>

definition condition_laws :: "apilib \<Rightarrow> bool" where
  "condition_laws lib \<longleftrightarrow>
     (\<forall>cs c. lib_FindStatusCondition lib (lib_SetStatusCondition lib cs c) (co_Type c) = Some c) \<and>
     (\<forall>cs c t. t \<noteq> co_Type c \<longrightarrow>
        lib_FindStatusCondition lib (lib_SetStatusCondition lib cs c) t = lib_FindStatusCondition lib cs t) \<and>
     (\<forall>m cs c. \<exists>d. lib_FindStatusCondition lib (lib_conditions_Set lib m cs c) (co_Type c) = Some d \<and> same_report c d) \<and>
     (\<forall>m cs c t. t \<noteq> co_Type c \<longrightarrow>
        lib_FindStatusCondition lib (lib_conditions_Set lib m cs c) t = lib_FindStatusCondition lib cs t) \<and>
     (\<forall>cs t. lib_FindStatusCondition lib (lib_conditions_Delete lib cs t) t = None) \<and>
     (\<forall>cs t u. u \<noteq> t \<longrightarrow>
        lib_FindStatusCondition lib (lib_conditions_Delete lib cs t) u = lib_FindStatusCondition lib cs u) \<and>
     (\<forall>cs t. lib_FindStatusCondition lib (lib_RemoveStatusCondition lib cs t) t = None) \<and>
     (\<forall>cs t u. u \<noteq> t \<longrightarrow>
        lib_FindStatusCondition lib (lib_RemoveStatusCondition lib cs t) u = lib_FindStatusCondition lib cs u)"

text \<open>
  Setting an owner changes only the owner references of the object, and setting it again
  changes nothing.
\<close>

definition owner_laws :: "apilib \<Rightarrow> bool" where
  "owner_laws lib \<longleftrightarrow>
     (\<forall>g ow m m'. lib_SetOwnerReference lib g ow m = Inr m' \<longrightarrow>
        (\<exists>rs. m' = m\<lparr>om_OwnerReferences := rs\<rparr>) \<and> lib_SetOwnerReference lib g ow m' = Inr m') \<and>
     (\<forall>g ow m m' ls as. lib_SetOwnerReference lib g ow m = Inr m' \<longrightarrow>
        lib_SetOwnerReference lib g ow (m\<lparr>om_Labels := ls, om_Annotations := as\<rparr>) =
          Inr (m'\<lparr>om_Labels := ls, om_Annotations := as\<rparr>)) \<and>
     (\<forall>g ow m m'. lib_SetControllerReference lib g ow m = Inr m' \<longrightarrow>
        (\<exists>rs. m' = m\<lparr>om_OwnerReferences := rs\<rparr>) \<and> lib_SetControllerReference lib g ow m' = Inr m')"

definition apilib_laws :: "apilib \<Rightarrow> bool" where
  "apilib_laws lib \<longleftrightarrow> nested_laws lib \<and> condition_laws lib \<and> owner_laws lib \<and> set_nested_laws lib \<and> finalizer_laws lib"

section \<open>What the laws give\<close>

lemma nested_readD:
  assumes "nested_spec sel zero read"
  shows "json_at (JObj m) p = Missing \<Longrightarrow> read m p = Inr (zero, False)"
    and "json_at (JObj m) p = At v \<Longrightarrow> sel v = Some x \<Longrightarrow> read m p = Inr (x, True)"
    and "json_at (JObj m) p = NotAnObject \<Longrightarrow> \<exists>e. read m p = Inl e"
    and "json_at (JObj m) p = At v \<Longrightarrow> sel v = None \<Longrightarrow> \<exists>e. read m p = Inl e"
  using assms by (auto simp: nested_spec_def dest!: spec [of _ m] spec [of _ p])

lemma nested_read_cases:
  assumes "nested_spec sel zero read"
  obtains (missing) "json_at (JObj m) p = Missing" "read m p = Inr (zero, False)"
    | (found) v x where "json_at (JObj m) p = At v" "sel v = Some x" "read m p = Inr (x, True)"
    | (bad) e where "read m p = Inl e"
proof (cases "json_at (JObj m) p")
  case Missing
  then show ?thesis using nested_readD(1) [OF assms Missing] that by blast
next
  case NotAnObject
  then show ?thesis using nested_readD(3) [OF assms NotAnObject] that by blast
next
  case (At v)
  then show ?thesis using nested_readD(2,4) [OF assms At] that by (cases "sel v") blast+
qed

lemma condition_lawsD:
  assumes "condition_laws lib"
  shows "lib_FindStatusCondition lib (lib_SetStatusCondition lib cs c) t =
      (if t = co_Type c then Some c else lib_FindStatusCondition lib cs t)"
    and "lib_FindStatusCondition lib (lib_conditions_Delete lib cs t) u =
      (if u = t then None else lib_FindStatusCondition lib cs u)"
    and "lib_FindStatusCondition lib (lib_RemoveStatusCondition lib cs t) u =
      (if u = t then None else lib_FindStatusCondition lib cs u)"
    and "t \<noteq> co_Type c \<Longrightarrow>
      lib_FindStatusCondition lib (lib_conditions_Set lib m cs c) t = lib_FindStatusCondition lib cs t"
    and "\<exists>d. lib_FindStatusCondition lib (lib_conditions_Set lib m cs c) (co_Type c) = Some d \<and> same_report c d"
  using assms unfolding condition_laws_def by simp_all

lemma owner_meta:
  assumes "owner_laws lib" "lib_SetOwnerReference lib g ow m = Inr m'"
  shows "om_Name m' = om_Name m" "om_Namespace m' = om_Namespace m" "om_UID m' = om_UID m"
    "om_Labels m' = om_Labels m" "om_Annotations m' = om_Annotations m"
    "om_Finalizers m' = om_Finalizers m"
proof -
  obtain rs where "m' = m\<lparr>om_OwnerReferences := rs\<rparr>"
    using assms unfolding owner_laws_def by blast
  then show "om_Name m' = om_Name m" "om_Namespace m' = om_Namespace m" "om_UID m' = om_UID m"
    "om_Labels m' = om_Labels m" "om_Annotations m' = om_Annotations m"
    "om_Finalizers m' = om_Finalizers m" by simp_all
qed

section \<open>An instance of the laws\<close>

definition ref_nested :: "(json \<Rightarrow> 'a option) \<Rightarrow> 'a \<Rightarrow> doc \<Rightarrow> string list \<Rightarrow> ('a \<times> bool) result" where
  "ref_nested sel zero m p =
     (case json_at (JObj m) p of
        Missing \<Rightarrow> Inr (zero, False)
      | NotAnObject \<Rightarrow> Inl (errorf ''accessor error'')
      | At v \<Rightarrow> (case sel v of Some x \<Rightarrow> Inr (x, True) | None \<Rightarrow> Inl (errorf ''accessor error'')))"

definition ref_find :: "condition list \<Rightarrow> string \<Rightarrow> condition option" where
  "ref_find cs t = find (\<lambda>c. co_Type c = t) cs"

fun ref_set :: "condition list \<Rightarrow> condition \<Rightarrow> condition list" where
  "ref_set [] c = [c]"
| "ref_set (d # ds) c = (if co_Type d = co_Type c then c # ds else d # ref_set ds c)"

definition ref_delete :: "condition list \<Rightarrow> string \<Rightarrow> condition list" where
  "ref_delete cs t = filter (\<lambda>c. co_Type c \<noteq> t) cs"

definition ref_owner :: "bool option \<Rightarrow> gvk \<Rightarrow> obj_meta \<Rightarrow> owner_ref" where
  "ref_owner ctrl g ow =
     \<lparr>or_APIVersion = gvk_Group g @ ''/'' @ gvk_Version g, or_Kind = gvk_Kind g,
      or_Name = om_Name ow, or_UID = om_UID ow, or_Controller = ctrl, or_BlockOwnerDeletion = ctrl\<rparr>"

definition ref_add_owner :: "owner_ref \<Rightarrow> obj_meta \<Rightarrow> obj_meta result" where
  "ref_add_owner r m = Inr (if r \<in> set (om_OwnerReferences m) then m
     else m\<lparr>om_OwnerReferences := om_OwnerReferences m @ [r]\<rparr>)"

definition ref_lib :: apilib where
  "ref_lib = \<lparr>
     lib_NestedString = ref_nested as_string '''',
     lib_NestedBool = ref_nested as_bool False,
     lib_NestedMap = ref_nested as_object fmempty,
     lib_NestedInt64 = ref_nested as_int64 0,
     lib_FindStatusCondition = ref_find,
     lib_SetStatusCondition = ref_set,
     lib_RemoveStatusCondition = ref_delete,
     lib_conditions_Set = (\<lambda>_. ref_set),
     lib_conditions_Delete = ref_delete,
     lib_SetControllerReference = (\<lambda>g ow. ref_add_owner (ref_owner (Some True) g ow)),
     lib_SetOwnerReference = (\<lambda>g ow. ref_add_owner (ref_owner None g ow)),
     lib_ParseGroupVersion =
       (\<lambda>s. case cut_char (CHR ''/'') s of (g, v, True) \<Rightarrow> Inr (g, v) | (g, _, False) \<Rightarrow> Inr ('''', g)),
     lib_RefIsDefined = (\<lambda>r. cr_Name r \<noteq> ''''),
     lib_json_Unmarshal = (\<lambda>_. Inr (JObj fmempty)),
     lib_clientcmd_Load = (\<lambda>_. None),
     lib_ip_literal_error = (\<lambda>_. None),
     lib_NestedSlice = ref_nested as_array [],
     lib_SetNestedField = (\<lambda>d v p. case set_at d p v of
        Some d' \<Rightarrow> Inr d' | None \<Rightarrow> Inl (errorf ''value cannot be set'')),
     lib_AddFinalizer = (\<lambda>m f. if f \<in> set (om_Finalizers m) then m else m\<lparr>om_Finalizers := om_Finalizers m @ [f]\<rparr>),
     lib_RemoveFinalizer = (\<lambda>m f. m\<lparr>om_Finalizers := filter (\<lambda>g. g \<noteq> f) (om_Finalizers m)\<rparr>),
     lib_ContainsFinalizer = (\<lambda>m f. f \<in> set (om_Finalizers m)),
     lib_GVKString = (\<lambda>g. gvk_Group g @ ''/'' @ gvk_Version g @ '', Kind='' @ gvk_Kind g)\<rparr>"

lemma ref_nested_spec: "nested_spec sel zero (ref_nested sel zero)"
  by (auto simp: nested_spec_def ref_nested_def split: at_path.splits option.splits)

lemma ref_find_set:
  "ref_find (ref_set cs c) t = (if t = co_Type c then Some c else ref_find cs t)"
  by (induction cs) (auto simp: ref_find_def)

lemma ref_find_delete: "ref_find (ref_delete cs t) u = (if u = t then None else ref_find cs u)"
  by (induction cs) (auto simp: ref_find_def ref_delete_def)

lemma same_report_refl [simp]: "same_report c c"
  by (simp add: same_report_def)

lemma meta_own_refs: "\<exists>rs. m = m\<lparr>om_OwnerReferences := rs\<rparr>" for m :: obj_meta
  by (rule exI [of _ "om_OwnerReferences m"]) simp

lemma ref_lib_laws: "apilib_laws ref_lib"
proof -
  have "nested_laws ref_lib"
    by (simp add: nested_laws_def ref_lib_def ref_nested_spec)
  moreover have "condition_laws ref_lib"
    by (simp add: condition_laws_def ref_lib_def ref_find_set ref_find_delete)
  moreover have "owner_laws ref_lib"
    using meta_own_refs by (auto simp: owner_laws_def ref_lib_def ref_add_owner_def)
  moreover have "set_nested_laws ref_lib"
    by (simp add: set_nested_laws_def ref_lib_def split: option.split)
  moreover have "finalizer_laws ref_lib"
    unfolding finalizer_laws_def
  proof (intro conjI allI impI)
    fix m f
    show "\<exists>fs. lib_AddFinalizer ref_lib m f = m\<lparr>om_Finalizers := fs\<rparr> \<and> set fs = insert f (set (om_Finalizers m))"
      by (rule exI [of _ "om_Finalizers (lib_AddFinalizer ref_lib m f)"]) (auto simp: ref_lib_def)
    show "\<exists>fs. lib_RemoveFinalizer ref_lib m f = m\<lparr>om_Finalizers := fs\<rparr> \<and> set fs = set (om_Finalizers m) - {f}"
      by (rule exI [of _ "om_Finalizers (lib_RemoveFinalizer ref_lib m f)"]) (auto simp: ref_lib_def)
  qed (auto simp: ref_lib_def)
  ultimately show ?thesis by (simp add: apilib_laws_def)
qed

section \<open>Shared programs over the libraries\<close>

definition ClusterAPIVersion :: string where
  "ClusterAPIVersion = ''cluster.x-k8s.io/v1beta2''"

text \<open>
  \<open>controllerutil.CreateOrUpdate(obj, mutate)\<close>: the library hands an object (the stored one,
  or the given one where there is none) to the callback, and stores what the callback made of
  it; which object it is and what the store answers are the environment's.
\<close>

definition create_or_update ::
    "('c, 'o result) eff \<Rightarrow> ('o \<Rightarrow> 'o result) \<Rightarrow> ('o \<Rightarrow> ('c, 'o result) eff) \<Rightarrow> ('c, 'o result) eff" where
  "create_or_update read mutate write =
     try_bind read (\<lambda>base. case mutate base of Inl e \<Rightarrow> ret (Inl e) | Inr obj \<Rightarrow> write obj)"

lemma emits_create_or_update [emits_intros]:
  assumes "emits Q read" "\<And>b obj. mutate b = Inr obj \<Longrightarrow> emits Q (write obj)"
  shows "emits Q (create_or_update read mutate write)"
  unfolding create_or_update_def
  by (rule emits_try [OF assms(1)]) (auto split: sum.split intro: assms(2))

end
