(* ===== verification/Kro.thy ===== *)
theory Kro
  imports K8sModel
begin

text \<open>
  \<open>internal/kro\<close>: from a ResourceGraphDefinition (RGD) to the kind of its instances
  (\<open>gvk.go\<close>), whether its schema declares a spec field (\<open>schema.go\<close>), and the
  normalized status of an instance (\<open>status.go\<close>).

  Reading the RGD is the caller's effect: \<open>get name\<close> is the \<open>client.Reader\<close> call.
\<close>

section \<open>The kind of the instances\<close>

definition resourceGraphDefinitionGVK :: gvk where
  "resourceGraphDefinitionGVK =
     \<lparr>gvk_Group = ''kro.run'', gvk_Version = ''v1alpha1'', gvk_Kind = ''ResourceGraphDefinition''\<rparr>"

definition split_api_version :: "string \<Rightarrow> (string \<times> string) result" where
  "split_api_version av =
     (if str_contains av ''/'' then
        (let (a, b, _) = cut_char (CHR ''/'') av;
             grp = TrimSpace a; ver = TrimSpace b
         in if grp = '''' \<or> ver = ''''
            then Inl (errorf (''invalid ResourceGraphDefinition schema apiVersion '' @ quote av))
            else Inr (grp, ver))
      else Inr (''kro.run'', av))"

text \<open>The part of \<open>ResolveInstanceGVK\<close> after the RGD has been read.\<close>

definition gvk_of_rgd :: "apilib \<Rightarrow> string \<Rightarrow> doc \<Rightarrow> gvk result" where
  "gvk_of_rgd lib rgdName rgd =
     (case lib_NestedString lib rgd [''spec'', ''schema'', ''apiVersion''] of
        Inl e \<Rightarrow> Inl (wrapf ''read ResourceGraphDefinition spec.schema.apiVersion'' e)
      | Inr (apiVersion, found) \<Rightarrow>
          if \<not> found \<or> TrimSpace apiVersion = ''''
          then Inl (errorf (''ResourceGraphDefinition '' @ quote rgdName @ '' missing spec.schema.apiVersion''))
          else (case lib_NestedString lib rgd [''spec'', ''schema'', ''kind''] of
            Inl e \<Rightarrow> Inl (wrapf ''read ResourceGraphDefinition spec.schema.kind'' e)
          | Inr (kind, foundKind) \<Rightarrow>
              if \<not> foundKind \<or> TrimSpace kind = ''''
              then Inl (errorf (''ResourceGraphDefinition '' @ quote rgdName @ '' missing spec.schema.kind''))
              else (case split_api_version (TrimSpace apiVersion) of
                Inl e \<Rightarrow> Inl e
              | Inr (grp, ver) \<Rightarrow>
                  Inr \<lparr>gvk_Group = grp, gvk_Version = ver, gvk_Kind = TrimSpace kind\<rparr>)))"

definition ResolveInstanceGVK ::
    "apilib \<Rightarrow> (string \<Rightarrow> ('c, unstructured result) eff) \<Rightarrow> string \<Rightarrow> ('c, gvk result) eff" where
  "ResolveInstanceGVK lib get rgdName0 =
     (let rgdName = TrimSpace rgdName0 in
      if rgdName = '''' then ret (Inl (errorf ''rgd name is required''))
      else try_bind (get rgdName) (\<lambda>rgd. ret (gvk_of_rgd lib rgdName (un_Object rgd))))"

section \<open>Does the schema declare a spec field\<close>

text \<open>The loop over the dotted path: every part is trimmed, an empty one is an error.\<close>

fun field_parts :: "string \<Rightarrow> string list \<Rightarrow> string list result" where
  "field_parts fieldPath [] = Inr []"
| "field_parts fieldPath (raw # rest) =
     (if TrimSpace raw = '''' then Inl (errorf (''field path '' @ quote fieldPath @ '' is invalid''))
      else map_sum id (\<lambda>ps. TrimSpace raw # ps) (field_parts fieldPath rest))"

text \<open>The walk down the schema.\<close>

fun has_path :: "doc \<Rightarrow> string list \<Rightarrow> bool" where
  "has_path cur [] = False"
| "has_path cur (part # rest) =
     (case fmlookup cur part of
        None \<Rightarrow> False
      | Some v \<Rightarrow>
          if rest = [] then True
          else (case as_object v of None \<Rightarrow> False | Some next \<Rightarrow> has_path next rest))"

definition schema_has_field :: "apilib \<Rightarrow> doc \<Rightarrow> string list \<Rightarrow> bool result" where
  "schema_has_field lib rgd parts =
     (case lib_NestedMap lib rgd [''spec'', ''schema'', ''spec''] of
        Inl e \<Rightarrow> Inl (wrapf ''read ResourceGraphDefinition spec.schema.spec'' e)
      | Inr (specSchema, found) \<Rightarrow>
          if \<not> found \<or> specSchema = fmempty then Inr False else Inr (has_path specSchema parts))"

definition SchemaHasSpecField ::
    "apilib \<Rightarrow> (string \<Rightarrow> ('c, unstructured result) eff) \<Rightarrow> string \<Rightarrow> string \<Rightarrow> ('c, bool result) eff" where
  "SchemaHasSpecField lib get rgdName0 fieldPath0 =
     (let rgdName = TrimSpace rgdName0; fieldPath = TrimSpace fieldPath0 in
      if rgdName = '''' then ret (Inl (errorf ''rgd name is required''))
      else if fieldPath = '''' then ret (Inl (errorf ''field path is required''))
      else (case field_parts fieldPath (split_char (CHR ''.'') fieldPath) of
        Inl e \<Rightarrow> ret (Inl e)
      | Inr parts \<Rightarrow>
          try_bind (get rgdName) (\<lambda>rgd. ret (schema_has_field lib (un_Object rgd) parts))))"

section \<open>The normalized instance status\<close>

record instance_status =
  is_Ready :: bool
  is_Endpoint :: string
  is_Reason :: string
  is_Message :: string
  is_Terminal :: bool

definition zero_status :: instance_status where
  "zero_status = \<lparr>is_Ready = False, is_Endpoint = '''', is_Reason = '''', is_Message = '''',
     is_Terminal = False\<rparr>"

definition not_ready_status :: "string \<Rightarrow> string \<Rightarrow> instance_status" where
  "not_ready_status reason message = zero_status\<lparr>is_Reason := reason, is_Message := message\<rparr>"

text \<open>One typed read of a status field, its error prefixed with the field's name.\<close>

definition status_field ::
    "(doc \<Rightarrow> string list \<Rightarrow> ('a \<times> bool) result) \<Rightarrow> doc \<Rightarrow> string \<Rightarrow> 'a \<Rightarrow> 'a result" where
  "status_field read obj name dflt =
     (case read obj [''status'', name] of
        Inl e \<Rightarrow> Inl (wrapf (''read status.'' @ name) e)
      | Inr (v, found) \<Rightarrow> Inr (if found then v else dflt))"

definition ReadInstanceStatus :: "apilib \<Rightarrow> unstructured option \<Rightarrow> instance_status result" where
  "ReadInstanceStatus lib inst =
     (case inst of
        None \<Rightarrow> Inl (errorf ''instance is nil'')
      | Some u \<Rightarrow>
          (let obj = un_Object u in
           case status_field (lib_NestedBool lib) obj ''ready'' False of
             Inl e \<Rightarrow> Inl e
           | Inr ready \<Rightarrow>
          (case status_field (lib_NestedString lib) obj ''endpoint'' '''' of
             Inl e \<Rightarrow> Inl e
           | Inr endpoint \<Rightarrow>
          (case status_field (lib_NestedString lib) obj ''reason'' '''' of
             Inl e \<Rightarrow> Inl e
           | Inr reason \<Rightarrow>
          (case status_field (lib_NestedString lib) obj ''message'' '''' of
             Inl e \<Rightarrow> Inl e
           | Inr message \<Rightarrow>
          (case status_field (lib_NestedBool lib) obj ''terminal'' False of
             Inl e \<Rightarrow> Inl e
           | Inr terminal \<Rightarrow>
               Inr \<lparr>is_Ready = ready, is_Endpoint = endpoint, is_Reason = reason,
                    is_Message = message, is_Terminal = terminal\<rparr>))))))"

section \<open>Facts\<close>

lemma str_contains_slash: "str_contains s ''/'' \<longleftrightarrow> CHR ''/'' \<in> set s"
  unfolding str_contains_iff by (auto simp: in_set_conv_decomp)

lemma split_api_version_cases:
  "split_api_version av = Inr (g, v) \<longleftrightarrow>
     (if CHR ''/'' \<in> set av
      then g = TrimSpace (fst (cut_char (CHR ''/'') av)) \<and>
           v = TrimSpace (fst (snd (cut_char (CHR ''/'') av))) \<and> g \<noteq> '''' \<and> v \<noteq> ''''
      else g = ''kro.run'' \<and> v = av)"
  by (auto simp: split_api_version_def str_contains_slash Let_def split: prod.splits if_splits)

text \<open>The reference reading of a typed field: the value there, or the default.\<close>

definition typed_at :: "(json \<Rightarrow> 'a option) \<Rightarrow> 'a \<Rightarrow> doc \<Rightarrow> string list \<Rightarrow> 'a option" where
  "typed_at sel zero m p =
     (case json_at (JObj m) p of Missing \<Rightarrow> Some zero | NotAnObject \<Rightarrow> None | At v \<Rightarrow> sel v)"

lemma status_field_iff:
  assumes "nested_spec sel zero read"
  shows "status_field read obj name zero = Inr x \<longleftrightarrow> typed_at sel zero obj [''status'', name] = Some x"
    and "(\<exists>e. status_field read obj name zero = Inl e) \<longleftrightarrow> typed_at sel zero obj [''status'', name] = None"
  using nested_readD [OF assms, of obj "[''status'', name]"]
  by (cases "json_at (JObj obj) [''status'', name]"; fastforce simp: status_field_def typed_at_def
        split: option.splits)+

lemma has_path_json_at: "ps \<noteq> [] \<Longrightarrow> has_path m ps \<longleftrightarrow> (\<exists>v. json_at (JObj m) ps = At v)"
proof (induction ps arbitrary: m)
  case Nil
  then show ?case by simp
next
  case (Cons p ps)
  show ?case
  proof (cases "fmlookup m p")
    case None
    then show ?thesis by simp
  next
    case (Some v)
    show ?thesis
    proof (cases ps)
      case Nil
      with Some show ?thesis by simp
    next
      case (Cons q qs)
      then show ?thesis using Some Cons.IH by (cases v) (auto simp: as_object_def)
    qed
  qed
qed

lemma json_at_append:
  "json_at v (ps @ qs) = (case json_at v ps of At w \<Rightarrow> json_at w qs | Missing \<Rightarrow> Missing | NotAnObject \<Rightarrow> NotAnObject)"
  by (induction v ps rule: json_at.induct) (auto split: json.splits option.splits)

section \<open>Properties\<close>

text \<open>
  The kind of an RGD's instances is resolved exactly when \<open>spec.schema.apiVersion\<close>
  and \<open>spec.schema.kind\<close> are strings that are not blank; a version without a slash gets
  the default group \<open>kro.run\<close>, and in \<open>group/version\<close> both sides must be non-blank.
\<close>

theorem gvk_of_rgd_iff:
  assumes "nested_laws lib"
  shows "gvk_of_rgd lib rgdName rgd = Inr g \<longleftrightarrow>
    (\<exists>av k. json_at (JObj rgd) [''spec'', ''schema'', ''apiVersion''] = At (JStr av) \<and>
       json_at (JObj rgd) [''spec'', ''schema'', ''kind''] = At (JStr k) \<and>
       TrimSpace av \<noteq> '''' \<and> TrimSpace k \<noteq> '''' \<and> gvk_Kind g = TrimSpace k \<and>
       (if CHR ''/'' \<in> set (TrimSpace av)
        then gvk_Group g = TrimSpace (fst (cut_char (CHR ''/'') (TrimSpace av))) \<and>
             gvk_Version g = TrimSpace (fst (snd (cut_char (CHR ''/'') (TrimSpace av)))) \<and>
             gvk_Group g \<noteq> '''' \<and> gvk_Version g \<noteq> ''''
        else gvk_Group g = ''kro.run'' \<and> gvk_Version g = TrimSpace av))"
    (is "?lhs \<longleftrightarrow> ?rhs")
proof -
  have spec: "nested_spec as_string '''' (lib_NestedString lib)"
    using assms by (simp add: nested_laws_def)
  let ?av = "lib_NestedString lib rgd [''spec'', ''schema'', ''apiVersion'']"
  let ?k = "lib_NestedString lib rgd [''spec'', ''schema'', ''kind'']"
  have str: "(\<exists>s. read = Inr (s, True) \<and> P s) \<longleftrightarrow> (\<exists>s. at = At (JStr s) \<and> P s)"
    if "at = json_at (JObj rgd) p" "read = lib_NestedString lib rgd p" for read at p P
    using nested_readD [OF spec, of rgd p] that
    by (cases "at"; fastforce simp: as_string_def split: json.splits)
  have "?lhs \<longleftrightarrow> (\<exists>av. ?av = Inr (av, True) \<and> TrimSpace av \<noteq> '''' \<and>
      (\<exists>k. ?k = Inr (k, True) \<and> TrimSpace k \<noteq> '''' \<and> gvk_Kind g = TrimSpace k \<and>
        split_api_version (TrimSpace av) = Inr (gvk_Group g, gvk_Version g)))"
    by (auto simp: gvk_of_rgd_def split: sum.splits prod.splits if_splits)
  then show ?thesis
    by (simp add: str [OF refl refl] split_api_version_cases) blast
qed

text \<open>
  The document of an RGD whose schema names a group, version and kind.
\<close>

definition rgd_of_gvk :: "gvk \<Rightarrow> doc" where
  "rgd_of_gvk g = fmupd ''spec'' (JObj (fmupd ''schema'' (JObj
     (fmupd ''apiVersion'' (JStr (gvk_Group g @ ''/'' @ gvk_Version g))
       (fmupd ''kind'' (JStr (gvk_Kind g)) fmempty))) fmempty)) fmempty"

definition plain_name :: "string \<Rightarrow> bool" where
  "plain_name s \<longleftrightarrow> s \<noteq> '''' \<and> graphic (hd s) \<and> graphic (last s)"

lemma plain_name_trim: "plain_name s \<Longrightarrow> TrimSpace s = s"
  by (simp add: plain_name_def TrimSpace_graphic)

text \<open>
  Writing a group, version and kind into an RGD as \<open>group/version\<close> and \<open>kind\<close>
  and resolving the RGD gives them back.
\<close>

theorem gvk_roundtrip:
  assumes "nested_laws lib"
    and "plain_name (gvk_Group g)" "plain_name (gvk_Version g)" "plain_name (gvk_Kind g)"
    and "CHR ''/'' \<notin> set (gvk_Group g)"
  shows "gvk_of_rgd lib rgdName (rgd_of_gvk g) = Inr g"
proof -
  let ?av = "gvk_Group g @ ''/'' @ gvk_Version g"
  have "plain_name ?av" using assms(2,3) by (simp add: plain_name_def)
  then have av: "TrimSpace ?av = ?av" by (rule plain_name_trim)
  have cut: "cut_char (CHR ''/'') ?av = (gvk_Group g, gvk_Version g, True)"
    using assms(5) by (simp add: cut_char_found)
  note spec = assms(1) [unfolded nested_laws_def, THEN conjunct1]
  have reads: "lib_NestedString lib (rgd_of_gvk g) [''spec'', ''schema'', ''apiVersion''] = Inr (?av, True)"
    "lib_NestedString lib (rgd_of_gvk g) [''spec'', ''schema'', ''kind''] = Inr (gvk_Kind g, True)"
    by (auto intro!: nested_readD(2) [OF spec] simp: rgd_of_gvk_def as_string_def)
  have "split_api_version ?av = Inr (gvk_Group g, gvk_Version g)"
    using assms(2,3) plain_name_trim cut
    by (simp add: split_api_version_cases plain_name_def)
  then show ?thesis
    using assms(2-4) av plain_name_trim [OF assms(4)]
    by (simp add: gvk_of_rgd_def reads plain_name_def del: append.simps)
qed

text \<open>
  The status of an instance is read without error exactly when each of its five fields is
  absent or of its type, and an absent field has the zero value: an instance with no status is
  not ready.
\<close>

theorem ReadInstanceStatus_iff:
  assumes "nested_laws lib"
  shows "ReadInstanceStatus lib (Some u) = Inr s \<longleftrightarrow>
     typed_at as_bool False (un_Object u) [''status'', ''ready''] = Some (is_Ready s) \<and>
     typed_at as_string '''' (un_Object u) [''status'', ''endpoint''] = Some (is_Endpoint s) \<and>
     typed_at as_string '''' (un_Object u) [''status'', ''reason''] = Some (is_Reason s) \<and>
     typed_at as_string '''' (un_Object u) [''status'', ''message''] = Some (is_Message s) \<and>
     typed_at as_bool False (un_Object u) [''status'', ''terminal''] = Some (is_Terminal s)"
proof -
  have b: "nested_spec as_bool False (lib_NestedBool lib)"
    and s: "nested_spec as_string '''' (lib_NestedString lib)"
    using assms by (auto simp: nested_laws_def)
  have "ReadInstanceStatus lib (Some u) = Inr s \<longleftrightarrow>
     status_field (lib_NestedBool lib) (un_Object u) ''ready'' False = Inr (is_Ready s) \<and>
     status_field (lib_NestedString lib) (un_Object u) ''endpoint'' '''' = Inr (is_Endpoint s) \<and>
     status_field (lib_NestedString lib) (un_Object u) ''reason'' '''' = Inr (is_Reason s) \<and>
     status_field (lib_NestedString lib) (un_Object u) ''message'' '''' = Inr (is_Message s) \<and>
     status_field (lib_NestedBool lib) (un_Object u) ''terminal'' False = Inr (is_Terminal s)"
    by (cases s) (auto simp: ReadInstanceStatus_def Let_def split: sum.splits)
  then show ?thesis
    by (simp add: status_field_iff(1) [OF b] status_field_iff(1) [OF s])
qed

text \<open>
  A schema declares the field of a dotted path exactly when the RGD document has a value
  at \<open>spec.schema.spec\<close> followed by the path, whatever is declared on the way.
\<close>

theorem schema_has_field_iff:
  assumes "nested_laws lib" "parts \<noteq> []"
  shows "schema_has_field lib rgd parts = Inr True \<longleftrightarrow>
    (\<exists>v. json_at (JObj rgd) ([''spec'', ''schema'', ''spec''] @ parts) = At v)"
proof -
  have spec: "nested_spec as_object fmempty (lib_NestedMap lib)"
    using assms(1) by (simp add: nested_laws_def)
  show ?thesis
  proof (cases "json_at (JObj rgd) [''spec'', ''schema'', ''spec'']")
    case Missing
    then show ?thesis
      using nested_readD(1) [OF spec Missing] by (simp only: json_at_append schema_has_field_def) simp
  next
    case NotAnObject
    then show ?thesis
      using nested_readD(3) [OF spec NotAnObject]
      by (auto simp only: json_at_append schema_has_field_def at_path.case sum.case)
  next
    case (At w)
    show ?thesis
    proof (cases "as_object w")
      case None
      then have "json_at w parts \<noteq> At v" for v
        using assms(2) by (cases parts; cases w) (auto simp: as_object_def)
      then show ?thesis
        using nested_readD(4) [OF spec At None] At
        by (auto simp only: json_at_append schema_has_field_def at_path.case sum.case)
    next
      case (Some m)
      then have w: "w = JObj m" by (cases w) (auto simp: as_object_def)
      have "has_path fmempty parts = False" using assms(2) by (cases parts) auto
      then have "schema_has_field lib rgd parts = Inr (has_path m parts)"
        using nested_readD(2) [OF spec At Some] by (auto simp: schema_has_field_def)
      then show ?thesis
        using At w has_path_json_at [OF assms(2)] by (simp only: json_at_append at_path.case) simp
    qed
  qed
qed

section \<open>Witnesses\<close>

definition demo_gvk :: gvk where
  "demo_gvk = \<lparr>gvk_Group = ''kro.run'', gvk_Version = ''v1alpha1'', gvk_Kind = ''EKSControlPlane''\<rparr>"

definition demo_instance :: unstructured where
  "demo_instance = (new_unstructured demo_gvk ''ns'' ''demo'')\<lparr>un_Object :=
     fmupd ''status'' (JObj (fmupd ''ready'' (JBool True)
       (fmupd ''endpoint'' (JStr ''https://h:443'') fmempty))) fmempty\<rparr>"

lemma ref_lib_nested: "nested_laws ref_lib"
  using ref_lib_laws by (simp add: apilib_laws_def)

lemma demo_plain:
  "plain_name (gvk_Group demo_gvk)" "plain_name (gvk_Version demo_gvk)" "plain_name (gvk_Kind demo_gvk)"
  "CHR ''/'' \<notin> set (gvk_Group demo_gvk)"
  by (simp_all add: demo_gvk_def plain_name_def graphic_def)

theorem gvk_roundtrip_witness:
  "gvk_of_rgd ref_lib ''eks'' (rgd_of_gvk demo_gvk) = Inr demo_gvk"
  by (rule gvk_roundtrip [OF ref_lib_nested demo_plain])

theorem gvk_of_rgd_iff_witness:
  "\<not> (\<exists>g. gvk_of_rgd ref_lib ''eks'' fmempty = Inr g)"
  unfolding gvk_of_rgd_iff [OF ref_lib_nested] by simp

theorem ReadInstanceStatus_iff_witness:
  "ReadInstanceStatus ref_lib (Some demo_instance) =
     Inr \<lparr>is_Ready = True, is_Endpoint = ''https://h:443'', is_Reason = '''', is_Message = '''',
          is_Terminal = False\<rparr>"
  unfolding ReadInstanceStatus_iff [OF ref_lib_nested]
  by (simp add: demo_instance_def typed_at_def as_bool_def as_string_def)

theorem schema_has_field_iff_witness:
  "schema_has_field ref_lib (fmupd ''spec'' (JObj (fmupd ''schema'' (JObj (fmupd ''spec''
     (JObj (fmupd ''clusterUID'' (JStr ''string'') fmempty)) fmempty)) fmempty)) fmempty)
     [''clusterUID''] = Inr True"
  by (subst schema_has_field_iff [OF ref_lib_nested]) simp_all

end
