(* ===== verification/Kubeconfig.thy ===== *)
theory Kubeconfig
  imports K8sModel
begin

text \<open>
  \<open>internal/kubeconfig/secret.go\<close>: the name and the shape of the
  \<open><cluster>-kubeconfig\<close> Secret of the Cluster API contract.
\<close>

definition ClusterNameLabelKey :: string where
  "ClusterNameLabelKey = ''cluster.x-k8s.io/cluster-name''"

definition DataKey :: string where
  "DataKey = ''value''"

definition SecretType :: string where
  "SecretType = ''cluster.x-k8s.io/secret''"

definition SecretName :: "string \<Rightarrow> string result" where
  "SecretName clusterName =
     (let name = TrimSpace clusterName in
      if name = '''' then Inl (errorf ''cluster name is required'')
      else Inr (name @ ''-kubeconfig''))"

definition NewSecret :: "string \<Rightarrow> string \<Rightarrow> string \<Rightarrow> secret result" where
  "NewSecret clusterName namespace kubeconfig =
     (let clusterN = TrimSpace clusterName in
      if clusterN = '''' then Inl (errorf ''cluster name is required'')
      else if TrimSpace namespace = '''' then Inl (errorf ''namespace is required'')
      else (case SecretName clusterN of
        Inl e \<Rightarrow> Inl e
      | Inr secretName \<Rightarrow>
          Inr \<lparr>se_meta = (new_meta namespace secretName)
                  \<lparr>om_Labels := fmupd ClusterNameLabelKey clusterN fmempty\<rparr>,
               se_Type = SecretType,
               se_Data = fmupd DataKey kubeconfig fmempty\<rparr>))"

text \<open>What the Cluster API asks of the kubeconfig Secret of a cluster.\<close>

definition capi_kubeconfig :: "string \<Rightarrow> string \<Rightarrow> secret \<Rightarrow> bool" where
  "capi_kubeconfig clusterN kc s \<longleftrightarrow>
     om_Name (se_meta s) = clusterN @ ''-kubeconfig'' \<and>
     fmlookup (om_Labels (se_meta s)) ClusterNameLabelKey = Some clusterN \<and>
     se_Type s = SecretType \<and> fmlookup (se_Data s) DataKey = Some kc"

lemma SecretName_iff: "SecretName c = Inr n \<longleftrightarrow> TrimSpace c \<noteq> '''' \<and> n = TrimSpace c @ ''-kubeconfig''"
  by (auto simp: SecretName_def Let_def)

lemma SecretName_inj:
  "SecretName a = Inr n \<Longrightarrow> SecretName b = Inr n \<Longrightarrow> TrimSpace a = TrimSpace b"
  by (auto simp: SecretName_iff)

text \<open>
  A kubeconfig Secret is built exactly when neither the cluster name nor the namespace is
  blank, and it meets the Cluster API contract for the trimmed cluster name: name, label, type
  and data key; two clusters get the same Secret name only if their trimmed names are equal.
\<close>

theorem NewSecret_contract:
  "(case NewSecret c ns kc of
      Inl e \<Rightarrow> TrimSpace c = '''' \<or> TrimSpace ns = ''''
    | Inr s \<Rightarrow> TrimSpace c \<noteq> '''' \<and> TrimSpace ns \<noteq> '''' \<and> om_Namespace (se_meta s) = ns \<and>
        capi_kubeconfig (TrimSpace c) kc s \<and> SecretName c = Inr (om_Name (se_meta s)) \<and>
        (\<forall>d. SecretName d = Inr (om_Name (se_meta s)) \<longrightarrow> TrimSpace d = TrimSpace c))"
  by (auto simp: NewSecret_def SecretName_def capi_kubeconfig_def Let_def new_meta_def
      split: if_splits)

theorem NewSecret_contract_witness:
  "SecretName '' demo'' = Inr ''demo-kubeconfig'' \<and>
   (case NewSecret ''demo'' ''ns'' ''kc'' of Inl e \<Rightarrow> False | Inr s \<Rightarrow> capi_kubeconfig ''demo'' ''kc'' s)"
proof -
  have trim: "TrimSpace '' demo'' = ''demo''" "TrimSpace ''demo'' = ''demo''" "TrimSpace ''ns'' = ''ns''"
    by code_simp+
  have name: "SecretName '' demo'' = Inr ''demo-kubeconfig''"
    by (simp add: SecretName_def trim)
  then show ?thesis
    using NewSecret_contract [of "''demo''" "''ns''" "''kc''"]
    by (auto simp: trim split: sum.splits)
qed

end
