(* ===== verification/EksCore.thy ===== *)
theory EksCore
  imports K8sModel
begin

text \<open>
  \<open>internal/plugin/eks\<close>: annotation keys and the takeover switch (\<open>constants.go\<close>), the
  token generator (\<open>token_generator.go\<close>), the requeue policy of the kubeconfig rotator
  (\<open>policy.go\<close>) and the two kubeconfig builders (\<open>kubeconfig_builder.go\<close>).

  \<open>clientcmd.Write\<close> and the AWS token library are not part of the repository: \<open>write\<close>
  and \<open>gen\<close> are arguments of the definitions.
\<close>

section \<open>Annotations\<close>

definition EnableAnnotationKey :: string where "EnableAnnotationKey = ''eks.kany8s.io/kubeconfig-rotator''"
definition EnableAnnotationValue :: string where "EnableAnnotationValue = ''enabled''"
definition EKSClusterNameAnnotationKey :: string where
  "EKSClusterNameAnnotationKey = ''eks.kany8s.io/cluster-name''"
definition ACKClusterNameAnnotationKey :: string where
  "ACKClusterNameAnnotationKey = ''eks.kany8s.io/ack-cluster-name''"
definition RegionAnnotationKey :: string where "RegionAnnotationKey = ''eks.kany8s.io/region''"
definition ManagedByAnnotationKey :: string where "ManagedByAnnotationKey = ''eks.kany8s.io/managed-by''"
definition ManagedByAnnotationValue :: string where "ManagedByAnnotationValue = ''eks-kubeconfig-rotator''"
definition AllowUnmanagedTakeoverAnnotationKey :: string where
  "AllowUnmanagedTakeoverAnnotationKey = ''eks.kany8s.io/allow-unmanaged-takeover''"
definition AllowUnmanagedTakeoverAnnotationValue :: string where
  "AllowUnmanagedTakeoverAnnotationValue = ''enabled''"
definition TokenExpirationAnnotationKey :: string where
  "TokenExpirationAnnotationKey = ''eks.kany8s.io/token-expiration-rfc3339''"
definition ACKRegionMetadataAnnotationKey :: string where
  "ACKRegionMetadataAnnotationKey = ''services.k8s.aws/region''"

lemmas annotation_keys =
  EnableAnnotationKey_def EKSClusterNameAnnotationKey_def ACKClusterNameAnnotationKey_def
  RegionAnnotationKey_def ManagedByAnnotationKey_def AllowUnmanagedTakeoverAnnotationKey_def
  TokenExpirationAnnotationKey_def ACKRegionMetadataAnnotationKey_def

definition IsUnmanagedTakeoverEnabled :: "str_map \<Rightarrow> bool" where
  "IsUnmanagedTakeoverEnabled annotations =
     (if annotations = fmempty then False
      else let v = TrimSpace (str_get annotations AllowUnmanagedTakeoverAnnotationKey)
        in EqualFold v AllowUnmanagedTakeoverAnnotationValue \<or> EqualFold v ''true'')"

section \<open>The token generator\<close>

text \<open>
  \<open>gen region cluster\<close> is \<open>GetWithOptions\<close> of the AWS library, \<open>None\<close> a generator that
  is not configured. The library and \<open>UTC\<close> keep the instant of the expiration.
\<close>

definition token_Generate ::
    "(string \<Rightarrow> string \<Rightarrow> (string \<times> time) result) option \<Rightarrow> string \<Rightarrow> string \<Rightarrow> (string \<times> time) result" where
  "token_Generate gen region clusterName =
     (case gen of
        None \<Rightarrow> Inl (errorf ''token generator is not configured'')
      | Some g \<Rightarrow>
          let clusterN = TrimSpace clusterName in
          if clusterN = '''' then Inl (errorf ''cluster name is required'')
          else (case g (TrimSpace region) clusterN of
            Inl e \<Rightarrow> Inl e
          | Inr (token, expiration) \<Rightarrow>
              if token = '''' then Inl (errorf ''generated token is empty'')
              else Inr (token, expiration)))"

section \<open>The requeue policy\<close>

record RequeuePolicy =
  rp_RefreshBefore :: duration
  rp_MaxRefresh :: duration
  rp_FailureBackoff :: duration
  rp_ImmediateRequeue :: duration

definition DefaultRequeuePolicy :: RequeuePolicy where
  "DefaultRequeuePolicy = \<lparr>rp_RefreshBefore = 5 * minute, rp_MaxRefresh = 10 * minute,
     rp_FailureBackoff = 30 * second, rp_ImmediateRequeue = 15 * second\<rparr>"

definition WithDefaults :: "RequeuePolicy \<Rightarrow> RequeuePolicy" where
  "WithDefaults p = (let def = DefaultRequeuePolicy in
     \<lparr>rp_RefreshBefore = (if rp_RefreshBefore p \<le> 0 then rp_RefreshBefore def else rp_RefreshBefore p),
      rp_MaxRefresh = (if rp_MaxRefresh p \<le> 0 then rp_MaxRefresh def else rp_MaxRefresh p),
      rp_FailureBackoff = (if rp_FailureBackoff p \<le> 0 then rp_FailureBackoff def else rp_FailureBackoff p),
      rp_ImmediateRequeue = (if rp_ImmediateRequeue p \<le> 0 then rp_ImmediateRequeue def else rp_ImmediateRequeue p)\<rparr>)"

text \<open>\<open>time_sub\<close> is Go's saturating \<open>Time.Sub\<close>; \<open>Time.Add\<close> does not saturate.\<close>

definition ComputeNextRequeue :: "time \<Rightarrow> time \<Rightarrow> RequeuePolicy \<Rightarrow> duration" where
  "ComputeNextRequeue now expiration p0 =
     (let p = WithDefaults p0 in
      if expiration = 0 then rp_FailureBackoff p
      else let until = time_sub (expiration - rp_RefreshBefore p) now in
        if until \<le> 0 then rp_ImmediateRequeue p
        else if until > rp_MaxRefresh p then rp_MaxRefresh p
        else until)"

section \<open>Kubeconfig documents\<close>

record kc_cluster =
  kc_Server :: string
  kc_CertificateAuthorityData :: string

record exec_config =
  ex_APIVersion :: string
  ex_Command :: string
  ex_Args :: "string list"

record auth_info =
  ai_Token :: string
  ai_Exec :: "exec_config option"

record kc_context =
  cx_Cluster :: string
  cx_AuthInfo :: string

record kube_config =
  kc_APIVersion :: string
  kc_Kind :: string
  kc_CurrentContext :: string
  kc_Clusters :: "(string, kc_cluster) fmap"
  kc_AuthInfos :: "(string, auth_info) fmap"
  kc_Contexts :: "(string, kc_context) fmap"

text \<open>
  \<open>base64.StdEncoding.DecodeString\<close>: line breaks are skipped, the text is a sequence of
  groups of four, and padding may only end the last group. Go's error also names the offset of
  the first bad byte, which the model leaves out.
\<close>

definition b64_val :: "char \<Rightarrow> nat option" where
  "b64_val c = (let n = (of_char c :: nat) in
     if 65 \<le> n \<and> n \<le> 90 then Some (n - 65)
     else if 97 \<le> n \<and> n \<le> 122 then Some (n - 71)
     else if 48 \<le> n \<and> n \<le> 57 then Some (n + 4)
     else if c = CHR ''+'' then Some 62
     else if c = CHR ''/'' then Some 63
     else None)"

definition b64_group :: "char \<Rightarrow> char \<Rightarrow> char \<Rightarrow> char \<Rightarrow> bool \<Rightarrow> string option" where
  "b64_group a b c d at_end =
     (case (b64_val a, b64_val b) of
        (Some w, Some x) \<Rightarrow>
          if c = CHR ''='' \<and> d = CHR ''='' \<and> at_end then Some [char_of (4 * w + x div 16)]
          else (case b64_val c of
            None \<Rightarrow> None
          | Some y \<Rightarrow>
              if d = CHR ''='' \<and> at_end
              then Some [char_of (4 * w + x div 16), char_of (16 * (x mod 16) + y div 4)]
              else (case b64_val d of
                None \<Rightarrow> None
              | Some z \<Rightarrow> Some [char_of (4 * w + x div 16), char_of (16 * (x mod 16) + y div 4),
                               char_of (64 * (y mod 4) + z)]))
      | _ \<Rightarrow> None)"

fun b64_groups :: "string \<Rightarrow> string option" where
  "b64_groups [] = Some []"
| "b64_groups (a # b # c # d # rest) =
     (case b64_group a b c d (rest = []) of
        None \<Rightarrow> None
      | Some bs \<Rightarrow> map_option (\<lambda>r. bs @ r) (b64_groups rest))"
| "b64_groups _ = None"

definition base64_decode :: "string \<Rightarrow> string option" where
  "base64_decode s = b64_groups (filter (\<lambda>c. c \<noteq> CHR 0x0A \<and> c \<noteq> CHR 0x0D) s)"

definition decodeCertificateAuthorityData :: "string \<Rightarrow> string result" where
  "decodeCertificateAuthorityData ca =
     (let s = TrimSpace ca in
      if s = '''' then Inl (errorf ''certificate authority data is required'')
      else (case base64_decode s of
        None \<Rightarrow> Inl (wrapf ''decode certificate authority data'' (errorf ''illegal base64 data''))
      | Some decoded \<Rightarrow>
          if decoded = '''' then Inl (errorf ''certificate authority data decoded to empty bytes'')
          else Inr decoded))"

text \<open>The one-cluster, one-user document both builders write.\<close>

definition single_config :: "string \<Rightarrow> string \<Rightarrow> string \<Rightarrow> auth_info \<Rightarrow> kube_config" where
  "single_config clusterName server caData auth =
     \<lparr>kc_APIVersion = ''v1'', kc_Kind = ''Config'', kc_CurrentContext = clusterName,
      kc_Clusters = fmupd clusterName \<lparr>kc_Server = server, kc_CertificateAuthorityData = caData\<rparr> fmempty,
      kc_AuthInfos = fmupd ''aws'' auth fmempty,
      kc_Contexts = fmupd clusterName \<lparr>cx_Cluster = clusterName, cx_AuthInfo = ''aws''\<rparr> fmempty\<rparr>"

definition BuildTokenKubeconfig ::
    "(kube_config \<Rightarrow> string result) \<Rightarrow> string \<Rightarrow> string \<Rightarrow> string \<Rightarrow> string \<Rightarrow> string result" where
  "BuildTokenKubeconfig write capiClusterName endpoint ca bearerToken =
     (let clusterName = TrimSpace capiClusterName; server = TrimSpace endpoint in
      if clusterName = '''' then Inl (errorf ''cluster name is required'')
      else if server = '''' then Inl (errorf ''endpoint is required'')
      else (case decodeCertificateAuthorityData ca of
        Inl e \<Rightarrow> Inl e
      | Inr caData \<Rightarrow>
          let token = TrimSpace bearerToken in
          if token = '''' then Inl (errorf ''bearer token is required'')
          else (case write (single_config clusterName server caData \<lparr>ai_Token = token, ai_Exec = None\<rparr>) of
            Inl e \<Rightarrow> Inl (wrapf ''marshal token kubeconfig'' e)
          | Inr out \<Rightarrow> Inr out)))"

definition aws_exec :: "string \<Rightarrow> string \<Rightarrow> exec_config" where
  "aws_exec region eksName =
     \<lparr>ex_APIVersion = ''client.authentication.k8s.io/v1beta1'', ex_Command = ''aws'',
      ex_Args = [''eks'', ''get-token'', ''--region'', region, ''--cluster-name'', eksName]\<rparr>"

definition BuildExecKubeconfig ::
    "(kube_config \<Rightarrow> string result) \<Rightarrow> string \<Rightarrow> string \<Rightarrow> string \<Rightarrow> string \<Rightarrow> string \<Rightarrow> string result" where
  "BuildExecKubeconfig write capiClusterName eksClusterName region endpoint ca =
     (let clusterName = TrimSpace capiClusterName; eksName = TrimSpace eksClusterName;
          resolvedRegion = TrimSpace region; server = TrimSpace endpoint in
      if clusterName = '''' then Inl (errorf ''cluster name is required'')
      else if eksName = '''' then Inl (errorf ''eks cluster name is required'')
      else if resolvedRegion = '''' then Inl (errorf ''region is required'')
      else if server = '''' then Inl (errorf ''endpoint is required'')
      else (case decodeCertificateAuthorityData ca of
        Inl e \<Rightarrow> Inl e
      | Inr caData \<Rightarrow>
          (case write (single_config clusterName server caData
                  \<lparr>ai_Token = '''', ai_Exec = Some (aws_exec resolvedRegion eksName)\<rparr>) of
            Inl e \<Rightarrow> Inl (wrapf ''marshal exec kubeconfig'' e)
          | Inr out \<Rightarrow> Inr out)))"

section \<open>Properties\<close>

lemma WithDefaults_pos:
  "0 < rp_RefreshBefore (WithDefaults p)" "0 < rp_MaxRefresh (WithDefaults p)"
  "0 < rp_FailureBackoff (WithDefaults p)" "0 < rp_ImmediateRequeue (WithDefaults p)"
  by (simp_all add: WithDefaults_def DefaultRequeuePolicy_def Let_def)

lemma WithDefaults_idem: "WithDefaults (WithDefaults p) = WithDefaults p"
proof -
  have "WithDefaults q = q" if "0 < rp_RefreshBefore q" "0 < rp_MaxRefresh q"
      "0 < rp_FailureBackoff q" "0 < rp_ImmediateRequeue q" for q
    using that by (simp add: WithDefaults_def)
  then show ?thesis using WithDefaults_pos by blast
qed

lemma time_sub_pos_le: "0 < time_sub t u \<Longrightarrow> time_sub t u \<le> t - u"
  by (simp add: time_sub_def min_def max_def min_duration_def max_duration_def split: if_splits)

text \<open>
  The next reconcile is never immediate and never later than the longest interval of the
  policy; and as long as the refresh point (the expiration less the refresh margin) is still
  ahead, the next reconcile comes at that point or before it, so a token is renewed before it
  expires whatever the clock and the policy are.
\<close>

theorem ComputeNextRequeue_bounds:
  "0 < ComputeNextRequeue now expiration p \<and>
   ComputeNextRequeue now expiration p \<le>
     Max {rp_MaxRefresh (WithDefaults p), rp_FailureBackoff (WithDefaults p), rp_ImmediateRequeue (WithDefaults p)} \<and>
   (expiration \<noteq> 0 \<and> now < expiration - rp_RefreshBefore (WithDefaults p) \<longrightarrow>
      now + ComputeNextRequeue now expiration p \<le> expiration - rp_RefreshBefore (WithDefaults p) \<and>
      (now + ComputeNextRequeue now expiration p < expiration - rp_RefreshBefore (WithDefaults p) \<longrightarrow>
         ComputeNextRequeue now expiration p \<in> {rp_MaxRefresh (WithDefaults p), max_duration}))"
proof -
  let ?q = "WithDefaults p" and ?u = "time_sub (expiration - rp_RefreshBefore (WithDefaults p)) now"
  have pos: "0 < rp_MaxRefresh ?q" "0 < rp_FailureBackoff ?q" "0 < rp_ImmediateRequeue ?q"
    by (rule WithDefaults_pos)+
  have sat: "0 < ?u \<and> (?u = expiration - rp_RefreshBefore ?q - now \<or>
      ?u = max_duration \<and> max_duration \<le> expiration - rp_RefreshBefore ?q - now)"
    if "now < expiration - rp_RefreshBefore ?q"
    using that by (auto simp: time_sub_def min_def max_def min_duration_def max_duration_def)
  have "0 < ComputeNextRequeue now expiration p"
    using pos by (simp add: ComputeNextRequeue_def Let_def)
  moreover have "ComputeNextRequeue now expiration p \<le>
      Max {rp_MaxRefresh ?q, rp_FailureBackoff ?q, rp_ImmediateRequeue ?q}"
    by (auto simp: ComputeNextRequeue_def Let_def)
  ultimately show ?thesis
    using sat by (auto simp: ComputeNextRequeue_def Let_def)
qed

theorem ComputeNextRequeue_bounds_witness:
  "ComputeNextRequeue 1000000000 (901 * second) DefaultRequeuePolicy = 600 * second \<and>
   1000000000 + ComputeNextRequeue 1000000000 (901 * second) DefaultRequeuePolicy \<le> 601 * second"
proof -
  have "rp_RefreshBefore (WithDefaults DefaultRequeuePolicy) = 300 * second"
    by (simp add: WithDefaults_def DefaultRequeuePolicy_def Let_def minute_def second_def)
  moreover have "ComputeNextRequeue 1000000000 (901 * second) DefaultRequeuePolicy = 600 * second"
    by (simp add: ComputeNextRequeue_def WithDefaults_def DefaultRequeuePolicy_def Let_def minute_def
        second_def time_sub_def min_duration_def max_duration_def)
  ultimately show ?thesis
    using ComputeNextRequeue_bounds [of 1000000000 "901 * second" DefaultRequeuePolicy]
    by (simp add: second_def)
qed

text \<open>The cluster and the user a kubeconfig document selects by its current context.\<close>

definition config_selects :: "kube_config \<Rightarrow> kc_cluster \<Rightarrow> auth_info \<Rightarrow> bool" where
  "config_selects cfg cl ai \<longleftrightarrow>
     (\<exists>cx. fmlookup (kc_Contexts cfg) (kc_CurrentContext cfg) = Some cx \<and>
        fmlookup (kc_Clusters cfg) (cx_Cluster cx) = Some cl \<and>
        fmlookup (kc_AuthInfos cfg) (cx_AuthInfo cx) = Some ai)"

lemma single_config_selects:
  "config_selects (single_config c server ca auth) \<lparr>kc_Server = server, kc_CertificateAuthorityData = ca\<rparr> auth"
  by (simp add: config_selects_def single_config_def)

lemma decode_CA_nonempty:
  "decodeCertificateAuthorityData ca = Inr d \<Longrightarrow>
     d \<noteq> '''' \<and> TrimSpace ca \<noteq> '''' \<and> base64_decode (TrimSpace ca) = Some d"
  by (auto simp: decodeCertificateAuthorityData_def Let_def split: if_splits option.splits)

text \<open>
  The kubeconfig that embeds a token is built only from a non-blank cluster name, endpoint
  and token and a certificate authority that decodes to some bytes; the document written then
  selects, by its current context, the endpoint with that authority and the user with that
  token.
\<close>

theorem BuildTokenKubeconfig_selects:
  assumes "BuildTokenKubeconfig write c ep ca token = Inr out"
  shows "TrimSpace c \<noteq> '''' \<and> TrimSpace ep \<noteq> '''' \<and> TrimSpace token \<noteq> '''' \<and>
    (\<exists>cfg d. write cfg = Inr out \<and> base64_decode (TrimSpace ca) = Some d \<and> d \<noteq> '''' \<and>
       kc_CurrentContext cfg = TrimSpace c \<and>
       config_selects cfg \<lparr>kc_Server = TrimSpace ep, kc_CertificateAuthorityData = d\<rparr>
         \<lparr>ai_Token = TrimSpace token, ai_Exec = None\<rparr>)"
proof -
  obtain d where d: "decodeCertificateAuthorityData ca = Inr d"
    and names: "TrimSpace c \<noteq> ''''" "TrimSpace ep \<noteq> ''''" "TrimSpace token \<noteq> ''''"
    and w: "write (single_config (TrimSpace c) (TrimSpace ep) d \<lparr>ai_Token = TrimSpace token, ai_Exec = None\<rparr>) = Inr out"
    using assms by (auto simp: BuildTokenKubeconfig_def Let_def split: if_splits sum.splits)
  have "kc_CurrentContext (single_config (TrimSpace c) (TrimSpace ep) d
      \<lparr>ai_Token = TrimSpace token, ai_Exec = None\<rparr>) = TrimSpace c"
    by (simp add: single_config_def)
  then show ?thesis using names w decode_CA_nonempty [OF d] single_config_selects by blast
qed

text \<open>
  The kubeconfig that runs \<open>aws eks get-token\<close> is built exactly when the cluster name,
  the EKS name, the region, the endpoint and the certificate authority are usable (and the
  document can be written); it holds no token, and asks for the token of the trimmed EKS
  name in the trimmed region.
\<close>

theorem BuildExecKubeconfig_iff:
  "(\<exists>out. BuildExecKubeconfig write c eks region ep ca = Inr out) \<longleftrightarrow>
   TrimSpace c \<noteq> '''' \<and> TrimSpace eks \<noteq> '''' \<and> TrimSpace region \<noteq> '''' \<and> TrimSpace ep \<noteq> '''' \<and>
   (\<exists>d cfg out. decodeCertificateAuthorityData ca = Inr d \<and> write cfg = Inr out \<and>
      BuildExecKubeconfig write c eks region ep ca = Inr out \<and>
      config_selects cfg \<lparr>kc_Server = TrimSpace ep, kc_CertificateAuthorityData = d\<rparr>
        \<lparr>ai_Token = '''', ai_Exec = Some
          \<lparr>ex_APIVersion = ''client.authentication.k8s.io/v1beta1'', ex_Command = ''aws'',
           ex_Args = [''eks'', ''get-token'', ''--region'', TrimSpace region, ''--cluster-name'', TrimSpace eks]\<rparr>\<rparr>)"
  by (auto simp: BuildExecKubeconfig_def Let_def aws_exec_def split: sum.splits
      intro!: single_config_selects)

theorem BuildTokenKubeconfig_selects_witness:
  "\<exists>out. BuildTokenKubeconfig (\<lambda>cfg. Inr (kc_CurrentContext cfg)) '' demo'' ''https://e'' ''YWJj'' ''t'' = Inr out \<and>
     out = ''demo''"
proof -
  let ?w = "\<lambda>cfg. Inr (kc_CurrentContext cfg)"
  have run: "BuildTokenKubeconfig ?w '' demo'' ''https://e'' ''YWJj'' ''t'' = Inr ''demo''"
    by code_simp
  then show ?thesis using BuildTokenKubeconfig_selects [OF run] by auto
qed

end
