(* ===== verification/EventDedupe.thy ===== *)
theory EventDedupe
  imports GoStrings
begin

text \<open>
  \<open>internal/controller/plugin/eks/event_dedupe.go\<close>: the cache that keeps the EKS plugin
  controllers from recording the same event for an object again and again.

  The cache is a Go map, read in an unspecified order: \<open>order m\<close> is the order in which one
  pass over the map \<open>m\<close> visits its keys. The clock is an argument. The mutex makes each call
  atomic, so a call is a function of the cache; the process has one cache, never nil.
\<close>

section \<open>The cache\<close>

record eventSignature =
  sg_value :: string
  sg_recordedAt :: time

type_synonym sig_map = "(string, eventSignature) fmap"

record eventStateCache =
  ec_last :: sig_map
  ec_ttl :: duration
  ec_maxEntries :: int

definition defaultEventDedupeTTL :: duration where
  "defaultEventDedupeTTL = 30 * minute"

definition defaultEventDedupeMaxEntries :: int where
  "defaultEventDedupeMaxEntries = 10000"

definition controllerEventState :: eventStateCache where
  "controllerEventState = \<lparr>ec_last = fmempty, ec_ttl = defaultEventDedupeTTL,
     ec_maxEntries = defaultEventDedupeMaxEntries\<rparr>"

text \<open>An order visits every key of the map once.\<close>

definition map_order :: "(sig_map \<Rightarrow> string list) \<Rightarrow> bool" where
  "map_order order \<longleftrightarrow> (\<forall>m. distinct (order m) \<and> set (order m) = fmdom' m)"

definition isExpired :: "eventStateCache \<Rightarrow> time \<Rightarrow> time \<Rightarrow> bool" where
  "isExpired c now recordedAt \<longleftrightarrow> 0 < ec_ttl c \<and> ec_ttl c < time_sub now recordedAt"

text \<open>Every expired entry is deleted; the order of the pass does not matter.\<close>

definition entry_expired :: "eventStateCache \<Rightarrow> time \<Rightarrow> sig_map \<Rightarrow> string \<Rightarrow> bool" where
  "entry_expired c now m k = (case fmlookup m k of None \<Rightarrow> False | Some v \<Rightarrow> isExpired c now (sg_recordedAt v))"

definition compactLocked :: "(sig_map \<Rightarrow> string list) \<Rightarrow> time \<Rightarrow> eventStateCache \<Rightarrow> eventStateCache" where
  "compactLocked order now c =
     (if ec_ttl c \<le> 0 then c
      else c\<lparr>ec_last := fold (\<lambda>k m. if entry_expired c now (ec_last c) k then fmdrop k m else m)
                          (order (ec_last c)) (ec_last c)\<rparr>)"

text \<open>The pass that looks for the oldest entry; the empty key means that none was seen.\<close>

fun oldest_scan :: "sig_map \<Rightarrow> string list \<Rightarrow> string \<Rightarrow> time \<Rightarrow> string" where
  "oldest_scan m [] oldestKey oldestAt = oldestKey"
| "oldest_scan m (key # ks) oldestKey oldestAt =
     (case fmlookup m key of
        None \<Rightarrow> oldest_scan m ks oldestKey oldestAt
      | Some v \<Rightarrow>
          if oldestKey = '''' \<or> sg_recordedAt v < oldestAt
          then oldest_scan m ks key (sg_recordedAt v)
          else oldest_scan m ks oldestKey oldestAt)"

fun evict :: "(sig_map \<Rightarrow> string list) \<Rightarrow> nat \<Rightarrow> sig_map \<Rightarrow> sig_map" where
  "evict order 0 m = m"
| "evict order (Suc n) m =
     (let k = oldest_scan m (order m) '''' 0 in
      if k = '''' then m else evict order n (fmdrop k m))"

definition map_len :: "sig_map \<Rightarrow> int" where
  "map_len m = int (fcard (fmdom m))"

definition enforceSizeLocked :: "(sig_map \<Rightarrow> string list) \<Rightarrow> eventStateCache \<Rightarrow> eventStateCache" where
  "enforceSizeLocked order c =
     (if ec_maxEntries c \<le> 0 \<or> map_len (ec_last c) \<le> ec_maxEntries c then c
      else c\<lparr>ec_last := evict order (nat (map_len (ec_last c) - ec_maxEntries c)) (ec_last c)\<rparr>)"

record event_args =
  ea_controller :: string
  ea_namespace :: string
  ea_name :: string
  ea_type :: string
  ea_reason :: string
  ea_message :: string

definition event_key :: "event_args \<Rightarrow> string" where
  "event_key a = ea_controller a @ ''/'' @ ea_namespace a @ ''/'' @ ea_name a"

definition event_signature :: "event_args \<Rightarrow> string" where
  "event_signature a = ea_type a @ ''|'' @ ea_reason a @ ''|'' @ ea_message a"

definition shouldEmit ::
    "(sig_map \<Rightarrow> string list) \<Rightarrow> time \<Rightarrow> event_args \<Rightarrow> eventStateCache \<Rightarrow> bool \<times> eventStateCache" where
  "shouldEmit order now a c =
     (let c1 = compactLocked order now c; key = event_key a; sig = event_signature a in
      if (case fmlookup (ec_last c1) key of
            None \<Rightarrow> False
          | Some prev \<Rightarrow> sg_value prev = sig \<and> \<not> isExpired c1 now (sg_recordedAt prev))
      then (False, c1)
      else (True, enforceSizeLocked order
              (c1\<lparr>ec_last := fmupd key \<lparr>sg_value = sig, sg_recordedAt = now\<rparr> (ec_last c1)\<rparr>)))"

section \<open>Facts\<close>

lemma fold_drop_lookup:
  "fmlookup (fold (\<lambda>k m. if P k then fmdrop k m else m) ks m) k =
     (if k \<in> set ks \<and> P k then None else fmlookup m k)"
  by (induction ks arbitrary: m) auto

lemma compact_settings [simp]:
  "ec_ttl (compactLocked order now c) = ec_ttl c"
  "ec_maxEntries (compactLocked order now c) = ec_maxEntries c"
  by (simp_all add: compactLocked_def)

lemma isExpired_settings [simp]: "isExpired (c\<lparr>ec_last := m\<rparr>) now t = isExpired c now t"
  by (simp add: isExpired_def)

lemma isExpired_compact [simp]: "isExpired (compactLocked order now c) = isExpired c"
  by (intro ext) (simp add: isExpired_def)

text \<open>One pass deletes exactly the expired entries, whatever the order.\<close>

lemma compact_lookup:
  assumes "map_order order"
  shows "fmlookup (ec_last (compactLocked order now c)) k =
    (case fmlookup (ec_last c) k of
       None \<Rightarrow> None
     | Some v \<Rightarrow> if isExpired c now (sg_recordedAt v) then None else Some v)"
proof (cases "ec_ttl c \<le> 0")
  case True
  then show ?thesis by (auto simp: compactLocked_def isExpired_def split: option.splits)
next
  case False
  have "k \<in> set (order (ec_last c)) \<longleftrightarrow> fmlookup (ec_last c) k \<noteq> None"
    using assms by (simp add: map_order_def fmlookup_dom'_iff)
  with False show ?thesis
    by (auto simp: compactLocked_def fold_drop_lookup entry_expired_def split: option.splits)
qed

lemma oldest_scan_in:
  "oldest_scan m ks k0 t0 \<in> insert k0 (set ks)"
  by (induction ks arbitrary: k0 t0) (auto split: option.splits)

lemma oldest_scan_found:
  assumes "set ks \<subseteq> fmdom' m" "'''' \<notin> set ks" "ks \<noteq> []"
  shows "oldest_scan m ks '''' t0 \<noteq> ''''"
proof -
  have keep: "oldest_scan m ks k0 t \<noteq> ''''" if "k0 \<noteq> ''''" "'''' \<notin> set ks" for ks k0 t
    using that by (induction ks arbitrary: k0 t) (auto split: option.splits)
  obtain k rest where "ks = k # rest" using assms(3) by (cases ks) auto
  moreover obtain v where "fmlookup m k = Some v"
    using assms(1) calculation by (auto simp: fmlookup_dom'_iff)
  ultimately show ?thesis using assms(2) keep [of k rest "sg_recordedAt v"] by auto
qed

lemma evict_sub: "fmlookup (evict order n m) k = Some v \<Longrightarrow> fmlookup m k = Some v"
proof (induction n arbitrary: m)
  case 0
  then show ?case by simp
next
  case (Suc n)
  let ?o = "oldest_scan m (order m) '''' 0"
  show ?case
  proof (cases "?o = ''''")
    case True
    then show ?thesis using Suc.prems by simp
  next
    case False
    then have "fmlookup (evict order n (fmdrop ?o m)) k = Some v"
      using Suc.prems by (simp add: Let_def)
    then have "fmlookup (fmdrop ?o m) k = Some v" by (rule Suc.IH)
    then show ?thesis by (simp split: if_splits)
  qed
qed

lemma fcard_drop: "k |\<in>| fmdom m \<Longrightarrow> fcard (fmdom (fmdrop k m)) = fcard (fmdom m) - 1"
  by (simp add: fcard_fminus_fsingleton)

lemma evict_len:
  assumes "map_order order" "'''' |\<notin>| fmdom m" "n \<le> fcard (fmdom m)"
  shows "fcard (fmdom (evict order n m)) = fcard (fmdom m) - n"
  using assms(2,3)
proof (induction n arbitrary: m)
  case 0
  then show ?case by simp
next
  case (Suc n)
  let ?k = "oldest_scan m (order m) '''' 0"
  have dom: "set (order m) = fmdom' m" using assms(1) by (simp add: map_order_def)
  have empty: "'''' \<notin> set (order m)" using Suc.prems(1) by (simp add: dom fmdom'_alt_def)
  have "fmdom m \<noteq> {||}" using Suc.prems(2) by (auto simp: fcard_fempty)
  then have "fset (fmdom m) \<noteq> fset {||}" by (simp only: fset_inject not_False_eq_True)
  then have "order m \<noteq> []" using dom by (auto simp: fmdom'_alt_def)
  then have k: "?k \<noteq> ''''" using oldest_scan_found [of "order m" m 0] dom empty by simp
  moreover have "?k |\<in>| fmdom m"
    using oldest_scan_in [of m "order m" "''''" 0] k dom by (auto simp: fmdom'_alt_def)
  ultimately have len: "fcard (fmdom (fmdrop ?k m)) = fcard (fmdom m) - 1" by (simp add: fcard_drop)
  have "fcard (fmdom (evict order n (fmdrop ?k m))) = fcard (fmdom (fmdrop ?k m)) - n"
    by (rule Suc.IH) (use Suc.prems len in auto)
  with k len show ?case by (simp add: Let_def)
qed

lemma enforce_sub:
  "fmlookup (ec_last (enforceSizeLocked order c)) k = Some v \<Longrightarrow> fmlookup (ec_last c) k = Some v"
  unfolding enforceSizeLocked_def by (simp split: if_splits) (erule evict_sub)

section \<open>Properties\<close>

definition cache_ok :: "eventStateCache \<Rightarrow> bool" where
  "cache_ok c \<longleftrightarrow> '''' |\<notin>| fmdom (ec_last c) \<and>
     (0 < ec_maxEntries c \<longrightarrow> map_len (ec_last c) \<le> ec_maxEntries c)"

lemma event_key_nonempty: "event_key a \<noteq> ''''"
  by (simp add: event_key_def)

lemma dom_sub_len:
  assumes "\<And>k v. fmlookup m' k = Some v \<Longrightarrow> fmlookup m k = Some v"
  shows "fmdom m' |\<subseteq>| fmdom m" "map_len m' \<le> map_len m"
proof -
  show sub: "fmdom m' |\<subseteq>| fmdom m"
    using assms by (meson fmdomE fmdomI fsubsetI)
  show "map_len m' \<le> map_len m"
    using sub by (simp add: map_len_def fcard_mono)
qed

lemma compact_sub:
  assumes "map_order order"
  shows "fmlookup (ec_last (compactLocked order now c)) k = Some v \<Longrightarrow> fmlookup (ec_last c) k = Some v"
  by (auto simp: compact_lookup [OF assms] split: option.splits if_splits)

lemma enforce_len:
  assumes "map_order order" "'''' |\<notin>| fmdom (ec_last c)" "0 < ec_maxEntries c"
  shows "map_len (ec_last (enforceSizeLocked order c)) \<le> ec_maxEntries c"
proof (cases "map_len (ec_last c) \<le> ec_maxEntries c")
  case True
  then show ?thesis by (simp add: enforceSizeLocked_def)
next
  case False
  let ?n = "nat (map_len (ec_last c) - ec_maxEntries c)"
  have "?n \<le> fcard (fmdom (ec_last c))" using assms(3) by (simp add: map_len_def)
  then have "fcard (fmdom (evict order ?n (ec_last c))) = fcard (fmdom (ec_last c)) - ?n"
    by (rule evict_len [OF assms(1,2)])
  then show ?thesis using False assms(3) by (simp add: enforceSizeLocked_def map_len_def)
qed

text \<open>
  The size of the cache: every call keeps it within its maximum and keeps the empty key
  (the loop's marker for having seen no entry) out of it, in whatever order the map is read.
\<close>

theorem shouldEmit_bounded:
  assumes "map_order order" "cache_ok c" "shouldEmit order now a c = (b, c')"
  shows "cache_ok c' \<and> ec_ttl c' = ec_ttl c \<and> ec_maxEntries c' = ec_maxEntries c"
proof -
  let ?c1 = "compactLocked order now c"
  have sub: "fmdom (ec_last ?c1) |\<subseteq>| fmdom (ec_last c)" "map_len (ec_last ?c1) \<le> map_len (ec_last c)"
    by (rule dom_sub_len, erule compact_sub [OF assms(1)])+
  have c1: "cache_ok ?c1" using assms(2) sub by (auto simp: cache_ok_def)
  show ?thesis
  proof (cases b)
    case False
    then have "c' = ?c1" using assms(3) by (auto simp: shouldEmit_def Let_def split: if_splits)
    then show ?thesis using c1 by simp
  next
    case True
    define c2 where "c2 = ?c1\<lparr>ec_last := fmupd (event_key a)
      \<lparr>sg_value = event_signature a, sg_recordedAt = now\<rparr> (ec_last ?c1)\<rparr>"
    have c': "c' = enforceSizeLocked order c2"
      using assms(3) True by (auto simp: shouldEmit_def Let_def c2_def split: if_splits)
    have nokey: "'''' |\<notin>| fmdom (ec_last c2)"
      using c1 event_key_nonempty by (auto simp: cache_ok_def c2_def dest: sym)
    have "fmdom (ec_last c') |\<subseteq>| fmdom (ec_last c2)"
      unfolding c' by (rule dom_sub_len(1)) (erule enforce_sub)
    moreover have "ec_maxEntries c' = ec_maxEntries c2" "ec_ttl c' = ec_ttl c2"
      by (simp_all add: c' enforceSizeLocked_def)
    moreover have "0 < ec_maxEntries c2 \<longrightarrow> map_len (ec_last c') \<le> ec_maxEntries c2"
      using enforce_len [OF assms(1) nokey] c' by simp
    ultimately show ?thesis using nokey by (auto simp: cache_ok_def c2_def)
  qed
qed

text \<open>A run of the cache over a sequence of reports: the ones that were recorded.\<close>

fun run_events :: "(sig_map \<Rightarrow> string list) \<Rightarrow> (time \<times> event_args) list \<Rightarrow> eventStateCache \<Rightarrow>
    (time \<times> event_args) list \<times> eventStateCache" where
  "run_events order [] c = ([], c)"
| "run_events order ((now, a) # es) c =
     (case shouldEmit order now a c of
        (b, c1) \<Rightarrow> (case run_events order es c1 of
          (out, c2) \<Rightarrow> (if b then (now, a) # out else out, c2)))"

definition explained :: "eventStateCache \<Rightarrow> (time \<times> event_args) list \<Rightarrow> bool" where
  "explained c out \<longleftrightarrow> (\<forall>k v. fmlookup (ec_last c) k = Some v \<longrightarrow>
     (\<exists>a. (sg_recordedAt v, a) \<in> set out \<and> event_key a = k \<and> event_signature a = sg_value v))"

lemma explained_mono: "explained c out \<Longrightarrow> set out \<subseteq> set out' \<Longrightarrow> explained c out'"
  unfolding explained_def by blast

lemma shouldEmit_explained:
  assumes "map_order order" "explained c out" "shouldEmit order now a c = (b, c')"
  shows "explained c' (if b then out @ [(now, a)] else out) \<and> ec_ttl c' = ec_ttl c \<and>
    (\<not> b \<longrightarrow> (\<exists>t a'. (t, a') \<in> set out \<and> event_key a' = event_key a \<and>
       event_signature a' = event_signature a \<and> \<not> isExpired c now t))"
proof -
  let ?c1 = "compactLocked order now c"
  have c1: "explained ?c1 out"
    using assms(2) compact_sub [OF assms(1)] unfolding explained_def by blast
  show ?thesis
  proof (cases b)
    case False
    then have c': "c' = ?c1" and "\<exists>prev. fmlookup (ec_last ?c1) (event_key a) = Some prev \<and>
        sg_value prev = event_signature a \<and> \<not> isExpired c now (sg_recordedAt prev)"
      using assms(3) by (auto simp: shouldEmit_def Let_def split: if_splits option.splits)
    then show ?thesis using c1 False unfolding explained_def by fastforce
  next
    case True
    define c2 where "c2 = ?c1\<lparr>ec_last := fmupd (event_key a)
      \<lparr>sg_value = event_signature a, sg_recordedAt = now\<rparr> (ec_last ?c1)\<rparr>"
    have c': "c' = enforceSizeLocked order c2"
      using assms(3) True by (auto simp: shouldEmit_def Let_def c2_def split: if_splits)
    have "explained c2 (out @ [(now, a)])"
      using c1 by (fastforce simp: explained_def c2_def split: if_splits)
    then have "explained c' (out @ [(now, a)])"
      using enforce_sub unfolding explained_def c' by blast
    then show ?thesis using True by (simp add: c' enforceSizeLocked_def c2_def)
  qed
qed

lemma run_events_explained:
  assumes "map_order order"
  shows "explained c out0 \<Longrightarrow> run_events order es c = (out, c') \<Longrightarrow>
    explained c' (out0 @ out) \<and> ec_ttl c' = ec_ttl c"
proof (induction es arbitrary: c out0 out)
  case Nil
  then show ?case by simp
next
  case (Cons e es)
  obtain now a where e: "e = (now, a)" by fastforce
  obtain b c1 where s: "shouldEmit order now a c = (b, c1)" by fastforce
  obtain out1 where r: "run_events order es c1 = (out1, c')"
    using Cons.prems(2) e s by (auto split: prod.splits)
  have step: "explained c1 (if b then out0 @ [(now, a)] else out0)" "ec_ttl c1 = ec_ttl c"
    using shouldEmit_explained [OF assms Cons.prems(1) s] by auto
  then have "explained c' ((if b then out0 @ [(now, a)] else out0) @ out1) \<and> ec_ttl c' = ec_ttl c1"
    using Cons.IH r by blast
  then show ?case using Cons.prems(2) e s r step by (auto split: if_splits)
qed


text \<open>
  Repeating a report is suppressed: as long as the cache has room, the report that follows
  an equal recorded one within the time to live is not recorded again.
\<close>

theorem repeated_report_suppressed:
  assumes "map_order order" "shouldEmit order now a c = (True, c')"
    and "ec_maxEntries c \<le> 0 \<or> map_len (ec_last c) < ec_maxEntries c"
    and "\<not> isExpired c now' now"
  shows "fst (shouldEmit order now' a c') = False"
proof -
  let ?c1 = "compactLocked order now c"
  define c2 where "c2 = ?c1\<lparr>ec_last := fmupd (event_key a)
    \<lparr>sg_value = event_signature a, sg_recordedAt = now\<rparr> (ec_last ?c1)\<rparr>"
  have c': "c' = enforceSizeLocked order c2"
    using assms(2) by (auto simp: shouldEmit_def Let_def c2_def split: if_splits)
  have "map_len (ec_last ?c1) \<le> map_len (ec_last c)"
    by (rule dom_sub_len, erule compact_sub [OF assms(1)])
  moreover have "map_len (ec_last c2) \<le> map_len (ec_last ?c1) + 1"
    by (simp add: c2_def map_len_def fcard_finsert_if)
  ultimately have "ec_maxEntries c \<le> 0 \<or> map_len (ec_last c2) \<le> ec_maxEntries c"
    using assms(3) by linarith
  then have "c' = c2" by (simp add: c' enforceSizeLocked_def c2_def)
  then have "fmlookup (ec_last c') (event_key a) = Some \<lparr>sg_value = event_signature a, sg_recordedAt = now\<rparr>"
    "isExpired c' now' now = isExpired c now' now"
    by (simp_all add: c2_def isExpired_def)
  then show ?thesis
    using assms(4) by (simp add: shouldEmit_def Let_def compact_lookup [OF assms(1)])
qed

section \<open>Witnesses\<close>

text \<open>One order of the keys: their sorted list.\<close>

definition demo_order :: "sig_map \<Rightarrow> string list" where
  "demo_order m = sorted_list_of_fset (fmdom m)"

lemma demo_order: "map_order demo_order"
  by (simp add: map_order_def demo_order_def fmdom'_alt_def sorted_list_of_fset.rep_eq)

definition demo_event :: event_args where
  "demo_event = \<lparr>ea_controller = ''c'', ea_namespace = ''ns'', ea_name = ''n'', ea_type = ''Normal'',
     ea_reason = ''r'', ea_message = ''m''\<rparr>"

definition demo_cache :: eventStateCache where
  "demo_cache = controllerEventState\<lparr>ec_last := fmupd (event_key demo_event)
     \<lparr>sg_value = event_signature demo_event, sg_recordedAt = 5\<rparr> fmempty\<rparr>"

lemma demo_first: "shouldEmit demo_order 5 demo_event controllerEventState = (True, demo_cache)"
  by (simp add: shouldEmit_def compactLocked_def controllerEventState_def demo_order_def
      enforceSizeLocked_def map_len_def defaultEventDedupeMaxEntries_def demo_cache_def
      fcard_finsert_if fcard_fempty Let_def sorted_list_of_fset.rep_eq)

lemma demo_not_expired: "\<not> isExpired controllerEventState 9 5"
  by (simp add: isExpired_def controllerEventState_def defaultEventDedupeTTL_def time_sub_def
      min_duration_def max_duration_def minute_def second_def)

lemma demo_ok: "cache_ok controllerEventState"
  by (simp add: cache_ok_def controllerEventState_def map_len_def defaultEventDedupeMaxEntries_def
      fcard_fempty)

theorem shouldEmit_bounded_witness: "cache_ok demo_cache"
  using shouldEmit_bounded [OF demo_order demo_ok demo_first] by blast

theorem repeated_report_suppressed_witness: "fst (shouldEmit demo_order 9 demo_event demo_cache) = False"
  by (rule repeated_report_suppressed [OF demo_order demo_first _ demo_not_expired])
     (simp add: controllerEventState_def map_len_def defaultEventDedupeMaxEntries_def fcard_fempty)


end
