(* ===== verification/DynamicWatch.thy ===== *)
theory DynamicWatch
  imports K8sModel
begin

text \<open>
  \<open>internal/dynamicwatch/watcher.go\<close>: informers for the kinds of objects that are known
  only at run time, and the channel through which their changes reach the controller.

  Two views. The registration of watches (\<open>Start\<close>, \<open>EnsureWatch\<close>, \<open>resolveGVR\<close>) is
  a program over the calls to the informer factory. The delivery of changes (\<open>enqueue\<close>,
  \<open>enqueuePending\<close>, \<open>flushLoop\<close>, \<open>flushPending\<close>) is a step relation: the informers'
  handler goroutines, the one flusher goroutine and the consuming controller interleave, each
  step being one channel operation or one critical section of the mutex.
\<close>

section \<open>Registration\<close>

record gvr =
  gvr_Group :: string
  gvr_Version :: string
  gvr_Resource :: string

datatype watch_call =
    RESTMapping gvk
  | AddEventHandler gvr
  | FactoryStart
  | WaitForCacheSync gvr
  | GoFlushLoop

text \<open>
  The environment: the REST mapper (\<open>None\<close> when the watcher has none), the guess of
  \<open>meta.UnsafeGuessKindToResource\<close>, the text of a kind, the registration of a handler and
  whether the cache synced before the time-out.
\<close>

record watch_env =
  we_mapper :: "(watch_call list \<Rightarrow> gvk \<Rightarrow> gvr result) option"
  we_guess :: "gvk \<Rightarrow> gvr"
  we_gvk_string :: "gvk \<Rightarrow> string"
  we_addHandler :: "watch_call list \<Rightarrow> gvr \<Rightarrow> go_error option"
  we_synced :: "watch_call list \<Rightarrow> gvr \<Rightarrow> bool"

text \<open>The fields the mutex guards: the registered informers, whether \<open>Start\<close> has run.\<close>

record watcher =
  wa_informers :: "gvr list"
  wa_started :: bool
  wa_flusherStarted :: bool

definition new_watcher :: watcher where
  "new_watcher = \<lparr>wa_informers = [], wa_started = False, wa_flusherStarted = False\<rparr>"

definition watcher_Start :: "watcher \<Rightarrow> (watch_call, watcher) eff" where
  "watcher_Start w =
     bind_eff (when_eff (\<not> wa_flusherStarted w) (emit GoFlushLoop)) (\<lambda>_.
     bind_eff (emit FactoryStart) (\<lambda>_.
     ret (w\<lparr>wa_started := True, wa_flusherStarted := True\<rparr>)))"

definition resolveGVR :: "watch_env \<Rightarrow> gvk \<Rightarrow> (watch_call, gvr result) eff" where
  "resolveGVR env g =
     (if gvk_Kind g = '''' then ret (Inl (errorf ''gvk.kind is required''))
      else let empty = errorf (''resolved gvr.resource is empty for gvk '' @ we_gvk_string env g) in
        case we_mapper env of
          Some mapping \<Rightarrow>
            bind_eff (perform (RESTMapping g) (\<lambda>h. mapping h g)) (\<lambda>r. ret (case r of
              Inl e \<Rightarrow> Inl (wrapf (''resolve gvk '' @ we_gvk_string env g @ '' to gvr'') e)
            | Inr v \<Rightarrow> if gvr_Resource v = '''' then Inl empty else Inr v))
        | None \<Rightarrow> ret (let v = we_guess env g in if gvr_Resource v = '''' then Inl empty else Inr v))"

definition waitForCacheSync :: "watch_env \<Rightarrow> gvr \<Rightarrow> (watch_call, unit result) eff" where
  "waitForCacheSync env v =
     bind_eff (perform (WaitForCacheSync v) (\<lambda>h. we_synced env h v)) (\<lambda>ok.
       ret (if ok then Inr () else Inl (errorf ''timed out waiting for informer cache to sync'')))"

definition EnsureWatch :: "watch_env \<Rightarrow> watcher \<Rightarrow> gvk \<Rightarrow> (watch_call, unit result \<times> watcher) eff" where
  "EnsureWatch env w g =
     (if gvk_Kind g = '''' then ret (Inl (errorf ''gvk.kind is required''), w)
      else bind_eff (resolveGVR env g) (\<lambda>r. case r of
        Inl e \<Rightarrow> ret (Inl e, w)
      | Inr v \<Rightarrow>
          if v \<in> set (wa_informers w) then
            (if wa_started w then bind_eff (waitForCacheSync env v) (\<lambda>s. ret (s, w)) else ret (Inr (), w))
          else
            bind_eff (perform (AddEventHandler v) (\<lambda>h. we_addHandler env h v)) (\<lambda>added. case added of
              Some e \<Rightarrow> ret (Inl e, w)
            | None \<Rightarrow>
                let w' = w\<lparr>wa_informers := wa_informers w @ [v]\<rparr> in
                if wa_started w
                then bind_eff (emit FactoryStart) (\<lambda>_.
                       bind_eff (waitForCacheSync env v) (\<lambda>s. ret (s, w')))
                else ret (Inr (), w'))))"

section \<open>The rate of the channel-full log\<close>

definition channelFullLogInterval :: duration where
  "channelFullLogInterval = 30 * second"

text \<open>The decision to log, and the new \<open>nextChannelFullLog\<close>.\<close>

definition maybeLogChannelFull :: "time \<Rightarrow> time \<Rightarrow> bool \<times> time" where
  "maybeLogChannelFull nextLog now =
     (if nextLog = 0 \<or> nextLog < now then (True, now + channelFullLogInterval) else (False, nextLog))"

section \<open>What a change carries\<close>

text \<open>
  \<open>enqueue\<close> keeps the kind, namespace and name only. Two copies of one object are different
  pointers, which \<open>flushPending\<close> compares; \<open>cp_id\<close> is the pointer.
\<close>

record watch_target =
  tg_GVK :: gvk
  tg_Namespace :: string
  tg_Name :: string

record event_copy =
  cp_id :: nat
  cp_target :: watch_target

definition target_key :: "watch_target \<Rightarrow> string" where
  "target_key t = gvk_Group (tg_GVK t) @ ''/'' @ gvk_Version (tg_GVK t) @ ''/'' @ gvk_Kind (tg_GVK t)
     @ ''/'' @ tg_Namespace t @ ''/'' @ tg_Name t"

definition pendingKey :: "event_copy \<Rightarrow> string" where
  "pendingKey c = target_key (cp_target c)"

text \<open>What an informer hands to a handler.\<close>

datatype handler_obj =
    PtrUnstructured "unstructured option"
  | ValUnstructured unstructured
  | DeletedFinalStateUnknown "unstructured option"
  | PtrDeletedFinalStateUnknown "unstructured option"
  | OtherObject

definition extractUnstructured :: "handler_obj \<Rightarrow> unstructured option" where
  "extractUnstructured obj =
     (case obj of
        PtrUnstructured u \<Rightarrow> u
      | ValUnstructured u \<Rightarrow> Some u
      | DeletedFinalStateUnknown u \<Rightarrow> u
      | PtrDeletedFinalStateUnknown u \<Rightarrow> u
      | OtherObject \<Rightarrow> None)"

text \<open>The target an informer's object asks to be reconciled, if any.\<close>

definition watched_target :: "handler_obj \<Rightarrow> watch_target option" where
  "watched_target obj =
     (case extractUnstructured obj of
        None \<Rightarrow> None
      | Some u \<Rightarrow>
          if om_Namespace (un_meta u) = '''' then None
          else Some \<lparr>tg_GVK = un_GVK u, tg_Namespace = om_Namespace (un_meta u), tg_Name = om_Name (un_meta u)\<rparr>)"

section \<open>Delivery as a step relation\<close>

text \<open>Where the flusher goroutine is.\<close>

datatype flusher =
    FWaiting                      \<comment> \<open>in the select of flushLoop\<close>
  | FLooping                      \<comment> \<open>at the head of the loop of flushPending\<close>
  | FPicked string event_copy     \<comment> \<open>has read one pending entry, has not sent it\<close>
  | FSent string event_copy       \<comment> \<open>has sent it, has not deleted the entry\<close>
  | FStopped

text \<open>
  The shared state. \<open>ds_events\<close> is the buffer of the events channel, \<open>ds_inflight\<close> holds
  the copies of handlers that found it full and have not taken the mutex yet, \<open>ds_signals\<close>
  counts the handlers about to signal the flusher. \<open>ds_owed\<close> is not in the program: the keys
  notified since the controller last received one of their events.
\<close>

record delivery =
  ds_events :: "event_copy list"
  ds_inflight :: "event_copy list"
  ds_signals :: nat
  ds_pending :: "(string, event_copy) fmap"
  ds_flushCh :: bool
  ds_flusher :: flusher
  ds_next :: nat
  ds_owed :: "string set"

definition delivery_init :: delivery where
  "delivery_init = \<lparr>ds_events = [], ds_inflight = [], ds_signals = 0, ds_pending = fmempty,
     ds_flushCh = False, ds_flusher = FWaiting, ds_next = 0, ds_owed = {}\<rparr>"

definition fresh_copy :: "delivery \<Rightarrow> watch_target \<Rightarrow> event_copy" where
  "fresh_copy s t = \<lparr>cp_id = ds_next s, cp_target = t\<rparr>"

definition notified :: "delivery \<Rightarrow> watch_target \<Rightarrow> delivery" where
  "notified s t = s\<lparr>ds_next := ds_next s + 1, ds_owed := insert (target_key t) (ds_owed s)\<rparr>"

inductive dstep :: "nat \<Rightarrow> delivery \<Rightarrow> delivery \<Rightarrow> bool" for cap where
  enqueue_sent: "watched_target obj = Some t \<Longrightarrow> length (ds_events s) < cap \<Longrightarrow>
    dstep cap s ((notified s t)\<lparr>ds_events := ds_events s @ [fresh_copy s t]\<rparr>)"
| enqueue_full: "watched_target obj = Some t \<Longrightarrow> \<not> length (ds_events s) < cap \<Longrightarrow>
    dstep cap s ((notified s t)\<lparr>ds_inflight := ds_inflight s @ [fresh_copy s t]\<rparr>)"
| enqueue_pending: "ds_inflight s = xs @ c # ys \<Longrightarrow>
    dstep cap s (s\<lparr>ds_inflight := xs @ ys, ds_pending := fmupd (pendingKey c) c (ds_pending s),
                   ds_signals := ds_signals s + 1\<rparr>)"
| signal_flush: "ds_signals s = Suc n \<Longrightarrow>
    dstep cap s (s\<lparr>ds_signals := n, ds_flushCh := True\<rparr>)"
| flush_tick: "ds_flusher s = FWaiting \<Longrightarrow> dstep cap s (s\<lparr>ds_flusher := FLooping\<rparr>)"
| flush_signalled: "ds_flusher s = FWaiting \<Longrightarrow> ds_flushCh s \<Longrightarrow>
    dstep cap s (s\<lparr>ds_flusher := FLooping, ds_flushCh := False\<rparr>)"
| flush_stop: "ds_flusher s = FWaiting \<Longrightarrow> dstep cap s (s\<lparr>ds_flusher := FStopped\<rparr>)"
| flush_pick: "ds_flusher s = FLooping \<Longrightarrow> fmlookup (ds_pending s) k = Some c \<Longrightarrow>
    dstep cap s (s\<lparr>ds_flusher := FPicked k c\<rparr>)"
| flush_done: "ds_flusher s = FLooping \<Longrightarrow> ds_pending s = fmempty \<Longrightarrow>
    dstep cap s (s\<lparr>ds_flusher := FWaiting\<rparr>)"
| flush_send: "ds_flusher s = FPicked k c \<Longrightarrow> length (ds_events s) < cap \<Longrightarrow>
    dstep cap s (s\<lparr>ds_events := ds_events s @ [c], ds_flusher := FSent k c\<rparr>)"
| flush_full: "ds_flusher s = FPicked k c \<Longrightarrow> \<not> length (ds_events s) < cap \<Longrightarrow>
    dstep cap s (s\<lparr>ds_flusher := FWaiting\<rparr>)"
| flush_delete: "ds_flusher s = FSent k c \<Longrightarrow>
    dstep cap s (s\<lparr>ds_pending := (if fmlookup (ds_pending s) k = Some c then fmdrop k (ds_pending s)
                                   else ds_pending s),
                   ds_flusher := FLooping\<rparr>)"
| receive: "ds_events s = c # rest \<Longrightarrow>
    dstep cap s (s\<lparr>ds_events := rest, ds_owed := ds_owed s - {pendingKey c}\<rparr>)"

inductive_cases dstep_cases: "dstep cap s s'"

inductive reachable :: "nat \<Rightarrow> delivery \<Rightarrow> bool" for cap where
  init: "reachable cap delivery_init"
| step: "reachable cap s \<Longrightarrow> dstep cap s s' \<Longrightarrow> reachable cap s'"

section \<open>Facts\<close>

text \<open>The entry the flusher is working on.\<close>

definition flusher_copy :: "flusher \<Rightarrow> (string \<times> event_copy) option" where
  "flusher_copy f = (case f of FPicked k c \<Rightarrow> Some (k, c) | FSent k c \<Rightarrow> Some (k, c) | _ \<Rightarrow> None)"

lemma flusher_copy_simps [simp]:
  "flusher_copy FWaiting = None" "flusher_copy FLooping = None" "flusher_copy FStopped = None"
  "flusher_copy (FPicked k c) = Some (k, c)" "flusher_copy (FSent k c) = Some (k, c)"
  by (simp_all add: flusher_copy_def)

text \<open>Entries are stored under their own key.\<close>

definition well_keyed :: "delivery \<Rightarrow> bool" where
  "well_keyed s \<longleftrightarrow>
     (\<forall>k c. fmlookup (ds_pending s) k = Some c \<longrightarrow> k = pendingKey c) \<and>
     (\<forall>k c. flusher_copy (ds_flusher s) = Some (k, c) \<longrightarrow> k = pendingKey c)"

text \<open>A copy in the hands of a handler is no other copy.\<close>

definition fresh_ids :: "delivery \<Rightarrow> bool" where
  "fresh_ids s \<longleftrightarrow>
     distinct (map cp_id (ds_inflight s)) \<and>
     (\<forall>c \<in> set (ds_inflight s). cp_id c < ds_next s) \<and>
     (\<forall>k c. fmlookup (ds_pending s) k = Some c \<longrightarrow> cp_id c < ds_next s \<and> cp_id c \<notin> cp_id ` set (ds_inflight s)) \<and>
     (\<forall>k c. flusher_copy (ds_flusher s) = Some (k, c) \<longrightarrow> cp_id c < ds_next s \<and> cp_id c \<notin> cp_id ` set (ds_inflight s))"

text \<open>The keys on their way through a channel or a handler, and those of pending entries.\<close>

definition on_the_way :: "delivery \<Rightarrow> string set" where
  "on_the_way s = pendingKey ` set (ds_events s) \<union> pendingKey ` set (ds_inflight s)"

definition carried :: "delivery \<Rightarrow> string set" where
  "carried s = on_the_way s \<union> fset (fmdom (ds_pending s))"

text \<open>
  Every owed key is carried; and the entry the flusher is about to delete is not the only
  carrier of an owed key.
\<close>

definition owed_carried :: "delivery \<Rightarrow> bool" where
  "owed_carried s \<longleftrightarrow> ds_owed s \<subseteq> carried s \<and>
     (\<forall>k c. ds_flusher s = FSent k c \<and> fmlookup (ds_pending s) k = Some c \<and> k \<in> ds_owed s \<longrightarrow> k \<in> on_the_way s)"

definition delivery_inv :: "nat \<Rightarrow> delivery \<Rightarrow> bool" where
  "delivery_inv cap s \<longleftrightarrow>
     length (ds_events s) \<le> cap \<and> well_keyed s \<and> fresh_ids s \<and> owed_carried s"

lemma pendingKey_fresh [simp]: "pendingKey (fresh_copy s t) = target_key t"
  by (simp add: pendingKey_def fresh_copy_def)

lemma bounded_step: "dstep cap s s' \<Longrightarrow> length (ds_events s) \<le> cap \<Longrightarrow> length (ds_events s') \<le> cap"
  by (cases rule: dstep.cases) (auto simp: notified_def)

lemma well_keyed_step: "dstep cap s s' \<Longrightarrow> well_keyed s \<Longrightarrow> well_keyed s'"
  by (cases rule: dstep.cases) (auto simp: well_keyed_def notified_def split: if_splits)

lemma fresh_ids_step:
  assumes "dstep cap s s'" "fresh_ids s"
  shows "fresh_ids s'"
  using assms
proof (cases rule: dstep.cases)
  case (enqueue_full obj t)
  then show ?thesis using assms(2)
    by (fastforce simp: fresh_ids_def notified_def fresh_copy_def)
next
  case (enqueue_pending xs c ys)
  then show ?thesis using assms(2)
    by (auto simp: fresh_ids_def split: if_splits)
next
  case (enqueue_sent obj t)
  then show ?thesis using assms(2) by (fastforce simp: fresh_ids_def notified_def)
qed (auto simp: fresh_ids_def split: if_splits)

lemma owed_carried_step:
  assumes "dstep cap s s'" "owed_carried s" "fresh_ids s" "well_keyed s"
  shows "owed_carried s'"
  using assms(1)
proof (cases rule: dstep.cases)
  case (enqueue_sent obj t)
  then show ?thesis using assms(2)
    by (auto simp: owed_carried_def carried_def on_the_way_def notified_def)
next
  case (enqueue_full obj t)
  then show ?thesis using assms(2)
    by (auto simp: owed_carried_def carried_def on_the_way_def notified_def)
next
  case (enqueue_pending xs c ys)
  have other: "c \<noteq> d" if "ds_flusher s = FSent k d" for k d
    using assms(3) that enqueue_pending by (auto simp: fresh_ids_def)
  show ?thesis using assms(2) other
    unfolding enqueue_pending owed_carried_def carried_def on_the_way_def
    by (auto simp: enqueue_pending)
next
  case (flush_send k c)
  then show ?thesis using assms(2,4)
    by (auto simp: owed_carried_def carried_def on_the_way_def well_keyed_def)
next
  case (flush_delete k c)
  then show ?thesis using assms(2)
    by (auto simp: owed_carried_def carried_def on_the_way_def)
next
  case (receive c rest)
  then show ?thesis using assms(2)
    by (auto simp: owed_carried_def carried_def on_the_way_def)
qed (use assms(2) in \<open>auto simp: owed_carried_def carried_def on_the_way_def\<close>)

lemma delivery_inv_step: "dstep cap s s' \<Longrightarrow> delivery_inv cap s \<Longrightarrow> delivery_inv cap s'"
  unfolding delivery_inv_def
  using bounded_step well_keyed_step fresh_ids_step owed_carried_step by blast

lemma delivery_inv_init: "delivery_inv cap delivery_init"
  by (simp add: delivery_inv_def delivery_init_def well_keyed_def fresh_ids_def owed_carried_def)

lemma reachable_inv: "reachable cap s \<Longrightarrow> delivery_inv cap s"
  by (induction rule: reachable.induct) (auto intro: delivery_inv_init delivery_inv_step)

section \<open>Draining\<close>

text \<open>The steps of the flusher, the handlers and the controller, without a new change or a stop.\<close>

abbreviation dsteps :: "nat \<Rightarrow> delivery \<Rightarrow> delivery \<Rightarrow> bool" where
  "dsteps cap \<equiv> (dstep cap)\<^sup>*\<^sup>*"

lemma dsteps_inv: "dsteps cap s s' \<Longrightarrow> delivery_inv cap s \<Longrightarrow> delivery_inv cap s'"
  by (induction rule: rtranclp_induct) (auto intro: delivery_inv_step)

lemma drain_inflight:
  "\<exists>s'. dsteps cap s s' \<and> ds_inflight s' = [] \<and> ds_flusher s' = ds_flusher s"
proof (induction "ds_inflight s" arbitrary: s)
  case Nil
  then show ?case by (intro exI [of _ s]) simp
next
  case (Cons c xs)
  let ?s = "s\<lparr>ds_inflight := xs, ds_pending := fmupd (pendingKey c) c (ds_pending s),
              ds_signals := ds_signals s + 1\<rparr>"
  have "dstep cap s ?s"
    using dstep.enqueue_pending [of s "[]" c xs cap] Cons.hyps(2) by simp
  moreover obtain s' where "dsteps cap ?s s'" "ds_inflight s' = []" "ds_flusher s' = ds_flusher ?s"
    using Cons.hyps(1) [of ?s] by auto
  ultimately show ?case by (intro exI [of _ s']) (simp add: converse_rtranclp_into_rtranclp)
qed

lemma drain_events:
  "\<exists>s'. dsteps cap s s' \<and> ds_events s' = [] \<and> ds_inflight s' = ds_inflight s \<and>
     ds_flusher s' = ds_flusher s \<and> ds_pending s' = ds_pending s"
proof (induction "ds_events s" arbitrary: s)
  case Nil
  then show ?case by (intro exI [of _ s]) simp
next
  case (Cons c rest)
  let ?s = "s\<lparr>ds_events := rest, ds_owed := ds_owed s - {pendingKey c}\<rparr>"
  have "dstep cap s ?s" using dstep.receive [of s c rest cap] Cons.hyps(2) by simp
  moreover obtain s' where "dsteps cap ?s s'" "ds_events s' = []" "ds_inflight s' = ds_inflight ?s"
      "ds_flusher s' = ds_flusher ?s" "ds_pending s' = ds_pending ?s"
    using Cons.hyps(1) [of ?s] by auto
  ultimately show ?case by (intro exI [of _ s']) (simp add: converse_rtranclp_into_rtranclp)
qed

definition quiet :: "delivery \<Rightarrow> bool" where
  "quiet s \<longleftrightarrow> ds_events s = [] \<and> ds_inflight s = [] \<and> ds_flusher s = FLooping"

lemma quiet_start:
  assumes "ds_flusher s \<noteq> FStopped" "0 < cap"
  shows "\<exists>s'. dsteps cap s s' \<and> quiet s'"
proof -
  obtain s1 where s1: "dsteps cap s s1" "ds_inflight s1 = []" "ds_flusher s1 = ds_flusher s"
    using drain_inflight by blast
  obtain s2 where s2: "dsteps cap s1 s2" "ds_events s2 = []" "ds_inflight s2 = ds_inflight s1"
      "ds_flusher s2 = ds_flusher s1"
    using drain_events by blast
  have "\<exists>s3. dsteps cap s2 s3 \<and> ds_flusher s3 = FLooping \<and> ds_inflight s3 = []"
  proof (cases "ds_flusher s2")
    case FWaiting
    then have "dstep cap s2 (s2\<lparr>ds_flusher := FLooping\<rparr>)" by (rule dstep.flush_tick)
    then show ?thesis using s1 s2 by (intro exI [of _ "s2\<lparr>ds_flusher := FLooping\<rparr>"]) auto
  next
    case FLooping
    then show ?thesis using s1 s2 by (intro exI [of _ s2]) auto
  next
    case (FPicked k c)
    let ?a = "s2\<lparr>ds_events := ds_events s2 @ [c], ds_flusher := FSent k c\<rparr>"
    have "dstep cap s2 ?a" using FPicked assms(2) s2(2) by (intro dstep.flush_send) simp_all
    moreover have "dstep cap ?a (?a\<lparr>ds_pending := (if fmlookup (ds_pending ?a) k = Some c
        then fmdrop k (ds_pending ?a) else ds_pending ?a), ds_flusher := FLooping\<rparr>)" (is "dstep _ _ ?b")
      by (intro dstep.flush_delete) simp
    ultimately show ?thesis using s1 s2
      by (intro exI [of _ ?b]) (auto intro: converse_rtranclp_into_rtranclp)
  next
    case (FSent k c)
    then have "dstep cap s2 (s2\<lparr>ds_pending := (if fmlookup (ds_pending s2) k = Some c
        then fmdrop k (ds_pending s2) else ds_pending s2), ds_flusher := FLooping\<rparr>)" (is "dstep _ _ ?b")
      by (rule dstep.flush_delete)
    then show ?thesis using s1 s2 by (intro exI [of _ ?b]) auto
  next
    case FStopped
    then show ?thesis using assms(1) s1 s2 by simp
  qed
  then obtain s3 where s3: "dsteps cap s2 s3" "ds_flusher s3 = FLooping" "ds_inflight s3 = []" by blast
  obtain s4 where "dsteps cap s3 s4" "ds_events s4 = []" "ds_inflight s4 = []" "ds_flusher s4 = FLooping"
    using drain_events s3 by metis
  then show ?thesis using s1(1) s2(1) s3(1) unfolding quiet_def by (meson rtranclp_trans)
qed

text \<open>One turn of the flusher's loop on an empty channel delivers one pending entry.\<close>

lemma quiet_turn:
  assumes "quiet s" "0 < cap" "fmlookup (ds_pending s) k = Some c"
  shows "\<exists>s'. dsteps cap s s' \<and> quiet s' \<and> ds_pending s' = fmdrop k (ds_pending s)"
proof -
  let ?a = "s\<lparr>ds_flusher := FPicked k c\<rparr>"
  let ?b = "?a\<lparr>ds_events := ds_events ?a @ [c], ds_flusher := FSent k c\<rparr>"
  let ?c = "?b\<lparr>ds_pending := (if fmlookup (ds_pending ?b) k = Some c then fmdrop k (ds_pending ?b)
     else ds_pending ?b), ds_flusher := FLooping\<rparr>"
  have "dstep cap s ?a" using assms by (intro dstep.flush_pick) (auto simp: quiet_def)
  moreover have "dstep cap ?a ?b" using assms by (intro dstep.flush_send) (auto simp: quiet_def)
  moreover have "dstep cap ?b ?c" by (intro dstep.flush_delete) simp
  ultimately have abc: "dsteps cap s ?c" by (meson converse_rtranclp_into_rtranclp r_into_rtranclp)
  obtain s' where s': "dsteps cap ?c s'" "ds_events s' = []" "ds_inflight s' = ds_inflight ?c"
      "ds_flusher s' = ds_flusher ?c" "ds_pending s' = ds_pending ?c"
    using drain_events by blast
  then have "quiet s'" "ds_pending s' = fmdrop k (ds_pending s)"
    using assms by (auto simp: quiet_def)
  then show ?thesis using abc s'(1) by (meson rtranclp_trans)
qed

lemma quiet_drain:
  assumes "0 < cap"
  shows "quiet s \<Longrightarrow> \<exists>s'. dsteps cap s s' \<and> quiet s' \<and> ds_pending s' = fmempty"
proof (induction "fcard (fmdom (ds_pending s))" arbitrary: s rule: less_induct)
  case less
  show ?case
  proof (cases "ds_pending s = fmempty")
    case True
    then show ?thesis using less.prems by blast
  next
    case False
    then obtain k c where kc: "fmlookup (ds_pending s) k = Some c"
      by (metis fmap_ext fmempty_lookup not_None_eq)
    obtain s1 where s1: "dsteps cap s s1" "quiet s1" "ds_pending s1 = fmdrop k (ds_pending s)"
      using quiet_turn [OF less.prems assms kc] by blast
    have "k |\<in>| fmdom (ds_pending s)" using kc by (simp add: fmdomI)
    then have "fcard (fmdom (ds_pending s1)) < fcard (fmdom (ds_pending s))"
      unfolding s1(3) fmdom_drop by (rule fcard_fminus1_less)
    then show ?thesis using less.hyps s1 by (meson rtranclp_trans)
  qed
qed

section \<open>Properties\<close>


text \<open>
  Everything notified can be delivered: from every reachable state whose flusher has not
  been stopped, and with a channel that can hold at least one event, the steps of the handlers,
  the flusher and the controller alone reach a state in which no object is owed and nothing is
  pending.
\<close>

theorem everything_delivered:
  assumes "reachable cap s" "0 < cap" "ds_flusher s \<noteq> FStopped"
  shows "\<exists>s'. (dstep cap)\<^sup>*\<^sup>* s s' \<and> ds_owed s' = {} \<and> ds_pending s' = fmempty \<and>
     ds_events s' = [] \<and> ds_inflight s' = []"
proof -
  obtain s1 where s1: "dsteps cap s s1" "quiet s1" using quiet_start assms by blast
  obtain s2 where s2: "dsteps cap s1 s2" "quiet s2" "ds_pending s2 = fmempty"
    using quiet_drain assms(2) s1(2) by blast
  have run: "dsteps cap s s2" using s1(1) s2(1) by simp
  then have "delivery_inv cap s2" using dsteps_inv reachable_inv [OF assms(1)] by blast
  then have "ds_owed s2 \<subseteq> {}"
    using s2 by (simp add: delivery_inv_def owed_carried_def carried_def on_the_way_def quiet_def)
  then show ?thesis using run s2 by (auto simp: quiet_def)
qed

text \<open>
  A handler is registered at most once per resource: a resource that is already watched is
  never given a second handler and stays watched, and a call that returns without an error
  leaves the resource of the kind watched.
\<close>

theorem EnsureWatch_once:
  assumes "run_state (EnsureWatch env w g) h = ((r, w'), h')" "distinct (wa_informers w)"
  shows "distinct (wa_informers w') \<and> set (wa_informers w) \<subseteq> set (wa_informers w') \<and>
    (\<forall>v. v \<in> set (wa_informers w) \<longrightarrow>
       count_list h' (AddEventHandler v) = count_list h (AddEventHandler v)) \<and>
    (r = Inr () \<longrightarrow> (\<exists>v h''. run_state (resolveGVR env g) h = (Inr v, h'') \<and> v \<in> set (wa_informers w')))"
proof -
  obtain rv h1 where res: "run_state (resolveGVR env g) h = (rv, h1)" by fastforce
  have same: "count_list h1 (AddEventHandler v) = count_list h (AddEventHandler v)" for v
    using res by (auto simp: resolveGVR_def Let_def split: if_splits option.splits)
  show ?thesis
    using assms res same
    by (auto simp: EnsureWatch_def waitForCacheSync_def Let_def split: if_splits sum.splits option.splits)
qed

text \<open>
  The channel-full message is logged at most once in 30 seconds: after it is logged at
  \<open>now\<close>, it is not logged again at any time up to \<open>now\<close> plus the interval.
\<close>

theorem channel_full_log_rate:
  assumes "maybeLogChannelFull nextLog now = (True, nextLog')" "0 \<le> now" "now' \<le> now + channelFullLogInterval"
  shows "maybeLogChannelFull nextLog' now' = (False, nextLog')"
  using assms by (auto simp: maybeLogChannelFull_def channelFullLogInterval_def second_def split: if_splits)

section \<open>Witnesses\<close>

definition demo_watched :: unstructured where
  "demo_watched = new_unstructured \<lparr>gvk_Group = ''g'', gvk_Version = ''v1'', gvk_Kind = ''K''\<rparr> ''ns'' ''n''"

definition demo_target :: watch_target where
  "demo_target = \<lparr>tg_GVK = \<lparr>gvk_Group = ''g'', gvk_Version = ''v1'', gvk_Kind = ''K''\<rparr>,
     tg_Namespace = ''ns'', tg_Name = ''n''\<rparr>"

lemma demo_watched_target: "watched_target (PtrUnstructured (Some demo_watched)) = Some demo_target"
  by (simp add: watched_target_def extractUnstructured_def demo_watched_def new_unstructured_def
      new_meta_def demo_target_def)

definition demo_delivery :: delivery where
  "demo_delivery = (notified delivery_init demo_target)
     \<lparr>ds_events := ds_events delivery_init @ [fresh_copy delivery_init demo_target]\<rparr>"

lemma demo_reachable: "reachable 1 demo_delivery"
proof -
  have "dstep 1 delivery_init demo_delivery"
    unfolding demo_delivery_def
    by (rule dstep.enqueue_sent [OF demo_watched_target]) (simp add: delivery_init_def)
  then show ?thesis by (rule reachable.step [OF reachable.init])
qed


theorem everything_delivered_witness:
  "\<exists>s'. (dstep 1)\<^sup>*\<^sup>* demo_delivery s' \<and> ds_owed s' = {} \<and> ds_pending s' = fmempty"
proof -
  have "ds_flusher demo_delivery \<noteq> FStopped"
    by (simp add: demo_delivery_def notified_def delivery_init_def)
  then show ?thesis using everything_delivered [OF demo_reachable] by auto
qed

definition demo_watch_env :: watch_env where
  "demo_watch_env = \<lparr>we_mapper = None,
     we_guess = (\<lambda>g. \<lparr>gvr_Group = gvk_Group g, gvr_Version = gvk_Version g, gvr_Resource = gvk_Kind g @ ''s''\<rparr>),
     we_gvk_string = gvk_Kind, we_addHandler = (\<lambda>_ _. None), we_synced = (\<lambda>_ _. True)\<rparr>"

theorem EnsureWatch_once_witness:
  "distinct (wa_informers (snd (fst (run_state (EnsureWatch demo_watch_env new_watcher (un_GVK demo_watched)) []))))"
proof -
  have "distinct (wa_informers new_watcher)" by (simp add: new_watcher_def)
  then show ?thesis
    using EnsureWatch_once [of demo_watch_env new_watcher "un_GVK demo_watched" "[]"]
    by (metis prod.collapse)
qed

theorem channel_full_log_rate_witness:
  "maybeLogChannelFull (7 + channelFullLogInterval) 9 = (False, 7 + channelFullLogInterval)"
  by (rule channel_full_log_rate [of 0 7])
     (simp_all add: maybeLogChannelFull_def channelFullLogInterval_def second_def)

end
