(* ===== verification/ApiTypes.thy ===== *)
theory ApiTypes
  imports K8sModel Endpoint
begin

text \<open>
  The custom resources of \<open>api/v1alpha1\<close> and \<open>api/infrastructure/v1alpha1\<close>. A pointer
  to a struct or a scalar is an \<open>option\<close>; an \<open>apiextensionsv1.JSON\<close> is its raw bytes. The
  kubeadm bootstrap types are Cluster API's; the fields no code of the program touches are the
  one field \<open>kb_rest\<close>.
\<close>

section \<open>Shared parts\<close>

record rgd_reference =
  rr_Name :: string

record bootstrap_file =
  bf_Path :: string
  bf_Owner :: string
  bf_Permissions :: string
  bf_Content :: string

record kubeadm_config_spec =
  kb_ControlPlaneEndpoint :: string
  kb_CertificatesDir :: string
  kb_BindPort :: "32 word"
  kb_Files :: "bootstrap_file list"
  kb_rest :: doc

record machine_template =
  mt_InfrastructureRef :: contract_ref

section \<open>Kany8sControlPlane\<close>

record Kany8sControlPlaneKubeadmSpec =
  ks_Replicas :: "32 word option"
  ks_MachineTemplate :: machine_template
  ks_KubeadmConfigSpec :: "kubeadm_config_spec option"

record Kany8sControlPlaneExternalBackendSpec =
  xs_APIVersion :: string
  xs_Kind :: string
  xs_Spec :: "string option"

record Kany8sControlPlaneSpec =
  cs_Replicas :: "32 word option"
  cs_Version :: string
  cs_ResourceGraphDefinitionRef :: "rgd_reference option"
  cs_KroSpec :: "string option"
  cs_Kubeadm :: "Kany8sControlPlaneKubeadmSpec option"
  cs_ExternalBackend :: "Kany8sControlPlaneExternalBackendSpec option"
  cs_ControlPlaneEndpoint :: APIEndpoint

record Kany8sControlPlaneStatus =
  ct_Version :: string
  ct_ControlPlaneInitialized :: bool
  ct_Conditions :: "condition list"
  ct_FailureReason :: "string option"
  ct_FailureMessage :: "string option"

record Kany8sControlPlane =
  cp_meta :: obj_meta
  cp_Spec :: Kany8sControlPlaneSpec
  cp_Status :: Kany8sControlPlaneStatus

definition ControlPlaneGroupVersion :: "string \<times> string" where
  "ControlPlaneGroupVersion = (''controlplane.cluster.x-k8s.io'', ''v1alpha1'')"

definition ControlPlaneWithKind :: "string \<Rightarrow> gvk" where
  "ControlPlaneWithKind kind = \<lparr>gvk_Group = fst ControlPlaneGroupVersion,
     gvk_Version = snd ControlPlaneGroupVersion, gvk_Kind = kind\<rparr>"

section \<open>Kany8sControlPlaneTemplate\<close>

record Kany8sControlPlaneTemplateResourceSpec =
  ts_ResourceGraphDefinitionRef :: "rgd_reference option"
  ts_KroSpec :: "string option"
  ts_Kubeadm :: "Kany8sControlPlaneKubeadmSpec option"
  ts_ExternalBackend :: "Kany8sControlPlaneExternalBackendSpec option"

text \<open>\<open>spec.template\<close> of the template: the metadata given to the copies, and their spec.\<close>

record Kany8sControlPlaneTemplateResource =
  tr_Labels :: str_map
  tr_Annotations :: str_map
  tr_Spec :: Kany8sControlPlaneTemplateResourceSpec

record Kany8sControlPlaneTemplate =
  tp_meta :: obj_meta
  tp_Template :: Kany8sControlPlaneTemplateResource

section \<open>Kany8sKubeadmControlPlane\<close>

record Kany8sKubeadmControlPlaneSpec =
  kp_Version :: string
  kp_Replicas :: "32 word option"
  kp_MachineTemplate :: machine_template
  kp_KubeadmConfigSpec :: "kubeadm_config_spec option"
  kp_ControlPlaneEndpoint :: APIEndpoint

record Kany8sKubeadmControlPlaneStatus =
  kt_Version :: string
  kt_ControlPlaneInitialized :: bool
  kt_Conditions :: "condition list"
  kt_FailureReason :: "string option"
  kt_FailureMessage :: "string option"

record Kany8sKubeadmControlPlane =
  kcp_meta :: obj_meta
  kcp_Spec :: Kany8sKubeadmControlPlaneSpec
  kcp_Status :: Kany8sKubeadmControlPlaneStatus

section \<open>Kany8sCluster\<close>

record Kany8sClusterSpec =
  is_ResourceGraphDefinitionRef :: "rgd_reference option"
  is_KroSpec :: "string option"

record Kany8sClusterStatus =
  it_Provisioned :: bool
  it_Conditions :: "condition list"
  it_FailureReason :: "string option"
  it_FailureMessage :: "string option"

record Kany8sCluster =
  kc_meta :: obj_meta
  kc_Spec :: Kany8sClusterSpec
  kc_Status :: Kany8sClusterStatus

definition InfrastructureWithKind :: "string \<Rightarrow> gvk" where
  "InfrastructureWithKind kind = \<lparr>gvk_Group = ''infrastructure.cluster.x-k8s.io'',
     gvk_Version = ''v1alpha1'', gvk_Kind = kind\<rparr>"

section \<open>An example object\<close>

definition demo_cp_spec :: Kany8sControlPlaneSpec where
  "demo_cp_spec = \<lparr>cs_Replicas = None, cs_Version = ''v1.34.0'',
     cs_ResourceGraphDefinitionRef = Some \<lparr>rr_Name = ''rgd''\<rparr>, cs_KroSpec = None, cs_Kubeadm = None,
     cs_ExternalBackend = None, cs_ControlPlaneEndpoint = no_endpoint\<rparr>"

definition demo_cp :: Kany8sControlPlane where
  "demo_cp = \<lparr>cp_meta = new_meta ''ns'' ''demo'', cp_Spec = demo_cp_spec,
     cp_Status = \<lparr>ct_Version = '''', ct_ControlPlaneInitialized = False, ct_Conditions = [],
       ct_FailureReason = None, ct_FailureMessage = None\<rparr>\<rparr>"

end
