(* ===== verification/Webhook.thy ===== *)
theory Webhook
  imports ApiTypes
begin

text \<open>
  The validating webhooks of \<open>Kany8sControlPlane\<close> and \<open>Kany8sControlPlaneTemplate\<close>
  (\<open>api/v1alpha1/*_webhook.go\<close>): exactly one backend, and its type never changes.

  The choice of a backend is written three times in the program (two webhooks and the
  controller); \<open>backend_selector\<close> is what the three promise.
\<close>

section \<open>The interface\<close>

text \<open>The choice as a table over the three pointers.\<close>

definition backend_table :: "string \<Rightarrow> bool \<Rightarrow> bool \<Rightarrow> bool \<Rightarrow> string \<times> int" where
  "backend_table none k ka e =
     (if k \<and> \<not> ka \<and> \<not> e then (''kro'', 1)
      else if \<not> k \<and> ka \<and> \<not> e then (''kubeadm'', 1)
      else if \<not> k \<and> \<not> ka \<and> e then (''external'', 1)
      else (none, of_bool k + of_bool ka + of_bool e))"

locale backend_selector =
  fixes select :: "'spec \<Rightarrow> string \<times> int"
    and kro :: "'spec \<Rightarrow> bool" and kubeadm :: "'spec \<Rightarrow> bool" and external :: "'spec \<Rightarrow> bool"
    and none :: string
  assumes count: "snd (select s) = of_bool (kro s) + of_bool (kubeadm s) + of_bool (external s)"
    and several: "snd (select s) \<noteq> 1 \<Longrightarrow> fst (select s) = none"
    and single_kro: "snd (select s) = 1 \<Longrightarrow> kro s \<Longrightarrow> fst (select s) = ''kro''"
    and single_kubeadm: "snd (select s) = 1 \<Longrightarrow> kubeadm s \<Longrightarrow> fst (select s) = ''kubeadm''"
    and single_external: "snd (select s) = 1 \<Longrightarrow> external s \<Longrightarrow> fst (select s) = ''external''"
    and none_other: "none \<notin> {''kro'', ''kubeadm'', ''external''}"
begin

lemma count_range: "0 \<le> snd (select s) \<and> snd (select s) \<le> 3"
  by (simp add: count)

lemma table: "select s = backend_table none (kro s) (kubeadm s) (external s)"
  using count [of s] several [of s] single_kro [of s] single_kubeadm [of s] single_external [of s]
  by (cases "kro s"; cases "kubeadm s"; cases "external s") (simp_all add: backend_table_def prod_eq_iff)

lemma one_iff:
  "snd (select s) = 1 \<longleftrightarrow>
     kro s \<and> \<not> kubeadm s \<and> \<not> external s \<or> \<not> kro s \<and> kubeadm s \<and> \<not> external s \<or>
     \<not> kro s \<and> \<not> kubeadm s \<and> external s"
  by (cases "kro s"; cases "kubeadm s"; cases "external s") (simp_all add: table backend_table_def)

lemma selects:
  "fst (select s) = ''kro'' \<longleftrightarrow> kro s \<and> \<not> kubeadm s \<and> \<not> external s"
  "fst (select s) = ''kubeadm'' \<longleftrightarrow> \<not> kro s \<and> kubeadm s \<and> \<not> external s"
  "fst (select s) = ''external'' \<longleftrightarrow> \<not> kro s \<and> \<not> kubeadm s \<and> external s"
  using none_other by (simp_all add: table backend_table_def)

lemma none_iff: "fst (select s) = none \<longleftrightarrow> snd (select s) \<noteq> 1"
  using none_other
  by (cases "kro s"; cases "kubeadm s"; cases "external s") (auto simp: table backend_table_def)

end

section \<open>Errors\<close>

type_synonym backend_summary = "(string \<times> bool) list"

datatype field_error =
    FieldInvalid "string list" backend_summary string
  | FieldForbidden "string list" string

text \<open>The arguments of \<open>apierrors.NewInvalid\<close>: the kind, the name and the list of errors.\<close>

record invalid_error =
  ie_Kind :: string
  ie_Name :: string
  ie_Errors :: "field_error list"

section \<open>Kany8sControlPlane\<close>

definition selectedKany8sControlPlaneBackend :: "Kany8sControlPlaneSpec \<Rightarrow> string \<times> int" where
  "selectedKany8sControlPlaneBackend spec =
     (let (count0, sel0) = (0, ''none'');
          (count1, sel1) = (if cs_ResourceGraphDefinitionRef spec \<noteq> None then (count0 + 1, ''kro'') else (count0, sel0));
          (count2, sel2) = (if cs_Kubeadm spec \<noteq> None then (count1 + 1, ''kubeadm'') else (count1, sel1));
          (count, sel) = (if cs_ExternalBackend spec \<noteq> None then (count2 + 1, ''external'') else (count2, sel2))
      in if count \<noteq> 1 then (''none'', count) else (sel, count))"

definition backendSelectionSummary :: "Kany8sControlPlaneSpec \<Rightarrow> backend_summary" where
  "backendSelectionSummary spec =
     [(''resourceGraphDefinitionRef'', cs_ResourceGraphDefinitionRef spec \<noteq> None),
      (''kubeadm'', cs_Kubeadm spec \<noteq> None),
      (''externalBackend'', cs_ExternalBackend spec \<noteq> None)]"

definition immutable_message :: "string \<Rightarrow> string \<Rightarrow> string" where
  "immutable_message old new =
     ''backend type is immutable (from '' @ quote old @ '' to '' @ quote new @ '')''"

definition new_invalid :: "string \<Rightarrow> string \<Rightarrow> field_error list \<Rightarrow> invalid_error option" where
  "new_invalid kind name errs =
     (if errs = [] then None else Some \<lparr>ie_Kind = kind, ie_Name = name, ie_Errors = errs\<rparr>)"

definition validateKany8sControlPlaneSpecOnCreate :: "Kany8sControlPlane \<Rightarrow> invalid_error option" where
  "validateKany8sControlPlaneSpecOnCreate obj =
     (let errs = (if snd (selectedKany8sControlPlaneBackend (cp_Spec obj)) \<noteq> 1
          then [FieldInvalid [''spec''] (backendSelectionSummary (cp_Spec obj)) ''exactly one backend must be selected'']
          else [])
      in new_invalid ''Kany8sControlPlane'' (om_Name (cp_meta obj)) errs)"

definition validateKany8sControlPlaneSpecOnUpdate ::
    "Kany8sControlPlane \<Rightarrow> Kany8sControlPlane \<Rightarrow> invalid_error option" where
  "validateKany8sControlPlaneSpecOnUpdate oldObj newObj =
     (let (oldSelection, oldCount) = selectedKany8sControlPlaneBackend (cp_Spec oldObj);
          (newSelection, newCount) = selectedKany8sControlPlaneBackend (cp_Spec newObj);
          e1 = (if newCount \<noteq> 1
            then [FieldInvalid [''spec''] (backendSelectionSummary (cp_Spec newObj)) ''exactly one backend must be selected'']
            else []);
          e2 = (if oldCount = 1 \<and> newCount = 1 \<and> oldSelection \<noteq> newSelection
            then [FieldForbidden [''spec''] (immutable_message oldSelection newSelection)] else [])
      in new_invalid ''Kany8sControlPlane'' (om_Name (cp_meta newObj)) (e1 @ e2))"

text \<open>The admission entry points; a nil object is admitted, and so is every deletion.\<close>

definition cp_ValidateCreate :: "Kany8sControlPlane option \<Rightarrow> invalid_error option" where
  "cp_ValidateCreate obj =
     (case obj of None \<Rightarrow> None | Some o' \<Rightarrow> validateKany8sControlPlaneSpecOnCreate o')"

definition cp_ValidateUpdate ::
    "Kany8sControlPlane option \<Rightarrow> Kany8sControlPlane option \<Rightarrow> invalid_error option" where
  "cp_ValidateUpdate oldObj newObj =
     (case (oldObj, newObj) of
        (Some a, Some b) \<Rightarrow> validateKany8sControlPlaneSpecOnUpdate a b
      | _ \<Rightarrow> None)"

definition cp_ValidateDelete :: "Kany8sControlPlane option \<Rightarrow> invalid_error option" where
  "cp_ValidateDelete obj = None"

section \<open>Kany8sControlPlaneTemplate\<close>

definition selectedKany8sControlPlaneTemplateBackend :: "Kany8sControlPlaneTemplateResourceSpec \<Rightarrow> string \<times> int" where
  "selectedKany8sControlPlaneTemplateBackend spec =
     (let (count0, sel0) = (0, ''none'');
          (count1, sel1) = (if ts_ResourceGraphDefinitionRef spec \<noteq> None then (count0 + 1, ''kro'') else (count0, sel0));
          (count2, sel2) = (if ts_Kubeadm spec \<noteq> None then (count1 + 1, ''kubeadm'') else (count1, sel1));
          (count, sel) = (if ts_ExternalBackend spec \<noteq> None then (count2 + 1, ''external'') else (count2, sel2))
      in if count \<noteq> 1 then (''none'', count) else (sel, count))"

definition backendSelectionSummaryForTemplate :: "Kany8sControlPlaneTemplateResourceSpec \<Rightarrow> backend_summary" where
  "backendSelectionSummaryForTemplate spec =
     [(''resourceGraphDefinitionRef'', ts_ResourceGraphDefinitionRef spec \<noteq> None),
      (''kubeadm'', ts_Kubeadm spec \<noteq> None),
      (''externalBackend'', ts_ExternalBackend spec \<noteq> None)]"

definition template_path :: "string list" where
  "template_path = [''spec'', ''template'', ''spec'']"

definition tp_Spec :: "Kany8sControlPlaneTemplate \<Rightarrow> Kany8sControlPlaneTemplateResourceSpec" where
  "tp_Spec obj = tr_Spec (tp_Template obj)"

definition validateKany8sControlPlaneTemplateSpecOnCreate :: "Kany8sControlPlaneTemplate \<Rightarrow> invalid_error option" where
  "validateKany8sControlPlaneTemplateSpecOnCreate obj =
     (let errs = (if snd (selectedKany8sControlPlaneTemplateBackend (tp_Spec obj)) \<noteq> 1
          then [FieldInvalid template_path (backendSelectionSummaryForTemplate (tp_Spec obj)) ''exactly one backend must be selected'']
          else [])
      in new_invalid ''Kany8sControlPlaneTemplate'' (om_Name (tp_meta obj)) errs)"

definition validateKany8sControlPlaneTemplateSpecOnUpdate ::
    "Kany8sControlPlaneTemplate \<Rightarrow> Kany8sControlPlaneTemplate \<Rightarrow> invalid_error option" where
  "validateKany8sControlPlaneTemplateSpecOnUpdate oldObj newObj =
     (let (oldSelection, oldCount) = selectedKany8sControlPlaneTemplateBackend (tp_Spec oldObj);
          (newSelection, newCount) = selectedKany8sControlPlaneTemplateBackend (tp_Spec newObj);
          e1 = (if newCount \<noteq> 1
            then [FieldInvalid template_path (backendSelectionSummaryForTemplate (tp_Spec newObj)) ''exactly one backend must be selected'']
            else []);
          e2 = (if oldCount = 1 \<and> newCount = 1 \<and> oldSelection \<noteq> newSelection
            then [FieldForbidden template_path (immutable_message oldSelection newSelection)] else [])
      in new_invalid ''Kany8sControlPlaneTemplate'' (om_Name (tp_meta newObj)) (e1 @ e2))"

definition tp_ValidateCreate :: "Kany8sControlPlaneTemplate option \<Rightarrow> invalid_error option" where
  "tp_ValidateCreate obj =
     (case obj of None \<Rightarrow> None | Some o' \<Rightarrow> validateKany8sControlPlaneTemplateSpecOnCreate o')"

definition tp_ValidateUpdate ::
    "Kany8sControlPlaneTemplate option \<Rightarrow> Kany8sControlPlaneTemplate option \<Rightarrow> invalid_error option" where
  "tp_ValidateUpdate oldObj newObj =
     (case (oldObj, newObj) of
        (Some a, Some b) \<Rightarrow> validateKany8sControlPlaneTemplateSpecOnUpdate a b
      | _ \<Rightarrow> None)"

definition tp_ValidateDelete :: "Kany8sControlPlaneTemplate option \<Rightarrow> invalid_error option" where
  "tp_ValidateDelete obj = None"

section \<open>The interface holds of both\<close>

definition cp_kro :: "Kany8sControlPlaneSpec \<Rightarrow> bool" where
  "cp_kro s \<longleftrightarrow> cs_ResourceGraphDefinitionRef s \<noteq> None"

definition cp_kubeadm :: "Kany8sControlPlaneSpec \<Rightarrow> bool" where
  "cp_kubeadm s \<longleftrightarrow> cs_Kubeadm s \<noteq> None"

definition cp_external :: "Kany8sControlPlaneSpec \<Rightarrow> bool" where
  "cp_external s \<longleftrightarrow> cs_ExternalBackend s \<noteq> None"

lemma backend_table_selector:
  assumes "\<And>s. select s = backend_table none (k s) (ka s) (e s)"
    and "none \<notin> {''kro'', ''kubeadm'', ''external''}"
  shows "backend_selector select k ka e none"
  using assms(2) by unfold_locales (auto simp: assms(1) backend_table_def of_bool_def split: if_splits)

lemma webhook_table:
  "selectedKany8sControlPlaneBackend s = backend_table ''none'' (cp_kro s) (cp_kubeadm s) (cp_external s)"
  by (cases "cs_ResourceGraphDefinitionRef s"; cases "cs_Kubeadm s"; cases "cs_ExternalBackend s")
    (simp_all add: selectedKany8sControlPlaneBackend_def backend_table_def cp_kro_def cp_kubeadm_def
      cp_external_def)

lemma template_table:
  "selectedKany8sControlPlaneTemplateBackend s = backend_table ''none''
     (ts_ResourceGraphDefinitionRef s \<noteq> None) (ts_Kubeadm s \<noteq> None) (ts_ExternalBackend s \<noteq> None)"
  by (cases "ts_ResourceGraphDefinitionRef s"; cases "ts_Kubeadm s"; cases "ts_ExternalBackend s")
    (simp_all add: selectedKany8sControlPlaneTemplateBackend_def backend_table_def)

interpretation webhook_sel: backend_selector selectedKany8sControlPlaneBackend cp_kro cp_kubeadm cp_external "''none''"
  by (rule backend_table_selector [OF webhook_table]) simp

interpretation template_sel: backend_selector selectedKany8sControlPlaneTemplateBackend
    "\<lambda>s. ts_ResourceGraphDefinitionRef s \<noteq> None" "\<lambda>s. ts_Kubeadm s \<noteq> None"
    "\<lambda>s. ts_ExternalBackend s \<noteq> None" "''none''"
  by (rule backend_table_selector [OF template_table]) simp

section \<open>Properties\<close>

lemma new_invalid_None [simp]: "new_invalid k n errs = None \<longleftrightarrow> errs = []"
  by (simp add: new_invalid_def)

lemma create_admits_iff:
  "validateKany8sControlPlaneSpecOnCreate o' = None \<longleftrightarrow> snd (selectedKany8sControlPlaneBackend (cp_Spec o')) = 1"
  by (simp add: validateKany8sControlPlaneSpecOnCreate_def Let_def)

lemma update_admits_iff:
  "validateKany8sControlPlaneSpecOnUpdate a b = None \<longleftrightarrow>
     snd (selectedKany8sControlPlaneBackend (cp_Spec b)) = 1 \<and>
     (snd (selectedKany8sControlPlaneBackend (cp_Spec a)) = 1 \<longrightarrow>
        fst (selectedKany8sControlPlaneBackend (cp_Spec a)) = fst (selectedKany8sControlPlaneBackend (cp_Spec b)))"
  by (auto simp: validateKany8sControlPlaneSpecOnUpdate_def Let_def split: prod.splits)

text \<open>The versions of one object the API server accepts: its creation, then its updates.\<close>

inductive admitted :: "Kany8sControlPlane list \<Rightarrow> bool" where
  created: "cp_ValidateCreate (Some a) = None \<Longrightarrow> admitted [a]"
| updated: "admitted (vs @ [a]) \<Longrightarrow> cp_ValidateUpdate (Some a) (Some b) = None \<Longrightarrow> admitted (vs @ [a, b])"

lemma admitted_last:
  "admitted vs \<Longrightarrow> vs \<noteq> [] \<and>
     (\<forall>v \<in> set vs. snd (selectedKany8sControlPlaneBackend (cp_Spec v)) = 1 \<and>
        fst (selectedKany8sControlPlaneBackend (cp_Spec v)) =
        fst (selectedKany8sControlPlaneBackend (cp_Spec (last vs))))"
  by (induction rule: admitted.induct)
     (auto simp: cp_ValidateCreate_def cp_ValidateUpdate_def create_admits_iff update_admits_iff)

text \<open>
  C14. Over the whole life of an admitted control plane, every version has exactly one of the
  three backends, and it is the same one in all of them.
\<close>

theorem backend_immutable:
  assumes "admitted vs" "a \<in> set vs" "b \<in> set vs"
  shows "(cp_kro (cp_Spec a) \<longleftrightarrow> cp_kro (cp_Spec b)) \<and> (cp_kubeadm (cp_Spec a) \<longleftrightarrow> cp_kubeadm (cp_Spec b)) \<and>
    (cp_external (cp_Spec a) \<longleftrightarrow> cp_external (cp_Spec b)) \<and>
    of_bool (cp_kro (cp_Spec a)) + of_bool (cp_kubeadm (cp_Spec a)) + of_bool (cp_external (cp_Spec a)) = (1 :: int)"
proof -
  note all = admitted_last [OF assms(1), THEN conjunct2]
  have one: "snd (selectedKany8sControlPlaneBackend (cp_Spec a)) = 1"
    "snd (selectedKany8sControlPlaneBackend (cp_Spec b)) = 1"
    using bspec [OF all assms(2)] bspec [OF all assms(3)] by blast+
  have same: "fst (selectedKany8sControlPlaneBackend (cp_Spec a)) = fst (selectedKany8sControlPlaneBackend (cp_Spec b))"
    using bspec [OF all assms(2)] bspec [OF all assms(3)] by metis
  let ?k = "\<lambda>v. cp_kro (cp_Spec v)" and ?a = "\<lambda>v. cp_kubeadm (cp_Spec v)" and ?e = "\<lambda>v. cp_external (cp_Spec v)"
  have eqs: "(?k a \<and> \<not> ?a a \<and> \<not> ?e a) = (?k b \<and> \<not> ?a b \<and> \<not> ?e b)"
    "(\<not> ?k a \<and> ?a a \<and> \<not> ?e a) = (\<not> ?k b \<and> ?a b \<and> \<not> ?e b)"
    "(\<not> ?k a \<and> \<not> ?a a \<and> ?e a) = (\<not> ?k b \<and> \<not> ?a b \<and> ?e b)"
    unfolding webhook_sel.selects [symmetric] by (simp_all only: same)
  have "of_bool (?k a) + of_bool (?a a) + of_bool (?e a) = (1 :: int)"
    using one(1) webhook_sel.count [of "cp_Spec a"] by (rule subst [of _ _ "\<lambda>n. n = 1", rotated])
  moreover have "?k a = ?k b \<and> ?a a = ?a b \<and> ?e a = ?e b"
    using eqs one(1) [unfolded webhook_sel.one_iff] one(2) [unfolded webhook_sel.one_iff] by blast
  ultimately show ?thesis by blast
qed

text \<open>A control plane and a template that set the same backend pointers.\<close>

definition same_backends :: "Kany8sControlPlaneSpec \<Rightarrow> Kany8sControlPlaneTemplateResourceSpec \<Rightarrow> bool" where
  "same_backends s t \<longleftrightarrow>
     (cs_ResourceGraphDefinitionRef s = None \<longleftrightarrow> ts_ResourceGraphDefinitionRef t = None) \<and>
     (cs_Kubeadm s = None \<longleftrightarrow> ts_Kubeadm t = None) \<and>
     (cs_ExternalBackend s = None \<longleftrightarrow> ts_ExternalBackend t = None)"

lemma same_selection:
  "same_backends s t \<Longrightarrow> selectedKany8sControlPlaneBackend s = selectedKany8sControlPlaneTemplateBackend t"
  by (simp add: webhook_table template_table same_backends_def cp_kro_def cp_kubeadm_def cp_external_def)

lemma template_create_admits_iff:
  "validateKany8sControlPlaneTemplateSpecOnCreate o' = None \<longleftrightarrow>
     snd (selectedKany8sControlPlaneTemplateBackend (tp_Spec o')) = 1"
  by (simp add: validateKany8sControlPlaneTemplateSpecOnCreate_def Let_def)

lemma template_update_admits_iff:
  "validateKany8sControlPlaneTemplateSpecOnUpdate a b = None \<longleftrightarrow>
     snd (selectedKany8sControlPlaneTemplateBackend (tp_Spec b)) = 1 \<and>
     (snd (selectedKany8sControlPlaneTemplateBackend (tp_Spec a)) = 1 \<longrightarrow>
        fst (selectedKany8sControlPlaneTemplateBackend (tp_Spec a)) =
        fst (selectedKany8sControlPlaneTemplateBackend (tp_Spec b)))"
  by (auto simp: validateKany8sControlPlaneTemplateSpecOnUpdate_def Let_def split: prod.splits)

text \<open>
  The control plane webhook and the template webhook agree: a control plane and a template
  with the same backend pointers are both admitted or both rejected, on creation and on update.
\<close>

theorem webhooks_agree:
  assumes "same_backends (cp_Spec a) (tp_Spec t)" "same_backends (cp_Spec b) (tp_Spec u)"
  shows "(cp_ValidateCreate (Some a) = None \<longleftrightarrow> tp_ValidateCreate (Some t) = None) \<and>
    (cp_ValidateUpdate (Some a) (Some b) = None \<longleftrightarrow> tp_ValidateUpdate (Some t) (Some u) = None)"
  by (simp add: cp_ValidateCreate_def cp_ValidateUpdate_def tp_ValidateCreate_def tp_ValidateUpdate_def
      create_admits_iff update_admits_iff template_create_admits_iff template_update_admits_iff
      same_selection [OF assms(1)] same_selection [OF assms(2)])

section \<open>Witnesses\<close>

definition demo_template_spec :: Kany8sControlPlaneTemplateResourceSpec where
  "demo_template_spec = \<lparr>ts_ResourceGraphDefinitionRef = Some \<lparr>rr_Name = ''rgd''\<rparr>, ts_KroSpec = None,
     ts_Kubeadm = None, ts_ExternalBackend = None\<rparr>"

definition demo_template :: Kany8sControlPlaneTemplate where
  "demo_template = \<lparr>tp_meta = new_meta ''ns'' ''t'', tp_Template =
     \<lparr>tr_Labels = fmempty, tr_Annotations = fmempty, tr_Spec = demo_template_spec\<rparr>\<rparr>"

lemma demo_admitted: "admitted [demo_cp, demo_cp]"
proof -
  have one: "snd (selectedKany8sControlPlaneBackend (cp_Spec demo_cp)) = 1"
    by (simp add: selectedKany8sControlPlaneBackend_def demo_cp_def demo_cp_spec_def)
  then have "admitted [demo_cp]"
    by (intro admitted.created) (simp add: cp_ValidateCreate_def create_admits_iff)
  then show ?thesis
    using admitted.updated [of "[]" demo_cp demo_cp] one by (simp add: cp_ValidateUpdate_def update_admits_iff)
qed

theorem backend_immutable_witness:
  "cp_kro (cp_Spec demo_cp) \<and> \<not> cp_external (cp_Spec demo_cp)"
  using backend_immutable [OF demo_admitted, of demo_cp demo_cp]
  by (simp add: cp_kro_def cp_external_def demo_cp_def demo_cp_spec_def)

theorem webhooks_agree_witness:
  "cp_ValidateCreate (Some demo_cp) = None \<and> tp_ValidateCreate (Some demo_template) = None"
proof -
  have "same_backends (cp_Spec demo_cp) (tp_Spec demo_template)"
    by (simp add: same_backends_def demo_cp_def demo_cp_spec_def tp_Spec_def demo_template_def
        demo_template_spec_def)
  moreover have "cp_ValidateCreate (Some demo_cp) = None"
    by (simp add: cp_ValidateCreate_def create_admits_iff selectedKany8sControlPlaneBackend_def
        demo_cp_def demo_cp_spec_def)
  ultimately show ?thesis using webhooks_agree [of demo_cp demo_template demo_cp demo_template] by blast
qed

end
