(* ===== verification/ControlPlane.thy ===== *)
theory ControlPlane
  imports ApiTypes Kro Kubeconfig Webhook
begin

text \<open>
  \<open>internal/controller/kany8scontrolplane_controller.go\<close>: the facade that drives one backend
  object per \<open>Kany8sControlPlane\<close> and projects the backend's status into the control plane
  contract of the Cluster API.

  A reconcile is a program over \<open>cp_call\<close>. The object \<open>cp\<close> the Go code mutates is threaded
  through; a patch overwrites it with what the server answers, as the client does. Log lines are
  left out. The guards against nil objects inside the helpers are left out: \<open>Reconcile\<close> is their
  only caller and passes the object it has read.
\<close>

section \<open>Calls and environment\<close>

datatype cp_call =
    GetControlPlane object_key
  | GetOwnerCluster obj_meta
  | GetRGD string
  | EnsureWatchCall gvk
  | ReadBackend unstructured
  | StoreBackend unstructured
  | ReadKubeadm Kany8sKubeadmControlPlane
  | StoreKubeadm Kany8sKubeadmControlPlane
  | GetSecret object_key
  | ReadTarget secret
  | StoreTarget secret
  | PatchCP Kany8sControlPlane Kany8sControlPlane
  | PatchCPStatus Kany8sControlPlane Kany8sControlPlane
  | UpdateCPStatus Kany8sControlPlane
  | CPEvent string string string

record cp_env =
  ce_lib :: apilib
  ce_hasWatcher :: bool
  ce_hasRecorder :: bool
  ce_getCP :: "cp_call list \<Rightarrow> object_key \<Rightarrow> Kany8sControlPlane result"
  ce_getOwner :: "cp_call list \<Rightarrow> obj_meta \<Rightarrow> cluster option result"
  ce_getRGD :: "cp_call list \<Rightarrow> string \<Rightarrow> unstructured result"
  ce_ensureWatch :: "cp_call list \<Rightarrow> gvk \<Rightarrow> go_error option"
  ce_readBackend :: "cp_call list \<Rightarrow> unstructured \<Rightarrow> unstructured result"
  ce_storeBackend :: "cp_call list \<Rightarrow> unstructured \<Rightarrow> unstructured result"
  ce_readKubeadm :: "cp_call list \<Rightarrow> Kany8sKubeadmControlPlane \<Rightarrow> Kany8sKubeadmControlPlane result"
  ce_storeKubeadm :: "cp_call list \<Rightarrow> Kany8sKubeadmControlPlane \<Rightarrow> Kany8sKubeadmControlPlane result"
  ce_getSecret :: "cp_call list \<Rightarrow> object_key \<Rightarrow> secret result"
  ce_readTarget :: "cp_call list \<Rightarrow> secret \<Rightarrow> secret result"
  ce_storeTarget :: "cp_call list \<Rightarrow> secret \<Rightarrow> secret result"
  ce_patch :: "cp_call list \<Rightarrow> Kany8sControlPlane \<Rightarrow> Kany8sControlPlane \<Rightarrow> Kany8sControlPlane result"
  ce_patchStatus :: "cp_call list \<Rightarrow> Kany8sControlPlane \<Rightarrow> Kany8sControlPlane \<Rightarrow> Kany8sControlPlane result"
  ce_updateStatus :: "cp_call list \<Rightarrow> Kany8sControlPlane \<Rightarrow> Kany8sControlPlane result"

type_synonym 'a cp_eff = "(cp_call, 'a) eff"

definition patch_cp :: "cp_env \<Rightarrow> Kany8sControlPlane \<Rightarrow> Kany8sControlPlane \<Rightarrow> Kany8sControlPlane result cp_eff" where
  "patch_cp env before cp = perform (PatchCP before cp) (\<lambda>h. ce_patch env h before cp)"

definition patch_cp_status :: "cp_env \<Rightarrow> Kany8sControlPlane \<Rightarrow> Kany8sControlPlane \<Rightarrow> Kany8sControlPlane result cp_eff" where
  "patch_cp_status env before cp = perform (PatchCPStatus before cp) (\<lambda>h. ce_patchStatus env h before cp)"

definition cp_event :: "cp_env \<Rightarrow> string \<Rightarrow> string \<Rightarrow> string \<Rightarrow> unit cp_eff" where
  "cp_event env t reason message = when_eff (ce_hasRecorder env) (emit (CPEvent t reason message))"

definition ensure_watch :: "cp_env \<Rightarrow> gvk \<Rightarrow> go_error option cp_eff" where
  "ensure_watch env g =
     (if ce_hasWatcher env then perform (EnsureWatchCall g) (\<lambda>h. ce_ensureWatch env h g) else ret None)"

section \<open>Constants\<close>

definition conditionTypeResourceGraphDefinitionResolved :: string where
  "conditionTypeResourceGraphDefinitionResolved = ''ResourceGraphDefinitionResolved''"
definition conditionTypeCreating :: string where "conditionTypeCreating = ''Creating''"
definition conditionTypeReady :: string where "conditionTypeReady = ''Ready''"
definition conditionTypeKubeconfigSecretReconciled :: string where
  "conditionTypeKubeconfigSecretReconciled = ''KubeconfigSecretReconciled''"
definition defaultNotReadyMessage :: string where
  "defaultNotReadyMessage = ''waiting for control plane to become ready''"

lemmas condition_types =
  conditionTypeResourceGraphDefinitionResolved_def conditionTypeCreating_def
  conditionTypeReady_def conditionTypeKubeconfigSecretReconciled_def

definition rgdResolveRequeueAfter :: duration where "rgdResolveRequeueAfter = 30 * second"
definition ensureWatchRequeueAfter :: duration where "ensureWatchRequeueAfter = 30 * second"

text \<open>\<open>internal/constants\<close>.\<close>

definition ControlPlaneNotReadyRequeueAfter :: duration where
  "ControlPlaneNotReadyRequeueAfter = 15 * second"

section \<open>Choosing the backend\<close>

definition selectedControlPlaneBackend :: "Kany8sControlPlaneSpec \<Rightarrow> string \<times> int" where
  "selectedControlPlaneBackend spec =
     (let (sel0, count0) = ('''', 0);
          (sel1, count1) = (if cs_ResourceGraphDefinitionRef spec \<noteq> None then (''kro'', count0 + 1) else (sel0, count0));
          (sel2, count2) = (if cs_Kubeadm spec \<noteq> None then (''kubeadm'', count1 + 1) else (sel1, count1));
          (sel, count) = (if cs_ExternalBackend spec \<noteq> None then (''external'', count2 + 1) else (sel2, count2))
      in if count \<noteq> 1 then ('''', count) else (sel, count))"

lemma controller_table:
  "selectedControlPlaneBackend s = backend_table '''' (cp_kro s) (cp_kubeadm s) (cp_external s)"
  by (cases "cs_ResourceGraphDefinitionRef s"; cases "cs_Kubeadm s"; cases "cs_ExternalBackend s")
    (simp_all add: selectedControlPlaneBackend_def backend_table_def cp_kro_def cp_kubeadm_def
      cp_external_def)

interpretation controller_sel: backend_selector selectedControlPlaneBackend cp_kro cp_kubeadm cp_external "''''"
  by (rule backend_table_selector [OF controller_table]) simp

section \<open>Metadata of the backend object\<close>

definition cluster_owner_ref :: "cluster \<Rightarrow> owner_ref" where
  "cluster_owner_ref c = \<lparr>or_APIVersion = ClusterAPIVersion, or_Kind = ''Cluster'',
     or_Name = om_Name (cl_meta c), or_UID = om_UID (cl_meta c),
     or_Controller = None, or_BlockOwnerDeletion = None\<rparr>"

definition same_owner :: "owner_ref \<Rightarrow> owner_ref \<Rightarrow> bool" where
  "same_owner r s \<longleftrightarrow> or_APIVersion r = or_APIVersion s \<and> or_Kind r = or_Kind s \<and> or_Name r = or_Name s"

text \<open>The loop of \<open>ensureClusterOwnerReference\<close>: the first reference to the cluster is corrected.\<close>

fun ensure_ref :: "owner_ref list \<Rightarrow> owner_ref \<Rightarrow> owner_ref list" where
  "ensure_ref [] r = [r]"
| "ensure_ref (x # xs) r =
     (if same_owner x r
      then x\<lparr>or_UID := or_UID r, or_Controller := None, or_BlockOwnerDeletion := None\<rparr> # xs
      else x # ensure_ref xs r)"

definition ensureClusterOwnerReference :: "owner_ref list \<Rightarrow> cluster option \<Rightarrow> owner_ref list" where
  "ensureClusterOwnerReference refs owner =
     (case owner of None \<Rightarrow> refs | Some c \<Rightarrow> ensure_ref refs (cluster_owner_ref c))"

definition setBackendClusterMetadata :: "obj_meta \<Rightarrow> cluster option \<Rightarrow> obj_meta" where
  "setBackendClusterMetadata m owner =
     (case owner of
        None \<Rightarrow> m
      | Some c \<Rightarrow> m\<lparr>om_Labels := fmupd ClusterNameLabel (om_Name (cl_meta c)) (om_Labels m),
                  om_OwnerReferences := ensureClusterOwnerReference (om_OwnerReferences m) owner\<rparr>)"

section \<open>Backend specs\<close>

definition parseJSONSpecObject :: "apilib \<Rightarrow> string \<Rightarrow> string \<Rightarrow> doc result" where
  "parseJSONSpecObject lib raw fieldName =
     (if raw = '''' then Inr fmempty
      else (case lib_json_Unmarshal lib raw of
        Inl e \<Rightarrow> Inl (wrapf (''parse '' @ fieldName) e)
      | Inr v \<Rightarrow>
          if v = JNull then Inl (errorf (fieldName @ '' must be a JSON object, got null''))
          else (case as_object v of
            None \<Rightarrow> Inl (errorf (fieldName @ '' must be a JSON object, got '' @ go_type_name v))
          | Some obj \<Rightarrow> Inr obj)))"

definition raw_bytes :: "string option \<Rightarrow> string" where
  "raw_bytes j = (case j of None \<Rightarrow> '''' | Some raw \<Rightarrow> raw)"

definition buildKroInstanceSpec :: "apilib \<Rightarrow> Kany8sControlPlane \<Rightarrow> doc result" where
  "buildKroInstanceSpec lib cp =
     (case parseJSONSpecObject lib (raw_bytes (cs_KroSpec (cp_Spec cp))) ''spec.kroSpec'' of
        Inl e \<Rightarrow> Inl e
      | Inr spec \<Rightarrow> Inr (fmupd ''version'' (JStr (cs_Version (cp_Spec cp))) spec))"

definition buildExternalBackendSpec ::
    "apilib \<Rightarrow> Kany8sControlPlane \<Rightarrow> Kany8sControlPlaneExternalBackendSpec \<Rightarrow> cluster option \<Rightarrow> doc result" where
  "buildExternalBackendSpec lib cp ext owner =
     (case parseJSONSpecObject lib (raw_bytes (xs_Spec ext)) ''spec.externalBackend.spec'' of
        Inl e \<Rightarrow> Inl e
      | Inr spec0 \<Rightarrow>
          let spec = fmupd ''version'' (JStr (cs_Version (cp_Spec cp))) spec0 in
          Inr (case owner of
             None \<Rightarrow> spec
           | Some c \<Rightarrow> fmupd ''clusterUID'' (JStr (om_UID (cl_meta c)))
                        (fmupd ''clusterNamespace'' (JStr (om_Namespace (cl_meta c)))
                          (fmupd ''clusterName'' (JStr (om_Name (cl_meta c))) spec))))"

section \<open>The status of a kubeadm backend\<close>

definition endpointToStatusString :: "APIEndpoint \<Rightarrow> string" where
  "endpointToStatusString ep =
     (if ep_Host ep = '''' \<or> sint (ep_Port ep) \<le> 0 then ''''
      else ''https://'' @ ep_Host ep @ '':'' @ show_int (sint (ep_Port ep)))"

definition kubeadmBackendStatusToInstanceStatus :: "apilib \<Rightarrow> Kany8sKubeadmControlPlane \<Rightarrow> instance_status" where
  "kubeadmBackendStatusToInstanceStatus lib backend =
     (let st0 = zero_status\<lparr>is_Endpoint := endpointToStatusString (kp_ControlPlaneEndpoint (kcp_Spec backend))\<rparr>;
          st1 = (case lib_FindStatusCondition lib (kt_Conditions (kcp_Status backend)) conditionTypeReady of
             None \<Rightarrow> st0
           | Some c \<Rightarrow> st0\<lparr>is_Ready := (co_Status c = ConditionTrue), is_Reason := co_Reason c,
                         is_Message := co_Message c\<rparr>);
          st2 = (case kt_FailureReason (kcp_Status backend) of
             None \<Rightarrow> st1 | Some r \<Rightarrow> st1\<lparr>is_Reason := r, is_Terminal := True\<rparr>)
      in (case kt_FailureMessage (kcp_Status backend) of
             None \<Rightarrow> st2 | Some m \<Rightarrow> st2\<lparr>is_Message := m, is_Terminal := True\<rparr>))"

section \<open>Conditions and failure\<close>

definition terminal_reasons :: "string list" where
  "terminal_reasons = [''BackendNotSelected'', ''MultipleBackendsSelected'', ''InvalidKroSpec'',
     ''InvalidExternalBackend'', ''InvalidExternalBackendSpec'', ''InvalidEndpoint'']"

definition isTerminalFailureReason :: "string \<Rightarrow> bool" where
  "isTerminalFailureReason reason \<longleftrightarrow> reason \<in> set terminal_reasons"

definition or_default :: "string \<Rightarrow> string \<Rightarrow> string" where
  "or_default s d = (if s = '''' then d else s)"

definition non_empty :: "string \<Rightarrow> string option" where
  "non_empty s = (if s = '''' then None else Some s)"

text \<open>\<open>conditions.Set(cp, ...)\<close> and \<open>conditions.Delete(cp, ...)\<close>.\<close>

definition set_cond :: "apilib \<Rightarrow> Kany8sControlPlane \<Rightarrow> condition \<Rightarrow> Kany8sControlPlane" where
  "set_cond lib cp c = cp\<lparr>cp_Status := (cp_Status cp)
     \<lparr>ct_Conditions := lib_conditions_Set lib (cp_meta cp) (ct_Conditions (cp_Status cp)) c\<rparr>\<rparr>"

definition delete_cond :: "apilib \<Rightarrow> Kany8sControlPlane \<Rightarrow> string \<Rightarrow> Kany8sControlPlane" where
  "delete_cond lib cp t = cp\<lparr>cp_Status := (cp_Status cp)
     \<lparr>ct_Conditions := lib_conditions_Delete lib (ct_Conditions (cp_Status cp)) t\<rparr>\<rparr>"

definition set_failure :: "Kany8sControlPlane \<Rightarrow> string option \<Rightarrow> string option \<Rightarrow> Kany8sControlPlane" where
  "set_failure cp reason message = cp\<lparr>cp_Status := (cp_Status cp)
     \<lparr>ct_FailureReason := reason, ct_FailureMessage := message\<rparr>\<rparr>"

definition ready_status :: "apilib \<Rightarrow> Kany8sControlPlane \<Rightarrow> instance_status \<Rightarrow> Kany8sControlPlane" where
  "ready_status lib cp st =
     (let reason = or_default (is_Reason st) ''Ready'';
          message = or_default (is_Message st) ''control plane is ready'';
          cp1 = set_cond lib cp (cond_of conditionTypeReady ConditionTrue reason message);
          cp2 = set_failure (delete_cond lib cp1 conditionTypeCreating) None None
      in if cs_Version (cp_Spec cp2) \<noteq> '''' \<and> ct_Version (cp_Status cp2) \<noteq> cs_Version (cp_Spec cp2)
         then cp2\<lparr>cp_Status := (cp_Status cp2)\<lparr>ct_Version := cs_Version (cp_Spec cp2)\<rparr>\<rparr>
         else cp2)"

definition not_ready_cp :: "apilib \<Rightarrow> Kany8sControlPlane \<Rightarrow> instance_status \<Rightarrow> Kany8sControlPlane" where
  "not_ready_cp lib cp st =
     (let reason = or_default (is_Reason st) ''Creating'';
          message = or_default (is_Message st) defaultNotReadyMessage;
          cp1 = set_cond lib cp (cond_of conditionTypeReady ConditionFalse reason message);
          cp2 = set_cond lib cp1 (cond_of conditionTypeCreating ConditionTrue reason message)
      in if is_Terminal st \<or> isTerminalFailureReason (is_Reason st)
         then set_failure cp2 (non_empty (is_Reason st)) (non_empty (is_Message st))
         else set_failure cp2 None None)"

definition conditions_and_failure :: "apilib \<Rightarrow> Kany8sControlPlane \<Rightarrow> instance_status \<Rightarrow> bool \<Rightarrow> Kany8sControlPlane" where
  "conditions_and_failure lib cp st controlPlaneReady =
     (if controlPlaneReady then ready_status lib cp st else not_ready_cp lib cp st)"

definition reconcileConditionsAndFailure ::
    "cp_env \<Rightarrow> Kany8sControlPlane \<Rightarrow> instance_status \<Rightarrow> bool \<Rightarrow> Kany8sControlPlane result cp_eff" where
  "reconcileConditionsAndFailure env cp st controlPlaneReady =
     patch_cp_status env cp (conditions_and_failure (ce_lib env) cp st controlPlaneReady)"

text \<open>Is the previous condition of the type missing, or does it say something else?\<close>

definition should_report :: "apilib \<Rightarrow> Kany8sControlPlane \<Rightarrow> condition \<Rightarrow> bool" where
  "should_report lib cp c =
     (case lib_FindStatusCondition lib (ct_Conditions (cp_Status cp)) (co_Type c) of
        None \<Rightarrow> True
      | Some prev \<Rightarrow> co_Status prev \<noteq> co_Status c \<or> co_Reason prev \<noteq> co_Reason c \<or> co_Message prev \<noteq> co_Message c)"

definition reconcileInvalidBackendSpec ::
    "cp_env \<Rightarrow> Kany8sControlPlane \<Rightarrow> string \<Rightarrow> string \<Rightarrow> ctrl_result result cp_eff" where
  "reconcileInvalidBackendSpec env cp reason message =
     (let shouldEmit = should_report (ce_lib env) cp
            (cond_of conditionTypeReady ConditionFalse reason message) in
      try_bind (reconcileConditionsAndFailure env cp (not_ready_status reason message) False) (\<lambda>_.
        bind_eff (when_eff shouldEmit (cp_event env EventTypeWarning reason message)) (\<lambda>_.
        ret (Inr no_requeue))))"

definition reconcileInvalidKroSpec ::
    "cp_env \<Rightarrow> Kany8sControlPlane \<Rightarrow> go_error \<Rightarrow> ctrl_result result cp_eff" where
  "reconcileInvalidKroSpec env cp kroSpecErr =
     (let message = err_text kroSpecErr;
          shouldEmit = should_report (ce_lib env) cp
            (cond_of conditionTypeReady ConditionFalse ''InvalidKroSpec'' message) in
      try_bind (reconcileConditionsAndFailure env cp (not_ready_status ''InvalidKroSpec'' message) False) (\<lambda>_.
        bind_eff (when_eff shouldEmit (cp_event env EventTypeWarning ''InvalidKroSpec'' message)) (\<lambda>_.
        ret (Inr no_requeue))))"

text \<open>\<open>meta.SetStatusCondition(&cp.Status.Conditions, cond)\<close>.\<close>

definition set_status_cond :: "apilib \<Rightarrow> Kany8sControlPlane \<Rightarrow> condition \<Rightarrow> Kany8sControlPlane" where
  "set_status_cond lib cp c = cp\<lparr>cp_Status := (cp_Status cp)
     \<lparr>ct_Conditions := lib_SetStatusCondition lib (ct_Conditions (cp_Status cp)) c\<rparr>\<rparr>"

definition observed_cond :: "Kany8sControlPlane \<Rightarrow> string \<Rightarrow> string \<Rightarrow> string \<Rightarrow> string \<Rightarrow> condition" where
  "observed_cond cp t s reason message =
     (cond_of t s reason message)\<lparr>co_ObservedGeneration := om_Generation (cp_meta cp)\<rparr>"

definition requeueWithRGDResolutionCondition ::
    "cp_env \<Rightarrow> Kany8sControlPlane \<Rightarrow> string \<Rightarrow> go_error \<Rightarrow> ctrl_result result cp_eff" where
  "requeueWithRGDResolutionCondition env cp rgdName resolveErr =
     (let reason = (if is_not_found resolveErr then ''ResourceGraphDefinitionNotFound''
                    else ''ResourceGraphDefinitionInvalid'');
          message = (if is_not_found resolveErr then ''ResourceGraphDefinition '' @ quote rgdName @ '' not found''
                     else err_text resolveErr);
          cond = observed_cond cp conditionTypeResourceGraphDefinitionResolved ConditionFalse reason message;
          shouldEmit = should_report (ce_lib env) cp cond;
          cp' = set_status_cond (ce_lib env) cp cond in
      try_bind (perform (UpdateCPStatus cp') (\<lambda>h. ce_updateStatus env h cp')) (\<lambda>_.
        bind_eff (when_eff shouldEmit (cp_event env EventTypeWarning reason message)) (\<lambda>_.
        ret (Inr (requeue_in rgdResolveRequeueAfter)))))"

definition reconcileKubeconfigSecretCondition ::
    "cp_env \<Rightarrow> Kany8sControlPlane \<Rightarrow> string \<Rightarrow> string \<Rightarrow> string \<Rightarrow> string \<Rightarrow> Kany8sControlPlane result cp_eff" where
  "reconcileKubeconfigSecretCondition env cp status reason message eventType =
     (let cond = observed_cond cp conditionTypeKubeconfigSecretReconciled status reason message;
          shouldEmit = should_report (ce_lib env) cp cond in
      try_bind (patch_cp_status env cp (set_status_cond (ce_lib env) cp cond)) (\<lambda>cp'.
        bind_eff (when_eff shouldEmit (cp_event env eventType reason message)) (\<lambda>_.
        ret (Inr cp'))))"

section \<open>The kubeconfig Secret\<close>

text \<open>
  The result of \<open>reconcileKubeconfigSecret\<close> besides its error: the requeue, whether a source
  Secret is named at all, and the control plane as last written.
\<close>

type_synonym kubeconfig_outcome = "(ctrl_result \<times> bool) \<times> Kany8sControlPlane"

text \<open>The shape of every branch that waits: report the condition, ask for a requeue.\<close>

definition kubeconfig_wait ::
    "cp_env \<Rightarrow> Kany8sControlPlane \<Rightarrow> string \<Rightarrow> string \<Rightarrow> string \<Rightarrow> kubeconfig_outcome result cp_eff" where
  "kubeconfig_wait env cp reason message eventType =
     try_bind (reconcileKubeconfigSecretCondition env cp ConditionFalse reason message eventType) (\<lambda>cp'.
       ret (Inr ((requeue_in ControlPlaneNotReadyRequeueAfter, True), cp')))"

text \<open>The callback that fills the target Secret.\<close>

definition mutate_target :: "apilib \<Rightarrow> Kany8sControlPlane \<Rightarrow> cluster \<Rightarrow> string \<Rightarrow> secret \<Rightarrow> secret result" where
  "mutate_target lib cp owner kc target =
     (case lib_SetControllerReference lib (ControlPlaneWithKind ''Kany8sControlPlane'') (cp_meta cp) (se_meta target) of
        Inl e \<Rightarrow> Inl e
      | Inr m \<Rightarrow> Inr \<lparr>se_meta = m\<lparr>om_Labels := fmupd ClusterNameLabelKey (om_Name (cl_meta owner)) (om_Labels m)\<rparr>,
                    se_Type = SecretType,
                    se_Data = fmupd DataKey kc (se_Data target)\<rparr>)"

text \<open>The part after the source Secret has been read.\<close>

definition copy_kubeconfig ::
    "cp_env \<Rightarrow> Kany8sControlPlane \<Rightarrow> cluster \<Rightarrow> string \<Rightarrow> secret \<Rightarrow> kubeconfig_outcome result cp_eff" where
  "copy_kubeconfig env cp owner source sourceSecret =
     (case fmlookup (se_Data sourceSecret) DataKey of
        None \<Rightarrow> kubeconfig_wait env cp ''KubeconfigSourceSecretDataMissing''
                  (''source secret '' @ source @ '' missing data['' @ quote DataKey @ '']'') EventTypeWarning
      | Some kc \<Rightarrow>
          (case lib_clientcmd_Load (ce_lib env) kc of
             Some e \<Rightarrow> kubeconfig_wait env cp ''InvalidKubeconfig''
                  (''source secret '' @ source @ '' contains invalid kubeconfig: '' @ err_text e) EventTypeWarning
           | None \<Rightarrow>
               (case SecretName (om_Name (cl_meta owner)) of
                  Inl e \<Rightarrow> ret (Inl e)
                | Inr targetName \<Rightarrow>
                    let target = \<lparr>se_meta = new_meta (om_Namespace (cp_meta cp)) targetName,
                                  se_Type = '''', se_Data = fmempty\<rparr> in
                    try_bind (create_or_update
                        (perform (ReadTarget target) (\<lambda>h. ce_readTarget env h target))
                        (mutate_target (ce_lib env) cp owner kc)
                        (\<lambda>t. perform (StoreTarget t) (\<lambda>h. ce_storeTarget env h t))) (\<lambda>_.
                    try_bind (reconcileKubeconfigSecretCondition env cp ConditionTrue ''Reconciled''
                                ''kubeconfig secret reconciled'' EventTypeNormal) (\<lambda>cp'.
                    ret (Inr ((no_requeue, True), cp')))))))"

definition get_source_secret ::
    "cp_env \<Rightarrow> Kany8sControlPlane \<Rightarrow> cluster \<Rightarrow> string \<Rightarrow> string \<Rightarrow> kubeconfig_outcome result cp_eff" where
  "get_source_secret env cp owner sourceNamespace sourceName =
     (let source = sourceNamespace @ ''/'' @ sourceName; key = object_key sourceNamespace sourceName in
      bind_eff (perform (GetSecret key) (\<lambda>h. ce_getSecret env h key)) (\<lambda>r. case r of
        Inl e \<Rightarrow>
          if is_not_found e
          then kubeconfig_wait env cp ''KubeconfigSourceSecretNotFound''
                 (''waiting for source secret '' @ source @ '' to be created'') EventTypeNormal
          else kubeconfig_wait env cp ''KubeconfigSourceSecretGetFailed''
                 (''get source secret '' @ source @ '': '' @ err_text e) EventTypeWarning
      | Inr sourceSecret \<Rightarrow> copy_kubeconfig env cp owner source sourceSecret))"

definition kubeconfig_for_owner ::
    "cp_env \<Rightarrow> Kany8sControlPlane \<Rightarrow> unstructured \<Rightarrow> cluster \<Rightarrow> string \<Rightarrow> kubeconfig_outcome result cp_eff" where
  "kubeconfig_for_owner env cp inst owner sourceName =
     (if om_Namespace (cl_meta owner) \<noteq> om_Namespace (cp_meta cp)
      then kubeconfig_wait env cp ''OwnerClusterGetFailed''
             (''owner Cluster namespace '' @ quote (om_Namespace (cl_meta owner)) @
              '' does not match control plane namespace '' @ quote (om_Namespace (cp_meta cp))) EventTypeWarning
      else (case lib_NestedString (ce_lib env) (un_Object inst) [''status'', ''kubeconfigSecretRef'', ''namespace''] of
        Inl e \<Rightarrow> ret (Inl (wrapf ''read status.kubeconfigSecretRef.namespace'' e))
      | Inr (ns, found) \<Rightarrow>
          let sourceNamespace = (if \<not> found \<or> ns = '''' then om_Namespace (cp_meta cp) else ns) in
          if sourceNamespace \<noteq> om_Namespace (cp_meta cp)
          then kubeconfig_wait env cp ''KubeconfigSourceSecretCrossNamespace''
                 (''cross-namespace source secret '' @ sourceNamespace @ ''/'' @ sourceName @
                  '' is not allowed (control plane namespace: '' @ om_Namespace (cp_meta cp) @ '')'') EventTypeWarning
          else get_source_secret env cp owner sourceNamespace sourceName))"

definition reconcileKubeconfigSecret ::
    "cp_env \<Rightarrow> Kany8sControlPlane \<Rightarrow> unstructured option \<Rightarrow> cluster option result \<Rightarrow> kubeconfig_outcome result cp_eff" where
  "reconcileKubeconfigSecret env cp inst owner =
     (case inst of
        None \<Rightarrow> ret (Inl (errorf ''backend instance is nil''))
      | Some u \<Rightarrow>
          (case lib_NestedString (ce_lib env) (un_Object u) [''status'', ''kubeconfigSecretRef'', ''name''] of
             Inl e \<Rightarrow> ret (Inl (wrapf ''read status.kubeconfigSecretRef.name'' e))
           | Inr (sourceName, found) \<Rightarrow>
               if \<not> found \<or> sourceName = '''' then ret (Inr ((no_requeue, False), cp))
               else (case owner of
                  Inl e \<Rightarrow>
                    if is_not_found e
                    then kubeconfig_wait env cp ''OwnerClusterNotFound''
                           (''owner Cluster not found: '' @ err_text e) EventTypeNormal
                    else kubeconfig_wait env cp ''OwnerClusterGetFailed''
                           (''get owner Cluster: '' @ err_text e) EventTypeWarning
                | Inr None \<Rightarrow>
                    kubeconfig_wait env cp ''OwnerClusterNotSet''
                      ''waiting for owner Cluster reference to be set'' EventTypeNormal
                | Inr (Some c) \<Rightarrow> kubeconfig_for_owner env cp u c sourceName)))"

section \<open>The three backends\<close>

text \<open>What the switch over the backends leaves for the rest of \<open>Reconcile\<close>.\<close>

record backend_outcome =
  bo_instance :: "unstructured option"
  bo_status :: instance_status
  bo_initialized :: bool
  bo_initializeOnEndpoint :: bool
  bo_ensureWatchErr :: "go_error option"
  bo_kubeconfigEnabled :: bool

text \<open>A backend either ends the reconcile or goes on with an outcome.\<close>

type_synonym backend_answer = "ctrl_result result + backend_outcome"

definition owner_or_nil :: "cluster option result \<Rightarrow> cluster option" where
  "owner_or_nil r = (case r of Inl _ \<Rightarrow> None | Inr c \<Rightarrow> c)"

text \<open>The callback of the kro and of the external backend.\<close>

definition mutate_backend ::
    "apilib \<Rightarrow> Kany8sControlPlane \<Rightarrow> cluster option \<Rightarrow> gvk \<Rightarrow> doc \<Rightarrow> unstructured \<Rightarrow> unstructured result" where
  "mutate_backend lib cp owner g spec inst =
     (let m0 = (un_meta inst)\<lparr>om_Name := om_Name (cp_meta cp), om_Namespace := om_Namespace (cp_meta cp)\<rparr> in
      case lib_SetControllerReference lib (ControlPlaneWithKind ''Kany8sControlPlane'') (cp_meta cp) m0 of
        Inl e \<Rightarrow> Inl e
      | Inr m \<Rightarrow> Inr \<lparr>un_GVK = g, un_meta = setBackendClusterMetadata m owner,
                    un_Object = fmupd ''spec'' (JObj spec) (un_Object inst)\<rparr>)"

definition apply_backend ::
    "cp_env \<Rightarrow> Kany8sControlPlane \<Rightarrow> cluster option \<Rightarrow> gvk \<Rightarrow> doc \<Rightarrow> unstructured result cp_eff" where
  "apply_backend env cp owner g spec =
     (let inst = new_unstructured g (om_Namespace (cp_meta cp)) (om_Name (cp_meta cp)) in
      create_or_update
        (perform (ReadBackend inst) (\<lambda>h. ce_readBackend env h inst))
        (mutate_backend (ce_lib env) cp owner g spec)
        (\<lambda>u. perform (StoreBackend u) (\<lambda>h. ce_storeBackend env h u)))"

definition reconcileKroBackend ::
    "cp_env \<Rightarrow> Kany8sControlPlane \<Rightarrow> cluster option \<Rightarrow> rgd_reference \<Rightarrow> backend_answer cp_eff" where
  "reconcileKroBackend env cp owner ref =
     bind_eff (ResolveInstanceGVK (ce_lib env) (\<lambda>n. perform (GetRGD n) (\<lambda>h. ce_getRGD env h n)) (rr_Name ref))
      (\<lambda>r. case r of
        Inl e \<Rightarrow> bind_eff (requeueWithRGDResolutionCondition env cp (rr_Name ref) e) (\<lambda>x. ret (Inl x))
      | Inr g \<Rightarrow>
         bind_eff (ensure_watch env g) (\<lambda>watchErr.
         case buildKroInstanceSpec (ce_lib env) cp of
           Inl e \<Rightarrow> bind_eff (reconcileInvalidKroSpec env cp e) (\<lambda>x. ret (Inl x))
         | Inr spec \<Rightarrow>
             bind_eff (apply_backend env cp owner g spec) (\<lambda>applied. ret (case applied of
               Inl e \<Rightarrow> Inl (Inl e)
             | Inr inst \<Rightarrow>
                 (case ReadInstanceStatus (ce_lib env) (Some inst) of
                    Inl e \<Rightarrow> Inl (Inl e)
                  | Inr st \<Rightarrow> Inr \<lparr>bo_instance = Some inst, bo_status = st, bo_initialized = False,
                       bo_initializeOnEndpoint = True, bo_ensureWatchErr = watchErr,
                       bo_kubeconfigEnabled = True\<rparr>)))))"

definition kany8sControlPlaneReplicas :: "Kany8sControlPlane \<Rightarrow> 32 word option" where
  "kany8sControlPlaneReplicas cp =
     (case cs_Replicas (cp_Spec cp) of
        Some r \<Rightarrow> Some r
      | None \<Rightarrow> (case cs_Kubeadm (cp_Spec cp) of None \<Rightarrow> None | Some k \<Rightarrow> ks_Replicas k))"

definition mutate_kubeadm ::
    "apilib \<Rightarrow> Kany8sControlPlane \<Rightarrow> cluster option \<Rightarrow> Kany8sControlPlaneKubeadmSpec \<Rightarrow>
     Kany8sKubeadmControlPlane \<Rightarrow> Kany8sKubeadmControlPlane result" where
  "mutate_kubeadm lib cp owner k backend =
     (case lib_SetControllerReference lib (ControlPlaneWithKind ''Kany8sControlPlane'') (cp_meta cp) (kcp_meta backend) of
        Inl e \<Rightarrow> Inl e
      | Inr m \<Rightarrow> Inr (backend\<lparr>kcp_meta := setBackendClusterMetadata m owner,
          kcp_Spec := (kcp_Spec backend)\<lparr>kp_Version := cs_Version (cp_Spec cp),
            kp_Replicas := kany8sControlPlaneReplicas cp,
            kp_MachineTemplate := ks_MachineTemplate k,
            kp_KubeadmConfigSpec := ks_KubeadmConfigSpec k\<rparr>\<rparr>))"

definition new_kubeadm_backend :: "Kany8sControlPlane \<Rightarrow> Kany8sKubeadmControlPlane" where
  "new_kubeadm_backend cp =
     \<lparr>kcp_meta = new_meta (om_Namespace (cp_meta cp)) (om_Name (cp_meta cp)),
      kcp_Spec = \<lparr>kp_Version = '''', kp_Replicas = None,
        kp_MachineTemplate = \<lparr>mt_InfrastructureRef = \<lparr>cr_APIGroup = '''', cr_Kind = '''', cr_Name = ''''\<rparr>\<rparr>,
        kp_KubeadmConfigSpec = None, kp_ControlPlaneEndpoint = no_endpoint\<rparr>,
      kcp_Status = \<lparr>kt_Version = '''', kt_ControlPlaneInitialized = False, kt_Conditions = [],
        kt_FailureReason = None, kt_FailureMessage = None\<rparr>\<rparr>"

definition reconcileKubeadmBackend ::
    "cp_env \<Rightarrow> Kany8sControlPlane \<Rightarrow> cluster option \<Rightarrow> Kany8sControlPlaneKubeadmSpec \<Rightarrow> backend_answer cp_eff" where
  "reconcileKubeadmBackend env cp owner k =
     bind_eff (ensure_watch env (ControlPlaneWithKind ''Kany8sKubeadmControlPlane'')) (\<lambda>watchErr.
     bind_eff (create_or_update
        (perform (ReadKubeadm (new_kubeadm_backend cp)) (\<lambda>h. ce_readKubeadm env h (new_kubeadm_backend cp)))
        (mutate_kubeadm (ce_lib env) cp owner k)
        (\<lambda>b. perform (StoreKubeadm b) (\<lambda>h. ce_storeKubeadm env h b))) (\<lambda>applied. ret (case applied of
       Inl e \<Rightarrow> Inl (Inl e)
     | Inr backend \<Rightarrow> Inr \<lparr>bo_instance = None,
          bo_status = kubeadmBackendStatusToInstanceStatus (ce_lib env) backend,
          bo_initialized = kt_ControlPlaneInitialized (kcp_Status backend),
          bo_initializeOnEndpoint = False, bo_ensureWatchErr = watchErr,
          bo_kubeconfigEnabled = False\<rparr>)))"

definition reconcileExternalBackend ::
    "cp_env \<Rightarrow> Kany8sControlPlane \<Rightarrow> cluster option \<Rightarrow> Kany8sControlPlaneExternalBackendSpec \<Rightarrow> backend_answer cp_eff" where
  "reconcileExternalBackend env cp owner ext =
     (let invalid = (\<lambda>reason message.
            bind_eff (reconcileInvalidBackendSpec env cp reason message) (\<lambda>x. ret (Inl x))) in
      case lib_ParseGroupVersion (ce_lib env) (xs_APIVersion ext) of
        Inl e \<Rightarrow> invalid ''InvalidExternalBackend'' (''parse spec.externalBackend.apiVersion: '' @ err_text e)
      | Inr (grp, ver) \<Rightarrow>
          if xs_Kind ext = '''' then invalid ''InvalidExternalBackend'' ''spec.externalBackend.kind is required''
          else let g = \<lparr>gvk_Group = grp, gvk_Version = ver, gvk_Kind = xs_Kind ext\<rparr> in
            bind_eff (ensure_watch env g) (\<lambda>watchErr.
            case buildExternalBackendSpec (ce_lib env) cp ext owner of
              Inl e \<Rightarrow> invalid ''InvalidExternalBackendSpec'' (err_text e)
            | Inr spec \<Rightarrow>
                bind_eff (apply_backend env cp owner g spec) (\<lambda>applied. ret (case applied of
                  Inl e \<Rightarrow> Inl (Inl e)
                | Inr inst \<Rightarrow>
                    (case ReadInstanceStatus (ce_lib env) (Some inst) of
                       Inl e \<Rightarrow> Inl (Inl (wrapf ''read external backend status'' e))
                     | Inr st \<Rightarrow> Inr \<lparr>bo_instance = Some inst, bo_status = st, bo_initialized = False,
                          bo_initializeOnEndpoint = True, bo_ensureWatchErr = watchErr,
                          bo_kubeconfigEnabled = True\<rparr>)))))"

section \<open>Reconcile\<close>

definition fatal_selection :: "cp_env \<Rightarrow> Kany8sControlPlane \<Rightarrow> string \<Rightarrow> ctrl_result result cp_eff" where
  "fatal_selection env cp reason =
     try_bind (reconcileConditionsAndFailure env cp
        (not_ready_status reason ''exactly one backend must be selected'') False) (\<lambda>_.
       ret (Inr (requeue_in ControlPlaneNotReadyRequeueAfter)))"

definition run_backend ::
    "cp_env \<Rightarrow> Kany8sControlPlane \<Rightarrow> cluster option \<Rightarrow> string \<Rightarrow> backend_answer cp_eff" where
  "run_backend env cp owner selection =
     (let spec = cp_Spec cp;
          dflt = ret (Inr \<lparr>bo_instance = None,
            bo_status = not_ready_status ''BackendNotSelected'' ''exactly one backend must be selected'',
            bo_initialized = False, bo_initializeOnEndpoint = False, bo_ensureWatchErr = None,
            bo_kubeconfigEnabled = False\<rparr>)
      in if selection = ''kro'' then
           (case cs_ResourceGraphDefinitionRef spec of
              Some ref \<Rightarrow> reconcileKroBackend env cp owner ref | None \<Rightarrow> dflt)
         else if selection = ''kubeadm'' then
           (case cs_Kubeadm spec of Some k \<Rightarrow> reconcileKubeadmBackend env cp owner k | None \<Rightarrow> dflt)
         else if selection = ''external'' then
           (case cs_ExternalBackend spec of
              Some ext \<Rightarrow> reconcileExternalBackend env cp owner ext | None \<Rightarrow> dflt)
         else dflt)"

text \<open>
  The projection of \<open>status.endpoint\<close>: the control plane, the status, whether the control
  plane is ready as far as the backend goes, and whether the endpoint is valid.
\<close>

definition project_endpoint ::
    "cp_env \<Rightarrow> Kany8sControlPlane \<Rightarrow> instance_status \<Rightarrow>
     (Kany8sControlPlane \<times> instance_status \<times> bool \<times> bool) result cp_eff" where
  "project_endpoint env cp st =
     (let ready = is_Ready st \<and> is_Endpoint st \<noteq> '''' in
      if is_Endpoint st = '''' then ret (Inr (cp, st, ready, True))
      else (case Parse (lib_ip_literal_error (ce_lib env)) (is_Endpoint st) of
        Inl e \<Rightarrow> ret (Inr (cp, st\<lparr>is_Ready := False, is_Reason := ''InvalidEndpoint'',
                  is_Message := ''invalid status.endpoint: '' @ err_text e\<rparr>, False, False))
      | Inr ep \<Rightarrow>
          if cs_ControlPlaneEndpoint (cp_Spec cp) \<noteq> ep then
            try_bind (patch_cp env cp (cp\<lparr>cp_Spec := (cp_Spec cp)\<lparr>cs_ControlPlaneEndpoint := ep\<rparr>\<rparr>)) (\<lambda>cp'.
              ret (Inr (cp', st, ready, True)))
          else ret (Inr (cp, st, ready, True))))"

definition mark_initialized ::
    "cp_env \<Rightarrow> Kany8sControlPlane \<Rightarrow> bool \<Rightarrow> Kany8sControlPlane result cp_eff" where
  "mark_initialized env cp initialized =
     (if initialized \<and> \<not> ct_ControlPlaneInitialized (cp_Status cp)
      then patch_cp_status env cp (cp\<lparr>cp_Status := (cp_Status cp)\<lparr>ct_ControlPlaneInitialized := True\<rparr>\<rparr>)
      else ret (Inr cp))"

text \<open>
  Readiness in the light of the kubeconfig Secret: while it waits, the control plane is not
  ready and reports the reason of its condition.
\<close>

definition overall_status ::
    "apilib \<Rightarrow> Kany8sControlPlane \<Rightarrow> instance_status \<Rightarrow> bool \<Rightarrow> bool \<Rightarrow> ctrl_result \<Rightarrow> instance_status \<times> bool" where
  "overall_status lib cp st controlPlaneReady kubeconfigEnabled kubeconfigRes =
     (if controlPlaneReady \<and> kubeconfigEnabled \<and> requeue_after kubeconfigRes \<noteq> 0 then
        (case lib_FindStatusCondition lib (ct_Conditions (cp_Status cp)) conditionTypeKubeconfigSecretReconciled of
           Some c \<Rightarrow> (st\<lparr>is_Reason := co_Reason c, is_Message := co_Message c\<rparr>, False)
         | None \<Rightarrow> (st\<lparr>is_Reason := ''KubeconfigSourceSecretNotFound'',
                      is_Message := ''waiting for kubeconfig secret to be reconciled''\<rparr>, False))
      else (st, controlPlaneReady))"

text \<open>The rest of \<open>Reconcile\<close> after the switch.\<close>

definition finish_reconcile ::
    "cp_env \<Rightarrow> Kany8sControlPlane \<Rightarrow> cluster option result \<Rightarrow> backend_outcome \<Rightarrow> ctrl_result result cp_eff" where
  "finish_reconcile env cp owner out =
     try_bind (if bo_kubeconfigEnabled out then reconcileKubeconfigSecret env cp (bo_instance out) owner
               else ret (Inr ((no_requeue, False), cp))) (\<lambda>((kubeconfigRes, kubeconfigEnabled), cp1).
     try_bind (project_endpoint env cp1 (bo_status out)) (\<lambda>(cp2, st, controlPlaneReady, endpointValid).
     try_bind (mark_initialized env cp2
        (bo_initialized out \<or> bo_initializeOnEndpoint out \<and> endpointValid \<and> is_Endpoint st \<noteq> '''')) (\<lambda>cp3.
     let (st', overallReady) = overall_status (ce_lib env) cp3 st controlPlaneReady kubeconfigEnabled kubeconfigRes in
     try_bind (reconcileConditionsAndFailure env cp3 st' overallReady) (\<lambda>_.
     ret (Inr (if \<not> controlPlaneReady then requeue_in ControlPlaneNotReadyRequeueAfter
               else if requeue_after kubeconfigRes \<noteq> 0 then kubeconfigRes
               else if bo_ensureWatchErr out \<noteq> None then requeue_in ensureWatchRequeueAfter
               else no_requeue))))))"

definition cp_Reconcile :: "cp_env \<Rightarrow> object_key \<Rightarrow> ctrl_result result cp_eff" where
  "cp_Reconcile env req =
     bind_eff (perform (GetControlPlane req) (\<lambda>h. ce_getCP env h req)) (\<lambda>got. case got of
       Inl e \<Rightarrow> ret (map_sum id (\<lambda>_. no_requeue) (ignore_not_found e))
     | Inr cp \<Rightarrow>
         bind_eff (perform (GetOwnerCluster (cp_meta cp)) (\<lambda>h. ce_getOwner env h (cp_meta cp))) (\<lambda>owner.
         let (selection, backendCount) = selectedControlPlaneBackend (cp_Spec cp) in
         if backendCount = 0 then fatal_selection env cp ''BackendNotSelected''
         else if backendCount > 1 then fatal_selection env cp ''MultipleBackendsSelected''
         else bind_eff (run_backend env cp (owner_or_nil owner) selection) (\<lambda>answer. case answer of
                Inl final \<Rightarrow> ret final
              | Inr out \<Rightarrow> finish_reconcile env cp owner out)))"

section \<open>Facts about the metadata\<close>

lemma ensure_ref_idem:
  assumes "or_Controller r = None" "or_BlockOwnerDeletion r = None"
  shows "ensure_ref (ensure_ref rs r) r = ensure_ref rs r"
proof -
  have "r\<lparr>or_UID := or_UID r, or_Controller := None, or_BlockOwnerDeletion := None\<rparr> = r"
    using assms by (cases r) simp
  then show ?thesis by (induction rs) (auto simp: same_owner_def)
qed

lemma ensure_ref_others:
  "filter (\<lambda>x. \<not> same_owner x r) (ensure_ref rs r) = filter (\<lambda>x. \<not> same_owner x r) rs"
  by (induction rs) (auto simp: same_owner_def)

lemma ensure_ref_mem:
  "\<exists>x \<in> set (ensure_ref rs r). same_owner x r \<and> or_UID x = or_UID r"
  by (induction rs) (auto simp: same_owner_def)

lemma ensure_ref_count:
  "length (filter (\<lambda>x. same_owner x r) (ensure_ref rs r)) = max 1 (length (filter (\<lambda>x. same_owner x r) rs))"
  by (induction rs) (auto simp: same_owner_def)

text \<open>
  Writing the owner Cluster into the owner references is idempotent, leaves every other
  reference where it was, and leaves a reference to the cluster with the cluster's UID; if
  there was at most one such reference before, there is exactly one after, and it is neither a
  controller reference nor does it block deletion.
\<close>

theorem owner_reference_ensured:
  fixes c :: cluster
  defines "r \<equiv> cluster_owner_ref c"
  shows "ensureClusterOwnerReference (ensureClusterOwnerReference rs (Some c)) (Some c) =
      ensureClusterOwnerReference rs (Some c) \<and>
    filter (\<lambda>x. \<not> same_owner x r) (ensureClusterOwnerReference rs (Some c)) = filter (\<lambda>x. \<not> same_owner x r) rs \<and>
    (\<exists>x \<in> set (ensureClusterOwnerReference rs (Some c)). same_owner x r \<and> or_UID x = om_UID (cl_meta c)) \<and>
    (length (filter (\<lambda>x. same_owner x r) rs) \<le> 1 \<longrightarrow>
       filter (\<lambda>x. same_owner x r) (ensureClusterOwnerReference rs (Some c)) = [r])"
proof -
  have one: "filter (\<lambda>x. same_owner x r) (ensure_ref rs r) = [r]"
    if "length (filter (\<lambda>x. same_owner x r) rs) \<le> 1"
    using that
  proof (induction rs)
    case Nil
    then show ?case by (simp add: same_owner_def)
  next
    case (Cons x xs)
    show ?case
    proof (cases "same_owner x r")
      case True
      then have "filter (\<lambda>x. same_owner x r) xs = []" using Cons.prems by simp
      moreover have "x\<lparr>or_UID := or_UID r, or_Controller := None, or_BlockOwnerDeletion := None\<rparr> = r"
        using True by (cases x) (simp add: same_owner_def r_def cluster_owner_ref_def)
      moreover have "same_owner r r" by (simp add: same_owner_def)
      ultimately show ?thesis using True by simp
    next
      case False
      then show ?thesis using Cons by simp
    qed
  qed
  have r: "or_UID r = om_UID (cl_meta c)" "or_Controller r = None" "or_BlockOwnerDeletion r = None"
    by (simp_all add: r_def cluster_owner_ref_def)
  then show ?thesis
    using ensure_ref_idem [OF r(2,3)] ensure_ref_others ensure_ref_mem [of rs r] one
    by (simp add: ensureClusterOwnerReference_def r_def)
qed

text \<open>
  An endpoint written by the facade is read back by it: for a plain host name or IPv4
  address and a valid port, parsing the text of the endpoint gives the endpoint.
\<close>

theorem endpoint_roundtrip:
  assumes "\<forall>c \<in> set (ep_Host ep). host_char c" "valid_endpoint ep"
  shows "Parse ip_err (endpointToStatusString ep) = Inr ep"
proof -
  let ?n = "nat (sint (ep_Port ep))"
  have port: "1 \<le> sint (ep_Port ep)" "sint (ep_Port ep) \<le> 65535" "ep_Host ep \<noteq> ''''"
    using assms(2) by (auto simp: valid_endpoint_def valid_port_def)
  then have str: "endpointToStatusString ep = ''https://'' @ ep_Host ep @ CHR '':'' # show_nat ?n"
    by (simp add: endpointToStatusString_def show_int_def)
  have "1 \<le> ?n" "?n \<le> 65535" "word_of_int (int ?n) = ep_Port ep" using port by auto
  then show ?thesis
    unfolding str using Parse_host_port [OF port(3) assms(1), of ?n ip_err] by simp
qed

text \<open>
  The controller and the admission webhook choose the same backend: a control plane the
  webhook admits never reaches the branches for no backend or several.
\<close>

theorem controller_agrees_with_webhook:
  "snd (selectedControlPlaneBackend spec) = snd (selectedKany8sControlPlaneBackend spec) \<and>
   (cp_ValidateCreate (Some (cp\<lparr>cp_Spec := spec\<rparr>)) = None \<longrightarrow>
      snd (selectedControlPlaneBackend spec) = 1 \<and>
      fst (selectedControlPlaneBackend spec) = fst (selectedKany8sControlPlaneBackend spec) \<and>
      fst (selectedControlPlaneBackend spec) \<in> {''kro'', ''kubeadm'', ''external''})"
  by (auto simp: cp_ValidateCreate_def create_admits_iff controller_table webhook_table backend_table_def
      split: if_splits)

section \<open>Facts about the status\<close>

definition find_cond :: "apilib \<Rightarrow> Kany8sControlPlane \<Rightarrow> string \<Rightarrow> condition option" where
  "find_cond lib cp t = lib_FindStatusCondition lib (ct_Conditions (cp_Status cp)) t"

definition cond_status :: "apilib \<Rightarrow> Kany8sControlPlane \<Rightarrow> string \<Rightarrow> string option" where
  "cond_status lib cp t = map_option co_Status (find_cond lib cp t)"

lemma condition_types_distinct [simp]:
  "conditionTypeReady \<noteq> conditionTypeCreating" "conditionTypeCreating \<noteq> conditionTypeReady"
  "conditionTypeResourceGraphDefinitionResolved \<noteq> conditionTypeReady"
  "conditionTypeResourceGraphDefinitionResolved \<noteq> conditionTypeCreating"
  "conditionTypeResourceGraphDefinitionResolved \<noteq> conditionTypeKubeconfigSecretReconciled"
  "conditionTypeKubeconfigSecretReconciled \<noteq> conditionTypeReady"
  "conditionTypeKubeconfigSecretReconciled \<noteq> conditionTypeCreating"
  "conditionTypeReady \<noteq> conditionTypeKubeconfigSecretReconciled"
  by (simp_all add: condition_types)

lemma cond_of_type [simp]: "co_Type (cond_of t s r m) = t" "co_Type (observed_cond cp t s r m) = t"
  by (simp_all add: cond_of_def observed_cond_def)

lemma cond_of_status [simp]: "co_Status (cond_of t s r m) = s" "co_Status (observed_cond cp t s r m) = s"
  by (simp_all add: cond_of_def observed_cond_def)

lemma cp_update_fields [simp]:
  "cp_Spec (set_cond lib cp c) = cp_Spec cp" "cp_meta (set_cond lib cp c) = cp_meta cp"
  "cp_Spec (delete_cond lib cp t) = cp_Spec cp" "cp_meta (delete_cond lib cp t) = cp_meta cp"
  "cp_Spec (set_failure cp r m) = cp_Spec cp" "cp_meta (set_failure cp r m) = cp_meta cp"
  "cp_Spec (set_status_cond lib cp c) = cp_Spec cp" "cp_meta (set_status_cond lib cp c) = cp_meta cp"
  "find_cond lib (set_failure cp r m) = find_cond lib cp"
  "find_cond lib (cp\<lparr>cp_Status := (cp_Status cp)\<lparr>ct_Version := v\<rparr>\<rparr>) = find_cond lib cp"
  "find_cond lib (cp\<lparr>cp_Status := (cp_Status cp)\<lparr>ct_ControlPlaneInitialized := b\<rparr>\<rparr>) = find_cond lib cp"
  by (auto simp: set_cond_def delete_cond_def set_failure_def set_status_cond_def find_cond_def)

lemma find_set_cond:
  assumes "condition_laws lib"
  shows "t \<noteq> co_Type c \<Longrightarrow> find_cond lib (set_cond lib cp c) t = find_cond lib cp t"
    and "\<exists>d. find_cond lib (set_cond lib cp c) (co_Type c) = Some d \<and> same_report c d"
    and "find_cond lib (delete_cond lib cp t) u = (if u = t then None else find_cond lib cp u)"
    and "find_cond lib (set_status_cond lib cp c) t = (if t = co_Type c then Some c else find_cond lib cp t)"
  using condition_lawsD [OF assms]
  by (auto simp: find_cond_def set_cond_def delete_cond_def set_status_cond_def)

lemma cond_status_set:
  assumes "condition_laws lib"
  shows "cond_status lib (set_cond lib cp c) t = (if t = co_Type c then Some (co_Status c) else cond_status lib cp t)"
  using find_set_cond(1) [OF assms, of t c cp] find_set_cond(2) [OF assms, of cp c]
  by (auto simp: cond_status_def same_report_def)

lemma ready_status_correct:
  fixes cp :: Kany8sControlPlane and st :: instance_status
  assumes "condition_laws lib"
  defines "cp' \<equiv> ready_status lib cp st"
  shows "cond_status lib cp' conditionTypeReady = Some ConditionTrue \<and>
    cond_status lib cp' conditionTypeCreating = None \<and>
    (\<forall>t. t \<notin> {conditionTypeReady, conditionTypeCreating} \<longrightarrow> find_cond lib cp' t = find_cond lib cp t) \<and>
    ct_FailureReason (cp_Status cp') = None \<and> ct_FailureMessage (cp_Status cp') = None \<and>
    cp_Spec cp' = cp_Spec cp \<and> cp_meta cp' = cp_meta cp \<and>
    (cs_Version (cp_Spec cp) \<noteq> '''' \<longrightarrow> ct_Version (cp_Status cp') = cs_Version (cp_Spec cp)) \<and>
    ct_ControlPlaneInitialized (cp_Status cp') = ct_ControlPlaneInitialized (cp_Status cp)"
proof -
  let ?c = "cond_of conditionTypeReady ConditionTrue (or_default (is_Reason st) ''Ready'')
    (or_default (is_Message st) ''control plane is ready'')"
  let ?d = "delete_cond lib (set_cond lib cp ?c) conditionTypeCreating"
  have r: "find_cond lib cp' = find_cond lib ?d" by (auto simp: cp'_def ready_status_def Let_def)
  have "cond_status lib ?d conditionTypeReady = Some ConditionTrue"
    using cond_status_set [OF assms(1), of cp ?c] by (simp add: cond_status_def find_set_cond(3) [OF assms(1)])
  then have "cond_status lib cp' conditionTypeReady = Some ConditionTrue" "cond_status lib cp' conditionTypeCreating = None"
    "\<forall>t. t \<notin> {conditionTypeReady, conditionTypeCreating} \<longrightarrow> find_cond lib cp' t = find_cond lib cp t"
    using r find_set_cond(1) [OF assms(1), of _ ?c cp]
    by (simp_all add: cond_status_def find_set_cond(3) [OF assms(1)])
  then show ?thesis
    by (auto simp: cp'_def ready_status_def Let_def set_failure_def delete_cond_def set_cond_def)
qed

lemma not_ready_cp_correct:
  fixes cp :: Kany8sControlPlane and st :: instance_status
  assumes "condition_laws lib"
  defines "cp' \<equiv> not_ready_cp lib cp st"
    and "terminal \<equiv> is_Terminal st \<or> isTerminalFailureReason (is_Reason st)"
  shows "cond_status lib cp' conditionTypeReady = Some ConditionFalse \<and>
    cond_status lib cp' conditionTypeCreating = Some ConditionTrue \<and>
    (\<forall>t. t \<notin> {conditionTypeReady, conditionTypeCreating} \<longrightarrow> find_cond lib cp' t = find_cond lib cp t) \<and>
    ct_FailureReason (cp_Status cp') = (if terminal then non_empty (is_Reason st) else None) \<and>
    ct_FailureMessage (cp_Status cp') = (if terminal then non_empty (is_Message st) else None) \<and>
    cp_Spec cp' = cp_Spec cp \<and> cp_meta cp' = cp_meta cp \<and>
    ct_Version (cp_Status cp') = ct_Version (cp_Status cp) \<and>
    ct_ControlPlaneInitialized (cp_Status cp') = ct_ControlPlaneInitialized (cp_Status cp)"
proof -
  let ?reason = "or_default (is_Reason st) ''Creating''" and ?msg = "or_default (is_Message st) defaultNotReadyMessage"
  let ?d = "set_cond lib (set_cond lib cp (cond_of conditionTypeReady ConditionFalse ?reason ?msg))
      (cond_of conditionTypeCreating ConditionTrue ?reason ?msg)"
  have r: "find_cond lib cp' = find_cond lib ?d" by (auto simp: cp'_def not_ready_cp_def Let_def)
  have "cond_status lib ?d conditionTypeReady = Some ConditionFalse"
    "cond_status lib ?d conditionTypeCreating = Some ConditionTrue"
    by (simp_all add: cond_status_set [OF assms(1)])
  then have "cond_status lib cp' conditionTypeReady = Some ConditionFalse"
    "cond_status lib cp' conditionTypeCreating = Some ConditionTrue"
    "\<forall>t. t \<notin> {conditionTypeReady, conditionTypeCreating} \<longrightarrow> find_cond lib cp' t = find_cond lib cp t"
    using r find_set_cond(1) [OF assms(1)] by (simp_all add: cond_status_def)
  then show ?thesis
    by (auto simp: terminal_def cp'_def not_ready_cp_def Let_def set_failure_def set_cond_def)
qed

lemma conditions_and_failure_lemma:
  assumes "condition_laws lib"
  defines "cp' \<equiv> \<lambda>cp st ready. conditions_and_failure lib cp st ready"
  shows "cond_status lib (cp' cp st ready) conditionTypeReady = Some (if ready then ConditionTrue else ConditionFalse) \<and>
    cond_status lib (cp' cp st ready) conditionTypeCreating = (if ready then None else Some ConditionTrue) \<and>
    (\<forall>t. t \<notin> {conditionTypeReady, conditionTypeCreating} \<longrightarrow>
       find_cond lib (cp' cp st ready) t = find_cond lib cp t) \<and>
    (let terminal = \<not> ready \<and> (is_Terminal st \<or> isTerminalFailureReason (is_Reason st)) in
       ct_FailureReason (cp_Status (cp' cp st ready)) = (if terminal then non_empty (is_Reason st) else None) \<and>
       ct_FailureMessage (cp_Status (cp' cp st ready)) = (if terminal then non_empty (is_Message st) else None)) \<and>
    cp_Spec (cp' cp st ready) = cp_Spec cp \<and> cp_meta (cp' cp st ready) = cp_meta cp \<and>
    (ready \<and> cs_Version (cp_Spec cp) \<noteq> '''' \<longrightarrow> ct_Version (cp_Status (cp' cp st ready)) = cs_Version (cp_Spec cp)) \<and>
    (\<not> ready \<longrightarrow> ct_Version (cp_Status (cp' cp st ready)) = ct_Version (cp_Status cp)) \<and>
    ct_ControlPlaneInitialized (cp_Status (cp' cp st ready)) = ct_ControlPlaneInitialized (cp_Status cp)"
  using ready_status_correct [OF assms(1), of cp st] not_ready_cp_correct [OF assms(1), of cp st]
  by (cases ready) (simp_all add: cp'_def conditions_and_failure_def)

text \<open>
  C12. The status written at the end of a reconcile: Ready says whether the control plane is
  ready, Creating is true exactly while it is not, no other condition is touched, the failure
  fields are set exactly for a terminal state that is not ready, and the reported version
  follows the spec once it is ready.
\<close>

theorem conditions_and_failure_correct:
  assumes "condition_laws lib"
  defines "cp' \<equiv> \<lambda>cp st ready. conditions_and_failure lib cp st ready"
  shows "cond_status lib (cp' cp st ready) conditionTypeReady = Some (if ready then ConditionTrue else ConditionFalse) \<and>
    cond_status lib (cp' cp st ready) conditionTypeCreating = (if ready then None else Some ConditionTrue) \<and>
    (\<forall>t. t \<notin> {conditionTypeReady, conditionTypeCreating} \<longrightarrow>
       find_cond lib (cp' cp st ready) t = find_cond lib cp t) \<and>
    (let terminal = \<not> ready \<and> (is_Terminal st \<or> isTerminalFailureReason (is_Reason st)) in
       ct_FailureReason (cp_Status (cp' cp st ready)) = (if terminal then non_empty (is_Reason st) else None) \<and>
       ct_FailureMessage (cp_Status (cp' cp st ready)) = (if terminal then non_empty (is_Message st) else None)) \<and>
    cp_Spec (cp' cp st ready) = cp_Spec cp \<and> cp_meta (cp' cp st ready) = cp_meta cp \<and>
    (ready \<and> cs_Version (cp_Spec cp) \<noteq> '''' \<longrightarrow> ct_Version (cp_Status (cp' cp st ready)) = cs_Version (cp_Spec cp)) \<and>
    (\<not> ready \<longrightarrow> ct_Version (cp_Status (cp' cp st ready)) = ct_Version (cp_Status cp)) \<and>
    ct_ControlPlaneInitialized (cp_Status (cp' cp st ready)) = ct_ControlPlaneInitialized (cp_Status cp)"
  unfolding cp'_def by (rule conditions_and_failure_lemma [OF assms(1)])

section \<open>Every call of a reconcile\<close>

text \<open>The calls that do not write a control plane object.\<close>

definition no_cp_write :: "cp_call \<Rightarrow> bool" where
  "no_cp_write c = (case c of PatchCP _ _ \<Rightarrow> False | PatchCPStatus _ _ \<Rightarrow> False | UpdateCPStatus _ \<Rightarrow> False | _ \<Rightarrow> True)"

definition backend_answered :: "cp_env \<Rightarrow> unstructured \<Rightarrow> bool" where
  "backend_answered env u \<longleftrightarrow> (\<exists>h v. ce_storeBackend env h v = Inr u)"

definition kubeadm_answered :: "cp_env \<Rightarrow> Kany8sKubeadmControlPlane \<Rightarrow> bool" where
  "kubeadm_answered env k \<longleftrightarrow> (\<exists>h b. ce_storeKubeadm env h b = Inr k)"

lemma answeredI:
  "ce_storeBackend env h v = Inr u \<Longrightarrow> backend_answered env u"
  "ce_storeKubeadm env h b = Inr k \<Longrightarrow> kubeadm_answered env k"
  unfolding backend_answered_def kubeadm_answered_def by blast+

text \<open>
  The backend object a status was read from: the one the server returned when the desired
  object was stored.
\<close>

definition backend_reports :: "cp_env \<Rightarrow> unstructured option \<Rightarrow> instance_status \<Rightarrow> bool" where
  "backend_reports env inst st =
     (case inst of
        Some u \<Rightarrow> backend_answered env u \<and> ReadInstanceStatus (ce_lib env) (Some u) = Inr st
      | None \<Rightarrow> \<exists>k. kubeadm_answered env k \<and> st = kubeadmBackendStatusToInstanceStatus (ce_lib env) k)"

text \<open>No source Secret is named, or its kubeconfig has been stored in the target Secret.\<close>

definition kubeconfig_settled :: "cp_env \<Rightarrow> unstructured option \<Rightarrow> bool" where
  "kubeconfig_settled env inst =
     (case inst of
        None \<Rightarrow> True
      | Some u \<Rightarrow>
          (\<exists>n f. lib_NestedString (ce_lib env) (un_Object u) [''status'', ''kubeconfigSecretRef'', ''name''] = Inr (n, f) \<and>
             (\<not> f \<or> n = '''')) \<or>
          (\<exists>h t s. ce_storeTarget env h t = Inr s \<and> fmlookup (se_Data t) DataKey \<noteq> None))"

definition ready_justified :: "cp_env \<Rightarrow> instance_status \<Rightarrow> bool" where
  "ready_justified env st \<longleftrightarrow>
     (\<exists>inst ep. backend_reports env inst st \<and> is_Ready st \<and>
        Parse (lib_ip_literal_error (ce_lib env)) (is_Endpoint st) = Inr ep \<and> kubeconfig_settled env inst)"

text \<open>The status writes a reconcile may make.\<close>

inductive cp_write :: "cp_env \<Rightarrow> cp_call \<Rightarrow> bool" for env where
  kubeconfig: "cp_write env (PatchCPStatus b (set_status_cond (ce_lib env) b
      (observed_cond b conditionTypeKubeconfigSecretReconciled s r m)))"
| not_ready: "cp_write env (PatchCPStatus b (conditions_and_failure (ce_lib env) b st False))"
| ready: "ready_justified env st \<Longrightarrow>
    cp_write env (PatchCPStatus b (conditions_and_failure (ce_lib env) b st True))"
| initialized: "\<not> ct_ControlPlaneInitialized (cp_Status b) \<Longrightarrow>
    cp_write env (PatchCPStatus b (b\<lparr>cp_Status := (cp_Status b)\<lparr>ct_ControlPlaneInitialized := True\<rparr>\<rparr>))"
| rgd: "cp_write env (UpdateCPStatus (set_status_cond (ce_lib env) b
      (observed_cond b conditionTypeResourceGraphDefinitionResolved ConditionFalse r m)))"
| endpoint: "Parse (lib_ip_literal_error (ce_lib env)) raw = Inr ep \<Longrightarrow>
    cp_write env (PatchCP b (b\<lparr>cp_Spec := (cp_Spec b)\<lparr>cs_ControlPlaneEndpoint := ep\<rparr>\<rparr>))"

definition cp_allowed :: "cp_env \<Rightarrow> cp_call \<Rightarrow> bool" where
  "cp_allowed env c \<longleftrightarrow> no_cp_write c \<or> cp_write env c"

lemma cp_allowed_other [simp]:
  "cp_allowed env (GetControlPlane k)" "cp_allowed env (GetOwnerCluster m)" "cp_allowed env (GetRGD n)"
  "cp_allowed env (EnsureWatchCall g)" "cp_allowed env (ReadBackend u)" "cp_allowed env (StoreBackend u)"
  "cp_allowed env (ReadKubeadm b)" "cp_allowed env (StoreKubeadm b)" "cp_allowed env (GetSecret k)"
  "cp_allowed env (ReadTarget s)" "cp_allowed env (StoreTarget s)" "cp_allowed env (CPEvent a b' c)"
  by (simp_all add: cp_allowed_def no_cp_write_def)

lemma emits_patch_status: "cp_allowed env (PatchCPStatus b a) \<Longrightarrow> emits (cp_allowed env) (patch_cp_status env b a)"
  by (simp add: patch_cp_status_def)

lemma emits_cp_event [emits_intros]: "emits (cp_allowed env) (cp_event env t r m)"
  unfolding cp_event_def by (intro emits_intros) simp

lemma emits_ensure_watch [emits_intros]: "emits (cp_allowed env) (ensure_watch env g)"
  unfolding ensure_watch_def by (intro emits_intros) simp

lemma emits_conditions_not_ready [emits_intros]:
  "emits (cp_allowed env) (reconcileConditionsAndFailure env cp st False)"
  unfolding reconcileConditionsAndFailure_def
  by (rule emits_patch_status) (simp add: cp_allowed_def cp_write.not_ready)

lemma emits_invalid_backend [emits_intros]: "emits (cp_allowed env) (reconcileInvalidBackendSpec env cp r m)"
  unfolding reconcileInvalidBackendSpec_def Let_def by (intro emits_intros)

lemma emits_invalid_kro [emits_intros]: "emits (cp_allowed env) (reconcileInvalidKroSpec env cp e)"
  unfolding reconcileInvalidKroSpec_def Let_def by (intro emits_intros)

lemma emits_fatal [emits_intros]: "emits (cp_allowed env) (fatal_selection env cp r)"
  unfolding fatal_selection_def by (intro emits_intros)

lemma emits_rgd [emits_intros]: "emits (cp_allowed env) (requeueWithRGDResolutionCondition env cp n e)"
  unfolding requeueWithRGDResolutionCondition_def Let_def
  by (intro emits_intros) (simp add: cp_allowed_def cp_write.rgd)

lemma emits_kubeconfig_condition [emits_intros]:
  "emits (cp_allowed env) (reconcileKubeconfigSecretCondition env cp s r m t)"
  unfolding reconcileKubeconfigSecretCondition_def Let_def
  by (intro emits_intros emits_patch_status) (simp add: cp_allowed_def cp_write.kubeconfig)

definition kubeconfig_post :: "cp_env \<Rightarrow> unstructured option \<Rightarrow> kubeconfig_outcome result \<Rightarrow> bool" where
  "kubeconfig_post env inst r =
     (case r of
        Inl e \<Rightarrow> True
      | Inr ((res, enabled), cp) \<Rightarrow> enabled \<and> requeue_after res \<noteq> 0 \<or> kubeconfig_settled env inst)"

lemma ensures_kubeconfig_wait:
  "ensures (cp_allowed env) (kubeconfig_post env inst) (kubeconfig_wait env cp r m t)"
  unfolding kubeconfig_wait_def
  by (rule ensures_try [OF ensures_of_emits [OF emits_kubeconfig_condition, of "\<lambda>_. True"]])
     (auto intro!: ensures_ret simp: kubeconfig_post_def ControlPlaneNotReadyRequeueAfter_def second_def)

lemma ensures_create_or_update:
  assumes "emits Q read" "\<And>b obj. mutate b = Inr obj \<Longrightarrow> ensures Q R (write obj)" "\<And>e. R (Inl e)"
  shows "ensures Q R (create_or_update read mutate write)"
  unfolding create_or_update_def
  by (rule ensures_try [OF ensures_of_emits [OF assms(1), of "\<lambda>_. True"]])
     (auto split: sum.split intro: assms ensures_ret)

lemma ensures_copy_kubeconfig:
  assumes "inst = Some u"
  shows "ensures (cp_allowed env) (kubeconfig_post env inst) (copy_kubeconfig env cp owner src s)"
proof -
  let ?R = "\<lambda>r :: secret result. case r of Inl e \<Rightarrow> True | Inr x \<Rightarrow> kubeconfig_settled env inst"
  have store: "ensures (cp_allowed env) ?R (perform (StoreTarget t) (\<lambda>h. ce_storeTarget env h t))"
    if "mutate_target (ce_lib env) cp owner kc b = Inr t" for t b kc
  proof (rule ensures_perform)
    fix h
    have "fmlookup (se_Data t) DataKey \<noteq> None"
      using that by (auto simp: mutate_target_def split: sum.splits)
    then have "kubeconfig_settled env inst" if "ce_storeTarget env h t = Inr x" for x
      unfolding kubeconfig_settled_def assms option.case using that by blast
    then show "?R (ce_storeTarget env h t)" by (simp split: sum.split)
  qed simp
  show ?thesis
    unfolding copy_kubeconfig_def Let_def
    by (auto split!: option.split sum.split
        intro!: ensures_kubeconfig_wait ensures_ret
          ensures_try [where R = ?R] ensures_create_or_update store
          ensures_try [OF ensures_of_emits [OF emits_kubeconfig_condition, of "\<lambda>_. True"]]
        simp: kubeconfig_post_def)
qed

lemma ensures_kubeconfig:
  "ensures (cp_allowed env) (kubeconfig_post env inst) (reconcileKubeconfigSecret env cp inst owner)"
proof (cases inst)
  case None
  then show ?thesis by (auto simp: reconcileKubeconfigSecret_def kubeconfig_post_def intro!: ensures_ret)
next
  case (Some u)
  have get: "ensures (cp_allowed env) (kubeconfig_post env inst) (get_source_secret env cp c ns n)" for c ns n
    unfolding get_source_secret_def Let_def
    by (rule ensures_bind [OF ensures_perform, where R = "\<lambda>_. True"])
       (auto split: sum.split intro: ensures_kubeconfig_wait ensures_copy_kubeconfig [OF Some])
  have owner: "ensures (cp_allowed env) (kubeconfig_post env inst) (kubeconfig_for_owner env cp u c n)" for c n
    unfolding kubeconfig_for_owner_def Let_def
    by (auto split: sum.split prod.split intro!: ensures_kubeconfig_wait get ensures_ret simp: kubeconfig_post_def)
  have none: "kubeconfig_settled env inst"
    if "lib_NestedString (ce_lib env) (un_Object u) [''status'', ''kubeconfigSecretRef'', ''name''] = Inr (n, f)"
      "\<not> f \<or> n = ''''" for n f
    using that Some unfolding kubeconfig_settled_def by fastforce
  show ?thesis
    unfolding reconcileKubeconfigSecret_def Some
    using none Some
    by (auto split: sum.split prod.split option.split
        intro!: ensures_kubeconfig_wait owner [unfolded Some] ensures_ret simp: kubeconfig_post_def)
qed

definition backend_post :: "cp_env \<Rightarrow> backend_answer \<Rightarrow> bool" where
  "backend_post env a =
     (case a of
        Inl _ \<Rightarrow> True
      | Inr out \<Rightarrow> is_Ready (bo_status out) \<longrightarrow>
          backend_reports env (bo_instance out) (bo_status out) \<and>
          (bo_kubeconfigEnabled out \<or> bo_instance out = None))"

definition stored_by :: "cp_env \<Rightarrow> unstructured result \<Rightarrow> bool" where
  "stored_by env r = (case r of Inl e \<Rightarrow> True | Inr u \<Rightarrow> backend_answered env u)"

lemma ensures_apply_backend: "ensures (cp_allowed env) (stored_by env) (apply_backend env cp owner g spec)"
  unfolding apply_backend_def Let_def
  by (rule ensures_create_or_update)
     (auto simp: stored_by_def intro!: ensures_perform answeredI split: sum.split)

lemma emits_resolve:
  assumes "\<And>n. emits Q (get n)"
  shows "emits Q (ResolveInstanceGVK lib get name)"
  unfolding ResolveInstanceGVK_def Let_def by (intro emits_intros assms)

text \<open>A final answer constrains nothing.\<close>

lemma ensures_final:
  assumes "emits (cp_allowed env) m"
  shows "ensures (cp_allowed env) (backend_post env) (bind_eff m (\<lambda>x. ret (Inl x)))"
  by (rule ensures_bind [OF ensures_of_emits [OF assms, of "\<lambda>_. True"]])
     (auto simp: backend_post_def intro: ensures_ret)

lemma ensures_kro: "ensures (cp_allowed env) (backend_post env) (reconcileKroBackend env cp owner ref)"
proof -
  have tail: "ensures (cp_allowed env) (backend_post env) (bind_eff (apply_backend env cp owner g spec) (\<lambda>applied. ret (case applied of
               Inl e \<Rightarrow> Inl (Inl e)
             | Inr inst \<Rightarrow>
                 (case ReadInstanceStatus (ce_lib env) (Some inst) of
                    Inl e \<Rightarrow> Inl (Inl e)
                  | Inr st \<Rightarrow> Inr \<lparr>bo_instance = Some inst, bo_status = st, bo_initialized = False,
                       bo_initializeOnEndpoint = True, bo_ensureWatchErr = w,
                       bo_kubeconfigEnabled = True\<rparr>))))" for g spec w
    by (rule ensures_bind [OF ensures_apply_backend])
       (auto intro!: ensures_ret simp: backend_post_def stored_by_def backend_reports_def split: sum.splits)
  show ?thesis
    unfolding reconcileKroBackend_def
    by (rule ensures_bind [OF ensures_of_emits [OF emits_resolve, of _ _ "\<lambda>_. True"]])
       (auto split: sum.split intro!: ensures_final emits_rgd emits_invalid_kro tail
          ensures_bind [OF ensures_of_emits [OF emits_ensure_watch, of "\<lambda>_. True"]])
qed

lemma ensures_kubeadm: "ensures (cp_allowed env) (backend_post env) (reconcileKubeadmBackend env cp owner k)"
proof -
  let ?R = "\<lambda>r. case r of Inl e \<Rightarrow> True | Inr b \<Rightarrow> kubeadm_answered env b"
  have "ensures (cp_allowed env) ?R (create_or_update
        (perform (ReadKubeadm (new_kubeadm_backend cp)) (\<lambda>h. ce_readKubeadm env h (new_kubeadm_backend cp)))
        (mutate_kubeadm (ce_lib env) cp owner k)
        (\<lambda>b. perform (StoreKubeadm b) (\<lambda>h. ce_storeKubeadm env h b)))"
    by (rule ensures_create_or_update) (auto intro!: ensures_perform answeredI split: sum.split)
  then show ?thesis
    unfolding reconcileKubeadmBackend_def
    by (intro ensures_bind [OF ensures_of_emits [OF emits_ensure_watch, of "\<lambda>_. True"]], simp)
       (rule ensures_bind, assumption,
        auto intro!: ensures_ret simp: backend_post_def backend_reports_def split: sum.splits)
qed

lemma ensures_external: "ensures (cp_allowed env) (backend_post env) (reconcileExternalBackend env cp owner ext)"
proof -
  have tail: "ensures (cp_allowed env) (backend_post env) (bind_eff (apply_backend env cp owner g spec) (\<lambda>applied. ret (case applied of
               Inl e \<Rightarrow> Inl (Inl e)
             | Inr inst \<Rightarrow>
                 (case ReadInstanceStatus (ce_lib env) (Some inst) of
                    Inl e \<Rightarrow> Inl (Inl (wrapf ''read external backend status'' e))
                  | Inr st \<Rightarrow> Inr \<lparr>bo_instance = Some inst, bo_status = st, bo_initialized = False,
                       bo_initializeOnEndpoint = True, bo_ensureWatchErr = w,
                       bo_kubeconfigEnabled = True\<rparr>))))" for g spec w
    by (rule ensures_bind [OF ensures_apply_backend])
       (auto intro!: ensures_ret simp: backend_post_def stored_by_def backend_reports_def split: sum.splits)
  show ?thesis
    unfolding reconcileExternalBackend_def Let_def
    by (auto split: sum.split prod.split intro!: ensures_final emits_invalid_backend tail
          ensures_bind [OF ensures_of_emits [OF emits_ensure_watch, of "\<lambda>_. True"]])
qed

lemma ensures_run_backend: "ensures (cp_allowed env) (backend_post env) (run_backend env cp owner sel)"
  unfolding run_backend_def Let_def
  by (auto split: option.split intro!: ensures_kro ensures_kubeadm ensures_external ensures_ret
      simp: backend_post_def not_ready_status_def zero_status_def)

definition endpoint_post ::
    "cp_env \<Rightarrow> instance_status \<Rightarrow> (Kany8sControlPlane \<times> instance_status \<times> bool \<times> bool) result \<Rightarrow> bool" where
  "endpoint_post env st r =
     (case r of
        Inl e \<Rightarrow> True
      | Inr (cp, st', ready, valid) \<Rightarrow> ready \<longrightarrow> st' = st \<and> is_Ready st \<and>
          (\<exists>ep. Parse (lib_ip_literal_error (ce_lib env)) (is_Endpoint st) = Inr ep))"

lemma ensures_project_endpoint:
  "ensures (cp_allowed env) (endpoint_post env st) (project_endpoint env cp st)"
proof -
  let ?p = "Parse (lib_ip_literal_error (ce_lib env)) (is_Endpoint st)"
  have patch: "ensures (cp_allowed env) (\<lambda>_. True)
      (patch_cp env cp (cp\<lparr>cp_Spec := (cp_Spec cp)\<lparr>cs_ControlPlaneEndpoint := ep\<rparr>\<rparr>))" if "?p = Inr ep" for ep
    unfolding patch_cp_def
    by (rule ensures_perform) (simp_all add: cp_allowed_def cp_write.endpoint [OF that])
  show ?thesis
  proof (cases "is_Endpoint st = ''''")
    case True
    then show ?thesis by (auto simp: project_endpoint_def Let_def endpoint_post_def intro!: ensures_ret)
  next
    case False
    show ?thesis
    proof (cases ?p)
      case (Inl e)
      with False show ?thesis by (auto simp: project_endpoint_def Let_def endpoint_post_def intro!: ensures_ret)
    next
      case (Inr ep)
      with False show ?thesis
        by (auto simp: project_endpoint_def Let_def endpoint_post_def
            intro!: ensures_ret ensures_try [OF patch [OF Inr]])
    qed
  qed
qed

lemma emits_mark_initialized [emits_intros]: "emits (cp_allowed env) (mark_initialized env cp b)"
  unfolding mark_initialized_def
  by (auto intro!: emits_patch_status simp: cp_allowed_def cp_write.initialized)

lemma emits_final_conditions:
  assumes "ready \<Longrightarrow> ready_justified env st"
  shows "emits (cp_allowed env) (reconcileConditionsAndFailure env cp st ready)"
  using assms
  by (cases ready) (auto simp: reconcileConditionsAndFailure_def cp_allowed_def
      intro!: emits_patch_status cp_write.ready cp_write.not_ready)

lemma ready_from_posts:
  assumes "backend_post env (Inr out)"
    and "bo_kubeconfigEnabled out \<Longrightarrow> kubeconfig_post env (bo_instance out) (Inr ((res, enabled), cp1))"
    and "endpoint_post env (bo_status out) (Inr (cp2, st, ready, valid))"
    and "overall_status lib cp3 st ready enabled res = (st', True)"
  shows "ready_justified env st'"
proof -
  have ready: "ready" "st' = st" "\<not> (enabled \<and> requeue_after res \<noteq> 0)"
    using assms(4) by (auto simp: overall_status_def split: if_splits option.splits)
  obtain ep where st: "st = bo_status out" "is_Ready (bo_status out)"
      "Parse (lib_ip_literal_error (ce_lib env)) (is_Endpoint (bo_status out)) = Inr ep"
    using assms(3) ready(1) by (auto simp: endpoint_post_def)
  have b: "backend_reports env (bo_instance out) (bo_status out)"
    "bo_kubeconfigEnabled out \<or> bo_instance out = None"
    using assms(1) st(2) by (auto simp: backend_post_def)
  have "kubeconfig_settled env (bo_instance out)"
    using assms(2) ready(3) b(2) by (auto simp: kubeconfig_post_def kubeconfig_settled_def)
  then show ?thesis
    unfolding ready_justified_def ready(2) st(1) using b(1) st(2,3) by blast
qed

lemma emits_finish:
  assumes "backend_post env (Inr out)"
  shows "emits (cp_allowed env) (finish_reconcile env cp owner out)"
proof -
  let ?K = "\<lambda>r. bo_kubeconfigEnabled out \<longrightarrow> kubeconfig_post env (bo_instance out) r"
  have k: "ensures (cp_allowed env) ?K
     (if bo_kubeconfigEnabled out then reconcileKubeconfigSecret env cp (bo_instance out) owner
      else ret (Inr ((no_requeue, False), cp)))"
    using ensures_kubeconfig by (auto intro!: ensures_ret intro: ensures_weaken)
  have last: "emits (cp_allowed env) (case overall_status (ce_lib env) cp3 st ready enabled res of (st', overallReady) \<Rightarrow>
      try_bind (reconcileConditionsAndFailure env cp3 st' overallReady) (\<lambda>_. ret (Inr v)))"
    if "?K (Inr ((res, enabled), cp1))" "endpoint_post env (bo_status out) (Inr (cp2, st, ready, valid))"
    for res enabled cp1 cp2 cp3 st ready valid and v :: ctrl_result
  proof -
    obtain st' ov where o: "overall_status (ce_lib env) cp3 st ready enabled res = (st', ov)" by fastforce
    have "ov \<Longrightarrow> ready_justified env st'"
      using ready_from_posts [OF assms, of res enabled cp1 cp2 st ready valid "ce_lib env" cp3 st'] that o by simp
    then show ?thesis
      using o by (auto intro!: emits_try emits_final_conditions)
  qed
  show ?thesis
    unfolding emits_ensures finish_reconcile_def Let_def
  proof (rule ensures_try [OF k], goal_cases)
    case (1 a)
    obtain res enabled cp1 where a: "a = ((res, enabled), cp1)" by (cases a) auto
    show ?case
      unfolding a prod.case
    proof (rule ensures_try [OF ensures_project_endpoint], goal_cases)
      case (1 p)
      obtain cp2 st ready valid where p: "p = (cp2, st, ready, valid)" by (cases p) auto
      have post: "endpoint_post env (bo_status out) (Inr (cp2, st, ready, valid))" using 1 p by simp
      show ?case
        unfolding p prod.case
        by (rule ensures_try [OF ensures_of_emits [OF emits_mark_initialized, of "\<lambda>_. True"]])
           (use last [OF _ post] \<open>?K (Inr a)\<close> a in \<open>auto simp: emits_ensures\<close>)
    qed simp
  qed simp
qed

lemma emits_cp_Reconcile: "emits (cp_allowed env) (cp_Reconcile env req)"
proof -
  have run: "emits (cp_allowed env) (bind_eff (run_backend env cp o' sel) (\<lambda>answer. case answer of
                Inl final \<Rightarrow> ret final | Inr out \<Rightarrow> finish_reconcile env cp owner out))" for cp o' sel owner
    unfolding emits_ensures
    by (rule ensures_bind [OF ensures_run_backend])
       (auto split: sum.split intro!: ensures_ret emits_finish [unfolded emits_ensures])
  show ?thesis
    unfolding cp_Reconcile_def
    by (intro emits_intros run; auto simp: Let_def split: prod.split intro!: emits_intros run)
qed

lemma cp_run_allowed:
  assumes "run_state (cp_Reconcile env req) [] = (r, t)" "c \<in> set t"
  shows "cp_allowed env c"
  using emits_run [OF emits_cp_Reconcile [of env req]] assms by (auto simp: list_all_iff)

text \<open>The writes of a run, by the kind of call.\<close>

inductive_cases status_write: "cp_write env (PatchCPStatus b a)"
inductive_cases spec_write: "cp_write env (PatchCP b a)"
inductive_cases update_write: "cp_write env (UpdateCPStatus a)"

lemma cp_run_writes:
  assumes "run_state (cp_Reconcile env req) [] = (r, t)"
  shows "PatchCPStatus b a \<in> set t \<Longrightarrow> cp_write env (PatchCPStatus b a)"
    and "PatchCP b a \<in> set t \<Longrightarrow> cp_write env (PatchCP b a)"
    and "UpdateCPStatus a \<in> set t \<Longrightarrow> cp_write env (UpdateCPStatus a)"
  using cp_run_allowed [OF assms] by (force simp: cp_allowed_def no_cp_write_def)+

section \<open>Properties of a whole reconcile\<close>

lemma conditions_and_failure_facts:
  assumes "condition_laws lib"
  shows "t \<noteq> conditionTypeReady \<Longrightarrow> t \<noteq> conditionTypeCreating \<Longrightarrow>
      find_cond lib (conditions_and_failure lib cp st ready) t = find_cond lib cp t"
    and "cond_status lib (conditions_and_failure lib cp st ready) conditionTypeReady =
      Some (if ready then ConditionTrue else ConditionFalse)"
    and "cp_Spec (conditions_and_failure lib cp st ready) = cp_Spec cp"
    and "cp_meta (conditions_and_failure lib cp st ready) = cp_meta cp"
    and "ct_ControlPlaneInitialized (cp_Status (conditions_and_failure lib cp st ready)) =
      ct_ControlPlaneInitialized (cp_Status cp)"
  using conditions_and_failure_lemma [OF assms, where cp = cp and st = st and ready = ready] by auto

lemma status_write_cases:
  assumes "cp_write env (PatchCPStatus b a)"
  obtains (kubeconfig) s r m where "a = set_status_cond (ce_lib env) b
      (observed_cond b conditionTypeKubeconfigSecretReconciled s r m)"
    | (conditions) st ready where "a = conditions_and_failure (ce_lib env) b st ready" "ready \<Longrightarrow> ready_justified env st"
    | (initialized) "a = b\<lparr>cp_Status := (cp_Status b)\<lparr>ct_ControlPlaneInitialized := True\<rparr>\<rparr>"
  using assms by (auto elim: status_write)

lemma status_write_effect:
  assumes laws: "condition_laws (ce_lib env)" and w: "cp_write env (PatchCPStatus b a)"
  shows "find_cond (ce_lib env) a conditionTypeResourceGraphDefinitionResolved =
      find_cond (ce_lib env) b conditionTypeResourceGraphDefinitionResolved \<and>
    cp_Spec a = cp_Spec b \<and> cp_meta a = cp_meta b \<and>
    (ct_ControlPlaneInitialized (cp_Status b) \<longrightarrow> ct_ControlPlaneInitialized (cp_Status a)) \<and>
    (cond_status (ce_lib env) a conditionTypeReady = Some ConditionTrue \<longrightarrow>
      cond_status (ce_lib env) b conditionTypeReady = Some ConditionTrue \<or> (\<exists>st. ready_justified env st))"
  using w
proof (cases rule: status_write_cases)
  case kubeconfig
  then show ?thesis
    by (simp add: find_set_cond(4) [OF laws] cond_status_def) (simp add: set_status_cond_def)
next
  case (conditions st ready)
  then show ?thesis
    using conditions_and_failure_facts [OF laws, where cp = b and st = st and ready = ready] by (cases ready) auto
next
  case initialized
  then show ?thesis by (simp add: cond_status_def)
qed

text \<open>
  C1. A control plane becomes Ready only on the backend's word: whatever the services answer,
  a status write that turns Ready to true is made only if the stored backend object itself
  reported ready, its endpoint is an acceptable one, and the kubeconfig Secret it names, if
  any, has been stored.
\<close>

theorem ready_only_if_backend_ready:
  assumes "condition_laws (ce_lib env)"
    and "run_state (cp_Reconcile env req) [] = (r, t)" "PatchCPStatus b a \<in> set t"
    and "cond_status (ce_lib env) a conditionTypeReady = Some ConditionTrue"
    and "cond_status (ce_lib env) b conditionTypeReady \<noteq> Some ConditionTrue"
  shows "\<exists>inst st ep. backend_reports env inst st \<and> is_Ready st \<and> kubeconfig_settled env inst \<and>
     Parse (lib_ip_literal_error (ce_lib env)) (is_Endpoint st) = Inr ep \<and> valid_endpoint ep"
proof -
  obtain st where "ready_justified env st"
    using status_write_effect [OF assms(1) cp_run_writes(1) [OF assms(2,3)]] assms(4,5) by blast
  then obtain inst ep where "backend_reports env inst st" "is_Ready st" "kubeconfig_settled env inst"
      "Parse (lib_ip_literal_error (ce_lib env)) (is_Endpoint st) = Inr ep"
    by (auto simp: ready_justified_def)
  moreover have "valid_endpoint ep" using Parse_valid_endpoint [OF calculation(4)] .
  ultimately show ?thesis by blast
qed

text \<open>
  C26. The unresolved condition is sticky: no write of a reconcile ever changes the
  \<open>ResourceGraphDefinitionResolved\<close> condition except to set it to false; once the definition
  could not be resolved, the condition says so for good, also after it has been resolved.
\<close>

theorem rgd_condition_never_recovers:
  assumes "condition_laws (ce_lib env)" "run_state (cp_Reconcile env req) [] = (r, t)"
  shows "(\<forall>b a. PatchCPStatus b a \<in> set t \<longrightarrow>
       find_cond (ce_lib env) a conditionTypeResourceGraphDefinitionResolved =
       find_cond (ce_lib env) b conditionTypeResourceGraphDefinitionResolved) \<and>
    (\<forall>a. UpdateCPStatus a \<in> set t \<longrightarrow>
       cond_status (ce_lib env) a conditionTypeResourceGraphDefinitionResolved = Some ConditionFalse) \<and>
    (\<forall>b a. PatchCP b a \<in> set t \<longrightarrow> cp_Status a = cp_Status b)"
proof (intro conjI allI impI)
  fix b a assume "PatchCPStatus b a \<in> set t"
  then show "find_cond (ce_lib env) a conditionTypeResourceGraphDefinitionResolved =
       find_cond (ce_lib env) b conditionTypeResourceGraphDefinitionResolved"
    using status_write_effect [OF assms(1) cp_run_writes(1) [OF assms(2)]] by blast
next
  fix a assume "UpdateCPStatus a \<in> set t"
  then have "cp_write env (UpdateCPStatus a)" by (rule cp_run_writes(3) [OF assms(2)])
  then show "cond_status (ce_lib env) a conditionTypeResourceGraphDefinitionResolved = Some ConditionFalse"
    by (auto elim!: update_write simp: cond_status_def find_set_cond(4) [OF assms(1)])
next
  fix b a assume "PatchCP b a \<in> set t"
  then have "cp_write env (PatchCP b a)" by (rule cp_run_writes(2) [OF assms(2)])
  then show "cp_Status a = cp_Status b" by (auto elim!: spec_write)
qed

text \<open>
  C13. A reconcile writes only what it owns: a status write leaves the spec and the metadata
  alone and never takes the initialized flag back, and a write of the spec changes nothing but
  the endpoint, to an acceptable one.
\<close>

theorem writes_are_scoped:
  assumes "condition_laws (ce_lib env)" "run_state (cp_Reconcile env req) [] = (r, t)"
  shows "(\<forall>b a. PatchCPStatus b a \<in> set t \<longrightarrow> cp_Spec a = cp_Spec b \<and> cp_meta a = cp_meta b \<and>
       (ct_ControlPlaneInitialized (cp_Status b) \<longrightarrow> ct_ControlPlaneInitialized (cp_Status a))) \<and>
    (\<forall>b a. PatchCP b a \<in> set t \<longrightarrow> (\<exists>ep. valid_endpoint ep \<and>
       a = b\<lparr>cp_Spec := (cp_Spec b)\<lparr>cs_ControlPlaneEndpoint := ep\<rparr>\<rparr>))"
proof (intro conjI allI impI)
  fix b a assume "PatchCPStatus b a \<in> set t"
  then have "cp_write env (PatchCPStatus b a)" by (rule cp_run_writes(1) [OF assms(2)])
  from status_write_effect [OF assms(1) this]
  show "cp_Spec a = cp_Spec b" "cp_meta a = cp_meta b"
    "ct_ControlPlaneInitialized (cp_Status b) \<Longrightarrow> ct_ControlPlaneInitialized (cp_Status a)" by blast+
next
  fix b a assume "PatchCP b a \<in> set t"
  then have "cp_write env (PatchCP b a)" by (rule cp_run_writes(2) [OF assms(2)])
  then show "\<exists>ep. valid_endpoint ep \<and> a = b\<lparr>cp_Spec := (cp_Spec b)\<lparr>cs_ControlPlaneEndpoint := ep\<rparr>\<rparr>"
    using Parse_valid_endpoint by (auto elim!: spec_write)
qed

text \<open>The calls on Secrets that stay within the control plane's namespace.\<close>

definition secret_call_ok :: "Kany8sControlPlane \<Rightarrow> cluster option result \<Rightarrow> cp_call \<Rightarrow> bool" where
  "secret_call_ok cp owner c =
     (let ns = om_Namespace (cp_meta cp);
          owned = (\<exists>own. owner = Inr (Some own) \<and> om_Namespace (cl_meta own) = ns) in
      case c of
        GetSecret k \<Rightarrow> owned \<and> key_Namespace k = ns
      | ReadTarget s \<Rightarrow> owned \<and> om_Namespace (se_meta s) = ns
      | StoreTarget s \<Rightarrow> owned \<and> se_Type s = SecretType \<and>
          (\<exists>own kc. owner = Inr (Some own) \<and> fmlookup (se_Data s) DataKey = Some kc)
      | _ \<Rightarrow> True)"

lemma secret_call_any [simp]:
  "secret_call_ok cp owner (PatchCPStatus b a)" "secret_call_ok cp owner (CPEvent x y z)"
  by (simp_all add: secret_call_ok_def Let_def)

lemma emits_condition_any [emits_intros]:
  "(\<And>b a. Q (PatchCPStatus b a)) \<Longrightarrow> (\<And>x y z. Q (CPEvent x y z)) \<Longrightarrow>
     emits Q (reconcileKubeconfigSecretCondition env cp s r m t)"
  unfolding reconcileKubeconfigSecretCondition_def Let_def patch_cp_status_def cp_event_def
  by (intro emits_intros) auto

lemma emits_wait_any [emits_intros]:
  "(\<And>b a. Q (PatchCPStatus b a)) \<Longrightarrow> (\<And>x y z. Q (CPEvent x y z)) \<Longrightarrow> emits Q (kubeconfig_wait env cp r m t)"
  unfolding kubeconfig_wait_def by (intro emits_intros) auto


text \<open>What the facade stores in a backend object.\<close>

definition backend_call_ok :: "Kany8sControlPlane \<Rightarrow> cluster option \<Rightarrow> cp_call \<Rightarrow> bool" where
  "backend_call_ok cp owner c =
     (let labelled = (\<lambda>m. \<forall>own. owner = Some own \<longrightarrow>
            fmlookup (om_Labels m) ClusterNameLabel = Some (om_Name (cl_meta own)) \<and>
            (\<exists>r \<in> set (om_OwnerReferences m). same_owner r (cluster_owner_ref own) \<and> or_UID r = om_UID (cl_meta own)))
      in case c of
        StoreBackend u \<Rightarrow> key_of (un_meta u) = key_of (cp_meta cp) \<and> labelled (un_meta u) \<and>
          json_at (JObj (un_Object u)) [''spec'', ''version''] = At (JStr (cs_Version (cp_Spec cp)))
      | StoreKubeadm b \<Rightarrow> labelled (kcp_meta b) \<and> kp_Version (kcp_Spec b) = cs_Version (cp_Spec cp) \<and>
          kp_Replicas (kcp_Spec b) = kany8sControlPlaneReplicas cp
      | _ \<Rightarrow> True)"

lemma metadata_labelled:
  "fmlookup (om_Labels (setBackendClusterMetadata m (Some own))) ClusterNameLabel = Some (om_Name (cl_meta own))"
  "\<exists>r \<in> set (om_OwnerReferences (setBackendClusterMetadata m (Some own))).
     same_owner r (cluster_owner_ref own) \<and> or_UID r = om_UID (cl_meta own)"
  using ensure_ref_mem [of "om_OwnerReferences m" "cluster_owner_ref own"]
  by (simp_all add: setBackendClusterMetadata_def ensureClusterOwnerReference_def cluster_owner_ref_def)

lemma metadata_key: "key_of (setBackendClusterMetadata m owner) = key_of m"
  by (simp add: setBackendClusterMetadata_def key_of_def split: option.split)

lemma mutate_backend_ok:
  assumes "owner_laws lib" "mutate_backend lib cp owner g spec base = Inr u"
    and "fmlookup spec ''version'' = Some (JStr (cs_Version (cp_Spec cp)))"
  shows "backend_call_ok cp owner (StoreBackend u)"
proof -
  obtain m where "lib_SetControllerReference lib (ControlPlaneWithKind ''Kany8sControlPlane'') (cp_meta cp)
      ((un_meta base)\<lparr>om_Name := om_Name (cp_meta cp), om_Namespace := om_Namespace (cp_meta cp)\<rparr>) = Inr m"
    and u: "u = \<lparr>un_GVK = g, un_meta = setBackendClusterMetadata m owner,
                 un_Object = fmupd ''spec'' (JObj spec) (un_Object base)\<rparr>"
    using assms(2) by (auto simp: mutate_backend_def Let_def split: sum.splits)
  then obtain rs where "m = (un_meta base)\<lparr>om_Name := om_Name (cp_meta cp),
      om_Namespace := om_Namespace (cp_meta cp), om_OwnerReferences := rs\<rparr>"
    using assms(1) unfolding owner_laws_def by blast
  then have "key_of m = key_of (cp_meta cp)" by (simp add: key_of_def)
  then show ?thesis
    using assms(3) metadata_labelled by (auto simp: backend_call_ok_def u metadata_key)
qed

lemma version_in_spec:
  "buildKroInstanceSpec lib cp = Inr spec \<Longrightarrow> fmlookup spec ''version'' = Some (JStr (cs_Version (cp_Spec cp)))"
  "buildExternalBackendSpec lib cp ext owner = Inr spec \<Longrightarrow>
     fmlookup spec ''version'' = Some (JStr (cs_Version (cp_Spec cp)))"
  by (auto simp: buildKroInstanceSpec_def buildExternalBackendSpec_def Let_def split: sum.splits option.splits)

lemma backend_call_any [simp]:
  "backend_call_ok cp owner (GetRGD n)" "backend_call_ok cp owner (EnsureWatchCall g)"
  "backend_call_ok cp owner (ReadBackend u)" "backend_call_ok cp owner (ReadKubeadm b)"
  "backend_call_ok cp owner (PatchCPStatus x y)" "backend_call_ok cp owner (UpdateCPStatus x)"
  "backend_call_ok cp owner (CPEvent s t w)"
  by (simp_all add: backend_call_ok_def Let_def)

lemma emits_reports_any:
  assumes "\<And>b a. Q (PatchCPStatus b a)" "\<And>x y z. Q (CPEvent x y z)" "\<And>a. Q (UpdateCPStatus a)"
  shows "emits Q (reconcileInvalidKroSpec env cp e)" "emits Q (reconcileInvalidBackendSpec env cp r m)"
    "emits Q (requeueWithRGDResolutionCondition env cp n e)"
  unfolding reconcileInvalidKroSpec_def reconcileInvalidBackendSpec_def requeueWithRGDResolutionCondition_def
    reconcileConditionsAndFailure_def patch_cp_status_def cp_event_def Let_def
  by (intro emits_intros assms)+

lemma backend_calls_ok:
  assumes "owner_laws (ce_lib env)"
  shows "emits (backend_call_ok cp owner) (run_backend env cp owner sel)"
proof -
  let ?Q = "backend_call_ok cp owner"
  have watch: "emits ?Q (ensure_watch env g)" for g
    unfolding ensure_watch_def by (intro emits_intros) simp
  have apply_ok: "emits ?Q (apply_backend env cp owner g spec)"
    if "fmlookup spec ''version'' = Some (JStr (cs_Version (cp_Spec cp)))" for g spec
    unfolding apply_backend_def Let_def
    by (intro emits_create_or_update) (auto simp: mutate_backend_ok [OF assms _ that])
  have kubeadm: "?Q (StoreKubeadm b')" if "mutate_kubeadm (ce_lib env) cp owner k b = Inr b'" for b b' k
    using that metadata_labelled by (auto simp: mutate_kubeadm_def backend_call_ok_def split: sum.splits)
  note reports = emits_reports_any [of ?Q, simplified]
  have "emits ?Q (reconcileKroBackend env cp owner ref)" for ref
    unfolding reconcileKroBackend_def
    by (intro emits_intros emits_resolve watch reports apply_ok; simp add: version_in_spec)
  moreover have "emits ?Q (reconcileKubeadmBackend env cp owner k)" for k
    unfolding reconcileKubeadmBackend_def
    by (intro emits_intros watch; simp add: kubeadm)
  moreover have "emits ?Q (reconcileExternalBackend env cp owner ext)" for ext
    unfolding reconcileExternalBackend_def Let_def
    by (intro emits_intros watch reports apply_ok; simp add: version_in_spec)
  ultimately show ?thesis
    unfolding run_backend_def Let_def by (intro emits_intros) auto
qed


text \<open>
  C10. A control plane that is not ready is looked at again: when a reconcile gets past its
  backend and returns without an error and without asking for a requeue, the backend reported
  ready with an acceptable endpoint and its watch was set up.
\<close>

theorem not_ready_is_retried:
  assumes "run_state (finish_reconcile env cp owner out) h = (Inr res, h')" "requeue_after res = 0"
  shows "is_Ready (bo_status out) \<and> bo_ensureWatchErr out = None \<and>
    (\<exists>ep. Parse (lib_ip_literal_error (ce_lib env)) (is_Endpoint (bo_status out)) = Inr ep)"
proof -
  let ?S = "\<lambda>r. case r of Inl e \<Rightarrow> True | Inr res \<Rightarrow> requeue_after res = 0 \<longrightarrow>
    is_Ready (bo_status out) \<and> bo_ensureWatchErr out = None \<and>
    (\<exists>ep. Parse (lib_ip_literal_error (ce_lib env)) (is_Endpoint (bo_status out)) = Inr ep)"
  have k: "ensures (\<lambda>_. True) (\<lambda>_. True)
     (if bo_kubeconfigEnabled out then reconcileKubeconfigSecret env cp (bo_instance out) owner
      else ret (Inr ((no_requeue, False), cp)))"
    by (auto intro!: ensures_ret ensures_of_emits emits_mono [OF ensures_emits [OF ensures_kubeconfig]])
  have p: "ensures (\<lambda>_. True) (endpoint_post env (bo_status out)) (project_endpoint env cp1 (bo_status out))" for cp1
    by (rule ensures_mono_calls [OF ensures_project_endpoint]) simp
  have any: "ensures (\<lambda>_. True) (\<lambda>_. True) m" if "emits (cp_allowed env) m" for m :: "'z cp_eff"
    by (rule ensures_mono_calls [OF ensures_of_emits [OF that]]) simp_all
  have cond: "ensures (\<lambda>_. True) (\<lambda>_. True) (reconcileConditionsAndFailure env cp3 st b)" for cp3 st b
    unfolding reconcileConditionsAndFailure_def patch_cp_status_def by (rule ensures_perform) simp_all
  have "ensures (\<lambda>_. True) ?S (finish_reconcile env cp owner out)"
    unfolding finish_reconcile_def
  proof (rule ensures_try [OF k], goal_cases)
    case (1 a)
    obtain res enabled cp1 where a: "a = ((res, enabled), cp1)" by (cases a) auto
    show ?case
      unfolding a prod.case
    proof (rule ensures_try [OF p], goal_cases)
      case (1 q)
      obtain cp2 st ready valid where q: "q = (cp2, st, ready, valid)" by (cases q) auto
      have post: "ready \<Longrightarrow> is_Ready (bo_status out) \<and>
          (\<exists>ep. Parse (lib_ip_literal_error (ce_lib env)) (is_Endpoint (bo_status out)) = Inr ep)"
        using 1 q by (simp add: endpoint_post_def)
      show ?case
        unfolding q prod.case Let_def
        by (rule ensures_try [OF any [OF emits_mark_initialized]])
           (auto intro!: ensures_try [OF cond] ensures_ret dest: post
             simp: ControlPlaneNotReadyRequeueAfter_def ensureWatchRequeueAfter_def second_def split: prod.split)
    qed simp
  qed simp
  then have "?S (fst (run_state (finish_reconcile env cp owner out) h))"
    unfolding ensures_def by blast
  then show ?thesis using assms by simp
qed

section \<open>Witnesses\<close>

text \<open>Services that hold one control plane and report its instance ready.\<close>

definition ready_instance :: "unstructured \<Rightarrow> unstructured" where
  "ready_instance u = u\<lparr>un_Object := fmupd ''status'' (JObj (fmupd ''ready'' (JBool True)
     (fmupd ''endpoint'' (JStr ''https://h:443'') fmempty))) (un_Object u)\<rparr>"

definition demo_env :: cp_env where
  "demo_env = \<lparr>ce_lib = ref_lib, ce_hasWatcher = False, ce_hasRecorder = True,
     ce_getCP = (\<lambda>_ _. Inr demo_cp), ce_getOwner = (\<lambda>_ _. Inr None),
     ce_getRGD = (\<lambda>_ _. Inr ((new_unstructured demo_gvk '''' ''rgd'')\<lparr>un_Object := rgd_of_gvk demo_gvk\<rparr>)),
     ce_ensureWatch = (\<lambda>_ _. None), ce_readBackend = (\<lambda>_ u. Inr u),
     ce_storeBackend = (\<lambda>_ u. Inr (ready_instance u)),
     ce_readKubeadm = (\<lambda>_ b. Inr b), ce_storeKubeadm = (\<lambda>_ b. Inr b),
     ce_getSecret = (\<lambda>_ _. Inl (errorf ''no secret'')), ce_readTarget = (\<lambda>_ s. Inr s),
     ce_storeTarget = (\<lambda>_ s. Inr s), ce_patch = (\<lambda>_ _ a. Inr a), ce_patchStatus = (\<lambda>_ _ a. Inr a),
     ce_updateStatus = (\<lambda>_ a. Inr a)\<rparr>"

definition demo_run :: "cp_call list" where
  "demo_run = snd (run_state (cp_Reconcile demo_env (object_key ''ns'' ''demo'')) [])"

lemma demo_run: "run_state (cp_Reconcile demo_env (object_key ''ns'' ''demo'')) [] =
   (fst (run_state (cp_Reconcile demo_env (object_key ''ns'' ''demo'')) []), demo_run)"
  by (simp add: demo_run_def)

lemma demo_condition_laws: "condition_laws (ce_lib demo_env)" "owner_laws (ce_lib demo_env)"
  using ref_lib_laws by (simp_all add: apilib_laws_def demo_env_def)

lemma demo_becomes_ready:
  obtains b a where "PatchCPStatus b a \<in> set demo_run"
    "cond_status (ce_lib demo_env) a conditionTypeReady = Some ConditionTrue"
    "cond_status (ce_lib demo_env) b conditionTypeReady \<noteq> Some ConditionTrue"
proof -
  have "list_ex (\<lambda>c. case c of
      PatchCPStatus b a \<Rightarrow> cond_status (ce_lib demo_env) a conditionTypeReady = Some ConditionTrue \<and>
        cond_status (ce_lib demo_env) b conditionTypeReady \<noteq> Some ConditionTrue | _ \<Rightarrow> False) demo_run"
    by code_simp
  then obtain c where "c \<in> set demo_run" "case c of
      PatchCPStatus b a \<Rightarrow> cond_status (ce_lib demo_env) a conditionTypeReady = Some ConditionTrue \<and>
        cond_status (ce_lib demo_env) b conditionTypeReady \<noteq> Some ConditionTrue | _ \<Rightarrow> False"
    by (auto simp only: list_ex_iff)
  then show ?thesis using that by (cases c rule: cp_call.exhaust) simp_all
qed

theorem ready_only_if_backend_ready_witness:
  "\<exists>inst st. backend_reports demo_env inst st \<and> is_Ready st \<and> kubeconfig_settled demo_env inst"
proof -
  obtain b a where "PatchCPStatus b a \<in> set demo_run"
    "cond_status (ce_lib demo_env) a conditionTypeReady = Some ConditionTrue"
    "cond_status (ce_lib demo_env) b conditionTypeReady \<noteq> Some ConditionTrue"
    by (rule demo_becomes_ready)
  then show ?thesis
    using ready_only_if_backend_ready [OF demo_condition_laws(1) demo_run] by blast
qed

theorem conditions_and_failure_correct_witness:
  "cond_status ref_lib (conditions_and_failure ref_lib demo_cp
     (not_ready_status ''Fatal'' ''broken'') False) conditionTypeReady = Some ConditionFalse"
  using conditions_and_failure_correct [of ref_lib] demo_condition_laws(1) by (simp add: demo_env_def)

theorem rgd_condition_never_recovers_witness:
  "list_all (\<lambda>c. case c of PatchCPStatus b a \<Rightarrow>
       find_cond (ce_lib demo_env) a conditionTypeResourceGraphDefinitionResolved =
       find_cond (ce_lib demo_env) b conditionTypeResourceGraphDefinitionResolved | _ \<Rightarrow> True) demo_run"
  using rgd_condition_never_recovers [OF demo_condition_laws(1) demo_run]
  by (auto simp: list_all_iff split: cp_call.splits)

theorem writes_are_scoped_witness:
  "list_all (\<lambda>c. case c of PatchCPStatus b a \<Rightarrow> cp_Spec a = cp_Spec b | _ \<Rightarrow> True) demo_run"
  using writes_are_scoped [OF demo_condition_laws(1) demo_run]
  by (auto simp: list_all_iff split: cp_call.splits)


theorem endpoint_roundtrip_witness:
  "Parse (\<lambda>_. None) (endpointToStatusString \<lparr>ep_Host = ''api.example.com'', ep_Port = 6443\<rparr>) =
     Inr \<lparr>ep_Host = ''api.example.com'', ep_Port = 6443\<rparr>"
  by (rule endpoint_roundtrip) code_simp+

theorem controller_agrees_with_webhook_witness:
  "fst (selectedControlPlaneBackend demo_cp_spec) \<in> {''kro'', ''kubeadm'', ''external''}"
proof -
  have "cp_ValidateCreate (Some (demo_cp\<lparr>cp_Spec := demo_cp_spec\<rparr>)) = None"
    by (simp add: cp_ValidateCreate_def create_admits_iff selectedKany8sControlPlaneBackend_def
        demo_cp_def demo_cp_spec_def)
  then show ?thesis using controller_agrees_with_webhook [of demo_cp_spec demo_cp] by blast
qed

definition no_ref :: contract_ref where
  "no_ref = \<lparr>cr_APIGroup = '''', cr_Kind = '''', cr_Name = ''''\<rparr>"

definition demo_cluster :: cluster where
  "demo_cluster = \<lparr>cl_meta = (new_meta ''ns'' ''demo'')\<lparr>om_UID := ''uid-1''\<rparr>, cl_InfrastructureRef = no_ref,
     cl_ControlPlaneRef = no_ref, cl_Conditions = [], cl_Topology = None\<rparr>"

theorem owner_reference_ensured_witness:
  "filter (\<lambda>x. same_owner x (cluster_owner_ref demo_cluster))
     (ensureClusterOwnerReference [(cluster_owner_ref demo_cluster)\<lparr>or_UID := ''stale''\<rparr>] (Some demo_cluster)) =
   [cluster_owner_ref demo_cluster]"
  using owner_reference_ensured [of "[(cluster_owner_ref demo_cluster)\<lparr>or_UID := ''stale''\<rparr>]" demo_cluster]
  by simp

definition demo_outcome :: backend_outcome where
  "demo_outcome = \<lparr>bo_instance = None, bo_status = \<lparr>is_Ready = True, is_Endpoint = ''https://h:443'',
     is_Reason = '''', is_Message = '''', is_Terminal = False\<rparr>, bo_initialized = False,
     bo_initializeOnEndpoint = True, bo_ensureWatchErr = None, bo_kubeconfigEnabled = False\<rparr>"

theorem not_ready_is_retried_witness:
  "\<exists>ep. Parse (lib_ip_literal_error (ce_lib demo_env)) ''https://h:443'' = Inr ep"
proof -
  have "fst (run_state (finish_reconcile demo_env demo_cp (Inr None) demo_outcome) []) = Inr no_requeue"
    by code_simp
  then have "run_state (finish_reconcile demo_env demo_cp (Inr None) demo_outcome) [] =
      (Inr no_requeue, snd (run_state (finish_reconcile demo_env demo_cp (Inr None) demo_outcome) []))"
    by (metis prod.collapse)
  from not_ready_is_retried [OF this] show ?thesis by (simp add: demo_outcome_def no_requeue_def)
qed
end
