(* ===== verification/InfraCluster.thy ===== *)
theory InfraCluster
  imports ControlPlane
begin

text \<open>
  \<open>internal/controller/infrastructure/kany8scluster_controller.go\<close>: the infrastructure
  half of the facade. Without a ResourceGraphDefinition a \<open>Kany8sCluster\<close> is provisioned at
  once; with one it is provisioned when the kro instance it drives reports ready.

  The Go code collects what it will report in seven local variables; they are the record
  \<open>infra_report\<close>. Its decoder of \<open>spec.kroSpec\<close> is the one of
  \<open>parseJSONSpecObject\<close>, written out in place.
\<close>

section \<open>Calls and environment\<close>

datatype ic_call =
    GetCluster object_key
  | GetClusterRGD string
  | GetClusterOwner obj_meta
  | ReadInstance unstructured
  | StoreInstance unstructured
  | GetInstance object_key
  | PatchClusterStatus Kany8sCluster Kany8sCluster

record ic_env =
  ie_lib :: apilib
  ie_getCluster :: "ic_call list \<Rightarrow> object_key \<Rightarrow> Kany8sCluster result"
  ie_getRGD :: "ic_call list \<Rightarrow> string \<Rightarrow> unstructured result"
  ie_getOwner :: "ic_call list \<Rightarrow> obj_meta \<Rightarrow> cluster option result"
  ie_readInstance :: "ic_call list \<Rightarrow> unstructured \<Rightarrow> unstructured result"
  ie_storeInstance :: "ic_call list \<Rightarrow> unstructured \<Rightarrow> unstructured result"
  ie_getInstance :: "ic_call list \<Rightarrow> object_key \<Rightarrow> unstructured result"
  ie_patchStatus :: "ic_call list \<Rightarrow> Kany8sCluster \<Rightarrow> Kany8sCluster \<Rightarrow> Kany8sCluster result"

type_synonym 'a ic_eff = "(ic_call, 'a) eff"

definition get_cluster_rgd :: "ic_env \<Rightarrow> string \<Rightarrow> unstructured result ic_eff" where
  "get_cluster_rgd env name = perform (GetClusterRGD name) (\<lambda>h. ie_getRGD env h name)"

section \<open>Constants\<close>

definition reasonWaitingForOwnerCluster :: string where
  "reasonWaitingForOwnerCluster = ''WaitingForOwnerCluster''"
definition reasonResourceGraphDefinitionInvalid :: string where
  "reasonResourceGraphDefinitionInvalid = ''ResourceGraphDefinitionInvalid''"
definition reasonResourceGraphDefinitionNotFound :: string where
  "reasonResourceGraphDefinitionNotFound = ''ResourceGraphDefinitionNotFound''"

definition InfrastructureNotReadyRequeueAfter :: duration where
  "InfrastructureNotReadyRequeueAfter = 15 * second"

section \<open>What is reported\<close>

record infra_report =
  ir_provisioned :: bool
  ir_readyStatus :: string
  ir_reason :: string
  ir_message :: string
  ir_failureReason :: "string option"
  ir_failureMessage :: "string option"
  ir_requeueAfter :: duration

definition stub_report :: infra_report where
  "stub_report = \<lparr>ir_provisioned = True, ir_readyStatus = ConditionTrue, ir_reason = ''Ready'',
     ir_message = ''infrastructure is ready'', ir_failureReason = None, ir_failureMessage = None,
     ir_requeueAfter = 0\<rparr>"

definition provisioning_report :: infra_report where
  "provisioning_report = stub_report\<lparr>ir_provisioned := False, ir_readyStatus := ConditionFalse,
     ir_reason := ''Provisioning'', ir_message := ''waiting for infrastructure to become ready''\<rparr>"

text \<open>The branches that give up for now: a reason, a message and a requeue.\<close>

definition infra_waits :: "string \<Rightarrow> string \<Rightarrow> infra_report" where
  "infra_waits reason message = provisioning_report\<lparr>ir_reason := reason, ir_message := message,
     ir_requeueAfter := InfrastructureNotReadyRequeueAfter\<rparr>"

section \<open>The kro instance\<close>

definition cluster_buildKroInstanceSpec ::
    "apilib \<Rightarrow> Kany8sCluster \<Rightarrow> string option \<Rightarrow> doc result" where
  "cluster_buildKroInstanceSpec lib kc ownerClusterUID =
     (case parseJSONSpecObject lib (raw_bytes (is_KroSpec (kc_Spec kc))) ''spec.kroSpec'' of
        Inl e \<Rightarrow> Inl e
      | Inr obj \<Rightarrow>
          let spec = fmupd ''clusterNamespace'' (JStr (om_Namespace (kc_meta kc)))
                       (fmupd ''clusterName'' (JStr (om_Name (kc_meta kc))) obj)
          in Inr (case ownerClusterUID of
               None \<Rightarrow> spec
             | Some uid \<Rightarrow> fmupd ''clusterUID'' (JStr uid) spec))"

text \<open>The UID of the owner cluster, where the schema asks for it; a report ends the attempt.\<close>

definition owner_cluster_uid ::
    "ic_env \<Rightarrow> Kany8sCluster \<Rightarrow> string \<Rightarrow> (infra_report + string option) ic_eff" where
  "owner_cluster_uid env kc rgdName =
     bind_eff (SchemaHasSpecField (ie_lib env) (get_cluster_rgd env) rgdName ''clusterUID'') (\<lambda>has. case has of
       Inl e \<Rightarrow> ret (Inl (infra_waits reasonResourceGraphDefinitionInvalid (err_text e)))
     | Inr hasClusterUID \<Rightarrow>
         if \<not> hasClusterUID then ret (Inr None)
         else bind_eff (perform (GetClusterOwner (kc_meta kc)) (\<lambda>h. ie_getOwner env h (kc_meta kc))) (\<lambda>owner.
           ret (case owner of
              Inl e \<Rightarrow> Inl (infra_waits reasonWaitingForOwnerCluster
                        (''waiting for owner Cluster: '' @ err_text e))
            | Inr None \<Rightarrow> Inl (infra_waits reasonWaitingForOwnerCluster
                        ''waiting for owner Cluster reference to be set'')
            | Inr (Some c) \<Rightarrow> Inr (Some (om_UID (cl_meta c))))))"

definition mutate_instance ::
    "apilib \<Rightarrow> Kany8sCluster \<Rightarrow> gvk \<Rightarrow> doc \<Rightarrow> unstructured \<Rightarrow> unstructured result" where
  "mutate_instance lib kc g spec inst =
     (let m0 = (un_meta inst)\<lparr>om_Name := om_Name (kc_meta kc), om_Namespace := om_Namespace (kc_meta kc)\<rparr> in
      case lib_SetControllerReference lib (InfrastructureWithKind ''Kany8sCluster'') (kc_meta kc) m0 of
        Inl e \<Rightarrow> Inl e
      | Inr m \<Rightarrow> Inr \<lparr>un_GVK = g, un_meta = m, un_Object = fmupd ''spec'' (JObj spec) (un_Object inst)\<rparr>)"

definition report_of_instance :: "instance_status \<Rightarrow> infra_report" where
  "report_of_instance st =
     (if is_Ready st
      then provisioning_report\<lparr>ir_provisioned := True, ir_readyStatus := ConditionTrue,
             ir_reason := or_default (is_Reason st) ''Ready'',
             ir_message := or_default (is_Message st) ''infrastructure is ready''\<rparr>
      else provisioning_report\<lparr>ir_reason := or_default (is_Reason st) (ir_reason provisioning_report),
             ir_message := or_default (is_Message st) (ir_message provisioning_report),
             ir_requeueAfter := InfrastructureNotReadyRequeueAfter\<rparr>)"

definition apply_instance ::
    "ic_env \<Rightarrow> Kany8sCluster \<Rightarrow> gvk \<Rightarrow> string option \<Rightarrow> infra_report result ic_eff" where
  "apply_instance env kc g uid =
     (case cluster_buildKroInstanceSpec (ie_lib env) kc uid of
        Inl e \<Rightarrow> ret (Inr (provisioning_report\<lparr>ir_reason := ''InvalidKroSpec'', ir_message := err_text e,
                   ir_failureReason := Some ''InvalidKroSpec'', ir_failureMessage := Some (err_text e)\<rparr>))
      | Inr spec \<Rightarrow>
          let inst = new_unstructured g (om_Namespace (kc_meta kc)) (om_Name (kc_meta kc));
              key = key_of (kc_meta kc) in
          try_bind (create_or_update
              (perform (ReadInstance inst) (\<lambda>h. ie_readInstance env h inst))
              (mutate_instance (ie_lib env) kc g spec)
              (\<lambda>u. perform (StoreInstance u) (\<lambda>h. ie_storeInstance env h u))) (\<lambda>_.
          try_bind (perform (GetInstance key) (\<lambda>h. ie_getInstance env h key)) (\<lambda>read.
          ret (case ReadInstanceStatus (ie_lib env) (Some read) of
                 Inl e \<Rightarrow> Inl e
               | Inr st \<Rightarrow> Inr (report_of_instance st)))))"

definition rgd_report :: "ic_env \<Rightarrow> Kany8sCluster \<Rightarrow> string \<Rightarrow> infra_report result ic_eff" where
  "rgd_report env kc rgdName =
     bind_eff (ResolveInstanceGVK (ie_lib env) (get_cluster_rgd env) rgdName) (\<lambda>resolved. case resolved of
       Inl e \<Rightarrow> ret (Inr (if is_not_found e
           then infra_waits reasonResourceGraphDefinitionNotFound
                  (''ResourceGraphDefinition '' @ quote rgdName @ '' not found'')
           else infra_waits reasonResourceGraphDefinitionInvalid (err_text e)))
     | Inr g \<Rightarrow> bind_eff (owner_cluster_uid env kc rgdName) (\<lambda>owner. case owner of
           Inl report \<Rightarrow> ret (Inr report)
         | Inr uid \<Rightarrow> apply_instance env kc g uid))"

section \<open>Reconcile\<close>

definition infra_status :: "apilib \<Rightarrow> Kany8sCluster \<Rightarrow> infra_report \<Rightarrow> Kany8sCluster" where
  "infra_status lib kc r = kc\<lparr>kc_Status := \<lparr>it_Provisioned = ir_provisioned r,
     it_Conditions = lib_conditions_Set lib (kc_meta kc) (it_Conditions (kc_Status kc))
       (cond_of ''Ready'' (ir_readyStatus r) (ir_reason r) (ir_message r)),
     it_FailureReason = ir_failureReason r, it_FailureMessage = ir_failureMessage r\<rparr>\<rparr>"

definition ic_Reconcile :: "ic_env \<Rightarrow> object_key \<Rightarrow> ctrl_result result ic_eff" where
  "ic_Reconcile env req =
     bind_eff (perform (GetCluster req) (\<lambda>h. ie_getCluster env h req)) (\<lambda>got. case got of
       Inl e \<Rightarrow> ret (map_sum id (\<lambda>_. no_requeue) (ignore_not_found e))
     | Inr kc \<Rightarrow>
         try_bind (case is_ResourceGraphDefinitionRef (kc_Spec kc) of
             None \<Rightarrow> ret (Inr stub_report)
           | Some ref \<Rightarrow> rgd_report env kc (rr_Name ref)) (\<lambda>report.
         let kc' = infra_status (ie_lib env) kc report in
         try_bind (perform (PatchClusterStatus kc kc') (\<lambda>h. ie_patchStatus env h kc kc')) (\<lambda>_.
         ret (Inr (if ir_requeueAfter report \<noteq> 0 then requeue_in (ir_requeueAfter report) else no_requeue)))))"

section \<open>What a report may say\<close>

definition instance_ready :: "ic_env \<Rightarrow> Kany8sCluster \<Rightarrow> bool" where
  "instance_ready env kc \<longleftrightarrow>
     (\<exists>h inst st. ie_getInstance env h (key_of (kc_meta kc)) = Inr inst \<and>
        ReadInstanceStatus (ie_lib env) (Some inst) = Inr st \<and> is_Ready st)"

lemma instance_readyI:
  "ie_getInstance env h (key_of (kc_meta kc)) = Inr inst \<Longrightarrow> ReadInstanceStatus (ie_lib env) (Some inst) = Inr st \<Longrightarrow>
   is_Ready st \<Longrightarrow> instance_ready env kc"
  unfolding instance_ready_def by blast

definition report_ok :: "bool \<Rightarrow> infra_report \<Rightarrow> bool" where
  "report_ok allowed r \<longleftrightarrow>
     ir_readyStatus r = (if ir_provisioned r then ConditionTrue else ConditionFalse) \<and>
     (if ir_provisioned r
      then allowed \<and> ir_requeueAfter r = 0 \<and> ir_failureReason r = None \<and> ir_failureMessage r = None
      else (ir_failureReason r = None \<and> ir_failureMessage r = None \<and>
              ir_requeueAfter r = InfrastructureNotReadyRequeueAfter) \<or>
           (ir_failureReason r = Some ''InvalidKroSpec'' \<and> ir_failureMessage r \<noteq> None \<and> ir_requeueAfter r = 0))"

abbreviation report_result :: "bool \<Rightarrow> infra_report result \<Rightarrow> bool" where
  "report_result allowed x \<equiv> (case x of Inl _ \<Rightarrow> True | Inr r \<Rightarrow> report_ok allowed r)"

lemma report_ok_simps [simp]:
  "report_ok True stub_report" "report_ok b (infra_waits r m)"
  "is_Ready st \<longrightarrow> b \<Longrightarrow> report_ok b (report_of_instance st)"
  "report_ok b (provisioning_report\<lparr>ir_reason := ''InvalidKroSpec'', ir_message := m,
     ir_failureReason := Some ''InvalidKroSpec'', ir_failureMessage := Some m\<rparr>)"
  by (simp_all add: report_ok_def stub_report_def infra_waits_def provisioning_report_def report_of_instance_def)

section \<open>The calls on the instance\<close>

text \<open>
  Either the owner cluster answered with the UID that is stored, or the schema did not ask for
  one.
\<close>

definition uid_justified :: "ic_env \<Rightarrow> Kany8sCluster \<Rightarrow> string \<Rightarrow> string option \<Rightarrow> bool" where
  "uid_justified env kc rgdName uid =
     (case uid of
        Some i \<Rightarrow> \<exists>h c. ie_getOwner env h (kc_meta kc) = Inr (Some c) \<and> i = om_UID (cl_meta c)
      | None \<Rightarrow> \<exists>h rgd. ie_getRGD env h (TrimSpace rgdName) = Inr rgd \<and>
                  schema_has_field (ie_lib env) (un_Object rgd) [''clusterUID''] = Inr False)"

definition instance_call_ok :: "ic_env \<Rightarrow> Kany8sCluster \<Rightarrow> string \<Rightarrow> ic_call \<Rightarrow> bool" where
  "instance_call_ok env kc rgdName c =
     (case c of
        StoreInstance u \<Rightarrow>
          key_of (un_meta u) = key_of (kc_meta kc) \<and>
          json_at (JObj (un_Object u)) [''spec'', ''clusterName''] = At (JStr (om_Name (kc_meta kc))) \<and>
          json_at (JObj (un_Object u)) [''spec'', ''clusterNamespace''] = At (JStr (om_Namespace (kc_meta kc))) \<and>
          (\<exists>uid. uid_justified env kc rgdName uid \<and>
             (\<forall>i. uid = Some i \<longrightarrow> json_at (JObj (un_Object u)) [''spec'', ''clusterUID''] = At (JStr i)))
      | PatchClusterStatus _ _ \<Rightarrow> False
      | _ \<Rightarrow> True)"

lemma instance_call_other [simp]:
  "instance_call_ok env kc n (GetClusterRGD x)" "instance_call_ok env kc n (GetClusterOwner m)"
  "instance_call_ok env kc n (ReadInstance u)" "instance_call_ok env kc n (GetInstance k)"
  by (simp_all add: instance_call_ok_def)

lemma instance_call_no_patch: "instance_call_ok env kc n c \<Longrightarrow> c \<noteq> PatchClusterStatus b a"
  by (auto simp: instance_call_ok_def)

lemma uid_not_wanted:
  "ie_getRGD env h (TrimSpace n) = Inr rgd \<Longrightarrow>
   schema_has_field (ie_lib env) (un_Object rgd) [''clusterUID''] = Inr False \<Longrightarrow> uid_justified env kc n None"
  unfolding uid_justified_def by auto

lemma cluster_spec_fields:
  assumes "cluster_buildKroInstanceSpec lib kc uid = Inr spec"
  shows "fmlookup spec ''clusterName'' = Some (JStr (om_Name (kc_meta kc)))"
    and "fmlookup spec ''clusterNamespace'' = Some (JStr (om_Namespace (kc_meta kc)))"
    and "uid = Some i \<Longrightarrow> fmlookup spec ''clusterUID'' = Some (JStr i)"
  using assms by (auto simp: cluster_buildKroInstanceSpec_def Let_def split: sum.splits option.splits)

lemma mutate_instance_ok:
  assumes laws: "owner_laws lib" and m: "mutate_instance lib kc g spec base = Inr u"
    and spec: "cluster_buildKroInstanceSpec lib kc uid = Inr spec" and uid: "uid_justified env kc n uid"
  shows "instance_call_ok env kc n (StoreInstance u)"
proof -
  obtain m' where c: "lib_SetControllerReference lib (InfrastructureWithKind ''Kany8sCluster'') (kc_meta kc)
      ((un_meta base)\<lparr>om_Name := om_Name (kc_meta kc), om_Namespace := om_Namespace (kc_meta kc)\<rparr>) = Inr m'"
    and u: "u = \<lparr>un_GVK = g, un_meta = m', un_Object = fmupd ''spec'' (JObj spec) (un_Object base)\<rparr>"
    using m by (auto simp: mutate_instance_def Let_def split: sum.splits)
  obtain rs where "m' = (un_meta base)\<lparr>om_Name := om_Name (kc_meta kc),
      om_Namespace := om_Namespace (kc_meta kc), om_OwnerReferences := rs\<rparr>"
    using laws c unfolding owner_laws_def by blast
  then show ?thesis
    using cluster_spec_fields [OF spec] uid by (auto simp: instance_call_ok_def u key_of_def)
qed

lemma ensures_get_rgd:
  "ensures (instance_call_ok env kc n)
     (\<lambda>r. case r of Inl _ \<Rightarrow> True | Inr rgd \<Rightarrow> \<exists>h. ie_getRGD env h name = Inr rgd) (get_cluster_rgd env name)"
  unfolding get_cluster_rgd_def by (rule ensures_perform) (auto split: sum.split)

lemma cluster_uid_parts: "field_parts f (split_char (CHR ''.'') (TrimSpace ''clusterUID'')) = Inr [''clusterUID'']"
proof -
  have "TrimSpace ''clusterUID'' = ''clusterUID''" by code_simp
  moreover have "split_char (CHR ''.'') ''clusterUID'' = [''clusterUID'']" by code_simp
  ultimately show ?thesis by simp
qed

lemma ensures_schema_uid:
  "ensures (instance_call_ok env kc n)
     (\<lambda>r. case r of Inr False \<Rightarrow> uid_justified env kc n None | _ \<Rightarrow> True)
     (SchemaHasSpecField (ie_lib env) (get_cluster_rgd env) n ''clusterUID'')"
proof -
  have nonempty: "TrimSpace ''clusterUID'' \<noteq> ''''" by code_simp
  show ?thesis
    unfolding SchemaHasSpecField_def Let_def cluster_uid_parts sum.case
    by (auto intro!: ensures_ret ensures_try [OF ensures_get_rgd] intro: uid_not_wanted simp: nonempty
        split: sum.split bool.split)
qed

lemma ensures_owner_uid:
  "ensures (instance_call_ok env kc n)
     (\<lambda>r. case r of Inl rep \<Rightarrow> report_ok b rep | Inr uid \<Rightarrow> uid_justified env kc n uid) (owner_cluster_uid env kc n)"
proof -
  have owner: "ensures (instance_call_ok env kc n)
      (\<lambda>r. case r of Inr (Some c) \<Rightarrow> uid_justified env kc n (Some (om_UID (cl_meta c))) | _ \<Rightarrow> True)
      (perform (GetClusterOwner (kc_meta kc)) (\<lambda>h. ie_getOwner env h (kc_meta kc)))"
    by (rule ensures_perform) (auto simp: uid_justified_def split: sum.split option.split)
  show ?thesis
    unfolding owner_cluster_uid_def
    by (rule ensures_bind [OF ensures_schema_uid])
      (auto intro!: ensures_ret ensures_bind [OF owner] split: sum.splits option.splits bool.splits)
qed

lemma ensures_apply_instance:
  assumes "owner_laws (ie_lib env)" "uid_justified env kc n uid"
  shows "ensures (instance_call_ok env kc n) (report_result (instance_ready env kc)) (apply_instance env kc g uid)"
proof (cases "cluster_buildKroInstanceSpec (ie_lib env) kc uid")
  case (Inl e)
  then show ?thesis unfolding apply_instance_def by (auto intro!: ensures_ret)
next
  case (Inr spec)
  let ?i = "new_unstructured g (om_Namespace (kc_meta kc)) (om_Name (kc_meta kc))"
  have store: "ensures (instance_call_ok env kc n) (\<lambda>_. True)
      (create_or_update (perform (ReadInstance ?i) (\<lambda>h. ie_readInstance env h ?i))
        (mutate_instance (ie_lib env) kc g spec)
        (\<lambda>u. perform (StoreInstance u) (\<lambda>h. ie_storeInstance env h u)))"
    by (rule ensures_of_emits, rule emits_create_or_update)
      (auto simp: mutate_instance_ok [OF assms(1) _ Inr assms(2)])
  have get: "ensures (instance_call_ok env kc n)
      (\<lambda>r. case r of Inl _ \<Rightarrow> True | Inr u \<Rightarrow> \<exists>h. ie_getInstance env h (key_of (kc_meta kc)) = Inr u)
      (perform (GetInstance (key_of (kc_meta kc))) (\<lambda>h. ie_getInstance env h (key_of (kc_meta kc))))"
    by (rule ensures_perform) (auto split: sum.split)
  show ?thesis
    unfolding apply_instance_def Inr sum.case Let_def
    by (rule ensures_try [OF store], rule ensures_try [OF get])
      (auto intro!: ensures_ret report_ok_simps intro: instance_readyI split: sum.splits)
qed

lemma ensures_rgd_report:
  assumes "owner_laws (ie_lib env)"
  shows "ensures (instance_call_ok env kc n) (report_result (instance_ready env kc)) (rgd_report env kc n)"
proof -
  have "emits (instance_call_ok env kc n) (ResolveInstanceGVK (ie_lib env) (get_cluster_rgd env) n)"
    unfolding ResolveInstanceGVK_def Let_def get_cluster_rgd_def by (intro emits_intros) simp
  then have resolve: "ensures (instance_call_ok env kc n) (\<lambda>_. True)
      (ResolveInstanceGVK (ie_lib env) (get_cluster_rgd env) n)"
    by (rule ensures_of_emits) simp
  show ?thesis
    unfolding rgd_report_def
    by (rule ensures_bind [OF resolve])
      (auto intro!: ensures_ret ensures_bind [OF ensures_owner_uid [where b = "instance_ready env kc"]]
        ensures_apply_instance [OF assms] split: sum.split)
qed

section \<open>Properties\<close>

text \<open>
  The instance a \<open>Kany8sCluster\<close> drives: whatever the user's JSON and the stored object
  hold, what is stored has the cluster's name and namespace, also in its spec, and carries the
  owner cluster's UID unless the definition's schema does not declare \<open>clusterUID\<close>; the
  report is never written from in there.
\<close>

theorem instance_fields_enforced:
  assumes "owner_laws (ie_lib env)"
  shows "emits (instance_call_ok env kc n) (rgd_report env kc n)"
  by (rule ensures_emits [OF ensures_rgd_report [OF assms]])


section \<open>Witnesses\<close>

definition demo_kc :: Kany8sCluster where
  "demo_kc = \<lparr>kc_meta = new_meta ''ns'' ''demo'',
     kc_Spec = \<lparr>is_ResourceGraphDefinitionRef = Some \<lparr>rr_Name = ''rgd''\<rparr>, is_KroSpec = None\<rparr>,
     kc_Status = \<lparr>it_Provisioned = False, it_Conditions = [], it_FailureReason = None, it_FailureMessage = None\<rparr>\<rparr>"

definition demo_ic_env :: ic_env where
  "demo_ic_env = \<lparr>ie_lib = ref_lib, ie_getCluster = (\<lambda>_ _. Inr demo_kc),
     ie_getRGD = (\<lambda>_ _. Inr ((new_unstructured demo_gvk '''' ''rgd'')\<lparr>un_Object := rgd_of_gvk demo_gvk\<rparr>)),
     ie_getOwner = (\<lambda>_ _. Inr None), ie_readInstance = (\<lambda>_ u. Inr u), ie_storeInstance = (\<lambda>_ u. Inr u),
     ie_getInstance = (\<lambda>_ _. Inr (ready_instance (new_unstructured demo_gvk ''ns'' ''demo''))),
     ie_patchStatus = (\<lambda>_ _ a. Inr a)\<rparr>"

definition demo_ic_run :: "ic_call list" where
  "demo_ic_run = snd (run_state (ic_Reconcile demo_ic_env (object_key ''ns'' ''demo'')) [])"

theorem instance_fields_enforced_witness:
  "emits (instance_call_ok demo_ic_env demo_kc ''rgd'') (rgd_report demo_ic_env demo_kc ''rgd'')"
  by (rule instance_fields_enforced) (use demo_condition_laws(2) in \<open>simp add: demo_ic_env_def demo_env_def\<close>)


end
