(* ===== verification/Kubeadm.thy ===== *)
theory Kubeadm
  imports ControlPlane
begin

text \<open>
  \<open>internal/controller/controlplane/kany8skubeadmcontrolplane_controller.go\<close>: the
  self-managed backend. It makes one control plane machine from a template: the certificates,
  the kubeconfig Secret, the bootstrap configuration, the infrastructure machine and the
  Machine, and reports when the cluster answers.

  The Cluster API libraries are parameters: the certificates (the call
  \<open>LookupCertificates\<close> answers with the files \<open>certificates.AsFiles()\<close> lists), the
  reading of a referenced object, \<open>GenerateTemplate\<close>, and the making and loading of a
  kubeconfig. The guards against nil objects are left out, as in \<open>ControlPlane\<close>.
\<close>

section \<open>The Cluster API objects\<close>

record machine =
  ma_meta :: obj_meta
  ma_ClusterName :: string
  ma_Version :: string
  ma_ConfigRef :: contract_ref
  ma_InfrastructureRef :: contract_ref
  ma_Conditions :: "condition list"

record kubeadm_config =
  kg_meta :: obj_meta
  kg_Spec :: kubeadm_config_spec

definition MachineControlPlaneLabel :: string where
  "MachineControlPlaneLabel = ''cluster.x-k8s.io/control-plane''"
definition bootstrapGroup :: string where
  "bootstrapGroup = ''bootstrap.cluster.x-k8s.io''"
definition RemoteConnectionProbeCondition :: string where
  "RemoteConnectionProbeCondition = ''RemoteConnectionProbe''"
definition TLSCrtDataName :: string where "TLSCrtDataName = ''tls.crt''"
definition TLSKeyDataName :: string where "TLSKeyDataName = ''tls.key''"

section \<open>Calls and environment\<close>

datatype kcp_call =
    GetKubeadmControlPlane object_key
  | GetKcpOwner obj_meta
  | LookupCertificates "kubeadm_config_spec option" object_key owner_ref
  | GetContractObject contract_ref string
  | GetKcpSecret object_key
  | CreateKcpSecret secret
  | PatchKcpSecret secret secret
  | NewKubeconfig string string
  | GetKubeadmConfig object_key
  | CreateKubeadmConfig kubeadm_config
  | PatchKubeadmConfig kubeadm_config kubeadm_config
  | GetInfraMachine gvk object_key
  | CreateInfraMachine unstructured
  | GetMachine object_key
  | CreateMachine machine
  | PatchMachine machine machine
  | ListMachines string str_map
  | PatchKcp Kany8sKubeadmControlPlane Kany8sKubeadmControlPlane
  | PatchKcpStatus Kany8sKubeadmControlPlane Kany8sKubeadmControlPlane
  | KcpEvent string string string

record kcp_env =
  ke_lib :: apilib
  ke_hasRecorder :: bool
  ke_IsStatusConditionTrue :: "condition list \<Rightarrow> string \<Rightarrow> bool"
  ke_endpoint_String :: "APIEndpoint \<Rightarrow> string"
  ke_secret_Name :: "string \<Rightarrow> string"
  ke_DecodeCertPEM :: "string \<Rightarrow> string option result"
  ke_DecodePrivateKeyPEM :: "string \<Rightarrow> string option result"
  ke_NewClientConfig :: "string \<Rightarrow> string result"
  ke_ClientConfig_Host :: "string \<Rightarrow> string result"
  ke_clientcmd_Write :: "string \<Rightarrow> string result"
  ke_GenerateTemplate :: "unstructured \<Rightarrow> string \<Rightarrow> string \<Rightarrow> string \<Rightarrow> unstructured result"
  ke_newKubeconfig :: "kcp_call list \<Rightarrow> string \<Rightarrow> string \<Rightarrow> string \<Rightarrow> string \<Rightarrow> string result"
  ke_getKcp :: "kcp_call list \<Rightarrow> object_key \<Rightarrow> Kany8sKubeadmControlPlane result"
  ke_getOwner :: "kcp_call list \<Rightarrow> obj_meta \<Rightarrow> cluster option result"
  ke_certificates :: "kcp_call list \<Rightarrow> object_key \<Rightarrow> bootstrap_file list result"
  ke_getContract :: "kcp_call list \<Rightarrow> contract_ref \<Rightarrow> string \<Rightarrow> unstructured result"
  ke_getSecret :: "kcp_call list \<Rightarrow> object_key \<Rightarrow> secret result"
  ke_getConfig :: "kcp_call list \<Rightarrow> object_key \<Rightarrow> kubeadm_config result"
  ke_getInfraMachine :: "kcp_call list \<Rightarrow> gvk \<Rightarrow> object_key \<Rightarrow> unstructured result"
  ke_getMachine :: "kcp_call list \<Rightarrow> object_key \<Rightarrow> machine result"
  ke_listMachines :: "kcp_call list \<Rightarrow> string \<Rightarrow> str_map \<Rightarrow> machine list result"
  ke_write :: "kcp_call list \<Rightarrow> kcp_call \<Rightarrow> unit result"
  ke_patch :: "kcp_call list \<Rightarrow> Kany8sKubeadmControlPlane \<Rightarrow> Kany8sKubeadmControlPlane \<Rightarrow> Kany8sKubeadmControlPlane result"
  ke_patchStatus :: "kcp_call list \<Rightarrow> Kany8sKubeadmControlPlane \<Rightarrow> Kany8sKubeadmControlPlane \<Rightarrow> Kany8sKubeadmControlPlane result"

type_synonym 'a kcp_eff = "(kcp_call, 'a) eff"

text \<open>A write whose stored object the code does not look at again.\<close>

definition kcp_write :: "kcp_env \<Rightarrow> kcp_call \<Rightarrow> unit result kcp_eff" where
  "kcp_write env c = perform c (\<lambda>h. ke_write env h c)"

definition kcp_patch_status ::
    "kcp_env \<Rightarrow> Kany8sKubeadmControlPlane \<Rightarrow> Kany8sKubeadmControlPlane \<Rightarrow> Kany8sKubeadmControlPlane result kcp_eff" where
  "kcp_patch_status env before cp = perform (PatchKcpStatus before cp) (\<lambda>h. ke_patchStatus env h before cp)"

text \<open>\<open>Create\<close> by a controller that does not mind losing the race.\<close>

definition create_unless_exists :: "kcp_env \<Rightarrow> kcp_call \<Rightarrow> unit result kcp_eff" where
  "create_unless_exists env c =
     bind_eff (kcp_write env c) (\<lambda>r. ret (case r of
        Inl e \<Rightarrow> if is_already_exists e then Inr () else Inl e
      | Inr _ \<Rightarrow> Inr ()))"

section \<open>Constants\<close>

definition kubeadmCertificatesDirDefault :: string where
  "kubeadmCertificatesDirDefault = ''/etc/kubernetes/pki''"
definition bootstrapCertificatesDir :: string where
  "bootstrapCertificatesDir = ''/run/kubeadm/pki''"

definition conditionTypeOwnerClusterResolved :: string where
  "conditionTypeOwnerClusterResolved = ''OwnerClusterResolved''"

section \<open>Bootstrap files\<close>

definition mergeBootstrapFiles :: "bootstrap_file list \<Rightarrow> bootstrap_file list \<Rightarrow> bootstrap_file list" where
  "mergeBootstrapFiles base inject =
     (if inject = [] then base
      else let overrides = {p \<in> bf_Path ` set inject. p \<noteq> ''''} in
        filter (\<lambda>f. bf_Path f \<notin> overrides) base @ inject)"

definition rewriteKubeadmCertificatesDir :: "bootstrap_file list \<Rightarrow> string \<Rightarrow> bootstrap_file list" where
  "rewriteKubeadmCertificatesDir files certificatesDir =
     (if files = [] then files
      else if TrimSpace certificatesDir = '''' \<or> certificatesDir = kubeadmCertificatesDirDefault then files
      else map (\<lambda>f.
        if has_prefix (bf_Path f) (kubeadmCertificatesDirDefault @ ''/'')
        then f\<lparr>bf_Path := trim_right_char (CHR ''/'') certificatesDir @
                 trim_prefix (bf_Path f) kubeadmCertificatesDirDefault\<rparr>
        else f) files)"

section \<open>The conditions of the control plane\<close>

definition kcp_set_cond :: "apilib \<Rightarrow> Kany8sKubeadmControlPlane \<Rightarrow> condition \<Rightarrow> Kany8sKubeadmControlPlane" where
  "kcp_set_cond lib cp c = cp\<lparr>kcp_Status := (kcp_Status cp)
     \<lparr>kt_Conditions := lib_SetStatusCondition lib (kt_Conditions (kcp_Status cp)) c\<rparr>\<rparr>"

definition kcp_cond :: "Kany8sKubeadmControlPlane \<Rightarrow> string \<Rightarrow> string \<Rightarrow> string \<Rightarrow> string \<Rightarrow> condition" where
  "kcp_cond cp t s reason message =
     (cond_of t s reason message)\<lparr>co_ObservedGeneration := om_Generation (kcp_meta cp)\<rparr>"

definition reconcileOwnerClusterResolvedCondition ::
    "kcp_env \<Rightarrow> Kany8sKubeadmControlPlane \<Rightarrow> string \<Rightarrow> string \<Rightarrow> string \<Rightarrow> string \<Rightarrow> Kany8sKubeadmControlPlane result kcp_eff" where
  "reconcileOwnerClusterResolvedCondition env cp status reason message eventType =
     (let cond = kcp_cond cp conditionTypeOwnerClusterResolved status reason message;
          shouldEmit = (case lib_FindStatusCondition (ke_lib env) (kt_Conditions (kcp_Status cp)) (co_Type cond) of
             None \<Rightarrow> True
           | Some prev \<Rightarrow> co_Status prev \<noteq> co_Status cond \<or> co_Reason prev \<noteq> co_Reason cond \<or>
                          co_Message prev \<noteq> co_Message cond) in
      try_bind (kcp_patch_status env cp (kcp_set_cond (ke_lib env) cp cond)) (\<lambda>cp'.
        bind_eff (when_eff (shouldEmit \<and> ke_hasRecorder env) (emit (KcpEvent eventType reason message))) (\<lambda>_.
        ret (Inr cp'))))"

text \<open>The status \<open>reconcileReadyConditions\<close> writes.\<close>

definition ready_conditions ::
    "apilib \<Rightarrow> Kany8sKubeadmControlPlane \<Rightarrow> string \<Rightarrow> string \<Rightarrow> string \<Rightarrow> Kany8sKubeadmControlPlane" where
  "ready_conditions lib cp status reason message =
     (let cp1 = kcp_set_cond lib cp (kcp_cond cp conditionTypeReady status reason message);
          cp2 = (if status = ConditionTrue then
                   (let cp' = cp1\<lparr>kcp_Status := (kcp_Status cp1)\<lparr>kt_Conditions :=
                          lib_RemoveStatusCondition lib (kt_Conditions (kcp_Status cp1)) conditionTypeCreating\<rparr>\<rparr>
                    in if kp_Version (kcp_Spec cp') \<noteq> '''' \<and> kt_Version (kcp_Status cp') \<noteq> kp_Version (kcp_Spec cp')
                       then cp'\<lparr>kcp_Status := (kcp_Status cp')\<lparr>kt_Version := kp_Version (kcp_Spec cp')\<rparr>\<rparr>
                       else cp')
                 else kcp_set_cond lib cp1 (kcp_cond cp1 conditionTypeCreating ConditionTrue reason message))
      in cp2\<lparr>kcp_Status := (kcp_Status cp2)\<lparr>kt_FailureReason := None, kt_FailureMessage := None\<rparr>\<rparr>)"

definition reconcileReadyConditions ::
    "kcp_env \<Rightarrow> Kany8sKubeadmControlPlane \<Rightarrow> string \<Rightarrow> string \<Rightarrow> string \<Rightarrow> Kany8sKubeadmControlPlane result kcp_eff" where
  "reconcileReadyConditions env cp status reason message =
     kcp_patch_status env cp (ready_conditions (ke_lib env) cp status reason message)"

definition requeueNotReady ::
    "kcp_env \<Rightarrow> Kany8sKubeadmControlPlane \<Rightarrow> string \<Rightarrow> string \<Rightarrow> ctrl_result result kcp_eff" where
  "requeueNotReady env cp reason message =
     try_bind (reconcileReadyConditions env cp ConditionFalse reason message) (\<lambda>_.
       ret (Inr (requeue_in ControlPlaneNotReadyRequeueAfter)))"

definition reconcileControlPlaneInitialized ::
    "kcp_env \<Rightarrow> Kany8sKubeadmControlPlane \<Rightarrow> Kany8sKubeadmControlPlane result kcp_eff" where
  "reconcileControlPlaneInitialized env cp =
     (if kt_ControlPlaneInitialized (kcp_Status cp) then ret (Inr cp)
      else kcp_patch_status env cp (cp\<lparr>kcp_Status := (kcp_Status cp)\<lparr>kt_ControlPlaneInitialized := True\<rparr>\<rparr>))"

section \<open>The kubeconfig Secret of the cluster\<close>

definition stored_kubeconfig_unusable :: "kcp_env \<Rightarrow> string \<Rightarrow> secret \<Rightarrow> bool" where
  "stored_kubeconfig_unusable env server s =
     (case fmlookup (se_Data s) DataKey of
        None \<Rightarrow> True
      | Some kc \<Rightarrow> kc = '''' \<or>
          (case ke_NewClientConfig env kc of
             Inl _ \<Rightarrow> True
           | Inr clientConfig \<Rightarrow>
               (case ke_ClientConfig_Host env clientConfig of
                  Inl _ \<Rightarrow> True
                | Inr host \<Rightarrow> host \<noteq> server)))"

definition generate_kubeconfig :: "kcp_env \<Rightarrow> cluster \<Rightarrow> string \<Rightarrow> string result kcp_eff" where
  "generate_kubeconfig env c server =
     (let caKey = object_key (om_Namespace (cl_meta c)) (ke_secret_Name env (om_Name (cl_meta c))) in
      try_bind (perform (GetKcpSecret caKey) (\<lambda>h. ke_getSecret env h caKey)) (\<lambda>caSecret.
      case ke_DecodeCertPEM env (str_get (se_Data caSecret) TLSCrtDataName) of
        Inl e \<Rightarrow> ret (Inl (wrapf ''decode cluster CA cert'' e))
      | Inr None \<Rightarrow> ret (Inl (errorf ''cluster CA cert not found''))
      | Inr (Some cert) \<Rightarrow>
          (case ke_DecodePrivateKeyPEM env (str_get (se_Data caSecret) TLSKeyDataName) of
             Inl e \<Rightarrow> ret (Inl (wrapf ''decode cluster CA private key'' e))
           | Inr None \<Rightarrow> ret (Inl (errorf ''cluster CA private key not found''))
           | Inr (Some key) \<Rightarrow>
               bind_eff (perform (NewKubeconfig (om_Name (cl_meta c)) server)
                  (\<lambda>h. ke_newKubeconfig env h (om_Name (cl_meta c)) server cert key)) (\<lambda>cfg.
               ret (case cfg of
                  Inl e \<Rightarrow> Inl (wrapf ''generate kubeconfig'' e)
                | Inr x \<Rightarrow> (case ke_clientcmd_Write env x of
                     Inl e \<Rightarrow> Inl (wrapf ''serialize kubeconfig'' e) | Inr out \<Rightarrow> Inr out))))))"

text \<open>The update of a stored Secret; new bytes only where the stored ones are unusable.\<close>

definition update_kubeconfig_secret :: "cluster \<Rightarrow> owner_ref \<Rightarrow> string option \<Rightarrow> secret \<Rightarrow> secret" where
  "update_kubeconfig_secret c ownerRef out s =
     \<lparr>se_meta = (se_meta s)\<lparr>om_Labels := fmupd ClusterNameLabelKey (om_Name (cl_meta c)) (om_Labels (se_meta s)),
        om_OwnerReferences := [ownerRef]\<rparr>,
      se_Type = SecretType,
      se_Data = (case out of None \<Rightarrow> se_Data s | Some kc \<Rightarrow> fmupd DataKey kc (se_Data s))\<rparr>"

definition reconcileClusterKubeconfigSecret ::
    "kcp_env \<Rightarrow> cluster \<Rightarrow> owner_ref \<Rightarrow> APIEndpoint \<Rightarrow> unit result kcp_eff" where
  "reconcileClusterKubeconfigSecret env c ownerRef endpoint =
     (case SecretName (om_Name (cl_meta c)) of
        Inl e \<Rightarrow> ret (Inl e)
      | Inr secretName \<Rightarrow>
          let endpointStr = ke_endpoint_String env endpoint in
          if endpointStr = '''' then ret (Inl (errorf ''control plane endpoint is empty''))
          else let server = JoinPath_https endpointStr;
                   key = object_key (om_Namespace (cl_meta c)) secretName in
            bind_eff (perform (GetKcpSecret key) (\<lambda>h. ke_getSecret env h key)) (\<lambda>got. case got of
              Inl getErr \<Rightarrow>
                if \<not> is_not_found getErr then ret (Inl getErr)
                else try_bind (generate_kubeconfig env c server) (\<lambda>out.
                  case NewSecret (om_Name (cl_meta c)) (om_Namespace (cl_meta c)) out of
                    Inl e \<Rightarrow> ret (Inl e)
                  | Inr s \<Rightarrow> create_unless_exists env (CreateKcpSecret
                      (s\<lparr>se_meta := (se_meta s)\<lparr>om_OwnerReferences := [ownerRef]\<rparr>\<rparr>)))
            | Inr s \<Rightarrow>
                if stored_kubeconfig_unusable env server s
                then try_bind (generate_kubeconfig env c server) (\<lambda>out.
                  kcp_write env (PatchKcpSecret s (update_kubeconfig_secret c ownerRef (Some out) s)))
                else kcp_write env (PatchKcpSecret s (update_kubeconfig_secret c ownerRef None s))))"

section \<open>The bootstrap configuration\<close>

definition control_plane_0 :: "cluster \<Rightarrow> string" where
  "control_plane_0 c = om_Name (cl_meta c) @ ''-control-plane-0''"

definition zero_kubeadm_config_spec :: kubeadm_config_spec where
  "zero_kubeadm_config_spec = \<lparr>kb_ControlPlaneEndpoint = '''', kb_CertificatesDir = '''', kb_BindPort = 0,
     kb_Files = [], kb_rest = fmempty\<rparr>"

definition desired_kubeadm_config ::
    "kcp_env \<Rightarrow> Kany8sKubeadmControlPlane \<Rightarrow> APIEndpoint \<Rightarrow> bootstrap_file list \<Rightarrow> kubeadm_config_spec" where
  "desired_kubeadm_config env cp endpoint certFiles =
     (let s0 = (case kp_KubeadmConfigSpec (kcp_Spec cp) of None \<Rightarrow> zero_kubeadm_config_spec | Some s \<Rightarrow> s);
          s1 = s0\<lparr>kb_ControlPlaneEndpoint := ke_endpoint_String env endpoint\<rparr>;
          s2 = (if kb_CertificatesDir s1 = '''' then s1\<lparr>kb_CertificatesDir := bootstrapCertificatesDir\<rparr> else s1);
          s3 = (if kb_BindPort s2 = 0 then s2\<lparr>kb_BindPort := ep_Port endpoint\<rparr> else s2)
      in s3\<lparr>kb_Files := mergeBootstrapFiles (kb_Files s3)
             (rewriteKubeadmCertificatesDir certFiles (kb_CertificatesDir s3))\<rparr>)"

definition labelled_for :: "cluster \<Rightarrow> owner_ref \<Rightarrow> obj_meta \<Rightarrow> obj_meta" where
  "labelled_for c ownerRef m = m\<lparr>om_Labels := fmupd ClusterNameLabel (om_Name (cl_meta c)) (om_Labels m),
     om_OwnerReferences := [ownerRef]\<rparr>"

definition reconcileInitialControlPlaneKubeadmConfig ::
    "kcp_env \<Rightarrow> Kany8sKubeadmControlPlane \<Rightarrow> cluster \<Rightarrow> owner_ref \<Rightarrow> APIEndpoint \<Rightarrow> bootstrap_file list \<Rightarrow>
     unit result kcp_eff" where
  "reconcileInitialControlPlaneKubeadmConfig env cp c ownerRef endpoint certFiles =
     (if ep_Host endpoint = '''' \<or> sint (ep_Port endpoint) \<le> 0
      then ret (Inl (errorf ''control plane endpoint is not set''))
      else let key = object_key (om_Namespace (cl_meta c)) (control_plane_0 c);
               desired = desired_kubeadm_config env cp endpoint certFiles in
        bind_eff (perform (GetKubeadmConfig key) (\<lambda>h. ke_getConfig env h key)) (\<lambda>got. case got of
          Inl e \<Rightarrow>
            if \<not> is_not_found e then ret (Inl e)
            else create_unless_exists env (CreateKubeadmConfig
              \<lparr>kg_meta = labelled_for c ownerRef (new_meta (om_Namespace (cl_meta c)) (control_plane_0 c)),
               kg_Spec = desired\<rparr>)
        | Inr existing \<Rightarrow> kcp_write env (PatchKubeadmConfig existing
              \<lparr>kg_meta = labelled_for c ownerRef (kg_meta existing), kg_Spec = desired\<rparr>)))"

section \<open>The infrastructure machine\<close>

definition reconcileInfraMachine ::
    "kcp_env \<Rightarrow> Kany8sKubeadmControlPlane \<Rightarrow> cluster \<Rightarrow> owner_ref \<Rightarrow> contract_ref result kcp_eff" where
  "reconcileInfraMachine env cp c ownerRef =
     (let templateRef = mt_InfrastructureRef (kp_MachineTemplate (kcp_Spec cp));
          ns = om_Namespace (cl_meta c); name = control_plane_0 c in
      if \<not> lib_RefIsDefined (ke_lib env) templateRef
      then ret (Inl (errorf ''machineTemplate.infrastructureRef is not set''))
      else try_bind (perform (GetContractObject templateRef ns) (\<lambda>h. ke_getContract env h templateRef ns)) (\<lambda>template.
        case ke_GenerateTemplate env template ns name (om_Name (cl_meta c)) of
          Inl e \<Rightarrow> ret (Inl e)
        | Inr generated0 \<Rightarrow>
            let generated = generated0\<lparr>un_meta := (un_meta generated0)\<lparr>om_OwnerReferences := [ownerRef]\<rparr>\<rparr>;
                infraGVK = un_GVK generated;
                infraRef = \<lparr>cr_APIGroup = gvk_Group infraGVK, cr_Kind = gvk_Kind infraGVK, cr_Name = name\<rparr>;
                key = object_key ns name in
            bind_eff (perform (GetInfraMachine infraGVK key) (\<lambda>h. ke_getInfraMachine env h infraGVK key)) (\<lambda>got. case got of
              Inl e \<Rightarrow>
                if \<not> is_not_found e then ret (Inl e)
                else try_bind (create_unless_exists env (CreateInfraMachine generated)) (\<lambda>_. ret (Inr infraRef))
            | Inr _ \<Rightarrow> ret (Inr infraRef))))"

section \<open>The Machine\<close>

definition desired_machine ::
    "Kany8sKubeadmControlPlane \<Rightarrow> cluster \<Rightarrow> owner_ref \<Rightarrow> contract_ref \<Rightarrow> machine \<Rightarrow> machine" where
  "desired_machine cp c ownerRef infraRef m =
     m\<lparr>ma_meta := (ma_meta m)
         \<lparr>om_Labels := fmupd MachineControlPlaneLabel ''true''
            (fmupd ClusterNameLabel (om_Name (cl_meta c)) (om_Labels (ma_meta m))),
          om_OwnerReferences := [ownerRef]\<rparr>,
       ma_ClusterName := om_Name (cl_meta c), ma_Version := kp_Version (kcp_Spec cp),
       ma_ConfigRef := \<lparr>cr_APIGroup = bootstrapGroup, cr_Kind = ''KubeadmConfig'', cr_Name = control_plane_0 c\<rparr>,
       ma_InfrastructureRef := infraRef\<rparr>"

definition new_machine :: "cluster \<Rightarrow> machine" where
  "new_machine c = \<lparr>ma_meta = new_meta (om_Namespace (cl_meta c)) (control_plane_0 c), ma_ClusterName = '''',
     ma_Version = '''', ma_ConfigRef = \<lparr>cr_APIGroup = '''', cr_Kind = '''', cr_Name = ''''\<rparr>,
     ma_InfrastructureRef = \<lparr>cr_APIGroup = '''', cr_Kind = '''', cr_Name = ''''\<rparr>, ma_Conditions = []\<rparr>"

definition reconcileControlPlaneMachine ::
    "kcp_env \<Rightarrow> Kany8sKubeadmControlPlane \<Rightarrow> cluster \<Rightarrow> owner_ref \<Rightarrow> contract_ref \<Rightarrow> unit result kcp_eff" where
  "reconcileControlPlaneMachine env cp c ownerRef infraRef =
     (if om_Name (cl_meta c) = '''' then ret (Inl (errorf ''cluster name is empty''))
      else if \<not> lib_RefIsDefined (ke_lib env) infraRef then ret (Inl (errorf ''infrastructureRef is not set''))
      else let key = object_key (om_Namespace (cl_meta c)) (control_plane_0 c) in
        bind_eff (perform (GetMachine key) (\<lambda>h. ke_getMachine env h key)) (\<lambda>got. case got of
          Inl e \<Rightarrow>
            if \<not> is_not_found e then ret (Inl e)
            else create_unless_exists env (CreateMachine (desired_machine cp c ownerRef infraRef (new_machine c)))
        | Inr existing \<Rightarrow>
            kcp_write env (PatchMachine existing (desired_machine cp c ownerRef infraRef existing))))"

section \<open>Readiness\<close>

definition hasReadyControlPlaneMachine :: "kcp_env \<Rightarrow> cluster \<Rightarrow> bool result kcp_eff" where
  "hasReadyControlPlaneMachine env c =
     (if om_Name (cl_meta c) = '''' then ret (Inl (errorf ''cluster name is empty''))
      else let ns = om_Namespace (cl_meta c);
               labels = fmupd MachineControlPlaneLabel ''true'' (fmupd ClusterNameLabel (om_Name (cl_meta c)) fmempty) in
        try_bind (perform (ListMachines ns labels) (\<lambda>h. ke_listMachines env h ns labels)) (\<lambda>items.
          ret (Inr (list_ex (\<lambda>m. ke_IsStatusConditionTrue env (ma_Conditions m) conditionTypeReady) items))))"

definition reconcileReadiness ::
    "kcp_env \<Rightarrow> Kany8sKubeadmControlPlane \<Rightarrow> cluster \<Rightarrow> ctrl_result result kcp_eff" where
  "reconcileReadiness env cp c =
     (if ep_Host (kp_ControlPlaneEndpoint (kcp_Spec cp)) = '''' \<or> sint (ep_Port (kp_ControlPlaneEndpoint (kcp_Spec cp))) \<le> 0
      then requeueNotReady env cp ''WaitingForInfrastructureEndpoint''
             ''waiting for infrastructure controlPlaneEndpoint to be set''
      else
        try_bind (if ke_IsStatusConditionTrue env (cl_Conditions c) RemoteConnectionProbeCondition \<and>
                     \<not> kt_ControlPlaneInitialized (kcp_Status cp)
                  then reconcileControlPlaneInitialized env cp else ret (Inr cp)) (\<lambda>cp1.
        let finish = (\<lambda>cp2.
          if \<not> kt_ControlPlaneInitialized (kcp_Status cp2)
          then requeueNotReady env cp2 ''WaitingForRemoteConnectionProbe'' ''waiting for Cluster RemoteConnectionProbe=True''
          else try_bind (reconcileReadyConditions env cp2 ConditionTrue ''Ready'' ''control plane is ready'') (\<lambda>_.
            ret (Inr no_requeue))) in
        if kt_ControlPlaneInitialized (kcp_Status cp1) then finish cp1
        else bind_eff (hasReadyControlPlaneMachine env c) (\<lambda>machineReady. case machineReady of
            Inl e \<Rightarrow> requeueNotReady env cp1 ''WaitingForControlPlaneMachineCreated''
                       (''list control plane Machines: '' @ err_text e)
          | Inr True \<Rightarrow> try_bind (reconcileControlPlaneInitialized env cp1) finish
          | Inr False \<Rightarrow> finish cp1)))"

section \<open>Reconcile\<close>

definition requeue_soon :: "'c \<Rightarrow> ctrl_result result kcp_eff" where
  "requeue_soon e = ret (Inr (requeue_in ControlPlaneNotReadyRequeueAfter))"

text \<open>\<open>if err := m; err != nil { log; requeue }\<close> followed by the rest.\<close>

definition or_requeue :: "'a result kcp_eff \<Rightarrow> ('a \<Rightarrow> ctrl_result result kcp_eff) \<Rightarrow> ctrl_result result kcp_eff" where
  "or_requeue m k = bind_eff m (\<lambda>r. case r of Inl e \<Rightarrow> requeue_soon e | Inr a \<Rightarrow> k a)"

text \<open>Everything that is made once the endpoint is known.\<close>

definition reconcile_machine ::
    "kcp_env \<Rightarrow> Kany8sKubeadmControlPlane \<Rightarrow> cluster \<Rightarrow> owner_ref \<Rightarrow> APIEndpoint \<Rightarrow> bootstrap_file list \<Rightarrow>
     ctrl_result result kcp_eff" where
  "reconcile_machine env cp c ownerRef desired certFiles =
     or_requeue (reconcileClusterKubeconfigSecret env c ownerRef desired) (\<lambda>_.
     or_requeue (reconcileInitialControlPlaneKubeadmConfig env cp c ownerRef desired certFiles) (\<lambda>_.
     or_requeue (reconcileInfraMachine env cp c ownerRef) (\<lambda>infraRef.
     or_requeue (reconcileControlPlaneMachine env cp c ownerRef infraRef) (\<lambda>_.
     reconcileReadiness env cp c))))"

text \<open>The endpoint of the infrastructure cluster: \<open>None\<close> while it is not set.\<close>

definition infra_endpoint :: "apilib \<Rightarrow> doc \<Rightarrow> APIEndpoint option result" where
  "infra_endpoint lib infra =
     (case lib_NestedString lib infra [''spec'', ''controlPlaneEndpoint'', ''host''] of
        Inl e \<Rightarrow> Inl (wrapf ''read infrastructure spec.controlPlaneEndpoint.host'' e)
      | Inr (host, foundHost) \<Rightarrow>
          (case lib_NestedInt64 lib infra [''spec'', ''controlPlaneEndpoint'', ''port''] of
             Inl e \<Rightarrow> Inl (wrapf ''read infrastructure spec.controlPlaneEndpoint.port'' e)
           | Inr (port, foundPort) \<Rightarrow>
               if \<not> foundHost \<or> host = '''' \<or> \<not> foundPort \<or> sint port \<le> 0 then Inr None
               else Inr (Some \<lparr>ep_Host = host, ep_Port = ucast port\<rparr>)))"

definition reconcile_with_infra ::
    "kcp_env \<Rightarrow> Kany8sKubeadmControlPlane \<Rightarrow> cluster \<Rightarrow> owner_ref \<Rightarrow> bootstrap_file list \<Rightarrow> ctrl_result result kcp_eff" where
  "reconcile_with_infra env cp c ownerRef certFiles =
     (let ref = cl_InfrastructureRef c; ns = om_Namespace (cl_meta c) in
      if \<not> lib_RefIsDefined (ke_lib env) ref then ret (Inr (requeue_in ControlPlaneNotReadyRequeueAfter))
      else or_requeue (perform (GetContractObject ref ns) (\<lambda>h. ke_getContract env h ref ns)) (\<lambda>infra.
        case infra_endpoint (ke_lib env) (un_Object infra) of
          Inl e \<Rightarrow> ret (Inl e)
        | Inr None \<Rightarrow> requeueNotReady env cp ''WaitingForInfrastructureEndpoint''
                        ''waiting for infrastructure controlPlaneEndpoint to be set''
        | Inr (Some desired) \<Rightarrow>
            try_bind (if kp_ControlPlaneEndpoint (kcp_Spec cp) \<noteq> desired
                      then (let cp' = cp\<lparr>kcp_Spec := (kcp_Spec cp)\<lparr>kp_ControlPlaneEndpoint := desired\<rparr>\<rparr>
                            in perform (PatchKcp cp cp') (\<lambda>h. ke_patch env h cp cp'))
                      else ret (Inr cp)) (\<lambda>cp1.
            reconcile_machine env cp1 c ownerRef desired certFiles)))"

definition owner_unresolved ::
    "kcp_env \<Rightarrow> Kany8sKubeadmControlPlane \<Rightarrow> string \<Rightarrow> string \<Rightarrow> string \<Rightarrow> ctrl_result result kcp_eff" where
  "owner_unresolved env cp reason message eventType =
     try_bind (reconcileOwnerClusterResolvedCondition env cp ConditionFalse reason message eventType) (\<lambda>_.
       ret (Inr (requeue_in ControlPlaneNotReadyRequeueAfter)))"

definition kcp_Reconcile :: "kcp_env \<Rightarrow> object_key \<Rightarrow> ctrl_result result kcp_eff" where
  "kcp_Reconcile env req =
     bind_eff (perform (GetKubeadmControlPlane req) (\<lambda>h. ke_getKcp env h req)) (\<lambda>got. case got of
       Inl e \<Rightarrow> ret (map_sum id (\<lambda>_. no_requeue) (ignore_not_found e))
     | Inr cp \<Rightarrow>
         bind_eff (perform (GetKcpOwner (kcp_meta cp)) (\<lambda>h. ke_getOwner env h (kcp_meta cp))) (\<lambda>owner. case owner of
           Inl e \<Rightarrow>
             if is_not_found e then owner_unresolved env cp ''OwnerClusterNotFound'' (err_text e) EventTypeNormal
             else owner_unresolved env cp ''OwnerClusterGetFailed'' (''get owner Cluster: '' @ err_text e) EventTypeWarning
         | Inr None \<Rightarrow> owner_unresolved env cp ''OwnerClusterNotSet''
                         ''waiting for owner Cluster reference to be set'' EventTypeNormal
         | Inr (Some c) \<Rightarrow>
             try_bind (reconcileOwnerClusterResolvedCondition env cp ConditionTrue ''OwnerClusterResolved''
                         ''owner Cluster resolved'' EventTypeNormal) (\<lambda>cp1.
             let clusterKey = key_of (cl_meta c); ownerRef = cluster_owner_ref c in
             or_requeue (perform (LookupCertificates (kp_KubeadmConfigSpec (kcp_Spec cp1)) clusterKey ownerRef)
                          (\<lambda>h. ke_certificates env h clusterKey)) (\<lambda>certFiles.
             reconcile_with_infra env cp1 c ownerRef certFiles))))"

section \<open>Bootstrap files reach the node\<close>

text \<open>
  Injected files win: every injected file is in the result, a file of the base survives
  exactly when no injected file has its path, in its place before the injected ones, and
  merging again changes nothing when no injected path is empty.
\<close>

theorem injected_files_win:
  "(\<exists>kept. mergeBootstrapFiles base inject = kept @ inject \<and>
      kept = filter (\<lambda>f. bf_Path f = '''' \<or> (\<forall>g \<in> set inject. bf_Path g \<noteq> bf_Path f)) base) \<and>
   (\<forall>p. p \<noteq> '''' \<and> p \<in> bf_Path ` set inject \<longrightarrow>
      filter (\<lambda>f. bf_Path f = p) (mergeBootstrapFiles base inject) = filter (\<lambda>f. bf_Path f = p) inject) \<and>
   ('''' \<notin> bf_Path ` set inject \<longrightarrow>
      mergeBootstrapFiles (mergeBootstrapFiles base inject) inject = mergeBootstrapFiles base inject)"
proof -
  have kept: "mergeBootstrapFiles b inject =
      filter (\<lambda>f. bf_Path f = '''' \<or> (\<forall>g \<in> set inject. bf_Path g \<noteq> bf_Path f)) b @ inject" for b
    by (auto simp: mergeBootstrapFiles_def image_iff intro!: filter_cong)
  have path: "filter (\<lambda>f. bf_Path f = p) (mergeBootstrapFiles base inject) = filter (\<lambda>f. bf_Path f = p) inject"
    if "p \<noteq> ''''" "p \<in> bf_Path ` set inject" for p
    using that unfolding kept by (auto simp: filter_empty_conv)
  have "filter (\<lambda>f. bf_Path f = '''' \<or> (\<forall>g \<in> set inject. bf_Path g \<noteq> bf_Path f)) inject = []"
    if "'''' \<notin> bf_Path ` set inject"
    using that by (force simp: filter_empty_conv)
  then have "mergeBootstrapFiles (mergeBootstrapFiles base inject) inject = mergeBootstrapFiles base inject"
    if "'''' \<notin> bf_Path ` set inject"
    using that unfolding kept by simp
  then show ?thesis using kept path by blast
qed

lemma merge_mem:
  "f \<in> set (mergeBootstrapFiles base inject) \<longleftrightarrow>
     f \<in> set inject \<or> f \<in> set base \<and> (bf_Path f = '''' \<or> bf_Path f \<notin> bf_Path ` set inject)"
  by (auto simp: mergeBootstrapFiles_def)

lemma rewrite_mem:
  assumes "f \<in> set files" "bf_Path f = kubeadmCertificatesDirDefault @ CHR ''/'' # rest"
    and "TrimSpace d \<noteq> ''''" "trim_right_char (CHR ''/'') d = d"
  shows "f\<lparr>bf_Path := d @ CHR ''/'' # rest\<rparr> \<in> set (rewriteKubeadmCertificatesDir files d)"
proof (cases "d = kubeadmCertificatesDirDefault")
  case True
  have "f\<lparr>bf_Path := kubeadmCertificatesDirDefault @ CHR ''/'' # rest\<rparr> = f"
    using assms(2) by (cases f) simp
  then show ?thesis using assms(1) True by (auto simp: rewriteKubeadmCertificatesDir_def)
next
  case False
  have "has_prefix (bf_Path f) (kubeadmCertificatesDirDefault @ ''/'')"
    "trim_prefix (bf_Path f) kubeadmCertificatesDirDefault = CHR ''/'' # rest"
    by (simp_all add: assms(2) has_prefix_def trim_prefix_def)
  then have "f\<lparr>bf_Path := d @ CHR ''/'' # rest\<rparr> = (if has_prefix (bf_Path f) (kubeadmCertificatesDirDefault @ ''/'')
      then f\<lparr>bf_Path := trim_right_char (CHR ''/'') d @ trim_prefix (bf_Path f) kubeadmCertificatesDirDefault\<rparr> else f)"
    by (simp add: assms(4))
  moreover have "files \<noteq> []" using assms(1) by auto
  ultimately show ?thesis
    using assms(1,3) False unfolding rewriteKubeadmCertificatesDir_def by simp
qed

text \<open>
  C25. The certificates reach the node where kubeadm looks for them: a certificate file of the
  cluster's default directory is in the bootstrap configuration under the directory that
  configuration names, its content unchanged, and no file of the user shadows it.
\<close>

theorem certificates_reach_the_node:
  fixes env :: kcp_env and cp :: Kany8sKubeadmControlPlane and endpoint :: APIEndpoint
  assumes "f \<in> set certFiles" "bf_Path f = kubeadmCertificatesDirDefault @ CHR ''/'' # rest"
  defines "spec \<equiv> desired_kubeadm_config env cp endpoint certFiles"
  assumes "TrimSpace (kb_CertificatesDir spec) \<noteq> ''''"
    and "trim_right_char (CHR ''/'') (kb_CertificatesDir spec) = kb_CertificatesDir spec"
  shows "f\<lparr>bf_Path := kb_CertificatesDir spec @ CHR ''/'' # rest\<rparr> \<in> set (kb_Files spec) \<and>
    (\<forall>g \<in> set (kb_Files spec). bf_Path g = kb_CertificatesDir spec @ CHR ''/'' # rest \<longrightarrow>
       g \<in> set (rewriteKubeadmCertificatesDir certFiles (kb_CertificatesDir spec)))"
proof -
  obtain base where files: "kb_Files spec =
      mergeBootstrapFiles base (rewriteKubeadmCertificatesDir certFiles (kb_CertificatesDir spec))"
    by (simp add: spec_def desired_kubeadm_config_def Let_def)
  have mem: "f\<lparr>bf_Path := kb_CertificatesDir spec @ CHR ''/'' # rest\<rparr>
      \<in> set (rewriteKubeadmCertificatesDir certFiles (kb_CertificatesDir spec))"
    by (rule rewrite_mem [OF assms(1,2,4,5)])
  then have "kb_CertificatesDir spec @ CHR ''/'' # rest
      \<in> bf_Path ` set (rewriteKubeadmCertificatesDir certFiles (kb_CertificatesDir spec))"
    by force
  then show ?thesis using mem by (auto simp: files merge_mem)
qed

section \<open>The endpoint of the infrastructure\<close>

text \<open>
  C27. The endpoint is copied with a narrower port: the infrastructure's port is only checked to
  be positive as a 64-bit number and then cut to 32 bits, so the port that is published equals
  the one the infrastructure reports exactly for ports below two to the 31; a multiple of two
  to the 32 is published as port 0.
\<close>

theorem infra_endpoint_port:
  assumes "nested_laws lib"
    and "json_at (JObj infra) [''spec'', ''controlPlaneEndpoint'', ''host''] = At (JStr host)" "host \<noteq> ''''"
    and "json_at (JObj infra) [''spec'', ''controlPlaneEndpoint'', ''port''] = At (JInt p)" "0 < p" "p < 2 ^ 63"
  shows "\<exists>ep. infra_endpoint lib infra = Inr (Some ep) \<and> ep_Host ep = host \<and>
     (sint (ep_Port ep) = p \<longleftrightarrow> p < 2 ^ 31) \<and> (2 ^ 32 dvd p \<longrightarrow> ep_Port ep = 0)"
proof -
  have host: "lib_NestedString lib infra [''spec'', ''controlPlaneEndpoint'', ''host''] = Inr (host, True)"
    using assms(1,2) nested_readD(2) [of as_string "''''" "lib_NestedString lib"]
    by (simp add: nested_laws_def as_string_def)
  have port: "lib_NestedInt64 lib infra [''spec'', ''controlPlaneEndpoint'', ''port''] = Inr (word_of_int p, True)"
    using assms(1,4) nested_readD(2) [of as_int64 0 "lib_NestedInt64 lib"]
    by (simp add: nested_laws_def as_int64_def)
  have p64: "sint (word_of_int p :: 64 word) = p"
    using assms(5,6) by (simp add: signed_of_int signed_take_bit_int_eq_self)
  define ep where "ep = \<lparr>ep_Host = host, ep_Port = (ucast (word_of_int p :: 64 word) :: 32 word)\<rparr>"
  have ep: "infra_endpoint lib infra = Inr (Some ep)"
    using assms(3,5) p64 by (simp add: infra_endpoint_def host port ep_def)
  have w: "ep_Port ep = word_of_int p"
    using assms(5,6) by (simp add: ep_def unsigned_of_int take_bit_int_eq_self)
  have "sint (ep_Port ep) = p \<longleftrightarrow> p < 2 ^ 31"
    using assms(5) by (simp add: w signed_of_int signed_take_bit_int_eq_self_iff)
  moreover have "ep_Port ep = 0" if "2 ^ 32 dvd p"
    using that by (simp add: w word_of_int_eq_0_iff)
  ultimately show ?thesis using ep by (auto simp: ep_def)
qed

section \<open>What a reconcile may write\<close>

definition kcp_status :: "apilib \<Rightarrow> Kany8sKubeadmControlPlane \<Rightarrow> string \<Rightarrow> string option" where
  "kcp_status lib cp t = map_option co_Status (lib_FindStatusCondition lib (kt_Conditions (kcp_Status cp)) t)"

text \<open>The cluster answers: its probe succeeded, or one of its control plane machines is ready.\<close>

definition cluster_up :: "kcp_env \<Rightarrow> bool" where
  "cluster_up env \<longleftrightarrow>
     (\<exists>h m c. ke_getOwner env h m = Inr (Some c) \<and>
        (ke_IsStatusConditionTrue env (cl_Conditions c) RemoteConnectionProbeCondition \<or>
         (\<exists>h labels items x. ke_listMachines env h (om_Namespace (cl_meta c)) labels = Inr items \<and>
            fmlookup labels ClusterNameLabel = Some (om_Name (cl_meta c)) \<and>
            fmlookup labels MachineControlPlaneLabel = Some ''true'' \<and>
            x \<in> set items \<and> ke_IsStatusConditionTrue env (ma_Conditions x) conditionTypeReady)))"

definition kcp_call_ok :: "kcp_env \<Rightarrow> kcp_call \<Rightarrow> bool" where
  "kcp_call_ok env c =
     (case c of
        PatchKcpStatus b a \<Rightarrow>
          kcp_Spec a = kcp_Spec b \<and> kcp_meta a = kcp_meta b \<and>
          (kt_ControlPlaneInitialized (kcp_Status b) \<longrightarrow> kt_ControlPlaneInitialized (kcp_Status a)) \<and>
          (kt_ControlPlaneInitialized (kcp_Status a) \<longrightarrow> kt_ControlPlaneInitialized (kcp_Status b) \<or> cluster_up env) \<and>
          (kcp_status (ke_lib env) a conditionTypeReady = Some ConditionTrue \<longrightarrow>
             kcp_status (ke_lib env) b conditionTypeReady = Some ConditionTrue \<or>
             kt_ControlPlaneInitialized (kcp_Status a))
      | PatchKcp b a \<Rightarrow> (\<exists>ep. ep_Host ep \<noteq> '''' \<and> a = b\<lparr>kcp_Spec := (kcp_Spec b)\<lparr>kp_ControlPlaneEndpoint := ep\<rparr>\<rparr>)
      | _ \<Rightarrow> True)"

lemma kcp_call_other [simp]:
  "kcp_call_ok env (GetKubeadmControlPlane k)" "kcp_call_ok env (GetKcpOwner m)"
  "kcp_call_ok env (LookupCertificates s k r)" "kcp_call_ok env (GetContractObject ref ns)"
  "kcp_call_ok env (GetKcpSecret k)" "kcp_call_ok env (CreateKcpSecret s1)" "kcp_call_ok env (PatchKcpSecret s1 s2)"
  "kcp_call_ok env (NewKubeconfig x y)" "kcp_call_ok env (GetKubeadmConfig k)"
  "kcp_call_ok env (CreateKubeadmConfig g)" "kcp_call_ok env (PatchKubeadmConfig g g')"
  "kcp_call_ok env (GetInfraMachine gv k)" "kcp_call_ok env (CreateInfraMachine u)"
  "kcp_call_ok env (GetMachine k)" "kcp_call_ok env (CreateMachine ma)" "kcp_call_ok env (PatchMachine ma ma')"
  "kcp_call_ok env (ListMachines ns ls)" "kcp_call_ok env (KcpEvent x y z)"
  by (simp_all add: kcp_call_ok_def)

text \<open>The parts that do not touch the control plane object.\<close>

lemma emits_kcp_write [emits_intros]: "Q c \<Longrightarrow> emits Q (kcp_write env c)"
  by (simp add: kcp_write_def)

lemma emits_create_unless [emits_intros]: "Q c \<Longrightarrow> emits Q (create_unless_exists env c)"
  unfolding create_unless_exists_def by (intro emits_intros) simp_all

lemma emits_or_requeue [emits_intros]:
  "emits Q m \<Longrightarrow> (\<And>a. emits Q (k a)) \<Longrightarrow> emits Q (or_requeue m k)"
  unfolding or_requeue_def requeue_soon_def by (intro emits_intros) auto

lemma emits_kubeconfig_secret [emits_intros]:
  "emits (kcp_call_ok env) (reconcileClusterKubeconfigSecret env c r ep)"
  unfolding reconcileClusterKubeconfigSecret_def generate_kubeconfig_def Let_def by (intro emits_intros) auto

lemma emits_kubeadm_config [emits_intros]:
  "emits (kcp_call_ok env) (reconcileInitialControlPlaneKubeadmConfig env cp c r ep files)"
  unfolding reconcileInitialControlPlaneKubeadmConfig_def Let_def by (intro emits_intros) auto

lemma emits_infra_machine [emits_intros]: "emits (kcp_call_ok env) (reconcileInfraMachine env cp c r)"
  unfolding reconcileInfraMachine_def Let_def by (intro emits_intros) auto

lemma emits_machine [emits_intros]: "emits (kcp_call_ok env) (reconcileControlPlaneMachine env cp c r ref)"
  unfolding reconcileControlPlaneMachine_def Let_def by (intro emits_intros) auto

text \<open>The status writes.\<close>

lemma kcp_cond_fields [simp]:
  "co_Type (kcp_cond cp t s r m) = t" "co_Status (kcp_cond cp t s r m) = s"
  by (simp_all add: kcp_cond_def cond_of_def)

lemma kcp_set_cond_fields [simp]:
  "kcp_Spec (kcp_set_cond lib cp c) = kcp_Spec cp" "kcp_meta (kcp_set_cond lib cp c) = kcp_meta cp"
  "kt_ControlPlaneInitialized (kcp_Status (kcp_set_cond lib cp c)) = kt_ControlPlaneInitialized (kcp_Status cp)"
  by (simp_all add: kcp_set_cond_def)

lemma kcp_status_set:
  "condition_laws lib \<Longrightarrow> kcp_status lib (kcp_set_cond lib cp c) t =
     (if t = co_Type c then Some (co_Status c) else kcp_status lib cp t)"
  by (simp add: kcp_status_def kcp_set_cond_def condition_lawsD(1))

lemma ready_conditions_fields:
  "kcp_Spec (ready_conditions lib cp s r m) = kcp_Spec cp"
  "kcp_meta (ready_conditions lib cp s r m) = kcp_meta cp"
  "kt_ControlPlaneInitialized (kcp_Status (ready_conditions lib cp s r m)) = kt_ControlPlaneInitialized (kcp_Status cp)"
  by (simp_all add: ready_conditions_def Let_def)

lemma ready_conditions_ready:
  assumes "condition_laws lib"
  shows "kcp_status lib (ready_conditions lib cp s r m) conditionTypeReady = Some s"
proof (cases "s = ConditionTrue")
  case True
  have "kcp_status lib (ready_conditions lib cp s r m) conditionTypeReady =
      kcp_status lib (kcp_set_cond lib cp (kcp_cond cp conditionTypeReady s r m)) conditionTypeReady"
    using True by (simp add: ready_conditions_def Let_def kcp_status_def condition_lawsD(3) [OF assms])
  then show ?thesis by (simp add: kcp_status_set [OF assms])
next
  case False
  let ?cp1 = "kcp_set_cond lib cp (kcp_cond cp conditionTypeReady s r m)"
  have "kcp_status lib (ready_conditions lib cp s r m) conditionTypeReady =
      kcp_status lib (kcp_set_cond lib ?cp1 (kcp_cond ?cp1 conditionTypeCreating ConditionTrue r m)) conditionTypeReady"
    using False by (simp add: ready_conditions_def Let_def kcp_status_def)
  then show ?thesis by (simp add: kcp_status_set [OF assms])
qed

lemma owner_condition_ready [simp]:
  "conditionTypeReady \<noteq> conditionTypeOwnerClusterResolved"
  by (simp add: conditionTypeReady_def conditionTypeOwnerClusterResolved_def)

lemma emits_owner_condition:
  assumes "condition_laws (ke_lib env)"
  shows "emits (kcp_call_ok env) (reconcileOwnerClusterResolvedCondition env cp s r m t)"
  unfolding reconcileOwnerClusterResolvedCondition_def kcp_patch_status_def Let_def
  by (intro emits_intros) (simp_all add: kcp_call_ok_def kcp_status_set [OF assms])

lemma emits_requeue_not_ready:
  assumes "condition_laws (ke_lib env)"
  shows "emits (kcp_call_ok env) (requeueNotReady env cp r m)"
  unfolding requeueNotReady_def reconcileReadyConditions_def kcp_patch_status_def
  by (intro emits_intros) (simp add: kcp_call_ok_def ready_conditions_ready [OF assms] ready_conditions_fields)

lemma emits_initialized:
  assumes "cluster_up env" "condition_laws (ke_lib env)"
  shows "emits (kcp_call_ok env) (reconcileControlPlaneInitialized env cp)"
  unfolding reconcileControlPlaneInitialized_def kcp_patch_status_def
  by (intro emits_intros) (simp add: kcp_call_ok_def kcp_status_def assms(1))

lemma emits_ready_true:
  assumes "condition_laws (ke_lib env)" "kt_ControlPlaneInitialized (kcp_Status cp)"
  shows "emits (kcp_call_ok env) (reconcileReadyConditions env cp s r m)"
  unfolding reconcileReadyConditions_def kcp_patch_status_def
  by (intro emits_intros) (simp add: kcp_call_ok_def ready_conditions_fields assms(2))

lemma ensures_has_ready:
  assumes "ke_getOwner env h m = Inr (Some c)"
  shows "ensures (kcp_call_ok env) (\<lambda>r. r = Inr True \<longrightarrow> cluster_up env) (hasReadyControlPlaneMachine env c)"
proof -
  let ?ls = "fmupd MachineControlPlaneLabel ''true'' (fmupd ClusterNameLabel (om_Name (cl_meta c)) fmempty)"
  have labels: "fmlookup ?ls ClusterNameLabel = Some (om_Name (cl_meta c))"
    "fmlookup ?ls MachineControlPlaneLabel = Some ''true''"
    by (simp_all add: MachineControlPlaneLabel_def ClusterNameLabel_def)
  have up: "cluster_up env"
    if "ke_listMachines env h' (om_Namespace (cl_meta c)) ?ls = Inr items" "x \<in> set items"
      "ke_IsStatusConditionTrue env (ma_Conditions x) conditionTypeReady" for h' items x
    unfolding cluster_up_def using assms that labels by blast
  have list: "ensures (kcp_call_ok env)
      (\<lambda>r. case r of Inl _ \<Rightarrow> True | Inr items \<Rightarrow> \<exists>h'. ke_listMachines env h' (om_Namespace (cl_meta c)) ?ls = Inr items)
      (perform (ListMachines (om_Namespace (cl_meta c)) ?ls) (\<lambda>h. ke_listMachines env h (om_Namespace (cl_meta c)) ?ls))"
    by (rule ensures_perform) (auto split: sum.split)
  show ?thesis
    unfolding hasReadyControlPlaneMachine_def Let_def
    by (auto intro!: ensures_ret ensures_try [OF list] simp: list_ex_iff intro: up)
qed

lemma emits_readiness:
  assumes laws: "condition_laws (ke_lib env)" and owner: "ke_getOwner env h m = Inr (Some c)"
  shows "emits (kcp_call_ok env) (reconcileReadiness env cp c)"
proof -
  have probe: "cluster_up env" if "ke_IsStatusConditionTrue env (cl_Conditions c) RemoteConnectionProbeCondition"
    unfolding cluster_up_def using owner that by blast
  have machines: "emits (kcp_call_ok env) (bind_eff (hasReadyControlPlaneMachine env c) k)"
    if "\<And>r. (r = Inr True \<longrightarrow> cluster_up env) \<Longrightarrow> emits (kcp_call_ok env) (k r)"
    for k :: "bool result \<Rightarrow> ctrl_result result kcp_eff"
    unfolding emits_ensures
    by (rule ensures_bind [OF ensures_has_ready [OF owner]]) (use that in \<open>simp add: emits_ensures\<close>)
  have finish: "emits (kcp_call_ok env)
      (if \<not> kt_ControlPlaneInitialized (kcp_Status cp2) then requeueNotReady env cp2 r1 m1
       else try_bind (reconcileReadyConditions env cp2 ConditionTrue r2 m2) (\<lambda>_. ret (Inr no_requeue)))"
    for cp2 r1 m1 r2 m2
    by (intro emits_intros emits_requeue_not_ready [OF laws] emits_ready_true [OF laws]) simp
  show ?thesis
    unfolding reconcileReadiness_def Let_def
    by (intro emits_if emits_try finish emits_ret emits_requeue_not_ready [OF laws] machines)
      (auto intro!: emits_initialized [OF _ laws] probe emits_try finish emits_requeue_not_ready [OF laws]
        split: sum.split bool.split)
qed

lemma infra_endpoint_host: "infra_endpoint lib infra = Inr (Some ep) \<Longrightarrow> ep_Host ep \<noteq> ''''"
  by (auto simp: infra_endpoint_def split: sum.splits if_splits)

lemma emits_with_infra:
  assumes laws: "condition_laws (ke_lib env)" and owner: "ke_getOwner env h m = Inr (Some c)"
  shows "emits (kcp_call_ok env) (reconcile_with_infra env cp c r files)"
proof -
  have machine: "emits (kcp_call_ok env) (reconcile_machine env cp1 c r ep files)" for cp1 ep
    unfolding reconcile_machine_def by (intro emits_intros emits_readiness [OF assms])
  have patch: "kcp_call_ok env (PatchKcp cp (cp\<lparr>kcp_Spec := (kcp_Spec cp)\<lparr>kp_ControlPlaneEndpoint := ep\<rparr>\<rparr>))"
    if "infra_endpoint lib infra = Inr (Some ep)" for lib infra ep
    using infra_endpoint_host [OF that] by (auto simp: kcp_call_ok_def)
  show ?thesis
    unfolding reconcile_with_infra_def Let_def
    by (intro emits_intros emits_requeue_not_ready [OF laws] machine) (auto intro: patch)
qed

lemma emits_kcp_Reconcile:
  assumes "condition_laws (ke_lib env)"
  shows "emits (kcp_call_ok env) (kcp_Reconcile env req)"
proof -
  have owner: "ensures (kcp_call_ok env)
      (\<lambda>r. case r of Inr (Some c) \<Rightarrow> \<exists>h m. ke_getOwner env h m = Inr (Some c) | _ \<Rightarrow> True)
      (perform (GetKcpOwner (kcp_meta cp)) (\<lambda>h. ke_getOwner env h (kcp_meta cp)))" for cp
    by (rule ensures_perform) (auto split: sum.split option.split)
  have unresolved: "emits (kcp_call_ok env) (owner_unresolved env cp a b c)" for cp a b c
    unfolding owner_unresolved_def by (intro emits_intros emits_owner_condition [OF assms])
  have resolved: "emits (kcp_call_ok env) (try_bind (reconcileOwnerClusterResolvedCondition env cp a b d e) (\<lambda>cp1.
      or_requeue (perform (LookupCertificates (kp_KubeadmConfigSpec (kcp_Spec cp1)) (key_of (cl_meta c)) (cluster_owner_ref c))
        (\<lambda>h. ke_certificates env h (key_of (cl_meta c)))) (\<lambda>files.
      reconcile_with_infra env cp1 c (cluster_owner_ref c) files)))"
    if ex: "\<exists>h m. ke_getOwner env h m = Inr (Some c)" for cp a b d e c
  proof -
    obtain h m where "ke_getOwner env h m = Inr (Some c)" using ex by blast
    then show ?thesis
      by (intro emits_intros emits_owner_condition [OF assms] emits_with_infra [OF assms]) simp_all
  qed
  have "emits (kcp_call_ok env) (bind_eff (perform (GetKcpOwner (kcp_meta cp)) (\<lambda>h. ke_getOwner env h (kcp_meta cp))) k)"
    if "\<And>r. case r of Inr (Some c) \<Rightarrow> \<exists>h m. ke_getOwner env h m = Inr (Some c) | _ \<Rightarrow> True \<Longrightarrow> emits (kcp_call_ok env) (k r)"
    for cp and k :: "cluster option result \<Rightarrow> ctrl_result result kcp_eff"
    unfolding emits_ensures by (rule ensures_bind [OF owner]) (use that in \<open>simp add: emits_ensures\<close>)
  note after_owner = this
  show ?thesis
    unfolding kcp_Reconcile_def Let_def
    by (intro emits_bind emits_performI emits_case_sum emits_ret after_owner kcp_call_other)
      (auto intro!: unresolved resolved split: sum.split option.split)
qed

text \<open>
  C4. The self-managed control plane reports honestly: whatever the services answer, a status
  write never touches the spec or the metadata, never takes the initialized flag back, sets it
  only if the cluster's connection probe succeeded or one of its control plane machines is
  ready, and makes Ready true only for an initialized control plane; a write of the object
  itself changes nothing but the endpoint, and never to one without a host.
\<close>

theorem kubeadm_reports_honestly:
  assumes "condition_laws (ke_lib env)"
  shows "emits (kcp_call_ok env) (kcp_Reconcile env req)"
  using assms by (rule emits_kcp_Reconcile)

section \<open>The kubeconfig converges\<close>

text \<open>A kubeconfig that was generated for the server, as it is stored.\<close>

definition generated_for :: "kcp_env \<Rightarrow> cluster \<Rightarrow> string \<Rightarrow> string \<Rightarrow> bool" where
  "generated_for env c server kc \<longleftrightarrow>
     (\<exists>h cert key cfg. ke_newKubeconfig env h (om_Name (cl_meta c)) server cert key = Inr cfg \<and>
        ke_clientcmd_Write env cfg = Inr kc)"

definition kubeconfig_loads :: "kcp_env \<Rightarrow> string \<Rightarrow> string \<Rightarrow> bool" where
  "kubeconfig_loads env server kc \<longleftrightarrow>
     kc \<noteq> '''' \<and> (\<exists>cfg. ke_NewClientConfig env kc = Inr cfg \<and> ke_ClientConfig_Host env cfg = Inr server)"

lemma stored_unusable_iff:
  "stored_kubeconfig_unusable env server s \<longleftrightarrow>
     (\<forall>kc. fmlookup (se_Data s) DataKey = Some kc \<longrightarrow> \<not> kubeconfig_loads env server kc)"
  by (auto simp: stored_kubeconfig_unusable_def kubeconfig_loads_def split: option.splits sum.splits)

definition secret_write_ok :: "kcp_env \<Rightarrow> cluster \<Rightarrow> string \<Rightarrow> kcp_call \<Rightarrow> bool" where
  "secret_write_ok env c server w =
     (let good = (\<lambda>s. \<not> stored_kubeconfig_unusable env server s \<and> se_Type s = SecretType \<and>
            om_OwnerReferences (se_meta s) = [cluster_owner_ref c]) in
      case w of
        CreateKcpSecret s \<Rightarrow> good s
      | PatchKcpSecret s s' \<Rightarrow> good s' \<and> key_of (se_meta s') = key_of (se_meta s) \<and>
          (\<not> stored_kubeconfig_unusable env server s \<longrightarrow> se_Data s' = se_Data s) \<and>
          (\<forall>k. k \<noteq> DataKey \<longrightarrow> fmlookup (se_Data s') k = fmlookup (se_Data s) k)
      | _ \<Rightarrow> True)"

lemma ensures_generate:
  "ensures (secret_write_ok env c server) (\<lambda>r. case r of Inl _ \<Rightarrow> True | Inr kc \<Rightarrow> generated_for env c server kc)
     (generate_kubeconfig env c server)"
proof -
  have get: "ensures (secret_write_ok env c server) (\<lambda>_. True)
      (perform (GetKcpSecret k) (\<lambda>h. ke_getSecret env h k))" for k
    by (rule ensures_perform) (simp_all add: secret_write_ok_def Let_def)
  have new: "ensures (secret_write_ok env c server)
      (\<lambda>r. case r of Inl _ \<Rightarrow> True | Inr cfg \<Rightarrow> \<exists>h. ke_newKubeconfig env h (om_Name (cl_meta c)) server cert key = Inr cfg)
      (perform (NewKubeconfig (om_Name (cl_meta c)) server)
        (\<lambda>h. ke_newKubeconfig env h (om_Name (cl_meta c)) server cert key))" for cert key
    by (rule ensures_perform) (auto simp: secret_write_ok_def Let_def split: sum.split)
  have gen: "ke_newKubeconfig env h (om_Name (cl_meta c)) server cert key = Inr cfg \<Longrightarrow>
      ke_clientcmd_Write env cfg = Inr kc \<Longrightarrow> generated_for env c server kc" for h cert key cfg kc
    unfolding generated_for_def by blast
  show ?thesis
    unfolding generate_kubeconfig_def Let_def
    by (rule ensures_try [OF get])
      (auto intro!: ensures_ret ensures_bind [OF new] split: sum.splits option.splits intro: gen)
qed

text \<open>
  C15. The kubeconfig Secret converges: if a kubeconfig generated for a server loads and names
  that server, then every Secret the controller creates or patches holds a usable kubeconfig of
  the cluster's server, with the Secret's type and the cluster as its only owner; usable bytes
  that are already stored are kept, and no other entry of the Secret is touched.
\<close>

theorem kubeconfig_secret_converges:
  fixes env :: kcp_env and ep :: APIEndpoint
  defines "server \<equiv> JoinPath_https (ke_endpoint_String env ep)"
  assumes "\<forall>kc. generated_for env c server kc \<longrightarrow> kubeconfig_loads env server kc"
  shows "emits (secret_write_ok env c server)
    (reconcileClusterKubeconfigSecret env c (cluster_owner_ref c) ep)"
proof -
  have create: "secret_write_ok env c server (CreateKcpSecret
      (s\<lparr>se_meta := (se_meta s)\<lparr>om_OwnerReferences := [cluster_owner_ref c]\<rparr>\<rparr>))"
    if "NewSecret n ns kc = Inr s" "generated_for env c server kc" for n ns kc s
    using that assms(2) by (auto simp: secret_write_ok_def Let_def stored_unusable_iff NewSecret_def
        split: if_splits sum.splits)
  have patch: "secret_write_ok env c server
      (PatchKcpSecret s (update_kubeconfig_secret c (cluster_owner_ref c) out s))"
    if "case out of None \<Rightarrow> \<not> stored_kubeconfig_unusable env server s
        | Some kc \<Rightarrow> stored_kubeconfig_unusable env server s \<and> generated_for env c server kc" for out s
    using that assms(2) by (auto simp: secret_write_ok_def Let_def stored_unusable_iff
        update_kubeconfig_secret_def key_of_def split: option.splits)
  have gen: "emits (secret_write_ok env c server) (try_bind (generate_kubeconfig env c server) k)"
    if "\<And>kc. generated_for env c server kc \<Longrightarrow> emits (secret_write_ok env c server) (k kc)"
    for k :: "string \<Rightarrow> unit result kcp_eff"
    unfolding emits_ensures
    by (rule ensures_try [OF ensures_generate]) (use that in \<open>simp_all add: emits_ensures\<close>)
  show ?thesis
    unfolding reconcileClusterKubeconfigSecret_def Let_def server_def [symmetric]
    by (intro emits_case_sum emits_if emits_ret emits_bind emits_performI gen emits_kcp_write emits_create_unless)
      (auto simp: create patch secret_write_ok_def [of _ _ _ "GetKcpSecret _"])
qed

section \<open>Retries\<close>

text \<open>
  A result without an error that asks for no further run has reported the control plane ready.
\<close>

definition retried :: "apilib \<Rightarrow> ctrl_result result \<Rightarrow> kcp_call list \<Rightarrow> bool" where
  "retried lib r h =
     (case r of
        Inl _ \<Rightarrow> True
      | Inr res \<Rightarrow> requeue_after res = 0 \<longrightarrow>
          (\<exists>b a. PatchKcpStatus b a \<in> set h \<and> kt_ControlPlaneInitialized (kcp_Status b) \<and>
             a = ready_conditions lib b ConditionTrue ''Ready'' ''control plane is ready''))"

lemma retried_simps [simp]:
  "retried lib (Inl e) h" "retried lib (Inr (requeue_in ControlPlaneNotReadyRequeueAfter)) h"
  by (simp_all add: retried_def ControlPlaneNotReadyRequeueAfter_def second_def)

lemma wp_bind_any: "(\<And>a h'. wp (k a) Q h') \<Longrightarrow> wp (bind_eff m k) Q h"
  by (simp add: wp_def [of m] split: prod.split)

lemma wp_try_any:
  "(\<And>e h'. Q (Inl e) h') \<Longrightarrow> (\<And>a h'. wp (k a) Q h') \<Longrightarrow> wp (try_bind m k) Q h"
  unfolding try_bind_def by (rule wp_bind_any) (auto split: sum.split)

lemma wp_or_requeue:
  "(\<And>a h'. wp (k a) (retried lib) h') \<Longrightarrow> wp (or_requeue m k) (retried lib) h"
  unfolding or_requeue_def requeue_soon_def by (rule wp_bind_any) (auto split: sum.split)

lemma wp_not_ready: "wp (requeueNotReady env cp r m) (retried lib) h"
  unfolding requeueNotReady_def by (rule wp_try_any) simp_all

lemma wp_report_ready:
  assumes "kt_ControlPlaneInitialized (kcp_Status cp)"
  shows "wp (try_bind (reconcileReadyConditions env cp ConditionTrue ''Ready'' ''control plane is ready'')
      (\<lambda>_. ret (Inr no_requeue))) (retried (ke_lib env)) h"
  using assms unfolding reconcileReadyConditions_def kcp_patch_status_def
  by (auto simp: retried_def split: sum.split)

lemma wp_readiness: "wp (reconcileReadiness env cp c) (retried (ke_lib env)) h"
proof -
  have finish: "wp (if \<not> kt_ControlPlaneInitialized (kcp_Status cp2)
       then requeueNotReady env cp2 r m
       else try_bind (reconcileReadyConditions env cp2 ConditionTrue ''Ready'' ''control plane is ready'')
         (\<lambda>_. ret (Inr no_requeue))) (retried (ke_lib env)) h'" for cp2 r m h'
    using wp_not_ready wp_report_ready by (simp split: if_split)
  show ?thesis
    unfolding reconcileReadiness_def Let_def
  proof (split if_split, intro conjI impI, goal_cases)
    case 1
    show ?case by (rule wp_not_ready)
  next
    case 2
    show ?case
    proof (rule wp_try_any, goal_cases)
      case (2 cp1 h1)
      show ?case
        by (split if_split, intro conjI impI finish wp_bind_any)
          (auto intro!: wp_not_ready wp_try_any finish simp del: wp_try_bind split: sum.split bool.split)
    qed simp
  qed
qed

lemma wp_with_infra: "wp (reconcile_with_infra env cp c r files) (retried (ke_lib env)) h"
proof -
  have machine: "wp (reconcile_machine env cp1 c r ep files) (retried (ke_lib env)) h'" for cp1 ep h'
    unfolding reconcile_machine_def by (intro wp_or_requeue wp_readiness)
  have some: "wp (try_bind m (\<lambda>cp1. reconcile_machine env cp1 c r ep files)) (retried (ke_lib env)) h'" for m ep h'
    by (rule wp_try_any) (simp_all add: machine)
  show ?thesis
    unfolding reconcile_with_infra_def Let_def
    by (split if_split, intro conjI impI wp_or_requeue) (auto intro!: wp_not_ready some simp del: wp_try_bind split: sum.split option.split)
qed

text \<open>
  C11. The self-managed control plane is looked at again until it is ready: a reconcile of an
  existing control plane that returns no error either asks to be run again or has just written
  the ready conditions of an initialized control plane.
\<close>

theorem kubeadm_is_retried:
  assumes "run_state (kcp_Reconcile env req) [] = (Inr res, t)" "requeue_after res = 0"
    and "ke_getKcp env [] req = Inr cp"
  shows "\<exists>b a. PatchKcpStatus b a \<in> set t \<and> kt_ControlPlaneInitialized (kcp_Status b) \<and>
     a = ready_conditions (ke_lib env) b ConditionTrue ''Ready'' ''control plane is ready''"
proof -
  have unresolved: "wp (owner_unresolved env cp x y z) (retried (ke_lib env)) h" for x y z h
    unfolding owner_unresolved_def by (rule wp_try_any) simp_all
  have resolved: "wp (try_bind m (\<lambda>cp1. or_requeue (m' cp1) (\<lambda>files. reconcile_with_infra env cp1 c r files)))
      (retried (ke_lib env)) h" for m m' c r h
    by (rule wp_try_any) (auto intro!: wp_or_requeue wp_with_infra)
  have "wp (kcp_Reconcile env req) (retried (ke_lib env)) []"
    unfolding kcp_Reconcile_def Let_def wp_bind wp_perform assms(3) sum.case
    by (auto intro!: unresolved resolved simp del: wp_try_bind wp_bind split: sum.split option.split)
  from wp_runD [OF this assms(1)] show ?thesis using assms(2) by (simp add: retried_def)
qed

section \<open>Witnesses\<close>

definition demo_file :: "string \<Rightarrow> bootstrap_file" where
  "demo_file p = \<lparr>bf_Path = p, bf_Owner = ''root'', bf_Permissions = ''0600'', bf_Content = ''x''\<rparr>"

definition demo_infra :: unstructured where
  "demo_infra = (new_unstructured demo_gvk ''ns'' ''infra'')\<lparr>un_Object :=
     fmupd ''spec'' (JObj (fmupd ''controlPlaneEndpoint''
       (JObj (fmupd ''host'' (JStr ''10.0.0.1'') (fmupd ''port'' (JInt 6443) fmempty))) fmempty)) fmempty\<rparr>"

definition demo_kcp_cluster :: cluster where
  "demo_kcp_cluster = demo_cluster\<lparr>cl_InfrastructureRef := \<lparr>cr_APIGroup = ''g'', cr_Kind = ''k'', cr_Name = ''n''\<rparr>\<rparr>"

definition demo_kcp :: Kany8sKubeadmControlPlane where
  "demo_kcp = (new_kubeadm_backend demo_cp)\<lparr>kcp_Spec := (kcp_Spec (new_kubeadm_backend demo_cp))
     \<lparr>kp_Version := ''v1.34.0'', kp_MachineTemplate :=
        \<lparr>mt_InfrastructureRef = \<lparr>cr_APIGroup = ''g'', cr_Kind = ''k'', cr_Name = ''n''\<rparr>\<rparr>\<rparr>\<rparr>"

definition demo_kcp_env :: kcp_env where
  "demo_kcp_env = \<lparr>ke_lib = ref_lib, ke_hasRecorder = True, ke_IsStatusConditionTrue = (\<lambda>_ _. True),
     ke_endpoint_String = (\<lambda>ep. ep_Host ep @ '':6443''),
     ke_secret_Name = (\<lambda>n. n @ ''-ca''), ke_DecodeCertPEM = (\<lambda>s. Inr (Some s)),
     ke_DecodePrivateKeyPEM = (\<lambda>s. Inr (Some s)), ke_NewClientConfig = (\<lambda>s. Inr s),
     ke_ClientConfig_Host = (\<lambda>s. Inr s), ke_clientcmd_Write = (\<lambda>s. Inr s),
     ke_GenerateTemplate = (\<lambda>u _ _ _. Inr u), ke_newKubeconfig = (\<lambda>_ _ server _ _. Inr server),
     ke_getKcp = (\<lambda>_ _. Inr demo_kcp), ke_getOwner = (\<lambda>_ _. Inr (Some demo_kcp_cluster)),
     ke_certificates = (\<lambda>_ _. Inr []), ke_getContract = (\<lambda>_ _ _. Inr demo_infra),
     ke_getSecret = (\<lambda>_ k. Inr \<lparr>se_meta = new_meta ''ns'' ''s'', se_Type = '''', se_Data = fmempty\<rparr>),
     ke_getConfig = (\<lambda>_ _. Inr \<lparr>kg_meta = new_meta ''ns'' ''s'', kg_Spec = zero_kubeadm_config_spec\<rparr>),
     ke_getInfraMachine = (\<lambda>_ _ _. Inr demo_infra), ke_getMachine = (\<lambda>_ _. Inr (new_machine demo_kcp_cluster)),
     ke_listMachines = (\<lambda>_ _ _. Inr []), ke_write = (\<lambda>_ _. Inr ()), ke_patch = (\<lambda>_ _ a. Inr a),
     ke_patchStatus = (\<lambda>_ _ a. Inr a)\<rparr>"

theorem injected_files_win_witness:
  "mergeBootstrapFiles (mergeBootstrapFiles [demo_file ''/a'', demo_file ''/b''] [demo_file ''/a'']) [demo_file ''/a''] =
     mergeBootstrapFiles [demo_file ''/a'', demo_file ''/b''] [demo_file ''/a'']"
proof -
  have "'''' \<notin> bf_Path ` set [demo_file ''/a'']" by (simp add: demo_file_def)
  then show ?thesis using injected_files_win [of "[demo_file ''/a'', demo_file ''/b'']" "[demo_file ''/a'']"] by blast
qed

theorem certificates_reach_the_node_witness:
  "(demo_file ''/etc/kubernetes/pki/ca.crt'')\<lparr>bf_Path := ''/run/kubeadm/pki/ca.crt''\<rparr> \<in>
     set (kb_Files (desired_kubeadm_config demo_kcp_env demo_kcp \<lparr>ep_Host = ''h'', ep_Port = 443\<rparr>
       [demo_file ''/etc/kubernetes/pki/ca.crt'']))"
proof -
  let ?spec = "desired_kubeadm_config demo_kcp_env demo_kcp \<lparr>ep_Host = ''h'', ep_Port = 443\<rparr>
       [demo_file ''/etc/kubernetes/pki/ca.crt'']"
  have dir: "kb_CertificatesDir ?spec = ''/run/kubeadm/pki''" by code_simp
  have "TrimSpace ''/run/kubeadm/pki'' \<noteq> ''''" "trim_right_char (CHR ''/'') ''/run/kubeadm/pki'' = ''/run/kubeadm/pki''"
    by code_simp+
  then show ?thesis
    using certificates_reach_the_node [of "demo_file ''/etc/kubernetes/pki/ca.crt''"
        "[demo_file ''/etc/kubernetes/pki/ca.crt'']" "''ca.crt''" demo_kcp_env demo_kcp "\<lparr>ep_Host = ''h'', ep_Port = 443\<rparr>"]
    by (simp add: dir) (simp add: demo_file_def kubeadmCertificatesDirDefault_def)
qed

theorem infra_endpoint_port_witness:
  "\<exists>ep. infra_endpoint ref_lib (un_Object demo_infra) = Inr (Some ep) \<and> sint (ep_Port ep) = 6443"
  using infra_endpoint_port [of ref_lib "un_Object demo_infra" "''10.0.0.1''" 6443] ref_lib_laws
  by (auto simp: apilib_laws_def demo_infra_def)

theorem kubeadm_reports_honestly_witness: "emits (kcp_call_ok demo_kcp_env) (kcp_Reconcile demo_kcp_env (object_key ''ns'' ''demo''))"
  by (rule kubeadm_reports_honestly) (use demo_condition_laws(1) in \<open>simp add: demo_kcp_env_def demo_env_def\<close>)

theorem kubeconfig_secret_converges_witness:
  "emits (secret_write_ok demo_kcp_env demo_cluster (JoinPath_https ''10.0.0.1:6443''))
     (reconcileClusterKubeconfigSecret demo_kcp_env demo_cluster (cluster_owner_ref demo_cluster)
        \<lparr>ep_Host = ''10.0.0.1'', ep_Port = 6443\<rparr>)"
proof -
  let ?ep = "\<lparr>ep_Host = ''10.0.0.1'', ep_Port = 6443\<rparr>"
  have s: "ke_endpoint_String demo_kcp_env ?ep = ''10.0.0.1:6443''" by code_simp
  have "JoinPath_https ''10.0.0.1:6443'' = ''https://10.0.0.1:6443''" by code_simp
  then show ?thesis
    using kubeconfig_secret_converges [of demo_kcp_env demo_cluster ?ep] unfolding s
    by (simp add: generated_for_def kubeconfig_loads_def demo_kcp_env_def)
qed

theorem kubeadm_is_retried_witness:
  "\<exists>b. kt_ControlPlaneInitialized (kcp_Status b) \<and>
     PatchKcpStatus b (ready_conditions ref_lib b ConditionTrue ''Ready'' ''control plane is ready'') \<in>
       set (snd (run_state (kcp_Reconcile demo_kcp_env (object_key ''ns'' ''demo'')) []))"
proof -
  let ?run = "run_state (kcp_Reconcile demo_kcp_env (object_key ''ns'' ''demo'')) []"
  have "fst ?run = Inr no_requeue" by code_simp
  then have "?run = (Inr no_requeue, snd ?run)" by (simp add: prod_eq_iff)
  from kubeadm_is_retried [OF this, of demo_kcp] show ?thesis by (auto simp: demo_kcp_env_def)
qed

end
