(* ===== verification/AwsModel.thy ===== *)
theory AwsModel
  imports K8sModel
begin

text \<open>
  What the EKS controllers see of the AWS SDK, of the workload cluster's clients and of
  \<open>crypto/x509\<close>: the records of the answers, with the fields the code reads, and the calls.
  A pointer field is an option. The SDK and the services behind it are not part of the
  repository; their answers are fields of the environment of a run.
\<close>

section \<open>EC2\<close>

record ec2_instance =
  ei_InstanceId :: "string option"
  ei_State :: string

record ec2_subnet =
  sn_SubnetId :: "string option"
  sn_VpcId :: "string option"
  sn_AvailabilityZone :: "string option"

record ec2_vpc =
  vp_CidrBlock :: "string option"
  vp_CidrBlockAssociationSet :: "string option list"

record ec2_route =
  rr_DestinationCidrBlock :: "string option"
  rr_DestinationIpv6CidrBlock :: "string option"
  rr_GatewayId :: "string option"
  rr_NatGatewayId :: "string option"
  rr_InstanceId :: "string option"

record rt_association =
  ra_SubnetId :: "string option"
  ra_Main :: "bool option"

record route_table =
  rb_Associations :: "rt_association list"
  rb_Routes :: "ec2_route list"

record ec2_tag =
  tg_Key :: "string option"
  tg_Value :: "string option"

record network_interface =
  ni_NetworkInterfaceId :: "string option"
  ni_Attached :: bool
  ni_Status :: string
  ni_TagSet :: "ec2_tag list"

text \<open>An error of the SDK; the code is there if it is a \<open>smithy.APIError\<close>.\<close>

datatype aws_error = AwsError (ae_Code: "string option") (ae_Error: go_error)

definition derefString :: "string option \<Rightarrow> string" where
  "derefString p = (case p of None \<Rightarrow> '''' | Some s \<Rightarrow> s)"

lemma derefString_simps [simp]: "derefString None = ''''" "derefString (Some s) = s"
  by (simp_all add: derefString_def)

section \<open>Certificates\<close>

record certificate =
  ce_IsCA :: bool
  ce_Subject :: string
  ce_Issuer :: string
  ce_Raw :: string

section \<open>Calls\<close>

text \<open>The answer to a paginated call is the list of its pages, up to the one that failed.\<close>

datatype aws_call =
    AwsLoadConfig string
  | DescribeSubnets string "string list"
  | DescribeVpcs string "string list"
  | DescribeRouteTables string string "string list"
  | DescribeInstances string string
  | TerminateInstances string "string list"
  | DescribeNetworkInterfaces string string
  | DeleteNetworkInterface string string
  | SleepSeconds nat
  | DialTLS string

record gvr =
  gvr_Group :: string
  gvr_Version :: string
  gvr_Resource :: string

text \<open>A workload cluster is addressed by the kubeconfig its client was made from.\<close>

datatype workload_call =
    NewClientset string
  | NewDynamicClient string
  | PatchDeployment string string string string
  | DeleteCollection string gvr

section \<open>Config maps\<close>

record config_map =
  cm_meta :: obj_meta
  cm_Data :: str_map

end
