(* ===== verification/EksCommon.thy ===== *)
theory EksCommon
  imports EksCore EventDedupe Kubeconfig AwsModel
begin

text \<open>
  What the controllers of the EKS plugin share (\<open>internal/controller/plugin/eks\<close>): their
  calls, the constants, the names and the region of a cluster, the mapping of an ACK cluster to
  the Cluster API clusters it stands for, and the managed upsert, the protocol by which a
  controller writes an object it may not own.

  The event cache is shared by all controllers and by their goroutines; whether it lets a report
  through at the time of the call is the answer of the call \<open>ShouldEmit\<close>
  (\<open>EventDedupe\<close> models the cache itself).
\<close>

section \<open>Calls and environment\<close>

datatype eks_call =
    EksGetCluster object_key
  | EksPatchCluster cluster cluster
  | EksListClusters string "string option"
  | EksGet gvk object_key
  | EksCreate unstructured
  | EksUpdate unstructured
  | EksPatch unstructured unstructured
  | EksGetConfigMap object_key
  | EksCreateConfigMap config_map
  | EksUpdateConfigMap config_map
  | EksGetSecret object_key
  | EksCreateSecret secret
  | EksUpdateSecret secret
  | EksGenerateToken string string
  | EksNow
  | ShouldEmit event_args
  | EksEvent object_key string string string
  | RecordReconcileError string
  | RecordTokenGenerationFailure string
  | RecordOwnershipConflict string string
  | RecordSuccessfulSync string time
  | Aws aws_call
  | Workload workload_call
  | ValidateSubnets string "string list"
  | ResolveThumbprints string

text \<open>
  The errors of the thumbprint resolution: \<open>errOIDCThumbprintUnverified\<close> wrapped, or another.
\<close>

datatype thumbprint_error = ThumbprintUnverified string | ThumbprintError go_error

record subnet_validation =
  sv_SubnetsWithoutNATDefaultRoute :: "string list"
  sv_DistinctAZCount :: nat

record eks_env =
  ee_lib :: apilib
  ee_restMapper :: "(gvk \<Rightarrow> bool) option"
  ee_hasRecorder :: bool
  ee_getCluster :: "eks_call list \<Rightarrow> object_key \<Rightarrow> cluster result"
  ee_patchCluster :: "eks_call list \<Rightarrow> cluster \<Rightarrow> cluster \<Rightarrow> cluster result"
  ee_listClusters :: "eks_call list \<Rightarrow> string \<Rightarrow> string option \<Rightarrow> cluster list result"
  ee_get :: "eks_call list \<Rightarrow> gvk \<Rightarrow> object_key \<Rightarrow> unstructured result"
  ee_getSecret :: "eks_call list \<Rightarrow> object_key \<Rightarrow> secret result"
  ee_write :: "eks_call list \<Rightarrow> eks_call \<Rightarrow> unit result"
  ee_generateToken :: "eks_call list \<Rightarrow> string \<Rightarrow> string \<Rightarrow> (string \<times> time) result"
  ee_now :: "eks_call list \<Rightarrow> time"
  ee_shouldEmit :: "eks_call list \<Rightarrow> event_args \<Rightarrow> bool"
  ee_getConfigMap :: "eks_call list \<Rightarrow> object_key \<Rightarrow> config_map result"
  ee_awsConfig :: "eks_call list \<Rightarrow> string \<Rightarrow> unit result"
  ee_subnets :: "eks_call list \<Rightarrow> string \<Rightarrow> string list \<Rightarrow> ec2_subnet list result"
  ee_vpcs :: "eks_call list \<Rightarrow> string \<Rightarrow> string list \<Rightarrow> ec2_vpc list result"
  ee_routeTables :: "eks_call list \<Rightarrow> string \<Rightarrow> string \<Rightarrow> string list \<Rightarrow> route_table list result"
  ee_instancePages :: "eks_call list \<Rightarrow> string \<Rightarrow> string \<Rightarrow> ec2_instance list list result list"
  ee_terminate :: "eks_call list \<Rightarrow> string \<Rightarrow> string list \<Rightarrow> aws_error option"
  ee_networkInterfacePages :: "eks_call list \<Rightarrow> string \<Rightarrow> string \<Rightarrow> network_interface list result list"
  ee_deleteNetworkInterface :: "eks_call list \<Rightarrow> string \<Rightarrow> string \<Rightarrow> aws_error option"
  ee_validateSubnets :: "(eks_call list \<Rightarrow> string \<Rightarrow> string list \<Rightarrow> subnet_validation result) option"
  ee_resolveThumbprints :: "(eks_call list \<Rightarrow> string \<Rightarrow> thumbprint_error + string list) option"
  ee_dialTLS :: "eks_call list \<Rightarrow> string \<Rightarrow> certificate list result"
  ee_ctxError :: "eks_call list \<Rightarrow> go_error option"
  ee_systemCertPool :: "eks_call list \<Rightarrow> unit result"
  ee_verifyChain :: "string \<Rightarrow> certificate list \<Rightarrow> certificate list list result"
  ee_restConfig :: "string \<Rightarrow> unit result"
  ee_newClient :: "eks_call list \<Rightarrow> workload_call \<Rightarrow> unit result"
  ee_workload :: "eks_call list \<Rightarrow> workload_call \<Rightarrow> unit result"

type_synonym 'a eks_eff = "(eks_call, 'a) eff"

definition eks_write :: "eks_env \<Rightarrow> eks_call \<Rightarrow> unit result eks_eff" where
  "eks_write env c = perform c (\<lambda>h. ee_write env h c)"

definition eks_get :: "eks_env \<Rightarrow> gvk \<Rightarrow> object_key \<Rightarrow> unstructured result eks_eff" where
  "eks_get env g k = perform (EksGet g k) (\<lambda>h. ee_get env h g k)"

section \<open>Constants\<close>

definition kany8sControlPlaneKind :: string where "kany8sControlPlaneKind = ''Kany8sControlPlane''"
definition kany8sControlPlaneAPIGroup :: string where
  "kany8sControlPlaneAPIGroup = ''controlplane.cluster.x-k8s.io''"
definition ackClusterNameIndexKey :: string where "ackClusterNameIndexKey = ''eks.kany8s.io/ack-cluster-name''"
definition ackClusterGVK :: gvk where
  "ackClusterGVK = \<lparr>gvk_Group = ''eks.services.k8s.aws'', gvk_Version = ''v1alpha1'', gvk_Kind = ''Cluster''\<rparr>"
definition capiClusterGVK :: gvk where
  "capiClusterGVK = \<lparr>gvk_Group = ''cluster.x-k8s.io'', gvk_Version = ''v1beta2'', gvk_Kind = ''Cluster''\<rparr>"
definition ackIAMRoleGVK :: gvk where
  "ackIAMRoleGVK = \<lparr>gvk_Group = ''iam.services.k8s.aws'', gvk_Version = ''v1alpha1'', gvk_Kind = ''Role''\<rparr>"
definition capiClusterNameLabelKey :: string where
  "capiClusterNameLabelKey = ''cluster.x-k8s.io/cluster-name''"

definition safeFargateProfileBaseName :: "string \<Rightarrow> string" where
  "safeFargateProfileBaseName clusterName =
     (if has_prefix clusterName ''eks-'' then ''aioc-'' @ clusterName else clusterName)"

section \<open>Events\<close>

definition eks_emitEvent :: "string \<Rightarrow> eks_env \<Rightarrow> cluster \<Rightarrow> string \<Rightarrow> string \<Rightarrow> string \<Rightarrow> unit eks_eff" where
  "eks_emitEvent controllerName env c eventType reason message =
     when_eff (ee_hasRecorder env)
       (let a = \<lparr>ea_controller = controllerName, ea_namespace = om_Namespace (cl_meta c),
                 ea_name = om_Name (cl_meta c), ea_type = eventType, ea_reason = reason, ea_message = message\<rparr> in
        bind_eff (perform (ShouldEmit a) (\<lambda>h. ee_shouldEmit env h a)) (\<lambda>yes.
        when_eff yes (emit (EksEvent (key_of (cl_meta c)) eventType reason message))))"

section \<open>Names and region of a cluster\<close>

definition isKany8sControlPlaneRef :: "contract_ref \<Rightarrow> bool" where
  "isKany8sControlPlaneRef ref \<longleftrightarrow>
     TrimSpace (cr_APIGroup ref) = kany8sControlPlaneAPIGroup \<and> TrimSpace (cr_Kind ref) = kany8sControlPlaneKind"

definition defaultEKSClusterName :: "cluster \<Rightarrow> string" where
  "defaultEKSClusterName c =
     (let ref = cl_ControlPlaneRef c; cpName = TrimSpace (cr_Name ref) in
      if isKany8sControlPlaneRef ref \<and> cpName \<noteq> '''' then cpName else om_Name (cl_meta c))"

text \<open>The name in the Cluster API, in EKS, and of the ACK object.\<close>

definition resolveClusterNames :: "cluster \<Rightarrow> string \<times> string \<times> string" where
  "resolveClusterNames c =
     (let capi = om_Name (cl_meta c);
          (eks0, ack0) = (defaultEKSClusterName c, defaultEKSClusterName c);
          v = TrimSpace (str_get (om_Annotations (cl_meta c)) EKSClusterNameAnnotationKey);
          (eks1, ack1) = (if v \<noteq> '''' then (v, v) else (eks0, ack0));
          w = TrimSpace (str_get (om_Annotations (cl_meta c)) ACKClusterNameAnnotationKey)
      in (capi, eks1, if w \<noteq> '''' then w else ack1))"

definition ack_name :: "cluster \<Rightarrow> string" where
  "ack_name c = snd (snd (resolveClusterNames c))"

definition ackClusterNameIndexValues :: "cluster \<Rightarrow> string list" where
  "ackClusterNameIndexValues c = (let n = TrimSpace (ack_name c) in if n = '''' then [] else [n])"

definition readNestedString :: "apilib \<Rightarrow> doc \<Rightarrow> string list \<Rightarrow> string \<times> bool" where
  "readNestedString lib obj path =
     (case lib_NestedString lib obj path of
        Inl _ \<Rightarrow> ('''', False)
      | Inr (v, found) \<Rightarrow>
          if \<not> found then ('''', False)
          else if TrimSpace v = '''' then ('''', False)
          else (TrimSpace v, True))"

definition readACKEndpointAndCA :: "apilib \<Rightarrow> unstructured \<Rightarrow> string \<times> string" where
  "readACKEndpointAndCA lib ack =
     (fst (readNestedString lib (un_Object ack) [''status'', ''endpoint'']),
      fst (readNestedString lib (un_Object ack) [''status'', ''certificateAuthority'', ''data'']))"

definition resolveRegion :: "apilib \<Rightarrow> cluster \<Rightarrow> unstructured option \<Rightarrow> string" where
  "resolveRegion lib c ackCluster =
     (let v = TrimSpace (str_get (om_Annotations (cl_meta c)) RegionAnnotationKey) in
      if v \<noteq> '''' then v
      else (case ackCluster of
        None \<Rightarrow> ''''
      | Some ack \<Rightarrow>
          (case readNestedString lib (un_Object ack) [''status'', ''ackResourceMetadata'', ''region''] of
             (r, True) \<Rightarrow> r
           | (_, False) \<Rightarrow> TrimSpace (str_get (om_Annotations (un_meta ack)) ACKRegionMetadataAnnotationKey))))"

definition isNoMatchError :: "go_error \<Rightarrow> bool" where
  "isNoMatchError e \<longleftrightarrow> str_contains (err_text e) ''no matches for kind'' \<or>
     str_contains (err_text e) ''could not find the requested resource''"

section \<open>From an ACK cluster to the clusters it stands for\<close>

text \<open>The loop over the listed clusters; \<open>seen\<close> is the set of keys already requested.\<close>

fun ack_requests :: "(cluster \<Rightarrow> bool) \<Rightarrow> string \<Rightarrow> object_key list \<Rightarrow> cluster list \<Rightarrow> object_key list" where
  "ack_requests enabled ackName seen [] = []"
| "ack_requests enabled ackName seen (c # cs) =
     (if \<not> enabled c then ack_requests enabled ackName seen cs
      else if ack_name c \<noteq> ackName then ack_requests enabled ackName seen cs
      else let key = key_of (cl_meta c) in
        if key \<in> set seen then ack_requests enabled ackName seen cs
        else key # ack_requests enabled ackName (key # seen) cs)"

definition mapACKClusterToCAPIClusters ::
    "(cluster \<Rightarrow> bool) \<Rightarrow> eks_env \<Rightarrow> obj_meta \<Rightarrow> object_key list eks_eff" where
  "mapACKClusterToCAPIClusters enabled env obj =
     (let ns = om_Namespace obj; ackName = om_Name obj;
          list = (\<lambda>field. perform (EksListClusters ns field) (\<lambda>h. ee_listClusters env h ns field)) in
      if TrimSpace ackName = '''' then ret []
      else bind_eff (list (Some ackName)) (\<lambda>r. case r of
          Inr items \<Rightarrow> ret (ack_requests enabled ackName [] items)
        | Inl _ \<Rightarrow> bind_eff (list None) (\<lambda>r2. ret (case r2 of
              Inl _ \<Rightarrow> []
            | Inr items \<Rightarrow> ack_requests enabled ackName [] items))))"

section \<open>The managed upsert\<close>

record upsert_result =
  ur_Managed :: bool
  ur_Changed :: bool
  ur_TakenOver :: bool

text \<open>
  The protocol of \<open>upsertManagedSecret\<close> and \<open>upsertManagedUnstructured\<close>: create the
  object where there is none; leave an object alone that is managed by somebody else, unless the
  cluster allows the takeover; update only what differs. \<open>mutate\<close> fills in the object and
  its owner, \<open>fresh\<close> is the object with nothing but its name.
\<close>

definition upsert_managed ::
    "'o result eks_eff \<Rightarrow> ('o \<Rightarrow> unit result eks_eff) \<Rightarrow> ('o \<Rightarrow> unit result eks_eff) \<Rightarrow> ('o \<Rightarrow> unit eks_eff) \<Rightarrow>
     ('o \<Rightarrow> bool) \<Rightarrow> bool \<Rightarrow> ('o \<Rightarrow> 'o result) \<Rightarrow> 'o \<Rightarrow> upsert_result result eks_eff" where
  "upsert_managed get create update took managed takeover mutate fresh =
     bind_eff get (\<lambda>got. case got of
       Inl e \<Rightarrow>
         if \<not> is_not_found e then ret (Inl e)
         else (case mutate fresh of
             Inl e' \<Rightarrow> ret (Inl e')
           | Inr obj \<Rightarrow> try_bind (create obj) (\<lambda>_.
               ret (Inr \<lparr>ur_Managed = True, ur_Changed = True, ur_TakenOver = False\<rparr>)))
     | Inr existing \<Rightarrow>
         if \<not> managed existing \<and> \<not> takeover
         then ret (Inr \<lparr>ur_Managed = False, ur_Changed = False, ur_TakenOver = False\<rparr>)
         else (case mutate existing of
             Inl e' \<Rightarrow> ret (Inl e')
           | Inr obj \<Rightarrow>
               let done = (\<lambda>changed. bind_eff (when_eff (\<not> managed existing) (took obj)) (\<lambda>_.
                     ret (Inr \<lparr>ur_Managed = True, ur_Changed = changed,
                       ur_TakenOver = (\<not> managed existing)\<rparr>))) in
               if obj = existing then done False
               else try_bind (update obj) (\<lambda>_. done True)))"

text \<open>
  What the protocol relies on: filling in an object makes it managed, and filling it in again
  changes nothing.
\<close>

locale managed_object =
  fixes managed :: "'o \<Rightarrow> bool"
    and mutate :: "'o \<Rightarrow> 'o result"
  assumes mutate_marks: "mutate x = Inr y \<Longrightarrow> managed y"
    and mutate_settles: "mutate x = Inr y \<Longrightarrow> mutate y = Inr y"
begin

text \<open>An object of somebody else is not touched without the takeover.\<close>

lemma foreign_untouched:
  assumes "\<not> managed existing" "\<not> takeover" "run_state get h = (Inr existing, h')"
  shows "run_state (upsert_managed get create update took managed takeover mutate fresh) h =
    (Inr \<lparr>ur_Managed = False, ur_Changed = False, ur_TakenOver = False\<rparr>, h')"
  using assms by (simp add: upsert_managed_def)

text \<open>Over the object it stored the upsert is silent.\<close>

lemma settled_silent:
  assumes "mutate x = Inr stored" "run_state get h = (Inr stored, h')"
  shows "run_state (upsert_managed get create update took managed takeover mutate fresh) h =
    (Inr \<lparr>ur_Managed = True, ur_Changed = False, ur_TakenOver = False\<rparr>, h')"
  using assms mutate_marks [OF assms(1)] mutate_settles [OF assms(1)] by (simp add: upsert_managed_def)

text \<open>What it stores is what the callback made, of nothing or of an object it may write.\<close>

lemma stores_mutated:
  assumes get: "ensures Q (\<lambda>r. case r of Inl _ \<Rightarrow> True | Inr x \<Rightarrow> R x) get"
    and create: "\<And>y. mutate fresh = Inr y \<Longrightarrow> emits Q (create y)"
    and update: "\<And>x y. R x \<Longrightarrow> mutate x = Inr y \<Longrightarrow> managed x \<or> takeover \<Longrightarrow> x \<noteq> y \<Longrightarrow> emits Q (update y)"
    and took: "\<And>y. emits Q (took y)"
  shows "emits Q (upsert_managed get create update took managed takeover mutate fresh)"
proof -
  have "ensures Q (\<lambda>_. True) (upsert_managed get create update took managed takeover mutate fresh)"
    unfolding upsert_managed_def
  proof (rule ensures_bind [OF get], goal_cases)
    case (1 r)
    show ?case
      unfolding emits_ensures [symmetric] Let_def
      by (intro emits_case_sum emits_if emits_try emits_bind emits_when emits_ret create took)
        (use 1 in \<open>auto intro!: update\<close>)
  qed
  then show ?thesis by (simp add: emits_ensures)
qed

end

section \<open>Facts\<close>

lemma ack_requests_char:
  "distinct (ack_requests enabled ackName seen cs) \<and>
   set (ack_requests enabled ackName seen cs) =
     {key_of (cl_meta c) |c. c \<in> set cs \<and> enabled c \<and> ack_name c = ackName} - set seen"
proof (induction cs arbitrary: seen)
  case Nil
  then show ?case by simp
next
  case (Cons c cs)
  show ?case
  proof (cases "enabled c \<and> ack_name c = ackName \<and> key_of (cl_meta c) \<notin> set seen")
    case True
    then show ?thesis using Cons.IH [of "key_of (cl_meta c) # seen"] by (auto simp: Let_def)
  next
    case False
    have same: "ack_requests enabled ackName seen (c # cs) = ack_requests enabled ackName seen cs"
      using False by (auto simp: Let_def)
    show ?thesis
      unfolding same using Cons.IH [of seen] False by auto
  qed
qed

text \<open>
  C23. The event of an ACK cluster reaches every cluster it stands for: when a list of the
  namespace's clusters answers, the requests are exactly the keys of the enabled clusters in it
  that name the ACK object, each once; and the index under which clusters are looked up has an
  entry for each of them, so that the lookup by index misses none.
\<close>

theorem ack_mapping_complete:
  fixes enabled :: "cluster \<Rightarrow> bool" and env :: eks_env and obj :: obj_meta
  assumes "TrimSpace (om_Name obj) = om_Name obj" "om_Name obj \<noteq> ''''"
    and "ee_listClusters env h (om_Namespace obj) (Some (om_Name obj)) = Inr items"
  defines "reqs \<equiv> fst (run_state (mapACKClusterToCAPIClusters enabled env obj) h)"
  shows "distinct reqs \<and>
    set reqs = {key_of (cl_meta c) |c. c \<in> set items \<and> enabled c \<and> ack_name c = om_Name obj} \<and>
    (\<forall>c. ack_name c = om_Name obj \<longrightarrow> ackClusterNameIndexValues c = [om_Name obj])"
  using assms(1-3) ack_requests_char [of enabled "om_Name obj" "[]" items]
  by (simp add: reqs_def mapACKClusterToCAPIClusters_def ackClusterNameIndexValues_def Let_def)

section \<open>RFC 3339\<close>

text \<open>
  \<open>t.UTC().Format(time.RFC3339)\<close>; a time is the number of nanoseconds since the first of
  January of the year 1. The civil date is read off the number of days in cycles of 400, 100, 4
  and 1 years.
\<close>

definition is_leap :: "int \<Rightarrow> bool" where
  "is_leap y \<longleftrightarrow> y mod 4 = 0 \<and> (y mod 100 \<noteq> 0 \<or> y mod 400 = 0)"

definition month_lengths :: "int \<Rightarrow> int list" where
  "month_lengths y = [31, if is_leap y then 29 else 28, 31, 30, 31, 30, 31, 31, 30, 31, 30, 31]"

fun month_day :: "int list \<Rightarrow> int \<Rightarrow> int \<Rightarrow> int \<times> int" where
  "month_day [] m d = (m, d + 1)"
| "month_day (l # ls) m d = (if d < l \<or> ls = [] then (m, d + 1) else month_day ls (m + 1) (d - l))"

definition civil_date :: "int \<Rightarrow> int \<times> int \<times> int" where
  "civil_date days =
     (let n400 = days div 146097; r400 = days mod 146097;
          n100 = min 3 (r400 div 36524); r100 = r400 - 36524 * n100;
          n4 = r100 div 1461; r4 = r100 mod 1461;
          n1 = min 3 (r4 div 365); doy = r4 - 365 * n1;
          year = 400 * n400 + 100 * n100 + 4 * n4 + n1 + 1;
          (month, day) = month_day (month_lengths year) 1 doy
      in (year, month, day))"

definition pad :: "nat \<Rightarrow> int \<Rightarrow> string" where
  "pad w i = (let s = show_int i in replicate (w - length s) (CHR ''0'') @ s)"

definition format_rfc3339 :: "time \<Rightarrow> string" where
  "format_rfc3339 t =
     (let secs = t div second; days = secs div 86400; s = secs mod 86400;
          (y, mo, d) = civil_date days
      in pad 4 y @ ''-'' @ pad 2 mo @ ''-'' @ pad 2 d @ ''T'' @ pad 2 (s div 3600) @ '':'' @
         pad 2 (s mod 3600 div 60) @ '':'' @ pad 2 (s mod 60) @ ''Z'')"

section \<open>Witnesses\<close>

definition demo_eks_cluster :: cluster where
  "demo_eks_cluster = \<lparr>cl_meta = (new_meta ''ns'' ''demo'')\<lparr>om_UID := ''uid-1''\<rparr>,
     cl_InfrastructureRef = \<lparr>cr_APIGroup = '''', cr_Kind = '''', cr_Name = ''''\<rparr>,
     cl_ControlPlaneRef = \<lparr>cr_APIGroup = '''', cr_Kind = '''', cr_Name = ''''\<rparr>, cl_Conditions = [], cl_Topology = None\<rparr>"

definition demo_eks_env :: eks_env where
  "demo_eks_env = \<lparr>ee_lib = ref_lib, ee_restMapper = None, ee_hasRecorder = True,
     ee_getCluster = (\<lambda>_ _. Inr demo_eks_cluster), ee_patchCluster = (\<lambda>_ _ a. Inr a),
     ee_listClusters = (\<lambda>_ _ _. Inr [demo_eks_cluster]),
     ee_get = (\<lambda>_ g k. Inr (new_unstructured g ''ns'' ''demo'')),
     ee_getSecret = (\<lambda>_ k. Inl (GoError NotFound ''not found'')),
     ee_write = (\<lambda>_ _. Inr ()), ee_generateToken = (\<lambda>_ _ _. Inr (''token'', 1000)),
     ee_now = (\<lambda>_. 1), ee_shouldEmit = (\<lambda>_ _. True),
     ee_getConfigMap = (\<lambda>_ k. Inl (GoError NotFound ''not found'')),
     ee_awsConfig = (\<lambda>_ _. Inr ()), ee_subnets = (\<lambda>_ _ _. Inr []), ee_vpcs = (\<lambda>_ _ _. Inr []),
     ee_routeTables = (\<lambda>_ _ _ _. Inr []), ee_instancePages = (\<lambda>_ _ _. []), ee_terminate = (\<lambda>_ _ _. None),
     ee_networkInterfacePages = (\<lambda>_ _ _. []), ee_deleteNetworkInterface = (\<lambda>_ _ _. None),
     ee_validateSubnets = None, ee_resolveThumbprints = None, ee_dialTLS = (\<lambda>_ _. Inr []),
     ee_ctxError = (\<lambda>_. None), ee_systemCertPool = (\<lambda>_. Inr ()), ee_verifyChain = (\<lambda>_ cs. Inr [cs]),
     ee_restConfig = (\<lambda>_. Inr ()), ee_newClient = (\<lambda>_ _. Inr ()), ee_workload = (\<lambda>_ _. Inr ())\<rparr>"

theorem ack_mapping_complete_witness:
  "set (fst (run_state (mapACKClusterToCAPIClusters (\<lambda>_. True) demo_eks_env (new_meta ''ns'' ''demo'')) [])) =
     {object_key ''ns'' ''demo''}"
proof -
  have "TrimSpace (om_Name (new_meta ''ns'' ''demo'')) = om_Name (new_meta ''ns'' ''demo'')"
    "ack_name demo_eks_cluster = om_Name (new_meta ''ns'' ''demo'')"
    by code_simp+
  moreover have "key_of (cl_meta demo_eks_cluster) = object_key ''ns'' ''demo''"
    by (simp add: demo_eks_cluster_def key_of_def new_meta_def)
  ultimately show ?thesis
    using ack_mapping_complete [of "new_meta ''ns'' ''demo''" demo_eks_env "[]" "[demo_eks_cluster]" "\<lambda>_. True"]
    by (simp add: demo_eks_env_def new_meta_def)
qed

end
