(* ===== verification/Rotator.thy ===== *)
theory Rotator
  imports EksCommon
begin

text \<open>
  \<open>internal/controller/plugin/eks/rotator_controller.go\<close>: the kubeconfig rotator. For an
  EKS cluster it keeps two Secrets: the Cluster API kubeconfig with a short-lived token, which it
  refreshes before the token expires, and a kubeconfig that runs the AWS command line tool.
\<close>

section \<open>The reconciler\<close>

record rotator =
  rt_hasTokenGenerator :: bool
  rt_Policy :: RequeuePolicy

definition metricControllerRotator :: string where "metricControllerRotator = ''eks-kubeconfig-rotator''"

definition rotator_policy :: "rotator \<Rightarrow> RequeuePolicy" where
  "rotator_policy r = WithDefaults (rt_Policy r)"

definition rotator_now :: "eks_env \<Rightarrow> time eks_eff" where
  "rotator_now env = perform EksNow (\<lambda>h. ee_now env h)"

definition rotator_isAPIAvailable :: "eks_env \<Rightarrow> gvk \<Rightarrow> bool" where
  "rotator_isAPIAvailable env g = (case ee_restMapper env of None \<Rightarrow> True | Some known \<Rightarrow> known g)"

definition rotator_event :: "eks_env \<Rightarrow> cluster \<Rightarrow> string \<Rightarrow> string \<Rightarrow> string \<Rightarrow> unit eks_eff" where
  "rotator_event = eks_emitEvent ''eks-kubeconfig-rotator''"

definition isRotatorEnabled :: "cluster \<Rightarrow> bool" where
  "isRotatorEnabled c \<longleftrightarrow>
     om_Annotations (cl_meta c) \<noteq> fmempty \<and>
     EqualFold (TrimSpace (str_get (om_Annotations (cl_meta c)) EnableAnnotationKey)) EnableAnnotationValue"

definition isManagedByRotator :: "str_map \<Rightarrow> bool" where
  "isManagedByRotator annotations \<longleftrightarrow>
     annotations \<noteq> fmempty \<and> TrimSpace (str_get annotations ManagedByAnnotationKey) = ManagedByAnnotationValue"

section \<open>The managed Secret\<close>

definition mutateManagedSecret :: "cluster \<Rightarrow> string \<Rightarrow> str_map \<Rightarrow> secret \<Rightarrow> secret" where
  "mutateManagedSecret owner kubeconfigBytes extraAnnotations s =
     \<lparr>se_meta = (se_meta s)
        \<lparr>om_Labels := fmupd ClusterNameLabelKey (om_Name (cl_meta owner)) (om_Labels (se_meta s)),
         om_Annotations := maps_copy (fmupd ManagedByAnnotationKey ManagedByAnnotationValue
           (om_Annotations (se_meta s))) extraAnnotations\<rparr>,
      se_Type = SecretType,
      se_Data = fmupd DataKey kubeconfigBytes (se_Data s)\<rparr>"

text \<open>Filled in and owned.\<close>

definition own_secret :: "apilib \<Rightarrow> cluster \<Rightarrow> string \<Rightarrow> str_map \<Rightarrow> secret \<Rightarrow> secret result" where
  "own_secret lib owner kc extra s =
     (let s' = mutateManagedSecret owner kc extra s in
      map_sum id (\<lambda>m. s'\<lparr>se_meta := m\<rparr>) (lib_SetOwnerReference lib capiClusterGVK (cl_meta owner) (se_meta s')))"

definition upsertManagedSecret ::
    "eks_env \<Rightarrow> cluster \<Rightarrow> string \<Rightarrow> string \<Rightarrow> str_map \<Rightarrow> upsert_result result eks_eff" where
  "upsertManagedSecret env owner secretName kc extra =
     (let key = object_key (om_Namespace (cl_meta owner)) secretName in
      upsert_managed
        (perform (EksGetSecret key) (\<lambda>h. ee_getSecret env h key))
        (\<lambda>s. eks_write env (EksCreateSecret s)) (\<lambda>s. eks_write env (EksUpdateSecret s)) (\<lambda>_. ret ())
        (\<lambda>s. isManagedByRotator (om_Annotations (se_meta s)))
        (IsUnmanagedTakeoverEnabled (om_Annotations (cl_meta owner)))
        (own_secret (ee_lib env) owner kc extra)
        \<lparr>se_meta = new_meta (om_Namespace (cl_meta owner)) secretName, se_Type = '''', se_Data = fmempty\<rparr>)"

section \<open>Reconcile\<close>

definition ack_api_missing :: string where
  "ack_api_missing = ''ACK EKS API (eks.services.k8s.aws/v1alpha1 Cluster) is not available; cause: required CRD/controller is missing. action: install ACK EKS controller and Cluster CRD''"

definition probe_annotations :: "time \<Rightarrow> string \<Rightarrow> string \<Rightarrow> str_map" where
  "probe_annotations expiration region eksClusterName =
     fmupd EKSClusterNameAnnotationKey eksClusterName (fmupd RegionAnnotationKey region
       (fmupd TokenExpirationAnnotationKey (format_rfc3339 expiration) fmempty))"

definition exec_annotations :: "string \<Rightarrow> string \<Rightarrow> str_map" where
  "exec_annotations region eksClusterName =
     fmupd EKSClusterNameAnnotationKey eksClusterName (fmupd RegionAnnotationKey region fmempty)"

text \<open>An event, then a look in a while.\<close>

definition rotator_backoff ::
    "rotator \<Rightarrow> eks_env \<Rightarrow> cluster \<Rightarrow> string \<Rightarrow> string \<Rightarrow> string \<Rightarrow> ctrl_result result eks_eff" where
  "rotator_backoff r env c eventType reason msg =
     bind_eff (rotator_event env c eventType reason msg) (\<lambda>_.
       ret (Inr (requeue_in (rp_FailureBackoff (rotator_policy r)))))"

definition ownership_message :: "cluster \<Rightarrow> string \<Rightarrow> string" where
  "ownership_message c name = ''secret '' @ om_Namespace (cl_meta c) @ ''/'' @ name @
     '' exists and is not managed by '' @ ManagedByAnnotationValue"

definition takeover_message :: "cluster \<Rightarrow> string \<Rightarrow> string" where
  "takeover_message c name = ''took over unmanaged secret '' @ om_Namespace (cl_meta c) @ ''/'' @ name @
     '' because '' @ quote AllowUnmanagedTakeoverAnnotationKey @ '' is enabled''"

text \<open>The second Secret and what is reported at the end.\<close>

definition sync_exec_secret ::
    "rotator \<Rightarrow> eks_env \<Rightarrow> cluster \<Rightarrow> string \<Rightarrow> string \<Rightarrow> str_map \<Rightarrow> bool \<Rightarrow> time \<Rightarrow> ctrl_result result eks_eff" where
  "sync_exec_secret r env c execName execKubeconfig extra probeChanged expiration =
     try_bind (upsertManagedSecret env c execName execKubeconfig extra) (\<lambda>execResult.
     bind_eff (when_eff (\<not> ur_Managed execResult)
       (bind_eff (rotator_event env c EventTypeWarning ''SecretOwnershipConflict'' (ownership_message c execName)) (\<lambda>_.
        emit (RecordOwnershipConflict metricControllerRotator ''Secret'')))) (\<lambda>_.
     bind_eff (when_eff (ur_TakenOver execResult)
       (rotator_event env c EventTypeNormal ''SecretTakeoverApplied'' (takeover_message c execName))) (\<lambda>_.
     bind_eff (when_eff (probeChanged \<or> ur_Changed execResult)
       (rotator_event env c EventTypeNormal ''SecretSynced'' ''kubeconfig secrets reconciled'')) (\<lambda>_.
     bind_eff (rotator_now env) (\<lambda>now.
     bind_eff (rotator_now env) (\<lambda>now2.
     bind_eff (emit (RecordSuccessfulSync metricControllerRotator now2)) (\<lambda>_.
       ret (Inr (requeue_in (ComputeNextRequeue now expiration (rotator_policy r)))))))))))"

definition sync_secrets ::
    "rotator \<Rightarrow> eks_env \<Rightarrow> cluster \<Rightarrow> string \<Rightarrow> string \<Rightarrow> string \<Rightarrow> string \<Rightarrow> string \<Rightarrow> time \<Rightarrow> ctrl_result result eks_eff" where
  "sync_secrets r env c eksName region probeKubeconfig execKubeconfig probeName expiration =
     try_bind (upsertManagedSecret env c probeName probeKubeconfig (probe_annotations expiration region eksName)) (\<lambda>probe.
     if \<not> ur_Managed probe then
       bind_eff (rotator_event env c EventTypeWarning ''SecretOwnershipConflict'' (ownership_message c probeName)) (\<lambda>_.
       bind_eff (emit (RecordOwnershipConflict metricControllerRotator ''Secret'')) (\<lambda>_.
         ret (Inr (requeue_in (rp_MaxRefresh (rotator_policy r))))))
     else
       bind_eff (when_eff (ur_TakenOver probe)
         (rotator_event env c EventTypeNormal ''SecretTakeoverApplied'' (takeover_message c probeName))) (\<lambda>_.
       sync_exec_secret r env c (probeName @ ''-exec'') execKubeconfig (exec_annotations region eksName)
         (ur_Changed probe) expiration))"

text \<open>From the ACK cluster to a token and two kubeconfigs; \<open>write\<close> is \<open>clientcmd.Write\<close>.\<close>

definition rotate ::
    "(kube_config \<Rightarrow> string result) \<Rightarrow> rotator \<Rightarrow> eks_env \<Rightarrow> cluster \<Rightarrow> unstructured \<Rightarrow> ctrl_result result eks_eff" where
  "rotate write r env c ack =
     (let (capiName, eksName, ackName) = resolveClusterNames c;
          (endpoint, caData) = readACKEndpointAndCA (ee_lib env) ack;
          region = resolveRegion (ee_lib env) c (Some ack) in
      if endpoint = '''' \<or> caData = '''' then rotator_backoff r env c EventTypeNormal ''ACKClusterNotReady''
        (''waiting for ACK status fields endpoint/CA on '' @ om_Namespace (cl_meta c) @ ''/'' @ ackName)
      else if region = '''' then rotator_backoff r env c EventTypeWarning ''RegionNotResolved''
        (''failed to resolve region (checked '' @ quote RegionAnnotationKey @
         '' annotation, ACK status.ackResourceMetadata.region, ACK metadata.annotations['' @
         quote ACKRegionMetadataAnnotationKey @ ''])'')
      else if \<not> rt_hasTokenGenerator r then ret (Inl (errorf ''token generator is not configured''))
      else bind_eff (perform (EksGenerateToken region eksName) (\<lambda>h. ee_generateToken env h region eksName)) (\<lambda>tok. case tok of
          Inl e \<Rightarrow>
            bind_eff (rotator_event env c EventTypeWarning ''TokenGenerationFailed''
              (''failed to generate EKS token: '' @ err_text e)) (\<lambda>_.
            bind_eff (emit (RecordTokenGenerationFailure metricControllerRotator)) (\<lambda>_.
              ret (Inr (requeue_in (rp_FailureBackoff (rotator_policy r))))))
        | Inr (token, expiration) \<Rightarrow>
            (case BuildTokenKubeconfig write capiName endpoint caData token of
               Inl e \<Rightarrow> ret (Inl e)
             | Inr probeKubeconfig \<Rightarrow>
            (case BuildExecKubeconfig write capiName eksName region endpoint caData of
               Inl e \<Rightarrow> ret (Inl e)
             | Inr execKubeconfig \<Rightarrow>
            (case SecretName capiName of
               Inl e \<Rightarrow> ret (Inl e)
             | Inr probeName \<Rightarrow>
                 sync_secrets r env c eksName region probeKubeconfig execKubeconfig probeName expiration)))))"

definition rotator_body ::
    "(kube_config \<Rightarrow> string result) \<Rightarrow> rotator \<Rightarrow> eks_env \<Rightarrow> object_key \<Rightarrow> ctrl_result result eks_eff" where
  "rotator_body write r env req =
     bind_eff (perform (EksGetCluster req) (\<lambda>h. ee_getCluster env h req)) (\<lambda>got. case got of
       Inl e \<Rightarrow> ret (map_sum id (\<lambda>_. no_requeue) (ignore_not_found e))
     | Inr c \<Rightarrow>
         if \<not> isRotatorEnabled c then ret (Inr no_requeue)
         else if om_DeletionTimestamp (cl_meta c) \<noteq> None then ret (Inr no_requeue)
         else if \<not> rotator_isAPIAvailable env ackClusterGVK
           then rotator_backoff r env c EventTypeWarning ''PrerequisiteAPIMissing'' ack_api_missing
         else let ns = om_Namespace (cl_meta c) in
           bind_eff (eks_get env ackClusterGVK (object_key ns (ack_name c))) (\<lambda>ack. case ack of
             Inl e \<Rightarrow>
               if is_not_found e then rotator_backoff r env c EventTypeNormal ''ACKClusterNotFound''
                 (''waiting for ACK EKS Cluster '' @ ns @ ''/'' @ ack_name c)
               else if isNoMatchError e
                 then rotator_backoff r env c EventTypeWarning ''PrerequisiteAPIMissing'' ack_api_missing
               else ret (Inl e)
           | Inr u \<Rightarrow> rotate write r env c u))"

text \<open>The deferred count of failed reconciles.\<close>

definition rotator_Reconcile ::
    "(kube_config \<Rightarrow> string result) \<Rightarrow> rotator \<Rightarrow> eks_env \<Rightarrow> object_key \<Rightarrow> ctrl_result result eks_eff" where
  "rotator_Reconcile write r env req =
     bind_eff (rotator_body write r env req) (\<lambda>res.
     bind_eff (when_eff (isl res) (emit (RecordReconcileError metricControllerRotator))) (\<lambda>_. ret res))"

section \<open>The Secret as a managed object\<close>

lemma SetOwnerReference_laws:
  assumes "owner_laws lib" "lib_SetOwnerReference lib g ow m = Inr m'"
  shows "\<exists>rs. m' = m\<lparr>om_OwnerReferences := rs\<rparr>" "lib_SetOwnerReference lib g ow m' = Inr m'"
  using assms unfolding owner_laws_def by blast+

lemma own_secret_fields:
  assumes "owner_laws lib" "own_secret lib c kc extra s = Inr t"
  obtains rs where "t = (mutateManagedSecret c kc extra s)\<lparr>se_meta :=
      (se_meta (mutateManagedSecret c kc extra s))\<lparr>om_OwnerReferences := rs\<rparr>\<rparr>"
    and "lib_SetOwnerReference lib capiClusterGVK (cl_meta c) (se_meta t) = Inr (se_meta t)"
proof -
  let ?s = "mutateManagedSecret c kc extra s"
  obtain m where m: "lib_SetOwnerReference lib capiClusterGVK (cl_meta c) (se_meta ?s) = Inr m"
    and t: "t = ?s\<lparr>se_meta := m\<rparr>"
    using assms(2) by (cases "lib_SetOwnerReference lib capiClusterGVK (cl_meta c) (se_meta ?s)")
      (auto simp: own_secret_def Let_def)
  obtain rs where "m = (se_meta ?s)\<lparr>om_OwnerReferences := rs\<rparr>"
    using SetOwnerReference_laws(1) [OF assms(1) m] by blast
  then show thesis
    using that [of rs] SetOwnerReference_laws(2) [OF assms(1) m] t by simp
qed

lemma mutate_again:
  "mutateManagedSecret c kc extra ((mutateManagedSecret c kc extra s)\<lparr>se_meta :=
      (se_meta (mutateManagedSecret c kc extra s))\<lparr>om_OwnerReferences := rs\<rparr>\<rparr>) =
   (mutateManagedSecret c kc extra s)\<lparr>se_meta :=
      (se_meta (mutateManagedSecret c kc extra s))\<lparr>om_OwnerReferences := rs\<rparr>\<rparr>"
proof -
  have "maps_copy (fmupd k v (maps_copy (fmupd k v m) extra)) extra = maps_copy (fmupd k v m) extra" for k v and m :: str_map
    by (rule fmap_ext) (simp split: option.splits)
  moreover have "fmupd k v (fmupd k v m) = fmupd k v m" for k :: string and v :: string and m
    by (rule fmap_ext) simp
  ultimately show ?thesis by (simp add: mutateManagedSecret_def)
qed

lemma managed_value_trimmed: "TrimSpace ManagedByAnnotationValue = ManagedByAnnotationValue"
  unfolding ManagedByAnnotationValue_def by code_simp

lemma own_secret_managed:
  assumes laws: "owner_laws lib" and extra: "fmlookup extra ManagedByAnnotationKey = None"
  shows "managed_object (\<lambda>s. isManagedByRotator (om_Annotations (se_meta s))) (own_secret lib c kc extra)"
proof
  fix s t assume t: "own_secret lib c kc extra s = Inr t"
  obtain rs where rs: "t = (mutateManagedSecret c kc extra s)\<lparr>se_meta :=
      (se_meta (mutateManagedSecret c kc extra s))\<lparr>om_OwnerReferences := rs\<rparr>\<rparr>"
    "lib_SetOwnerReference lib capiClusterGVK (cl_meta c) (se_meta t) = Inr (se_meta t)"
    by (rule own_secret_fields [OF laws t])
  have look: "fmlookup (om_Annotations (se_meta t)) ManagedByAnnotationKey = Some ManagedByAnnotationValue"
    using extra by (simp add: rs mutateManagedSecret_def)
  then have "om_Annotations (se_meta t) \<noteq> fmempty" by auto
  then show "isManagedByRotator (om_Annotations (se_meta t))"
    using look managed_value_trimmed by (simp add: isManagedByRotator_def str_get_def)
  have "mutateManagedSecret c kc extra t = t" by (simp add: rs(1) mutate_again)
  then show "own_secret lib c kc extra t = Inr t" using rs(2) by (simp add: own_secret_def)
qed

lemma rotator_annotations_clear:
  "fmlookup (probe_annotations expiration region eksName) ManagedByAnnotationKey = None"
  "fmlookup (exec_annotations region eksName) ManagedByAnnotationKey = None"
  by (simp_all add: probe_annotations_def exec_annotations_def annotation_keys)

interpretation probe_secret: managed_object "\<lambda>s. isManagedByRotator (om_Annotations (se_meta s))"
    "own_secret ref_lib c kc (probe_annotations expiration region eksName)" for c kc expiration region eksName
  by (rule own_secret_managed [OF _ rotator_annotations_clear(1)]) (use ref_lib_laws in \<open>simp add: apilib_laws_def\<close>)

interpretation exec_secret: managed_object "\<lambda>s. isManagedByRotator (om_Annotations (se_meta s))"
    "own_secret ref_lib c kc (exec_annotations region eksName)" for c kc region eksName
  by (rule own_secret_managed [OF _ rotator_annotations_clear(2)]) (use ref_lib_laws in \<open>simp add: apilib_laws_def\<close>)

section \<open>Properties\<close>

text \<open>
  What the rotator may write: only Secrets; a new one in the cluster's namespace; an existing
  one only if it carries the rotator's mark or the cluster allows the takeover, and then only
  its label, its annotations, its owner, its type and its kubeconfig.
\<close>

definition rotator_call_ok :: "eks_env \<Rightarrow> cluster \<Rightarrow> eks_call \<Rightarrow> bool" where
  "rotator_call_ok env c w =
     (let mine = (\<lambda>s. isManagedByRotator (om_Annotations (se_meta s)) \<and> se_Type s = SecretType \<and>
            fmlookup (om_Labels (se_meta s)) ClusterNameLabelKey = Some (om_Name (cl_meta c)) \<and>
            fmlookup (se_Data s) DataKey \<noteq> None) in
      case w of
        EksCreateSecret s \<Rightarrow> mine s \<and> om_Namespace (se_meta s) = om_Namespace (cl_meta c)
      | EksUpdateSecret s \<Rightarrow> mine s \<and>
          (\<exists>h name old. ee_getSecret env h (object_key (om_Namespace (cl_meta c)) name) = Inr old \<and>
             (isManagedByRotator (om_Annotations (se_meta old)) \<or>
              IsUnmanagedTakeoverEnabled (om_Annotations (cl_meta c))) \<and>
             key_of (se_meta s) = key_of (se_meta old) \<and>
             (\<forall>k. k \<noteq> DataKey \<longrightarrow> fmlookup (se_Data s) k = fmlookup (se_Data old) k))
      | EksCreate _ \<Rightarrow> False | EksUpdate _ \<Rightarrow> False | EksPatchCluster _ _ \<Rightarrow> False
      | EksPatch _ _ \<Rightarrow> False | EksCreateConfigMap _ \<Rightarrow> False | EksUpdateConfigMap _ \<Rightarrow> False
      | Aws _ \<Rightarrow> False | Workload _ \<Rightarrow> False
      | _ \<Rightarrow> True)"

lemma rotator_call_other [simp]:
  "rotator_call_ok env c (EksGetSecret k)" "rotator_call_ok env c (ShouldEmit a)"
  "rotator_call_ok env c (EksEvent k x y z)" "rotator_call_ok env c EksNow"
  "rotator_call_ok env c (EksGenerateToken x y)" "rotator_call_ok env c (RecordTokenGenerationFailure x)"
  "rotator_call_ok env c (RecordOwnershipConflict x y)" "rotator_call_ok env c (RecordSuccessfulSync x n)"
  by (simp_all add: rotator_call_ok_def Let_def)

lemma own_secret_ok:
  assumes "owner_laws lib" "fmlookup extra ManagedByAnnotationKey = None" "own_secret lib c kc extra s = Inr t"
  shows "isManagedByRotator (om_Annotations (se_meta t))" "se_Type t = SecretType"
    "fmlookup (om_Labels (se_meta t)) ClusterNameLabelKey = Some (om_Name (cl_meta c))"
    "fmlookup (se_Data t) DataKey = Some kc" "key_of (se_meta t) = key_of (se_meta s)"
    "k \<noteq> DataKey \<Longrightarrow> fmlookup (se_Data t) k = fmlookup (se_Data s) k"
proof -
  obtain rs where rs: "t = (mutateManagedSecret c kc extra s)\<lparr>se_meta :=
      (se_meta (mutateManagedSecret c kc extra s))\<lparr>om_OwnerReferences := rs\<rparr>\<rparr>"
    by (rule own_secret_fields [OF assms(1,3)])
  show "isManagedByRotator (om_Annotations (se_meta t))"
    by (rule managed_object.mutate_marks [OF own_secret_managed [OF assms(1,2)] assms(3)])
  show "se_Type t = SecretType"
    "fmlookup (om_Labels (se_meta t)) ClusterNameLabelKey = Some (om_Name (cl_meta c))"
    "fmlookup (se_Data t) DataKey = Some kc" "key_of (se_meta t) = key_of (se_meta s)"
    "k \<noteq> DataKey \<Longrightarrow> fmlookup (se_Data t) k = fmlookup (se_Data s) k"
    by (simp_all add: rs mutateManagedSecret_def key_of_def)
qed

lemma emits_upsert_secret:
  assumes laws: "owner_laws (ee_lib env)" and extra: "fmlookup extra ManagedByAnnotationKey = None"
  shows "emits (rotator_call_ok env c) (upsertManagedSecret env c name kc extra)"
  unfolding upsertManagedSecret_def Let_def
proof (rule managed_object.stores_mutated [OF own_secret_managed [OF laws extra]])
  let ?key = "object_key (om_Namespace (cl_meta c)) name"
  show "ensures (rotator_call_ok env c)
      (\<lambda>r. case r of Inl _ \<Rightarrow> True | Inr old \<Rightarrow> \<exists>h. ee_getSecret env h ?key = Inr old)
      (perform (EksGetSecret ?key) (\<lambda>h. ee_getSecret env h ?key))"
    by (rule ensures_perform) (auto split: sum.split)
  fix y
  assume "own_secret (ee_lib env) c kc extra
      \<lparr>se_meta = new_meta (om_Namespace (cl_meta c)) name, se_Type = '''', se_Data = fmempty\<rparr> = Inr y"
  from own_secret_ok [OF laws extra this] show "emits (rotator_call_ok env c) (eks_write env (EksCreateSecret y))"
    by (simp add: eks_write_def rotator_call_ok_def Let_def key_of_def object_key_def new_meta_def)
next
  fix x y
  assume "\<exists>h. ee_getSecret env h (object_key (om_Namespace (cl_meta c)) name) = Inr x"
    "own_secret (ee_lib env) c kc extra x = Inr y"
    "isManagedByRotator (om_Annotations (se_meta x)) \<or> IsUnmanagedTakeoverEnabled (om_Annotations (cl_meta c))"
  with own_secret_ok [OF laws extra this(2)] show "emits (rotator_call_ok env c) (eks_write env (EksUpdateSecret y))"
    by (simp add: eks_write_def rotator_call_ok_def Let_def) metis
qed (rule emits_ret)

lemma emits_rotator_event [emits_intros]: "emits (rotator_call_ok env c) (rotator_event env c x y z)"
  unfolding rotator_event_def eks_emitEvent_def Let_def by (intro emits_intros) simp_all

lemma emits_rotator_now [emits_intros]: "emits (rotator_call_ok env c) (rotator_now env)"
  unfolding rotator_now_def by (intro emits_intros) simp

text \<open>
  C21. The rotator never overwrites what is not its own: it writes Secrets and nothing else; each
  one it creates or updates carries its mark, the kubeconfig type, the cluster's label and a
  kubeconfig; one that exists is updated only if it carries the mark already or the cluster's
  annotation allows the takeover, and no other data entry of it is changed.
\<close>

theorem rotator_writes_only_its_own:
  assumes "owner_laws (ee_lib env)"
  shows "emits (rotator_call_ok env c) (rotate write r env c ack)"
proof -
  note upsert = emits_upsert_secret [OF assms rotator_annotations_clear(1)]
    emits_upsert_secret [OF assms rotator_annotations_clear(2)]
  have "emits (rotator_call_ok env c) (sync_exec_secret r env c n kc (exec_annotations region e) b t)" for n kc region e b t
    unfolding sync_exec_secret_def by (intro emits_intros upsert) simp_all
  then have sync: "emits (rotator_call_ok env c) (sync_secrets r env c e region pk ek n t)" for e region pk ek n t
    unfolding sync_secrets_def by (intro emits_intros upsert) simp_all
  show ?thesis
    unfolding rotate_def rotator_backoff_def Let_def by (intro emits_intros sync) simp_all
qed

text \<open>
  The rotator settles: when the Secret read is the one it would store, for any object it was
  made from, the upsert reports it as managed and unchanged and writes nothing; and a Secret of
  somebody else is reported as not managed, and nothing is written, unless the cluster allows
  the takeover.
\<close>

theorem rotator_upsert_settles:
  fixes env :: eks_env and c :: cluster and name region eksName :: string and expiration :: time
  assumes "owner_laws (ee_lib env)"
  defines "extra \<equiv> probe_annotations expiration region eksName"
    and "get \<equiv> \<lambda>h. ee_getSecret env h (object_key (om_Namespace (cl_meta c)) name)"
  shows "(own_secret (ee_lib env) c kc extra x = Inr s \<and> get h = Inr s \<longrightarrow>
       run_state (upsertManagedSecret env c name kc extra) h =
         (Inr \<lparr>ur_Managed = True, ur_Changed = False, ur_TakenOver = False\<rparr>,
          h @ [EksGetSecret (object_key (om_Namespace (cl_meta c)) name)])) \<and>
    (get h = Inr s \<and> \<not> isManagedByRotator (om_Annotations (se_meta s)) \<and>
     \<not> IsUnmanagedTakeoverEnabled (om_Annotations (cl_meta c)) \<longrightarrow>
       run_state (upsertManagedSecret env c name kc extra) h =
         (Inr \<lparr>ur_Managed = False, ur_Changed = False, ur_TakenOver = False\<rparr>,
          h @ [EksGetSecret (object_key (om_Namespace (cl_meta c)) name)]))"
proof (intro conjI impI)
  note laws = own_secret_managed [OF assms(1) rotator_annotations_clear(1), of c kc expiration region eksName]
  have read: "run_state (perform (EksGetSecret k) (\<lambda>h. ee_getSecret env h k)) h = (ee_getSecret env h k, h @ [EksGetSecret k])"
    for k by simp
  assume "own_secret (ee_lib env) c kc extra x = Inr s \<and> get h = Inr s"
  then show "run_state (upsertManagedSecret env c name kc extra) h =
      (Inr \<lparr>ur_Managed = True, ur_Changed = False, ur_TakenOver = False\<rparr>,
       h @ [EksGetSecret (object_key (om_Namespace (cl_meta c)) name)])"
    unfolding upsertManagedSecret_def Let_def extra_def get_def
    by (intro managed_object.settled_silent [OF laws]) auto
next
  note laws = own_secret_managed [OF assms(1) rotator_annotations_clear(1), of c kc expiration region eksName]
  assume "get h = Inr s \<and> \<not> isManagedByRotator (om_Annotations (se_meta s)) \<and>
     \<not> IsUnmanagedTakeoverEnabled (om_Annotations (cl_meta c))"
  then show "run_state (upsertManagedSecret env c name kc extra) h =
      (Inr \<lparr>ur_Managed = False, ur_Changed = False, ur_TakenOver = False\<rparr>,
       h @ [EksGetSecret (object_key (om_Namespace (cl_meta c)) name)])"
    unfolding upsertManagedSecret_def Let_def extra_def get_def
    by (intro managed_object.foreign_untouched [OF laws]) auto
qed

section \<open>Tokens stay fresh\<close>

lemma next_requeue_fresh:
  "0 < ComputeNextRequeue now expiration p"
  "expiration \<noteq> 0 \<Longrightarrow> now < expiration - rp_RefreshBefore (WithDefaults p) \<Longrightarrow>
     now + ComputeNextRequeue now expiration p \<le> expiration - rp_RefreshBefore (WithDefaults p)"
  using WithDefaults_pos [of p]
  by (auto simp: ComputeNextRequeue_def Let_def time_sub_def min_def max_def min_duration_def max_duration_def)

lemma WithDefaults_again: "WithDefaults (WithDefaults p) = WithDefaults p"
  using WithDefaults_pos [of p] by (cases p) (simp add: WithDefaults_def Let_def DefaultRequeuePolicy_def)

text \<open>The history at which a call of a run was issued.\<close>

definition issued :: "eks_call list \<Rightarrow> eks_call \<Rightarrow> eks_call list \<Rightarrow> bool" where
  "issued t c h \<longleftrightarrow> (\<exists>rest. t = h @ c # rest)"

lemma issued_last: "issued (h @ [c]) c h"
  by (simp add: issued_def)

lemma issued_append: "issued t c h \<Longrightarrow> issued (t @ u) c h"
  by (auto simp: issued_def)

text \<open>When a run without an error looks again: after the backoff, or before its token runs out.\<close>

definition looks_again :: "rotator \<Rightarrow> eks_env \<Rightarrow> ctrl_result result \<Rightarrow> eks_call list \<Rightarrow> bool" where
  "looks_again r env res t =
     (case res of
        Inl _ \<Rightarrow> True
      | Inr x \<Rightarrow> 0 < requeue_after x \<and>
          (requeue_after x \<in> {rp_FailureBackoff (rotator_policy r), rp_MaxRefresh (rotator_policy r)} \<or>
           (\<exists>h region name token expiration h'.
              issued t (EksGenerateToken region name) h \<and>
              ee_generateToken env h region name = Inr (token, expiration) \<and> issued t EksNow h' \<and>
              (expiration \<noteq> 0 \<and> ee_now env h' < expiration - rp_RefreshBefore (rotator_policy r) \<longrightarrow>
                 ee_now env h' + requeue_after x \<le> expiration - rp_RefreshBefore (rotator_policy r)))))"

lemma looks_again_simps [simp]:
  "looks_again r env (Inl e) t"
  "looks_again r env (Inr (requeue_in (rp_FailureBackoff (rotator_policy r)))) t"
  "looks_again r env (Inr (requeue_in (rp_MaxRefresh (rotator_policy r)))) t"
  using WithDefaults_pos [of "rt_Policy r"] by (simp_all add: looks_again_def rotator_policy_def)

lemma looks_again_fresh:
  assumes "issued t (EksGenerateToken region name) h" "ee_generateToken env h region name = Inr (token, expiration)"
    and "issued t EksNow h'"
  shows "looks_again r env (Inr (requeue_in (ComputeNextRequeue (ee_now env h') expiration (rotator_policy r)))) t"
proof -
  let ?d = "ComputeNextRequeue (ee_now env h') expiration (rotator_policy r)"
  have "WithDefaults (rotator_policy r) = rotator_policy r" by (simp add: rotator_policy_def WithDefaults_again)
  then have "0 < ?d" "expiration \<noteq> 0 \<and> ee_now env h' < expiration - rp_RefreshBefore (rotator_policy r) \<longrightarrow>
      ee_now env h' + ?d \<le> expiration - rp_RefreshBefore (rotator_policy r)"
    using next_requeue_fresh(1) [of "ee_now env h'" expiration "rotator_policy r"]
      next_requeue_fresh(2) [of expiration "ee_now env h'" "rotator_policy r"] by simp_all
  then show ?thesis unfolding looks_again_def using assms by (simp del: not_gr_zero) blast
qed

lemma emits_any:
  "emits (\<lambda>_. True) (rotator_event env c x y z)"
  "emits (\<lambda>_. True) (upsertManagedSecret env c n kc extra)" "emits (\<lambda>_. True) (rotator_now env)"
  unfolding rotator_event_def eks_emitEvent_def upsertManagedSecret_def upsert_managed_def eks_write_def
    rotator_now_def Let_def when_eff_def
  by (auto intro!: emits_bind emits_try split: sum.split)

lemma wp_backoff: "wp (rotator_backoff r env c x y z) (looks_again r env) h"
  unfolding rotator_backoff_def by (rule wp_appends [OF emits_any(1)]) simp

lemma wp_sync_exec:
  assumes token: "ee_generateToken env h0 region name = Inr (token, expiration)"
    and h: "issued h (EksGenerateToken region name) h0"
  shows "wp (sync_exec_secret r env c n kc extra b expiration) (looks_again r env) h"
proof -
  have last: "wp (bind_eff (rotator_now env) (\<lambda>now. bind_eff (rotator_now env) (\<lambda>now2.
      bind_eff (emit (RecordSuccessfulSync metricControllerRotator now2)) (\<lambda>_.
      ret (Inr (requeue_in (ComputeNextRequeue now expiration (rotator_policy r))))))))
      (looks_again r env) (h @ u)" for u
  proof -
    have "issued ((h @ u) @ [EksNow]) EksNow (h @ u)" by (rule issued_last)
    then have "issued (h @ u @ [EksNow, EksNow, x]) EksNow (h @ u)" for x by (simp add: issued_def)
    moreover have "issued (h @ u @ [EksNow, EksNow, x]) (EksGenerateToken region name) h0" for x
      by (rule issued_append [OF h])
    ultimately show ?thesis by (simp add: rotator_now_def looks_again_fresh [OF _ token])
  qed
  show ?thesis
    unfolding sync_exec_secret_def
    by (rule wp_try_appends [OF emits_any(2)], simp)
      (rule wp_appends, intro emits_intros emits_any TrueI, unfold append_assoc,
       rule wp_appends, intro emits_intros emits_any TrueI, unfold append_assoc,
       rule wp_appends, intro emits_intros emits_any TrueI, unfold append_assoc, rule last)
qed

lemma wp_sync_secrets:
  assumes token: "ee_generateToken env h0 region name = Inr (token, expiration)"
    and h: "issued h (EksGenerateToken region name) h0"
  shows "wp (sync_secrets r env c e reg pk ek n expiration) (looks_again r env) h"
proof -
  have managed: "wp (bind_eff m (\<lambda>_. sync_exec_secret r env c x y z b expiration)) (looks_again r env) (h @ u)"
    if "emits (\<lambda>_. True) m" for m :: "unit eks_eff" and x y z b u
    by (rule wp_appends [OF that]) (intro wp_sync_exec [OF token] issued_append h)
  have foreign: "wp (bind_eff m (\<lambda>_. bind_eff m' (\<lambda>_. ret (Inr (requeue_in (rp_MaxRefresh (rotator_policy r)))))))
      (looks_again r env) h'" for m m' :: "unit eks_eff" and h'
    by (simp add: wp_def split: prod.split)
  show ?thesis
    unfolding sync_secrets_def
    by (rule wp_try_appends [OF emits_any(2)])
      (simp, split if_split, intro conjI impI foreign managed emits_intros emits_any)
qed


section \<open>Witnesses\<close>

definition demo_rotator :: rotator where
  "demo_rotator = \<lparr>rt_hasTokenGenerator = True, rt_Policy = DefaultRequeuePolicy\<rparr>"

definition demo_rotated :: cluster where
  "demo_rotated = demo_eks_cluster\<lparr>cl_meta := (cl_meta demo_eks_cluster)
     \<lparr>om_Annotations := fmupd EnableAnnotationKey ''enabled'' fmempty\<rparr>\<rparr>"

theorem rotator_writes_only_its_own_witness:
  "emits (rotator_call_ok demo_eks_env demo_rotated)
     (rotate (\<lambda>_. Inr ''kc'') demo_rotator demo_eks_env demo_rotated (new_unstructured ackClusterGVK ''ns'' ''demo''))"
  by (rule rotator_writes_only_its_own) (use ref_lib_laws in \<open>simp add: apilib_laws_def demo_eks_env_def\<close>)

theorem rotator_upsert_settles_witness:
  "fst (run_state (upsertManagedSecret (demo_eks_env\<lparr>ee_getSecret := \<lambda>_ _.
       Inr \<lparr>se_meta = new_meta ''ns'' ''s'', se_Type = '''', se_Data = fmempty\<rparr>\<rparr>)
     demo_eks_cluster ''s'' ''kc'' (probe_annotations 0 ''r'' ''e'')) []) =
   Inr \<lparr>ur_Managed = False, ur_Changed = False, ur_TakenOver = False\<rparr>"
proof -
  let ?env = "demo_eks_env\<lparr>ee_getSecret := \<lambda>_ _.
       Inr \<lparr>se_meta = new_meta ''ns'' ''s'', se_Type = '''', se_Data = fmempty\<rparr>\<rparr>"
  have "owner_laws (ee_lib ?env)" using ref_lib_laws by (simp add: apilib_laws_def demo_eks_env_def)
  from rotator_upsert_settles [OF this, where h = "[]" and c = demo_eks_cluster and name = "''s''"
      and s = "\<lparr>se_meta = new_meta ''ns'' ''s'', se_Type = '''', se_Data = fmempty\<rparr>"]
  show ?thesis
    by (simp add: isManagedByRotator_def new_meta_def demo_eks_cluster_def IsUnmanagedTakeoverEnabled_def)
qed


end
