(* ===== verification/Md5.thy ===== *)
theory Md5
  imports GoStrings "HOL-Library.Word"
begin

unbundle bit_operations_syntax

text \<open>
  \<open>crypto/md5\<close> and \<open>encoding/hex\<close>, as far as the names of the AWS roles need them: the
  digest of a string as 32 hexadecimal digits (RFC 1321).
\<close>

definition md5_shifts :: "nat list" where
  "md5_shifts =
    [7, 12, 17, 22, 7, 12, 17, 22, 7, 12, 17, 22, 7, 12, 17, 22,
     5, 9, 14, 20, 5, 9, 14, 20, 5, 9, 14, 20, 5, 9, 14, 20,
     4, 11, 16, 23, 4, 11, 16, 23, 4, 11, 16, 23, 4, 11, 16, 23,
     6, 10, 15, 21, 6, 10, 15, 21, 6, 10, 15, 21, 6, 10, 15, 21]"

definition md5_table :: "32 word list" where
  "md5_table =
    [0xd76aa478, 0xe8c7b756, 0x242070db, 0xc1bdceee, 0xf57c0faf, 0x4787c62a, 0xa8304613, 0xfd469501,
     0x698098d8, 0x8b44f7af, 0xffff5bb1, 0x895cd7be, 0x6b901122, 0xfd987193, 0xa679438e, 0x49b40821,
     0xf61e2562, 0xc040b340, 0x265e5a51, 0xe9b6c7aa, 0xd62f105d, 0x02441453, 0xd8a1e681, 0xe7d3fbc8,
     0x21e1cde6, 0xc33707d6, 0xf4d50d87, 0x455a14ed, 0xa9e3e905, 0xfcefa3f8, 0x676f02d9, 0x8d2a4c8a,
     0xfffa3942, 0x8771f681, 0x6d9d6122, 0xfde5380c, 0xa4beea44, 0x4bdecfa9, 0xf6bb4b60, 0xbebfbc70,
     0x289b7ec6, 0xeaa127fa, 0xd4ef3085, 0x04881d05, 0xd9d4d039, 0xe6db99e5, 0x1fa27cf8, 0xc4ac5665,
     0xf4292244, 0x432aff97, 0xab9423a7, 0xfc93a039, 0x655b59c3, 0x8f0ccc92, 0xffeff47d, 0x85845dd1,
     0x6fa87e4f, 0xfe2ce6e0, 0xa3014314, 0x4e0811a1, 0xf7537e82, 0xbd3af235, 0x2ad7d2bb, 0xeb86d391]"

text \<open>The padded message: a one bit, zeros, and the length in bits as eight bytes.\<close>

fun le_bytes :: "nat \<Rightarrow> nat \<Rightarrow> nat list" where
  "le_bytes 0 n = []"
| "le_bytes (Suc k) n = (n mod 256) # le_bytes k (n div 256)"

definition md5_padded :: "string \<Rightarrow> nat list" where
  "md5_padded s =
     (let bytes = map of_char s; n = length bytes in
      bytes @ [128] @ replicate ((119 - n mod 64) mod 64) 0 @ le_bytes 8 (8 * n))"

definition le_word :: "nat list \<Rightarrow> 32 word" where
  "le_word bs = foldr (\<lambda>b w. push_bit 8 w + of_nat b) bs 0"

fun chunks :: "nat \<Rightarrow> 'a list \<Rightarrow> 'a list list" where
  "chunks k [] = []"
| "chunks k (x # xs) = (x # take (k - 1) xs) # chunks k (drop (k - 1) xs)"

definition word_bytes :: "32 word \<Rightarrow> nat list" where
  "word_bytes w = map (\<lambda>k. unat (take_bit 8 (drop_bit (8 * k) w))) [0, 1, 2, 3]"

record md5_state =
  md_a :: "32 word"
  md_b :: "32 word"
  md_c :: "32 word"
  md_d :: "32 word"

definition md5_init :: md5_state where
  "md5_init = \<lparr>md_a = 0x67452301, md_b = 0xefcdab89, md_c = 0x98badcfe, md_d = 0x10325476\<rparr>"

definition md5_mix :: "nat \<Rightarrow> md5_state \<Rightarrow> 32 word \<times> nat" where
  "md5_mix i s =
     (let b = md_b s; c = md_c s; d = md_d s in
      if i < 16 then ((b AND c) OR (NOT b AND d), i)
      else if i < 32 then ((d AND b) OR (NOT d AND c), (5 * i + 1) mod 16)
      else if i < 48 then (b XOR c XOR d, (3 * i + 5) mod 16)
      else (c XOR (b OR NOT d), (7 * i) mod 16))"

definition md5_step :: "32 word list \<Rightarrow> nat \<Rightarrow> md5_state \<Rightarrow> md5_state" where
  "md5_step block i s =
     (let (f, g) = md5_mix i s;
          sum = f + md_a s + md5_table ! i + block ! g
      in \<lparr>md_a = md_d s, md_b = md_b s + word_rotl (md5_shifts ! i) sum, md_c = md_b s, md_d = md_c s\<rparr>)"

definition md5_block :: "32 word list \<Rightarrow> md5_state \<Rightarrow> md5_state" where
  "md5_block block s =
     (let t = fold (md5_step block) [0..<64] s in
      \<lparr>md_a = md_a s + md_a t, md_b = md_b s + md_b t, md_c = md_c s + md_c t, md_d = md_d s + md_d t\<rparr>)"

definition md5_sum :: "string \<Rightarrow> nat list" where
  "md5_sum s =
     (let blocks = map (map le_word) (map (chunks 4) (chunks 64 (md5_padded s)));
          t = fold md5_block blocks md5_init
      in concat (map word_bytes [md_a t, md_b t, md_c t, md_d t]))"

text \<open>\<open>hex.EncodeToString\<close>.\<close>

definition hex_encode :: "nat list \<Rightarrow> string" where
  "hex_encode bs = concat (map (\<lambda>b. [hex_digit (b div 16), hex_digit b]) bs)"

definition md5_hex :: "string \<Rightarrow> string" where
  "md5_hex s = hex_encode (md5_sum s)"

lemma le_bytes_length [simp]: "length (le_bytes k n) = k"
  by (induction k n rule: le_bytes.induct) auto

text \<open>The digest has 32 digits whatever the message.\<close>

lemma md5_hex_length: "length (md5_hex s) = 32"
  by (simp add: md5_hex_def md5_sum_def hex_encode_def Let_def length_concat o_def sum_list_triv word_bytes_def)

lemma hex_digit_set: "hex_digit n \<in> set ''0123456789abcdef''"
  unfolding hex_digit_def by (rule nth_mem) simp

lemma md5_hex_digits: "set (md5_hex s) \<subseteq> set ''0123456789abcdef''"
  using hex_digit_set by (fastforce simp: md5_hex_def hex_encode_def)

end
