(* ===== verification/GoJson.thy ===== *)
theory GoJson
  imports GoStrings
begin

text \<open>
  \<open>encoding/json\<close>, as far as the code uses it with types of its own: the texts
  \<open>json.Marshal\<close> writes for strings, lists and maps with string keys, and the typed readings
  of \<open>json.Unmarshal\<close>. (What \<open>json.Unmarshal\<close> makes of a document it decodes into
  \<open>any\<close> is a library function of \<open>K8sModel\<close>, because of its floating point numbers.)

  A JSON text is read into a tree; the decoder's limit of the nesting depth (10000) is left out.
\<close>

section \<open>Text\<close>

text \<open>A number is kept as it is written; the members of an object are in their order.\<close>

datatype jtext =
    TNull
  | TBool bool
  | TNum string
  | TStr string
  | TArr "jtext list"
  | TObj "(string \<times> jtext) list"

text \<open>A Go map with string keys is written in the order of its keys.\<close>

definition jmap :: "(string \<times> jtext) list \<Rightarrow> jtext" where
  "jmap ms = TObj (sort_key fst ms)"

section \<open>UTF-8\<close>

abbreviation byte :: "char \<Rightarrow> nat" where
  "byte c \<equiv> of_char c"

definition is_cont :: "nat \<Rightarrow> bool" where
  "is_cont y \<longleftrightarrow> 0x80 \<le> y \<and> y \<le> 0xBF"

definition lead3 :: "nat \<Rightarrow> nat \<Rightarrow> bool" where
  "lead3 x y \<longleftrightarrow> (x = 0xE0 \<and> 0xA0 \<le> y \<and> y \<le> 0xBF) \<or>
     ((0xE1 \<le> x \<and> x \<le> 0xEC \<or> x = 0xEE \<or> x = 0xEF) \<and> is_cont y) \<or> (x = 0xED \<and> 0x80 \<le> y \<and> y \<le> 0x9F)"

definition lead4 :: "nat \<Rightarrow> nat \<Rightarrow> bool" where
  "lead4 x y \<longleftrightarrow> (x = 0xF0 \<and> 0x90 \<le> y \<and> y \<le> 0xBF) \<or> (0xF1 \<le> x \<and> x \<le> 0xF3 \<and> is_cont y) \<or>
     (x = 0xF4 \<and> 0x80 \<le> y \<and> y \<le> 0x8F)"

text \<open>The length of the encoding of a rune beyond ASCII at the head of a string, if it is one.\<close>

definition rune_len :: "string \<Rightarrow> nat option" where
  "rune_len s =
     (case s of
        a # b # t \<Rightarrow>
          if 0xC2 \<le> byte a \<and> byte a \<le> 0xDF \<and> is_cont (byte b) then Some 2
          else (case t of
              [] \<Rightarrow> None
            | c # u \<Rightarrow>
                if lead3 (byte a) (byte b) \<and> is_cont (byte c) then Some 3
                else (case u of
                    [] \<Rightarrow> None
                  | d # _ \<Rightarrow>
                      if lead4 (byte a) (byte b) \<and> is_cont (byte c) \<and> is_cont (byte d) then Some 4 else None))
      | _ \<Rightarrow> None)"

definition replacement_rune :: string where
  "replacement_rune = [char_of (0xEF :: nat), char_of (0xBF :: nat), char_of (0xBD :: nat)]"

definition utf8_encode :: "nat \<Rightarrow> string" where
  "utf8_encode n = map char_of
     (if n < 0x80 then [n]
      else if n < 0x800 then [0xC0 + n div 64, 0x80 + n mod 64]
      else if n < 0x10000 then [0xE0 + n div 4096, 0x80 + n div 64 mod 64, 0x80 + n mod 64]
      else [0xF0 + n div 262144, 0x80 + n div 4096 mod 64, 0x80 + n div 64 mod 64, 0x80 + n mod 64])"

section \<open>Marshal\<close>

definition escape_ascii :: "char \<Rightarrow> string" where
  "escape_ascii c =
     (if c = CHR 0x22 then [CHR 0x5C, CHR 0x22]
      else if c = CHR 0x5C then [CHR 0x5C, CHR 0x5C]
      else if c = CHR 0x08 then [CHR 0x5C, CHR ''b'']
      else if c = CHR 0x0C then [CHR 0x5C, CHR ''f'']
      else if c = CHR 0x0A then [CHR 0x5C, CHR ''n'']
      else if c = CHR 0x0D then [CHR 0x5C, CHR ''r'']
      else if c = CHR 0x09 then [CHR 0x5C, CHR ''t'']
      else if byte c < 0x20 \<or> c \<in> set ''<>&''
        then [CHR 0x5C, CHR ''u'', CHR ''0'', CHR ''0'', hex_digit (byte c div 16), hex_digit (byte c)]
      else [c])"

text \<open>The separators U+2028 and U+2029 are escaped, an invalid byte is replaced.\<close>

definition escape_rune :: "string \<Rightarrow> string" where
  "escape_rune r =
     (if r = utf8_encode 0x2028 then CHR 0x5C # ''u2028''
      else if r = utf8_encode 0x2029 then CHR 0x5C # ''u2029'' else r)"

fun json_escape :: "string \<Rightarrow> string" where
  "json_escape [] = []"
| "json_escape (c # s) =
     (if byte c < 0x80 then escape_ascii c @ json_escape s
      else (case rune_len (c # s) of
          None \<Rightarrow> (CHR 0x5C # ''ufffd'') @ json_escape s
        | Some n \<Rightarrow> escape_rune (take n (c # s)) @ json_escape (drop (n - 1) s)))"

definition json_string :: "string \<Rightarrow> string" where
  "json_string s = CHR 0x22 # json_escape s @ [CHR 0x22]"

fun marshal :: "jtext \<Rightarrow> string" and marshal_elems :: "jtext list \<Rightarrow> string"
  and marshal_members :: "(string \<times> jtext) list \<Rightarrow> string" where
  "marshal TNull = ''null''"
| "marshal (TBool b) = (if b then ''true'' else ''false'')"
| "marshal (TNum n) = n"
| "marshal (TStr s) = json_string s"
| "marshal (TArr vs) = ''['' @ (if vs = [] then ''''  else marshal_elems vs) @ '']''"
| "marshal (TObj ms) = ''{'' @ (if ms = [] then '''' else marshal_members ms) @ ''}''"
| "marshal_elems [] = ''''"
| "marshal_elems (v # vs) = marshal v @ (if vs = [] then '''' else '','' @ marshal_elems vs)"
| "marshal_members [] = ''''"
| "marshal_members ((k, v) # ms) =
     json_string k @ '':'' @ marshal v @ (if ms = [] then '''' else '','' @ marshal_members ms)"

section \<open>Unmarshal: the text\<close>

fun skip_ws :: "string \<Rightarrow> string" where
  "skip_ws [] = []"
| "skip_ws (c # s) = (if c \<in> {CHR 0x20, CHR 0x09, CHR 0x0A, CHR 0x0D} then skip_ws s else c # s)"

definition hex_val :: "char \<Rightarrow> nat option" where
  "hex_val c =
     (let n = byte c in
      if 48 \<le> n \<and> n \<le> 57 then Some (n - 48)
      else if 97 \<le> n \<and> n \<le> 102 then Some (n - 87)
      else if 65 \<le> n \<and> n \<le> 70 then Some (n - 55) else None)"

fun hex4 :: "string \<Rightarrow> nat option" where
  "hex4 (a # b # c # d # s) =
     (case (hex_val a, hex_val b, hex_val c, hex_val d) of
        (Some p, Some q, Some r, Some t) \<Rightarrow> Some (4096 * p + 256 * q + 16 * r + t)
      | _ \<Rightarrow> None)"
| "hex4 _ = None"

definition simple_escape :: "char \<Rightarrow> char option" where
  "simple_escape c =
     (if c \<in> {CHR 0x22, CHR 0x5C, CHR ''/''} then Some c
      else if c = CHR ''b'' then Some (CHR 0x08)
      else if c = CHR ''f'' then Some (CHR 0x0C)
      else if c = CHR ''n'' then Some (CHR 0x0A)
      else if c = CHR ''r'' then Some (CHR 0x0D)
      else if c = CHR ''t'' then Some (CHR 0x09) else None)"

text \<open>
  A \<open>\u\<close> escape: the rune, and how much of the text it takes. A pair of surrogates is one
  rune; a surrogate without its partner is replaced.
\<close>

definition is_surrogate :: "nat \<Rightarrow> bool" where
  "is_surrogate n \<longleftrightarrow> 0xD800 \<le> n \<and> n < 0xE000"

definition low_surrogate :: "string \<Rightarrow> nat option" where
  "low_surrogate s =
     (case s of
        c # d # t \<Rightarrow> if c = CHR 0x5C \<and> d = CHR ''u'' then
            (case hex4 t of Some m \<Rightarrow> if 0xDC00 \<le> m \<and> m < 0xE000 then Some m else None | None \<Rightarrow> None) else None
      | _ \<Rightarrow> None)"

definition unicode_escape :: "string \<Rightarrow> (string \<times> nat) option" where
  "unicode_escape s =
     (case hex4 s of
        None \<Rightarrow> None
      | Some n \<Rightarrow>
          if \<not> is_surrogate n then Some (utf8_encode n, 4)
          else (case low_surrogate (drop 4 s) of
              Some m \<Rightarrow> if n < 0xDC00
                then Some (utf8_encode (0x10000 + (n - 0xD800) * 1024 + (m - 0xDC00)), 10)
                else Some (replacement_rune, 4)
            | None \<Rightarrow> Some (replacement_rune, 4)))"

definition prepend :: "string \<Rightarrow> (string \<times> string) option \<Rightarrow> (string \<times> string) option" where
  "prepend x r = map_option (\<lambda>(d, t). (x @ d, t)) r"

text \<open>The body of a string literal up to its closing quote.\<close>

function parse_string :: "string \<Rightarrow> (string \<times> string) option" where
  "parse_string [] = None"
| "parse_string (c # s) =
     (if c = CHR 0x22 then Some ('''', s)
      else if c = CHR 0x5C then
        (case s of
           [] \<Rightarrow> None
         | e # t \<Rightarrow>
             if e = CHR ''u'' then
               (case unicode_escape t of
                  None \<Rightarrow> None
                | Some (r, n) \<Rightarrow> prepend r (parse_string (drop n t)))
             else (case simple_escape e of
                 None \<Rightarrow> None
               | Some d \<Rightarrow> prepend [d] (parse_string t)))
      else if byte c < 0x20 then None
      else if byte c < 0x80 then prepend [c] (parse_string s)
      else (case rune_len (c # s) of
          None \<Rightarrow> prepend replacement_rune (parse_string s)
        | Some n \<Rightarrow> prepend (take n (c # s)) (parse_string (drop (n - 1) s))))"
  by pat_completeness auto
termination by (relation "measure length") auto

definition digits_end :: "string \<Rightarrow> string" where
  "digits_end s = dropWhile is_digit s"

definition number_end :: "string \<Rightarrow> string option" where
  "number_end s =
     (let s1 = (case s of c # t \<Rightarrow> if c = CHR ''-'' then t else s | [] \<Rightarrow> s) in
      case s1 of
        [] \<Rightarrow> None
      | c # t \<Rightarrow>
          if \<not> is_digit c then None
          else let s2 = (if c = CHR ''0'' then t else digits_end t);
            s3 = (case s2 of
                d # u \<Rightarrow> if d = CHR ''.'' then (case u of e # _ \<Rightarrow> if is_digit e then Some (digits_end u) else None | [] \<Rightarrow> None)
                  else Some s2
              | [] \<Rightarrow> Some []) in
          (case s3 of
             None \<Rightarrow> None
           | Some [] \<Rightarrow> Some []
           | Some (d # u) \<Rightarrow>
               if d \<noteq> CHR ''e'' \<and> d \<noteq> CHR ''E'' then Some (d # u)
               else let u1 = (case u of e # w \<Rightarrow> if e = CHR ''+'' \<or> e = CHR ''-'' then w else u | [] \<Rightarrow> u) in
                 (case u1 of e # _ \<Rightarrow> if is_digit e then Some (digits_end u1) else None | [] \<Rightarrow> None)))"

definition parse_scalar :: "string \<Rightarrow> (jtext \<times> string) option" where
  "parse_scalar s =
     (if has_prefix s ''null'' then Some (TNull, drop 4 s)
      else if has_prefix s ''true'' then Some (TBool True, drop 4 s)
      else if has_prefix s ''false'' then Some (TBool False, drop 5 s)
      else (case number_end s of
          None \<Rightarrow> None
        | Some r \<Rightarrow> Some (TNum (take (length s - length r) s), r)))"

lemma skip_ws_length [termination_simp]: "length (skip_ws s) \<le> length s"
  by (induction s) auto

lemma skip_ws_Cons_length: "skip_ws s = c # t \<Longrightarrow> length t < length s"
  using skip_ws_length [of s] by simp

text \<open>
  Values, the elements of a list and the members of an object. Every part is shorter than the
  whole, which the comparisons of lengths say to the recursion; they are always true
  (\<open>parse_value_shrinks\<close> below).
\<close>

function parse_value :: "string \<Rightarrow> (jtext \<times> string) option"
  and parse_elems :: "string \<Rightarrow> (jtext list \<times> string) option"
  and parse_members :: "string \<Rightarrow> ((string \<times> jtext) list \<times> string) option" where
  "parse_value s =
     (case skip_ws s of
        [] \<Rightarrow> None
      | c # t \<Rightarrow>
          if c = CHR 0x22 then map_option (\<lambda>(d, r). (TStr d, r)) (parse_string t)
          else if c = CHR ''['' then
            (case skip_ws t of
               d # r \<Rightarrow> if d = CHR '']'' then Some (TArr [], r)
                 else map_option (\<lambda>(vs, r). (TArr vs, r)) (parse_elems t)
             | [] \<Rightarrow> None)
          else if c = CHR ''{'' then
            (case skip_ws t of
               d # r \<Rightarrow> if d = CHR ''}'' then Some (TObj [], r)
                 else map_option (\<lambda>(ms, r). (TObj ms, r)) (parse_members t)
             | [] \<Rightarrow> None)
          else parse_scalar (c # t))"
| "parse_elems s =
     (case parse_value s of
        None \<Rightarrow> None
      | Some (v, r) \<Rightarrow>
          (case skip_ws r of
             [] \<Rightarrow> None
           | d # t \<Rightarrow>
               if d = CHR '']'' then Some ([v], t)
               else if d = CHR '','' \<and> length t < length s
                 then map_option (\<lambda>(vs, u). (v # vs, u)) (parse_elems t)
               else None))"
| "parse_members s =
     (case skip_ws s of
        [] \<Rightarrow> None
      | c # t \<Rightarrow>
          if c \<noteq> CHR 0x22 then None
          else (case parse_string t of
              None \<Rightarrow> None
            | Some (k, r) \<Rightarrow>
                (case skip_ws r of
                   [] \<Rightarrow> None
                 | d # u \<Rightarrow>
                     if d \<noteq> CHR '':'' \<or> \<not> length u < length s then None
                     else (case parse_value u of
                         None \<Rightarrow> None
                       | Some (v, w) \<Rightarrow>
                           (case skip_ws w of
                              [] \<Rightarrow> None
                            | e # x \<Rightarrow>
                                if e = CHR ''}'' then Some ([(k, v)], x)
                                else if e = CHR '','' \<and> length x < length s
                                  then map_option (\<lambda>(ms, y). ((k, v) # ms, y)) (parse_members x)
                                else None)))))"
  by pat_completeness auto
termination
  by (relation "measure (\<lambda>x. case x of Inl s \<Rightarrow> 2 * length s
        | Inr (Inl s) \<Rightarrow> 2 * length s + 1 | Inr (Inr s) \<Rightarrow> 2 * length s + 1)")
    (auto dest: skip_ws_Cons_length)

declare parse_value.simps [simp del] parse_elems.simps [simp del] parse_members.simps [simp del]

definition json_parse :: "string \<Rightarrow> jtext option" where
  "json_parse s =
     (case parse_value s of Some (v, r) \<Rightarrow> if skip_ws r = '''' then Some v else None | None \<Rightarrow> None)"

section \<open>Unmarshal: typed readings\<close>

text \<open>
  Into \<open>[]string\<close>, \<open>map[string]string\<close>, \<open>map[string]bool\<close> and \<open>int64\<close>. A null
  leaves the zero value; a value of another type is an error, whose text is not modelled.
\<close>

definition json_error :: go_error where
  "json_error = errorf ''json: cannot unmarshal''"

definition decode_string :: "jtext \<Rightarrow> string option" where
  "decode_string v = (case v of TStr s \<Rightarrow> Some s | TNull \<Rightarrow> Some '''' | _ \<Rightarrow> None)"

definition decode_bool :: "jtext \<Rightarrow> bool option" where
  "decode_bool v = (case v of TBool b \<Rightarrow> Some b | TNull \<Rightarrow> Some False | _ \<Rightarrow> None)"

definition decode_strings :: "jtext \<Rightarrow> string list option" where
  "decode_strings v =
     (case v of TNull \<Rightarrow> Some [] | TArr vs \<Rightarrow> those (map decode_string vs) | _ \<Rightarrow> None)"

fun decode_members :: "(jtext \<Rightarrow> 'a option) \<Rightarrow> (string \<times> jtext) list \<Rightarrow> (string, 'a) fmap \<Rightarrow> (string, 'a) fmap option" where
  "decode_members f [] m = Some m"
| "decode_members f ((k, v) # ms) m =
     (case f v of None \<Rightarrow> None | Some x \<Rightarrow> decode_members f ms (fmupd k x m))"

definition decode_map :: "(jtext \<Rightarrow> 'a option) \<Rightarrow> jtext \<Rightarrow> (string, 'a) fmap option" where
  "decode_map f v =
     (case v of TNull \<Rightarrow> Some fmempty | TObj ms \<Rightarrow> decode_members f ms fmempty | _ \<Rightarrow> None)"

definition decode_int64 :: "jtext \<Rightarrow> int option" where
  "decode_int64 v = (case v of TNull \<Rightarrow> Some 0 | TNum t \<Rightarrow> atoi t | _ \<Rightarrow> None)"

definition unmarshal :: "(jtext \<Rightarrow> 'a option) \<Rightarrow> string \<Rightarrow> 'a result" where
  "unmarshal f raw =
     (case json_parse raw of
        None \<Rightarrow> Inl json_error
      | Some v \<Rightarrow> (case f v of None \<Rightarrow> Inl json_error | Some x \<Rightarrow> Inr x))"

definition marshal_strings :: "string list \<Rightarrow> string" where
  "marshal_strings ss = marshal (TArr (map TStr ss))"

section \<open>What is written is read back\<close>

fun utf8_valid :: "string \<Rightarrow> bool" where
  "utf8_valid [] = True"
| "utf8_valid (c # s) =
     (if byte c < 0x80 then utf8_valid s
      else (case rune_len (c # s) of None \<Rightarrow> False | Some n \<Rightarrow> utf8_valid (drop (n - 1) s)))"

lemma ascii_utf8_valid: "(\<forall>c \<in> set s. byte c < 0x80) \<Longrightarrow> utf8_valid s"
  by (induction s) auto

lemma rune_len_split:
  assumes "rune_len s = Some n"
  shows "\<exists>c r. take n s = c # r \<and> length r = n - 1 \<and> 0 < n \<and> (\<forall>t. rune_len (c # r @ t) = Some n)"
  using assms by (auto simp: rune_len_def split: list.splits if_splits)

lemma hex_val_digit: "hex_val (hex_digit n) = Some (n mod 16)"
proof -
  have "\<forall>k < 16. hex_val (''0123456789abcdef'' ! k) = Some k"
    by (simp add: All_less_Suc numeral_eq_Suc hex_val_def)
  then show ?thesis by (simp add: hex_digit_def)
qed

lemma prepend_Some [simp]: "prepend x (Some (d, t)) = Some (x @ d, t)"
  by (simp add: prepend_def)

lemma parse_escaped_ascii:
  assumes "byte c < 0x80"
  shows "parse_string (escape_ascii c @ t) = prepend [c] (parse_string t)"
proof -
  have "unicode_escape (CHR ''0'' # CHR ''0'' # hex_digit (byte c div 16) # hex_digit (byte c) # t) = Some ([c], 4)"
  proof -
    have "hex_val (CHR ''0'') = Some 0" by (simp add: hex_val_def)
    moreover have "byte c div 16 mod 16 = byte c div 16" using assms by simp
    moreover have "16 * (byte c div 16) + byte c mod 16 = byte c" by simp
    ultimately have "hex4 (CHR ''0'' # CHR ''0'' # hex_digit (byte c div 16) # hex_digit (byte c) # t) = Some (byte c)"
      by (simp add: hex_val_digit)
    then show ?thesis using assms by (simp add: unicode_escape_def is_surrogate_def utf8_encode_def)
  qed
  then show ?thesis using assms
    by (auto simp: escape_ascii_def simple_escape_def)
qed

lemma parse_escaped_rune:
  assumes "rune_len (c # s) = Some n" "\<not> byte c < 0x80"
  shows "parse_string (escape_rune (take n (c # s)) @ t) = prepend (take n (c # s)) (parse_string t)"
proof -
  obtain r where r: "take n (c # s) = c # r" "length r = n - 1" "0 < n" "\<And>t. rune_len (c # r @ t) = Some n"
    using rune_len_split [OF assms(1)] by (cases n) auto
  have c: "c \<noteq> CHR 0x22" "c \<noteq> CHR 0x5C" using assms(2) by auto
  show ?thesis
  proof (cases "take n (c # s) \<in> {utf8_encode 0x2028, utf8_encode 0x2029}")
    case True
    moreover have "unicode_escape (''2028'' @ t) = Some (utf8_encode 0x2028, 4)"
      "unicode_escape (''2029'' @ t) = Some (utf8_encode 0x2029, 4)"
      by (simp_all add: unicode_escape_def hex_val_def is_surrogate_def)
    moreover have "utf8_encode 0x2028 \<noteq> utf8_encode 0x2029"
      by (simp add: utf8_encode_def)
    ultimately show ?thesis by (auto simp: escape_rune_def)
  next
    case False
    then have "escape_rune (take n (c # s)) = c # r" using r(1) by (auto simp: escape_rune_def)
    moreover have "n = Suc (length r)" using r(2,3) by simp
    moreover have "parse_string (c # r @ t) = prepend (take n (c # r @ t)) (parse_string (drop (n - 1) (r @ t)))"
      using assms(2) c r(4) [of t] by simp
    ultimately show ?thesis using r(1) by (simp del: parse_string.simps)
  qed
qed

lemma parse_string_escape:
  "utf8_valid s \<Longrightarrow> parse_string (json_escape s @ CHR 0x22 # rest) = Some (s, rest)"
proof (induction s rule: json_escape.induct)
  case 1
  then show ?case by simp
next
  case (2 c s)
  show ?case
  proof (cases "byte c < 0x80")
    case True
    then show ?thesis using 2 by (simp add: parse_escaped_ascii del: parse_string.simps)
  next
    case False
    then obtain n where n: "rune_len (c # s) = Some n" "utf8_valid (drop (n - 1) s)"
      using "2.prems" by (auto split: option.splits)
    then have "0 < n" using rune_len_split by blast
    then have "take n (c # s) @ drop (n - 1) s = c # s" by (cases n) auto
    then show ?thesis
      using False n "2.IH"(3) [OF False n] by (simp add: parse_escaped_rune del: parse_string.simps)
  qed
qed

text \<open>Reading a value uses up some of the text, so the comparisons of lengths above are true.\<close>

lemma parse_string_shrinks: "parse_string s = Some (d, r) \<Longrightarrow> length r < length s"
proof (induction s arbitrary: d rule: parse_string.induct)
  case 1
  then show ?case by simp
next
  case (2 c s)
  have later: "\<lbrakk>prepend x (parse_string (drop n u)) = Some (d, r);
      \<And>d. parse_string (drop n u) = Some (d, r) \<Longrightarrow> length r < length (drop n u);
      length u \<le> length s\<rbrakk> \<Longrightarrow> length r < length (c # s)" for x n u
    by (fastforce simp: prepend_def)
  show ?case
  proof (cases "c = CHR 0x22 \<or> byte c < 0x20 \<and> c \<noteq> CHR 0x5C")
    case True
    then show ?thesis using "2.prems" by (auto split: if_splits)
  next
    case False
    note IH = "2.IH"
    show ?thesis
    proof (cases "c = CHR 0x5C")
      case True
      then show ?thesis
        using "2.prems" IH(1,2) by (fastforce simp: prepend_def split: list.splits if_splits option.splits prod.splits)
    next
      case no_escape: False
      show ?thesis
      proof (cases "byte c < 0x80")
        case True
        then show ?thesis using "2.prems" False no_escape IH(3) later [of "[c]" 0 s] by (auto split: if_splits)
      next
        case big: False
        show ?thesis
        proof (cases "rune_len (c # s)")
          case None
          then show ?thesis
            using "2.prems" False no_escape big IH(4) later [of replacement_rune 0 s] by (auto split: if_splits)
        next
          case (Some n)
          then show ?thesis
            using "2.prems" False no_escape big IH(5) later [of "take n (c # s)" "n - 1" s] by (auto split: if_splits)
        qed
      qed
    qed
  qed
qed

lemma digits_end_length: "length (digits_end s) \<le> length s"
  by (simp add: digits_end_def length_dropWhile_le)

lemma number_end_shrinks: "number_end s = Some r \<Longrightarrow> length r < length s"
proof -
  have frac: "(case t of
      d # u \<Rightarrow> if d = CHR ''.'' then (case u of e # _ \<Rightarrow> if is_digit e then Some (digits_end u) else None | [] \<Rightarrow> None)
        else Some t
    | [] \<Rightarrow> Some []) = Some v \<Longrightarrow> length v \<le> length t" for t v
    using digits_end_length [of "tl t"] by (cases t) (auto split: list.splits if_splits)
  have exponent: "(if d \<noteq> CHR ''e'' \<and> d \<noteq> CHR ''E'' then Some (d # u)
      else let u1 = (case u of e # w \<Rightarrow> if e = CHR ''+'' \<or> e = CHR ''-'' then w else u | [] \<Rightarrow> u) in
        (case u1 of e # _ \<Rightarrow> if is_digit e then Some (digits_end u1) else None | [] \<Rightarrow> None)) = Some r \<Longrightarrow>
      length r \<le> Suc (length u)" for d u
    using digits_end_length [of u] digits_end_length [of "tl u"]
    by (auto simp: Let_def split: list.splits if_splits)
  assume *: "number_end s = Some r"
  define s1 where "s1 = (case s of c # t \<Rightarrow> if c = CHR ''-'' then t else s | [] \<Rightarrow> s)"
  have "length s1 \<le> length s" by (simp add: s1_def split: list.split)
  obtain c t where s1: "s1 = c # t" "is_digit c"
    using * unfolding number_end_def Let_def s1_def [symmetric] by (auto split: list.splits if_splits)
  let ?s2 = "if c = CHR ''0'' then t else digits_end t"
  have s2: "length ?s2 < length s"
    using digits_end_length [of t] \<open>length s1 \<le> length s\<close> s1(1) by auto
  define s3 where "s3 = (case ?s2 of
      d # u \<Rightarrow> if d = CHR ''.'' then (case u of e # _ \<Rightarrow> if is_digit e then Some (digits_end u) else None | [] \<Rightarrow> None)
        else Some ?s2
    | [] \<Rightarrow> Some [])"
  have *: "(case s3 of
      None \<Rightarrow> None
    | Some [] \<Rightarrow> Some []
    | Some (d # u) \<Rightarrow>
        if d \<noteq> CHR ''e'' \<and> d \<noteq> CHR ''E'' then Some (d # u)
        else let u1 = (case u of e # w \<Rightarrow> if e = CHR ''+'' \<or> e = CHR ''-'' then w else u | [] \<Rightarrow> u) in
          (case u1 of e # _ \<Rightarrow> if is_digit e then Some (digits_end u1) else None | [] \<Rightarrow> None)) = Some r"
    using * s1(2) unfolding number_end_def Let_def s1_def [symmetric] s1(1) list.case s3_def by simp
  then obtain v where v: "s3 = Some v" by (cases s3) auto
  then have "length v \<le> length ?s2" using frac unfolding s3_def by blast
  moreover have "length r \<le> length v"
    using * exponent unfolding v by (cases v) simp_all
  ultimately show ?thesis using s2 by simp
qed

lemma parse_scalar_shrinks: "parse_scalar s = Some (v, r) \<Longrightarrow> length r < length s"
  using number_end_shrinks [of s r]
  by (auto simp: parse_scalar_def has_prefix_iff split: if_splits option.splits)

text \<open>What is left is shorter, by induction on the length of the text.\<close>

lemma value_step_shrinks:
  assumes "parse_value s = Some (v, r)"
    and "\<And>t vs r. length t < length s \<Longrightarrow> parse_elems t = Some (vs, r) \<Longrightarrow> length r < length t"
    and "\<And>t ms r. length t < length s \<Longrightarrow> parse_members t = Some (ms, r) \<Longrightarrow> length r < length t"
  shows "length r < length s"
proof -
  obtain c t where s: "skip_ws s = c # t" using assms(1) by (cases "skip_ws s") (auto simp: parse_value.simps [of s])
  then have t: "length t < length s" by (rule skip_ws_Cons_length)
  show ?thesis
  proof (cases "c = CHR ''['' \<or> c = CHR ''{''")
    case True
    then show ?thesis
      using assms(1) assms(2,3) [OF t] s t skip_ws_length [of t]
      by (fastforce simp: parse_value.simps [of s] split: list.splits if_splits)
  next
    case False
    then show ?thesis
      using assms(1) s t parse_string_shrinks [of t] parse_scalar_shrinks [of "c # t"] skip_ws_length [of s]
      by (fastforce simp: parse_value.simps [of s] split: if_splits)
  qed
qed

lemma elems_step_shrinks:
  assumes "parse_elems s = Some (vs, r)"
    and vals: "\<And>v u. parse_value s = Some (v, u) \<Longrightarrow> length u < length s"
    and elems: "\<And>t vs r. length t < length s \<Longrightarrow> parse_elems t = Some (vs, r) \<Longrightarrow> length r < length t"
  shows "length r < length s"
proof -
  obtain v u where v: "parse_value s = Some (v, u)"
    using assms(1) by (auto simp: parse_elems.simps [of s] split: option.splits)
  obtain d t where d: "skip_ws u = d # t"
    using assms(1) v by (auto simp: parse_elems.simps [of s] split: list.splits)
  have t: "length t < length s" using skip_ws_Cons_length [OF d] vals [OF v] by simp
  then show ?thesis
    using assms(1) v d elems [OF t] by (fastforce simp: parse_elems.simps [of s] split: if_splits)
qed

lemma members_step_shrinks:
  assumes "parse_members s = Some (ms, r)"
    and vals: "\<And>t v u. length t < length s \<Longrightarrow> parse_value t = Some (v, u) \<Longrightarrow> length u < length t"
    and members: "\<And>t ms r. length t < length s \<Longrightarrow> parse_members t = Some (ms, r) \<Longrightarrow> length r < length t"
  shows "length r < length s"
proof -
  obtain t k u w where *: "skip_ws s = CHR 0x22 # t" "parse_string t = Some (k, u)" "skip_ws u = CHR '':'' # w"
    using assms(1) by (auto simp: parse_members.simps [of s] split: list.splits if_splits option.splits)
  have w: "length w < length s"
    using skip_ws_Cons_length [OF *(1)] parse_string_shrinks [OF *(2)] skip_ws_Cons_length [OF *(3)] by simp
  obtain x y where x: "parse_value w = Some (x, y)"
    using assms(1) * w by (auto simp: parse_members.simps [of s] split: option.splits if_splits)
  obtain e z where e: "skip_ws y = e # z"
    using assms(1) * w x by (auto simp: parse_members.simps [of s] split: list.splits)
  have z: "length z < length s" using skip_ws_Cons_length [OF e] vals [OF w x] w by simp
  then show ?thesis
    using assms(1) * w x e members [OF z] by (fastforce simp: parse_members.simps [of s] split: if_splits)
qed

lemma parse_value_shrinks:
  "parse_value s = Some (v, r) \<Longrightarrow> length r < length s"
  "parse_elems s = Some (vs, r) \<Longrightarrow> length r < length s"
  "parse_members s = Some (ms, r) \<Longrightarrow> length r < length s"
proof (induction "length s" arbitrary: s v r vs ms rule: less_induct)
  case less
  note vals = value_step_shrinks [OF _ less(2,3)]
  { case 1 then show ?case by (rule vals) }
  { case 2 then show ?case using vals less(2) by (rule elems_step_shrinks) }
  { case 3 then show ?case by (rule members_step_shrinks [OF _ less(1,3)]) }
qed

text \<open>A document without numbers and with valid strings is read back as it was written.\<close>

fun plain_json :: "jtext \<Rightarrow> bool" where
  "plain_json (TNum n) = False"
| "plain_json (TStr s) = utf8_valid s"
| "plain_json (TArr vs) = (\<forall>v \<in> set vs. plain_json v)"
| "plain_json (TObj ms) = (\<forall>m \<in> set ms. utf8_valid (fst m) \<and> plain_json (snd m))"
| "plain_json v = True"

lemma marshal_head:
  assumes "plain_json v"
  shows "\<exists>c t. marshal v = c # t \<and> c \<notin> {CHR 0x20, CHR 0x09, CHR 0x0A, CHR 0x0D, CHR '']''}"
  using assms by (cases v) (auto simp: json_string_def)

lemma skip_ws_marshal: "plain_json v \<Longrightarrow> skip_ws (marshal v @ rest) = marshal v @ rest"
  using marshal_head [of v] by auto

lemma skip_ws_elems:
  assumes "plain_json v"
  shows "\<exists>c t. skip_ws (marshal v @ rest) = c # t \<and> c \<noteq> CHR '']''"
  using marshal_head [OF assms] by auto

lemma parse_array:
  assumes "\<forall>v \<in> set vs. plain_json v" "vs \<noteq> [] \<Longrightarrow> parse_elems (marshal_elems vs @ CHR '']'' # rest) = Some (vs, rest)"
  shows "parse_value (marshal (TArr vs) @ rest) = Some (TArr vs, rest)"
proof (cases vs)
  case Nil
  then show ?thesis by (simp add: parse_value.simps)
next
  case (Cons v ws)
  then obtain c t where "skip_ws (marshal_elems vs @ CHR '']'' # rest) = c # t" "c \<noteq> CHR '']''"
    using assms(1) skip_ws_elems [of v "(if ws = [] then '''' else '','' @ marshal_elems ws) @ CHR '']'' # rest"] by auto
  then show ?thesis using assms(2) Cons by (simp add: parse_value.simps [of "CHR ''['' # _"])
qed

lemma parse_object:
  assumes "ms \<noteq> [] \<Longrightarrow> parse_members (marshal_members ms @ CHR ''}'' # rest) = Some (ms, rest)"
  shows "parse_value (marshal (TObj ms) @ rest) = Some (TObj ms, rest)"
proof (cases ms)
  case Nil
  then show ?thesis by (simp add: parse_value.simps)
next
  case (Cons m ws)
  have "\<exists>t. skip_ws (marshal_members ms @ CHR ''}'' # rest) = CHR 0x22 # t"
    by (cases m) (simp add: Cons json_string_def)
  then show ?thesis using assms Cons by (auto simp: parse_value.simps [of "CHR ''{'' # _"])
qed

lemma parse_elem:
  assumes "\<And>r. parse_value (marshal v @ r) = Some (v, r)"
    and "vs \<noteq> [] \<Longrightarrow> parse_elems (marshal_elems vs @ CHR '']'' # rest) = Some (vs, rest)"
  shows "parse_elems (marshal_elems (v # vs) @ CHR '']'' # rest) = Some (v # vs, rest)"
  using assms by (cases "vs = []") (simp_all add: parse_elems.simps [of "marshal v @ _"])

lemma parse_member:
  assumes "\<And>r. parse_value (marshal v @ r) = Some (v, r)" "utf8_valid k"
    and "ms \<noteq> [] \<Longrightarrow> parse_members (marshal_members ms @ CHR ''}'' # rest) = Some (ms, rest)"
  shows "parse_members (marshal_members ((k, v) # ms) @ CHR ''}'' # rest) = Some ((k, v) # ms, rest)"
  using assms
  by (cases "ms = []") (simp_all add: parse_members.simps [of "CHR 0x22 # _"] json_string_def parse_string_escape)

lemma parse_marshal:
  "plain_json v \<Longrightarrow> parse_value (marshal v @ rest) = Some (v, rest)"
  "(\<forall>v \<in> set vs. plain_json v) \<Longrightarrow> vs \<noteq> [] \<Longrightarrow>
     parse_elems (marshal_elems vs @ CHR '']'' # rest) = Some (vs, rest)"
  "(\<forall>m \<in> set ms. utf8_valid (fst m) \<and> plain_json (snd m)) \<Longrightarrow> ms \<noteq> [] \<Longrightarrow>
     parse_members (marshal_members ms @ CHR ''}'' # rest) = Some (ms, rest)"
proof (induction v and vs and ms arbitrary: rest and rest and rest
    rule: marshal_marshal_elems_marshal_members.induct)
  case (4 s)
  then show ?case by (simp add: parse_value.simps json_string_def parse_string_escape)
next
  case (5 vs)
  then show ?case by (intro parse_array) auto
next
  case (6 ms)
  then show ?case by (intro parse_object) auto
next
  case (8 v vs)
  then show ?case by (intro parse_elem) auto
next
  case (10 k v ms)
  then show ?case by (intro parse_member) auto
qed (simp_all add: parse_value.simps parse_scalar_def has_prefix_def)

lemma json_parse_marshal: "plain_json v \<Longrightarrow> json_parse (marshal v) = Some v"
  using parse_marshal(1) [of v "''''"] by (simp add: json_parse_def)

lemma those_strings: "those (map decode_string (map TStr ss)) = Some ss"
  by (induction ss) (simp_all add: decode_string_def)

lemma unmarshal_strings:
  "(\<forall>s \<in> set ss. utf8_valid s) \<Longrightarrow> unmarshal decode_strings (marshal_strings ss) = Inr ss"
  using those_strings [of ss] json_parse_marshal [of "TArr (map TStr ss)"]
  by (simp add: unmarshal_def marshal_strings_def decode_strings_def)

lemma plain_jmap: "plain_json (jmap ms) \<longleftrightarrow> (\<forall>m \<in> set ms. utf8_valid (fst m) \<and> plain_json (snd m))"
  by (simp add: jmap_def)

lemma utf8_valid_append: "utf8_valid s \<Longrightarrow> utf8_valid t \<Longrightarrow> utf8_valid (s @ t)"
proof (induction s rule: utf8_valid.induct)
  case 1
  then show ?case by simp
next
  case (2 c s)
  show ?case
  proof (cases "byte c < 0x80")
    case True
    then show ?thesis using 2 by simp
  next
    case False
    then obtain n where n: "rune_len (c # s) = Some n" "utf8_valid (drop (n - 1) s)"
      using "2.prems"(1) by (auto split: option.splits)
    obtain r where r: "take n (c # s) = c # r" "length r = n - 1" "0 < n" "\<And>t. rune_len (c # r @ t) = Some n"
      using rune_len_split [OF n(1)] by (cases n) auto
    then obtain m where m: "n = Suc m" "take m s = r" "length r = m" by (cases n) auto
    then have s: "s = r @ drop m s" by (metis append_take_drop_id)
    have "rune_len (c # s @ t) = Some n" using r(4) [of "drop m s @ t"] by (subst s) simp
    moreover have "drop (n - 1) (s @ t) = drop (n - 1) s @ t" using m by (subst s) simp
    ultimately show ?thesis using False "2.IH"(2) [OF False n] "2.prems"(2) by simp
  qed
qed

end
