(* ===== verification/Sha.thy ===== *)
theory Sha
  imports Md5
begin

text \<open>
  \<open>crypto/sha256\<close> and \<open>crypto/sha1\<close> (FIPS 180-4): the digests that shorten the names of
  AWS resources and identify a certificate.
\<close>

section \<open>Big-endian words and padding\<close>

definition be_bytes :: "32 word \<Rightarrow> nat list" where
  "be_bytes w = rev (word_bytes w)"

definition be_word :: "nat list \<Rightarrow> 32 word" where
  "be_word bs = le_word (rev bs)"

definition sha_padded :: "string \<Rightarrow> nat list" where
  "sha_padded s =
     (let bytes = map of_char s; n = length bytes in
      bytes @ [128] @ replicate ((119 - n mod 64) mod 64) 0 @ rev (le_bytes 8 (8 * n)))"

definition sha_blocks :: "string \<Rightarrow> 32 word list list" where
  "sha_blocks s = map (map be_word) (map (chunks 4) (chunks 64 (sha_padded s)))"

section \<open>SHA-256\<close>

text \<open>
  The constants are the first 32 bits of the fractional parts of the roots of the first primes:
  the integer root, bit by bit, of the prime scaled up, cut to a word.
\<close>

primrec root_bits :: "nat \<Rightarrow> nat \<Rightarrow> nat \<Rightarrow> nat \<Rightarrow> nat" where
  "root_bits k n acc 0 = acc"
| "root_bits k n acc (Suc b) = root_bits k n (if (acc + 2 ^ b) ^ k \<le> n then acc + 2 ^ b else acc) b"

definition root_word :: "nat \<Rightarrow> nat \<Rightarrow> 32 word" where
  "root_word k p = word_of_nat (root_bits k (p * 2 ^ (32 * k)) 0 40)"

definition first_primes :: "nat list" where
  "first_primes = filter (\<lambda>p. list_all (\<lambda>d. p mod d \<noteq> 0) [2..<p]) [2..<312]"

definition sha256_table :: "32 word list" where
  "sha256_table = map (root_word 3) first_primes"

definition sha256_init :: "32 word list" where
  "sha256_init = map (root_word 2) [2, 3, 5, 7, 11, 13, 17, 19]"

definition sha256_extend :: "32 word list \<Rightarrow> nat \<Rightarrow> 32 word list" where
  "sha256_extend w i =
     (let x = w ! (i - 15); y = w ! (i - 2);
          s0 = word_rotr 7 x XOR word_rotr 18 x XOR drop_bit 3 x;
          s1 = word_rotr 17 y XOR word_rotr 19 y XOR drop_bit 10 y
      in w @ [w ! (i - 16) + s0 + w ! (i - 7) + s1])"

definition sha256_round :: "32 word list \<Rightarrow> nat \<Rightarrow> 32 word list \<Rightarrow> 32 word list" where
  "sha256_round w i st =
     (case st of
        [a, b, c, d, e, f, g, h] \<Rightarrow>
          let s1 = word_rotr 6 e XOR word_rotr 11 e XOR word_rotr 25 e;
              ch = (e AND f) XOR (NOT e AND g);
              t1 = h + s1 + ch + sha256_table ! i + w ! i;
              s0 = word_rotr 2 a XOR word_rotr 13 a XOR word_rotr 22 a;
              maj = (a AND b) XOR (a AND c) XOR (b AND c)
          in [t1 + s0 + maj, a, b, c, d + t1, e, f, g]
      | _ \<Rightarrow> st)"

definition sha256_block :: "32 word list \<Rightarrow> 32 word list \<Rightarrow> 32 word list" where
  "sha256_block block st =
     (let w = foldl sha256_extend block [16..<64];
          t = fold (sha256_round w) [0..<64] st
      in map2 (+) st t)"

definition sha256_sum :: "string \<Rightarrow> nat list" where
  "sha256_sum s = concat (map be_bytes (fold sha256_block (sha_blocks s) sha256_init))"

definition sha256_hex :: "string \<Rightarrow> string" where
  "sha256_hex s = hex_encode (sha256_sum s)"

section \<open>SHA-1\<close>

definition sha1_init :: "32 word list" where
  "sha1_init = [0x67452301, 0xefcdab89, 0x98badcfe, 0x10325476, 0xc3d2e1f0]"

definition sha1_extend :: "32 word list \<Rightarrow> nat \<Rightarrow> 32 word list" where
  "sha1_extend w i = w @ [word_rotl 1 (w ! (i - 3) XOR w ! (i - 8) XOR w ! (i - 14) XOR w ! (i - 16))]"

definition sha1_round :: "32 word list \<Rightarrow> nat \<Rightarrow> 32 word list \<Rightarrow> 32 word list" where
  "sha1_round w i st =
     (case st of
        [a, b, c, d, e] \<Rightarrow>
          let (f, k) =
            (if i < 20 then ((b AND c) OR (NOT b AND d), 0x5a827999)
             else if i < 40 then (b XOR c XOR d, 0x6ed9eba1)
             else if i < 60 then ((b AND c) OR (b AND d) OR (c AND d), 0x8f1bbcdc)
             else (b XOR c XOR d, 0xca62c1d6))
          in [word_rotl 5 a + f + e + k + w ! i, a, word_rotl 30 b, c, d]
      | _ \<Rightarrow> st)"

definition sha1_block :: "32 word list \<Rightarrow> 32 word list \<Rightarrow> 32 word list" where
  "sha1_block block st =
     (let w = foldl sha1_extend block [16..<80];
          t = fold (sha1_round w) [0..<80] st
      in map2 (+) st t)"

definition sha1_hex :: "string \<Rightarrow> string" where
  "sha1_hex s = hex_encode (concat (map be_bytes (fold sha1_block (sha_blocks s) sha1_init)))"

section \<open>Lengths\<close>

lemma be_bytes_length [simp]: "length (be_bytes w) = 4"
  by (simp add: be_bytes_def word_bytes_def)

lemma hex_encode_length [simp]: "length (hex_encode bs) = 2 * length bs"
  by (induction bs) (simp_all add: hex_encode_def)

lemma hex_encode_digits: "set (hex_encode bs) \<subseteq> set ''0123456789abcdef''"
  using hex_digit_set by (fastforce simp: hex_encode_def)

lemma concat_be_bytes_length: "length (concat (map be_bytes ws)) = 4 * length ws"
  by (induction ws) simp_all

lemma sha256_round_length: "length (sha256_round w i st) = length st"
  by (auto simp: sha256_round_def Let_def split: list.split)

lemma fold_length:
  "(\<And>x st. length (f x st) = length st) \<Longrightarrow> length (fold f xs st) = length st"
  by (induction xs arbitrary: st) simp_all

lemma sha256_block_length: "length (sha256_block b st) = length st"
  by (simp add: sha256_block_def Let_def fold_length sha256_round_length)

lemma sha256_hex_length: "length (sha256_hex s) = 64"
  by (simp add: sha256_hex_def sha256_sum_def concat_be_bytes_length fold_length sha256_block_length
      sha256_init_def)

lemma sha1_round_length: "length (sha1_round w i st) = length st"
  by (auto simp: sha1_round_def Let_def split: list.split prod.split)

lemma sha1_hex_length: "length (sha1_hex s) = 40"
proof -
  have "length (sha1_block b st) = length st" for b st
    by (simp add: sha1_block_def Let_def fold_length sha1_round_length)
  then show ?thesis by (simp add: sha1_hex_def concat_be_bytes_length fold_length sha1_init_def)
qed

end
