(* ===== verification/AckObjects.thy ===== *)
theory AckObjects
  imports EksCommon GoUrl GoJson Sha
begin

text \<open>
  What the two bootstrappers of the EKS plugin do with unstructured objects (functions of
  \<open>karpenter_bootstrapper_controller.go\<close>, most of them shared with
  \<open>ocm_awsirsa_bootstrapper_controller.go\<close>): filling in an object field by field, the managed
  upsert of it, resource tags, names of AWS resources, and the mapping of an event of a managed
  object to its cluster.
\<close>

section \<open>Filling in an object\<close>

definition mutationErrorObjectKey :: string where
  "mutationErrorObjectKey = ''eks.kany8s.io/internal-mutation-error''"

definition karpenterManagedByValue :: string where "karpenterManagedByValue = ''eks-karpenter-bootstrapper''"

definition set_annotation :: "string \<Rightarrow> string \<Rightarrow> unstructured \<Rightarrow> unstructured" where
  "set_annotation k v u =
     u\<lparr>un_meta := (un_meta u)\<lparr>om_Annotations := fmupd k v (om_Annotations (un_meta u))\<rparr>\<rparr>"

definition setRegionAnnotation :: "string \<Rightarrow> unstructured \<Rightarrow> unstructured" where
  "setRegionAnnotation region u = set_annotation ACKRegionMetadataAnnotationKey region u"

definition setManagedBy :: "unstructured \<Rightarrow> unstructured" where
  "setManagedBy u = set_annotation ManagedByAnnotationKey karpenterManagedByValue u"

definition setClusterLabel :: "string \<Rightarrow> unstructured \<Rightarrow> unstructured" where
  "setClusterLabel clusterName u =
     u\<lparr>un_meta := (un_meta u)\<lparr>om_Labels := fmupd capiClusterNameLabelKey clusterName (om_Labels (un_meta u))\<rparr>\<rparr>"

text \<open>A failed write of a nested field is kept in the object itself, the first one only.\<close>

definition setMutationError :: "go_error \<Rightarrow> unstructured \<Rightarrow> unstructured" where
  "setMutationError e u =
     (if fmlookup (un_Object u) mutationErrorObjectKey \<noteq> None then u
      else u\<lparr>un_Object := fmupd mutationErrorObjectKey (JStr (err_text e)) (un_Object u)\<rparr>)"

definition mustSetNestedField :: "apilib \<Rightarrow> json \<Rightarrow> string list \<Rightarrow> unstructured \<Rightarrow> unstructured" where
  "mustSetNestedField lib v path u =
     (case lib_SetNestedField lib (un_Object u) v path of
        Inl e \<Rightarrow> setMutationError e u
      | Inr d \<Rightarrow> u\<lparr>un_Object := d\<rparr>)"

definition popMutationError :: "unstructured \<Rightarrow> unstructured result" where
  "popMutationError u =
     (case fmlookup (un_Object u) mutationErrorObjectKey of
        None \<Rightarrow> Inr u
      | Some raw \<Rightarrow>
          let msg = TrimSpace (case raw of JStr s \<Rightarrow> s | _ \<Rightarrow> '''') in
          Inl (errorf (''mutate object fields: '' @
            (if msg = '''' then ''unknown nested field mutation error'' else msg))))"

text \<open>A sequence of writes below \<open>spec\<close>, in the order of the code.\<close>

definition set_spec :: "apilib \<Rightarrow> (string \<times> json) list \<Rightarrow> unstructured \<Rightarrow> unstructured" where
  "set_spec lib fs u = fold (\<lambda>(k, v). mustSetNestedField lib v [''spec'', k]) fs u"

section \<open>The managed upsert of an object\<close>

text \<open>The three values in which the bootstrappers differ.\<close>

record bootstrapper =
  bs_Controller :: string
  bs_ManagedBy :: string
  bs_TakeoverReason :: string

definition is_managed_by :: "string \<Rightarrow> str_map \<Rightarrow> bool" where
  "is_managed_by v annotations \<longleftrightarrow>
     annotations \<noteq> fmempty \<and> TrimSpace (str_get annotations ManagedByAnnotationKey) = v"

definition isManagedByBootstrapper :: "str_map \<Rightarrow> bool" where
  "isManagedByBootstrapper annotations = is_managed_by karpenterManagedByValue annotations"

definition own_unstructured ::
    "apilib \<Rightarrow> cluster \<Rightarrow> (unstructured \<Rightarrow> unstructured) \<Rightarrow> unstructured \<Rightarrow> unstructured result" where
  "own_unstructured lib owner fill u =
     (case popMutationError (fill u) of
        Inl e \<Rightarrow> Inl e
      | Inr u' \<Rightarrow> map_sum id (\<lambda>m. u'\<lparr>un_meta := m\<rparr>)
          (lib_SetOwnerReference lib capiClusterGVK (cl_meta owner) (un_meta u')))"

definition took_over_message :: "unstructured \<Rightarrow> string" where
  "took_over_message u = ''took over unmanaged '' @ gvk_Kind (un_GVK u) @ '' '' @ om_Namespace (un_meta u) @
     ''/'' @ om_Name (un_meta u) @ '' because '' @ quote AllowUnmanagedTakeoverAnnotationKey @ '' is enabled''"

definition upsertManagedUnstructured ::
    "bootstrapper \<Rightarrow> eks_env \<Rightarrow> cluster \<Rightarrow> gvk \<Rightarrow> string \<Rightarrow> (unstructured \<Rightarrow> unstructured) \<Rightarrow> bool result eks_eff" where
  "upsertManagedUnstructured b env owner g name fill =
     (let ns = om_Namespace (cl_meta owner) in
      bind_eff (upsert_managed (eks_get env g (object_key ns name))
        (\<lambda>u. eks_write env (EksCreate u)) (\<lambda>u. eks_write env (EksUpdate u))
        (\<lambda>u. eks_emitEvent (bs_Controller b) env owner EventTypeNormal (bs_TakeoverReason b) (took_over_message u))
        (\<lambda>u. is_managed_by (bs_ManagedBy b) (om_Annotations (un_meta u)))
        (IsUnmanagedTakeoverEnabled (om_Annotations (cl_meta owner)))
        (own_unstructured (ee_lib env) owner fill) (new_unstructured g ns name))
      (\<lambda>r. ret (map_sum id ur_Managed r)))"

text \<open>The event of a managed object: its cluster.\<close>

definition mapManagedObjectToCAPICluster :: "string \<Rightarrow> obj_meta \<Rightarrow> object_key list" where
  "mapManagedObjectToCAPICluster managedBy m =
     (let clusterName = TrimSpace (str_get (om_Labels m) capiClusterNameLabelKey);
          namespace = TrimSpace (om_Namespace m) in
      if om_Labels m = fmempty then []
      else if clusterName = '''' then []
      else if \<not> is_managed_by managedBy (om_Annotations m) then []
      else if namespace = '''' then []
      else [object_key namespace clusterName])"

section \<open>The cluster\<close>

definition patch_cluster :: "eks_env \<Rightarrow> cluster \<Rightarrow> cluster \<Rightarrow> cluster result eks_eff" where
  "patch_cluster env before after = perform (EksPatchCluster before after) (\<lambda>h. ee_patchCluster env h before after)"

definition set_meta :: "(obj_meta \<Rightarrow> obj_meta) \<Rightarrow> cluster \<Rightarrow> cluster" where
  "set_meta f c = c\<lparr>cl_meta := f (cl_meta c)\<rparr>"

definition ensureClusterNameLabel :: "eks_env \<Rightarrow> cluster \<Rightarrow> cluster result eks_eff" where
  "ensureClusterNameLabel env c =
     (let labels = om_Labels (cl_meta c); name = om_Name (cl_meta c);
          labels' = fmupd capiClusterNameLabelKey name labels in
      if labels \<noteq> fmempty \<and> TrimSpace (str_get labels capiClusterNameLabelKey) = name then ret (Inr c)
      else if labels' = labels then ret (Inr c)
      else patch_cluster env c (set_meta (\<lambda>m. m\<lparr>om_Labels := labels'\<rparr>) c))"

section \<open>Prerequisites\<close>

definition missingAPIs :: "(gvk \<Rightarrow> bool) \<Rightarrow> gvk list \<Rightarrow> gvk list" where
  "missingAPIs available gvks = filter (\<lambda>g. \<not> available g) gvks"

definition joinGVKs :: "apilib \<Rightarrow> gvk list \<Rightarrow> string" where
  "joinGVKs lib gvks =
     (if gvks = [] then '''' else str_join (sort_strings (map (lib_GVKString lib) gvks)) '', '')"

section \<open>Tags\<close>

text \<open>
  \<open>extra\<close> is listed in the order in which the map is iterated; it matters only for keys that
  are equal after trimming.
\<close>

fun add_tags :: "(string \<times> string) list \<Rightarrow> str_map \<Rightarrow> str_map" where
  "add_tags [] tags = tags"
| "add_tags ((k, v) # extra) tags =
     add_tags extra (if TrimSpace k = '''' then tags else fmupd (TrimSpace k) (TrimSpace v) tags)"

definition bootstrapperResourceTags :: "cluster \<Rightarrow> (string \<times> string) list \<Rightarrow> str_map" where
  "bootstrapperResourceTags owner extra =
     (let m = cl_meta owner;
          tags = fmupd ''kany8s.io/cluster-namespace'' (om_Namespace m)
            (fmupd ''kany8s.io/cluster-name'' (om_Name m)
              (fmupd ''kany8s.io/managed-by'' karpenterManagedByValue fmempty));
          v = TrimSpace (str_get (om_Annotations m) EKSClusterNameAnnotationKey);
          tags' = add_tags extra (if v = '''' then tags else fmupd ''kany8s.io/eks-cluster-name'' v tags)
      in fmfilter (\<lambda>k. TrimSpace (str_get tags' k) \<noteq> '''') tags')"

definition map_keys :: "(string, 'v) fmap \<Rightarrow> string list" where
  "map_keys m = sorted_list_of_fset (fmdom m)"

definition awsTagsAsSlice :: "str_map \<Rightarrow> json list" where
  "awsTagsAsSlice tags =
     map (\<lambda>k. JObj (fmupd ''value'' (JStr (str_get tags k)) (fmupd ''key'' (JStr k) fmempty))) (map_keys tags)"

definition awsTagsAsMap :: "str_map \<Rightarrow> doc" where
  "awsTagsAsMap tags = fmmap JStr tags"

section \<open>Names and lists\<close>

text \<open>
  \<open>None\<close> is the panic of a slice out of range: with a maximum of 13 the 12 digits of the hash
  are sliced up to 13.
\<close>

definition shortenAWSName :: "string \<Rightarrow> int \<Rightarrow> string option" where
  "shortenAWSName name limit =
     (let trimmed = TrimSpace name in
      if trimmed = '''' then Some ''''
      else if limit \<le> 0 then Some trimmed
      else if int (length trimmed) \<le> limit then Some trimmed
      else let suffix = take 12 (sha256_hex trimmed); keep = limit - 13 in
        if keep < 1 then (if limit \<le> int (length suffix) then Some (take (nat limit) suffix) else None)
        else Some (take (nat keep) trimmed @ ''-'' @ suffix))"

text \<open>The callers pass a constant maximum of 63 or more, for which there is a name.\<close>

definition aws_name :: "string \<Rightarrow> int \<Rightarrow> string" where
  "aws_name name limit = the (shortenAWSName name limit)"

fun distinct_trimmed :: "string list \<Rightarrow> string list \<Rightarrow> string list" where
  "distinct_trimmed seen [] = []"
| "distinct_trimmed seen (v # vs) =
     (if TrimSpace v = '''' \<or> TrimSpace v \<in> set seen then distinct_trimmed seen vs
      else TrimSpace v # distinct_trimmed (TrimSpace v # seen) vs)"

definition normalizeDistinctStrings :: "string list \<Rightarrow> string list" where
  "normalizeDistinctStrings values = sort_strings (distinct_trimmed [] values)"

definition normalizeIssuerHostPath :: "apilib \<Rightarrow> string \<Rightarrow> string result" where
  "normalizeIssuerHostPath lib issuerURL =
     (let trimmed = TrimSpace issuerURL in
      if trimmed = '''' then Inl (errorf ''issuer URL is empty'')
      else (case url_Parse (lib_ip_literal_error lib) trimmed of
          Inl e \<Rightarrow> Inl (wrapf (''parse issuer url '' @ quote issuerURL) e)
        | Inr u \<Rightarrow>
            if url_Scheme u \<noteq> ''https'' then Inl (errorf (''issuer url scheme must be https: '' @ quote issuerURL))
            else if url_Host u = '''' then Inl (errorf (''issuer url host is empty: '' @ quote issuerURL))
            else Inr (trim_suffix (url_Host u @ url_Path u) ''/'')))"

section \<open>What a bootstrapper fills in\<close>

text \<open>
  The marks of an object (a region for the ACK kinds, the manager, the cluster), then its fields,
  in the order of every callback of the bootstrappers.
\<close>

definition fill_object ::
    "apilib \<Rightarrow> string \<Rightarrow> string option \<Rightarrow> string \<Rightarrow> (string \<times> json) list \<Rightarrow> unstructured \<Rightarrow> unstructured" where
  "fill_object lib managedBy region clusterName fs u =
     set_spec lib fs (setClusterLabel clusterName (set_annotation ManagedByAnnotationKey managedBy
       (case region of None \<Rightarrow> u | Some r \<Rightarrow> setRegionAnnotation r u)))"

definition spec_of :: "doc \<Rightarrow> doc option" where
  "spec_of d = (case fmlookup d ''spec'' of None \<Rightarrow> Some fmempty | Some (JObj m) \<Rightarrow> Some m | Some _ \<Rightarrow> None)"

definition upd_all :: "(string \<times> 'a) list \<Rightarrow> (string, 'a) fmap \<Rightarrow> (string, 'a) fmap" where
  "upd_all fs m = fold (\<lambda>(k, v). fmupd k v) fs m"

lemma upd_all_simps [simp]: "upd_all [] m = m" "upd_all ((k, v) # fs) m = upd_all fs (fmupd k v m)"
  by (simp_all add: upd_all_def)

lemma upd_all_lookup:
  "fmlookup (upd_all fs m) k = (case map_of (rev fs) k of None \<Rightarrow> fmlookup m k | Some v \<Rightarrow> Some v)"
  by (induction fs arbitrary: m) (auto simp: map_add_def split: option.splits)

lemma upd_all_again: "upd_all fs (upd_all fs m) = upd_all fs m"
  by (rule fmap_ext) (simp add: upd_all_lookup split: option.split)

lemma spec_not_error [simp]:
  "''spec'' \<noteq> mutationErrorObjectKey" "mutationErrorObjectKey \<noteq> ''spec''"
  by (simp_all add: mutationErrorObjectKey_def)

lemma set_spec_field:
  assumes "set_nested_laws lib"
  shows "spec_of d = Some m \<Longrightarrow> lib_SetNestedField lib d v [''spec'', k] = Inr (fmupd ''spec'' (JObj (fmupd k v m)) d)"
    and "spec_of d = None \<Longrightarrow> \<exists>e. lib_SetNestedField lib d v [''spec'', k] = Inl e"
proof -
  have *: "case set_at d [''spec'', k] v of Some d' \<Rightarrow> lib_SetNestedField lib d v [''spec'', k] = Inr d'
      | None \<Rightarrow> \<exists>e. lib_SetNestedField lib d v [''spec'', k] = Inl e"
    using assms unfolding set_nested_laws_def by blast
  then show "spec_of d = Some m \<Longrightarrow> lib_SetNestedField lib d v [''spec'', k] = Inr (fmupd ''spec'' (JObj (fmupd k v m)) d)"
    by (auto simp: spec_of_def split: option.splits json.splits)
  show "spec_of d = None \<Longrightarrow> \<exists>e. lib_SetNestedField lib d v [''spec'', k] = Inl e"
    using * by (auto simp: spec_of_def split: option.splits json.splits)
qed

lemma set_spec_simps [simp]:
  "set_spec lib [] u = u"
  "set_spec lib ((k, v) # fs) u = set_spec lib fs (mustSetNestedField lib v [''spec'', k] u)"
  by (simp_all add: set_spec_def)

lemma spec_of_upd [simp]: "spec_of (fmupd ''spec'' (JObj m) d) = Some m"
  by (simp add: spec_of_def)

text \<open>Where the object has no spec of another type, all fields are written.\<close>

lemma set_spec_ok:
  assumes "set_nested_laws lib" "fs \<noteq> []" "spec_of (un_Object u) = Some m"
  shows "set_spec lib fs u = u\<lparr>un_Object := fmupd ''spec'' (JObj (upd_all fs m)) (un_Object u)\<rparr>"
  using assms(2,3)
proof (induction fs arbitrary: u m)
  case Nil
  then show ?case by simp
next
  case (Cons f fs)
  obtain k v where f: "f = (k, v)" by fastforce
  let ?u = "u\<lparr>un_Object := fmupd ''spec'' (JObj (fmupd k v m)) (un_Object u)\<rparr>"
  have "mustSetNestedField lib v [''spec'', k] u = ?u"
    using set_spec_field(1) [OF assms(1) Cons.prems(2)] by (simp add: mustSetNestedField_def)
  moreover have "spec_of (un_Object ?u) = Some (fmupd k v m)" by simp
  ultimately show ?case
  proof (cases "fs = []")
    case False
    have "fmupd ''spec'' x (fmupd ''spec'' y d) = fmupd ''spec'' x d" for x y :: json and d
      by (rule fmap_ext) simp
    then show ?thesis
      using f Cons.IH [OF False \<open>spec_of (un_Object ?u) = Some (fmupd k v m)\<close>]
        \<open>mustSetNestedField lib v [''spec'', k] u = ?u\<close> by simp
  qed (simp add: f)
qed

lemma setMutationError_keeps:
  "fmlookup (un_Object (setMutationError e u)) mutationErrorObjectKey \<noteq> None"
  by (simp add: setMutationError_def)

lemma set_spec_keeps_error:
  assumes "set_nested_laws lib" "fmlookup (un_Object u) mutationErrorObjectKey \<noteq> None"
  shows "fmlookup (un_Object (set_spec lib fs u)) mutationErrorObjectKey \<noteq> None"
  using assms(2)
proof (induction fs arbitrary: u)
  case Nil
  then show ?case by simp
next
  case (Cons f fs)
  obtain k v where f: "f = (k, v)" by fastforce
  have "fmlookup (un_Object (mustSetNestedField lib v [''spec'', k] u)) mutationErrorObjectKey \<noteq> None"
  proof (cases "spec_of (un_Object u)")
    case None
    then obtain e where "lib_SetNestedField lib (un_Object u) v [''spec'', k] = Inl e"
      using set_spec_field(2) [OF assms(1)] by blast
    then show ?thesis using setMutationError_keeps [of e u] by (simp add: mustSetNestedField_def)
  next
    case (Some m)
    then show ?thesis
      using set_spec_field(1) [OF assms(1) Some] Cons.prems by (simp add: mustSetNestedField_def)
  qed
  then show ?case using Cons.IH f by simp
qed

text \<open>The upsert sees no error exactly when every write of a field succeeded.\<close>

lemma pop_set_spec:
  assumes "set_nested_laws lib" "fs \<noteq> []" "popMutationError (set_spec lib fs u) = Inr u'"
  obtains m where "spec_of (un_Object u) = Some m" "fmlookup (un_Object u) mutationErrorObjectKey = None"
    "u' = u\<lparr>un_Object := fmupd ''spec'' (JObj (upd_all fs m)) (un_Object u)\<rparr>"
proof -
  have none: "fmlookup (un_Object (set_spec lib fs u)) mutationErrorObjectKey = None" "u' = set_spec lib fs u"
    using assms(3) by (auto simp: popMutationError_def Let_def split: option.splits)
  have clean: "fmlookup (un_Object u) mutationErrorObjectKey = None"
    using set_spec_keeps_error [OF assms(1)] none(1) by blast
  obtain m where m: "spec_of (un_Object u) = Some m"
  proof (cases "spec_of (un_Object u)")
    case None
    obtain k v fs' where fs: "fs = (k, v) # fs'" using assms(2) by (cases fs) auto
    obtain e where "lib_SetNestedField lib (un_Object u) v [''spec'', k] = Inl e"
      using set_spec_field(2) [OF assms(1) None] by blast
    then have "fmlookup (un_Object (set_spec lib fs u)) mutationErrorObjectKey \<noteq> None"
      using set_spec_keeps_error [OF assms(1) setMutationError_keeps] fs by (simp add: mustSetNestedField_def)
    then show ?thesis using none(1) by blast
  qed
  show thesis using that [OF m clean] set_spec_ok [OF assms(1,2) m] none(2) by simp
qed

section \<open>The object as a managed object\<close>

lemma annotation_key_region: "ACKRegionMetadataAnnotationKey \<noteq> ManagedByAnnotationKey"
  by (simp add: ACKRegionMetadataAnnotationKey_def ManagedByAnnotationKey_def)

text \<open>The marks only, without the fields.\<close>

definition mark_object :: "string \<Rightarrow> string option \<Rightarrow> string \<Rightarrow> unstructured \<Rightarrow> unstructured" where
  "mark_object managedBy region clusterName u =
     setClusterLabel clusterName (set_annotation ManagedByAnnotationKey managedBy
       (case region of None \<Rightarrow> u | Some r \<Rightarrow> setRegionAnnotation r u))"

lemma fill_object_mark: "fill_object lib mb region cn fs u = set_spec lib fs (mark_object mb region cn u)"
  by (simp add: fill_object_def mark_object_def)

lemma mark_object_simps [simp]:
  "un_Object (mark_object mb region cn u) = un_Object u"
  "un_GVK (mark_object mb region cn u) = un_GVK u"
  "om_Name (un_meta (mark_object mb region cn u)) = om_Name (un_meta u)"
  "om_Namespace (un_meta (mark_object mb region cn u)) = om_Namespace (un_meta u)"
  "fmlookup (om_Annotations (un_meta (mark_object mb region cn u))) ManagedByAnnotationKey = Some mb"
  "fmlookup (om_Labels (un_meta (mark_object mb region cn u))) capiClusterNameLabelKey = Some cn"
  by (cases region; simp add: mark_object_def setClusterLabel_def set_annotation_def setRegionAnnotation_def)+

lemma mark_object_again:
  "mark_object mb region cn (mark_object mb region cn u\<lparr>un_meta := (un_meta (mark_object mb region cn u))
      \<lparr>om_OwnerReferences := rs\<rparr>, un_Object := d\<rparr>) =
   mark_object mb region cn u\<lparr>un_meta := (un_meta (mark_object mb region cn u))\<lparr>om_OwnerReferences := rs\<rparr>, un_Object := d\<rparr>"
proof -
  have "fmupd k v (fmupd j w (fmupd k v (fmupd j w m))) = fmupd k v (fmupd j w m)"
    "fmupd k v (fmupd k v m) = fmupd k v m" for k j v w :: string and m
    by (rule fmap_ext, simp)+
  then show ?thesis
    by (cases region) (simp_all add: mark_object_def setClusterLabel_def set_annotation_def setRegionAnnotation_def)
qed

lemma own_fill_fields:
  assumes "set_nested_laws lib" "owner_laws lib" "fs \<noteq> []"
    and "own_unstructured lib c (fill_object lib mb region cn fs) u = Inr t"
  obtains m rs where "spec_of (un_Object u) = Some m" "fmlookup (un_Object u) mutationErrorObjectKey = None"
    "t = mark_object mb region cn u\<lparr>un_meta := (un_meta (mark_object mb region cn u))\<lparr>om_OwnerReferences := rs\<rparr>,
       un_Object := fmupd ''spec'' (JObj (upd_all fs m)) (un_Object u)\<rparr>"
    "lib_SetOwnerReference lib capiClusterGVK (cl_meta c) (un_meta t) = Inr (un_meta t)"
proof -
  let ?u = "mark_object mb region cn u"
  obtain u' where u': "popMutationError (set_spec lib fs ?u) = Inr u'"
    using assms(4) by (cases "popMutationError (set_spec lib fs ?u)") (auto simp: own_unstructured_def fill_object_mark)
  obtain m where m: "spec_of (un_Object u) = Some m" "fmlookup (un_Object u) mutationErrorObjectKey = None"
      "u' = ?u\<lparr>un_Object := fmupd ''spec'' (JObj (upd_all fs m)) (un_Object u)\<rparr>"
    by (rule pop_set_spec [OF assms(1,3) u']) simp
  obtain w where w: "lib_SetOwnerReference lib capiClusterGVK (cl_meta c) (un_meta u') = Inr w" "t = u'\<lparr>un_meta := w\<rparr>"
    using assms(4) u' by (cases "lib_SetOwnerReference lib capiClusterGVK (cl_meta c) (un_meta u')")
      (auto simp: own_unstructured_def fill_object_mark)
  obtain rs where "w = (un_meta u')\<lparr>om_OwnerReferences := rs\<rparr>"
    "lib_SetOwnerReference lib capiClusterGVK (cl_meta c) w = Inr w"
    using assms(2) w(1) unfolding owner_laws_def by blast
  then show thesis using that [OF m(1,2), of rs] m(3) w(2) by simp
qed

lemma own_fill_managed:
  assumes laws: "set_nested_laws lib" "owner_laws lib" and mb: "trimmed mb" and fs: "fs \<noteq> []"
  shows "managed_object (\<lambda>u. is_managed_by mb (om_Annotations (un_meta u)))
    (own_unstructured lib c (fill_object lib mb region cn fs))"
proof
  fix u t assume t: "own_unstructured lib c (fill_object lib mb region cn fs) u = Inr t"
  obtain m rs where f: "spec_of (un_Object u) = Some m" "fmlookup (un_Object u) mutationErrorObjectKey = None"
    "t = mark_object mb region cn u\<lparr>un_meta := (un_meta (mark_object mb region cn u))\<lparr>om_OwnerReferences := rs\<rparr>,
       un_Object := fmupd ''spec'' (JObj (upd_all fs m)) (un_Object u)\<rparr>"
    "lib_SetOwnerReference lib capiClusterGVK (cl_meta c) (un_meta t) = Inr (un_meta t)"
    by (rule own_fill_fields [OF laws fs t])
  have "fmlookup (om_Annotations (un_meta t)) ManagedByAnnotationKey = Some mb" by (simp add: f(3))
  moreover from this have "om_Annotations (un_meta t) \<noteq> fmempty" by auto
  ultimately show "is_managed_by mb (om_Annotations (un_meta t))"
    using mb by (simp add: is_managed_by_def str_get_def TrimSpace_id)
  have mark: "mark_object mb region cn t = t" unfolding f(3) by (rule mark_object_again)
  have spec: "spec_of (un_Object t) = Some (upd_all fs m)" by (simp add: f(3))
  have "fmupd ''spec'' (JObj (upd_all fs m)) (un_Object t) = un_Object t"
    by (simp add: f(3) fmupd_same)
  then have "fill_object lib mb region cn fs t = t"
    unfolding fill_object_mark mark set_spec_ok [OF laws(1) fs spec] upd_all_again by simp
  moreover have "popMutationError t = Inr t" using f(2) by (simp add: popMutationError_def f(3))
  ultimately show "own_unstructured lib c (fill_object lib mb region cn fs) t = Inr t"
    using f(4) by (simp add: own_unstructured_def)
qed

section \<open>What the upsert writes\<close>

definition object_of :: "string \<Rightarrow> cluster \<Rightarrow> unstructured \<Rightarrow> bool" where
  "object_of mb c u \<longleftrightarrow> is_managed_by mb (om_Annotations (un_meta u)) \<and>
     fmlookup (om_Labels (un_meta u)) capiClusterNameLabelKey = Some (om_Name (cl_meta c))"

text \<open>
  A new object in the cluster's namespace, or one that was read there, is the manager's or may be
  taken over, and of which only metadata and spec change.
\<close>

definition managed_write :: "string \<Rightarrow> eks_env \<Rightarrow> cluster \<Rightarrow> eks_call \<Rightarrow> bool" where
  "managed_write mb env c w =
     (case w of
        EksCreate u \<Rightarrow> object_of mb c u \<and> om_Namespace (un_meta u) = om_Namespace (cl_meta c)
      | EksUpdate u \<Rightarrow> object_of mb c u \<and>
          (\<exists>h g name old. ee_get env h g (object_key (om_Namespace (cl_meta c)) name) = Inr old \<and>
             (is_managed_by mb (om_Annotations (un_meta old)) \<or>
              IsUnmanagedTakeoverEnabled (om_Annotations (cl_meta c))) \<and>
             un_GVK u = un_GVK old \<and> key_of (un_meta u) = key_of (un_meta old) \<and>
             (\<forall>k. k \<noteq> ''spec'' \<longrightarrow> fmlookup (un_Object u) k = fmlookup (un_Object old) k))
      | _ \<Rightarrow> True)"

lemma own_fill_object:
  assumes "set_nested_laws lib" "owner_laws lib" "trimmed mb" "fs \<noteq> []"
    and "own_unstructured lib c (fill_object lib mb region (om_Name (cl_meta c)) fs) u = Inr t"
  shows "object_of mb c t" "un_GVK t = un_GVK u" "key_of (un_meta t) = key_of (un_meta u)"
    "om_Namespace (un_meta t) = om_Namespace (un_meta u)"
    "k \<noteq> ''spec'' \<Longrightarrow> fmlookup (un_Object t) k = fmlookup (un_Object u) k"
    "\<exists>m. spec_of (un_Object u) = Some m \<and> spec_of (un_Object t) = Some (upd_all fs m)"
proof -
  obtain m rs where f: "spec_of (un_Object u) = Some m" "fmlookup (un_Object u) mutationErrorObjectKey = None"
    "t = mark_object mb region (om_Name (cl_meta c)) u\<lparr>un_meta :=
         (un_meta (mark_object mb region (om_Name (cl_meta c)) u))\<lparr>om_OwnerReferences := rs\<rparr>,
       un_Object := fmupd ''spec'' (JObj (upd_all fs m)) (un_Object u)\<rparr>"
    "lib_SetOwnerReference lib capiClusterGVK (cl_meta c) (un_meta t) = Inr (un_meta t)"
    by (rule own_fill_fields [OF assms(1,2,4,5)])
  show "object_of mb c t"
    using managed_object.mutate_marks [OF own_fill_managed [OF assms(1-4)] assms(5)]
    by (simp add: object_of_def f(3))
  show "un_GVK t = un_GVK u" "key_of (un_meta t) = key_of (un_meta u)"
    "om_Namespace (un_meta t) = om_Namespace (un_meta u)"
    "k \<noteq> ''spec'' \<Longrightarrow> fmlookup (un_Object t) k = fmlookup (un_Object u) k"
    "\<exists>m. spec_of (un_Object u) = Some m \<and> spec_of (un_Object t) = Some (upd_all fs m)"
    using f(1) by (simp_all add: f(3) key_of_def)
qed

lemma emits_eks_event:
  assumes "\<And>a. Q (ShouldEmit a)" "\<And>k x y z. Q (EksEvent k x y z)"
  shows "emits Q (eks_emitEvent n env c x y z)"
  unfolding eks_emitEvent_def Let_def by (intro emits_intros assms)

text \<open>The update of an object that was read under this kind and name.\<close>

definition updates_read :: "eks_env \<Rightarrow> gvk \<Rightarrow> object_key \<Rightarrow> unstructured \<Rightarrow> bool" where
  "updates_read env g k u \<longleftrightarrow>
     (\<exists>h old. ee_get env h g k = Inr old \<and> un_GVK u = un_GVK old \<and> key_of (un_meta u) = key_of (un_meta old))"

lemma emits_upsertManaged:
  assumes laws: "set_nested_laws (ee_lib env)" "owner_laws (ee_lib env)"
    and mb: "trimmed (bs_ManagedBy b)" and fs: "fs \<noteq> []"
    and quiet: "\<And>k. Q (EksGet g k)" "\<And>a. Q (ShouldEmit a)" "\<And>k x y z. Q (EksEvent k x y z)"
    and create: "\<And>u. managed_write (bs_ManagedBy b) env c (EksCreate u) \<Longrightarrow> un_GVK u = g \<Longrightarrow>
      om_Name (un_meta u) = name \<Longrightarrow> \<exists>m. spec_of (un_Object u) = Some (upd_all fs m) \<Longrightarrow> Q (EksCreate u)"
    and update: "\<And>u. managed_write (bs_ManagedBy b) env c (EksUpdate u) \<Longrightarrow>
      updates_read env g (object_key (om_Namespace (cl_meta c)) name) u \<Longrightarrow>
      \<exists>m. spec_of (un_Object u) = Some (upd_all fs m) \<Longrightarrow> Q (EksUpdate u)"
  shows "emits Q (upsertManagedUnstructured b env c g name
    (fill_object (ee_lib env) (bs_ManagedBy b) region (om_Name (cl_meta c)) fs))"
  unfolding upsertManagedUnstructured_def Let_def
proof (rule emits_bind, rule managed_object.stores_mutated [OF own_fill_managed [OF laws mb fs]])
  let ?key = "object_key (om_Namespace (cl_meta c)) name"
  note object = own_fill_object [OF laws mb fs]
  show "ensures Q (\<lambda>r. case r of Inl _ \<Rightarrow> True | Inr old \<Rightarrow> \<exists>h. ee_get env h g ?key = Inr old) (eks_get env g ?key)"
    unfolding eks_get_def by (rule ensures_perform) (auto split: sum.split intro: quiet)
  fix y
  assume "own_unstructured (ee_lib env) c
      (fill_object (ee_lib env) (bs_ManagedBy b) region (om_Name (cl_meta c)) fs)
      (new_unstructured g (om_Namespace (cl_meta c)) name) = Inr y"
  from object [OF this] show "emits Q (eks_write env (EksCreate y))"
    by (auto simp: eks_write_def managed_write_def new_unstructured_def new_meta_def key_of_def object_key_def
        intro!: create)
next
  let ?key = "object_key (om_Namespace (cl_meta c)) name"
  note object = own_fill_object [OF laws mb fs]
  fix x y
  assume *: "\<exists>h. ee_get env h g ?key = Inr x"
    "own_unstructured (ee_lib env) c
      (fill_object (ee_lib env) (bs_ManagedBy b) region (om_Name (cl_meta c)) fs) x = Inr y"
    "is_managed_by (bs_ManagedBy b) (om_Annotations (un_meta x)) \<or>
     IsUnmanagedTakeoverEnabled (om_Annotations (cl_meta c))"
  have "managed_write (bs_ManagedBy b) env c (EksUpdate y)"
    using * object [OF *(2)] by (simp add: managed_write_def) blast
  moreover have "updates_read env g ?key y"
    using *(1) object(2,3) [OF *(2)] by (auto simp: updates_read_def)
  ultimately show "emits Q (eks_write env (EksUpdate y))"
    using object(6) [OF *(2)] by (auto simp: eks_write_def intro!: update)
qed (auto intro: emits_eks_event quiet)

text \<open>The cluster a run works on is what the server answered, to a read or to a patch.\<close>

definition answered :: "eks_env \<Rightarrow> cluster \<Rightarrow> bool" where
  "answered env c \<longleftrightarrow> (\<exists>h k. ee_getCluster env h k = Inr c) \<or> (\<exists>h b a. ee_patchCluster env h b a = Inr c)"

lemma ensures_patch_cluster:
  "Q (EksPatchCluster b a) \<Longrightarrow> ensures Q (case_sum (\<lambda>_. True) (answered env)) (patch_cluster env b a)"
  unfolding patch_cluster_def by (rule ensures_perform) (auto simp: answered_def split: sum.split)

lemma ensures_label:
  assumes "answered env c" "\<And>ls. Q (EksPatchCluster c (set_meta (\<lambda>m. m\<lparr>om_Labels := ls\<rparr>) c))"
  shows "ensures Q (case_sum (\<lambda>_. True) (answered env)) (ensureClusterNameLabel env c)"
  unfolding ensureClusterNameLabel_def Let_def
  using assms ensures_patch_cluster [where Q = Q and env = env] by (auto intro!: ensures_ret)

section \<open>Ownership\<close>

text \<open>
  The contract of the upsert, without the API calls: an object is absent, ours, or somebody
  else's. One upsert makes it ours, with its fields; somebody else's only with the takeover. An
  object that cannot be filled in stays as it is.
\<close>

datatype ownership = Absent | Ours unstructured | Foreign unstructured

definition ownership_of :: "string \<Rightarrow> unstructured option \<Rightarrow> ownership" where
  "ownership_of mb s =
     (case s of
        None \<Rightarrow> Absent
      | Some u \<Rightarrow> if is_managed_by mb (om_Annotations (un_meta u)) then Ours u else Foreign u)"

fun protocol :: "bool \<Rightarrow> (unstructured \<Rightarrow> unstructured result) \<Rightarrow> unstructured \<Rightarrow> ownership \<Rightarrow> ownership" where
  "protocol takeover fill_in fresh Absent = (case fill_in fresh of Inr u \<Rightarrow> Ours u | Inl _ \<Rightarrow> Absent)"
| "protocol takeover fill_in fresh (Ours u) = (case fill_in u of Inr v \<Rightarrow> Ours v | Inl _ \<Rightarrow> Ours u)"
| "protocol takeover fill_in fresh (Foreign u) =
     (if takeover then (case fill_in u of Inr v \<Rightarrow> Ours v | Inl _ \<Rightarrow> Foreign u) else Foreign u)"

text \<open>A server that holds one object and serves this controller alone.\<close>

definition store_step :: "gvk \<Rightarrow> object_key \<Rightarrow> eks_call \<Rightarrow> unstructured option \<Rightarrow> unstructured option" where
  "store_step g k w s =
     (let put = (\<lambda>u. if un_GVK u = g \<and> key_of (un_meta u) = k then Some u else s) in
      case w of EksCreate u \<Rightarrow> put u | EksUpdate u \<Rightarrow> put u | _ \<Rightarrow> s)"

definition reads_only :: "eks_call \<Rightarrow> bool" where
  "reads_only w = (case w of EksCreate _ \<Rightarrow> False | EksUpdate _ \<Rightarrow> False | _ \<Rightarrow> True)"

lemma store_step_simps [simp]:
  "store_step g k (EksCreate u) s = (if un_GVK u = g \<and> key_of (un_meta u) = k then Some u else s)"
  "store_step g k (EksUpdate u) s = (if un_GVK u = g \<and> key_of (un_meta u) = k then Some u else s)"
  "store_step g k (EksGet g' k') s = s"
  by (simp_all add: store_step_def Let_def)

lemma writes_cases:
  assumes "\<not> reads_only w"
  obtains u where "w = EksCreate u \<or> w = EksUpdate u"
  using assms by (cases w) (simp_all add: reads_only_def)

lemma store_step_quiet: "reads_only w \<Longrightarrow> store_step g k w s = s"
  by (cases w) (simp_all add: store_step_def reads_only_def)

definition stored :: "gvk \<Rightarrow> object_key \<Rightarrow> unstructured option \<Rightarrow> eks_call list \<Rightarrow> unstructured option" where
  "stored g k s h = fold (store_step g k) h s"

definition serves :: "eks_env \<Rightarrow> gvk \<Rightarrow> object_key \<Rightarrow> unstructured option \<Rightarrow> bool" where
  "serves env g k s \<longleftrightarrow>
     (\<forall>h. ee_get env h g k = (case stored g k s h of None \<Rightarrow> Inl (GoError NotFound ''not found'') | Some u \<Rightarrow> Inr u)) \<and>
     (\<forall>h w. ee_write env h w = Inr ())"

definition addressed :: "gvk \<Rightarrow> object_key \<Rightarrow> unstructured option \<Rightarrow> bool" where
  "addressed g k s = (case s of None \<Rightarrow> True | Some u \<Rightarrow> un_GVK u = g \<and> key_of (un_meta u) = k)"

lemma stored_Nil: "stored g k s [] = s"
  by (simp add: stored_def)

lemma stored_snoc: "stored g k s (h @ [w]) = store_step g k w (stored g k s h)"
  by (simp add: stored_def)

lemma stored_addressed: "addressed g k s \<Longrightarrow> addressed g k (stored g k s h)"
proof (induction h rule: rev_induct)
  case Nil
  then show ?case by (simp add: stored_def)
next
  case (snoc w h)
  show ?case
  proof (cases "reads_only w")
    case True
    then show ?thesis using snoc by (simp add: stored_snoc store_step_quiet)
  next
    case False
    then obtain u where "w = EksCreate u \<or> w = EksUpdate u" by (rule writes_cases)
    then show ?thesis using snoc by (elim disjE) (simp_all add: stored_snoc addressed_def)
  qed
qed

lemma stored_quiet: "list_all reads_only t \<Longrightarrow> stored g k s (h @ t) = stored g k s h"
proof (induction t rule: rev_induct)
  case Nil
  then show ?case by simp
next
  case (snoc w t)
  then have "stored g k s (h @ t) = stored g k s h" "reads_only w" by simp_all
  then show ?case
    using stored_snoc [of g k s "h @ t" w] by (simp add: store_step_quiet)
qed

lemma run_event_stored:
  assumes "run_state (when_eff b (eks_emitEvent n env c x y z)) h = (r, h')"
  shows "stored g k s h' = stored g k s h"
proof -
  have "emits reads_only (when_eff b (eks_emitEvent n env c x y z))"
    by (intro emits_when emits_eks_event) (simp_all add: reads_only_def)
  from emitsD [OF this assms] obtain t where "h' = h @ t" "list_all reads_only t" by blast
  then show ?thesis by (simp add: stored_quiet)
qed

lemma protocol_settles:
  assumes "\<And>x y. fill_in x = Inr y \<Longrightarrow> fill_in y = Inr y"
  shows "protocol takeover fill_in fresh (protocol takeover fill_in fresh s) = protocol takeover fill_in fresh s"
  using assms by (cases s) (auto split: sum.splits)

text \<open>A run of the upsert against a server that holds \<open>s\<close>, as one case distinction.\<close>

definition took_over :: "bootstrapper \<Rightarrow> eks_env \<Rightarrow> cluster \<Rightarrow> unstructured \<Rightarrow> unstructured \<Rightarrow> unit eks_eff" where
  "took_over b env c x y = when_eff (\<not> is_managed_by (bs_ManagedBy b) (om_Annotations (un_meta x)))
     (eks_emitEvent (bs_Controller b) env c EventTypeNormal (bs_TakeoverReason b) (took_over_message y))"

lemma run_upsert:
  fixes env :: eks_env and c :: cluster and h :: "eks_call list" and fill :: "unstructured \<Rightarrow> unstructured"
  assumes "serves env g (object_key (om_Namespace (cl_meta c)) name) s"
  defines "h1 \<equiv> h @ [EksGet g (object_key (om_Namespace (cl_meta c)) name)]"
    and "own \<equiv> own_unstructured (ee_lib env) c fill"
  shows "run_state (upsertManagedUnstructured b env c g name fill) h =
    (case stored g (object_key (om_Namespace (cl_meta c)) name) s h of
       None \<Rightarrow> (case own (new_unstructured g (om_Namespace (cl_meta c)) name) of
           Inl e \<Rightarrow> (Inl e, h1) | Inr u \<Rightarrow> (Inr True, h1 @ [EksCreate u]))
     | Some x \<Rightarrow>
         if \<not> is_managed_by (bs_ManagedBy b) (om_Annotations (un_meta x)) \<and>
            \<not> IsUnmanagedTakeoverEnabled (om_Annotations (cl_meta c)) then (Inr False, h1)
         else (case own x of
             Inl e \<Rightarrow> (Inl e, h1)
           | Inr y \<Rightarrow> (Inr True, snd (run_state (took_over b env c x y) (if y = x then h1 else h1 @ [EksUpdate y])))))"
proof -
  have "ee_get env h g (object_key (om_Namespace (cl_meta c)) name) =
      (case stored g (object_key (om_Namespace (cl_meta c)) name) s h of
         None \<Rightarrow> Inl (GoError NotFound ''not found'') | Some u \<Rightarrow> Inr u)"
    "ee_write env h' w = Inr ()" for h' w
    using assms(1) by (simp_all add: serves_def)
  then show ?thesis
    by (simp add: upsertManagedUnstructured_def upsert_managed_def Let_def eks_get_def eks_write_def h1_def own_def
        took_over_def run_try_bind is_not_found_def split: option.split sum.split prod.split)
qed

lemma took_over_stored: "stored g k s (snd (run_state (took_over b env c x y) h)) = stored g k s h"
  unfolding took_over_def by (rule run_event_stored [OF surjective_pairing])

lemma read_stored: "stored g k s (h @ [EksGet g' k']) = stored g k s h"
  by (simp add: stored_snoc)

lemma write_stored:
  assumes "addressed g k (Some y)"
  shows "stored g k s ((h @ [EksGet g' k']) @ [EksUpdate y]) = Some y"
    "stored g k s ((h @ [EksGet g' k']) @ [EksCreate y]) = Some y"
  using assms unfolding stored_snoc [of g k s "h @ [EksGet g' k']"] by (simp_all add: addressed_def)

lemma own_fill_addressed:
  assumes "set_nested_laws lib" "owner_laws lib" "trimmed mb" "fs \<noteq> []"
    and "own_unstructured lib c (fill_object lib mb region (om_Name (cl_meta c)) fs) x = Inr y"
    and "addressed g k (Some x)"
  shows "addressed g k (Some y)"
  using own_fill_object(2,3) [OF assms(1-5)] assms(6) by (simp add: addressed_def)

text \<open>One step of the contract and the answer it gives, for each of the two states an object can be in.\<close>

definition meets_contract :: "string \<Rightarrow> bool \<Rightarrow> (unstructured \<Rightarrow> unstructured result) \<Rightarrow> unstructured \<Rightarrow>
    unstructured option \<Rightarrow> bool result \<Rightarrow> unstructured option \<Rightarrow> bool" where
  "meets_contract mb takeover fill_in fresh before answer after \<longleftrightarrow>
     ownership_of mb after = protocol takeover fill_in fresh (ownership_of mb before) \<and>
     (\<forall>ok. answer = Inr ok \<longrightarrow> ok = (\<exists>u. ownership_of mb after = Ours u)) \<and>
     (isl answer \<longrightarrow> ownership_of mb after = ownership_of mb before)"

lemma upsert_meets_contract:
  fixes env :: eks_env and c :: cluster and g :: gvk and name :: string and fs :: "(string \<times> json) list"
    and b :: bootstrapper and region :: "string option" and s :: "unstructured option"
  assumes laws: "set_nested_laws (ee_lib env)" "owner_laws (ee_lib env)" "trimmed (bs_ManagedBy b)" "fs \<noteq> []"
    and server: "serves env g (object_key (om_Namespace (cl_meta c)) name) s"
    and start: "addressed g (object_key (om_Namespace (cl_meta c)) name) s"
  defines "fill \<equiv> fill_object (ee_lib env) (bs_ManagedBy b) region (om_Name (cl_meta c)) fs"
    and "now \<equiv> stored g (object_key (om_Namespace (cl_meta c)) name) s"
  assumes run: "run_state (upsertManagedUnstructured b env c g name fill) h = (r, h')"
  shows "meets_contract (bs_ManagedBy b) (IsUnmanagedTakeoverEnabled (om_Annotations (cl_meta c)))
    (own_unstructured (ee_lib env) c fill) (new_unstructured g (om_Namespace (cl_meta c)) name) (now h) r (now h')"
proof -
  let ?key = "object_key (om_Namespace (cl_meta c)) name"
  let ?fresh = "new_unstructured g (om_Namespace (cl_meta c)) name"
  let ?own = "own_unstructured (ee_lib env) c fill"
  note marks = managed_object.mutate_marks [OF own_fill_managed [OF laws, of c region "om_Name (cl_meta c)", folded fill_def]]
  note at = own_fill_addressed [OF laws, where c = c and region = region, folded fill_def]
  note step = run_upsert [OF server, of b fill h, unfolded run]
  have fresh: "addressed g ?key (Some ?fresh)"
    by (simp add: addressed_def new_unstructured_def new_meta_def key_of_def)
  have here: "addressed g ?key (now h)" unfolding now_def by (rule stored_addressed [OF start])
  note defs = meets_contract_def ownership_of_def now_def took_over_stored read_stored
  show ?thesis
  proof (cases "now h")
    case None
    then show ?thesis
      using step marks write_stored [OF at [OF _ fresh]] unfolding now_def
      by (cases "?own ?fresh") (auto simp: defs)
  next
    case (Some x)
    then have x: "addressed g ?key (Some x)" using here by simp
    show ?thesis
      using step marks write_stored [OF at [OF _ x]] Some unfolding now_def
      by (cases "?own x") (auto simp: defs split: if_splits)
  qed
qed

text \<open>
  C28. The managed upsert implements the ownership contract: against a server that serves this
  controller alone, one upsert changes the object as the contract says, reports true exactly if
  the object is ours afterwards, and fails exactly if the object could not be filled in; a second
  upsert changes nothing.
\<close>

theorem upsert_refines_ownership:
  fixes env :: eks_env and c :: cluster and g :: gvk and name :: string and fs :: "(string \<times> json) list"
    and b :: bootstrapper and region :: "string option"
  assumes "set_nested_laws (ee_lib env)" "owner_laws (ee_lib env)"
    and "trimmed (bs_ManagedBy b)" "fs \<noteq> []"
    and "serves env g (object_key (om_Namespace (cl_meta c)) name) s"
    and "addressed g (object_key (om_Namespace (cl_meta c)) name) s"
  defines "fill \<equiv> fill_object (ee_lib env) (bs_ManagedBy b) region (om_Name (cl_meta c)) fs"
    and "state \<equiv> \<lambda>h. ownership_of (bs_ManagedBy b) (stored g (object_key (om_Namespace (cl_meta c)) name) s h)"
  defines "contract \<equiv> protocol (IsUnmanagedTakeoverEnabled (om_Annotations (cl_meta c)))
      (own_unstructured (ee_lib env) c fill) (new_unstructured g (om_Namespace (cl_meta c)) name)"
  assumes "run_state (upsertManagedUnstructured b env c g name fill) h = (r, h')"
  shows "state h' = contract (state h) \<and> contract (state h') = state h' \<and>
    (\<forall>ok. r = Inr ok \<longrightarrow> ok = (\<exists>u. state h' = Ours u)) \<and> (isl r \<longrightarrow> state h' = state h)"
proof -
  note settles = managed_object.mutate_settles
    [OF own_fill_managed [OF assms(1-4), of c region "om_Name (cl_meta c)", folded fill_def]]
  have "contract (contract (state h)) = contract (state h)"
    unfolding contract_def by (rule protocol_settles) (rule settles)
  moreover have "state h' = contract (state h) \<and> (\<forall>ok. r = Inr ok \<longrightarrow> ok = (\<exists>u. state h' = Ours u)) \<and>
      (isl r \<longrightarrow> state h' = state h)"
    using upsert_meets_contract [OF assms(1-6) assms(10) [unfolded fill_def], folded fill_def]
    unfolding meets_contract_def state_def contract_def .
  ultimately show ?thesis by metis
qed

section \<open>Names, lists and tags\<close>

text \<open>
  Names of AWS resources: a positive limit other than 13 always gives a name that fits; a name
  that fits is kept, a longer one keeps its beginning and ends in twelve digits of its hash. With
  the limit 13 the code slices 13 digits out of the 12 and panics on every longer name.
\<close>

theorem aws_names_fit:
  assumes "0 < limit"
  shows "(shortenAWSName name limit = None \<longleftrightarrow> limit = 13 \<and> 13 < length (TrimSpace name)) \<and>
    (\<forall>s. shortenAWSName name limit = Some s \<longrightarrow>
       int (length s) \<le> limit \<and> (int (length (TrimSpace name)) \<le> limit \<longrightarrow> s = TrimSpace name) \<and>
       (13 < limit \<and> limit < int (length (TrimSpace name)) \<longrightarrow>
          s = take (nat (limit - 13)) (TrimSpace name) @ ''-'' @ take 12 (sha256_hex (TrimSpace name)) \<and>
          int (length s) = limit))"
  using assms by (auto simp: shortenAWSName_def Let_def sha256_hex_length split: if_splits)

lemma distinct_trimmed_char:
  "distinct (distinct_trimmed seen vs) \<and>
   set (distinct_trimmed seen vs) = {TrimSpace v |v. v \<in> set vs \<and> TrimSpace v \<noteq> ''''} - set seen"
proof (induction vs arbitrary: seen)
  case Nil
  then show ?case by simp
next
  case (Cons v vs)
  show ?case
  proof (cases "TrimSpace v = '''' \<or> TrimSpace v \<in> set seen")
    case True
    then show ?thesis using Cons.IH [of seen] by auto
  next
    case False
    then show ?thesis using Cons.IH [of "TrimSpace v # seen"] by auto
  qed
qed

text \<open>
  Lists of IDs are normalized to a canonical form: the sorted list of the set of their trimmed
  non-blank elements. So the order, the repetitions and the blanks of the input do not matter, and
  normalizing again changes nothing.
\<close>

theorem normalizeDistinctStrings_canonical:
  "normalizeDistinctStrings vs = sorted_list_of_set {TrimSpace v |v. v \<in> set vs \<and> TrimSpace v \<noteq> ''''} \<and>
   normalizeDistinctStrings (normalizeDistinctStrings vs) = normalizeDistinctStrings vs"
proof -
  have char: "normalizeDistinctStrings vs = sorted_list_of_set {TrimSpace v |v. v \<in> set vs \<and> TrimSpace v \<noteq> ''''}" for vs
  proof (rule sorted_distinct_set_unique)
    show "sorted (normalizeDistinctStrings vs)" by (simp add: normalizeDistinctStrings_def)
    show "distinct (normalizeDistinctStrings vs)"
      using distinct_trimmed_char [of "[]" vs] by (simp add: normalizeDistinctStrings_def sort_strings_def)
    have fin: "finite {TrimSpace v |v. v \<in> set vs \<and> TrimSpace v \<noteq> ''''}"
      by (rule finite_subset [of _ "TrimSpace ` set vs"]) auto
    then show "set (normalizeDistinctStrings vs) = set (sorted_list_of_set {TrimSpace v |v. v \<in> set vs \<and> TrimSpace v \<noteq> ''''})"
      using distinct_trimmed_char [of "[]" vs] by (simp add: normalizeDistinctStrings_def)
  qed simp_all
  have trim: "{TrimSpace v |v. v \<in> A \<and> TrimSpace v \<noteq> ''''} = TrimSpace ` A - {''''}" for A
    by auto
  have "x \<in> TrimSpace ` (TrimSpace ` A - {''''}) - {''''} \<longleftrightarrow> x \<in> TrimSpace ` A - {''''}" for A x
  proof
    assume x: "x \<in> TrimSpace ` A - {''''}"
    then have "TrimSpace x = x" by auto
    with x have "x \<in> TrimSpace ` (TrimSpace ` A - {''''})" by (metis imageI)
    with x show "x \<in> TrimSpace ` (TrimSpace ` A - {''''}) - {''''}" by simp
  qed auto
  then have again: "TrimSpace ` (TrimSpace ` A - {''''}) - {''''} = TrimSpace ` A - {''''}" for A by blast
  have "set (normalizeDistinctStrings vs) = TrimSpace ` set vs - {''''}"
    using distinct_trimmed_char [of "[]" vs] by (simp add: normalizeDistinctStrings_def trim)
  then have "normalizeDistinctStrings (normalizeDistinctStrings vs) = normalizeDistinctStrings vs"
    using char [of "normalizeDistinctStrings vs"] char [of vs] by (simp only: again trim)
  then show ?thesis using char by blast
qed

lemma map_keys_facts: "sorted (map_keys m)" "distinct (map_keys m)" "set (map_keys m) = fmdom' m"
  by (simp_all add: map_keys_def sorted_list_of_fset.rep_eq fmdom'_alt_def)

lemma tag_lookup:
  "fmlookup (bootstrapperResourceTags owner extra) k = Some v \<Longrightarrow> TrimSpace v \<noteq> ''''"
  by (auto simp: bootstrapperResourceTags_def Let_def str_get_def split: if_splits)

text \<open>A tag of the AWS API: an object of a key and a value.\<close>

definition aws_tag :: "string \<times> string \<Rightarrow> json" where
  "aws_tag t = JObj (fmupd ''value'' (JStr (snd t)) (fmupd ''key'' (JStr (fst t)) fmempty))"

text \<open>
  C40. The tags of a resource are a well-formed tag list of the AWS API: objects of a string key
  and a string value, one for each tag, their keys strictly ascending, so that the list is the
  same whatever the iteration order of the map, and no value blank.
\<close>

theorem tags_well_formed:
  fixes owner :: cluster and extra :: "(string \<times> string) list"
  defines "tags \<equiv> bootstrapperResourceTags owner extra"
  shows "\<exists>ts. awsTagsAsSlice tags = map aws_tag ts \<and> sorted_wrt (<) (map fst ts) \<and>
    map_of ts = fmlookup tags \<and> list_all (\<lambda>t. TrimSpace (snd t) \<noteq> '''') ts"
proof (intro exI conjI)
  let ?ts = "map (\<lambda>k. (k, str_get tags k)) (map_keys tags)"
  show "awsTagsAsSlice tags = map aws_tag ?ts" by (simp add: awsTagsAsSlice_def aws_tag_def)
  show "sorted_wrt (<) (map fst ?ts)"
    using map_keys_facts [of tags] by (simp add: o_def strict_sorted_iff)
  show "map_of ?ts = fmlookup tags"
  proof
    fix k
    show "map_of ?ts k = fmlookup tags k"
      by (cases "fmlookup tags k") (simp_all add: map_of_map_restrict restrict_map_def map_keys_facts str_get_def fmlookup_dom'_iff)
  qed
  show "list_all (\<lambda>t. TrimSpace (snd t) \<noteq> '''') ?ts"
    unfolding list_all_iff
  proof
    fix t assume "t \<in> set ?ts"
    then obtain k where k: "t = (k, str_get tags k)" "k \<in> fmdom' tags" by (auto simp: map_keys_facts)
    then obtain v where "fmlookup tags k = Some v" by (auto simp: fmlookup_dom'_iff)
    then show "TrimSpace (snd t) \<noteq> ''''" using tag_lookup [of owner extra k v] k(1)
      by (simp add: tags_def str_get_def)
  qed
qed

text \<open>
  Every event of an object a bootstrapper stored for a cluster leads back to this cluster: the
  object carries the marks by which the event handler recognizes it.
\<close>

theorem managed_events_return:
  fixes c :: cluster and u t :: unstructured and fs :: "(string \<times> json) list"
  assumes "set_nested_laws lib" "owner_laws lib" "trimmed mb" "fs \<noteq> []"
    and "own_unstructured lib c (fill_object lib mb region (om_Name (cl_meta c)) fs) u = Inr t"
    and "om_Namespace (un_meta u) = om_Namespace (cl_meta c)"
    and "trimmed (om_Name (cl_meta c))" "trimmed (om_Namespace (cl_meta c))"
    and "om_Name (cl_meta c) \<noteq> ''''" "om_Namespace (cl_meta c) \<noteq> ''''"
  shows "mapManagedObjectToCAPICluster mb (un_meta t) = [key_of (cl_meta c)]"
proof -
  have "object_of mb c t" "om_Namespace (un_meta t) = om_Namespace (cl_meta c)"
    using own_fill_object(1,4) [OF assms(1-5)] assms(6) by simp_all
  moreover from this have "om_Labels (un_meta t) \<noteq> fmempty" by (auto simp: object_of_def)
  ultimately show ?thesis
    using assms(7-) by (simp add: mapManagedObjectToCAPICluster_def object_of_def str_get_def TrimSpace_id key_of_def Let_def)
qed

section \<open>Witnesses\<close>

theorem aws_names_fit_witness:
  "shortenAWSName ''eks-karpenter-controller'' 13 = None \<and>
   (\<exists>s. shortenAWSName ''eks-karpenter-controller'' 20 = Some s \<and> length s = 20)"
proof -
  have len: "length (TrimSpace ''eks-karpenter-controller'') = 24" by code_simp
  have "shortenAWSName ''eks-karpenter-controller'' 13 = None"
    using aws_names_fit [of 13 "''eks-karpenter-controller''"] len by simp
  moreover obtain s where s: "shortenAWSName ''eks-karpenter-controller'' 20 = Some s"
    using aws_names_fit [of 20 "''eks-karpenter-controller''"] by auto
  moreover have "int (length s) = 20"
    using aws_names_fit [of 20 "''eks-karpenter-controller''"] s len by (simp add: sha256_hex_length)
  ultimately show ?thesis by auto
qed

definition demo_role_fields :: "(string \<times> json) list" where
  "demo_role_fields = [(''name'', JStr ''demo-role'')]"

lemma demo_lib: "set_nested_laws (ee_lib demo_eks_env)" "owner_laws (ee_lib demo_eks_env)"
  using ref_lib_laws by (simp_all add: apilib_laws_def demo_eks_env_def)

lemma karpenter_trimmed: "trimmed karpenterManagedByValue"
  unfolding trimmed_iff karpenterManagedByValue_def by code_simp

definition demo_role :: unstructured where
  "demo_role = (case own_unstructured ref_lib demo_eks_cluster
     (fill_object ref_lib karpenterManagedByValue None ''demo'' demo_role_fields)
     (new_unstructured ackIAMRoleGVK ''ns'' ''role'') of Inr u \<Rightarrow> u | Inl _ \<Rightarrow> new_unstructured ackIAMRoleGVK '''' '''')"

lemma demo_role_made:
  "own_unstructured (ee_lib demo_eks_env) demo_eks_cluster
     (fill_object (ee_lib demo_eks_env) karpenterManagedByValue None (om_Name (cl_meta demo_eks_cluster)) demo_role_fields)
     (new_unstructured ackIAMRoleGVK ''ns'' ''role'') = Inr demo_role"
  by (simp add: demo_role_def own_unstructured_def fill_object_def demo_role_fields_def mustSetNestedField_def
      ref_lib_def demo_eks_env_def new_unstructured_def popMutationError_def setClusterLabel_def set_annotation_def
      ref_add_owner_def demo_eks_cluster_def new_meta_def spec_not_error)

theorem managed_events_return_witness:
  "mapManagedObjectToCAPICluster karpenterManagedByValue (un_meta demo_role) = [object_key ''ns'' ''demo'']"
proof -
  have ns: "om_Namespace (cl_meta demo_eks_cluster) = ''ns''" "om_Name (cl_meta demo_eks_cluster) = ''demo''"
    "om_Namespace (un_meta (new_unstructured ackIAMRoleGVK ''ns'' ''role'')) = ''ns''"
    by (simp_all add: demo_eks_cluster_def new_meta_def new_unstructured_def)
  have "trimmed ''ns''" "trimmed ''demo''" unfolding trimmed_iff by code_simp+
  then show ?thesis
    using managed_events_return [OF demo_lib karpenter_trimmed _ demo_role_made] ns
    by (simp add: demo_role_fields_def key_of_def)
qed

definition demo_bootstrapper :: bootstrapper where
  "demo_bootstrapper = \<lparr>bs_Controller = ''eks-karpenter-bootstrapper'', bs_ManagedBy = karpenterManagedByValue,
     bs_TakeoverReason = ''ResourceTakeoverApplied''\<rparr>"

text \<open>A server that starts without the object.\<close>

definition demo_server :: eks_env where
  "demo_server = demo_eks_env\<lparr>ee_get := \<lambda>h g k. case stored g k None h of
     None \<Rightarrow> Inl (GoError NotFound ''not found'') | Some u \<Rightarrow> Inr u\<rparr>"

theorem upsert_refines_ownership_witness:
  "ownership_of karpenterManagedByValue (stored ackIAMRoleGVK (object_key ''ns'' ''role'') None
     (snd (run_state (upsertManagedUnstructured demo_bootstrapper demo_server demo_eks_cluster ackIAMRoleGVK ''role''
       (fill_object ref_lib karpenterManagedByValue None ''demo'' demo_role_fields)) []))) = Ours demo_role"
proof -
  have ns: "om_Namespace (cl_meta demo_eks_cluster) = ''ns''" "om_Name (cl_meta demo_eks_cluster) = ''demo''"
    by (simp_all add: demo_eks_cluster_def new_meta_def)
  have env: "ee_lib demo_server = ref_lib" "ee_lib demo_eks_env = ref_lib" "bs_ManagedBy demo_bootstrapper = karpenterManagedByValue"
    by (simp_all add: demo_server_def demo_eks_env_def demo_bootstrapper_def)
  have laws: "set_nested_laws (ee_lib demo_server)" "owner_laws (ee_lib demo_server)"
    using ref_lib_laws by (simp_all add: apilib_laws_def env)
  have "serves demo_server ackIAMRoleGVK (object_key (om_Namespace (cl_meta demo_eks_cluster)) ''role'') None"
    by (simp add: serves_def demo_server_def demo_eks_env_def)
  from upsert_refines_ownership [OF laws _ _ this, of demo_bootstrapper demo_role_fields None, OF _ _ _ surjective_pairing]
  show ?thesis
    using karpenter_trimmed demo_role_made
    by (simp add: env ns demo_role_fields_def addressed_def stored_Nil ownership_of_def)
qed

interpretation karpenter_object: managed_object "\<lambda>u. isManagedByBootstrapper (om_Annotations (un_meta u))"
    "own_unstructured ref_lib c (fill_object ref_lib karpenterManagedByValue region cn (f # fs))" for c region cn f fs
  unfolding isManagedByBootstrapper_def
  by (rule own_fill_managed [OF _ _ karpenter_trimmed]) (use ref_lib_laws in \<open>simp_all add: apilib_laws_def\<close>)

end
