(* ===== verification/Ocm.thy ===== *)
theory Ocm
  imports AckObjects
begin

text \<open>
  \<open>internal/controller/plugin/eks/ocm_awsirsa_bootstrapper_controller.go\<close>: for a cluster that
  opted in by a label, the bootstrapper keeps the IAM role by which the agent of Open Cluster
  Management in the managed EKS cluster assumes a role of the hub cluster.
\<close>

section \<open>Constants and the reconciler\<close>

definition ocmAWSIRSAEnableLabelKey :: string where "ocmAWSIRSAEnableLabelKey = ''eks.kany8s.io/ocm-awsirsa''"
definition ocmAWSIRSAEnableLabelValue :: string where "ocmAWSIRSAEnableLabelValue = ''enabled''"
definition ocmHubClusterARNAnnotation :: string where "ocmHubClusterARNAnnotation = ''eks.kany8s.io/ocm-hub-cluster-arn''"
definition ocmAWSIRSAManagedByValue :: string where "ocmAWSIRSAManagedByValue = ''eks-ocm-awsirsa-bootstrapper''"
definition ocmManagedClusterRolePrefix :: string where "ocmManagedClusterRolePrefix = ''ocm-managed-cluster-''"
definition ocmHubRolePrefix :: string where "ocmHubRolePrefix = ''ocm-hub-''"
definition ocmManagedClusterAssumeHubName :: string where
  "ocmManagedClusterAssumeHubName = ''ocm-managed-cluster-assume-hub''"
definition metricControllerOCMAWSIRSA :: string where
  "metricControllerOCMAWSIRSA = ''eks-ocm-awsirsa-bootstrapper''"

record ocm =
  oc_FailureBackoff :: duration
  oc_SteadyStateRequeue :: duration

definition ocm_bootstrapper :: bootstrapper where
  "ocm_bootstrapper = \<lparr>bs_Controller = metricControllerOCMAWSIRSA, bs_ManagedBy = ocmAWSIRSAManagedByValue,
     bs_TakeoverReason = ''OCMAWSIRSAResourceTakeoverApplied''\<rparr>"

definition ocm_failureBackoff :: "ocm \<Rightarrow> duration" where
  "ocm_failureBackoff r = (if oc_FailureBackoff r = 0 then 30 * second else oc_FailureBackoff r)"

definition ocm_steadyStateRequeue :: "ocm \<Rightarrow> duration" where
  "ocm_steadyStateRequeue r = (if oc_SteadyStateRequeue r = 0 then 10 * minute else oc_SteadyStateRequeue r)"

text \<open>Here a missing REST mapper means that no API is available.\<close>

definition ocm_isAPIAvailable :: "eks_env \<Rightarrow> gvk \<Rightarrow> bool" where
  "ocm_isAPIAvailable env g = (case ee_restMapper env of None \<Rightarrow> False | Some known \<Rightarrow> known g)"

definition ocm_event :: "eks_env \<Rightarrow> cluster \<Rightarrow> string \<Rightarrow> string \<Rightarrow> string \<Rightarrow> unit eks_eff" where
  "ocm_event = eks_emitEvent metricControllerOCMAWSIRSA"

definition isOCMAWSIRSAEnabled :: "cluster \<Rightarrow> bool" where
  "isOCMAWSIRSAEnabled c \<longleftrightarrow>
     EqualFold (TrimSpace (str_get (om_Labels (cl_meta c)) ocmAWSIRSAEnableLabelKey)) ocmAWSIRSAEnableLabelValue"

definition isManagedByOCMAWSIRSA :: "str_map \<Rightarrow> bool" where
  "isManagedByOCMAWSIRSA annotations = is_managed_by ocmAWSIRSAManagedByValue annotations"

definition mapACKClusterToCAPIClustersForOCM :: "eks_env \<Rightarrow> obj_meta \<Rightarrow> object_key list eks_eff" where
  "mapACKClusterToCAPIClustersForOCM = mapACKClusterToCAPIClusters isOCMAWSIRSAEnabled"

text \<open>The functions this controller shares with the Karpenter bootstrapper.\<close>

definition ocm_ensureClusterNameLabel :: "eks_env \<Rightarrow> cluster \<Rightarrow> cluster result eks_eff" where
  "ocm_ensureClusterNameLabel = ensureClusterNameLabel"

definition ocm_upsertManagedUnstructured ::
    "eks_env \<Rightarrow> cluster \<Rightarrow> gvk \<Rightarrow> string \<Rightarrow> (unstructured \<Rightarrow> unstructured) \<Rightarrow> bool result eks_eff" where
  "ocm_upsertManagedUnstructured = upsertManagedUnstructured ocm_bootstrapper"

definition ocm_mapManagedObjectToCAPICluster :: "obj_meta \<Rightarrow> object_key list" where
  "ocm_mapManagedObjectToCAPICluster = mapManagedObjectToCAPICluster ocmAWSIRSAManagedByValue"

definition ocm_missingAPIs :: "eks_env \<Rightarrow> gvk list \<Rightarrow> gvk list" where
  "ocm_missingAPIs env = missingAPIs (ocm_isAPIAvailable env)"

section \<open>The ARN of a cluster\<close>

record eksClusterARNParts =
  ap_Region :: string
  ap_AccountID :: string
  ap_ClusterName :: string

definition parseEKSClusterARN :: "string \<Rightarrow> eksClusterARNParts result" where
  "parseEKSClusterARN raw0 =
     (let raw = TrimSpace raw0; parts = split_char (CHR '':'') raw in
      if length parts \<noteq> 6 then Inl (errorf (''expected 6 ARN fields, got '' @ show_nat (length parts)))
      else if parts ! 0 \<noteq> ''arn'' \<or> parts ! 2 \<noteq> ''eks'' then Inl (errorf (''expected EKS ARN, got '' @ quote raw))
      else if TrimSpace (parts ! 3) = '''' \<or> TrimSpace (parts ! 4) = ''''
        then Inl (errorf ''region/account must be non-empty'')
      else let resource = TrimSpace (parts ! 5); clusterName = TrimSpace (trim_prefix resource ''cluster/'') in
        if \<not> has_prefix resource ''cluster/'' then Inl (errorf (''expected resource '' @ quote ''cluster/'' @ '' prefix''))
        else if clusterName = '''' then Inl (errorf ''cluster name is empty'')
        else Inr \<lparr>ap_Region = parts ! 3, ap_AccountID = parts ! 4, ap_ClusterName = clusterName\<rparr>)"

section \<open>The role\<close>

definition ocmAWSIRSASuffix :: "string \<Rightarrow> string \<Rightarrow> string \<Rightarrow> string \<Rightarrow> string" where
  "ocmAWSIRSASuffix hubAccountID hubClusterName managedAccountID managedClusterName =
     md5_hex (str_join [hubAccountID, hubClusterName, managedAccountID, managedClusterName] ''#'')"

definition ocmAWSIRSAResourceTags :: "cluster \<Rightarrow> eksClusterARNParts \<Rightarrow> eksClusterARNParts \<Rightarrow> str_map" where
  "ocmAWSIRSAResourceTags owner hub managed =
     bootstrapperResourceTags owner
       [(''kany8s.io/managed-by'', ocmAWSIRSAManagedByValue),
        (''hub_cluster_account_id'', ap_AccountID hub),
        (''hub_cluster_name'', ap_ClusterName hub),
        (''managed_cluster_account_id'', ap_AccountID managed),
        (''managed_cluster_name'', ap_ClusterName managed)]"

definition ocm_trust_document :: "string \<Rightarrow> string \<Rightarrow> jtext" where
  "ocm_trust_document oidcProviderARN issuerHostPath = jmap
     [(''Version'', TStr ''2012-10-17''),
      (''Statement'', TArr [jmap
         [(''Effect'', TStr ''Allow''),
          (''Principal'', jmap [(''Federated'', TStr oidcProviderARN)]),
          (''Action'', TStr ''sts:AssumeRoleWithWebIdentity''),
          (''Condition'', jmap [(''StringEquals'', jmap
             [(issuerHostPath @ '':aud'', TStr ''sts.amazonaws.com''),
              (issuerHostPath @ '':sub'', TArr
                 [TStr ''system:serviceaccount:open-cluster-management-agent:klusterlet-registration-sa'',
                  TStr ''system:serviceaccount:open-cluster-management-agent:klusterlet-work-sa''])])])]])]"

definition ocm_hub_document :: "string \<Rightarrow> jtext" where
  "ocm_hub_document hubRoleARN = jmap
     [(''Version'', TStr ''2012-10-17''),
      (''Statement'', TArr [jmap
         [(''Effect'', TStr ''Allow''),
          (''Action'', TStr ''sts:AssumeRole''),
          (''Resource'', TArr [TStr hubRoleARN])]])]"

text \<open>Marshalling these documents does not fail.\<close>

definition buildOCMManagedClusterAssumeRolePolicyDocument :: "string \<Rightarrow> string \<Rightarrow> string" where
  "buildOCMManagedClusterAssumeRolePolicyDocument arn issuer = marshal (ocm_trust_document arn issuer)"

definition buildOCMManagedClusterAssumeHubPolicyDocument :: "string \<Rightarrow> string" where
  "buildOCMManagedClusterAssumeHubPolicyDocument hubRoleARN = marshal (ocm_hub_document hubRoleARN)"

definition ocm_role_fields :: "string \<Rightarrow> string \<Rightarrow> str_map \<Rightarrow> str_map \<Rightarrow> (string \<times> json) list" where
  "ocm_role_fields awsRoleName assumeRolePolicyDocument inlinePolicies tags =
     [(''name'', JStr awsRoleName), (''assumeRolePolicyDocument'', JStr assumeRolePolicyDocument)] @
     (if inlinePolicies = fmempty then [] else [(''inlinePolicies'', JObj (fmmap JStr inlinePolicies))]) @
     [(''tags'', JArr (awsTagsAsSlice tags))]"

definition ensureOCMManagedClusterRole ::
    "eks_env \<Rightarrow> cluster \<Rightarrow> string \<Rightarrow> string \<Rightarrow> string \<Rightarrow> string \<Rightarrow> str_map \<Rightarrow> str_map \<Rightarrow> bool result eks_eff" where
  "ensureOCMManagedClusterRole env owner name region awsRoleName assumeRolePolicyDocument inlinePolicies tags =
     ocm_upsertManagedUnstructured env owner ackIAMRoleGVK name
       (fill_object (ee_lib env) ocmAWSIRSAManagedByValue (Some region) (om_Name (cl_meta owner))
         (ocm_role_fields awsRoleName assumeRolePolicyDocument inlinePolicies tags))"

section \<open>Reconcile\<close>

definition ocm_backoff :: "ocm \<Rightarrow> eks_env \<Rightarrow> cluster \<Rightarrow> string \<Rightarrow> string \<Rightarrow> string \<Rightarrow> ctrl_result result eks_eff" where
  "ocm_backoff r env c eventType reason msg =
     bind_eff (ocm_event env c eventType reason msg) (\<lambda>_. ret (Inr (requeue_in (ocm_failureBackoff r))))"

text \<open>The role of two parsed clusters, and what is reported of it.\<close>

definition ocm_reconcile_role ::
    "ocm \<Rightarrow> eks_env \<Rightarrow> cluster \<Rightarrow> string \<Rightarrow> eksClusterARNParts \<Rightarrow> eksClusterARNParts \<Rightarrow> ctrl_result result eks_eff" where
  "ocm_reconcile_role r env c issuerHostPath hub managed =
     (let oidcProviderARN = ''arn:aws:iam::'' @ ap_AccountID managed @ '':oidc-provider/'' @ issuerHostPath;
          suffix = ocmAWSIRSASuffix (ap_AccountID hub) (ap_ClusterName hub) (ap_AccountID managed) (ap_ClusterName managed);
          roleName = ocmManagedClusterRolePrefix @ suffix;
          roleARN = ''arn:aws:iam::'' @ ap_AccountID managed @ '':role/'' @ roleName;
          hubRoleARN = ''arn:aws:iam::'' @ ap_AccountID hub @ '':role/'' @ ocmHubRolePrefix @ suffix;
          assumePolicy = buildOCMManagedClusterAssumeRolePolicyDocument oidcProviderARN issuerHostPath;
          inlinePolicy = buildOCMManagedClusterAssumeHubPolicyDocument hubRoleARN
      in try_bind (ensureOCMManagedClusterRole env c roleName (ap_Region hub) roleName assumePolicy
           (fmupd ocmManagedClusterAssumeHubName inlinePolicy fmempty) (ocmAWSIRSAResourceTags c hub managed)) (\<lambda>ok.
         if \<not> ok then
           bind_eff (ocm_event env c EventTypeWarning ''OCMAWSIRSAOwnershipConflict''
             (''IAM Role '' @ om_Namespace (cl_meta c) @ ''/'' @ roleName @ '' exists and is not managed by '' @
              ocmAWSIRSAManagedByValue)) (\<lambda>_.
           bind_eff (emit (RecordOwnershipConflict metricControllerOCMAWSIRSA ''Role'')) (\<lambda>_.
             ret (Inr (requeue_in (ocm_steadyStateRequeue r)))))
         else
           bind_eff (ocm_event env c EventTypeNormal ''OCMAWSIRSAReconciled''
             (''OCM AWS IRSA managed-cluster role reconciled: '' @ roleARN)) (\<lambda>_.
           bind_eff (perform EksNow (\<lambda>h. ee_now env h)) (\<lambda>now.
           bind_eff (emit (RecordSuccessfulSync metricControllerOCMAWSIRSA now)) (\<lambda>_.
             ret (Inr (requeue_in (ocm_steadyStateRequeue r))))))))"

text \<open>The inputs: the status of the ACK cluster and the annotation with the hub's ARN.\<close>

definition ocm_reconcile_ack ::
    "ocm \<Rightarrow> eks_env \<Rightarrow> cluster \<Rightarrow> unstructured \<Rightarrow> ctrl_result result eks_eff" where
  "ocm_reconcile_ack r env c ack =
     (let status = (\<lambda>path. fst (readNestedString (ee_lib env) (un_Object ack) (''status'' # path)));
          issuerURL = status [''identity'', ''oidc'', ''issuer''];
          managedAccountID = status [''ackResourceMetadata'', ''ownerAccountID''];
          managedClusterARN = status [''ackResourceMetadata'', ''arn''];
          clusterStatus = status [''status''];
          here = om_Namespace (cl_meta c) @ ''/'' @ ack_name c;
          hubClusterARN = TrimSpace (str_get (om_Annotations (cl_meta c)) ocmHubClusterARNAnnotation);
          invalid = ocm_backoff r env c EventTypeWarning ''OCMAWSIRSAInputInvalid''
      in if issuerURL = '''' \<or> managedAccountID = '''' \<or> managedClusterARN = '''' then
           ocm_backoff r env c EventTypeNormal ''ACKClusterNotReady''
             (''waiting for ACK EKS status fields identity.oidc.issuer/ownerAccountID/arn on '' @ here)
         else if \<not> EqualFold clusterStatus ''ACTIVE'' then
           ocm_backoff r env c EventTypeNormal ''ACKClusterNotReady''
             (''waiting for ACK EKS Cluster status.status to become ACTIVE (current='' @ quote clusterStatus @ '') on '' @ here)
         else if hubClusterARN = '''' then
           ocm_backoff r env c EventTypeWarning ''OCMAWSIRSAInputMissing''
             (''missing '' @ quote ocmHubClusterARNAnnotation @ '' annotation; cause: OCM AWS IRSA role suffix and assume-hub policy need the hub EKS cluster ARN. action: set '' @
              ocmHubClusterARNAnnotation @ ''=arn:aws:eks:<region>:<account>:cluster/<hub>'')
         else (case parseEKSClusterARN hubClusterARN of
             Inl e \<Rightarrow> invalid (''invalid '' @ quote ocmHubClusterARNAnnotation @ '' annotation: '' @ err_text e)
           | Inr hub \<Rightarrow>
         (case parseEKSClusterARN managedClusterARN of
             Inl e \<Rightarrow> invalid (''invalid managed cluster ARN from ACK status: '' @ err_text e)
           | Inr managed \<Rightarrow>
             if ap_AccountID managed \<noteq> managedAccountID then
               invalid (''ACK EKS ownerAccountID '' @ quote managedAccountID @
                 '' does not match managed cluster ARN account '' @ quote (ap_AccountID managed))
             else (case normalizeIssuerHostPath (ee_lib env) issuerURL of
                 Inl e \<Rightarrow> invalid (''invalid OIDC issuer URL from ACK status: '' @ err_text e)
               | Inr issuerHostPath \<Rightarrow> ocm_reconcile_role r env c issuerHostPath hub managed))))"

text \<open>A cluster with the feature enabled.\<close>

definition ocm_reconcile_enabled :: "ocm \<Rightarrow> eks_env \<Rightarrow> cluster \<Rightarrow> ctrl_result result eks_eff" where
  "ocm_reconcile_enabled r env c0 =
     try_bind (ocm_ensureClusterNameLabel env c0) (\<lambda>c.
     let missing = ocm_missingAPIs env [ackClusterGVK, ackIAMRoleGVK]; ns = om_Namespace (cl_meta c) in
     if missing \<noteq> [] then
       ocm_backoff r env c EventTypeWarning ''PrerequisiteAPIMissing''
         (''missing prerequisite APIs '' @ joinGVKs (ee_lib env) missing @
          ''; cause: OCM AWS IRSA bootstrap role needs ACK EKS/IAM CRDs. action: install ACK EKS and IAM controllers'')
     else bind_eff (eks_get env ackClusterGVK (object_key ns (ack_name c))) (\<lambda>ack. case ack of
         Inl e \<Rightarrow>
           if is_not_found e then ocm_backoff r env c EventTypeNormal ''ACKClusterNotFound''
             (''waiting for ACK EKS Cluster '' @ ns @ ''/'' @ ack_name c)
           else ret (Inl e)
       | Inr u \<Rightarrow> ocm_reconcile_ack r env c u))"

definition ocm_Reconcile :: "ocm \<Rightarrow> eks_env \<Rightarrow> object_key \<Rightarrow> ctrl_result result eks_eff" where
  "ocm_Reconcile r env req =
     bind_eff (perform (EksGetCluster req) (\<lambda>h. ee_getCluster env h req)) (\<lambda>got. case got of
       Inl e \<Rightarrow> ret (map_sum id (\<lambda>_. no_requeue) (ignore_not_found e))
     | Inr c0 \<Rightarrow>
         if om_DeletionTimestamp (cl_meta c0) \<noteq> None then ret (Inr no_requeue)
         else if \<not> isOCMAWSIRSAEnabled c0 then
           bind_eff (ocm_event env c0 EventTypeNormal ''OCMAWSIRSADisabled'' ''OCM AWS IRSA bootstrap is disabled'') (\<lambda>_.
             ret (Inr no_requeue))
         else ocm_reconcile_enabled r env c0)"

section \<open>ARNs\<close>

lemma split_six:
  assumes "length (split_char d s) = 6"
  obtains a b c e f g where "split_char d s = [a, b, c, e, f, g]" "s = a @ [d] @ b @ [d] @ c @ [d] @ e @ [d] @ f @ [d] @ g"
    "d \<notin> set a" "d \<notin> set b" "d \<notin> set c" "d \<notin> set e" "d \<notin> set f" "d \<notin> set g"
proof -
  obtain a b c e f g where parts: "split_char d s = [a, b, c, e, f, g]"
    using assms by (auto simp: length_Suc_conv numeral_eq_Suc)
  then have "d \<notin> set w" if "w \<in> {a, b, c, e, f, g}" for w
    using that split_char_no_sep [of w d s] by auto
  then show thesis using that [OF parts] join_split_char [of d s] parts by simp
qed

lemma split_of_six:
  assumes "d \<notin> set a" "d \<notin> set b" "d \<notin> set c" "d \<notin> set e" "d \<notin> set f" "d \<notin> set g"
  shows "split_char d (a @ d # b @ d # c @ d # e @ d # f @ d # g) = [a, b, c, e, f, g]"
  using assms by (simp add: split_char_append split_char_single)

text \<open>
  The ARN of an EKS cluster is accepted exactly if it has six fields, is an EKS ARN with a
  non-blank region and account, and names a cluster. Region and account are taken as they are
  written, with the blanks around them that the check ignored.
\<close>

theorem parseEKSClusterARN_iff:
  "parseEKSClusterARN raw = Inr p \<longleftrightarrow>
   (\<exists>partition resource.
      TrimSpace raw = ''arn:'' @ partition @ '':eks:'' @ ap_Region p @ '':'' @ ap_AccountID p @ '':'' @ resource \<and>
      CHR '':'' \<notin> set partition \<union> set (ap_Region p) \<union> set (ap_AccountID p) \<union> set resource \<and>
      TrimSpace (ap_Region p) \<noteq> '''' \<and> TrimSpace (ap_AccountID p) \<noteq> '''' \<and>
      has_prefix (TrimSpace resource) ''cluster/'' \<and>
      ap_ClusterName p = TrimSpace (trim_prefix (TrimSpace resource) ''cluster/'') \<and> ap_ClusterName p \<noteq> '''')"
  (is "?lhs \<longleftrightarrow> ?rhs")
proof
  assume l: ?lhs
  then have "length (split_char (CHR '':'') (TrimSpace raw)) = 6"
    by (auto simp: parseEKSClusterARN_def Let_def split: if_splits)
  then obtain a b c e f g where s: "split_char (CHR '':'') (TrimSpace raw) = [a, b, c, e, f, g]"
    "TrimSpace raw = a @ '':'' @ b @ '':'' @ c @ '':'' @ e @ '':'' @ f @ '':'' @ g"
    "CHR '':'' \<notin> set a" "CHR '':'' \<notin> set b" "CHR '':'' \<notin> set c" "CHR '':'' \<notin> set e" "CHR '':'' \<notin> set f" "CHR '':'' \<notin> set g"
    by (rule split_six)
  have "a = ''arn''" "c = ''eks''" "TrimSpace e \<noteq> ''''" "TrimSpace f \<noteq> ''''"
    "has_prefix (TrimSpace g) ''cluster/''" "TrimSpace (trim_prefix (TrimSpace g) ''cluster/'') \<noteq> ''''"
    "p = \<lparr>ap_Region = e, ap_AccountID = f, ap_ClusterName = TrimSpace (trim_prefix (TrimSpace g) ''cluster/'')\<rparr>"
    using l by (auto simp: parseEKSClusterARN_def Let_def s(1) split: if_splits)
  then show ?rhs using s by (intro exI [of _ b] exI [of _ g]) simp
next
  assume ?rhs
  then obtain b g where s: "TrimSpace raw = ''arn:'' @ b @ '':eks:'' @ ap_Region p @ '':'' @ ap_AccountID p @ '':'' @ g"
    "CHR '':'' \<notin> set b" "CHR '':'' \<notin> set (ap_Region p)" "CHR '':'' \<notin> set (ap_AccountID p)" "CHR '':'' \<notin> set g"
    "TrimSpace (ap_Region p) \<noteq> ''''" "TrimSpace (ap_AccountID p) \<noteq> ''''" "has_prefix (TrimSpace g) ''cluster/''"
    "ap_ClusterName p = TrimSpace (trim_prefix (TrimSpace g) ''cluster/'')" "ap_ClusterName p \<noteq> ''''"
    by auto
  have "split_char (CHR '':'') (TrimSpace raw) = [''arn'', b, ''eks'', ap_Region p, ap_AccountID p, g]"
    using split_of_six [of "CHR '':''" "''arn''" b "''eks''" "ap_Region p" "ap_AccountID p" g] s(1-5) by simp
  then show ?lhs using s(6-10) by (simp add: parseEKSClusterARN_def Let_def)
qed

section \<open>Documents\<close>


section \<open>Whole runs\<close>

text \<open>
  What a run may write: the cluster's labels; and IAM roles in the cluster's namespace, new ones
  or ones it may write, with the two policy documents above.
\<close>

definition ocm_role_spec :: "unstructured \<Rightarrow> bool" where
  "ocm_role_spec u \<longleftrightarrow>
     (\<exists>m account issuer hubARN. spec_of (un_Object u) = Some m \<and>
        fmlookup m ''assumeRolePolicyDocument'' = Some (JStr (buildOCMManagedClusterAssumeRolePolicyDocument
          (''arn:aws:iam::'' @ account @ '':oidc-provider/'' @ issuer) issuer)) \<and>
        fmlookup m ''inlinePolicies'' = Some (JObj (fmupd ocmManagedClusterAssumeHubName
          (JStr (buildOCMManagedClusterAssumeHubPolicyDocument hubARN)) fmempty)))"

definition ocm_call_ok :: "eks_env \<Rightarrow> eks_call \<Rightarrow> bool" where
  "ocm_call_ok env w =
     (case w of
        EksCreate u \<Rightarrow> (\<exists>c. answered env c \<and> managed_write ocmAWSIRSAManagedByValue env c w) \<and>
          un_GVK u = ackIAMRoleGVK \<and> has_prefix (om_Name (un_meta u)) ocmManagedClusterRolePrefix \<and> ocm_role_spec u
      | EksUpdate u \<Rightarrow> (\<exists>c. answered env c \<and> managed_write ocmAWSIRSAManagedByValue env c w) \<and> ocm_role_spec u
      | EksPatchCluster before after \<Rightarrow>
          answered env before \<and> (\<exists>ls. after = set_meta (\<lambda>m. m\<lparr>om_Labels := ls\<rparr>) before)
      | EksPatch _ _ \<Rightarrow> False | EksCreateSecret _ \<Rightarrow> False | EksUpdateSecret _ \<Rightarrow> False
      | EksCreateConfigMap _ \<Rightarrow> False | EksUpdateConfigMap _ \<Rightarrow> False | Aws _ \<Rightarrow> False | Workload _ \<Rightarrow> False
      | _ \<Rightarrow> True)"

lemma ocm_call_reads [simp]:
  "ocm_call_ok env (EksGetCluster k)" "ocm_call_ok env (EksGet g k)" "ocm_call_ok env (ShouldEmit a)"
  "ocm_call_ok env (EksEvent k x y z)" "ocm_call_ok env EksNow"
  "ocm_call_ok env (RecordOwnershipConflict x y)" "ocm_call_ok env (RecordSuccessfulSync x n)"
  by (simp_all add: ocm_call_ok_def)

abbreviation retried :: "ctrl_result result \<Rightarrow> bool" where
  "retried res \<equiv> (case res of Inl _ \<Rightarrow> True | Inr x \<Rightarrow> 0 < requeue_after x)"

lemma ocm_trimmed: "trimmed ocmAWSIRSAManagedByValue"
  unfolding trimmed_iff ocmAWSIRSAManagedByValue_def by code_simp

lemma ocm_durations:
  assumes "0 \<le> oc_FailureBackoff r" "0 \<le> oc_SteadyStateRequeue r"
  shows "0 < ocm_failureBackoff r" "0 < ocm_steadyStateRequeue r"
  using assms by (simp_all add: ocm_failureBackoff_def ocm_steadyStateRequeue_def)

lemma ensures_event: "ensures (ocm_call_ok env) (\<lambda>_. True) (ocm_event env c x y z)"
  unfolding ocm_event_def emits_ensures [symmetric] by (rule emits_eks_event) simp_all

lemma ensures_ocm_backoff:
  "0 \<le> oc_FailureBackoff r \<Longrightarrow> ensures (ocm_call_ok env) retried (ocm_backoff r env c x y z)"
  unfolding ocm_backoff_def
  by (rule ensures_bind [OF ensures_event]) (simp add: ensures_ret ocm_failureBackoff_def)

lemma fmmap_single: "fmmap f (fmupd k v fmempty) = fmupd k (f v) fmempty"
  by (rule fmap_ext) simp

lemma fmupd_not_empty: "fmupd k v m \<noteq> fmempty"
  by (metis fmempty_lookup fmupd_lookup option.distinct(1))

lemma ocm_fields_spec:
  assumes "\<exists>m. spec_of (un_Object u) = Some (upd_all (ocm_role_fields n
      (buildOCMManagedClusterAssumeRolePolicyDocument (''arn:aws:iam::'' @ account @ '':oidc-provider/'' @ issuer) issuer)
      (fmupd ocmManagedClusterAssumeHubName (buildOCMManagedClusterAssumeHubPolicyDocument hubARN) fmempty) tags) m)"
  shows "ocm_role_spec u"
proof -
  from assms obtain m where m: "spec_of (un_Object u) = Some (upd_all (ocm_role_fields n
      (buildOCMManagedClusterAssumeRolePolicyDocument (''arn:aws:iam::'' @ account @ '':oidc-provider/'' @ issuer) issuer)
      (fmupd ocmManagedClusterAssumeHubName (buildOCMManagedClusterAssumeHubPolicyDocument hubARN) fmempty) tags) m)" ..
  show ?thesis
    unfolding ocm_role_spec_def
    by (rule exI, rule exI [of _ account], rule exI [of _ issuer], rule exI [of _ hubARN], rule conjI [OF m])
      (simp add: ocm_role_fields_def fmupd_not_empty fmmap_single)
qed

lemma ensures_ocm_role:
  assumes laws: "set_nested_laws (ee_lib env)" "owner_laws (ee_lib env)" and c: "answered env c"
    and steady: "0 \<le> oc_SteadyStateRequeue r"
  shows "ensures (ocm_call_ok env) retried (ocm_reconcile_role r env c issuer hub managed)"
proof -
  have fs: "ocm_role_fields n a i t \<noteq> []" for n a i t by (simp add: ocm_role_fields_def)
  have mb: "bs_ManagedBy ocm_bootstrapper = ocmAWSIRSAManagedByValue" by (simp add: ocm_bootstrapper_def)
  have role: "emits (ocm_call_ok env) (ensureOCMManagedClusterRole env c (ocmManagedClusterRolePrefix @ suffix) region n
      (buildOCMManagedClusterAssumeRolePolicyDocument (''arn:aws:iam::'' @ account @ '':oidc-provider/'' @ issuer) issuer)
      (fmupd ocmManagedClusterAssumeHubName (buildOCMManagedClusterAssumeHubPolicyDocument hubARN) fmempty) tags)"
    for suffix region n account hubARN tags
    unfolding ensureOCMManagedClusterRole_def ocm_upsertManagedUnstructured_def
    by (rule emits_upsertManaged [OF laws, of ocm_bootstrapper, unfolded mb, OF ocm_trimmed fs])
      (use c ocm_fields_spec in \<open>auto simp: ocm_call_ok_def\<close>)
  have steady: "0 < ocm_steadyStateRequeue r" using steady by (simp add: ocm_steadyStateRequeue_def)
  show ?thesis
    unfolding ocm_reconcile_role_def Let_def
  proof (rule ensures_try [OF ensures_of_emits [OF role TrueI]], goal_cases)
    case (1 ok)
    show ?case
      using steady
      by (auto intro!: ensures_bind [OF ensures_event] ensures_bind [OF ensures_perform]
          ensures_ret simp: emit_def)
  qed simp
qed

lemma ensures_ocm_ack:
  assumes "set_nested_laws (ee_lib env)" "owner_laws (ee_lib env)" "answered env c"
    and "0 \<le> oc_FailureBackoff r" "0 \<le> oc_SteadyStateRequeue r"
  shows "ensures (ocm_call_ok env) retried (ocm_reconcile_ack r env c ack)"
  unfolding ocm_reconcile_ack_def Let_def
  using ensures_ocm_backoff [OF assms(4)] ensures_ocm_role [OF assms(1-3,5)]
  by (auto intro!: ensures_case_result)

lemma ensures_ocm_enabled:
  assumes laws: "set_nested_laws (ee_lib env)" "owner_laws (ee_lib env)"
    and durations: "0 \<le> oc_FailureBackoff r" "0 \<le> oc_SteadyStateRequeue r"
    and c: "ee_getCluster env h req = Inr c"
  shows "ensures (ocm_call_ok env) retried (ocm_reconcile_enabled r env c)"
  unfolding ocm_reconcile_enabled_def ocm_ensureClusterNameLabel_def
proof (rule ensures_try)
  show "ensures (ocm_call_ok env) (case_sum (\<lambda>_. True) (answered env)) (ensureClusterNameLabel env c)"
  proof (rule ensures_label)
    show a: "answered env c" using c by (auto simp: answered_def)
    show "ocm_call_ok env (EksPatchCluster c (set_meta (\<lambda>m. m\<lparr>om_Labels := ls\<rparr>) c))" for ls
      using a by (auto simp: ocm_call_ok_def)
  qed
qed (use ensures_ocm_backoff [OF durations(1)] ensures_ocm_ack [OF laws _ durations] in
  \<open>auto simp: Let_def eks_get_def intro!: ensures_bind [OF ensures_perform, where R = "\<lambda>_. True"]
     ensures_case_result ensures_ret\<close>)



section \<open>Witnesses\<close>


definition demo_ocm_cluster :: cluster where
  "demo_ocm_cluster = demo_eks_cluster\<lparr>cl_meta := (cl_meta demo_eks_cluster)\<lparr>om_Labels :=
     fmupd ocmAWSIRSAEnableLabelKey ocmAWSIRSAEnableLabelValue fmempty\<rparr>\<rparr>"

definition demo_ocm_env :: eks_env where
  "demo_ocm_env = demo_eks_env\<lparr>ee_getCluster := \<lambda>h k. Inr demo_ocm_cluster\<rparr>"


interpretation ocm_object: managed_object "\<lambda>u. isManagedByOCMAWSIRSA (om_Annotations (un_meta u))"
    "own_unstructured ref_lib c (fill_object ref_lib ocmAWSIRSAManagedByValue region cn (f # fs))" for c region cn f fs
  unfolding isManagedByOCMAWSIRSA_def
  by (rule own_fill_managed [OF _ _ ocm_trimmed]) (use ref_lib_laws in \<open>simp_all add: apilib_laws_def\<close>)

end
