(* ===== verification/Ec2.thy ===== *)
theory Ec2
  imports AckObjects "HOL-Library.Sublist"
begin

text \<open>
  What the Karpenter bootstrapper does with EC2: the VPC of the node subnets, the check of the
  subnets of a Fargate profile, and the two clean-ups of a deleted cluster, of instances and of
  network interfaces (functions of \<open>karpenter_bootstrapper_controller.go\<close> and
  \<open>karpenter_bootstrapper_orphan_eni_cleanup.go\<close>).
\<close>

section \<open>Calls\<close>

definition load_aws_config :: "eks_env \<Rightarrow> string \<Rightarrow> unit result eks_eff" where
  "load_aws_config env region =
     bind_eff (perform (Aws (AwsLoadConfig region)) (\<lambda>h. ee_awsConfig env h region)) (\<lambda>r.
       ret (map_sum (wrapf ''load AWS config'') id r))"

definition describe_subnets :: "eks_env \<Rightarrow> string \<Rightarrow> string list \<Rightarrow> ec2_subnet list result eks_eff" where
  "describe_subnets env region ids =
     bind_eff (perform (Aws (DescribeSubnets region ids)) (\<lambda>h. ee_subnets env h region ids)) (\<lambda>r.
       ret (map_sum (wrapf ''describe subnets'') id r))"

definition describe_route_tables ::
    "eks_env \<Rightarrow> string \<Rightarrow> string \<Rightarrow> string list \<Rightarrow> string \<Rightarrow> route_table list result eks_eff" where
  "describe_route_tables env region fname values what =
     bind_eff (perform (Aws (DescribeRouteTables region fname values)) (\<lambda>h. ee_routeTables env h region fname values)) (\<lambda>r.
       ret (map_sum (wrapf what) id r))"

text \<open>The elements of a paginated answer, up to the page that failed.\<close>

fun all_pages :: "string \<Rightarrow> 'a list result list \<Rightarrow> 'a list result" where
  "all_pages what [] = Inr []"
| "all_pages what (Inl e # ps) = Inl (wrapf what e)"
| "all_pages what (Inr p # ps) = map_sum id (\<lambda>rest. p @ rest) (all_pages what ps)"

definition show_strings :: "string list \<Rightarrow> string" where
  "show_strings vs = ''['' @ str_join vs '' '' @ '']''"

definition nonblank :: "string list \<Rightarrow> string list" where
  "nonblank vs = filter (\<lambda>v. v \<noteq> '''') (map TrimSpace vs)"

section \<open>The VPC of the node subnets\<close>

definition vpc_of :: "ec2_subnet \<Rightarrow> string" where
  "vpc_of s = TrimSpace (derefString (sn_VpcId s))"

definition vpc_cidrs :: "ec2_vpc \<Rightarrow> string list" where
  "vpc_cidrs v = sorted_list_of_fset (fset_of_list (nonblank
     (derefString (vp_CidrBlock v) # map derefString (vp_CidrBlockAssociationSet v))))"

definition common_vpc :: "string list \<Rightarrow> ec2_subnet list \<Rightarrow> string result" where
  "common_vpc ids subnets =
     (case subnets of
        [] \<Rightarrow> Inl (errorf (''no subnets returned for '' @ show_strings ids))
      | s # _ \<Rightarrow>
          if vpc_of s = '''' then Inl (errorf ''subnet has empty vpcId'')
          else (case find (\<lambda>t. vpc_of t \<noteq> vpc_of s) subnets of
              None \<Rightarrow> Inr (vpc_of s)
            | Some t \<Rightarrow> Inl (errorf (''subnets are in different VPCs (got '' @ quote (vpc_of s) @ '' and '' @ quote (vpc_of t) @ '')''))))"

definition discoverVPCBySubnets :: "eks_env \<Rightarrow> string \<Rightarrow> string list \<Rightarrow> (string \<times> string list) result eks_eff" where
  "discoverVPCBySubnets env region0 nodeSubnetIDs =
     (let region = TrimSpace region0; ids = nonblank nodeSubnetIDs in
      if region = '''' then ret (Inl (errorf ''region is empty''))
      else if ids = [] then ret (Inl (errorf ''subnet IDs are empty''))
      else try_bind (load_aws_config env region) (\<lambda>_.
           try_bind (describe_subnets env region ids) (\<lambda>subnets.
           case common_vpc ids subnets of
             Inl e \<Rightarrow> ret (Inl e)
           | Inr vpcID \<Rightarrow>
               bind_eff (perform (Aws (DescribeVpcs region [vpcID])) (\<lambda>h. ee_vpcs env h region [vpcID])) (\<lambda>out. case out of
                 Inl e \<Rightarrow> ret (Inl (wrapf ''describe vpcs'' e))
               | Inr [] \<Rightarrow> ret (Inl (errorf (''no VPC returned for '' @ vpcID)))
               | Inr (v # _) \<Rightarrow> ret (Inr (vpcID, vpc_cidrs v))))))"

section \<open>The subnets of a Fargate profile\<close>

definition isDefaultIPv4OrIPv6Route :: "ec2_route \<Rightarrow> bool" where
  "isDefaultIPv4OrIPv6Route route \<longleftrightarrow>
     TrimSpace (derefString (rr_DestinationCidrBlock route)) = ''0.0.0.0/0'' \<or>
     TrimSpace (derefString (rr_DestinationIpv6CidrBlock route)) = ''::/0''"

definition to_internet_gateway :: "ec2_route \<Rightarrow> bool" where
  "to_internet_gateway route \<longleftrightarrow> isDefaultIPv4OrIPv6Route route \<and>
     has_prefix (TrimSpace (derefString (rr_GatewayId route))) ''igw-''"

definition to_nat :: "ec2_route \<Rightarrow> bool" where
  "to_nat route \<longleftrightarrow> isDefaultIPv4OrIPv6Route route \<and>
     (has_prefix (TrimSpace (derefString (rr_NatGatewayId route))) ''nat-'' \<or>
      TrimSpace (derefString (rr_InstanceId route)) \<noteq> '''')"

text \<open>Maps of the answers by ID; a later element replaces an earlier one.\<close>

definition put_nonblank :: "string \<Rightarrow> 'v \<Rightarrow> (string, 'v) fmap \<Rightarrow> (string, 'v) fmap" where
  "put_nonblank k v m = (if k = '''' then m else fmupd k v m)"

definition subnets_by_id :: "ec2_subnet list \<Rightarrow> (string, ec2_subnet) fmap" where
  "subnets_by_id subnets = fold (\<lambda>s. put_nonblank (TrimSpace (derefString (sn_SubnetId s))) s) subnets fmempty"

definition tables_by_subnet :: "route_table list \<Rightarrow> (string, route_table) fmap" where
  "tables_by_subnet tables =
     fold (\<lambda>rt. fold (\<lambda>a. put_nonblank (TrimSpace (derefString (ra_SubnetId a))) rt) (rb_Associations rt)) tables fmempty"

definition main_route_table :: "route_table list \<Rightarrow> route_table option" where
  "main_route_table tables = find (\<lambda>rt. list_ex (\<lambda>a. ra_Main a = Some True) (rb_Associations rt)) tables"

text \<open>The VPC all subnets share and their availability zones, as far as they are known.\<close>

fun check_subnets ::
    "(string, ec2_subnet) fmap \<Rightarrow> string \<Rightarrow> string fset \<Rightarrow> string list \<Rightarrow> (string \<times> string fset) result" where
  "check_subnets m vpcID azs [] = Inr (vpcID, azs)"
| "check_subnets m vpcID azs (i # ids) =
     (case fmlookup m i of
        None \<Rightarrow> Inl (errorf (''subnet '' @ quote i @ '' not found''))
      | Some s \<Rightarrow>
          let az = TrimSpace (derefString (sn_AvailabilityZone s)); azs' = (if az = '''' then azs else finsert az azs) in
          if vpc_of s = '''' then Inl (errorf (''subnet '' @ quote i @ '' has empty vpcId''))
          else if vpcID = '''' then check_subnets m (vpc_of s) azs' ids
          else if vpcID \<noteq> vpc_of s then Inl (errorf (''subnets are in different VPCs ('' @ quote vpcID @ '', '' @ quote (vpc_of s) @ '')''))
          else check_subnets m vpcID azs' ids)"

text \<open>The subnets with a route to the internet and those without one through a NAT.\<close>

fun classify_subnets ::
    "(string, route_table) fmap \<Rightarrow> route_table option \<Rightarrow> string list \<Rightarrow> (string list \<times> string list) result" where
  "classify_subnets m main [] = Inr ([], [])"
| "classify_subnets m main (i # ids) =
     (case (case fmlookup m i of None \<Rightarrow> main | Some rt \<Rightarrow> Some rt) of
        None \<Rightarrow> Inl (errorf (''route table not found for subnet '' @ quote i @ '' and no main route table detected''))
      | Some rt \<Rightarrow> map_sum id (\<lambda>(public, noNAT).
          (if list_ex to_internet_gateway (rb_Routes rt) then i # public else public,
           if list_ex to_nat (rb_Routes rt) then noNAT else i # noNAT)) (classify_subnets m main ids))"

definition subnet_verdict ::
    "nat \<Rightarrow> (string list \<times> string list) result \<Rightarrow> subnet_validation result" where
  "subnet_verdict azCount r =
     (case r of
        Inl e \<Rightarrow> Inl e
      | Inr (public, noNAT) \<Rightarrow>
          if public \<noteq> [] then
            Inl (errorf (''public subnet IDs are not allowed for FargateProfile: '' @ show_strings (sort_strings public)))
          else Inr \<lparr>sv_SubnetsWithoutNATDefaultRoute = sort_strings noNAT, sv_DistinctAZCount = azCount\<rparr>)"

text \<open>
  All IDs are looked up before the VPCs are compared, so that an unknown one is reported first.
\<close>

definition find_missing :: "(string, 'v) fmap \<Rightarrow> string list \<Rightarrow> string option" where
  "find_missing m ids = find (\<lambda>i. fmlookup m i = None) ids"

definition route_tables_of ::
    "eks_env \<Rightarrow> string \<Rightarrow> string \<Rightarrow> string list \<Rightarrow> ((string, route_table) fmap \<times> route_table option) result eks_eff" where
  "route_tables_of env region vpcID ids =
     try_bind (describe_route_tables env region ''association.subnet-id'' ids
       ''describe route tables for subnet associations'') (\<lambda>associated.
     let m = tables_by_subnet associated in
     if fcard (fmdom m) < length ids then
       try_bind (describe_route_tables env region ''vpc-id'' [vpcID] (''describe route tables in VPC '' @ vpcID)) (\<lambda>tables.
         ret (Inr (m, main_route_table tables)))
     else ret (Inr (m, None)))"

definition validateFargateSubnets :: "eks_env \<Rightarrow> string \<Rightarrow> string list \<Rightarrow> subnet_validation result eks_eff" where
  "validateFargateSubnets env region0 nodeSubnetIDs =
     (let ids = normalizeDistinctStrings nodeSubnetIDs; region = TrimSpace region0 in
      if ids = [] then ret (Inl (errorf ''need at least 1 subnet, got 0''))
      else if region = '''' then ret (Inl (errorf ''region is empty''))
      else try_bind (load_aws_config env region) (\<lambda>_.
           try_bind (describe_subnets env region ids) (\<lambda>subnets.
           let m = subnets_by_id subnets in
           if subnets = [] then ret (Inl (errorf ''no subnets returned''))
           else (case find_missing m ids of
               Some i \<Rightarrow> ret (Inl (errorf (''subnet '' @ quote i @ '' not found'')))
             | None \<Rightarrow>
           (case check_subnets m '''' {||} ids of
               Inl e \<Rightarrow> ret (Inl e)
             | Inr (vpcID, azs) \<Rightarrow>
                 try_bind (route_tables_of env region vpcID ids) (\<lambda>(tables, main).
                   ret (subnet_verdict (fcard azs) (classify_subnets tables main ids))))))))"

section \<open>Instances\<close>

definition ignoreInvalidInstanceNotFound :: "aws_error \<Rightarrow> bool" where
  "ignoreInvalidInstanceNotFound e \<longleftrightarrow> ae_Code e = Some ''InvalidInstanceID.NotFound''"

definition instance_id :: "ec2_instance \<Rightarrow> string" where
  "instance_id i = TrimSpace (derefString (ei_InstanceId i))"

definition to_terminate :: "ec2_instance list \<Rightarrow> string list" where
  "to_terminate is = filter (\<lambda>i. i \<noteq> '''') (map instance_id
     (filter (\<lambda>i. ei_State i \<in> {''pending'', ''running'', ''stopping'', ''stopped''}) is))"

definition shutting_down :: "ec2_instance list \<Rightarrow> string list" where
  "shutting_down is = filter (\<lambda>i. i \<noteq> '''') (map instance_id (filter (\<lambda>i. ei_State i = ''shutting-down'') is))"

text \<open>The batches from index \<open>i\<close> on.\<close>

function terminate_batches :: "eks_env \<Rightarrow> string \<Rightarrow> string list \<Rightarrow> nat \<Rightarrow> unit result eks_eff" where
  "terminate_batches env region ids i =
     (if i < length ids then
        let batch = take (min (i + 50) (length ids) - i) (drop i ids) in
        bind_eff (perform (Aws (TerminateInstances region batch)) (\<lambda>h. ee_terminate env h region batch)) (\<lambda>r.
          if (case r of None \<Rightarrow> True | Some e \<Rightarrow> ignoreInvalidInstanceNotFound e)
          then terminate_batches env region ids (i + 50)
          else ret (Inl (wrapf ''terminate instances'' (ae_Error (the r)))))
      else ret (Inr ()))"
  by pat_completeness auto
termination by (relation "measure (\<lambda>(env, region, ids, i). length ids - i)") auto

declare terminate_batches.simps [simp del]

text \<open>Whether nothing is left, how many instances are to terminate and how many shut down.\<close>

definition cleanupKarpenterEC2Instances :: "eks_env \<Rightarrow> string \<Rightarrow> string \<Rightarrow> (bool \<times> nat \<times> nat) result eks_eff" where
  "cleanupKarpenterEC2Instances env region0 name0 =
     (let region = TrimSpace region0; name = TrimSpace name0 in
      if region = '''' then ret (Inl (errorf ''region is empty''))
      else if name = '''' then ret (Inl (errorf ''eksClusterName is empty''))
      else try_bind (load_aws_config env region) (\<lambda>_.
           bind_eff (perform (Aws (DescribeInstances region name)) (\<lambda>h. ee_instancePages env h region name)) (\<lambda>pages.
           case all_pages ''describe instances'' pages of
             Inl e \<Rightarrow> ret (Inl e)
           | Inr reservations \<Rightarrow>
               let found = concat reservations; ids = to_terminate found; down = shutting_down found in
               if ids = [] \<and> down = [] then ret (Inr (True, 0, 0))
               else try_bind (terminate_batches env region ids 0) (\<lambda>_.
                 ret (Inr (False, length ids, length down))))))"

section \<open>Network interfaces\<close>

definition ignoreInvalidNetworkInterfaceNotFound :: "aws_error \<Rightarrow> bool" where
  "ignoreInvalidNetworkInterfaceNotFound e \<longleftrightarrow> ae_Code e = Some ''InvalidNetworkInterfaceID.NotFound''"

fun tag_find :: "string \<Rightarrow> ec2_tag list \<Rightarrow> string" where
  "tag_find key [] = ''''"
| "tag_find key (t # ts) =
     (if TrimSpace (derefString (tg_Key t)) \<noteq> key then tag_find key ts else TrimSpace (derefString (tg_Value t)))"

definition tagValue :: "ec2_tag list \<Rightarrow> string \<Rightarrow> string" where
  "tagValue tags key = (if TrimSpace key = '''' then '''' else tag_find (TrimSpace key) tags)"

definition isOrphanCNINetworkInterface :: "network_interface \<Rightarrow> bool" where
  "isOrphanCNINetworkInterface ni \<longleftrightarrow> \<not> ni_Attached ni \<and> ni_Status ni = ''available'' \<and>
     EqualFold (TrimSpace (tagValue (ni_TagSet ni) ''eks:eni:owner'')) ''amazon-vpc-cni''"

definition orphan_ids :: "network_interface list \<Rightarrow> string list" where
  "orphan_ids nis = filter (\<lambda>i. i \<noteq> '''')
     (map (\<lambda>ni. TrimSpace (derefString (ni_NetworkInterfaceId ni))) (filter isOrphanCNINetworkInterface nis))"

text \<open>The number of deleted interfaces.\<close>

fun delete_interfaces :: "eks_env \<Rightarrow> string \<Rightarrow> nat \<Rightarrow> string list \<Rightarrow> nat result eks_eff" where
  "delete_interfaces env region deleted [] = ret (Inr deleted)"
| "delete_interfaces env region deleted (i # ids) =
     bind_eff (perform (Aws (DeleteNetworkInterface region i)) (\<lambda>h. ee_deleteNetworkInterface env h region i)) (\<lambda>r. case r of
       None \<Rightarrow> delete_interfaces env region (deleted + 1) ids
     | Some e \<Rightarrow>
         if ignoreInvalidNetworkInterfaceNotFound e then delete_interfaces env region deleted ids
         else ret (Inl (wrapf (''delete network interface '' @ quote i) (ae_Error e))))"

text \<open>
  Whether nothing was left, how many were deleted, and how many there were. The counts that
  accompany an error are only logged and left out.
\<close>

definition cleanupOrphanCNINetworkInterfaces :: "eks_env \<Rightarrow> string \<Rightarrow> string \<Rightarrow> (bool \<times> nat \<times> nat) result eks_eff" where
  "cleanupOrphanCNINetworkInterfaces env region0 group0 =
     (let region = TrimSpace region0; securityGroupID = TrimSpace group0 in
      if region = '''' then ret (Inl (errorf ''region is empty''))
      else if securityGroupID = '''' then ret (Inl (errorf ''securityGroupID is empty''))
      else try_bind (load_aws_config env region) (\<lambda>_.
           bind_eff (perform (Aws (DescribeNetworkInterfaces region securityGroupID))
             (\<lambda>h. ee_networkInterfacePages env h region securityGroupID)) (\<lambda>pages.
           case all_pages ''describe network interfaces'' pages of
             Inl e \<Rightarrow> ret (Inl e)
           | Inr nis \<Rightarrow>
               let candidates = orphan_ids nis in
               if candidates = [] then ret (Inr (True, 0, 0))
               else try_bind (delete_interfaces env region 0 candidates) (\<lambda>deleted.
                 ret (Inr (False, deleted, length candidates))))))"

definition ackSecurityGroupGVK :: gvk where
  "ackSecurityGroupGVK = \<lparr>gvk_Group = ''ec2.services.k8s.aws'', gvk_Version = ''v1alpha1'', gvk_Kind = ''SecurityGroup''\<rparr>"

definition node_sg_name :: "cluster \<Rightarrow> string" where
  "node_sg_name owner = aws_name (om_Name (cl_meta owner) @ ''-karpenter-node-sg'') 63"

definition cleanupOrphanCNINetworkInterfacesForNodeSecurityGroup ::
    "eks_env \<Rightarrow> cluster \<Rightarrow> string \<Rightarrow> (bool \<times> nat \<times> nat) result eks_eff" where
  "cleanupOrphanCNINetworkInterfacesForNodeSecurityGroup env owner region0 =
     (let region = TrimSpace region0 in
      if region = '''' then ret (Inr (True, 0, 0))
      else bind_eff (eks_get env ackSecurityGroupGVK (object_key (om_Namespace (cl_meta owner)) (node_sg_name owner))) (\<lambda>got. case got of
          Inl e \<Rightarrow> ret (if is_not_found e \<or> isNoMatchError e then Inr (True, 0, 0) else Inl e)
        | Inr sg \<Rightarrow>
            let sgID = TrimSpace (fst (readNestedString (ee_lib env) (un_Object sg) [''status'', ''id''])) in
            if \<not> isManagedByBootstrapper (om_Annotations (un_meta sg)) then ret (Inr (True, 0, 0))
            else if sgID = '''' then ret (Inr (True, 0, 0))
            else cleanupOrphanCNINetworkInterfaces env region sgID))"

section \<open>Termination in batches\<close>

text \<open>What a run did to instances and interfaces, in order.\<close>

definition terminated :: "eks_call \<Rightarrow> string list" where
  "terminated c = (case c of Aws a \<Rightarrow> (case a of TerminateInstances _ ids \<Rightarrow> ids | _ \<Rightarrow> []) | _ \<Rightarrow> [])"

definition full_batch :: "eks_call \<Rightarrow> bool" where
  "full_batch c = (case c of Aws a \<Rightarrow> (case a of TerminateInstances _ ids \<Rightarrow> ids \<noteq> [] \<and> length ids \<le> 50 | _ \<Rightarrow> True) | _ \<Rightarrow> True)"

lemma terminated_simps [simp]:
  "terminated (Aws (AwsLoadConfig r)) = []" "terminated (Aws (DescribeInstances r n)) = []"
  "terminated (Aws (TerminateInstances r ids)) = ids"
  "full_batch (Aws (AwsLoadConfig r))" "full_batch (Aws (DescribeInstances r n))"
  "full_batch (Aws (TerminateInstances r ids)) \<longleftrightarrow> ids \<noteq> [] \<and> length ids \<le> 50"
  by (simp_all add: terminated_def full_batch_def)

text \<open>What the calls \<open>t\<close> after \<open>h\<close> terminate of the instances from \<open>i\<close> on.\<close>

definition batches_cover :: "eks_call list \<Rightarrow> string list \<Rightarrow> unit result \<Rightarrow> eks_call list \<Rightarrow> bool" where
  "batches_cover h ids r h' \<longleftrightarrow> (\<exists>t rest. h' = h @ t \<and> list_all full_batch t \<and>
     ids = concat (map terminated t) @ rest \<and> (\<not> isl r \<longrightarrow> rest = []))"

lemma batches_cover_more:
  assumes "batches_cover (h @ [Aws (TerminateInstances region batch)]) ids r h'" "batch \<noteq> []" "length batch \<le> 50"
  shows "batches_cover h (batch @ ids) r h'"
proof -
  obtain t rest where "h' = (h @ [Aws (TerminateInstances region batch)]) @ t" "list_all full_batch t"
      "ids = concat (map terminated t) @ rest" "\<not> isl r \<longrightarrow> rest = []"
    using assms(1) unfolding batches_cover_def by blast
  then show ?thesis
    using assms(2,3) unfolding batches_cover_def
    by (intro exI [of _ "Aws (TerminateInstances region batch) # t"] exI [of _ rest]) simp
qed

lemma next_batch:
  assumes "i < length ids"
  defines "batch \<equiv> take (min (i + 50) (length ids) - i) (drop i ids)"
  shows "batch \<noteq> []" "length batch \<le> 50" "drop i ids = batch @ drop (i + 50) ids"
proof -
  show "batch \<noteq> []" "length batch \<le> 50" using assms(1) by (auto simp: batch_def)
  have "batch = take 50 (drop i ids)" by (cases "i + 50 \<le> length ids") (simp_all add: batch_def min_def)
  then show "drop i ids = batch @ drop (i + 50) ids"
    using append_take_drop_id [of 50 "drop i ids"] by (simp add: add.commute)
qed

lemma terminate_batches_run:
  "wp (terminate_batches env region ids i) (batches_cover h (drop i ids)) h"
proof (induction env region ids i arbitrary: h rule: terminate_batches.induct)
  case (1 env region ids i)
  show ?case
  proof (cases "i < length ids")
    case False
    then show ?thesis by (subst terminate_batches.simps) (simp add: batches_cover_def)
  next
    case True
    define batch where "batch = take (min (i + 50) (length ids) - i) (drop i ids)"
    note b = next_batch [OF True, folded batch_def]
    let ?c = "Aws (TerminateInstances region batch)" and ?e = "ee_terminate env h region batch"
    show ?thesis
    proof (cases "case ?e of None \<Rightarrow> True | Some e \<Rightarrow> ignoreInvalidInstanceNotFound e")
      case go_on: True
      have "wp (terminate_batches env region ids (i + 50)) (batches_cover h (drop i ids)) (h @ [?c])"
        by (rule wp_mono [OF "1.IH" [OF True batch_def go_on]]) (use b batches_cover_more in simp)
      then show ?thesis
        using True go_on by (subst terminate_batches.simps) (simp add: Let_def batch_def [symmetric])
    next
      case False
      have "wp (terminate_batches env region ids i) (\<lambda>r h'. isl r \<and> h' = h @ [?c]) h"
        using True False by (subst terminate_batches.simps) (simp add: Let_def batch_def [symmetric])
      then show ?thesis
        by (rule wp_mono) (use b in \<open>auto simp: batches_cover_def intro!: exI [of _ "[?c]"]\<close>)
    qed
  qed
qed

text \<open>
  C31. Whatever AWS answers, a clean-up terminates instances in non-empty batches of at most 50,
  which one after the other are a beginning of the list of the cluster's instances that are
  pending, running, stopping or stopped, in the order of the answer. Without an error the
  batches are the whole list, and the clean-up reports to be done exactly if no such instance and
  none that is shutting down was left.
\<close>

theorem instances_terminated_in_batches:
  assumes "all_pages ''describe instances'' (ee_instancePages env [Aws (AwsLoadConfig (TrimSpace region))]
      (TrimSpace region) (TrimSpace name)) = Inr reservations"
    and "run_state (cleanupKarpenterEC2Instances env region name) [] = (r, h)"
  defines "ids \<equiv> to_terminate (concat reservations)" and "batches \<equiv> concat (map terminated h)"
  shows "list_all full_batch h \<and> prefix batches ids \<and>
    (case r of
       Inl _ \<Rightarrow> True
     | Inr (done, n, m) \<Rightarrow> batches = ids \<and> n = length ids \<and> m = length (shutting_down (concat reservations)) \<and>
         (done \<longleftrightarrow> ids = [] \<and> shutting_down (concat reservations) = []))"
proof -
  let ?down = "shutting_down (concat reservations)"
  let ?start = "[Aws (AwsLoadConfig (TrimSpace region)), Aws (DescribeInstances (TrimSpace region) (TrimSpace name))]"
  have "wp (cleanupKarpenterEC2Instances env region name) (\<lambda>r h. list_all full_batch h \<and>
     (\<exists>rest. ids = concat (map terminated h) @ rest \<and>
       (case r of
          Inl _ \<Rightarrow> True
        | Inr (done, n, m) \<Rightarrow> rest = [] \<and> n = length ids \<and> m = length ?down \<and> (done \<longleftrightarrow> ids = [] \<and> ?down = [])))) []"
  proof -
    have "wp (terminate_batches env (TrimSpace region) ids 0) (batches_cover ?start ids) ?start"
      using terminate_batches_run [of env "TrimSpace region" ids 0 ?start] by simp
    then show ?thesis
      using assms(1)
      by (auto simp: cleanupKarpenterEC2Instances_def load_aws_config_def batches_cover_def Let_def ids_def [symmetric]
          split: sum.split elim!: wp_mono)
  qed
  from wp_runD [OF this assms(2)] show ?thesis
    by (auto simp: batches_def prefix_def split: sum.splits)
qed

section \<open>Accepted subnets\<close>

text \<open>The answers read declaratively: the last element with an ID counts.\<close>

definition subnet_of :: "ec2_subnet list \<Rightarrow> string \<Rightarrow> ec2_subnet option" where
  "subnet_of subnets i = find (\<lambda>s. TrimSpace (derefString (sn_SubnetId s)) = i) (rev subnets)"

definition associated :: "route_table \<Rightarrow> string \<Rightarrow> bool" where
  "associated rt i \<longleftrightarrow> list_ex (\<lambda>a. TrimSpace (derefString (ra_SubnetId a)) = i) (rb_Associations rt)"

definition table_of :: "route_table list \<Rightarrow> string \<Rightarrow> route_table option" where
  "table_of tables i = find (\<lambda>rt. associated rt i) (rev tables)"

definition zone_of :: "ec2_subnet option \<Rightarrow> string" where
  "zone_of s = (case s of None \<Rightarrow> '''' | Some s \<Rightarrow> TrimSpace (derefString (sn_AvailabilityZone s)))"

lemma find_snoc: "find P (xs @ [x]) = (case find P xs of None \<Rightarrow> if P x then Some x else None | Some y \<Rightarrow> Some y)"
  by (induction xs) simp_all

lemma fold_put_nonblank:
  assumes "i \<noteq> ''''"
  shows "fmlookup (fold (\<lambda>x. put_nonblank (k x) x) xs m) i =
    (case find (\<lambda>x. k x = i) (rev xs) of None \<Rightarrow> fmlookup m i | Some x \<Rightarrow> Some x)"
  using assms by (induction xs arbitrary: m) (auto simp: put_nonblank_def find_snoc split: option.split)

lemma subnets_by_id_lookup: "i \<noteq> '''' \<Longrightarrow> fmlookup (subnets_by_id subnets) i = subnet_of subnets i"
  by (simp add: subnets_by_id_def subnet_of_def fold_put_nonblank split: option.split)

lemma fold_put_table:
  assumes "i \<noteq> ''''"
  shows "fmlookup (fold (\<lambda>a. put_nonblank (k a) rt) as m) i =
    (if list_ex (\<lambda>a. k a = i) as then Some rt else fmlookup m i)"
  using assms by (induction as arbitrary: m) (auto simp: put_nonblank_def)

lemma tables_by_subnet_lookup: "i \<noteq> '''' \<Longrightarrow> fmlookup (tables_by_subnet tables) i = table_of tables i"
proof -
  assume i: "i \<noteq> ''''"
  have "fmlookup (fold (\<lambda>rt. fold (\<lambda>a. put_nonblank (TrimSpace (derefString (ra_SubnetId a))) rt) (rb_Associations rt)) tables m) i =
      (case find (\<lambda>rt. associated rt i) (rev tables) of None \<Rightarrow> fmlookup m i | Some x \<Rightarrow> Some x)" for m
    by (induction tables arbitrary: m)
      (simp_all add: fold_put_table [OF i] find_snoc associated_def split: option.split)
  then show ?thesis by (simp add: tables_by_subnet_def table_of_def split: option.split)
qed

lemma check_subnets_known:
  "vpc \<noteq> '''' \<Longrightarrow> check_subnets m vpc azs ids = Inr (v, z) \<longleftrightarrow>
     v = vpc \<and> (\<forall>i\<in>set ids. \<exists>s. fmlookup m i = Some s \<and> vpc_of s = vpc) \<and>
     z = fset_of_list (filter (\<lambda>a. a \<noteq> '''') (map (\<lambda>i. zone_of (fmlookup m i)) ids)) |\<union>| azs"
proof (induction m vpc azs ids rule: check_subnets.induct)
  case (2 m vpcID azs i ids)
  then show ?case by (cases "fmlookup m i") (auto simp: Let_def zone_of_def)
qed auto

lemma check_subnets_all:
  "ids \<noteq> [] \<Longrightarrow> check_subnets m '''' {||} ids = Inr (v, z) \<longleftrightarrow>
     v \<noteq> '''' \<and> (\<forall>i\<in>set ids. \<exists>s. fmlookup m i = Some s \<and> vpc_of s = v) \<and>
     z = fset_of_list (filter (\<lambda>a. a \<noteq> '''') (map (\<lambda>i. zone_of (fmlookup m i)) ids))"
  by (cases ids; cases "fmlookup m (hd ids)") (auto simp: Let_def zone_of_def check_subnets_known)

lemma classify_subnets_all:
  "classify_subnets m main ids = Inr (p, n) \<longleftrightarrow>
     (let table = (\<lambda>i. case fmlookup m i of None \<Rightarrow> main | Some rt \<Rightarrow> Some rt) in
      (\<forall>i\<in>set ids. table i \<noteq> None) \<and>
      p = filter (\<lambda>i. list_ex to_internet_gateway (rb_Routes (the (table i)))) ids \<and>
      n = filter (\<lambda>i. \<not> list_ex to_nat (rb_Routes (the (table i)))) ids)"
proof (induction ids arbitrary: p n)
  case (Cons i ids)
  show ?case
  proof (cases "case fmlookup m i of None \<Rightarrow> main | Some rt \<Rightarrow> Some rt")
    case (Some rt)
    then show ?thesis
      using Cons.IH by (cases "classify_subnets m main ids") (auto simp: Let_def)
  qed (simp add: Let_def)
qed (auto simp: Let_def)

lemma normalized_ids:
  "i \<in> set (normalizeDistinctStrings vs) \<Longrightarrow> i \<noteq> ''''" "sorted (normalizeDistinctStrings vs)"
  using distinct_trimmed_char [of "[]" vs] by (auto simp: normalizeDistinctStrings_def)

lemma sorted_sort_strings: "sorted xs \<Longrightarrow> sort_strings xs = xs"
  by (simp add: sort_strings_def sorted_sort_id)

text \<open>
  The route table by which a subnet is judged: its own, or the main one of the VPC, which is only
  looked up if the answer associates fewer subnets than were asked for.
\<close>

definition effective_table :: "nat \<Rightarrow> route_table list \<Rightarrow> route_table list \<Rightarrow> string \<Rightarrow> route_table option" where
  "effective_table wanted assoc tables i =
     (case table_of assoc i of
        Some rt \<Rightarrow> Some rt
      | None \<Rightarrow> if fcard (fmdom (tables_by_subnet assoc)) < wanted then main_route_table tables else None)"

lemma subnet_verdict_iff:
  "subnet_verdict k r = Inr v \<longleftrightarrow>
     (\<exists>n. r = Inr ([], n) \<and> sv_SubnetsWithoutNATDefaultRoute v = sort_strings n \<and> sv_DistinctAZCount v = k)"
  by (cases r; cases v) (auto simp: subnet_verdict_def split: prod.split)

lemma sorted_filtered: "sorted xs \<Longrightarrow> sort_strings (filter P xs) = filter P xs"
  by (intro sorted_sort_strings) (metis map_ident sorted_filter)

lemma verdict_of_tables:
  assumes tab: "\<And>i. i \<in> set ids \<Longrightarrow> (case fmlookup m i of None \<Rightarrow> main | Some rt \<Rightarrow> Some rt) = table i"
    and "sorted ids"
  shows "subnet_verdict k (classify_subnets m main ids) = Inr v \<longleftrightarrow>
    (\<forall>i\<in>set ids. \<exists>rt. table i = Some rt \<and> \<not> list_ex to_internet_gateway (rb_Routes rt)) \<and>
    sv_SubnetsWithoutNATDefaultRoute v = filter (\<lambda>i. \<not> list_ex to_nat (rb_Routes (the (table i)))) ids \<and>
    sv_DistinctAZCount v = k"
proof -
  have "classify_subnets m main ids = Inr ([], noNAT) \<longleftrightarrow>
      (\<forall>i\<in>set ids. table i \<noteq> None) \<and> (\<forall>i\<in>set ids. \<not> list_ex to_internet_gateway (rb_Routes (the (table i)))) \<and>
      noNAT = filter (\<lambda>i. \<not> list_ex to_nat (rb_Routes (the (table i)))) ids" for noNAT
    unfolding classify_subnets_all Let_def using tab
    by (auto simp: filter_empty_conv eq_commute [of "[]"] cong: filter_cong)
  then show ?thesis
    unfolding subnet_verdict_iff using sorted_filtered [OF assms(2)] by (auto 0 4)
qed

lemma run_validateFargateSubnets:
  assumes "TrimSpace region = region" "region \<noteq> ''''" "subnets \<noteq> []"
    and "\<And>h. ee_awsConfig env h region = Inr ()"
    and "\<And>h. ee_subnets env h region (normalizeDistinctStrings vs) = Inr subnets"
    and "\<And>h. ee_routeTables env h region ''association.subnet-id'' (normalizeDistinctStrings vs) = Inr assoc"
    and "\<And>h vpc. ee_routeTables env h region ''vpc-id'' [vpc] = Inr (tables vpc)"
  defines "ids \<equiv> normalizeDistinctStrings vs" and "m \<equiv> subnets_by_id subnets" and "t \<equiv> tables_by_subnet assoc"
  shows "fst (run_state (validateFargateSubnets env region vs) []) = Inr v \<longleftrightarrow>
    ids \<noteq> [] \<and> find_missing m ids = None \<and>
    (\<exists>vpc azs. check_subnets m '''' {||} ids = Inr (vpc, azs) \<and>
       subnet_verdict (fcard azs) (classify_subnets t
         (if fcard (fmdom t) < length ids then main_route_table (tables vpc) else None) ids) = Inr v)"
  using assms(1-7)
  by (auto simp: validateFargateSubnets_def load_aws_config_def describe_subnets_def describe_route_tables_def
      route_tables_of_def Let_def ids_def m_def t_def run_try_bind split: option.split sum.split prod.split)

text \<open>
  C32. The subnets of a Fargate profile are accepted exactly if there is one, AWS knows them all,
  they are in the same VPC, and the route table of each, its own or the main one, is known and
  has no default route to an internet gateway. The subnets reported to lack a NAT are those whose
  table has no default route to a NAT gateway or instance, and the zones are counted without
  repetition.
\<close>

theorem fargate_subnets_accepted_iff:
  fixes env :: eks_env
  assumes "TrimSpace region = region" "region \<noteq> ''''" "subnets \<noteq> []"
    and "\<And>h. ee_awsConfig env h region = Inr ()"
    and "\<And>h. ee_subnets env h region (normalizeDistinctStrings vs) = Inr subnets"
    and "\<And>h. ee_routeTables env h region ''association.subnet-id'' (normalizeDistinctStrings vs) = Inr assoc"
    and "\<And>h vpc. ee_routeTables env h region ''vpc-id'' [vpc] = Inr (tables vpc)"
  defines "ids \<equiv> normalizeDistinctStrings vs"
  shows "fst (run_state (validateFargateSubnets env region vs) []) = Inr v \<longleftrightarrow>
    ids \<noteq> [] \<and>
    (\<exists>vpc. vpc \<noteq> '''' \<and>
       (\<forall>i \<in> set ids.
          (\<exists>s. subnet_of subnets i = Some s \<and> vpc_of s = vpc) \<and>
          (\<exists>rt. effective_table (length ids) assoc (tables vpc) i = Some rt \<and>
             \<not> list_ex to_internet_gateway (rb_Routes rt))) \<and>
       sv_SubnetsWithoutNATDefaultRoute v = filter (\<lambda>i. \<not> list_ex to_nat (rb_Routes (the
         (effective_table (length ids) assoc (tables vpc) i)))) ids \<and>
       sv_DistinctAZCount v = card ((\<lambda>i. zone_of (subnet_of subnets i)) ` set ids - {''''}))"
proof (cases "ids = []")
  case True
  with run_validateFargateSubnets [OF assms(1-7)] show ?thesis by (simp add: ids_def)
next
  case ne: False
  let ?t = "tables_by_subnet assoc" and ?m = "subnets_by_id subnets"
  let ?main = "\<lambda>vpc. if fcard (fmdom ?t) < length ids then main_route_table (tables vpc) else None"
  have blank: "i \<in> set ids \<Longrightarrow> i \<noteq> ''''" for i using normalized_ids(1) by (simp add: ids_def)
  have m: "i \<in> set ids \<Longrightarrow> fmlookup ?m i = subnet_of subnets i" for i
    using blank by (simp add: subnets_by_id_lookup)
  have t: "i \<in> set ids \<Longrightarrow> (case fmlookup ?t i of None \<Rightarrow> ?main vpc | Some rt \<Rightarrow> Some rt) =
      effective_table (length ids) assoc (tables vpc) i" for i vpc
    using blank by (simp add: tables_by_subnet_lookup effective_table_def split: option.split)
  have zones: "map (\<lambda>i. zone_of (fmlookup ?m i)) ids = map (\<lambda>i. zone_of (subnet_of subnets i)) ids"
    using m by simp
  have check: "check_subnets ?m '''' {||} ids = Inr (vpc, azs) \<longleftrightarrow> vpc \<noteq> '''' \<and>
      (\<forall>i\<in>set ids. \<exists>s. subnet_of subnets i = Some s \<and> vpc_of s = vpc) \<and>
      azs = fset_of_list (filter (\<lambda>a. a \<noteq> '''') (map (\<lambda>i. zone_of (subnet_of subnets i)) ids))" for vpc azs
    unfolding check_subnets_all [OF ne] zones using m by auto
  have verdict: "subnet_verdict n (classify_subnets ?t (?main vpc) ids) = Inr v \<longleftrightarrow>
      (\<forall>i\<in>set ids. \<exists>rt. effective_table (length ids) assoc (tables vpc) i = Some rt \<and>
         \<not> list_ex to_internet_gateway (rb_Routes rt)) \<and>
      sv_SubnetsWithoutNATDefaultRoute v = filter (\<lambda>i. \<not> list_ex to_nat (rb_Routes (the
         (effective_table (length ids) assoc (tables vpc) i)))) ids \<and> sv_DistinctAZCount v = n" for n vpc
    using verdict_of_tables [OF t [of _ vpc]] normalized_ids(2) [of vs] by (simp add: ids_def)
  have missing: "find_missing ?m ids = None \<longleftrightarrow> (\<forall>i\<in>set ids. subnet_of subnets i \<noteq> None)"
    using m by (auto simp: find_missing_def find_None_iff)
  have count: "fcard (fset_of_list (filter (\<lambda>a. a \<noteq> '''') (map (\<lambda>i. zone_of (subnet_of subnets i)) ids))) =
      card ((\<lambda>i. zone_of (subnet_of subnets i)) ` set ids - {''''})"
    by (auto simp: fcard.rep_eq fset_of_list.rep_eq intro!: arg_cong [where f = card])
  show ?thesis
    unfolding run_validateFargateSubnets [OF assms(1-7), folded ids_def] check verdict missing
    using ne count by (auto 0 4)
qed

section \<open>What the clean-ups may do\<close>

definition instances_of_cluster :: "eks_env \<Rightarrow> string \<Rightarrow> string \<Rightarrow> string list \<Rightarrow> bool" where
  "instances_of_cluster env region name ids \<longleftrightarrow>
     (\<exists>h reservations. all_pages ''describe instances'' (ee_instancePages env h region name) = Inr reservations \<and>
        set ids \<subseteq> set (to_terminate (concat reservations)))"

definition orphan_of_group :: "eks_env \<Rightarrow> string \<Rightarrow> string \<Rightarrow> string \<Rightarrow> bool" where
  "orphan_of_group env region sgid i \<longleftrightarrow>
     (\<exists>h nis. all_pages ''describe network interfaces'' (ee_networkInterfacePages env h region sgid) = Inr nis \<and>
        i \<in> set (orphan_ids nis))"

text \<open>The security group the bootstrapper created for the nodes of the cluster.\<close>

definition own_security_group :: "eks_env \<Rightarrow> cluster \<Rightarrow> string \<Rightarrow> bool" where
  "own_security_group env owner sgid \<longleftrightarrow>
     (\<exists>h sg. ee_get env h ackSecurityGroupGVK (object_key (om_Namespace (cl_meta owner)) (node_sg_name owner)) = Inr sg \<and>
        isManagedByBootstrapper (om_Annotations (un_meta sg)) \<and> sgid \<noteq> '''' \<and>
        sgid = TrimSpace (fst (readNestedString (ee_lib env) (un_Object sg) [''status'', ''id''])))"

lemma instances_of_clusterI:
  "all_pages ''describe instances'' (ee_instancePages env h region name) = Inr reservations \<Longrightarrow>
   set b \<subseteq> set (to_terminate (concat reservations)) \<Longrightarrow> instances_of_cluster env region name b"
  by (auto simp: instances_of_cluster_def)

lemma orphan_of_groupI:
  "all_pages ''describe network interfaces'' (ee_networkInterfacePages env h region sgid) = Inr nis \<Longrightarrow>
   i \<in> set (orphan_ids nis) \<Longrightarrow> orphan_of_group env region sgid i"
  by (auto simp: orphan_of_group_def)

lemma own_security_groupI:
  "ee_get env h ackSecurityGroupGVK (object_key (om_Namespace (cl_meta owner)) (node_sg_name owner)) = Inr sg \<Longrightarrow>
   isManagedByBootstrapper (om_Annotations (un_meta sg)) \<Longrightarrow>
   TrimSpace (fst (readNestedString (ee_lib env) (un_Object sg) [''status'', ''id''])) \<noteq> '''' \<Longrightarrow>
   own_security_group env owner (TrimSpace (fst (readNestedString (ee_lib env) (un_Object sg) [''status'', ''id''])))"
  by (auto simp: own_security_group_def)

lemma emits_terminate_batches:
  assumes "\<And>b. set b \<subseteq> set ids \<Longrightarrow> Q (Aws (TerminateInstances region b))"
  shows "emits Q (terminate_batches env region ids i)"
  using assms
proof (induction env region ids i rule: terminate_batches.induct)
  case (1 env region ids i)
  let ?b = "take (min (i + 50) (length ids) - i) (drop i ids)"
  have "set ?b \<subseteq> set ids" by (meson order_trans set_drop_subset set_take_subset)
  then show ?case
    using "1.IH" [OF _ refl _ "1.prems"] "1.prems" [of ?b]
    by (subst terminate_batches.simps) (auto simp: Let_def intro!: emits_intros)
qed

lemma emits_cleanup_instances:
  assumes "\<And>r. Q (Aws (AwsLoadConfig r))" "\<And>r n. Q (Aws (DescribeInstances r n))"
    and "\<And>b. instances_of_cluster env (TrimSpace region) (TrimSpace name) b \<Longrightarrow>
      Q (Aws (TerminateInstances (TrimSpace region) b))"
  shows "emits Q (cleanupKarpenterEC2Instances env region name)"
  unfolding cleanupKarpenterEC2Instances_def load_aws_config_def Let_def
  by (auto intro!: emits_intros emits_query emits_terminate_batches assms intro: instances_of_clusterI)

lemma emits_delete_interfaces:
  "(\<And>i. i \<in> set ids \<Longrightarrow> Q (Aws (DeleteNetworkInterface region i))) \<Longrightarrow> emits Q (delete_interfaces env region n ids)"
  by (induction ids arbitrary: n) (auto intro!: emits_intros)

lemma emits_cleanup_interfaces:
  assumes "\<And>r. Q (Aws (AwsLoadConfig r))" "\<And>r n. Q (Aws (DescribeNetworkInterfaces r n))" "\<And>g k. Q (EksGet g k)"
    and "\<And>sgid i. own_security_group env owner sgid \<Longrightarrow> orphan_of_group env (TrimSpace region) sgid i \<Longrightarrow>
      Q (Aws (DeleteNetworkInterface (TrimSpace region) i))"
  shows "emits Q (cleanupOrphanCNINetworkInterfacesForNodeSecurityGroup env owner region)"
proof -
  have "emits Q (cleanupOrphanCNINetworkInterfaces env (TrimSpace region) sgid)"
    if "own_security_group env owner sgid" "TrimSpace sgid = sgid" for sgid
    unfolding cleanupOrphanCNINetworkInterfaces_def load_aws_config_def Let_def TrimSpace_idem that(2)
    by (auto intro!: emits_intros emits_query emits_delete_interfaces assms that(1) intro: orphan_of_groupI)
  note clean = this
  show ?thesis
    unfolding cleanupOrphanCNINetworkInterfacesForNodeSecurityGroup_def eks_get_def Let_def
    by (auto intro!: emits_intros emits_query assms(3) clean own_security_groupI)
qed

section \<open>Witnesses\<close>

definition demo_instances :: "ec2_instance list" where
  "demo_instances = [\<lparr>ei_InstanceId = Some ''i-1'', ei_State = ''running''\<rparr>,
     \<lparr>ei_InstanceId = Some ''i-2'', ei_State = ''shutting-down''\<rparr>]"

definition demo_instance_env :: eks_env where
  "demo_instance_env = demo_eks_env\<lparr>ee_awsConfig := \<lambda>_ _. Inr (), ee_terminate := \<lambda>_ _ _. None,
     ee_instancePages := \<lambda>_ _ _. [Inr [demo_instances]]\<rparr>"

theorem instances_terminated_in_batches_witness:
  "prefix (concat (map terminated (snd (run_state (cleanupKarpenterEC2Instances demo_instance_env ''r'' ''c'') [])))) [''i-1'']"
proof -
  have pages: "all_pages ''describe instances'' (ee_instancePages demo_instance_env [Aws (AwsLoadConfig (TrimSpace ''r''))]
      (TrimSpace ''r'') (TrimSpace ''c'')) = Inr [demo_instances]"
    by (simp add: demo_instance_env_def)
  have ids: "to_terminate (concat [demo_instances]) = [''i-1'']"
    unfolding demo_instances_def by code_simp
  from instances_terminated_in_batches [OF pages surjective_pairing] show ?thesis
    by (simp only: ids)
qed

text \<open>
  Two subnets of a VPC with a main route table, where the table of the first is also the table of
  a third subnet: the main table is not looked up, and the second subnet is refused.
\<close>

definition demo_subnet :: "string \<Rightarrow> ec2_subnet" where
  "demo_subnet i = \<lparr>sn_SubnetId = Some i, sn_VpcId = Some ''vpc-1'', sn_AvailabilityZone = Some ''z''\<rparr>"

definition shared_table :: route_table where
  "shared_table = \<lparr>rb_Associations = map (\<lambda>i. \<lparr>ra_SubnetId = Some i, ra_Main = None\<rparr>) [''a'', ''x''], rb_Routes = []\<rparr>"

definition main_table :: route_table where
  "main_table = \<lparr>rb_Associations = [\<lparr>ra_SubnetId = None, ra_Main = Some True\<rparr>], rb_Routes = []\<rparr>"

definition demo_subnet_env :: eks_env where
  "demo_subnet_env = demo_eks_env\<lparr>ee_awsConfig := \<lambda>_ _. Inr (),
     ee_subnets := \<lambda>_ _ _. Inr [demo_subnet ''a'', demo_subnet ''b''],
     ee_routeTables := \<lambda>_ _ f _. Inr (if f = ''vpc-id'' then [main_table] else [shared_table])\<rparr>"

theorem fargate_subnets_accepted_iff_witness:
  "(\<nexists>v. fst (run_state (validateFargateSubnets demo_subnet_env ''r'' [''b'', ''a'']) []) = Inr v) \<and>
   main_route_table [main_table] = Some main_table"
proof -
  have ids: "normalizeDistinctStrings [''b'', ''a''] = [''a'', ''b'']" by code_simp
  have r: "TrimSpace ''r'' = ''r''" by code_simp
  have table: "effective_table 2 [shared_table] [main_table] ''b'' = None"
    unfolding shared_table_def main_table_def by code_simp
  have "fst (run_state (validateFargateSubnets demo_subnet_env ''r'' [''b'', ''a'']) []) \<noteq> Inr v" for v
    using fargate_subnets_accepted_iff [of "''r''" "[demo_subnet ''a'', demo_subnet ''b'']" demo_subnet_env
        "[''b'', ''a'']" "[shared_table]" "\<lambda>_. [main_table]" v] ids r table
    by (auto simp: demo_subnet_env_def numeral_2_eq_2)
  moreover have "main_route_table [main_table] = Some main_table"
    unfolding main_table_def by code_simp
  ultimately show ?thesis by blast
qed

end
