(* ===== verification/KarpValues.thy ===== *)
theory KarpValues
  imports Ec2
begin

text \<open>
  The pure parts of the Karpenter bootstrapper (\<open>karpenter_bootstrapper_controller.go\<close>):
  the values of its Helm release with the override of the user, the topology variables of a
  cluster, the node pool manifest and the trust policy.
\<close>

section \<open>Constants\<close>

definition karpenterCleanupFinalizer :: string where "karpenterCleanupFinalizer = ''eks.kany8s.io/karpenter-cleanup''"
definition karpenterChartVersionAnnotation :: string where
  "karpenterChartVersionAnnotation = ''eks.kany8s.io/karpenter-chart-version''"
definition karpenterHelmValuesAnnotation :: string where
  "karpenterHelmValuesAnnotation = ''eks.kany8s.io/karpenter-helm-values-override-json''"
definition karpenterInterruptionQueueAnnotation :: string where
  "karpenterInterruptionQueueAnnotation = ''eks.kany8s.io/karpenter-interruption-queue''"
definition karpenterNodePoolTemplateConfigMapAnnotation :: string where
  "karpenterNodePoolTemplateConfigMapAnnotation = ''eks.kany8s.io/karpenter-nodepool-template-configmap''"
definition karpenterNodePoolTemplateConfigMapKeyAnnotation :: string where
  "karpenterNodePoolTemplateConfigMapKeyAnnotation = ''eks.kany8s.io/karpenter-nodepool-template-key''"
definition defaultKarpenterChartVersion :: string where "defaultKarpenterChartVersion = ''1.0.8''"

text \<open>The fields of the reconciler that are values.\<close>

record karpenter =
  kr_FailureBackoff :: duration
  kr_SteadyStateRequeue :: duration
  kr_KarpenterChartTag :: string
  kr_KarpenterFeatureGates :: "(string, bool) fmap"
  kr_CleanupFinalizer :: string
  kr_hasTokenGenerator :: bool

definition cleanupFinalizer :: "karpenter \<Rightarrow> string" where
  "cleanupFinalizer r =
     (let v = TrimSpace (kr_CleanupFinalizer r) in if v \<noteq> '''' then v else karpenterCleanupFinalizer)"

definition resolveKarpenterChartTag :: "karpenter \<Rightarrow> cluster \<Rightarrow> string" where
  "resolveKarpenterChartTag r c =
     (let v = TrimSpace (str_get (om_Annotations (cl_meta c)) karpenterChartVersionAnnotation);
          w = TrimSpace (kr_KarpenterChartTag r) in
      if v \<noteq> '''' then v else if w \<noteq> '''' then w else defaultKarpenterChartVersion)"

section \<open>Maps of values\<close>

text \<open>
  A copy of an immutable value is the value (\<open>deep_copy_id\<close>). The merge follows the override:
  an override of objects is a function from what the base has there.
\<close>

primrec deep_copy :: "json \<Rightarrow> json" where
  "deep_copy JNull = JNull"
| "deep_copy (JBool b) = JBool b"
| "deep_copy (JInt i) = JInt i"
| "deep_copy (JFloat t) = JFloat t"
| "deep_copy (JStr s) = JStr s"
| "deep_copy (JArr vs) = JArr vs"
| "deep_copy (JObj m) = JObj (fmmap deep_copy m)"

definition deepCopyMapAny :: "doc \<Rightarrow> doc" where
  "deepCopyMapAny m = fmmap deep_copy m"

primrec merge_value :: "json \<Rightarrow> json option \<Rightarrow> json" where
  "merge_value JNull = (\<lambda>existing. JNull)"
| "merge_value (JBool b) = (\<lambda>existing. JBool b)"
| "merge_value (JInt i) = (\<lambda>existing. JInt i)"
| "merge_value (JFloat t) = (\<lambda>existing. JFloat t)"
| "merge_value (JStr s) = (\<lambda>existing. JStr s)"
| "merge_value (JArr vs) = (\<lambda>existing. JArr vs)"
| "merge_value (JObj m) = (\<lambda>existing.
     case Option.bind existing as_object of
       Some base \<Rightarrow> JObj (deepCopyMapAny base ++\<^sub>f fmmap_keys (\<lambda>k f. f (fmlookup (deepCopyMapAny base) k)) (fmmap merge_value m))
     | None \<Rightarrow> JObj (deepCopyMapAny m))"

definition deepMergeMapAny :: "doc \<Rightarrow> doc \<Rightarrow> doc" where
  "deepMergeMapAny base override =
     (let merged = deepCopyMapAny base in
      merged ++\<^sub>f fmmap_keys (\<lambda>k v. merge_value v (fmlookup merged k)) override)"

text \<open>
  The nested map \<open>mustEnsureNestedMap\<close> returns is written to in place; here the writing is a
  function of it.
\<close>

definition mustEnsureNestedMap :: "string \<Rightarrow> (doc \<Rightarrow> doc) \<Rightarrow> doc \<Rightarrow> doc" where
  "mustEnsureNestedMap key0 write root =
     (let key = TrimSpace key0 in
      if key = '''' then write root
      else (case Option.bind (fmlookup root key) as_object of
          Some nested \<Rightarrow> fmupd key (JObj (write nested)) root
        | None \<Rightarrow> fmupd key (JObj (write fmempty)) root))"

section \<open>The values of the Helm release\<close>

definition json_object :: "(string \<times> json) list \<Rightarrow> doc" where
  "json_object kvs = fmap_of_list kvs"

definition defaultKarpenterHelmValues :: "string \<Rightarrow> string \<Rightarrow> string \<Rightarrow> doc" where
  "defaultKarpenterHelmValues eksClusterName endpoint controllerRoleARN = json_object
     [(''dnsPolicy'', JStr ''Default''),
      (''priorityClassName'', JStr ''system-cluster-critical''),
      (''webhook'', JObj (json_object [(''enabled'', JBool False)])),
      (''settings'', JObj (json_object [(''clusterName'', JStr eksClusterName), (''clusterEndpoint'', JStr endpoint)])),
      (''serviceAccount'', JObj (json_object [(''annotations'', JObj (json_object
         [(''eks.amazonaws.com/role-arn'', JStr controllerRoleARN)]))]))]"

definition put_feature_gates :: "(string, bool) fmap \<Rightarrow> doc \<Rightarrow> doc" where
  "put_feature_gates gates values =
     (if gates = fmempty then values
      else mustEnsureNestedMap ''settings'' (mustEnsureNestedMap ''featureGates''
        (\<lambda>m. m ++\<^sub>f fmmap JBool (fmfilter (\<lambda>name. TrimSpace name \<noteq> '''') gates))) values)"

definition put_critical_keys :: "string \<Rightarrow> string \<Rightarrow> string \<Rightarrow> doc \<Rightarrow> doc" where
  "put_critical_keys eksClusterName endpoint controllerRoleARN values =
     mustEnsureNestedMap ''serviceAccount'' (mustEnsureNestedMap ''annotations''
       (fmupd ''eks.amazonaws.com/role-arn'' (JStr controllerRoleARN)))
     (mustEnsureNestedMap ''settings'' (fmupd ''clusterEndpoint'' (JStr endpoint))
     (mustEnsureNestedMap ''settings'' (fmupd ''clusterName'' (JStr eksClusterName)) values))"

text \<open>A null override sets the map to nil, which merges like an empty one.\<close>

definition unmarshal_override :: "apilib \<Rightarrow> string \<Rightarrow> doc result" where
  "unmarshal_override lib raw =
     (case lib_json_Unmarshal lib raw of
        Inl e \<Rightarrow> Inl (wrapf ''unmarshal JSON override'' e)
      | Inr JNull \<Rightarrow> Inr fmempty
      | Inr (JObj m) \<Rightarrow> Inr m
      | Inr v \<Rightarrow> Inl (wrapf ''unmarshal JSON override''
          (errorf (''json: cannot unmarshal into Go value of type map[string]interface {}''))))"

definition resolveKarpenterHelmValues ::
    "karpenter \<Rightarrow> apilib \<Rightarrow> cluster \<Rightarrow> string \<Rightarrow> string \<Rightarrow> string \<Rightarrow> doc result" where
  "resolveKarpenterHelmValues r lib owner eksClusterName endpoint controllerRoleARN =
     (let annotations = om_Annotations (cl_meta owner);
          values = put_feature_gates (kr_KarpenterFeatureGates r)
            (defaultKarpenterHelmValues eksClusterName endpoint controllerRoleARN);
          queue = TrimSpace (str_get annotations karpenterInterruptionQueueAnnotation);
          values' = (if queue \<noteq> '''' then mustEnsureNestedMap ''settings'' (fmupd ''interruptionQueue'' (JStr queue)) values
                     else values);
          rawOverride = TrimSpace (str_get annotations karpenterHelmValuesAnnotation)
      in if annotations = fmempty then Inr values
         else if rawOverride = '''' then Inr values'
         else map_sum id (\<lambda>override. put_critical_keys eksClusterName endpoint controllerRoleARN
           (deepMergeMapAny values' override)) (unmarshal_override lib rawOverride))"

text \<open>
  The feature gates of the command line. \<open>order\<close> is the order in which the map is iterated,
  which matters only for names that are equal after trimming; no gates give nil.
\<close>

fun put_gates :: "(string, bool) fmap \<Rightarrow> string list \<Rightarrow> (string, bool) fmap \<Rightarrow> (string, bool) fmap" where
  "put_gates parsed [] out = out"
| "put_gates parsed (name # names) out =
     put_gates parsed names
       (case fmlookup parsed name of
          None \<Rightarrow> out
        | Some enabled \<Rightarrow> if TrimSpace name = '''' then out else fmupd (TrimSpace name) enabled out)"

definition ParseKarpenterFeatureGatesJSON ::
    "((string, bool) fmap \<Rightarrow> string list) \<Rightarrow> string \<Rightarrow> (string, bool) fmap result" where
  "ParseKarpenterFeatureGatesJSON order raw0 =
     (let raw = TrimSpace raw0 in
      if raw = '''' then Inr fmempty
      else map_sum id (\<lambda>parsed. put_gates parsed (order parsed) fmempty) (unmarshal (decode_map decode_bool) raw))"

section \<open>What the merge keeps\<close>

lemma deep_copy_id [simp]: "deep_copy v = v"
proof (induction v)
  case (JObj m)
  have "fmmap deep_copy m = fmmap id m"
    by (rule fmap.map_cong0) (use JObj in auto)
  then show ?case by (simp add: fmap.map_id0)
qed simp_all

lemma deepCopyMapAny_id [simp]: "deepCopyMapAny m = m"
proof -
  have "deep_copy = id" by (rule ext) simp
  then show ?thesis by (simp add: deepCopyMapAny_def fmap.map_id)
qed

declare merge_value.simps(7) [simp del]

lemma merge_value_object:
  "merge_value (JObj m) existing =
     (case Option.bind existing as_object of Some base \<Rightarrow> JObj (deepMergeMapAny base m) | None \<Rightarrow> JObj m)"
proof -
  have "fmmap_keys (\<lambda>k f. f (fmlookup base k)) (fmmap merge_value m) = fmmap_keys (\<lambda>k v. merge_value v (fmlookup base k)) m" for base
    by (rule fmap_ext) (simp add: option.map_comp o_def)
  then show ?thesis by (simp add: merge_value.simps(7) deepMergeMapAny_def Let_def split: option.split)
qed

lemma merge_value_leaf: "as_object v = None \<Longrightarrow> merge_value v existing = v"
  by (cases v) (auto simp: as_object_def)

lemma deepMerge_lookup:
  "fmlookup (deepMergeMapAny base override) k =
     (case fmlookup override k of None \<Rightarrow> fmlookup base k | Some v \<Rightarrow> Some (merge_value v (fmlookup base k)))"
  by (auto simp: deepMergeMapAny_def Let_def fmlookup_dom_iff split: option.split)

text \<open>The value at a path of a document; no value below anything but objects.\<close>

fun value_at :: "doc \<Rightarrow> string list \<Rightarrow> json option" where
  "value_at m [] = Some (JObj m)"
| "value_at m (k # ks) =
     (case fmlookup m k of
        None \<Rightarrow> None
      | Some v \<Rightarrow> if ks = [] then Some v else (case as_object v of None \<Rightarrow> None | Some n \<Rightarrow> value_at n ks))"

definition is_leaf :: "json option \<Rightarrow> bool" where
  "is_leaf v \<longleftrightarrow> (case v of None \<Rightarrow> False | Some w \<Rightarrow> as_object w = None)"

lemma as_object_Some [simp]: "as_object v = Some m \<longleftrightarrow> v = JObj m"
  by (cases v) (auto simp: as_object_def)

lemma as_object_JObj [simp]: "as_object (JObj m) = Some m"
  by (simp add: as_object_def)

lemma merge_override_wins:
  "is_leaf (value_at override p) \<Longrightarrow> value_at (deepMergeMapAny base override) p = value_at override p"
proof (induction p arbitrary: base override)
  case Nil
  then show ?case by (simp add: is_leaf_def)
next
  case (Cons k ks)
  show ?case
  proof (cases "fmlookup override k")
    case None
    then show ?thesis using Cons.prems by (simp add: is_leaf_def)
  next
    case (Some v)
    show ?thesis
    proof (cases "as_object v")
      case None
      then show ?thesis using Some Cons.prems by (simp add: deepMerge_lookup merge_value_leaf)
    next
      case obj: (Some m)
      then have "ks \<noteq> []" using Some Cons.prems by (auto simp: is_leaf_def)
      then show ?thesis
        using Some obj Cons by (auto simp: deepMerge_lookup merge_value_object is_leaf_def split: option.splits)
    qed
  qed
qed

lemma merge_keeps_base:
  assumes "\<And>q. prefix q p \<Longrightarrow> q \<noteq> [] \<Longrightarrow> q \<noteq> p \<Longrightarrow> \<not> is_leaf (value_at override q)" "value_at override p = None"
  shows "value_at (deepMergeMapAny base override) p = value_at base p"
  using assms
proof (induction p arbitrary: base override)
  case (Cons k ks)
  show ?case
  proof (cases "fmlookup override k")
    case None
    then show ?thesis by (simp add: deepMerge_lookup)
  next
    case (Some v)
    then have ks: "ks \<noteq> []" using Cons.prems(2) by auto
    then have "\<not> is_leaf (value_at override [k])" using Cons.prems(1) [of "[k]"] by (simp add: prefix_def)
    then obtain m where m: "v = JObj m" using Some by (auto simp: is_leaf_def)
    have below: "value_at m ks = None" using Cons.prems(2) Some m ks by simp
    have leaf: "\<not> is_leaf (value_at m q)" if "prefix q ks" "q \<noteq> []" "q \<noteq> ks" for q
      using Cons.prems(1) [of "k # q"] that Some m by (simp add: is_leaf_def)
    show ?thesis
      using Some m ks below Cons.IH [OF leaf below]
      by (auto simp: deepMerge_lookup merge_value_object split: option.split)
  qed
qed simp

section \<open>The critical keys\<close>

definition nested_at :: "doc \<Rightarrow> string \<Rightarrow> doc" where
  "nested_at m key = (case Option.bind (fmlookup m key) as_object of Some n \<Rightarrow> n | None \<Rightarrow> fmempty)"

lemma mustEnsure_upd:
  "TrimSpace key = key \<Longrightarrow> key \<noteq> '''' \<Longrightarrow> mustEnsureNestedMap key f m = fmupd key (JObj (f (nested_at m key))) m"
  by (simp add: mustEnsureNestedMap_def nested_at_def split: option.split)

lemma value_at_upd:
  "value_at (fmupd key (JObj n) m) (k # ks) =
     (if k = key then (if ks = [] then Some (JObj n) else value_at n ks) else value_at m (k # ks))"
  by simp

lemma value_at_nested: "ks \<noteq> [] \<Longrightarrow> value_at m (key # ks) = Some v \<Longrightarrow> value_at (nested_at m key) ks = Some v"
  by (auto simp: nested_at_def split: option.splits)

lemma trimmed_keys:
  "TrimSpace ''settings'' = ''settings''" "TrimSpace ''serviceAccount'' = ''serviceAccount''"
  "TrimSpace ''annotations'' = ''annotations''" "TrimSpace ''featureGates'' = ''featureGates''"
  by code_simp+

definition critical_paths :: "string list list" where
  "critical_paths = [[''settings'', ''clusterName''], [''settings'', ''clusterEndpoint''],
     [''serviceAccount'', ''annotations'', ''eks.amazonaws.com/role-arn'']]"

definition critical :: "string list \<Rightarrow> bool" where
  "critical p \<longleftrightarrow> list_ex (\<lambda>c. prefix p c \<or> prefix c p) critical_paths"

lemma put_critical_values:
  "value_at (put_critical_keys name endpoint arn m) [''settings'', ''clusterName''] = Some (JStr name)"
  "value_at (put_critical_keys name endpoint arn m) [''settings'', ''clusterEndpoint''] = Some (JStr endpoint)"
  "value_at (put_critical_keys name endpoint arn m) [''serviceAccount'', ''annotations'', ''eks.amazonaws.com/role-arn''] =
     Some (JStr arn)"
  by (simp_all add: put_critical_keys_def mustEnsure_upd trimmed_keys nested_at_def)

lemma put_critical_keeps:
  assumes "\<not> critical p" "value_at m p = Some v"
  shows "value_at (put_critical_keys name endpoint arn m) p = Some v"
proof -
  obtain k ks where p: "p = k # ks" using assms(1) by (cases p) (auto simp: critical_def critical_paths_def)
  consider "k = ''settings''" | "k = ''serviceAccount''" | "k \<noteq> ''settings''" "k \<noteq> ''serviceAccount''" by blast
  then show ?thesis
  proof cases
    case 1
    obtain k2 ks2 where ks: "ks = k2 # ks2" "k2 \<noteq> ''clusterName''" "k2 \<noteq> ''clusterEndpoint''"
      using assms(1) p 1 by (cases ks) (auto simp: critical_def critical_paths_def)
    then have "value_at (nested_at m ''settings'') ks = Some v" using assms(2) p 1 value_at_nested by blast
    then show ?thesis
      using ks p 1 by (simp add: put_critical_keys_def mustEnsure_upd trimmed_keys nested_at_def [of "fmupd _ _ _"])
  next
    case 2
    obtain k2 ks2 where ks: "ks = k2 # ks2"
      using assms(1) p 2 by (cases ks) (auto simp: critical_def critical_paths_def)
    then have n: "value_at (nested_at m ''serviceAccount'') ks = Some v" using assms(2) p 2 value_at_nested by blast
    show ?thesis
    proof (cases "k2 = ''annotations''")
      case True
      obtain k3 ks3 where ks2: "ks2 = k3 # ks3" "k3 \<noteq> ''eks.amazonaws.com/role-arn''"
        using assms(1) p 2 ks True by (cases ks2) (auto simp: critical_def critical_paths_def)
      then have "value_at (nested_at (nested_at m ''serviceAccount'') ''annotations'') ks2 = Some v"
        using n ks True value_at_nested [of ks2] by simp
      then show ?thesis
        using ks ks2 p 2 True
        by (simp add: put_critical_keys_def mustEnsure_upd trimmed_keys nested_at_def [of "fmupd _ _ _"] del: value_at.simps(2)
            add: value_at_upd) (simp add: nested_at_def)
    next
      case False
      then show ?thesis
        using n ks p 2
        by (simp add: put_critical_keys_def mustEnsure_upd trimmed_keys nested_at_def [of "fmupd _ _ _"] del: value_at.simps(2)
            add: value_at_upd) (simp add: nested_at_def)
    qed
  next
    case 3
    then show ?thesis using assms(2) p by (simp add: put_critical_keys_def mustEnsure_upd trimmed_keys)
  qed
qed

text \<open>The values before the override.\<close>

lemma value_at_other: "k \<noteq> key \<Longrightarrow> TrimSpace key = key \<Longrightarrow> key \<noteq> '''' \<Longrightarrow>
    value_at (mustEnsureNestedMap key f m) (k # ks) = value_at m (k # ks)"
  by (simp add: mustEnsure_upd)

lemma default_outside_settings:
  assumes "value_at (defaultKarpenterHelmValues name endpoint arn) p = Some v" "is_leaf (Some v)" "\<not> critical p"
  obtains k ks where "p = k # ks" "k \<noteq> ''settings''"
proof (cases p)
  case Nil
  then show thesis using assms(3) by (simp add: critical_def critical_paths_def)
next
  case (Cons k ks)
  have "k \<noteq> ''settings''"
  proof
    assume k: "k = ''settings''"
    obtain k2 ks2 where "ks = k2 # ks2" "k2 \<noteq> ''clusterName''" "k2 \<noteq> ''clusterEndpoint''"
      using assms(3) Cons k by (cases ks) (auto simp: critical_def critical_paths_def)
    then show False
      using assms(1) Cons k by (simp add: defaultKarpenterHelmValues_def json_object_def fmlookup_of_list)
  qed
  then show thesis using that Cons by blast
qed

lemma gates_outside_settings:
  "k \<noteq> ''settings'' \<Longrightarrow> value_at (put_feature_gates gates m) (k # ks) = value_at m (k # ks)"
  by (simp add: put_feature_gates_def value_at_other trimmed_keys del: value_at.simps(2))

lemma settings_keep:
  assumes "value_at m (''settings'' # k # ks) = Some v" "fmlookup (f (nested_at m ''settings'')) k = fmlookup (nested_at m ''settings'') k"
  shows "value_at (mustEnsureNestedMap ''settings'' f m) (''settings'' # k # ks) = Some v"
  using assms value_at_nested [of "k # ks" m "''settings''"]
  by (auto simp: mustEnsure_upd trimmed_keys split: option.splits)

lemma gates_keep:
  "value_at m (''settings'' # k # ks) = Some v \<Longrightarrow> k \<noteq> ''featureGates'' \<Longrightarrow>
   value_at (put_feature_gates gates m) (''settings'' # k # ks) = Some v"
  using mustEnsure_upd [OF trimmed_keys(4), where m = "nested_at m ''settings''"]
  by (cases "gates = fmempty") (simp_all add: put_feature_gates_def settings_keep del: value_at.simps)

lemma default_critical:
  "value_at (defaultKarpenterHelmValues name endpoint arn) [''settings'', ''clusterName''] = Some (JStr name)"
  "value_at (defaultKarpenterHelmValues name endpoint arn) [''settings'', ''clusterEndpoint''] = Some (JStr endpoint)"
  "value_at (defaultKarpenterHelmValues name endpoint arn) [''serviceAccount'', ''annotations'', ''eks.amazonaws.com/role-arn''] =
     Some (JStr arn)"
  by (simp_all add: defaultKarpenterHelmValues_def json_object_def fmlookup_of_list)

text \<open>
  C33. Whatever the override of the user and the feature gates, the values of the Helm release
  carry the cluster's name and endpoint and the controller's role; apart from these keys and the
  paths through them, every value of the override that is not an object is in the result, and
  every value of the defaults below which and on the way to which the override has none.
\<close>

theorem helm_values_protected:
  assumes "resolveKarpenterHelmValues r lib owner name endpoint arn = Inr values"
  defines "raw \<equiv> TrimSpace (str_get (om_Annotations (cl_meta owner)) karpenterHelmValuesAnnotation)"
  shows "value_at values [''settings'', ''clusterName''] = Some (JStr name) \<and>
    value_at values [''settings'', ''clusterEndpoint''] = Some (JStr endpoint) \<and>
    value_at values [''serviceAccount'', ''annotations'', ''eks.amazonaws.com/role-arn''] = Some (JStr arn) \<and>
    (raw \<noteq> '''' \<longrightarrow> (\<exists>override. unmarshal_override lib raw = Inr override \<and>
       (\<forall>p. \<not> critical p \<and> is_leaf (value_at override p) \<longrightarrow> value_at values p = value_at override p) \<and>
       (\<forall>p v. \<not> critical p \<and> value_at override p = None \<and>
          (\<forall>q. strict_prefix q p \<and> q \<noteq> [] \<longrightarrow> \<not> is_leaf (value_at override q)) \<and>
          value_at (defaultKarpenterHelmValues name endpoint arn) p = Some v \<and> is_leaf (Some v) \<longrightarrow>
          value_at values p = Some v)))"
proof -
  define base where "base = (let queue = TrimSpace (str_get (om_Annotations (cl_meta owner)) karpenterInterruptionQueueAnnotation);
      values = put_feature_gates (kr_KarpenterFeatureGates r) (defaultKarpenterHelmValues name endpoint arn)
    in if queue \<noteq> '''' then mustEnsureNestedMap ''settings'' (fmupd ''interruptionQueue'' (JStr queue)) values else values)"
  have base: "value_at base p = Some v"
    if d: "value_at (defaultKarpenterHelmValues name endpoint arn) p = Some v" "is_leaf (Some v)" "\<not> critical p" for p v
  proof -
    obtain k ks where p: "p = k # ks" "k \<noteq> ''settings''" using default_outside_settings [OF d] .
    then show ?thesis
      using d(1) by (simp add: base_def Let_def value_at_other gates_outside_settings trimmed_keys del: value_at.simps(2))
  qed
  show ?thesis
  proof (cases "raw = ''''")
    case True
    have "values = base \<or> values = put_feature_gates (kr_KarpenterFeatureGates r) (defaultKarpenterHelmValues name endpoint arn)"
      using assms(1) True by (auto simp: resolveKarpenterHelmValues_def raw_def base_def Let_def split: if_splits)
    then show ?thesis
      using True default_critical [of name endpoint arn]
      by (auto simp: base_def Let_def gates_outside_settings value_at_other trimmed_keys
          intro!: settings_keep gates_keep simp del: value_at.simps)
  next
    case False
    then obtain override where o: "unmarshal_override lib raw = Inr override"
      "values = put_critical_keys name endpoint arn (deepMergeMapAny base override)"
      using assms(1) unfolding resolveKarpenterHelmValues_def raw_def base_def
      by (cases "unmarshal_override lib raw") (auto simp: Let_def raw_def str_get_def split: if_splits)
    have "value_at values p = value_at override p" if "\<not> critical p" "is_leaf (value_at override p)" for p
      using that put_critical_keeps [OF that(1)] merge_override_wins [OF that(2)] o(2)
      by (cases "value_at override p") (auto simp: is_leaf_def)
    moreover have "value_at values p = Some v"
      if "\<not> critical p" "value_at override p = None" "\<forall>q. strict_prefix q p \<and> q \<noteq> [] \<longrightarrow> \<not> is_leaf (value_at override q)"
        "value_at (defaultKarpenterHelmValues name endpoint arn) p = Some v" "is_leaf (Some v)" for p v
      using put_critical_keeps [OF that(1)] merge_keeps_base [OF _ that(2), of base] that(3) base [OF that(4,5,1)] o(2)
      by (auto simp: strict_prefix_def)
    ultimately show ?thesis using o put_critical_values by blast
  qed
qed

section \<open>Topology variables\<close>

text \<open>Whether the variable was found, and its decoded value; \<open>None\<close> is an undefined topology.\<close>

definition read_topology ::
    "(jtext \<Rightarrow> 'a option) \<Rightarrow> 'a \<Rightarrow> cluster \<Rightarrow> string \<Rightarrow> ('a \<times> bool) result" where
  "read_topology decode zero c variableName =
     (case cl_Topology c of
        None \<Rightarrow> Inr (zero, False)
      | Some vs \<Rightarrow> (case find (\<lambda>v. tv_Name v = variableName) vs of
          None \<Rightarrow> Inr (zero, False)
        | Some v \<Rightarrow> (case unmarshal decode (tv_Raw v) of
            Inl e \<Rightarrow> Inl (wrapf (''unmarshal topology variable '' @ quote variableName) e)
          | Inr out \<Rightarrow> Inr (out, True))))"

definition readTopologyStringSlice :: "cluster \<Rightarrow> string \<Rightarrow> (string list \<times> bool) result" where
  "readTopologyStringSlice = read_topology decode_strings []"

definition readTopologyStringMap :: "cluster \<Rightarrow> string \<Rightarrow> (str_map \<times> bool) result" where
  "readTopologyStringMap = read_topology (decode_map decode_string) fmempty"

definition readTopologyInt64 :: "cluster \<Rightarrow> string \<Rightarrow> (int \<times> bool) result" where
  "readTopologyInt64 = read_topology decode_int64 0"

text \<open>The first variable of a name is written, or one is appended; \<open>None\<close> is no change.\<close>

fun set_variable :: "string \<Rightarrow> string list \<Rightarrow> topology_variable list \<Rightarrow> topology_variable list option result" where
  "set_variable name desired [] = Inr (Some [\<lparr>tv_Name = name, tv_Raw = marshal_strings desired\<rparr>])"
| "set_variable name desired (v # vs) =
     (if tv_Name v \<noteq> name then map_sum id (map_option (\<lambda>ws. v # ws)) (set_variable name desired vs)
      else (case (if tv_Raw v = '''' then Inr [] else unmarshal decode_strings (tv_Raw v)) of
          Inl e \<Rightarrow> Inl (wrapf (''unmarshal current topology variable '' @ quote name) e)
        | Inr current \<Rightarrow>
            if current = desired then Inr None else Inr (Some (v\<lparr>tv_Raw := marshal_strings desired\<rparr> # vs))))"

definition setTopologyStringSliceVariable :: "cluster \<Rightarrow> string \<Rightarrow> string list \<Rightarrow> (cluster \<times> bool) result" where
  "setTopologyStringSliceVariable c variableName desired =
     (let name = TrimSpace variableName in
      case cl_Topology c of
        None \<Rightarrow> Inr (c, False)
      | Some vs \<Rightarrow>
          if name = '''' then Inl (errorf ''variable name is empty'')
          else map_sum id (\<lambda>r. case r of
              None \<Rightarrow> (c, False)
            | Some ws \<Rightarrow> (c\<lparr>cl_Topology := Some ws\<rparr>, True)) (set_variable name desired vs))"

definition ensureTopologyStringSliceVariable ::
    "eks_env \<Rightarrow> cluster \<Rightarrow> string \<Rightarrow> string list \<Rightarrow> (cluster \<times> bool) result eks_eff" where
  "ensureTopologyStringSliceVariable env c variableName desired =
     (if cl_Topology c = None then ret (Inr (c, False))
      else (case setTopologyStringSliceVariable c variableName (nonblank desired) of
          Inl e \<Rightarrow> ret (Inl e)
        | Inr (c', changed) \<Rightarrow>
            if \<not> changed then ret (Inr (c, False))
            else try_bind (patch_cluster env c c') (\<lambda>c''. ret (Inr (c'', True)))))"

lemma read_topology_set:
  assumes "set_variable name desired vs = Inr r" "list_all utf8_valid desired"
  shows "\<exists>v. find (\<lambda>v. tv_Name v = name) (case r of None \<Rightarrow> vs | Some ws \<Rightarrow> ws) = Some v \<and>
    (tv_Raw v = '''' \<and> desired = [] \<and> r = None \<or> unmarshal decode_strings (tv_Raw v) = Inr desired)"
  using assms
proof (induction name desired vs arbitrary: r rule: set_variable.induct)
  case (1 name desired)
  then show ?case by (auto simp: unmarshal_strings list_all_iff)
next
  case (2 name desired v vs)
  show ?case
  proof (cases "tv_Name v = name")
    case True
    then show ?thesis
      using 2 by (cases "tv_Raw v = ''''") (auto simp: unmarshal_strings list_all_iff split: sum.splits if_splits)
  next
    case False
    then obtain r' where "set_variable name desired vs = Inr r'" "r = map_option (\<lambda>ws. v # ws) r'"
      using "2.prems"(1) by (cases "set_variable name desired vs") auto
    then show ?thesis using "2.IH" [OF False _ "2.prems"(2)] False by (cases r') auto
  qed
qed

lemma set_variable_again:
  "set_variable name desired vs = Inr r \<Longrightarrow> list_all utf8_valid desired \<Longrightarrow>
   set_variable name desired (case r of None \<Rightarrow> vs | Some ws \<Rightarrow> ws) = Inr None"
proof (induction name desired vs arbitrary: r rule: set_variable.induct)
  case (1 name desired)
  have "marshal_strings desired \<noteq> ''''" by (simp add: marshal_strings_def)
  with 1 show ?case by (auto simp: unmarshal_strings list_all_iff)
next
  case (2 name desired v vs)
  have written: "marshal_strings desired \<noteq> ''''" by (simp add: marshal_strings_def)
  show ?case
  proof (cases "tv_Name v = name")
    case True
    then show ?thesis
      using 2(2,3) written by (auto simp: unmarshal_strings list_all_iff split: sum.splits if_splits)
  next
    case False
    then obtain r' where "set_variable name desired vs = Inr r'" "r = map_option (\<lambda>ws. v # ws) r'"
      using "2.prems"(1) by (cases "set_variable name desired vs") auto
    then show ?thesis using "2.IH" [OF False _ "2.prems"(2)] False by (cases r') auto
  qed
qed

lemma set_variable_others:
  "set_variable name desired vs = Inr (Some ws) \<Longrightarrow> n \<noteq> name \<Longrightarrow>
   find (\<lambda>v. tv_Name v = n) ws = find (\<lambda>v. tv_Name v = n) vs"
proof (induction name desired vs arbitrary: ws rule: set_variable.induct)
  case (2 name desired v vs)
  show ?case
  proof (cases "tv_Name v = name")
    case True
    then show ?thesis using 2(2,3) by (auto split: sum.splits if_splits)
  next
    case False
    then obtain ws' where "set_variable name desired vs = Inr (Some ws')" "ws = v # ws'"
      using "2.prems"(1) by (cases "set_variable name desired vs") auto
    then show ?thesis using "2.IH" [OF False _ "2.prems"(2)] by simp
  qed
qed auto

text \<open>
  Writing a list of IDs into a topology variable and reading it gives the list back; writing
  it again changes nothing; and every other variable reads as before, at every type.
\<close>

theorem topology_variable_roundtrip:
  fixes decode :: "jtext \<Rightarrow> 'a option"
  assumes "setTopologyStringSliceVariable c name vs = Inr (c', changed)" "cl_Topology c \<noteq> None"
    and "list_all utf8_valid vs" "vs \<noteq> []"
  shows "readTopologyStringSlice c' (TrimSpace name) = Inr (vs, True) \<and>
    setTopologyStringSliceVariable c' name vs = Inr (c', False) \<and>
    (n \<noteq> TrimSpace name \<longrightarrow> read_topology decode zero c' n = read_topology decode zero c n)"
proof -
  obtain old where old: "cl_Topology c = Some old" using assms(2) by blast
  then obtain r where r: "set_variable (TrimSpace name) vs old = Inr r" and name: "TrimSpace name \<noteq> ''''"
    using assms(1) by (cases "set_variable (TrimSpace name) vs old")
      (auto simp: setTopologyStringSliceVariable_def Let_def split: if_splits)
  let ?new = "case r of None \<Rightarrow> old | Some ws \<Rightarrow> ws"
  have c': "cl_Topology c' = Some ?new"
    using assms(1) old r name by (cases r) (auto simp: setTopologyStringSliceVariable_def)
  have "readTopologyStringSlice c' (TrimSpace name) = Inr (vs, True)"
    using read_topology_set [OF r assms(3)] assms(4) c' by (auto simp: readTopologyStringSlice_def read_topology_def)
  moreover have "setTopologyStringSliceVariable c' name vs = Inr (c', False)"
    using set_variable_again [OF r assms(3)] c' name by (simp add: setTopologyStringSliceVariable_def Let_def)
  moreover have "read_topology decode zero c' n = read_topology decode zero c n" if "n \<noteq> TrimSpace name"
    using set_variable_others [OF _ that] r c' old by (cases r) (simp_all add: read_topology_def)
  ultimately show ?thesis by blast
qed

section \<open>Witnesses\<close>

definition demo_karpenter :: karpenter where
  "demo_karpenter = \<lparr>kr_FailureBackoff = 0, kr_SteadyStateRequeue = 0, kr_KarpenterChartTag = '''',
     kr_KarpenterFeatureGates = fmempty, kr_CleanupFinalizer = '''', kr_hasTokenGenerator = True\<rparr>"

definition hostile_override :: doc where
  "hostile_override = json_object [(''settings'', JObj (json_object [(''clusterName'', JStr ''other'')])), (''replicas'', JInt 1)]"

definition hostile_lib :: apilib where
  "hostile_lib = ref_lib\<lparr>lib_json_Unmarshal := (\<lambda>_. Inr (JObj hostile_override))\<rparr>"

definition hostile_cluster :: cluster where
  "hostile_cluster = set_meta (\<lambda>m. m\<lparr>om_Annotations := fmupd karpenterHelmValuesAnnotation ''{}'' fmempty\<rparr>) demo_eks_cluster"

theorem helm_values_protected_witness:
  "\<exists>values. resolveKarpenterHelmValues demo_karpenter hostile_lib hostile_cluster ''demo'' ''https://e'' ''arn'' = Inr values \<and>
     value_at values [''settings'', ''clusterName''] = Some (JStr ''demo'') \<and>
     value_at values [''replicas''] = Some (JInt 1)"
proof -
  define m where "m = fmupd karpenterHelmValuesAnnotation ''{}'' fmempty"
  have ann: "om_Annotations (cl_meta hostile_cluster) = m"
    by (simp add: hostile_cluster_def set_meta_def m_def)
  have trim: "TrimSpace (str_get m karpenterHelmValuesAnnotation) = ''{}''"
    unfolding m_def by code_simp
  have o: "unmarshal_override hostile_lib raw = Inr hostile_override" for raw
    by (simp add: unmarshal_override_def hostile_lib_def)
  have "fmlookup m karpenterHelmValuesAnnotation \<noteq> fmlookup fmempty karpenterHelmValuesAnnotation"
    by (simp add: m_def)
  then have ne: "m \<noteq> fmempty" by metis
  obtain vs where v: "resolveKarpenterHelmValues demo_karpenter hostile_lib hostile_cluster ''demo'' ''https://e'' ''arn'' = Inr vs"
    by (simp add: resolveKarpenterHelmValues_def Let_def ann trim o ne)
  have "\<not> critical [''replicas'']" by (simp add: critical_def critical_paths_def)
  moreover have "value_at hostile_override [''replicas''] = Some (JInt 1)"
    by (simp add: hostile_override_def json_object_def fmlookup_of_list)
  ultimately show ?thesis
    using helm_values_protected [OF v] v by (auto simp: ann trim o is_leaf_def as_object_def)
qed

definition demo_topology_cluster :: cluster where
  "demo_topology_cluster = demo_eks_cluster\<lparr>cl_Topology := Some []\<rparr>"

theorem topology_variable_roundtrip_witness:
  "\<exists>c'. setTopologyStringSliceVariable demo_topology_cluster ''groups'' [''sg-1''] = Inr (c', True) \<and>
     readTopologyStringSlice c' ''groups'' = Inr ([''sg-1''], True)"
proof -
  have name: "TrimSpace ''groups'' = ''groups''" by code_simp
  have utf8: "list_all utf8_valid [''sg-1'']" by code_simp
  obtain c' where "setTopologyStringSliceVariable demo_topology_cluster ''groups'' [''sg-1''] = Inr (c', True)"
    by (simp add: setTopologyStringSliceVariable_def demo_topology_cluster_def name)
  then show ?thesis
    using topology_variable_roundtrip [of demo_topology_cluster "''groups''" "[''sg-1'']" c' True "[]" "\<lambda>_. Some ()" "()"] utf8
    by (simp add: name demo_topology_cluster_def)
qed

end
