(* ===== verification/KarpPolicy.thy ===== *)
theory KarpPolicy
  imports KarpValues
begin

text \<open>
  The texts the Karpenter bootstrapper writes from templates: the two policy documents of the
  controller's role and the manifest of the default node pool
  (\<open>karpenter_bootstrapper_controller.go\<close>), line by line.
\<close>

definition newline :: string where "newline = [CHR 0x0A]"

section \<open>The policy of the controller\<close>

definition policy_lines_1 :: "string \<Rightarrow> string \<Rightarrow> string list" where
  "policy_lines_1 region cluster =
    [''{'',
     ''  \"Version\": \"2012-10-17\",'',
     ''  \"Statement\": ['',
     ''    {'',
     ''      \"Sid\": \"AllowScopedEC2InstanceAccessActions\",'',
     ''      \"Effect\": \"Allow\",'',
     ''      \"Resource\": ['',
     ''        \"arn:aws:ec2:'' @ region @ ''::image/*\",'',
     ''        \"arn:aws:ec2:'' @ region @ ''::snapshot/*\",'',
     ''        \"arn:aws:ec2:'' @ region @ '':*:security-group/*\",'',
     ''        \"arn:aws:ec2:'' @ region @ '':*:subnet/*\"'',
     ''      ],'',
     ''      \"Action\": ['',
     ''        \"ec2:RunInstances\",'',
     ''        \"ec2:CreateFleet\"'',
     ''      ]'',
     ''    },'',
     ''    {'',
     ''      \"Sid\": \"AllowScopedEC2LaunchTemplateAccessActions\",'',
     ''      \"Effect\": \"Allow\",'',
     ''      \"Resource\": [\"arn:aws:ec2:'' @ region @ '':*:launch-template/*\"],'',
     ''      \"Action\": ['',
     ''        \"ec2:RunInstances\",'',
     ''        \"ec2:CreateFleet\"'',
     ''      ],'',
     ''      \"Condition\": {'',
     ''        \"StringEquals\": {'',
     ''          \"aws:ResourceTag/kubernetes.io/cluster/'' @ cluster @ ''\": \"owned\"'',
     ''        },'',
     ''        \"StringLike\": {'',
     ''          \"aws:ResourceTag/karpenter.sh/nodepool\": \"*\"'',
     ''        }'',
     ''      }'',
     ''    },'',
     ''    {'',
     ''      \"Sid\": \"AllowScopedEC2InstanceActionsWithTags\",'',
     ''      \"Effect\": \"Allow\",'',
     ''      \"Resource\": ['',
     ''        \"arn:aws:ec2:'' @ region @ '':*:fleet/*\",'',
     ''        \"arn:aws:ec2:'' @ region @ '':*:instance/*\",'',
     ''        \"arn:aws:ec2:'' @ region @ '':*:volume/*\",'',
     ''        \"arn:aws:ec2:'' @ region @ '':*:network-interface/*\",'',
     ''        \"arn:aws:ec2:'' @ region @ '':*:launch-template/*\",'',
     ''        \"arn:aws:ec2:'' @ region @ '':*:spot-instances-request/*\"'',
     ''      ],'',
     ''      \"Action\": ['',
     ''        \"ec2:RunInstances\",'',
     ''        \"ec2:CreateFleet\",'',
     ''        \"ec2:CreateLaunchTemplate\"'',
     ''      ],'',
     ''      \"Condition\": {'',
     ''        \"StringEquals\": {'',
     ''          \"aws:RequestTag/kubernetes.io/cluster/'' @ cluster @ ''\": \"owned\",'',
     ''          \"aws:RequestTag/eks:eks-cluster-name\": \"'' @ cluster @ ''\"'',
     ''        },'',
     ''        \"StringLike\": {'',
     ''          \"aws:RequestTag/karpenter.sh/nodepool\": \"*\"'',
     ''        }'',
     ''      }'',
     ''    },'',
     ''    {'',
     ''      \"Sid\": \"AllowScopedResourceCreationTagging\",'',
     ''      \"Effect\": \"Allow\",'',
     ''      \"Resource\": ['',
     ''        \"arn:aws:ec2:'' @ region @ '':*:fleet/*\",'',
     ''        \"arn:aws:ec2:'' @ region @ '':*:instance/*\",'',
     ''        \"arn:aws:ec2:'' @ region @ '':*:volume/*\",'',
     ''        \"arn:aws:ec2:'' @ region @ '':*:network-interface/*\",'',
     ''        \"arn:aws:ec2:'' @ region @ '':*:launch-template/*\",'',
     ''        \"arn:aws:ec2:'' @ region @ '':*:spot-instances-request/*\"'',
     ''      ],'',
     ''      \"Action\": [\"ec2:CreateTags\"],'',
     ''      \"Condition\": {'',
     ''        \"StringEquals\": {'',
     ''          \"aws:RequestTag/kubernetes.io/cluster/'' @ cluster @ ''\": \"owned\",'',
     ''          \"aws:RequestTag/eks:eks-cluster-name\": \"'' @ cluster @ ''\",'',
     ''          \"ec2:CreateAction\": ['',
     ''            \"RunInstances\",'',
     ''            \"CreateFleet\",'',
     ''            \"CreateLaunchTemplate\"'',
     ''          ]'',
     ''        },'',
     ''        \"StringLike\": {'',
     ''          \"aws:RequestTag/karpenter.sh/nodepool\": \"*\"'',
     ''        }'',
     ''      }'',
     ''    },'']"

definition policy_lines_2 :: "string \<Rightarrow> string \<Rightarrow> string list" where
  "policy_lines_2 region cluster =
    [''    {'',
     ''      \"Sid\": \"AllowScopedResourceTagging\",'',
     ''      \"Effect\": \"Allow\",'',
     ''      \"Resource\": [\"arn:aws:ec2:'' @ region @ '':*:instance/*\"],'',
     ''      \"Action\": [\"ec2:CreateTags\"],'',
     ''      \"Condition\": {'',
     ''        \"StringEquals\": {'',
     ''          \"aws:ResourceTag/kubernetes.io/cluster/'' @ cluster @ ''\": \"owned\"'',
     ''        },'',
     ''        \"StringLike\": {'',
     ''          \"aws:ResourceTag/karpenter.sh/nodepool\": \"*\"'',
     ''        },'',
     ''        \"StringEqualsIfExists\": {'',
     ''          \"aws:RequestTag/eks:eks-cluster-name\": \"'' @ cluster @ ''\"'',
     ''        },'',
     ''        \"ForAllValues:StringEquals\": {'',
     ''          \"aws:TagKeys\": ['',
     ''            \"eks:eks-cluster-name\",'',
     ''            \"karpenter.sh/nodeclaim\",'',
     ''            \"Name\"'',
     ''          ]'',
     ''        }'',
     ''      }'',
     ''    },'',
     ''    {'',
     ''      \"Sid\": \"AllowScopedDeletion\",'',
     ''      \"Effect\": \"Allow\",'',
     ''      \"Resource\": ['',
     ''        \"arn:aws:ec2:'' @ region @ '':*:instance/*\",'',
     ''        \"arn:aws:ec2:'' @ region @ '':*:launch-template/*\"'',
     ''      ],'',
     ''      \"Action\": ['',
     ''        \"ec2:TerminateInstances\",'',
     ''        \"ec2:DeleteLaunchTemplate\"'',
     ''      ],'',
     ''      \"Condition\": {'',
     ''        \"StringEquals\": {'',
     ''          \"aws:ResourceTag/kubernetes.io/cluster/'' @ cluster @ ''\": \"owned\"'',
     ''        },'',
     ''        \"StringLike\": {'',
     ''          \"aws:ResourceTag/karpenter.sh/nodepool\": \"*\"'',
     ''        }'',
     ''      }'',
     ''    },'',
     ''    {'',
     ''      \"Sid\": \"AllowRegionalReadActions\",'',
     ''      \"Effect\": \"Allow\",'',
     ''      \"Resource\": \"*\",'',
     ''      \"Action\": ['',
     ''        \"ec2:DescribeAvailabilityZones\",'',
     ''        \"ec2:DescribeImages\",'',
     ''        \"ec2:DescribeInstances\",'',
     ''        \"ec2:DescribeInstanceTypeOfferings\",'',
     ''        \"ec2:DescribeInstanceTypes\",'',
     ''        \"ec2:DescribeLaunchTemplates\",'',
     ''        \"ec2:DescribeSecurityGroups\",'',
     ''        \"ec2:DescribeSpotPriceHistory\",'',
     ''        \"ec2:DescribeSubnets\",'',
     ''        \"ec2:DescribeLaunchTemplateVersions\",'',
     ''        \"ec2:DescribeVpcs\"'',
     ''      ],'',
     ''      \"Condition\": {'',
     ''        \"StringEquals\": {'',
     ''          \"aws:RequestedRegion\": \"'' @ region @ ''\"'',
     ''        }'',
     ''      }'',
     ''    },'',
     ''    {'',
     ''      \"Sid\": \"AllowSSMReadActions\",'',
     ''      \"Effect\": \"Allow\",'',
     ''      \"Resource\": [\"arn:aws:ssm:'' @ region @ ''::parameter/aws/service/*\"],'',
     ''      \"Action\": [\"ssm:GetParameter\"]'',
     ''    },'']"

definition policy_lines_3 :: "string \<Rightarrow> string \<Rightarrow> string \<Rightarrow> string \<Rightarrow> string list" where
  "policy_lines_3 region cluster nodeRoleARN accountID =
    [''    {'',
     ''      \"Sid\": \"AllowPricingReadActions\",'',
     ''      \"Effect\": \"Allow\",'',
     ''      \"Resource\": \"*\",'',
     ''      \"Action\": [\"pricing:GetProducts\"]'',
     ''    },'',
     ''    {'',
     ''      \"Sid\": \"AllowPassingInstanceRole\",'',
     ''      \"Effect\": \"Allow\",'',
     ''      \"Resource\": ['' @ quote nodeRoleARN @ ''],'',
     ''      \"Action\": [\"iam:PassRole\"],'',
     ''      \"Condition\": {'',
     ''        \"StringEquals\": {'',
     ''          \"iam:PassedToService\": \"ec2.amazonaws.com\"'',
     ''        }'',
     ''      }'',
     ''    },'',
     ''    {'',
     ''      \"Sid\": \"AllowScopedInstanceProfileCreationActions\",'',
     ''      \"Effect\": \"Allow\",'',
     ''      \"Resource\": [\"arn:aws:iam::'' @ accountID @ '':instance-profile/*\"],'',
     ''      \"Action\": [\"iam:CreateInstanceProfile\"],'',
     ''      \"Condition\": {'',
     ''        \"StringEquals\": {'',
     ''          \"aws:RequestTag/kubernetes.io/cluster/'' @ cluster @ ''\": \"owned\",'',
     ''          \"aws:RequestTag/eks:eks-cluster-name\": \"'' @ cluster @ ''\",'',
     ''          \"aws:RequestTag/topology.kubernetes.io/region\": \"'' @ region @ ''\"'',
     ''        },'',
     ''        \"StringLike\": {'',
     ''          \"aws:RequestTag/karpenter.k8s.aws/ec2nodeclass\": \"*\"'',
     ''        }'',
     ''      }'',
     ''    },'',
     ''    {'',
     ''      \"Sid\": \"AllowScopedInstanceProfileTagActions\",'',
     ''      \"Effect\": \"Allow\",'',
     ''      \"Resource\": [\"arn:aws:iam::'' @ accountID @ '':instance-profile/*\"],'',
     ''      \"Action\": [\"iam:TagInstanceProfile\"],'',
     ''      \"Condition\": {'',
     ''        \"StringEquals\": {'',
     ''          \"aws:ResourceTag/kubernetes.io/cluster/'' @ cluster @ ''\": \"owned\",'',
     ''          \"aws:RequestTag/kubernetes.io/cluster/'' @ cluster @ ''\": \"owned\",'',
     ''          \"aws:RequestTag/eks:eks-cluster-name\": \"'' @ cluster @ ''\",'',
     ''          \"aws:ResourceTag/topology.kubernetes.io/region\": \"'' @ region @ ''\",'',
     ''          \"aws:RequestTag/topology.kubernetes.io/region\": \"'' @ region @ ''\"'',
     ''        },'',
     ''        \"StringLike\": {'',
     ''          \"aws:ResourceTag/karpenter.k8s.aws/ec2nodeclass\": \"*\",'',
     ''          \"aws:RequestTag/karpenter.k8s.aws/ec2nodeclass\": \"*\"'',
     ''        }'',
     ''      }'',
     ''    },'',
     ''    {'',
     ''      \"Sid\": \"AllowScopedInstanceProfileActions\",'',
     ''      \"Effect\": \"Allow\",'',
     ''      \"Resource\": [\"arn:aws:iam::'' @ accountID @ '':instance-profile/*\"],'',
     ''      \"Action\": ['',
     ''        \"iam:AddRoleToInstanceProfile\",'',
     ''        \"iam:RemoveRoleFromInstanceProfile\",'',
     ''        \"iam:DeleteInstanceProfile\"'',
     ''      ],'',
     ''      \"Condition\": {'',
     ''        \"StringEquals\": {'',
     ''          \"aws:ResourceTag/kubernetes.io/cluster/'' @ cluster @ ''\": \"owned\",'',
     ''          \"aws:ResourceTag/topology.kubernetes.io/region\": \"'' @ region @ ''\"'',
     ''        },'',
     ''        \"StringLike\": {'',
     ''          \"aws:ResourceTag/karpenter.k8s.aws/ec2nodeclass\": \"*\"'',
     ''        }'',
     ''      }'',
     ''    },'']"

definition policy_lines_4 :: "string \<Rightarrow> string \<Rightarrow> string \<Rightarrow> string list" where
  "policy_lines_4 region cluster accountID =
    [''    {'',
     ''      \"Sid\": \"AllowInstanceProfileReadActions\",'',
     ''      \"Effect\": \"Allow\",'',
     ''      \"Resource\": [\"arn:aws:iam::'' @ accountID @ '':instance-profile/*\"],'',
     ''      \"Action\": ['',
     ''        \"iam:GetInstanceProfile\",'',
     ''        \"iam:ListInstanceProfiles\"'',
     ''      ]'',
     ''    },'',
     ''    {'',
     ''      \"Sid\": \"AllowAPIServerEndpointDiscovery\",'',
     ''      \"Effect\": \"Allow\",'',
     ''      \"Resource\": [\"arn:aws:eks:'' @ region @ '':'' @ accountID @ '':cluster/'' @ cluster @ ''\"],'',
     ''      \"Action\": [\"eks:DescribeCluster\"]'',
     ''    }'',
     ''  ]'',
     ''}'']"

definition buildKarpenterControllerPolicyDocument :: "string \<Rightarrow> string \<Rightarrow> string \<Rightarrow> string \<Rightarrow> string" where
  "buildKarpenterControllerPolicyDocument region accountID eksClusterName nodeRoleARN =
     str_join (
      policy_lines_1 (TrimSpace region) (TrimSpace eksClusterName) @
      policy_lines_2 (TrimSpace region) (TrimSpace eksClusterName) @
      policy_lines_3 (TrimSpace region) (TrimSpace eksClusterName) (TrimSpace nodeRoleARN) (TrimSpace accountID) @
      policy_lines_4 (TrimSpace region) (TrimSpace eksClusterName) (TrimSpace accountID)) newline"

section \<open>The trust policy of the controller\<close>

definition buildKarpenterControllerAssumeRolePolicyDocument :: "string \<Rightarrow> string \<Rightarrow> string" where
  "buildKarpenterControllerAssumeRolePolicyDocument oidcProviderARN issuerHostPath =
     (let issuer = TrimSpace issuerHostPath in
      ''{\"Version\":\"2012-10-17\",\"Statement\":[{\"Effect\":\"Allow\",\"Principal\":{\"Federated\":'' @
      quote oidcProviderARN @
      ''},\"Action\":\"sts:AssumeRoleWithWebIdentity\",\"Condition\":{\"StringEquals\":{\"'' @ issuer @
      '':aud\":\"sts.amazonaws.com\",\"'' @ issuer @
      '':sub\":\"system:serviceaccount:karpenter:karpenter\"}}}]}'')"

section \<open>The manifest of the node pool\<close>

definition node_class_head :: "string \<Rightarrow> string list" where
  "node_class_head nodeInstanceProfileName =
    [''apiVersion: karpenter.k8s.aws/v1'',
     ''kind: EC2NodeClass'',
     ''metadata:'',
     ''  name: default'',
     ''spec:'',
     ''  amiSelectorTerms:'',
     ''    - alias: bottlerocket@latest'',
     ''  instanceProfile: '' @ nodeInstanceProfileName]"

definition metadata_options :: "int \<Rightarrow> string list" where
  "metadata_options imdsHopLimit =
     (if imdsHopLimit > 0 then
        [''  metadataOptions:'', ''    httpEndpoint: enabled'',
         ''    httpPutResponseHopLimit: '' @ show_nat (nat imdsHopLimit), ''    httpTokens: required'']
      else [])"

definition node_pool_tail :: "string \<Rightarrow> string list" where
  "node_pool_tail eksClusterName =
    [''  tags:'',
     ''    karpenter.sh/discovery: '' @ quote eksClusterName,
     ''---'',
     ''apiVersion: karpenter.sh/v1'',
     ''kind: NodePool'',
     ''metadata:'',
     ''  name: default'',
     ''spec:'',
     ''  template:'',
     ''    spec:'',
     ''      nodeClassRef:'',
     ''        group: karpenter.k8s.aws'',
     ''        kind: EC2NodeClass'',
     ''        name: default'',
     ''      requirements:'',
     ''        - key: \"karpenter.k8s.aws/instance-category\"'',
     ''          operator: In'',
     ''          values: [\"c\", \"m\", \"r\"]'',
     ''        - key: \"karpenter.k8s.aws/instance-hypervisor\"'',
     ''          operator: In'',
     ''          values: [\"nitro\"]'',
     ''        - key: \"karpenter.k8s.aws/instance-generation\"'',
     ''          operator: Gt'',
     ''          values: [\"2\"]'',
     ''  limits:'',
     ''    cpu: 1000'',
     ''  disruption:'',
     ''    consolidationPolicy: WhenEmptyOrUnderutilized'',
     ''    consolidateAfter: 1m'']"

text \<open>The leading and the final newline of the template are trimmed, and one is added.\<close>

definition buildDefaultNodePoolYAML :: "string \<Rightarrow> string \<Rightarrow> string list \<Rightarrow> string list \<Rightarrow> int \<Rightarrow> string" where
  "buildDefaultNodePoolYAML eksClusterName nodeInstanceProfileName nodeSubnetIDs securityGroupIDs imdsHopLimit =
     (let subnetTerms = map (\<lambda>i. ''    - id: '' @ i) nodeSubnetIDs;
          sgTerms = map (\<lambda>i. ''    - id: '' @ i) securityGroupIDs @
            [''    - tags:'', ''        aws:eks:cluster-name: '' @ quote eksClusterName]
      in TrimSpace (newline @ str_join (node_class_head nodeInstanceProfileName @ metadata_options imdsHopLimit @
           [''  subnetSelectorTerms:'', str_join subnetTerms newline, ''  securityGroupSelectorTerms:'',
            str_join sgTerms newline] @ node_pool_tail eksClusterName) newline @ newline) @ newline)"

section \<open>The trust policy reads back\<close>

text \<open>Characters that stand for themselves in a quoted string of Go and in one of JSON.\<close>

definition plain_char :: "char \<Rightarrow> bool" where
  "plain_char c \<longleftrightarrow> 0x20 \<le> byte c \<and> byte c < 0x7F \<and> c \<notin> {CHR 0x22, CHR 0x5C, CHR ''<'', CHR ''>'', CHR ''&''}"

lemma plain_ascii: "plain_char c \<Longrightarrow> byte c < 0x80" "plain_char c \<Longrightarrow> \<not> byte c < 0x20" "plain_char c \<Longrightarrow> byte c \<noteq> 0x7F"
  by (simp_all add: plain_char_def)

lemma plain_distinct:
  "plain_char c \<Longrightarrow> c \<noteq> CHR 0x22" "plain_char c \<Longrightarrow> c \<noteq> CHR 0x5C" "plain_char c \<Longrightarrow> c \<noteq> CHR ''<''"
  "plain_char c \<Longrightarrow> c \<noteq> CHR ''>''" "plain_char c \<Longrightarrow> c \<noteq> CHR ''&''"
  by (simp_all add: plain_char_def)

lemma plain_not_control: "plain_char c \<Longrightarrow> byte d < 0x20 \<or> byte d = 0x7F \<Longrightarrow> c \<noteq> d"
  using plain_ascii by blast

lemma plain_controls:
  assumes "plain_char c"
  shows "c \<noteq> CHR 0x07" "c \<noteq> CHR 0x08" "c \<noteq> CHR 0x09" "c \<noteq> CHR 0x0A" "c \<noteq> CHR 0x0B" "c \<noteq> CHR 0x0C" "c \<noteq> CHR 0x0D"
    "c \<noteq> CHR 0x7F"
  by (rule plain_not_control [OF assms], simp)+

lemma plain_escape: "plain_char c \<Longrightarrow> escape_ascii c = [c]"
  unfolding escape_ascii_def using plain_ascii [of c] plain_distinct [of c] plain_controls [of c] by simp

lemma plain_quote_char: "plain_char c \<Longrightarrow> quote_char c = [c]"
  unfolding quote_char_def using plain_ascii [of c] plain_distinct [of c] plain_controls [of c] by simp

lemma plain_quote: "list_all plain_char s \<Longrightarrow> quote s = CHR 0x22 # s @ [CHR 0x22]"
  unfolding quote_def by (induction s) (simp_all add: plain_quote_char)

lemma plain_json_escape: "list_all plain_char s \<Longrightarrow> json_escape s = s"
  by (induction s) (simp_all add: plain_escape plain_ascii)

lemma plain_json_string: "list_all plain_char s \<Longrightarrow> json_string s = CHR 0x22 # s @ [CHR 0x22]"
  by (simp add: json_string_def plain_json_escape)

lemma plain_json_escape_append: "list_all plain_char s \<Longrightarrow> json_escape (s @ t) = s @ json_escape t"
  by (induction s) (simp_all add: plain_escape plain_ascii)

lemma template_strings:
  "json_string ''Version'' = CHR 0x22 # ''Version'' @ [CHR 0x22]"
  "json_string ''2012-10-17'' = CHR 0x22 # ''2012-10-17'' @ [CHR 0x22]"
  "json_string ''Statement'' = CHR 0x22 # ''Statement'' @ [CHR 0x22]"
  "json_string ''Effect'' = CHR 0x22 # ''Effect'' @ [CHR 0x22]"
  "json_string ''Allow'' = CHR 0x22 # ''Allow'' @ [CHR 0x22]"
  "json_string ''Principal'' = CHR 0x22 # ''Principal'' @ [CHR 0x22]"
  "json_string ''Federated'' = CHR 0x22 # ''Federated'' @ [CHR 0x22]"
  "json_string ''Action'' = CHR 0x22 # ''Action'' @ [CHR 0x22]"
  "json_string ''sts:AssumeRoleWithWebIdentity'' = CHR 0x22 # ''sts:AssumeRoleWithWebIdentity'' @ [CHR 0x22]"
  "json_string ''Condition'' = CHR 0x22 # ''Condition'' @ [CHR 0x22]"
  "json_string ''StringEquals'' = CHR 0x22 # ''StringEquals'' @ [CHR 0x22]"
  "json_string ''sts.amazonaws.com'' = CHR 0x22 # ''sts.amazonaws.com'' @ [CHR 0x22]"
  "json_string ''system:serviceaccount:karpenter:karpenter'' = CHR 0x22 # ''system:serviceaccount:karpenter:karpenter'' @ [CHR 0x22]"
  "json_escape '':aud'' = '':aud''" "json_escape '':sub'' = '':sub''"
  by code_simp+

lemma plain_utf8: "list_all plain_char s \<Longrightarrow> utf8_valid s"
  by (induction s) (simp_all add: plain_ascii)

definition karpenter_trust_document :: "string \<Rightarrow> string \<Rightarrow> jtext" where
  "karpenter_trust_document arn issuer = TObj
     [(''Version'', TStr ''2012-10-17''),
      (''Statement'', TArr [TObj
         [(''Effect'', TStr ''Allow''),
          (''Principal'', TObj [(''Federated'', TStr arn)]),
          (''Action'', TStr ''sts:AssumeRoleWithWebIdentity''),
          (''Condition'', TObj [(''StringEquals'', TObj
             [(issuer @ '':aud'', TStr ''sts.amazonaws.com''),
              (issuer @ '':sub'', TStr ''system:serviceaccount:karpenter:karpenter'')])])]])]"

text \<open>
  For an ARN and an issuer of plain characters the text of the trust policy reads back as one
  statement that lets the service account of Karpenter, and nobody else, assume the role through
  the OIDC provider. (The text is put together without escaping, so this needs plain inputs.)
\<close>

theorem karpenter_trust_reads_back:
  assumes "list_all plain_char arn" "list_all plain_char issuer" "trimmed issuer"
  shows "json_parse (buildKarpenterControllerAssumeRolePolicyDocument arn issuer) = Some (karpenter_trust_document arn issuer)"
proof -
  have issuer: "json_string (issuer @ t) = CHR 0x22 # issuer @ json_escape t @ [CHR 0x22]" for t
    using assms(2) by (simp add: json_string_def plain_json_escape_append)
  have "buildKarpenterControllerAssumeRolePolicyDocument arn issuer = marshal (karpenter_trust_document arn issuer)"
    by (simp add: buildKarpenterControllerAssumeRolePolicyDocument_def karpenter_trust_document_def Let_def
        TrimSpace_id [OF assms(3)] plain_quote [OF assms(1)] plain_json_string [OF assms(1)] template_strings issuer
        del: json_escape.simps)
  moreover have "plain_json (karpenter_trust_document arn issuer)"
    using assms(1,2) plain_utf8 by (simp add: karpenter_trust_document_def utf8_valid_append)
  ultimately show ?thesis by (simp add: json_parse_marshal)
qed

theorem karpenter_trust_reads_back_witness:
  "json_parse (buildKarpenterControllerAssumeRolePolicyDocument ''arn:aws:iam::1:oidc-provider/h'' ''h'') =
     Some (karpenter_trust_document ''arn:aws:iam::1:oidc-provider/h'' ''h'')"
proof (rule karpenter_trust_reads_back)
  show "trimmed ''h''" unfolding trimmed_iff by code_simp
  show "list_all plain_char ''arn:aws:iam::1:oidc-provider/h''" "list_all plain_char ''h''" by code_simp+
qed

end
