(* ===== verification/Workload.thy ===== *)
theory Workload
  imports KarpValues Kubeconfig
begin

text \<open>
  What the Karpenter bootstrapper does in the workload cluster
  (\<open>karpenter_bootstrapper_workload_restart.go\<close> and
  \<open>karpenter_bootstrapper_workload_provisioning_stop.go\<close>): the rollout restarts after the
  Fargate profiles become active, and the end of provisioning when the cluster is deleted. A
  client is addressed by the kubeconfig it was made from; the time limits of its calls are left
  out.
\<close>

section \<open>Constants\<close>

definition metricControllerBootstrapper :: string where
  "metricControllerBootstrapper = ''eks-karpenter-bootstrapper''"
definition coreDNSRolloutRestartedAtAnnotationKey :: string where
  "coreDNSRolloutRestartedAtAnnotationKey = ''eks.kany8s.io/karpenter-bootstrapper.coredns-restarted-at''"
definition karpenterRolloutRestartedAtAnnotationKey :: string where
  "karpenterRolloutRestartedAtAnnotationKey = ''eks.kany8s.io/karpenter-bootstrapper.karpenter-restarted-at''"
definition karpenterNamespace :: string where "karpenterNamespace = ''karpenter''"
definition karpenterDeploymentName :: string where "karpenterDeploymentName = ''karpenter''"
definition karpenterNodePoolGVR :: gvr where
  "karpenterNodePoolGVR = \<lparr>gvr_Group = ''karpenter.sh'', gvr_Version = ''v1'', gvr_Resource = ''nodepools''\<rparr>"
definition karpenterNodeClaimGVR :: gvr where
  "karpenterNodeClaimGVR = \<lparr>gvr_Group = ''karpenter.sh'', gvr_Version = ''v1'', gvr_Resource = ''nodeclaims''\<rparr>"
definition karpenterEC2NodeClassGVR :: gvr where
  "karpenterEC2NodeClassGVR = \<lparr>gvr_Group = ''karpenter.k8s.aws'', gvr_Version = ''v1'', gvr_Resource = ''ec2nodeclasses''\<rparr>"
definition ackFargateProfileGVK :: gvk where
  "ackFargateProfileGVK = \<lparr>gvk_Group = ''eks.services.k8s.aws'', gvk_Version = ''v1alpha1'', gvk_Kind = ''FargateProfile''\<rparr>"

definition karpenter_event :: "eks_env \<Rightarrow> cluster \<Rightarrow> string \<Rightarrow> string \<Rightarrow> string \<Rightarrow> unit eks_eff" where
  "karpenter_event = eks_emitEvent ''eks-karpenter-bootstrapper''"

definition new_client :: "eks_env \<Rightarrow> string \<Rightarrow> workload_call \<Rightarrow> unit result eks_eff" where
  "new_client env what c =
     bind_eff (perform (Workload c) (\<lambda>h. ee_newClient env h c)) (\<lambda>r. ret (map_sum (wrapf what) id r))"

definition workload :: "eks_env \<Rightarrow> workload_call \<Rightarrow> unit result eks_eff" where
  "workload env c = perform (Workload c) (\<lambda>h. ee_workload env h c)"

section \<open>The cluster's annotations\<close>

definition hasNonEmptyAnnotation :: "str_map \<Rightarrow> string \<Rightarrow> bool" where
  "hasNonEmptyAnnotation annotations key \<longleftrightarrow> annotations \<noteq> fmempty \<and> TrimSpace (str_get annotations key) \<noteq> ''''"

definition ensureClusterAnnotation ::
    "eks_env \<Rightarrow> cluster \<Rightarrow> string \<Rightarrow> string \<Rightarrow> (cluster \<times> bool) result eks_eff" where
  "ensureClusterAnnotation env c key0 v =
     (let key = TrimSpace key0; annotations = om_Annotations (cl_meta c);
          annotations' = fmupd key (TrimSpace v) annotations in
      if key = '''' then ret (Inl (errorf ''annotation key is empty''))
      else if annotations' = annotations then ret (Inr (c, False))
      else try_bind (patch_cluster env c (set_meta (\<lambda>m. m\<lparr>om_Annotations := annotations'\<rparr>) c)) (\<lambda>c'.
        ret (Inr (c', True))))"

section \<open>The kubeconfig of the workload cluster\<close>

text \<open>Whether the rotator is enabled, and the kubeconfig if there is one.\<close>

definition getWorkloadKubeconfigBytes :: "eks_env \<Rightarrow> cluster \<Rightarrow> string \<Rightarrow> (bool \<times> string option) result eks_eff" where
  "getWorkloadKubeconfigBytes env owner capiClusterName =
     (let rotatorEnabled = EqualFold (TrimSpace (str_get (om_Annotations (cl_meta owner)) EnableAnnotationKey)) EnableAnnotationValue;
          ns = om_Namespace (cl_meta owner) in
      case SecretName capiClusterName of
        Inl e \<Rightarrow> ret (Inl e)
      | Inr secretName \<Rightarrow>
          bind_eff (perform (EksGetSecret (object_key ns secretName)) (\<lambda>h. ee_getSecret env h (object_key ns secretName))) (\<lambda>got. case got of
            Inl e \<Rightarrow> ret (if is_not_found e then Inr (rotatorEnabled, None) else Inl e)
          | Inr s \<Rightarrow>
              let kc = str_get (se_Data s) DataKey in
              if kc = '''' then ret (Inl (errorf (''secret '' @ ns @ ''/'' @ secretName @ '' missing data['' @ quote DataKey @ '']'')))
              else ret (Inr (rotatorEnabled, Some kc))))"

definition isACKFargateProfileActive :: "eks_env \<Rightarrow> string \<Rightarrow> string \<Rightarrow> bool result eks_eff" where
  "isACKFargateProfileActive env ns name =
     bind_eff (eks_get env ackFargateProfileGVK (object_key ns name)) (\<lambda>got. case got of
       Inl e \<Rightarrow> ret (if is_not_found e then Inr False else Inl e)
     | Inr fp \<Rightarrow> ret (Inr (EqualFold (fst (readNestedString (ee_lib env) (un_Object fp) [''status'', ''status''])) ''ACTIVE'')))"

section \<open>Rollout restarts\<close>

definition restart_patch :: "string \<Rightarrow> string" where
  "restart_patch restartedAt = marshal (jmap [(''spec'', jmap [(''template'', jmap [(''metadata'',
     jmap [(''annotations'', jmap [(''kubectl.kubernetes.io/restartedAt'', TStr restartedAt)])])])])])"

definition rolloutRestartDeployment :: "eks_env \<Rightarrow> string \<Rightarrow> string \<Rightarrow> string \<Rightarrow> string \<Rightarrow> unit result eks_eff" where
  "rolloutRestartDeployment env kc ns name restartedAt = workload env (PatchDeployment kc ns name (restart_patch restartedAt))"

text \<open>
  One restart: a deployment that is not there yet asks for another run, one that was restarted is
  recorded in the cluster.
\<close>

definition restart_once ::
    "eks_env \<Rightarrow> string \<Rightarrow> string \<Rightarrow> string \<Rightarrow> string \<Rightarrow> string \<Rightarrow> cluster \<Rightarrow> (cluster \<times> bool) result eks_eff" where
  "restart_once env kc ns name annotationKey restartedAt owner =
     bind_eff (rolloutRestartDeployment env kc ns name restartedAt) (\<lambda>r. case r of
       Inl e \<Rightarrow>
         if is_not_found e then ret (Inr (owner, True))
         else ret (Inl (wrapf (''rollout restart '' @ ns @ ''/'' @ name) e))
     | Inr _ \<Rightarrow>
         try_bind (ensureClusterAnnotation env owner annotationKey restartedAt) (\<lambda>(owner', patched).
           bind_eff (when_eff patched (karpenter_event env owner' EventTypeNormal ''WorkloadRolloutRestarted''
             (''rolled out restart of '' @ ns @ ''/'' @ name))) (\<lambda>_.
             ret (Inr (owner', False)))))"

text \<open>Whether another run is needed soon; the code's value beside an error is not used.\<close>

definition ensureWorkloadRolloutRestarts ::
    "eks_env \<Rightarrow> cluster \<Rightarrow> string \<Rightarrow> bool \<Rightarrow> bool \<Rightarrow> bool \<Rightarrow> (cluster \<times> bool) result eks_eff" where
  "ensureWorkloadRolloutRestarts env owner capiClusterName corednsProfileActive karpenterProfileActive fluxInstalled =
     (let annotations = om_Annotations (cl_meta owner);
          needCoreDNS = (corednsProfileActive \<and> \<not> hasNonEmptyAnnotation annotations coreDNSRolloutRestartedAtAnnotationKey);
          needKarpenter = (fluxInstalled \<and> karpenterProfileActive \<and>
            \<not> hasNonEmptyAnnotation annotations karpenterRolloutRestartedAtAnnotationKey)
      in if \<not> needCoreDNS \<and> \<not> needKarpenter then ret (Inr (owner, False))
         else try_bind (getWorkloadKubeconfigBytes env owner capiClusterName) (\<lambda>(rotatorEnabled, found). case found of
             None \<Rightarrow> ret (Inr (owner, rotatorEnabled))
           | Some kc \<Rightarrow>
               (case ee_restConfig env kc of
                  Inl e \<Rightarrow> ret (Inl (wrapf ''load workload kubeconfig'' e))
                | Inr _ \<Rightarrow>
               try_bind (new_client env ''new workload clientset'' (NewClientset kc)) (\<lambda>_.
               bind_eff (perform EksNow (\<lambda>h. ee_now env h)) (\<lambda>now.
               let restartedAt = format_rfc3339 now in
               try_bind (if needCoreDNS
                   then restart_once env kc ''kube-system'' ''coredns'' coreDNSRolloutRestartedAtAnnotationKey restartedAt owner
                   else ret (Inr (owner, False))) (\<lambda>(owner1, needs1).
               try_bind (if needKarpenter
                   then restart_once env kc ''karpenter'' ''karpenter'' karpenterRolloutRestartedAtAnnotationKey restartedAt owner1
                   else ret (Inr (owner1, False))) (\<lambda>(owner2, needs2).
                 ret (Inr (owner2, needs1 \<or> needs2)))))))))"

section \<open>The end of provisioning\<close>

definition is_forbidden :: "go_error \<Rightarrow> bool" where
  "is_forbidden e = (err_reason e = Forbidden)"

definition scale_patch :: "nat \<Rightarrow> string" where
  "scale_patch replicas = marshal (jmap [(''spec'', jmap [(''replicas'', TNum (show_nat replicas))])])"

definition scaleDeployment :: "eks_env \<Rightarrow> string \<Rightarrow> string \<Rightarrow> string \<Rightarrow> nat \<Rightarrow> unit result eks_eff" where
  "scaleDeployment env kc ns name replicas = workload env (PatchDeployment kc ns name (scale_patch replicas))"

definition deleteCollection :: "eks_env \<Rightarrow> string \<Rightarrow> gvr \<Rightarrow> unit result eks_eff" where
  "deleteCollection env kc g = workload env (DeleteCollection kc g)"

fun delete_collections :: "eks_env \<Rightarrow> string \<Rightarrow> gvr list \<Rightarrow> unit result eks_eff" where
  "delete_collections env kc [] = ret (Inr ())"
| "delete_collections env kc (g # gs) =
     bind_eff (deleteCollection env kc g) (\<lambda>r. case r of
       Inl e \<Rightarrow> if is_not_found e \<or> is_forbidden e then delete_collections env kc gs else ret (Inl e)
     | Inr _ \<Rightarrow> delete_collections env kc gs)"

text \<open>
  The configuration of a client of the workload cluster, named by its kubeconfig: the Secret's,
  or one with a short-lived token. \<open>write\<close> is \<open>clientcmd.Write\<close>.
\<close>

definition rest_config :: "eks_env \<Rightarrow> string \<Rightarrow> string \<Rightarrow> string option result" where
  "rest_config env what kc = map_sum (wrapf what) (\<lambda>_. Some kc) (ee_restConfig env kc)"

definition token_rest_config ::
    "(kube_config \<Rightarrow> string result) \<Rightarrow> karpenter \<Rightarrow> eks_env \<Rightarrow> cluster \<Rightarrow> string \<Rightarrow> string \<Rightarrow> string \<Rightarrow> string \<Rightarrow>
     unstructured \<Rightarrow> string option result eks_eff" where
  "token_rest_config write r env owner capiClusterName region eksClusterName ackClusterName ack =
     (let (endpoint, caData) = readACKEndpointAndCA (ee_lib env) ack;
          resolvedRegion = (if TrimSpace region \<noteq> '''' then TrimSpace region else resolveRegion (ee_lib env) owner (Some ack));
          specName = fst (readNestedString (ee_lib env) (un_Object ack) [''spec'', ''name'']);
          resolvedEKSName = (if TrimSpace eksClusterName \<noteq> '''' then TrimSpace eksClusterName
            else if specName \<noteq> '''' then specName else ackClusterName)
      in if endpoint = '''' \<or> caData = '''' then ret (Inr None)
         else if resolvedRegion = '''' then ret (Inr None)
         else if \<not> kr_hasTokenGenerator r then ret (Inr None)
         else bind_eff (perform (EksGenerateToken resolvedRegion resolvedEKSName)
             (\<lambda>h. ee_generateToken env h resolvedRegion resolvedEKSName)) (\<lambda>tok. case tok of
             Inl e \<Rightarrow> bind_eff (emit (RecordTokenGenerationFailure metricControllerBootstrapper)) (\<lambda>_.
               ret (Inl (wrapf ''generate EKS token'' e)))
           | Inr (token, _) \<Rightarrow>
               (case BuildTokenKubeconfig write capiClusterName endpoint caData token of
                  Inl e \<Rightarrow> ret (Inl e)
                | Inr kc \<Rightarrow> ret (rest_config env ''load generated workload kubeconfig'' kc))))"

definition getWorkloadRESTConfig ::
    "(kube_config \<Rightarrow> string result) \<Rightarrow> karpenter \<Rightarrow> eks_env \<Rightarrow> cluster \<Rightarrow> string \<Rightarrow> string \<Rightarrow> string \<Rightarrow> string \<Rightarrow>
     string option result eks_eff" where
  "getWorkloadRESTConfig write r env owner capiClusterName region eksClusterName ackClusterName0 =
     try_bind (getWorkloadKubeconfigBytes env owner capiClusterName) (\<lambda>(_, found). case found of
       Some kc \<Rightarrow> ret (rest_config env ''load workload kubeconfig'' kc)
     | None \<Rightarrow>
         let ackClusterName = TrimSpace ackClusterName0 in
         if ackClusterName = '''' then ret (Inr None)
         else bind_eff (eks_get env ackClusterGVK (object_key (om_Namespace (cl_meta owner)) ackClusterName)) (\<lambda>got. case got of
             Inl e \<Rightarrow> ret (if is_not_found e then Inr None else Inl e)
           | Inr ack \<Rightarrow> token_rest_config write r env owner capiClusterName region eksClusterName ackClusterName ack))"

definition stopWorkloadKarpenterProvisioning ::
    "(kube_config \<Rightarrow> string result) \<Rightarrow> karpenter \<Rightarrow> eks_env \<Rightarrow> cluster \<Rightarrow> string \<Rightarrow> string \<Rightarrow> string \<Rightarrow> string \<Rightarrow>
     unit result eks_eff" where
  "stopWorkloadKarpenterProvisioning write r env owner capiClusterName region eksClusterName ackClusterName =
     try_bind (getWorkloadRESTConfig write r env owner capiClusterName region eksClusterName ackClusterName) (\<lambda>cfg. case cfg of
       None \<Rightarrow> ret (Inr ())
     | Some kc \<Rightarrow>
         try_bind (new_client env ''new workload clientset'' (NewClientset kc)) (\<lambda>_.
         bind_eff (scaleDeployment env kc karpenterNamespace karpenterDeploymentName 0) (\<lambda>scaled.
         if (case scaled of Inl e \<Rightarrow> \<not> is_not_found e \<and> \<not> is_forbidden e | Inr _ \<Rightarrow> False)
         then ret (map_sum (wrapf (''scale down '' @ karpenterNamespace @ ''/'' @ karpenterDeploymentName)) id scaled)
         else try_bind (new_client env ''new workload dynamic client'' (NewDynamicClient kc)) (\<lambda>_.
           delete_collections env kc [karpenterNodePoolGVR, karpenterNodeClaimGVR, karpenterEC2NodeClassGVR]))))"

end
