(* ===== verification/KarpResources.thy ===== *)
theory KarpResources
  imports KarpPolicy Workload
begin

text \<open>
  The resources the Karpenter bootstrapper keeps in the management cluster
  (\<open>karpenter_bootstrapper_controller.go\<close>): the ACK resources of the AWS account, the Flux
  resources of the chart, the node pool manifest, and the thumbprint of the OIDC provider.
\<close>

section \<open>Kinds\<close>

definition ackAccessEntryGVK :: gvk where
  "ackAccessEntryGVK = \<lparr>gvk_Group = ''eks.services.k8s.aws'', gvk_Version = ''v1alpha1'', gvk_Kind = ''AccessEntry''\<rparr>"
definition ackIAMPolicyGVK :: gvk where
  "ackIAMPolicyGVK = \<lparr>gvk_Group = ''iam.services.k8s.aws'', gvk_Version = ''v1alpha1'', gvk_Kind = ''Policy''\<rparr>"
definition ackIAMInstanceProfileGVK :: gvk where
  "ackIAMInstanceProfileGVK = \<lparr>gvk_Group = ''iam.services.k8s.aws'', gvk_Version = ''v1alpha1'', gvk_Kind = ''InstanceProfile''\<rparr>"
definition ackOIDCProviderGVK :: gvk where
  "ackOIDCProviderGVK = \<lparr>gvk_Group = ''iam.services.k8s.aws'', gvk_Version = ''v1alpha1'', gvk_Kind = ''OpenIDConnectProvider''\<rparr>"
definition fluxOCIRepositoryGVK :: gvk where
  "fluxOCIRepositoryGVK = \<lparr>gvk_Group = ''source.toolkit.fluxcd.io'', gvk_Version = ''v1beta2'', gvk_Kind = ''OCIRepository''\<rparr>"
definition fluxHelmReleaseGVK :: gvk where
  "fluxHelmReleaseGVK = \<lparr>gvk_Group = ''helm.toolkit.fluxcd.io'', gvk_Version = ''v2'', gvk_Kind = ''HelmRelease''\<rparr>"
definition clusterResourceSetGVK :: gvk where
  "clusterResourceSetGVK = \<lparr>gvk_Group = ''addons.cluster.x-k8s.io'', gvk_Version = ''v1beta2'', gvk_Kind = ''ClusterResourceSet''\<rparr>"

definition karpenterEnableLabelKey :: string where "karpenterEnableLabelKey = ''eks.kany8s.io/karpenter''"
definition karpenterEnableLabelValue :: string where "karpenterEnableLabelValue = ''enabled''"
definition oidcThumbprintAutoAnnotation :: string where
  "oidcThumbprintAutoAnnotation = ''eks.kany8s.io/oidc-thumbprint-auto''"

section \<open>ACK resources\<close>

definition karpenter_bootstrapper :: bootstrapper where
  "karpenter_bootstrapper = \<lparr>bs_Controller = ''eks-karpenter-bootstrapper'', bs_ManagedBy = karpenterManagedByValue,
     bs_TakeoverReason = ''ResourceTakeoverApplied''\<rparr>"

text \<open>An object with the marks of the bootstrapper and the fields of its spec, in their order.\<close>

definition kar_ensure ::
    "eks_env \<Rightarrow> cluster \<Rightarrow> gvk \<Rightarrow> string \<Rightarrow> string option \<Rightarrow> (string \<times> json) list \<Rightarrow> bool result eks_eff" where
  "kar_ensure env owner g name region fs =
     upsertManagedUnstructured karpenter_bootstrapper env owner g name
       (fill_object (ee_lib env) karpenterManagedByValue region (om_Name (cl_meta owner)) fs)"

definition owner_tags :: "cluster \<Rightarrow> json" where
  "owner_tags owner = JArr (awsTagsAsSlice (bootstrapperResourceTags owner []))"

definition jobj :: "(string \<times> json) list \<Rightarrow> json" where
  "jobj kvs = JObj (json_object kvs)"

definition from_ref :: "cluster \<Rightarrow> string \<Rightarrow> json" where
  "from_ref owner name = jobj [(''from'', jobj [(''name'', JStr name), (''namespace'', JStr (om_Namespace (cl_meta owner)))])]"

definition oidc_fields :: "cluster \<Rightarrow> string \<Rightarrow> string list \<Rightarrow> (string \<times> json) list" where
  "oidc_fields owner issuerURL thumbprints =
     [(''url'', JStr issuerURL), (''clientIDs'', JArr [JStr ''sts.amazonaws.com''])] @
     (if nonblank thumbprints = [] then [] else [(''thumbprints'', JArr (map JStr (nonblank thumbprints)))]) @
     [(''tags'', owner_tags owner)]"

definition ensureOIDCProvider ::
    "eks_env \<Rightarrow> cluster \<Rightarrow> string \<Rightarrow> string \<Rightarrow> string \<Rightarrow> string list \<Rightarrow> bool result eks_eff" where
  "ensureOIDCProvider env owner name region issuerURL thumbprints =
     kar_ensure env owner ackOIDCProviderGVK name (Some region) (oidc_fields owner issuerURL thumbprints)"

definition ensureIAMPolicy ::
    "eks_env \<Rightarrow> cluster \<Rightarrow> string \<Rightarrow> string \<Rightarrow> string \<Rightarrow> string \<Rightarrow> bool result eks_eff" where
  "ensureIAMPolicy env owner name region policyDocument policyName =
     kar_ensure env owner ackIAMPolicyGVK name (Some region)
       [(''name'', JStr policyName), (''policyDocument'', JStr policyDocument), (''tags'', owner_tags owner)]"

definition ensureIAMRoleForIRSA ::
    "eks_env \<Rightarrow> cluster \<Rightarrow> string \<Rightarrow> string \<Rightarrow> string \<Rightarrow> string \<Rightarrow> string list \<Rightarrow> bool result eks_eff" where
  "ensureIAMRoleForIRSA env owner name region awsRoleName assumeRolePolicyDocument policyRefNames =
     kar_ensure env owner ackIAMRoleGVK name (Some region)
       [(''name'', JStr awsRoleName), (''assumeRolePolicyDocument'', JStr assumeRolePolicyDocument),
        (''policyRefs'', JArr (map (from_ref owner) policyRefNames)), (''tags'', owner_tags owner)]"

definition ec2_assume_policy :: string where
  "ec2_assume_policy = ''{\"Version\":\"2012-10-17\",\"Statement\":[{\"Effect\":\"Allow\",\"Principal\":{\"Service\":\"ec2.amazonaws.com\"},\"Action\":\"sts:AssumeRole\"}]}''"

definition ensureIAMRoleForEC2 ::
    "eks_env \<Rightarrow> cluster \<Rightarrow> string \<Rightarrow> string \<Rightarrow> string \<Rightarrow> string list \<Rightarrow> str_map \<Rightarrow> bool result eks_eff" where
  "ensureIAMRoleForEC2 env owner name region awsRoleName managedPolicyARNs inlinePolicies =
     kar_ensure env owner ackIAMRoleGVK name (Some region)
       ([(''name'', JStr awsRoleName), (''assumeRolePolicyDocument'', JStr ec2_assume_policy),
         (''policies'', JArr (map JStr managedPolicyARNs))] @
        (if inlinePolicies = fmempty then [] else [(''inlinePolicies'', JObj (fmmap JStr inlinePolicies))]) @
        [(''tags'', owner_tags owner)])"

definition ensureIAMInstanceProfile ::
    "eks_env \<Rightarrow> cluster \<Rightarrow> string \<Rightarrow> string \<Rightarrow> string \<Rightarrow> string \<Rightarrow> bool result eks_eff" where
  "ensureIAMInstanceProfile env owner name region awsInstanceProfileName roleRefName =
     kar_ensure env owner ackIAMInstanceProfileGVK name (Some region)
       [(''name'', JStr awsInstanceProfileName), (''roleRef'', from_ref owner roleRefName), (''tags'', owner_tags owner)]"

definition ensureAccessEntry ::
    "eks_env \<Rightarrow> cluster \<Rightarrow> string \<Rightarrow> string \<Rightarrow> string \<Rightarrow> string \<Rightarrow> bool result eks_eff" where
  "ensureAccessEntry env owner name region ackClusterName principalARN =
     kar_ensure env owner ackAccessEntryGVK name (Some region)
       [(''principalARN'', JStr principalARN), (''type'', JStr ''EC2_LINUX''), (''clusterRef'', from_ref owner ackClusterName),
        (''tags'', JObj (awsTagsAsMap (bootstrapperResourceTags owner [])))]"

section \<open>The security group of the nodes\<close>

definition security_group_fields ::
    "cluster \<Rightarrow> string \<Rightarrow> string \<Rightarrow> string list \<Rightarrow> (string \<times> json) list" where
  "security_group_fields owner eksClusterName vpcID vpcCIDRs =
     (let awsName = aws_name (eksClusterName @ ''-karpenter-node'') 255;
          tags = bootstrapperResourceTags owner
            [(''Name'', awsName), (''karpenter.sh/discovery'', eksClusterName),
             (''kubernetes.io/cluster/'' @ eksClusterName, ''owned'')]
      in [(''name'', JStr awsName),
          (''description'', JStr (take 255 (''Karpenter nodes for '' @ eksClusterName))),
          (''vpcID'', JStr vpcID),
          (''ingressRules'', JArr [jobj [(''ipProtocol'', JStr ''-1''),
            (''ipRanges'', JArr (map (\<lambda>c. jobj [(''cidrIP'', JStr c), (''description'', JStr ''VPC traffic'')]) vpcCIDRs))]]),
          (''egressRules'', JArr [jobj [(''ipProtocol'', JStr ''-1''),
            (''ipRanges'', JArr [jobj [(''cidrIP'', JStr ''0.0.0.0/0'')]])]]),
          (''tags'', JArr (awsTagsAsSlice tags))])"

text \<open>The ID of the group, once AWS has given it one, and whether the group is ours.\<close>

definition ensureNodeSecurityGroup ::
    "eks_env \<Rightarrow> cluster \<Rightarrow> string \<Rightarrow> string \<Rightarrow> string list \<Rightarrow> (string \<times> bool) result eks_eff" where
  "ensureNodeSecurityGroup env owner region0 eksClusterName0 nodeSubnetIDs =
     (let region = TrimSpace region0; eksClusterName = TrimSpace eksClusterName0 in
      if region = '''' then ret (Inl (errorf ''region is empty''))
      else if eksClusterName = '''' then ret (Inl (errorf ''eks cluster name is empty''))
      else if nodeSubnetIDs = [] then ret (Inl (errorf ''subnet IDs are empty''))
      else try_bind (discoverVPCBySubnets env region nodeSubnetIDs) (\<lambda>(vpcID, vpcCIDRs).
        if vpcID = '''' then ret (Inl (errorf ''resolved vpc ID is empty''))
        else if vpcCIDRs = [] then ret (Inl (errorf ''resolved VPC CIDRs are empty''))
        else bind_eff (kar_ensure env owner ackSecurityGroupGVK (node_sg_name owner) (Some region)
            (security_group_fields owner eksClusterName vpcID vpcCIDRs)) (\<lambda>r. case r of
            Inl e \<Rightarrow> ret (Inl (if isNoMatchError e then errorf ''ACK EC2 SecurityGroup CRD is not installed'' else e))
          | Inr managed \<Rightarrow>
              if \<not> managed then ret (Inr ('''', False))
              else try_bind (eks_get env ackSecurityGroupGVK (object_key (om_Namespace (cl_meta owner)) (node_sg_name owner))) (\<lambda>got.
                ret (Inr (TrimSpace (fst (readNestedString (ee_lib env) (un_Object got) [''status'', ''id''])), True))))))"

section \<open>Flux\<close>

fun ready_condition :: "64 word \<Rightarrow> json list \<Rightarrow> bool" where
  "ready_condition generation [] = False"
| "ready_condition generation (raw # conditions) =
     (case as_object raw of
        None \<Rightarrow> ready_condition generation conditions
      | Some c \<Rightarrow>
          if fmlookup c ''type'' \<noteq> Some (JStr ''Ready'') \<or> fmlookup c ''status'' \<noteq> Some (JStr ''True'')
          then ready_condition generation conditions
          else (case fmlookup c ''observedGeneration'' of Some (JInt observed) \<Rightarrow> observed = sint generation | _ \<Rightarrow> False))"

definition helmReleaseReady :: "apilib \<Rightarrow> unstructured \<Rightarrow> bool" where
  "helmReleaseReady lib hr =
     (if om_Generation (un_meta hr) = 0 then False
      else (case lib_NestedSlice lib (un_Object hr) [''status'', ''conditions''] of
          Inl _ \<Rightarrow> False
        | Inr (_, False) \<Rightarrow> False
        | Inr (conditions, True) \<Rightarrow> ready_condition (om_Generation (un_meta hr)) conditions))"

definition oci_fields :: "string \<Rightarrow> (string \<times> json) list" where
  "oci_fields karpenterChartTag =
     [(''interval'', JStr ''10m''), (''url'', JStr ''oci://public.ecr.aws/karpenter/karpenter''),
      (''ref'', jobj [(''tag'', JStr karpenterChartTag)]),
      (''layerSelector'', jobj [(''mediaType'', JStr ''application/vnd.cncf.helm.chart.content.v1.tar+gzip''),
         (''operation'', JStr ''copy'')])]"

definition helm_fields :: "cluster \<Rightarrow> string \<Rightarrow> string \<Rightarrow> doc \<Rightarrow> (string \<times> json) list" where
  "helm_fields owner capiClusterName ociRepoName helmValues =
     (let forever = jobj [(''retries'', JInt (-1))] in
      [(''interval'', JStr ''5m''), (''timeout'', JStr ''15m''), (''releaseName'', JStr ''karpenter''),
       (''targetNamespace'', JStr ''karpenter''),
       (''kubeConfig'', jobj [(''secretRef'', jobj [(''name'', JStr (capiClusterName @ ''-kubeconfig''))])]),
       (''chartRef'', jobj [(''kind'', JStr ''OCIRepository''), (''name'', JStr ociRepoName),
          (''namespace'', JStr (om_Namespace (cl_meta owner)))]),
       (''install'', jobj [(''createNamespace'', JBool True), (''crds'', JStr ''CreateReplace''),
          (''disableWait'', JBool False), (''remediation'', forever)]),
       (''upgrade'', jobj [(''crds'', JStr ''CreateReplace''), (''disableWait'', JBool False), (''remediation'', forever)]),
       (''values'', JObj (deepCopyMapAny helmValues))])"

definition ensureFluxKarpenter :: "eks_env \<Rightarrow> cluster \<Rightarrow> string \<Rightarrow> string \<Rightarrow> doc \<Rightarrow> bool result eks_eff" where
  "ensureFluxKarpenter env owner capiClusterName karpenterChartTag helmValues =
     (let name = capiClusterName @ ''-karpenter'' in
      try_bind (kar_ensure env owner fluxOCIRepositoryGVK name None (oci_fields karpenterChartTag)) (\<lambda>ok.
      if \<not> ok then ret (Inr False)
      else try_bind (kar_ensure env owner fluxHelmReleaseGVK name None
          (helm_fields owner capiClusterName name helmValues)) (\<lambda>ok.
        if \<not> ok then ret (Inr False)
        else bind_eff (eks_get env fluxHelmReleaseGVK (object_key (om_Namespace (cl_meta owner)) name)) (\<lambda>got. case got of
            Inl e \<Rightarrow> ret (map_sum id (\<lambda>_. False) (ignore_not_found e))
          | Inr current \<Rightarrow> ret (Inr (helmReleaseReady (ee_lib env) current))))))"

section \<open>The node pool manifest\<close>

text \<open>\<open>errNodePoolTemplateInvalid\<close> with its text, or another error.\<close>

datatype nodepool_error = TemplateInvalid string | NodePoolError go_error

definition get_config_map :: "eks_env \<Rightarrow> object_key \<Rightarrow> config_map result eks_eff" where
  "get_config_map env k = perform (EksGetConfigMap k) (\<lambda>h. ee_getConfigMap env h k)"

definition resolveNodePoolTemplateYAML ::
    "eks_env \<Rightarrow> cluster \<Rightarrow> string \<Rightarrow> string \<Rightarrow> string list \<Rightarrow> string list \<Rightarrow> int \<Rightarrow> (nodepool_error + string) eks_eff" where
  "resolveNodePoolTemplateYAML env owner eksClusterName nodeInstanceProfileName nodeSubnetIDs securityGroupIDs imdsHopLimit =
     (let defaultYAML = buildDefaultNodePoolYAML eksClusterName nodeInstanceProfileName nodeSubnetIDs securityGroupIDs imdsHopLimit;
          annotations = om_Annotations (cl_meta owner); ns = om_Namespace (cl_meta owner);
          cmName = TrimSpace (str_get annotations karpenterNodePoolTemplateConfigMapAnnotation);
          key0 = TrimSpace (str_get annotations karpenterNodePoolTemplateConfigMapKeyAnnotation);
          key = (if key0 = '''' then ''resources.yaml'' else key0)
      in if cmName = '''' then ret (Inr defaultYAML)
         else bind_eff (get_config_map env (object_key ns cmName)) (\<lambda>got. case got of
             Inl e \<Rightarrow> ret (Inl (TemplateInvalid (''nodepool template invalid: read ConfigMap '' @ ns @ ''/'' @ cmName @
               '': '' @ err_text e)))
           | Inr cm \<Rightarrow>
               let raw = TrimSpace (str_get (cm_Data cm) key) in
               if raw = '''' then ret (Inl (TemplateInvalid (''nodepool template invalid: ConfigMap '' @ ns @ ''/'' @ cmName @
                 '' has empty data['' @ quote key @ '']'')))
               else ret (Inr (raw @ newline))))"

definition mutateManagedConfigMap :: "cluster \<Rightarrow> string \<Rightarrow> config_map \<Rightarrow> config_map" where
  "mutateManagedConfigMap owner resourcesYAML cm =
     cm\<lparr>cm_meta := (cm_meta cm)\<lparr>
          om_Labels := fmupd capiClusterNameLabelKey (om_Name (cl_meta owner)) (om_Labels (cm_meta cm)),
          om_Annotations := fmupd ManagedByAnnotationKey karpenterManagedByValue (om_Annotations (cm_meta cm))\<rparr>,
        cm_Data := fmupd ''resources.yaml'' resourcesYAML (cm_Data cm)\<rparr>"

definition own_config_map :: "apilib \<Rightarrow> cluster \<Rightarrow> string \<Rightarrow> config_map \<Rightarrow> config_map result" where
  "own_config_map lib owner resourcesYAML cm =
     (let cm' = mutateManagedConfigMap owner resourcesYAML cm in
      map_sum id (\<lambda>m. cm'\<lparr>cm_meta := m\<rparr>) (lib_SetOwnerReference lib capiClusterGVK (cl_meta owner) (cm_meta cm')))"

text \<open>The config map is written; whether it is ours.\<close>

definition ensure_config_map :: "eks_env \<Rightarrow> cluster \<Rightarrow> string \<Rightarrow> string \<Rightarrow> bool result eks_eff" where
  "ensure_config_map env owner cmName desiredYAML =
     (let ns = om_Namespace (cl_meta owner) in
      bind_eff (get_config_map env (object_key ns cmName)) (\<lambda>got. case got of
        Inl e \<Rightarrow>
          if \<not> is_not_found e then ret (Inl e)
          else (case own_config_map (ee_lib env) owner desiredYAML \<lparr>cm_meta = new_meta ns cmName, cm_Data = fmempty\<rparr> of
              Inl e \<Rightarrow> ret (Inl e)
            | Inr cm \<Rightarrow> try_bind (eks_write env (EksCreateConfigMap cm)) (\<lambda>_. ret (Inr True)))
      | Inr before \<Rightarrow>
          let wasManaged = isManagedByBootstrapper (om_Annotations (cm_meta before)) in
          if \<not> wasManaged \<and> \<not> IsUnmanagedTakeoverEnabled (om_Annotations (cl_meta owner)) then
            bind_eff (karpenter_event env owner EventTypeWarning ''ResourceOwnershipConflict''
              (''configmap '' @ ns @ ''/'' @ cmName @ '' exists and is not managed by '' @ karpenterManagedByValue)) (\<lambda>_.
            bind_eff (emit (RecordOwnershipConflict metricControllerBootstrapper ''ConfigMap'')) (\<lambda>_. ret (Inr False)))
          else (case own_config_map (ee_lib env) owner desiredYAML before of
              Inl e \<Rightarrow> ret (Inl e)
            | Inr cm \<Rightarrow>
                try_bind (if cm = before then ret (Inr ()) else eks_write env (EksUpdateConfigMap cm)) (\<lambda>_.
                bind_eff (when_eff (\<not> wasManaged) (karpenter_event env owner EventTypeNormal ''ResourceTakeoverApplied''
                  (''took over unmanaged ConfigMap '' @ ns @ ''/'' @ cmName @ '' because '' @
                   quote AllowUnmanagedTakeoverAnnotationKey @ '' is enabled''))) (\<lambda>_.
                ret (Inr True))))))"

definition crs_fields :: "string \<Rightarrow> string \<Rightarrow> (string \<times> json) list" where
  "crs_fields capiClusterName cmName =
     [(''clusterSelector'', jobj [(''matchLabels'', jobj [(capiClusterNameLabelKey, JStr capiClusterName),
        (karpenterEnableLabelKey, JStr karpenterEnableLabelValue)])]),
      (''resources'', JArr [jobj [(''kind'', JStr ''ConfigMap''), (''name'', JStr cmName)]]),
      (''strategy'', JStr ''Reconcile'')]"

definition ensure_resource_set :: "eks_env \<Rightarrow> cluster \<Rightarrow> string \<Rightarrow> string \<Rightarrow> unit result eks_eff" where
  "ensure_resource_set env owner capiClusterName cmName =
     (let crsName = capiClusterName @ ''-karpenter-nodepool'' in
      bind_eff (kar_ensure env owner clusterResourceSetGVK crsName None (crs_fields capiClusterName cmName)) (\<lambda>r. case r of
        Inl e \<Rightarrow> ret (if isNoMatchError e then Inr () else Inl e)
      | Inr ok \<Rightarrow>
          bind_eff (when_eff (\<not> ok) (bind_eff (karpenter_event env owner EventTypeWarning ''ResourceOwnershipConflict''
            (''ClusterResourceSet '' @ om_Namespace (cl_meta owner) @ ''/'' @ crsName @ '' exists and is not managed by '' @
             karpenterManagedByValue)) (\<lambda>_.
            emit (RecordOwnershipConflict metricControllerBootstrapper ''ClusterResourceSet'')))) (\<lambda>_.
          ret (Inr ()))))"

definition ensureDefaultNodePoolResources ::
    "eks_env \<Rightarrow> cluster \<Rightarrow> string \<Rightarrow> string \<Rightarrow> string \<Rightarrow> string list \<Rightarrow> string list \<Rightarrow> int \<Rightarrow> (nodepool_error + unit) eks_eff" where
  "ensureDefaultNodePoolResources env owner capiClusterName eksClusterName nodeInstanceProfileName nodeSubnetIDs
     securityGroupIDs imdsHopLimit =
     bind_eff (resolveNodePoolTemplateYAML env owner eksClusterName nodeInstanceProfileName nodeSubnetIDs
       securityGroupIDs imdsHopLimit) (\<lambda>t. case t of
       Inl e \<Rightarrow> ret (Inl e)
     | Inr desiredYAML \<Rightarrow>
         let cmName = capiClusterName @ ''-karpenter-nodepool'' in
         bind_eff (try_bind (ensure_config_map env owner cmName desiredYAML) (\<lambda>ours.
           if \<not> ours then ret (Inr ()) else ensure_resource_set env owner capiClusterName cmName)) (\<lambda>r.
         ret (map_sum NodePoolError id r)))"

section \<open>The thumbprint of the OIDC provider\<close>

definition selectLongestVerifiedChain :: "certificate list list \<Rightarrow> certificate list" where
  "selectLongestVerifiedChain verified =
     (case verified of
        [] \<Rightarrow> []
      | c # cs \<Rightarrow> fold (\<lambda>chain longest. if length chain > length longest then chain else longest) cs c)"

text \<open>A certificate's names are compared by their text.\<close>

definition isSelfSignedCertificate :: "certificate \<Rightarrow> bool" where
  "isSelfSignedCertificate c \<longleftrightarrow> ce_Subject c = ce_Issuer c"

fun last_intermediate :: "certificate list \<Rightarrow> certificate option" where
  "last_intermediate [] = None"
| "last_intermediate (c # rest) =
     (if \<not> ce_IsCA c \<or> isSelfSignedCertificate c then last_intermediate rest else Some c)"

definition unverified :: "string \<Rightarrow> thumbprint_error + 'a" where
  "unverified what = Inl (ThumbprintUnverified (''oidc thumbprint chain unverified: '' @ what))"

text \<open>From the end of the chain.\<close>

definition selectTopIntermediateCACert :: "certificate list \<Rightarrow> thumbprint_error + certificate" where
  "selectTopIntermediateCACert chain =
     (if chain = [] then unverified ''verified chain is empty''
      else (case last_intermediate (rev chain) of
          None \<Rightarrow> unverified ''no top intermediate CA certificate in verified chain''
        | Some c \<Rightarrow> if ce_Raw c = '''' then unverified ''selected CA certificate has empty raw bytes'' else Inr c))"

definition JoinHostPort :: "string \<Rightarrow> string \<Rightarrow> string" where
  "JoinHostPort host port =
     (if CHR '':'' \<in> set host then ''['' @ host @ '']:'' @ port else host @ '':'' @ port)"

definition thumbprint_of :: "eks_env \<Rightarrow> string \<Rightarrow> certificate list \<Rightarrow> thumbprint_error + string list" where
  "thumbprint_of env host peerCerts =
     (case ee_verifyChain env host peerCerts of
        Inl e \<Rightarrow> unverified (''verify issuer certificate chain: '' @ err_text e)
      | Inr verified \<Rightarrow>
          let verifiedChain = selectLongestVerifiedChain verified in
          if verifiedChain = [] then unverified ''verified chains are empty''
          else map_sum id (\<lambda>c. [ToLower (sha1_hex (ce_Raw c))]) (selectTopIntermediateCACert verifiedChain))"

definition defaultResolveOIDCThumbprints :: "eks_env \<Rightarrow> string \<Rightarrow> (thumbprint_error + string list) eks_eff" where
  "defaultResolveOIDCThumbprints env issuerURL0 =
     (let issuerURL = TrimSpace issuerURL0; failed = (\<lambda>e. ret (Inl (ThumbprintError e))) in
      if issuerURL = '''' then failed (errorf ''issuer URL is empty'')
      else (case url_Parse (lib_ip_literal_error (ee_lib env)) issuerURL of
          Inl e \<Rightarrow> failed (wrapf ''parse issuer URL'' e)
        | Inr parsed \<Rightarrow>
            let host = TrimSpace (url_Hostname parsed); port0 = TrimSpace (url_Port parsed);
                port = (if port0 = '''' then ''443'' else port0); addr = JoinHostPort host port in
            if host = '''' then failed (errorf ''issuer URL host is empty'')
            else bind_eff (perform (Aws (DialTLS addr)) (\<lambda>h. (ee_dialTLS env h addr, ee_ctxError env h, ee_systemCertPool env h))) (\<lambda>(conn, done, roots).
              case conn of
                Inl e \<Rightarrow> failed (wrapf ''tls dial issuer'' e)
              | Inr peerCerts \<Rightarrow>
                  (case done of
                     Some e \<Rightarrow> failed e
                   | None \<Rightarrow>
                       if peerCerts = [] then failed (errorf ''issuer certificate chain is empty'')
                       else (case roots of
                           Inl e \<Rightarrow> ret (unverified (''load system cert pool: '' @ err_text e))
                         | Inr _ \<Rightarrow> ret (thumbprint_of env host peerCerts))))))"

definition resolveOIDCThumbprints :: "eks_env \<Rightarrow> cluster \<Rightarrow> string \<Rightarrow> (thumbprint_error + string list) eks_eff" where
  "resolveOIDCThumbprints env c issuerURL =
     (let v = TrimSpace (str_get (om_Annotations (cl_meta c)) oidcThumbprintAutoAnnotation) in
      if \<not> EqualFold v ''enabled'' \<and> \<not> EqualFold v ''true'' then ret (Inr [])
      else (case ee_resolveThumbprints env of
          Some f \<Rightarrow> perform (ResolveThumbprints issuerURL) (\<lambda>h. f h issuerURL)
        | None \<Rightarrow> defaultResolveOIDCThumbprints env issuerURL))"

section \<open>Which certificate is taken\<close>

lemma last_intermediate_split:
  "last_intermediate cs = Some c \<Longrightarrow>
   \<exists>pre post. cs = pre @ c # post \<and> ce_IsCA c \<and> \<not> isSelfSignedCertificate c \<and>
     list_all (\<lambda>d. \<not> ce_IsCA d \<or> isSelfSignedCertificate d) pre"
proof (induction cs)
  case (Cons d ds)
  show ?case
  proof (cases "\<not> ce_IsCA d \<or> isSelfSignedCertificate d")
    case True
    then obtain pre post where "ds = pre @ c # post" "ce_IsCA c" "\<not> isSelfSignedCertificate c"
      "list_all (\<lambda>d. \<not> ce_IsCA d \<or> isSelfSignedCertificate d) pre"
      using Cons by auto
    then show ?thesis using True by (intro exI [of _ "d # pre"] exI [of _ post]) auto
  next
    case False
    then show ?thesis using Cons.prems by (intro exI [of _ "[]"] exI [of _ ds]) auto
  qed
qed simp

lemma longest_chain:
  "verified \<noteq> [] \<Longrightarrow> selectLongestVerifiedChain verified \<in> set verified \<and>
   list_all (\<lambda>d. length d \<le> length (selectLongestVerifiedChain verified)) verified"
proof -
  have "fold (\<lambda>chain longest. if length chain > length longest then chain else longest) cs c \<in> set (c # cs) \<and>
    list_all (\<lambda>d. length d \<le> length (fold (\<lambda>chain longest. if length chain > length longest then chain else longest) cs c)) (c # cs)"
    for cs and c :: "certificate list"
    by (induction cs arbitrary: c) (fastforce simp: list_all_iff)+
  then show "verified \<noteq> [] \<Longrightarrow> ?thesis"
    by (cases verified) (auto simp: selectLongestVerifiedChain_def)
qed

text \<open>
  A thumbprint is only given for a chain that was verified: it is the SHA-1 of the last
  certificate of a longest verified chain that is a CA's and not self-signed, with nothing but
  roots and leaves after it.
\<close>

theorem thumbprint_of_top_intermediate:
  assumes "thumbprint_of env host peerCerts = Inr thumbprints"
  shows "\<exists>verified chain pre c post. ee_verifyChain env host peerCerts = Inr verified \<and>
    chain \<in> set verified \<and> list_all (\<lambda>d. length d \<le> length chain) verified \<and>
    chain = pre @ c # post \<and> ce_IsCA c \<and> \<not> isSelfSignedCertificate c \<and>
    list_all (\<lambda>d. \<not> ce_IsCA d \<or> isSelfSignedCertificate d) post \<and>
    thumbprints = [ToLower (sha1_hex (ce_Raw c))]"
proof -
  obtain verified where v: "ee_verifyChain env host peerCerts = Inr verified"
    using assms by (cases "ee_verifyChain env host peerCerts") (auto simp: thumbprint_of_def unverified_def)
  let ?chain = "selectLongestVerifiedChain verified"
  have chain: "?chain \<noteq> []" using assms v by (auto simp: thumbprint_of_def unverified_def)
  then have "verified \<noteq> []" by (auto simp: selectLongestVerifiedChain_def)
  note longest = longest_chain [OF this]
  obtain c where c: "last_intermediate (rev ?chain) = Some c" "thumbprints = [ToLower (sha1_hex (ce_Raw c))]"
    using assms v chain
    by (cases "last_intermediate (rev ?chain)")
      (auto simp: thumbprint_of_def Let_def selectTopIntermediateCACert_def unverified_def split: if_splits)
  obtain pre post where split: "rev ?chain = pre @ c # post" "ce_IsCA c" "\<not> isSelfSignedCertificate c"
    "list_all (\<lambda>d. \<not> ce_IsCA d \<or> isSelfSignedCertificate d) pre"
    using last_intermediate_split [OF c(1)] by blast
  have "?chain = rev post @ c # rev pre" using split(1) by (metis append.assoc append_Cons append_Nil rev.simps(2) rev_append rev_rev_ident)
  moreover have "list_all (\<lambda>d. \<not> ce_IsCA d \<or> isSelfSignedCertificate d) (rev pre)"
    using split(4) by (simp add: list_all_iff)
  ultimately show ?thesis using v longest split(2,3) c(2) by blast
qed

definition demo_chain :: "certificate list" where
  "demo_chain = [\<lparr>ce_IsCA = False, ce_Subject = ''leaf'', ce_Issuer = ''ca'', ce_Raw = ''l''\<rparr>,
     \<lparr>ce_IsCA = True, ce_Subject = ''ca'', ce_Issuer = ''root'', ce_Raw = ''c''\<rparr>,
     \<lparr>ce_IsCA = True, ce_Subject = ''root'', ce_Issuer = ''root'', ce_Raw = ''r''\<rparr>]"

theorem thumbprint_of_top_intermediate_witness:
  "\<exists>c. c \<in> set demo_chain \<and> ce_IsCA c \<and> \<not> isSelfSignedCertificate c \<and>
     thumbprint_of demo_eks_env ''host'' demo_chain = Inr [ToLower (sha1_hex (ce_Raw c))]"
proof -
  have t: "thumbprint_of demo_eks_env ''host'' demo_chain = Inr [ToLower (sha1_hex ''c'')]"
    by (simp add: thumbprint_of_def demo_eks_env_def selectLongestVerifiedChain_def selectTopIntermediateCACert_def
        demo_chain_def isSelfSignedCertificate_def)
  have v: "ee_verifyChain demo_eks_env ''host'' demo_chain = Inr [demo_chain]" by (simp add: demo_eks_env_def)
  from thumbprint_of_top_intermediate [OF t] obtain pre c post where
    "demo_chain = pre @ c # post" "ce_IsCA c" "\<not> isSelfSignedCertificate c" "[ToLower (sha1_hex ''c'')] = [ToLower (sha1_hex (ce_Raw c))]"
    by (auto simp: v)
  moreover from this(1) have "c \<in> set demo_chain" by (metis in_set_conv_decomp)
  ultimately show ?thesis using t by (intro exI [of _ c]) simp
qed

end
