(* ===== verification/Karpenter.thy ===== *)
theory Karpenter
  imports KarpResources
begin

text \<open>
  The reconciler of the Karpenter bootstrapper (\<open>karpenter_bootstrapper_controller.go\<close>), in
  the order of its phases: the deletion of a cluster, the inputs from the topology and the ACK
  cluster, the security group, the IAM resources, and what is delivered to the workload cluster.
\<close>

section \<open>The reconciler\<close>

definition kar_failureBackoff :: "karpenter \<Rightarrow> duration" where
  "kar_failureBackoff r = (if kr_FailureBackoff r = 0 then 30 * second else kr_FailureBackoff r)"

definition kar_steadyStateRequeue :: "karpenter \<Rightarrow> duration" where
  "kar_steadyStateRequeue r = (if kr_SteadyStateRequeue r = 0 then 10 * minute else kr_SteadyStateRequeue r)"

definition kar_isAPIAvailable :: "eks_env \<Rightarrow> gvk \<Rightarrow> bool" where
  "kar_isAPIAvailable env g = (case ee_restMapper env of None \<Rightarrow> True | Some known \<Rightarrow> known g)"

definition areAPIsAvailable :: "eks_env \<Rightarrow> gvk list \<Rightarrow> bool" where
  "areAPIsAvailable env gvks = list_all (kar_isAPIAvailable env) gvks"

definition isKarpenterEnabled :: "cluster \<Rightarrow> bool" where
  "isKarpenterEnabled c \<longleftrightarrow>
     EqualFold (TrimSpace (str_get (om_Labels (cl_meta c)) karpenterEnableLabelKey)) karpenterEnableLabelValue"

definition mapACKClusterToCAPIClustersForKarpenter :: "eks_env \<Rightarrow> obj_meta \<Rightarrow> object_key list eks_eff" where
  "mapACKClusterToCAPIClustersForKarpenter = mapACKClusterToCAPIClusters isKarpenterEnabled"

definition kar_now :: "eks_env \<Rightarrow> time eks_eff" where
  "kar_now env = perform EksNow (\<lambda>h. ee_now env h)"

definition kar_validateFargateSubnets :: "eks_env \<Rightarrow> string \<Rightarrow> string list \<Rightarrow> subnet_validation result eks_eff" where
  "kar_validateFargateSubnets env region nodeSubnetIDs =
     (case ee_validateSubnets env of
        Some f \<Rightarrow> perform (ValidateSubnets region nodeSubnetIDs) (\<lambda>h. f h region nodeSubnetIDs)
      | None \<Rightarrow> validateFargateSubnets env region nodeSubnetIDs)"

section \<open>The finalizer\<close>

definition patch_finalizers :: "eks_env \<Rightarrow> cluster \<Rightarrow> (obj_meta \<Rightarrow> obj_meta) \<Rightarrow> cluster result eks_eff" where
  "patch_finalizers env c f =
     (if om_Finalizers (f (cl_meta c)) = om_Finalizers (cl_meta c) then ret (Inr (set_meta f c))
      else patch_cluster env c (set_meta f c))"

definition ensureCleanupFinalizer :: "karpenter \<Rightarrow> eks_env \<Rightarrow> cluster \<Rightarrow> cluster result eks_eff" where
  "ensureCleanupFinalizer r env c =
     patch_finalizers env c (\<lambda>m. lib_AddFinalizer (ee_lib env) m (cleanupFinalizer r))"

definition removeCleanupFinalizer :: "karpenter \<Rightarrow> eks_env \<Rightarrow> cluster \<Rightarrow> cluster result eks_eff" where
  "removeCleanupFinalizer r env c =
     patch_finalizers env c (\<lambda>m. lib_RemoveFinalizer (ee_lib env) m (cleanupFinalizer r))"

section \<open>The deletion of a cluster\<close>

text \<open>A Flux resource of the bootstrapper is suspended; whether it was not before.\<close>

definition suspendFluxResource :: "eks_env \<Rightarrow> string \<Rightarrow> string \<Rightarrow> gvk \<Rightarrow> bool result eks_eff" where
  "suspendFluxResource env ns name g =
     bind_eff (eks_get env g (object_key ns name)) (\<lambda>got. case got of
       Inl e \<Rightarrow> ret (if is_not_found e \<or> isNoMatchError e then Inr False else Inl e)
     | Inr u \<Rightarrow>
         if \<not> isManagedByBootstrapper (om_Annotations (un_meta u)) then ret (Inr False)
         else if lib_NestedBool (ee_lib env) (un_Object u) [''spec'', ''suspend''] = Inr (True, True) then ret (Inr False)
         else (case popMutationError (mustSetNestedField (ee_lib env) (JBool True) [''spec'', ''suspend''] u) of
             Inl e \<Rightarrow> ret (Inl e)
           | Inr u' \<Rightarrow>
               if un_Object u' = un_Object u then ret (Inr False)
               else try_bind (eks_write env (EksPatch u u')) (\<lambda>_. ret (Inr True))))"

definition suspendFluxKarpenterOnDelete :: "eks_env \<Rightarrow> cluster \<Rightarrow> string \<Rightarrow> bool result eks_eff" where
  "suspendFluxKarpenterOnDelete env owner capiClusterName =
     (let name = capiClusterName @ ''-karpenter''; ns = om_Namespace (cl_meta owner) in
      try_bind (suspendFluxResource env ns name fluxOCIRepositoryGVK) (\<lambda>oci.
      try_bind (suspendFluxResource env ns name fluxHelmReleaseGVK) (\<lambda>hr.
        ret (Inr (oci \<or> hr)))))"

text \<open>The region and the EKS name the rotator left in the kubeconfig Secret, if there is one.\<close>

definition readWorkloadKubeconfigMetadata :: "eks_env \<Rightarrow> string \<Rightarrow> string \<Rightarrow> (string \<times> string) option result eks_eff" where
  "readWorkloadKubeconfigMetadata env ns capiClusterName =
     (case SecretName capiClusterName of
        Inl e \<Rightarrow> ret (Inl e)
      | Inr secretName \<Rightarrow>
          bind_eff (perform (EksGetSecret (object_key ns secretName)) (\<lambda>h. ee_getSecret env h (object_key ns secretName))) (\<lambda>got. case got of
            Inl e \<Rightarrow> ret (if is_not_found e then Inr None else Inl e)
          | Inr s \<Rightarrow> ret (Inr (Some (TrimSpace (str_get (om_Annotations (se_meta s)) RegionAnnotationKey),
              TrimSpace (str_get (om_Annotations (se_meta s)) EKSClusterNameAnnotationKey))))))"

text \<open>The region and the EKS name of a cluster that is going away.\<close>

definition deletion_names :: "eks_env \<Rightarrow> cluster \<Rightarrow> string \<Rightarrow> string \<Rightarrow> string \<Rightarrow> (string \<times> string) eks_eff" where
  "deletion_names env c capiClusterName eksClusterName ackClusterName =
     (let ns = om_Namespace (cl_meta c); region = resolveRegion (ee_lib env) c None in
      bind_eff (if TrimSpace region \<noteq> '''' then ret (region, eksClusterName)
        else bind_eff (readWorkloadKubeconfigMetadata env ns capiClusterName) (\<lambda>got. case got of
            Inr (Some (secretRegion, secretEKSName)) \<Rightarrow>
              ret (secretRegion, if TrimSpace eksClusterName = '''' then secretEKSName else eksClusterName)
          | _ \<Rightarrow> ret (region, eksClusterName))) (\<lambda>(region1, eks1).
      if TrimSpace region1 = '''' \<and> TrimSpace ackClusterName \<noteq> '''' then
        bind_eff (eks_get env ackClusterGVK (object_key ns ackClusterName)) (\<lambda>ack. case ack of
          Inl _ \<Rightarrow> ret (region1, eks1)
        | Inr u \<Rightarrow> ret (resolveRegion (ee_lib env) c (Some u), eks1))
      else ret (region1, eks1)))"

text \<open>At most three attempts; whether nothing was left at the last one.\<close>

fun terminate_attempts :: "eks_env \<Rightarrow> string \<Rightarrow> string \<Rightarrow> nat \<Rightarrow> bool result eks_eff" where
  "terminate_attempts env region name 0 = ret (Inr False)"
| "terminate_attempts env region name (Suc left) =
     try_bind (cleanupKarpenterEC2Instances env region name) (\<lambda>(done, toTerminate, _).
       if done \<or> toTerminate = 0 then ret (Inr done)
       else bind_eff (when_eff (0 < left) (emit (Aws (SleepSeconds 5)))) (\<lambda>_.
         terminate_attempts env region name left))"

text \<open>Whether the finalizer may be removed, or else when to look again.\<close>

definition clean_interfaces :: "karpenter \<Rightarrow> eks_env \<Rightarrow> cluster \<Rightarrow> string \<Rightarrow> (ctrl_result \<times> bool) eks_eff" where
  "clean_interfaces r env c region =
     (let again = ret (requeue_in (kar_failureBackoff r), False) in
      bind_eff (cleanupOrphanCNINetworkInterfacesForNodeSecurityGroup env c region) (\<lambda>got. case got of
        Inl e \<Rightarrow> bind_eff (karpenter_event env c EventTypeWarning ''OrphanENICleanup''
          (''failed to cleanup orphan ENIs for node SecurityGroup; cause: SG deletion may be stuck with DependencyViolation. action: ensure bootstrapper has ec2:DescribeNetworkInterfaces/ec2:DeleteNetworkInterface, or follow break-glass docs. error='' @ err_text e)) (\<lambda>_. again)
      | Inr (done, deleted, remaining) \<Rightarrow>
          if \<not> done then bind_eff (karpenter_event env c EventTypeNormal ''OrphanENICleanup''
            (if deleted > 0 then ''deleted '' @ show_nat deleted @ '' orphan ENIs (remaining='' @ show_nat remaining @ ''); waiting for ENI disappearance''
             else ''orphan ENIs still present (count='' @ show_nat remaining @ ''); waiting for ENI cleanup'')) (\<lambda>_. again)
          else bind_eff (when_eff (deleted > 0) (karpenter_event env c EventTypeNormal ''OrphanENICleanup''
            (''deleted '' @ show_nat deleted @ '' orphan ENIs for node SecurityGroup''))) (\<lambda>_.
            ret (no_requeue, True))))"

definition reconcileDeletingCluster ::
    "(kube_config \<Rightarrow> string result) \<Rightarrow> karpenter \<Rightarrow> eks_env \<Rightarrow> cluster \<Rightarrow> string \<Rightarrow> string \<Rightarrow> string \<Rightarrow> (ctrl_result \<times> bool) eks_eff" where
  "reconcileDeletingCluster write r env c capiClusterName eksClusterName0 ackClusterName =
     (let again = ret (requeue_in (kar_failureBackoff r), False) in
      bind_eff (suspendFluxKarpenterOnDelete env c capiClusterName) (\<lambda>suspended. case suspended of
        Inl e \<Rightarrow> again
      | Inr changed \<Rightarrow>
      bind_eff (when_eff changed (karpenter_event env c EventTypeNormal ''FluxSuspendedForDeletion''
        ''suspended Flux OCIRepository/HelmRelease for cluster deletion'')) (\<lambda>_.
      bind_eff (deletion_names env c capiClusterName eksClusterName0 ackClusterName) (\<lambda>(region, eksClusterName).
      bind_eff (stopWorkloadKarpenterProvisioning write r env c capiClusterName region eksClusterName ackClusterName) (\<lambda>_.
      if TrimSpace region = '''' then ret (no_requeue, True)
      else if TrimSpace eksClusterName = '''' then ret (no_requeue, True)
      else bind_eff (terminate_attempts env region eksClusterName 3) (\<lambda>terminated. case terminated of
          Inl e \<Rightarrow> again
        | Inr False \<Rightarrow> again
        | Inr True \<Rightarrow> clean_interfaces r env c region))))))"

section \<open>The inputs of a cluster\<close>

definition topologyNodeSubnetIDsVariableName :: string where
  "topologyNodeSubnetIDsVariableName = ''vpc-node-subnet-ids''"
definition topologyControlPlaneSecurityGroupIDsVariableName :: string where
  "topologyControlPlaneSecurityGroupIDsVariableName = ''vpc-security-group-ids''"
definition topologyNodeSecurityGroupIDsVariableName :: string where
  "topologyNodeSecurityGroupIDsVariableName = ''vpc-node-security-group-ids''"
definition topologyNodeRoleAdditionalPolicyARNsVariableName :: string where
  "topologyNodeRoleAdditionalPolicyARNsVariableName = ''karpenter-node-role-additional-policy-arns''"
definition topologyNodeRoleAdditionalInlinePoliciesVariableName :: string where
  "topologyNodeRoleAdditionalInlinePoliciesVariableName = ''karpenter-node-role-additional-inline-policies''"
definition topologyKarpenterNodeIMDSHopLimitVariableName :: string where
  "topologyKarpenterNodeIMDSHopLimitVariableName = ''karpenter-node-imds-hop-limit''"

text \<open>A warning or message and another try after the backoff; an object of somebody else.\<close>

definition kar_backoff :: "karpenter \<Rightarrow> eks_env \<Rightarrow> cluster \<Rightarrow> string \<Rightarrow> string \<Rightarrow> string \<Rightarrow> ctrl_result result eks_eff" where
  "kar_backoff r env c eventType reason msg =
     bind_eff (karpenter_event env c eventType reason msg) (\<lambda>_. ret (Inr (requeue_in (kar_failureBackoff r))))"

definition kar_conflict :: "karpenter \<Rightarrow> eks_env \<Rightarrow> cluster \<Rightarrow> string \<Rightarrow> string \<Rightarrow> ctrl_result result eks_eff" where
  "kar_conflict r env c kind msg =
     bind_eff (karpenter_event env c EventTypeWarning ''ResourceOwnershipConflict'' msg) (\<lambda>_.
     bind_eff (emit (RecordOwnershipConflict metricControllerBootstrapper kind)) (\<lambda>_.
       ret (Inr (requeue_in (kar_steadyStateRequeue r)))))"

text \<open>A resource, and the rest of the run if it is ours.\<close>

definition kar_step ::
    "karpenter \<Rightarrow> eks_env \<Rightarrow> cluster \<Rightarrow> string \<Rightarrow> string \<Rightarrow> string \<Rightarrow> bool result eks_eff \<Rightarrow> ctrl_result result eks_eff \<Rightarrow>
     ctrl_result result eks_eff" where
  "kar_step r env c kind what name ensure rest =
     try_bind ensure (\<lambda>ok.
       if \<not> ok then kar_conflict r env c kind (what @ '' '' @ om_Namespace (cl_meta c) @ ''/'' @ name @
         '' exists and is not managed by '' @ karpenterManagedByValue)
       else rest)"

text \<open>What the topology gives, or the event that says what is wrong with it.\<close>

record kar_inputs =
  ki_NodeSubnetIDs :: "string list"
  ki_ControlPlaneSecurityGroupIDs :: "string list"
  ki_NodeSecurityGroupIDs :: "string list"
  ki_HopLimit :: int

definition topology_missing_message :: string where
  "topology_missing_message = ''Cluster.spec.topology is required; cause: BYO bootstrap needs topology variable '' @
     quote topologyNodeSubnetIDsVariableName @ '' (required); '' @ quote topologyNodeSecurityGroupIDsVariableName @
     '' and '' @ quote topologyControlPlaneSecurityGroupIDsVariableName @
     '' are optional (bootstrapper creates/patches security groups when they are empty). action: set Cluster.spec.topology.variables before enabling karpenter bootstrap''"

definition subnets_missing_message :: string where
  "subnets_missing_message = ''missing/invalid topology variable '' @ quote topologyNodeSubnetIDsVariableName @
     ''; cause: karpenter Fargate + NodePool require at least one private subnet ID. action: set Cluster.spec.topology.variables['' @
     quote topologyNodeSubnetIDsVariableName @
     ''] to private subnet IDs (NAT egress or VPC endpoints recommended for image pulls; >=2 across >=2 AZs recommended for HA)''"

definition hop_limit_message :: "int \<Rightarrow> string" where
  "hop_limit_message hopLimit = ''invalid topology variable '' @ quote topologyKarpenterNodeIMDSHopLimitVariableName @ '': '' @
     show_int hopLimit @
     ''; cause: EC2 metadataOptions.httpPutResponseHopLimit must be between 1 and 64. action: set '' @
     quote topologyKarpenterNodeIMDSHopLimitVariableName @ '' to an integer in [1,64] or remove it to use Karpenter defaults''"

definition kar_read_inputs :: "cluster \<Rightarrow> ((string \<times> string) + kar_inputs) result" where
  "kar_read_inputs c =
     (if cl_Topology c = None then Inr (Inl (''TopologyMissing'', topology_missing_message))
      else (case readTopologyStringSlice c topologyNodeSubnetIDsVariableName of
          Inl e \<Rightarrow> Inl e
        | Inr (subnets0, found) \<Rightarrow>
            let subnets = normalizeDistinctStrings subnets0 in
            if \<not> found \<or> subnets = [] then Inr (Inl (''TopologyVariableMissing'', subnets_missing_message))
            else (case readTopologyStringSlice c topologyControlPlaneSecurityGroupIDsVariableName of
                Inl e \<Rightarrow> Inl e
              | Inr (cp0, _) \<Rightarrow>
                  let cp = normalizeDistinctStrings cp0 in
                  (case readTopologyStringSlice c topologyNodeSecurityGroupIDsVariableName of
                     Inl e \<Rightarrow> Inl e
                   | Inr (node0, foundNode) \<Rightarrow>
                       let node = (if foundNode then normalizeDistinctStrings node0 else cp) in
                       (case readTopologyInt64 c topologyKarpenterNodeIMDSHopLimitVariableName of
                          Inl e \<Rightarrow> Inl e
                        | Inr (hop, foundHop) \<Rightarrow>
                            if foundHop \<and> (hop < 1 \<or> hop > 64)
                            then Inr (Inl (''TopologyVariableMissing'', hop_limit_message hop))
                            else Inr (Inr \<lparr>ki_NodeSubnetIDs = subnets, ki_ControlPlaneSecurityGroupIDs = cp,
                              ki_NodeSecurityGroupIDs = node, ki_HopLimit = (if foundHop then hop else 0)\<rparr>))))))"

definition required_apis :: "kar_inputs \<Rightarrow> gvk list" where
  "required_apis i =
     [ackClusterGVK, ackOIDCProviderGVK, ackIAMPolicyGVK, ackIAMRoleGVK, ackIAMInstanceProfileGVK, ackAccessEntryGVK,
      ackFargateProfileGVK] @ (if ki_NodeSecurityGroupIDs i = [] then [ackSecurityGroupGVK] else [])"

text \<open>What the ACK cluster gives; \<open>Left\<close> is the type, reason and text of the event to wait with.\<close>

record kar_cluster =
  kc_Endpoint :: string
  kc_IssuerURL :: string
  kc_AccountID :: string
  kc_Region :: string

definition auth_mode_missing_message :: "string \<Rightarrow> string" where
  "auth_mode_missing_message here = ''waiting for ACK EKS Cluster spec.accessConfig.authenticationMode on '' @ here @
     ''; cause: AccessEntry-based node join requires '' @ quote ''API_AND_CONFIG_MAP'' @
     ''. action: set /spec/accessConfig/authenticationMode='' @ quote ''API_AND_CONFIG_MAP''"

definition auth_mode_mismatch_message :: "string \<Rightarrow> string \<Rightarrow> string" where
  "auth_mode_mismatch_message here authMode = ''EKS accessConfig.authenticationMode mismatch on '' @ here @
     ''; cause: AccessEntry-based node join requires '' @ quote ''API_AND_CONFIG_MAP'' @ '' (got '' @ quote authMode @
     ''). action: update ACK EKS Cluster /spec/accessConfig/authenticationMode='' @ quote ''API_AND_CONFIG_MAP''"

definition region_message :: string where
  "region_message = ''failed to resolve region (checked '' @ quote RegionAnnotationKey @
     '' annotation, ACK status.ackResourceMetadata.region, ACK metadata.annotations['' @
     quote ACKRegionMetadataAnnotationKey @ ''])''"

definition kar_read_ack ::
    "apilib \<Rightarrow> cluster \<Rightarrow> string \<Rightarrow> unstructured \<Rightarrow> (string \<times> string \<times> string) + kar_cluster" where
  "kar_read_ack lib c ackClusterName ack =
     (let read = (\<lambda>path. readNestedString lib (un_Object ack) path);
          endpoint = fst (read [''status'', ''endpoint'']);
          issuerURL = fst (read [''status'', ''identity'', ''oidc'', ''issuer'']);
          accountID = fst (read [''status'', ''ackResourceMetadata'', ''ownerAccountID'']);
          clusterStatus = fst (read [''status'', ''status'']);
          (authMode, found) = read [''spec'', ''accessConfig'', ''authenticationMode''];
          region = resolveRegion lib c (Some ack);
          here = om_Namespace (cl_meta c) @ ''/'' @ ackClusterName
      in if endpoint = '''' \<or> issuerURL = '''' \<or> accountID = '''' then
           Inl (EventTypeNormal, ''ACKClusterNotReady'',
             ''waiting for ACK EKS status fields endpoint/identity.oidc.issuer/ownerAccountID on '' @ here)
         else if \<not> EqualFold clusterStatus ''ACTIVE'' then
           Inl (EventTypeNormal, ''ACKClusterNotReady'', ''waiting for ACK EKS Cluster status.status to become ACTIVE (current='' @
             quote clusterStatus @ '') on '' @ here)
         else if \<not> found then Inl (EventTypeWarning, ''AWSPrerequisitesNotReady'', auth_mode_missing_message here)
         else if authMode \<noteq> ''API_AND_CONFIG_MAP'' then
           Inl (EventTypeWarning, ''AWSPrerequisitesNotReady'', auth_mode_mismatch_message here authMode)
         else if region = '''' then Inl (EventTypeWarning, ''RegionNotResolved'', region_message)
         else Inr \<lparr>kc_Endpoint = endpoint, kc_IssuerURL = issuerURL, kc_AccountID = accountID, kc_Region = region\<rparr>)"

section \<open>The security group and the thumbprint\<close>

text \<open>The names of the cluster in the Cluster API, in EKS and of the ACK object, read at the start.\<close>

record kar_names =
  kn_capi :: string
  kn_eks :: string
  kn_ack :: string

definition patched_message :: "string \<Rightarrow> string \<Rightarrow> string" where
  "patched_message variableName i =
     ''patched Cluster.spec.topology.variables['' @ quote variableName @ ''] with '' @ quote i"

definition kar_inject_group ::
    "karpenter \<Rightarrow> eks_env \<Rightarrow> cluster \<Rightarrow> kar_inputs \<Rightarrow> string \<Rightarrow> (cluster \<Rightarrow> ctrl_result result eks_eff) \<Rightarrow>
     ctrl_result result eks_eff" where
  "kar_inject_group r env c i sgid rest =
     try_bind (ensureTopologyStringSliceVariable env c topologyNodeSecurityGroupIDsVariableName [sgid]) (\<lambda>(c1, patchedNode).
     try_bind (if ki_ControlPlaneSecurityGroupIDs i = []
         then ensureTopologyStringSliceVariable env c1 topologyControlPlaneSecurityGroupIDsVariableName [sgid]
         else ret (Inr (c1, False))) (\<lambda>(c2, patchedControlPlane).
     bind_eff (when_eff patchedNode (karpenter_event env c2 EventTypeNormal ''TopologyVariablePatched''
       (patched_message topologyNodeSecurityGroupIDsVariableName sgid))) (\<lambda>_.
     bind_eff (when_eff patchedControlPlane (karpenter_event env c2 EventTypeNormal ''TopologyVariablePatched''
       (patched_message topologyControlPlaneSecurityGroupIDsVariableName sgid))) (\<lambda>_.
     if patchedNode \<or> patchedControlPlane then ret (Inr (requeue_in (kar_failureBackoff r))) else rest c2))))"

text \<open>\<open>rest\<close> gets the cluster, the groups of the nodes and the time to the next run.\<close>

definition kar_security_group ::
    "karpenter \<Rightarrow> eks_env \<Rightarrow> cluster \<Rightarrow> kar_names \<Rightarrow> kar_inputs \<Rightarrow> string \<Rightarrow> duration \<Rightarrow>
     (cluster \<Rightarrow> string list \<Rightarrow> duration \<Rightarrow> ctrl_result result eks_eff) \<Rightarrow> ctrl_result result eks_eff" where
  "kar_security_group r env c n i region requeueAfter rest =
     (if ki_NodeSecurityGroupIDs i \<noteq> [] then rest c (ki_NodeSecurityGroupIDs i) requeueAfter
      else bind_eff (ensureNodeSecurityGroup env c region (kn_eks n) (ki_NodeSubnetIDs i)) (\<lambda>got. case got of
          Inl e \<Rightarrow> kar_backoff r env c EventTypeWarning ''AWSPrerequisitesNotReady''
            (''failed to reconcile node SecurityGroup: '' @ err_text e)
        | Inr (sgid, managed) \<Rightarrow>
            if \<not> managed then kar_conflict r env c ''SecurityGroup''
              (''node SecurityGroup exists and is not managed by '' @ karpenterManagedByValue)
            else if sgid = '''' then
              bind_eff (karpenter_event env c EventTypeNormal ''NodeSecurityGroupNotReady''
                ''waiting for node SecurityGroup to be created (status.id is empty)'') (\<lambda>_.
                rest c [] (kar_failureBackoff r))
            else kar_inject_group r env c i sgid (\<lambda>c'. rest c' [sgid] requeueAfter)))"

definition kar_thumbprints ::
    "karpenter \<Rightarrow> eks_env \<Rightarrow> cluster \<Rightarrow> string \<Rightarrow> (string list \<Rightarrow> ctrl_result result eks_eff) \<Rightarrow> ctrl_result result eks_eff" where
  "kar_thumbprints r env c issuerURL rest =
     bind_eff (resolveOIDCThumbprints env c issuerURL) (\<lambda>got. case got of
       Inr thumbprints \<Rightarrow> rest thumbprints
     | Inl (ThumbprintUnverified msg) \<Rightarrow>
         bind_eff (karpenter_event env c EventTypeWarning ''OIDCThumbprintSkipped''
           (''skipped OIDC thumbprint auto-setting: '' @ msg @ ''; continuing without spec.thumbprints. action: ensure issuer certificate chain is verifiable or disable '' @
            quote oidcThumbprintAutoAnnotation @ '' annotation'')) (\<lambda>_. rest [])
     | Inl (ThumbprintError e) \<Rightarrow>
         kar_backoff r env c EventTypeWarning ''AWSPrerequisitesNotReady''
           (''failed to resolve OIDC thumbprint: '' @ err_text e @ ''; action: fix issuer reachability or disable '' @
            quote oidcThumbprintAutoAnnotation @ '' annotation''))"

section \<open>The IAM resources\<close>

definition controller_role_aws_name :: "kar_names \<Rightarrow> string" where
  "controller_role_aws_name n = aws_name (kn_eks n @ ''-karpenter-controller'') 64"

definition node_role_aws_name :: "kar_names \<Rightarrow> string" where
  "node_role_aws_name n = aws_name (kn_eks n @ ''-node'') 64"

definition iam_role_arn :: "string \<Rightarrow> string \<Rightarrow> string" where
  "iam_role_arn accountID name = ''arn:aws:iam::'' @ accountID @ '':role/'' @ name"

definition node_managed_policies :: "string list" where
  "node_managed_policies =
     [''arn:aws:iam::aws:policy/AmazonEKSWorkerNodePolicy'', ''arn:aws:iam::aws:policy/AmazonEKS_CNI_Policy'',
      ''arn:aws:iam::aws:policy/AmazonEC2ContainerRegistryReadOnly'']"

definition kar_node_role ::
    "karpenter \<Rightarrow> eks_env \<Rightarrow> cluster \<Rightarrow> kar_names \<Rightarrow> kar_cluster \<Rightarrow> ctrl_result result eks_eff \<Rightarrow> ctrl_result result eks_eff" where
  "kar_node_role r env c n k rest =
     (case readTopologyStringSlice c topologyNodeRoleAdditionalPolicyARNsVariableName of
        Inl e \<Rightarrow> ret (Inl e)
      | Inr (arns, _) \<Rightarrow>
          (case readTopologyStringMap c topologyNodeRoleAdditionalInlinePoliciesVariableName of
             Inl e \<Rightarrow> ret (Inl e)
           | Inr (inline, _) \<Rightarrow>
               let name = kn_capi n @ ''-karpenter-node'' in
               kar_step r env c ''Role'' ''IAM Role'' name
                 (ensureIAMRoleForEC2 env c name (kc_Region k) (node_role_aws_name n)
                   (normalizeDistinctStrings (node_managed_policies @ arns)) inline) rest))"

definition kar_resources ::
    "karpenter \<Rightarrow> eks_env \<Rightarrow> cluster \<Rightarrow> kar_names \<Rightarrow> kar_cluster \<Rightarrow> string \<Rightarrow> string list \<Rightarrow> ctrl_result result eks_eff \<Rightarrow>
     ctrl_result result eks_eff" where
  "kar_resources r env c n k issuerHostPath thumbprints rest =
     (let region = kc_Region k; capi = kn_capi n;
          oidcProviderARN = ''arn:aws:iam::'' @ kc_AccountID k @ '':oidc-provider/'' @ issuerHostPath;
          oidcName = capi @ ''-oidc-provider'';
          policyName = capi @ ''-karpenter-controller-policy'';
          controllerName = capi @ ''-karpenter-controller'';
          nodeName = capi @ ''-karpenter-node'';
          profileName = capi @ ''-karpenter-node-instance-profile'';
          nodeRoleARN = iam_role_arn (kc_AccountID k) (node_role_aws_name n);
          policyDoc = buildKarpenterControllerPolicyDocument region (kc_AccountID k) (kn_eks n) nodeRoleARN;
          assumePolicy = buildKarpenterControllerAssumeRolePolicyDocument oidcProviderARN issuerHostPath
      in kar_step r env c ''OpenIDConnectProvider'' ''OIDC provider'' oidcName
           (ensureOIDCProvider env c oidcName region (kc_IssuerURL k) thumbprints)
         (kar_step r env c ''Policy'' ''IAM Policy'' policyName
           (ensureIAMPolicy env c policyName region policyDoc (aws_name (kn_eks n @ ''-karpenter-controller'') 128))
         (kar_step r env c ''Role'' ''IAM Role'' controllerName
           (ensureIAMRoleForIRSA env c controllerName region (controller_role_aws_name n) assumePolicy [policyName])
         (kar_node_role r env c n k
         (kar_step r env c ''InstanceProfile'' ''IAM InstanceProfile'' profileName
           (ensureIAMInstanceProfile env c profileName region (aws_name (kn_eks n @ ''-node'') 128) nodeName)
         (kar_step r env c ''AccessEntry'' ''AccessEntry'' nodeName
           (ensureAccessEntry env c nodeName region (kn_ack n) nodeRoleARN) rest))))))"

section \<open>What is delivered to the workload cluster\<close>

definition fargate_waiting_message :: "cluster \<Rightarrow> string \<Rightarrow> string \<Rightarrow> string" where
  "fargate_waiting_message c karpenterName corednsName =
     ''waiting for ClusterClass RGD to provision FargateProfile '' @ quote karpenterName @ ''/'' @ quote corednsName @
     '' on '' @ om_Namespace (cl_meta c) @ ''/'' @ om_Name (cl_meta c) @
     ''; cause: kany8s-eks-byo ClusterClass owns FargateProfile lifecycle. action: check ResourceGraphDefinition + ACK eks-controller logs if this persists''"

definition flux_crd_message :: string where
  "flux_crd_message = ''Flux (source-controller/helm-controller) is not installed in the management cluster; cause: Karpenter HelmRelease cannot be reconciled. action: install Flux source-controller + helm-controller or remove the karpenter label''"

text \<open>Whether the chart is installed, and the time to the next run.\<close>

definition kar_flux ::
    "karpenter \<Rightarrow> eks_env \<Rightarrow> cluster \<Rightarrow> kar_names \<Rightarrow> doc \<Rightarrow> duration \<Rightarrow> (bool \<times> duration) result eks_eff" where
  "kar_flux r env c n helmValues requeueAfter =
     (if \<not> areAPIsAvailable env [fluxOCIRepositoryGVK, fluxHelmReleaseGVK] then ret (Inr (False, requeueAfter))
      else bind_eff (ensureFluxKarpenter env c (kn_capi n) (resolveKarpenterChartTag r c) helmValues) (\<lambda>got. case got of
          Inr installed \<Rightarrow> ret (Inr (installed, requeueAfter))
        | Inl e \<Rightarrow>
            if isNoMatchError e then
              bind_eff (karpenter_event env c EventTypeWarning ''FluxNotInstalled'' flux_crd_message) (\<lambda>_.
                ret (Inr (False, kar_failureBackoff r)))
            else ret (Inl e)))"

definition template_message :: "string \<Rightarrow> string" where
  "template_message msg = ''invalid NodePool template: '' @ msg @ ''; action: fix ConfigMap referenced by '' @
     quote karpenterNodePoolTemplateConfigMapAnnotation @ ''/'' @ quote karpenterNodePoolTemplateConfigMapKeyAnnotation @
     '' or remove the annotation to use defaults''"

definition kar_node_pool ::
    "karpenter \<Rightarrow> eks_env \<Rightarrow> cluster \<Rightarrow> kar_names \<Rightarrow> kar_inputs \<Rightarrow> string list \<Rightarrow> ctrl_result result eks_eff \<Rightarrow>
     ctrl_result result eks_eff" where
  "kar_node_pool r env c n i groups rest =
     (if groups = [] then rest
      else bind_eff (ensureDefaultNodePoolResources env c (kn_capi n) (kn_eks n) (aws_name (kn_eks n @ ''-node'') 128)
          (ki_NodeSubnetIDs i) groups (ki_HopLimit i)) (\<lambda>got. case got of
          Inr _ \<Rightarrow> rest
        | Inl (TemplateInvalid msg) \<Rightarrow>
            kar_backoff r env c EventTypeWarning ''NodePoolTemplateInvalid'' (template_message msg)
        | Inl (NodePoolError e) \<Rightarrow> ret (Inl e)))"

definition kar_finish ::
    "karpenter \<Rightarrow> eks_env \<Rightarrow> cluster \<Rightarrow> kar_names \<Rightarrow> bool \<Rightarrow> bool \<Rightarrow> bool \<Rightarrow> duration \<Rightarrow> ctrl_result result eks_eff" where
  "kar_finish r env c n corednsActive karpenterActive fluxInstalled requeueAfter0 =
     bind_eff (ensureWorkloadRolloutRestarts env c (kn_capi n) corednsActive karpenterActive fluxInstalled) (\<lambda>got.
     let requeueAfter = (case got of Inl _ \<Rightarrow> kar_failureBackoff r
           | Inr (_, needs) \<Rightarrow> if needs then kar_failureBackoff r else requeueAfter0) in
     bind_eff (when_eff (requeueAfter = kar_steadyStateRequeue r)
       (karpenter_event env c EventTypeNormal ''BootstrapperReconciled'' ''karpenter bootstrap resources reconciled'')) (\<lambda>_.
     bind_eff (kar_now env) (\<lambda>now.
     bind_eff (emit (RecordSuccessfulSync metricControllerBootstrapper now)) (\<lambda>_.
       ret (Inr (requeue_in requeueAfter))))))"

definition values_message :: "string \<Rightarrow> string" where
  "values_message msg = ''invalid '' @ quote karpenterHelmValuesAnnotation @ '' annotation: '' @ msg @
     ''; cause: override must be a JSON object. action: set valid JSON or remove the annotation''"

definition kar_deliver ::
    "karpenter \<Rightarrow> eks_env \<Rightarrow> cluster \<Rightarrow> kar_names \<Rightarrow> kar_inputs \<Rightarrow> kar_cluster \<Rightarrow> string list \<Rightarrow> duration \<Rightarrow>
     ctrl_result result eks_eff" where
  "kar_deliver r env c n i k groups requeueAfter0 =
     (let ns = om_Namespace (cl_meta c); base = safeFargateProfileBaseName (kn_capi n);
          karpenterName = base @ ''-karpenter''; corednsName = base @ ''-coredns'';
          roleARN = iam_role_arn (kc_AccountID k) (controller_role_aws_name n) in
      try_bind (isACKFargateProfileActive env ns karpenterName) (\<lambda>karpenterActive.
      try_bind (isACKFargateProfileActive env ns corednsName) (\<lambda>corednsActive.
      let waiting = (\<not> karpenterActive \<or> \<not> corednsActive);
          requeueAfter = (if waiting then kar_failureBackoff r else requeueAfter0) in
      bind_eff (when_eff waiting (karpenter_event env c EventTypeWarning ''AWSPrerequisitesNotReady''
        (fargate_waiting_message c karpenterName corednsName))) (\<lambda>_.
      case resolveKarpenterHelmValues r (ee_lib env) c (kn_eks n) (kc_Endpoint k) roleARN of
        Inl e \<Rightarrow> kar_backoff r env c EventTypeWarning ''KarpenterValuesInvalid'' (values_message (err_text e))
      | Inr helmValues \<Rightarrow>
          try_bind (kar_flux r env c n helmValues requeueAfter) (\<lambda>(fluxInstalled, requeueAfter').
          kar_node_pool r env c n i groups
            (kar_finish r env c n corednsActive karpenterActive fluxInstalled requeueAfter'))))))"

section \<open>Reconcile\<close>

definition no_nat_message :: "string list \<Rightarrow> string" where
  "no_nat_message subnets = ''subnets '' @ show_strings subnets @
     '' have no default route via NAT gateway/instance; cause: image pulls on Fargate/Karpenter may fail without egress. action: add NAT route or VPC endpoints (ecr.api,ecr.dkr,s3,sts,logs)''"

definition single_az_message :: "nat \<Rightarrow> string" where
  "single_az_message zones = ''node subnets span only '' @ show_nat zones @
     '' AZ; cause: karpenter Fargate + NodePool become single-AZ and lose HA. action: add private+NAT subnets in additional AZs to Cluster.spec.topology.variables['' @
     quote topologyNodeSubnetIDsVariableName @ '']''"

definition subnets_invalid_message :: "string \<Rightarrow> string" where
  "subnets_invalid_message msg = ''invalid topology variable '' @ quote topologyNodeSubnetIDsVariableName @ '': '' @ msg @
     ''; cause: EKS FargateProfile requires private subnets in one VPC. action: pass private subnet IDs in Cluster.spec.topology.variables['' @
     quote topologyNodeSubnetIDsVariableName @
     '']; ensure NAT egress or VPC endpoints (ecr.api,ecr.dkr,s3,sts,logs) for image pulls''"

definition flux_missing_message :: string where
  "flux_missing_message = ''Flux APIs (source.toolkit.fluxcd.io/v1beta2 OCIRepository, helm.toolkit.fluxcd.io/v2 HelmRelease) are not available; cause: required CRD/controller is missing. action: install Flux source-controller + helm-controller''"

definition crs_missing_message :: string where
  "crs_missing_message = ''ClusterResourceSet API (addons.cluster.x-k8s.io/v1beta2) is not available; cause: default NodePool/EC2NodeClass distribution cannot be reconciled. action: install CAPI addons components with ClusterResourceSet CRD''"

text \<open>The resources, once the subnets are valid.\<close>

definition kar_bootstrap ::
    "karpenter \<Rightarrow> eks_env \<Rightarrow> cluster \<Rightarrow> kar_names \<Rightarrow> kar_inputs \<Rightarrow> kar_cluster \<Rightarrow> ctrl_result result eks_eff" where
  "kar_bootstrap r env c0 n i k =
     (let flux = areAPIsAvailable env [fluxOCIRepositoryGVK, fluxHelmReleaseGVK];
          crs = kar_isAPIAvailable env clusterResourceSetGVK;
          requeueAfter = (if flux \<and> crs then kar_steadyStateRequeue r else kar_failureBackoff r) in
      bind_eff (when_eff (\<not> flux) (karpenter_event env c0 EventTypeWarning ''FluxNotInstalled'' flux_missing_message)) (\<lambda>_.
      bind_eff (when_eff (\<not> crs) (karpenter_event env c0 EventTypeWarning ''PrerequisiteAPIMissing'' crs_missing_message)) (\<lambda>_.
      kar_security_group r env c0 n i (kc_Region k) requeueAfter (\<lambda>c groups requeueAfter'.
        case normalizeIssuerHostPath (ee_lib env) (kc_IssuerURL k) of
          Inl e \<Rightarrow> ret (Inl e)
        | Inr issuerHostPath \<Rightarrow>
            kar_thumbprints r env c (kc_IssuerURL k) (\<lambda>thumbprints.
              kar_resources r env c n k issuerHostPath thumbprints (kar_deliver r env c n i k groups requeueAfter'))))))"

definition kar_subnets ::
    "karpenter \<Rightarrow> eks_env \<Rightarrow> cluster \<Rightarrow> kar_names \<Rightarrow> kar_inputs \<Rightarrow> kar_cluster \<Rightarrow> ctrl_result result eks_eff" where
  "kar_subnets r env c n i k =
     try_bind (ensureClusterAnnotation env c RegionAnnotationKey (kc_Region k)) (\<lambda>(c1, _).
     try_bind (ensureClusterAnnotation env c1 EKSClusterNameAnnotationKey (kn_eks n)) (\<lambda>(c2, _).
     bind_eff (kar_validateFargateSubnets env (kc_Region k) (ki_NodeSubnetIDs i)) (\<lambda>valid. case valid of
       Inl e \<Rightarrow> kar_backoff r env c2 EventTypeWarning ''AWSPrerequisitesNotReady'' (subnets_invalid_message (err_text e))
     | Inr v \<Rightarrow>
         bind_eff (when_eff (sv_SubnetsWithoutNATDefaultRoute v \<noteq> []) (karpenter_event env c2 EventTypeWarning
           ''AWSPrerequisitesNotReady'' (no_nat_message (sv_SubnetsWithoutNATDefaultRoute v)))) (\<lambda>_.
         bind_eff (when_eff (sv_DistinctAZCount v < 2) (karpenter_event env c2 EventTypeWarning
           ''AWSPrerequisitesNotReady'' (single_az_message (sv_DistinctAZCount v)))) (\<lambda>_.
           kar_bootstrap r env c2 n i k)))))"

definition kar_missing_message :: "apilib \<Rightarrow> gvk list \<Rightarrow> string" where
  "kar_missing_message lib missing = ''missing prerequisite APIs '' @ joinGVKs lib missing @
     ''; cause: ACK resources cannot be reconciled. action: install ACK EKS/IAM CRDs (and ACK EC2 SecurityGroup CRD when '' @
     quote topologyNodeSecurityGroupIDsVariableName @ '' is empty)''"

definition kar_enabled :: "karpenter \<Rightarrow> eks_env \<Rightarrow> cluster \<Rightarrow> kar_names \<Rightarrow> ctrl_result result eks_eff" where
  "kar_enabled r env c0 n =
     try_bind (ensureCleanupFinalizer r env c0) (\<lambda>c1.
     try_bind (ensureClusterNameLabel env c1) (\<lambda>c.
     case kar_read_inputs c of
       Inl e \<Rightarrow> ret (Inl e)
     | Inr (Inl (reason, msg)) \<Rightarrow> kar_backoff r env c EventTypeWarning reason msg
     | Inr (Inr i) \<Rightarrow>
         let missing = missingAPIs (kar_isAPIAvailable env) (required_apis i); ns = om_Namespace (cl_meta c) in
         if missing \<noteq> [] then
           kar_backoff r env c EventTypeWarning ''PrerequisiteAPIMissing'' (kar_missing_message (ee_lib env) missing)
         else bind_eff (eks_get env ackClusterGVK (object_key ns (kn_ack n))) (\<lambda>got. case got of
             Inl e \<Rightarrow>
               if is_not_found e then kar_backoff r env c EventTypeNormal ''ACKClusterNotFound''
                 (''waiting for ACK EKS Cluster '' @ ns @ ''/'' @ kn_ack n)
               else ret (Inl e)
           | Inr ack \<Rightarrow> (case kar_read_ack (ee_lib env) c (kn_ack n) ack of
                 Inl (eventType, reason, msg) \<Rightarrow> kar_backoff r env c eventType reason msg
               | Inr k \<Rightarrow> kar_subnets r env c n i k))))"

definition kar_run :: "(kube_config \<Rightarrow> string result) \<Rightarrow> karpenter \<Rightarrow> eks_env \<Rightarrow> object_key \<Rightarrow> ctrl_result result eks_eff" where
  "kar_run write r env req =
     bind_eff (perform (EksGetCluster req) (\<lambda>h. ee_getCluster env h req)) (\<lambda>got. case got of
       Inl e \<Rightarrow> ret (map_sum id (\<lambda>_. no_requeue) (ignore_not_found e))
     | Inr c \<Rightarrow>
         let (capi, eks, ack) = resolveClusterNames c in
         if om_DeletionTimestamp (cl_meta c) \<noteq> None then
           if \<not> lib_ContainsFinalizer (ee_lib env) (cl_meta c) (cleanupFinalizer r) then ret (Inr no_requeue)
           else bind_eff (reconcileDeletingCluster write r env c capi eks ack) (\<lambda>(result, done).
             if \<not> done then ret (Inr result)
             else try_bind (removeCleanupFinalizer r env c) (\<lambda>_. ret (Inr no_requeue)))
         else if \<not> isKarpenterEnabled c then ret (Inr no_requeue)
         else kar_enabled r env c \<lparr>kn_capi = capi, kn_eks = eks, kn_ack = ack\<rparr>)"

definition kar_Reconcile ::
    "(kube_config \<Rightarrow> string result) \<Rightarrow> karpenter \<Rightarrow> eks_env \<Rightarrow> object_key \<Rightarrow> ctrl_result result eks_eff" where
  "kar_Reconcile write r env req =
     bind_eff (kar_run write r env req) (\<lambda>res.
     bind_eff (when_eff (isl res) (emit (RecordReconcileError metricControllerBootstrapper))) (\<lambda>_. ret res))"

section \<open>The kinds it watches\<close>

text \<open>The kinds of \<open>SetupWithManager\<close> whose objects lead back to their cluster by their marks.\<close>

definition kar_watched_kinds :: "gvk list" where
  "kar_watched_kinds = [ackFargateProfileGVK, ackAccessEntryGVK, ackSecurityGroupGVK, ackIAMPolicyGVK, ackIAMRoleGVK,
     ackIAMInstanceProfileGVK, ackOIDCProviderGVK, fluxOCIRepositoryGVK, fluxHelmReleaseGVK, clusterResourceSetGVK]"

lemma kar_watched [simp]:
  "ackAccessEntryGVK \<in> set kar_watched_kinds" "ackSecurityGroupGVK \<in> set kar_watched_kinds"
  "ackIAMPolicyGVK \<in> set kar_watched_kinds" "ackIAMRoleGVK \<in> set kar_watched_kinds"
  "ackIAMInstanceProfileGVK \<in> set kar_watched_kinds" "ackOIDCProviderGVK \<in> set kar_watched_kinds"
  "fluxOCIRepositoryGVK \<in> set kar_watched_kinds" "fluxHelmReleaseGVK \<in> set kar_watched_kinds"
  "clusterResourceSetGVK \<in> set kar_watched_kinds"
  by (simp_all add: kar_watched_kinds_def)

end
