(* ===== verification/KarpSafety.thy ===== *)
theory KarpSafety
  imports Karpenter
begin

text \<open>
  Whole runs of the Karpenter bootstrapper: what a run may write, in the management cluster, in
  the workload cluster and in AWS, and that a run for an enabled cluster comes back.
\<close>

section \<open>What a run may write\<close>

definition kar_laws :: "eks_env \<Rightarrow> bool" where
  "kar_laws env \<longleftrightarrow> set_nested_laws (ee_lib env) \<and> owner_laws (ee_lib env) \<and> finalizer_laws (ee_lib env)"

text \<open>
  Changes of the cluster: its own finalizer, the cluster-name label, the four annotations of the
  bootstrapper, and the topology variables.
\<close>

definition kar_annotation_keys :: "string list" where
  "kar_annotation_keys = [RegionAnnotationKey, EKSClusterNameAnnotationKey, coreDNSRolloutRestartedAtAnnotationKey,
     karpenterRolloutRestartedAtAnnotationKey]"

definition kar_patch_ok :: "karpenter \<Rightarrow> cluster \<Rightarrow> cluster \<Rightarrow> bool" where
  "kar_patch_ok r before after \<longleftrightarrow>
     (\<exists>fs. after = set_meta (\<lambda>m. m\<lparr>om_Finalizers := fs\<rparr>) before \<and>
        set fs - {cleanupFinalizer r} = set (om_Finalizers (cl_meta before)) - {cleanupFinalizer r}) \<or>
     after = set_meta (\<lambda>m. m\<lparr>om_Labels := fmupd capiClusterNameLabelKey (om_Name m) (om_Labels m)\<rparr>) before \<or>
     (\<exists>k v. k \<in> set kar_annotation_keys \<and>
        after = set_meta (\<lambda>m. m\<lparr>om_Annotations := fmupd k v (om_Annotations m)\<rparr>) before) \<or>
     (\<exists>vs. after = before\<lparr>cl_Topology := Some vs\<rparr>)"

text \<open>The run is for a cluster that is being deleted and holds the finalizer.\<close>

definition deleting :: "karpenter \<Rightarrow> eks_env \<Rightarrow> object_key \<Rightarrow> cluster \<Rightarrow> bool" where
  "deleting r env req c \<longleftrightarrow> (\<exists>h. ee_getCluster env h req = Inr c) \<and> om_DeletionTimestamp (cl_meta c) \<noteq> None \<and>
     cleanupFinalizer r \<in> set (om_Finalizers (cl_meta c))"

text \<open>The EKS name by which instances are looked up: the cluster's, or the one in its kubeconfig Secret.\<close>

definition named_by_secret :: "eks_env \<Rightarrow> string \<Rightarrow> string \<Rightarrow> string \<Rightarrow> bool" where
  "named_by_secret env ns capi name \<longleftrightarrow>
     (\<exists>h k s. ee_getSecret env h k = Inr s \<and> key_Namespace k = ns \<and> SecretName capi = Inr (key_Name k) \<and>
        name = TrimSpace (str_get (om_Annotations (se_meta s)) EKSClusterNameAnnotationKey))"

definition eks_name_of :: "eks_env \<Rightarrow> cluster \<Rightarrow> string \<Rightarrow> bool" where
  "eks_name_of env c name \<longleftrightarrow>
     (let (capi, eks, ack) = resolveClusterNames c in
      name = eks \<or> TrimSpace eks = '''' \<and> named_by_secret env (om_Namespace (cl_meta c)) capi name)"

text \<open>
  What is known when the finalizer goes: the region or the EKS name could not be found out, or no
  instance was left and no interface of the group the bootstrapper made.
\<close>

definition deletion_outcome :: "eks_env \<Rightarrow> cluster \<Rightarrow> string \<Rightarrow> string \<Rightarrow> bool" where
  "deletion_outcome env c region name \<longleftrightarrow>
     (let (capi, eks, ack) = resolveClusterNames c in
      \<exists>h. fst (run_state (deletion_names env c capi eks ack) h) = (region, name))"

definition no_instances :: "eks_env \<Rightarrow> string \<Rightarrow> string \<Rightarrow> bool" where
  "no_instances env region name \<longleftrightarrow>
     (\<exists>h reservations. all_pages ''describe instances'' (ee_instancePages env h region name) = Inr reservations \<and>
        to_terminate (concat reservations) = [] \<and> shutting_down (concat reservations) = [])"

definition no_interfaces :: "eks_env \<Rightarrow> string \<Rightarrow> string \<Rightarrow> bool" where
  "no_interfaces env region sgid \<longleftrightarrow>
     (\<exists>h nis. all_pages ''describe network interfaces'' (ee_networkInterfacePages env h region sgid) = Inr nis \<and>
        orphan_ids nis = [])"

definition no_orphans :: "eks_env \<Rightarrow> cluster \<Rightarrow> string \<Rightarrow> bool" where
  "no_orphans env c region \<longleftrightarrow>
     (\<exists>h. case ee_get env h ackSecurityGroupGVK (object_key (om_Namespace (cl_meta c)) (node_sg_name c)) of
        Inl e \<Rightarrow> is_not_found e \<or> isNoMatchError e
      | Inr sg \<Rightarrow>
          let sgid = TrimSpace (fst (readNestedString (ee_lib env) (un_Object sg) [''status'', ''id''])) in
          \<not> isManagedByBootstrapper (om_Annotations (un_meta sg)) \<or> sgid = '''' \<or> no_interfaces env region sgid)"

definition cleaned :: "eks_env \<Rightarrow> cluster \<Rightarrow> bool" where
  "cleaned env c \<longleftrightarrow>
     (\<exists>region name. deletion_outcome env c region name \<and>
        (TrimSpace region = '''' \<or> TrimSpace name = '''' \<or>
         no_instances env (TrimSpace region) (TrimSpace name) \<and> no_orphans env c (TrimSpace region)))"

definition drops_finalizer :: "karpenter \<Rightarrow> cluster \<Rightarrow> cluster \<Rightarrow> bool" where
  "drops_finalizer r before after \<longleftrightarrow>
     cleanupFinalizer r \<in> set (om_Finalizers (cl_meta before)) \<and> cleanupFinalizer r \<notin> set (om_Finalizers (cl_meta after))"

definition suspended_write :: "eks_env \<Rightarrow> unstructured \<Rightarrow> unstructured \<Rightarrow> bool" where
  "suspended_write env before after \<longleftrightarrow>
     (\<exists>h g k. ee_get env h g k = Inr before) \<and> isManagedByBootstrapper (om_Annotations (un_meta before)) \<and>
     un_meta after = un_meta before \<and> un_GVK after = un_GVK before \<and>
     (\<exists>m. spec_of (un_Object before) = Some m \<and>
        un_Object after = fmupd ''spec'' (JObj (fmupd ''suspend'' (JBool True) m)) (un_Object before))"

definition config_map_of :: "cluster \<Rightarrow> config_map \<Rightarrow> bool" where
  "config_map_of c cm \<longleftrightarrow>
     isManagedByBootstrapper (om_Annotations (cm_meta cm)) \<and>
     fmlookup (om_Labels (cm_meta cm)) capiClusterNameLabelKey = Some (om_Name (cl_meta c)) \<and>
     om_Namespace (cm_meta cm) = om_Namespace (cl_meta c)"

text \<open>A config map that was read is only written if it was the bootstrapper's or may be taken over.\<close>

definition config_map_ours :: "eks_env \<Rightarrow> cluster \<Rightarrow> config_map \<Rightarrow> bool" where
  "config_map_ours env c cm \<longleftrightarrow>
     (\<exists>h name old. ee_getConfigMap env h (object_key (om_Namespace (cl_meta c)) name) = Inr old \<and>
        key_of (cm_meta cm) = key_of (cm_meta old) \<and>
        isManagedByBootstrapper (om_Annotations (cm_meta cm)) \<and>
        fmlookup (om_Labels (cm_meta cm)) capiClusterNameLabelKey = Some (om_Name (cl_meta c)) \<and>
        (isManagedByBootstrapper (om_Annotations (cm_meta old)) \<or>
         IsUnmanagedTakeoverEnabled (om_Annotations (cl_meta c))))"

definition aws_call_ok :: "karpenter \<Rightarrow> eks_env \<Rightarrow> object_key \<Rightarrow> aws_call \<Rightarrow> bool" where
  "aws_call_ok r env req a =
     (case a of
        TerminateInstances region ids \<Rightarrow>
          (\<exists>c name. deleting r env req c \<and> eks_name_of env c name \<and> instances_of_cluster env region (TrimSpace name) ids)
      | DeleteNetworkInterface region i \<Rightarrow>
          (\<exists>c sgid. deleting r env req c \<and> own_security_group env c sgid \<and> orphan_of_group env region sgid i)
      | _ \<Rightarrow> True)"

text \<open>
  A deployment is restarted once, after the Fargate profile that carries it is active, and Karpenter's
  only after Flux has reported the release of its chart ready.
\<close>

definition fargate_active :: "eks_env \<Rightarrow> string \<Rightarrow> string \<Rightarrow> bool" where
  "fargate_active env ns name \<longleftrightarrow>
     (\<exists>h fp. ee_get env h ackFargateProfileGVK (object_key ns name) = Inr fp \<and>
        EqualFold (fst (readNestedString (ee_lib env) (un_Object fp) [''status'', ''status''])) ''ACTIVE'')"

definition chart_ready :: "eks_env \<Rightarrow> string \<Rightarrow> string \<Rightarrow> bool" where
  "chart_ready env ns capi \<longleftrightarrow>
     (\<exists>h hr. ee_get env h fluxHelmReleaseGVK (object_key ns (capi @ ''-karpenter'')) = Inr hr \<and> helmReleaseReady (ee_lib env) hr)"

definition restart_due :: "eks_env \<Rightarrow> cluster \<Rightarrow> string \<Rightarrow> string \<times> string \<Rightarrow> bool" where
  "restart_due env c capi d \<longleftrightarrow>
     (let ns = om_Namespace (cl_meta c); profile = (\<lambda>suffix. fargate_active env ns (safeFargateProfileBaseName capi @ suffix));
          restarted = hasNonEmptyAnnotation (om_Annotations (cl_meta c)) in
      d = (''kube-system'', ''coredns'') \<and> profile ''-coredns'' \<and> \<not> restarted coreDNSRolloutRestartedAtAnnotationKey \<or>
      d = (''karpenter'', ''karpenter'') \<and> profile ''-karpenter'' \<and> chart_ready env ns capi \<and>
        \<not> restarted karpenterRolloutRestartedAtAnnotationKey)"

definition workload_call_ok :: "karpenter \<Rightarrow> eks_env \<Rightarrow> object_key \<Rightarrow> workload_call \<Rightarrow> bool" where
  "workload_call_ok r env req w =
     (case w of
        PatchDeployment kc ns name p \<Rightarrow>
          (\<exists>c capi t. answered env c \<and> restart_due env c capi (ns, name) \<and> p = restart_patch t) \<or>
          (ns, name) = (''karpenter'', ''karpenter'') \<and> p = scale_patch 0 \<and> (\<exists>c. deleting r env req c)
      | DeleteCollection kc g \<Rightarrow>
          g \<in> {karpenterNodePoolGVR, karpenterNodeClaimGVR, karpenterEC2NodeClassGVR} \<and> (\<exists>c. deleting r env req c)
      | _ \<Rightarrow> True)"

definition kar_write_ok :: "karpenter \<Rightarrow> eks_env \<Rightarrow> object_key \<Rightarrow> eks_call \<Rightarrow> bool" where
  "kar_write_ok r env req w =
     (case w of
        EksCreate u \<Rightarrow> \<exists>c. answered env c \<and> managed_write karpenterManagedByValue env c w \<and> un_GVK u \<in> set kar_watched_kinds
      | EksUpdate u \<Rightarrow> \<exists>c. answered env c \<and> managed_write karpenterManagedByValue env c w \<and>
          (\<exists>g \<in> set kar_watched_kinds. \<exists>name. updates_read env g (object_key (om_Namespace (cl_meta c)) name) u)
      | EksPatch before after \<Rightarrow> suspended_write env before after \<and> (\<exists>c. deleting r env req c)
      | EksPatchCluster before after \<Rightarrow> answered env before \<and> kar_patch_ok r before after
      | EksCreateConfigMap cm \<Rightarrow> \<exists>c. answered env c \<and> config_map_of c cm
      | EksUpdateConfigMap cm \<Rightarrow> \<exists>c. answered env c \<and> config_map_ours env c cm
      | EksCreateSecret _ \<Rightarrow> False | EksUpdateSecret _ \<Rightarrow> False
      | Aws a \<Rightarrow> aws_call_ok r env req a
      | Workload x \<Rightarrow> workload_call_ok r env req x
      | _ \<Rightarrow> True)"

definition finalizer_ok :: "karpenter \<Rightarrow> eks_env \<Rightarrow> object_key \<Rightarrow> eks_call \<Rightarrow> bool" where
  "finalizer_ok r env req w =
     (case w of
        EksPatchCluster before after \<Rightarrow> drops_finalizer r before after \<longrightarrow> deleting r env req before \<and> cleaned env before
      | _ \<Rightarrow> True)"

definition kar_call_ok :: "karpenter \<Rightarrow> eks_env \<Rightarrow> object_key \<Rightarrow> eks_call \<Rightarrow> bool" where
  "kar_call_ok r env req w \<longleftrightarrow> kar_write_ok r env req w \<and> finalizer_ok r env req w"

lemmas kar_ok_defs = kar_call_ok_def kar_write_ok_def finalizer_ok_def

lemma kar_call_reads [simp]:
  "kar_call_ok r env req (EksGetCluster k)" "kar_call_ok r env req (EksGet g k)" "kar_call_ok r env req (EksGetSecret k)"
  "kar_call_ok r env req (EksGetConfigMap k)" "kar_call_ok r env req (ShouldEmit a)"
  "kar_call_ok r env req (EksEvent k x y z)" "kar_call_ok r env req EksNow"
  "kar_call_ok r env req (RecordOwnershipConflict x y)" "kar_call_ok r env req (RecordSuccessfulSync x n)"
  "kar_call_ok r env req (RecordReconcileError x)" "kar_call_ok r env req (RecordTokenGenerationFailure x)"
  "kar_call_ok r env req (EksGenerateToken x y)" "kar_call_ok r env req (ValidateSubnets x ids)"
  "kar_call_ok r env req (ResolveThumbprints x)"
  by (simp_all add: kar_ok_defs)

lemma kar_call_aws [simp]:
  "kar_call_ok r env req (Aws (AwsLoadConfig a))" "kar_call_ok r env req (Aws (DescribeSubnets a ids))"
  "kar_call_ok r env req (Aws (DescribeVpcs a ids))" "kar_call_ok r env req (Aws (DescribeRouteTables a f ids))"
  "kar_call_ok r env req (Aws (DescribeInstances a n))" "kar_call_ok r env req (Aws (DescribeNetworkInterfaces a n))"
  "kar_call_ok r env req (Aws (SleepSeconds k))" "kar_call_ok r env req (Aws (DialTLS a))"
  "kar_call_ok r env req (Workload (NewClientset kc))" "kar_call_ok r env req (Workload (NewDynamicClient kc))"
  by (simp_all add: kar_ok_defs aws_call_ok_def workload_call_ok_def)

section \<open>The pieces of a run\<close>

definition comes_back :: "ctrl_result result \<Rightarrow> bool" where
  "comes_back res \<longleftrightarrow> (case res of Inl _ \<Rightarrow> True | Inr x \<Rightarrow> 0 < requeue_after x)"

lemma comes_back_simps [simp]: "comes_back (Inl e)" "comes_back (Inr x) \<longleftrightarrow> 0 < requeue_after x"
  by (simp_all add: comes_back_def)

abbreviation kar_durations :: "karpenter \<Rightarrow> bool" where
  "kar_durations r \<equiv> 0 \<le> kr_FailureBackoff r \<and> 0 \<le> kr_SteadyStateRequeue r"

lemma kar_durations_pos:
  "kar_durations r \<Longrightarrow> 0 < kar_failureBackoff r" "kar_durations r \<Longrightarrow> 0 < kar_steadyStateRequeue r"
  by (auto simp: kar_failureBackoff_def kar_steadyStateRequeue_def)

named_theorems kar_intros \<open>the pieces of a run of the Karpenter bootstrapper\<close>

lemma ensures_kar_event [kar_intros]: "ensures (kar_call_ok r env req) (\<lambda>_. True) (karpenter_event env c x y z)"
  unfolding karpenter_event_def emits_ensures [symmetric] by (rule emits_eks_event) simp_all

lemma emits_kar_event: "emits (kar_call_ok r env req) (karpenter_event env c x y z)"
  unfolding karpenter_event_def by (rule emits_eks_event) simp_all

lemma ensures_when [kar_intros]: "(b \<Longrightarrow> ensures Q (\<lambda>_. True) m) \<Longrightarrow> ensures Q (\<lambda>_. True) (when_eff b m)"
  by (auto simp: when_eff_def intro: ensures_ret)

lemma ensures_kar_backoff [kar_intros]:
  "kar_durations r \<Longrightarrow> ensures (kar_call_ok r env req) comes_back (kar_backoff r env c x y z)"
  unfolding kar_backoff_def
  by (rule ensures_bind [OF ensures_kar_event]) (simp add: ensures_ret kar_durations_pos)

lemma ensures_kar_conflict [kar_intros]:
  "kar_durations r \<Longrightarrow> ensures (kar_call_ok r env req) comes_back (kar_conflict r env c x y)"
  unfolding kar_conflict_def emit_def
  by (rule ensures_bind [OF ensures_kar_event], rule ensures_bind [OF ensures_perform [where R = "\<lambda>_. True"]])
    (simp_all add: ensures_ret kar_durations_pos)

lemma emits_kar_ensure:
  assumes "kar_laws env" "answered env c" "g \<in> set kar_watched_kinds" "fs \<noteq> []"
  shows "emits (kar_call_ok r env req) (kar_ensure env c g name region fs)"
proof -
  have mb: "bs_ManagedBy karpenter_bootstrapper = karpenterManagedByValue" by (simp add: karpenter_bootstrapper_def)
  show ?thesis
    unfolding kar_ensure_def
    by (rule emits_upsertManaged [of env karpenter_bootstrapper, unfolded mb])
      (use assms karpenter_trimmed in \<open>auto simp: kar_laws_def kar_ok_defs\<close>)
qed

lemma ensures_kar_step [kar_intros]:
  assumes "kar_durations r" "emits (kar_call_ok r env req) ensure" "ensures (kar_call_ok r env req) comes_back rest"
  shows "ensures (kar_call_ok r env req) comes_back (kar_step r env c kind what name ensure rest)"
  unfolding kar_step_def
  by (rule ensures_try [OF ensures_of_emits [OF assms(2)], of "\<lambda>_. True"])
    (use assms in \<open>auto intro: ensures_kar_conflict\<close>)

lemma ensures_kar_patch:
  assumes "answered env c" "kar_patch_ok r c c'" "\<not> drops_finalizer r c c'"
  shows "ensures (kar_call_ok r env req) (case_sum (\<lambda>_. True) (answered env)) (patch_cluster env c c')"
  by (rule ensures_patch_cluster) (use assms in \<open>simp add: kar_ok_defs\<close>)

lemma ensures_kar_label:
  assumes "answered env c"
  shows "ensures (kar_call_ok r env req) (case_sum (\<lambda>_. True) (answered env)) (ensureClusterNameLabel env c)"
  unfolding ensureClusterNameLabel_def Let_def
  using assms ensures_kar_patch [OF assms, of r _ req]
  by (auto intro!: ensures_ret simp: kar_patch_ok_def set_meta_def drops_finalizer_def)

lemma ensures_kar_annotation:
  assumes "answered env c" "TrimSpace k \<in> set kar_annotation_keys"
  shows "ensures (kar_call_ok r env req) (case_sum (\<lambda>_. True) (\<lambda>x. answered env (fst x))) (ensureClusterAnnotation env c k v)"
proof -
  have patch: "kar_patch_ok r c (set_meta (\<lambda>m. m\<lparr>om_Annotations := fmupd (TrimSpace k) (TrimSpace v) (om_Annotations (cl_meta c))\<rparr>) c)"
    using assms(2) unfolding kar_patch_ok_def by (auto simp: set_meta_def)
  have kept: "\<not> drops_finalizer r c (set_meta (\<lambda>m. m\<lparr>om_Annotations := a\<rparr>) c)" for a
    by (simp add: drops_finalizer_def set_meta_def)
  show ?thesis
    unfolding ensureClusterAnnotation_def Let_def
    using assms(1)
    by (auto intro!: ensures_ret ensures_try [OF ensures_kar_patch [OF assms(1) patch kept]])
qed

lemma ensures_kar_topology:
  assumes "answered env c"
  shows "ensures (kar_call_ok r env req) (case_sum (\<lambda>_. True) (\<lambda>x. answered env (fst x)))
    (ensureTopologyStringSliceVariable env c name vs)"
proof -
  have "kar_patch_ok r c c' \<and> \<not> drops_finalizer r c c'" if "setTopologyStringSliceVariable c name ws = Inr (c', True)" for c' ws
  proof (cases "cl_Topology c")
    case None
    then show ?thesis using that by (simp add: setTopologyStringSliceVariable_def)
  next
    case (Some vs)
    then show ?thesis
      using that
      by (cases "set_variable (TrimSpace name) ws vs")
        (auto simp: setTopologyStringSliceVariable_def Let_def kar_patch_ok_def drops_finalizer_def split: if_splits option.splits)
  qed
  then show ?thesis
    unfolding ensureTopologyStringSliceVariable_def
    using assms by (auto intro!: ensures_ret ensures_case_result ensures_try [OF ensures_kar_patch [OF assms]]
      split: prod.splits)
qed

lemma ensures_kar_finalizer:
  assumes "kar_laws env" "answered env c"
  shows "ensures (kar_call_ok r env req) (case_sum (\<lambda>_. True) (answered env)) (ensureCleanupFinalizer r env c)"
proof -
  obtain fs where fs: "lib_AddFinalizer (ee_lib env) (cl_meta c) (cleanupFinalizer r) = (cl_meta c)\<lparr>om_Finalizers := fs\<rparr>"
    "set fs = insert (cleanupFinalizer r) (set (om_Finalizers (cl_meta c)))"
    using assms(1) unfolding kar_laws_def finalizer_laws_def by metis
  have same: "set_meta (\<lambda>m. lib_AddFinalizer (ee_lib env) m (cleanupFinalizer r)) c = set_meta (\<lambda>m. m\<lparr>om_Finalizers := fs\<rparr>) c"
    using fs(1) by (simp add: set_meta_def)
  have "kar_patch_ok r c (set_meta (\<lambda>m. m\<lparr>om_Finalizers := fs\<rparr>) c)"
    using fs(2) by (auto simp: kar_patch_ok_def)
  moreover have "\<not> drops_finalizer r c (set_meta (\<lambda>m. m\<lparr>om_Finalizers := fs\<rparr>) c)"
    using fs(2) by (simp add: drops_finalizer_def set_meta_def)
  moreover have "set_meta (\<lambda>m. m\<lparr>om_Finalizers := om_Finalizers (cl_meta c)\<rparr>) c = c"
    by (simp add: set_meta_def)
  ultimately show ?thesis
    unfolding ensureCleanupFinalizer_def patch_finalizers_def same
    using assms(2) fs(1) by (auto intro!: ensures_ret ensures_kar_patch)
qed

section \<open>The phases of a run\<close>

lemma ensures_after [kar_intros]:
  "emits Q m \<Longrightarrow> (\<And>a. ensures Q R (k a)) \<Longrightarrow> ensures Q R (bind_eff m k)"
  by (rule ensures_bind [OF ensures_of_emits [where R = "\<lambda>_. True"]]) simp_all

lemma ensures_try_after [kar_intros]:
  "emits Q m \<Longrightarrow> (\<And>a. ensures Q R (k a)) \<Longrightarrow> (\<And>e. R (Inl e)) \<Longrightarrow> ensures Q R (try_bind m k)"
  by (rule ensures_try [OF ensures_of_emits [where R = "\<lambda>_. True"]]) simp_all

lemma emits_new_client: "kar_call_ok r env req (Workload c) \<Longrightarrow> emits (kar_call_ok r env req) (new_client env what c)"
  by (auto simp: new_client_def intro!: emits_intros)

lemma emits_kubeconfig: "emits (kar_call_ok r env req) (getWorkloadKubeconfigBytes env c capi)"
  by (auto simp: getWorkloadKubeconfigBytes_def Let_def intro!: emits_intros)

lemmas kar_resource_defs = ensureOIDCProvider_def ensureIAMPolicy_def ensureIAMRoleForIRSA_def
  ensureIAMRoleForEC2_def ensureIAMInstanceProfile_def ensureAccessEntry_def

lemma ensures_kar_node_role:
  assumes "kar_laws env" "answered env c" "kar_durations r" "ensures (kar_call_ok r env req) comes_back rest"
  shows "ensures (kar_call_ok r env req) comes_back (kar_node_role r env c n k rest)"
  unfolding kar_node_role_def kar_resource_defs Let_def
  by (auto intro!: ensures_case_result ensures_ret ensures_kar_step emits_kar_ensure assms split: prod.splits)

lemma ensures_kar_resources:
  assumes "kar_laws env" "answered env c" "kar_durations r" "ensures (kar_call_ok r env req) comes_back rest"
  shows "ensures (kar_call_ok r env req) comes_back (kar_resources r env c n k host thumbprints rest)"
  unfolding kar_resources_def kar_resource_defs Let_def
  by (intro ensures_kar_step ensures_kar_node_role emits_kar_ensure assms) (simp_all add: oidc_fields_def)

lemma emits_thumbprints: "emits (kar_call_ok r env req) (resolveOIDCThumbprints env c url)"
  unfolding resolveOIDCThumbprints_def defaultResolveOIDCThumbprints_def Let_def
  by (auto intro!: emits_intros split: option.splits prod.splits sum.splits)

lemma ensures_kar_thumbprints:
  assumes "kar_durations r" "\<And>ts. ensures (kar_call_ok r env req) comes_back (rest ts)"
  shows "ensures (kar_call_ok r env req) comes_back (kar_thumbprints r env c url rest)"
  unfolding kar_thumbprints_def
proof (rule ensures_after [OF emits_thumbprints])
  fix got :: "thumbprint_error + string list"
  show "ensures (kar_call_ok r env req) comes_back (case got of
      Inl (ThumbprintUnverified msg) \<Rightarrow>
         bind_eff (karpenter_event env c EventTypeWarning ''OIDCThumbprintSkipped''
           (''skipped OIDC thumbprint auto-setting: '' @ msg @ ''; continuing without spec.thumbprints. action: ensure issuer certificate chain is verifiable or disable '' @
            quote oidcThumbprintAutoAnnotation @ '' annotation'')) (\<lambda>_. rest [])
     | Inl (ThumbprintError e) \<Rightarrow>
         kar_backoff r env c EventTypeWarning ''AWSPrerequisitesNotReady''
           (''failed to resolve OIDC thumbprint: '' @ err_text e @ ''; action: fix issuer reachability or disable '' @
            quote oidcThumbprintAutoAnnotation @ '' annotation'')
     | Inr thumbprints \<Rightarrow> rest thumbprints)"
    using assms by (auto intro!: ensures_after emits_kar_event ensures_kar_backoff split: sum.split thumbprint_error.split)
qed

lemma emits_discover: "emits (kar_call_ok r env req) (discoverVPCBySubnets env region ids)"
  unfolding discoverVPCBySubnets_def load_aws_config_def describe_subnets_def Let_def
  by (auto intro!: emits_intros split: prod.splits sum.splits list.splits)

lemma emits_node_security_group:
  assumes "kar_laws env" "answered env c"
  shows "emits (kar_call_ok r env req) (ensureNodeSecurityGroup env c region name ids)"
  unfolding ensureNodeSecurityGroup_def eks_get_def Let_def
  by (auto intro!: emits_intros emits_discover emits_kar_ensure assms simp: security_group_fields_def Let_def
      split: prod.splits sum.splits)

lemma ensures_kar_inject_group:
  assumes "answered env c" "kar_durations r" "\<And>c. answered env c \<Longrightarrow> ensures (kar_call_ok r env req) comes_back (rest c)"
  shows "ensures (kar_call_ok r env req) comes_back (kar_inject_group r env c i sgid rest)"
proof -
  let ?Q = "kar_call_ok r env req"
  have second: "ensures ?Q (case_sum (\<lambda>_. True) (\<lambda>x. answered env (fst x)))
      (if b then ensureTopologyStringSliceVariable env c1 name vs else ret (Inr (c1, False)))"
    if "answered env c1" for b c1 name vs
    using ensures_kar_topology [OF that] that by (auto intro!: ensures_ret)
  show ?thesis
    unfolding kar_inject_group_def
    by (rule ensures_try [OF ensures_kar_topology [OF assms(1)]])
      (auto intro!: ensures_try [OF second] ensures_after emits_when emits_kar_event ensures_ret assms(3)
        simp: kar_durations_pos [OF assms(2)])
qed

lemma ensures_kar_security_group:
  assumes "kar_laws env" "answered env c" "kar_durations r" "0 < d"
    and "\<And>c gs d. answered env c \<Longrightarrow> 0 < d \<Longrightarrow> ensures (kar_call_ok r env req) comes_back (rest c gs d)"
  shows "ensures (kar_call_ok r env req) comes_back (kar_security_group r env c n i region d rest)"
  unfolding kar_security_group_def
  using assms kar_durations_pos [OF assms(3)]
  by (auto intro!: ensures_after ensures_case_result emits_node_security_group emits_kar_event ensures_kar_backoff
      ensures_kar_conflict ensures_kar_inject_group split: prod.splits)

section \<open>The delivery\<close>

lemma ensures_got: "kar_call_ok r env req (EksGet g k) \<Longrightarrow>
    ensures (kar_call_ok r env req) (\<lambda>got. \<exists>h. got = ee_get env h g k) (eks_get env g k)"
  unfolding eks_get_def by (rule ensures_perform) auto

lemma chart_readyI:
  "ee_get env h fluxHelmReleaseGVK (object_key ns (capi @ ''-karpenter'')) = Inr hr \<Longrightarrow> helmReleaseReady (ee_lib env) hr \<Longrightarrow>
   chart_ready env ns capi"
  unfolding chart_ready_def by blast

lemma never_ready: "map_sum id (\<lambda>_. False) x \<noteq> Inr True"
  by (cases x) auto

lemma ensures_flux:
  assumes "kar_laws env" "answered env c"
  shows "ensures (kar_call_ok r env req) (case_sum (\<lambda>_. True) (\<lambda>x. x \<longrightarrow> chart_ready env (om_Namespace (cl_meta c)) capi))
    (ensureFluxKarpenter env c capi tag v)"
  unfolding ensureFluxKarpenter_def Let_def
  by (auto intro!: ensures_try_after emits_kar_ensure assms ensures_ret ensures_bind [OF ensures_got]
      simp: oci_fields_def helm_fields_def never_ready Let_def split: sum.splits) (rule chart_readyI)

lemma ensures_kar_flux:
  assumes "kar_laws env" "answered env c" "kar_durations r" "0 < d"
  shows "ensures (kar_call_ok r env req)
    (case_sum (\<lambda>_. True) (\<lambda>x. 0 < snd x \<and> (fst x \<longrightarrow> chart_ready env (om_Namespace (cl_meta c)) (kn_capi n)))) (kar_flux r env c n v d)"
  unfolding kar_flux_def
  using kar_durations_pos [OF assms(3)] assms(4)
  by (auto intro!: ensures_bind [OF ensures_flux [OF assms(1,2)]] ensures_after ensures_ret emits_kar_event
      split: sum.splits)

lemma own_config_map_marks:
  assumes "kar_laws env" "own_config_map (ee_lib env) c yaml cm = Inr cm'"
  shows "key_of (cm_meta cm') = key_of (cm_meta cm)"
    and "isManagedByBootstrapper (om_Annotations (cm_meta cm'))"
    and "fmlookup (om_Labels (cm_meta cm')) capiClusterNameLabelKey = Some (om_Name (cl_meta c))"
    and "om_Namespace (cm_meta cm') = om_Namespace (cm_meta cm)"
proof -
  let ?cm = "mutateManagedConfigMap c yaml cm"
  obtain m where m: "lib_SetOwnerReference (ee_lib env) capiClusterGVK (cl_meta c) (cm_meta ?cm) = Inr m" "cm' = ?cm\<lparr>cm_meta := m\<rparr>"
    using assms(2) unfolding own_config_map_def Let_def
    by (cases "lib_SetOwnerReference (ee_lib env) capiClusterGVK (cl_meta c) (cm_meta ?cm)") auto
  obtain rs where "m = (cm_meta ?cm)\<lparr>om_OwnerReferences := rs\<rparr>"
    using assms(1) m(1) unfolding kar_laws_def owner_laws_def by blast
  then have cm': "cm_meta cm' = (cm_meta ?cm)\<lparr>om_OwnerReferences := rs\<rparr>" using m(2) by simp
  show "key_of (cm_meta cm') = key_of (cm_meta cm)"
    "fmlookup (om_Labels (cm_meta cm')) capiClusterNameLabelKey = Some (om_Name (cl_meta c))"
    "om_Namespace (cm_meta cm') = om_Namespace (cm_meta cm)"
    by (simp_all add: cm' mutateManagedConfigMap_def key_of_def)
  have "TrimSpace karpenterManagedByValue = karpenterManagedByValue" by code_simp
  moreover have "fmlookup (om_Annotations (cm_meta cm')) ManagedByAnnotationKey = Some karpenterManagedByValue"
    by (simp add: cm' mutateManagedConfigMap_def)
  ultimately show "isManagedByBootstrapper (om_Annotations (cm_meta cm'))"
    by (auto simp: isManagedByBootstrapper_def is_managed_by_def str_get_def)
qed

lemma emits_config_map:
  assumes "kar_laws env" "answered env c"
  shows "emits (kar_call_ok r env req) (ensure_config_map env c name yaml)"
proof -
  note marks = own_config_map_marks [OF assms(1)]
  have create: "kar_call_ok r env req (EksCreateConfigMap cm')"
    if "own_config_map (ee_lib env) c yaml \<lparr>cm_meta = new_meta (om_Namespace (cl_meta c)) name, cm_Data = fmempty\<rparr> = Inr cm'" for cm'
    using marks [OF that] assms(2) by (auto simp: kar_ok_defs config_map_of_def new_meta_def)
  have update: "kar_call_ok r env req (EksUpdateConfigMap cm')"
    if "ee_getConfigMap env h (object_key (om_Namespace (cl_meta c)) name) = Inr cm"
      "own_config_map (ee_lib env) c yaml cm = Inr cm'"
      "isManagedByBootstrapper (om_Annotations (cm_meta cm)) \<or> IsUnmanagedTakeoverEnabled (om_Annotations (cl_meta c))" for h cm cm'
    using marks [OF that(2)] that(1,3) assms(2) unfolding kar_ok_defs config_map_ours_def by auto
  show ?thesis
    unfolding ensure_config_map_def get_config_map_def eks_write_def Let_def
    by (auto intro!: emits_intros emits_query emits_kar_event create intro: update)
qed

lemma emits_node_pool:
  assumes "kar_laws env" "answered env c"
  shows "emits (kar_call_ok r env req) (ensureDefaultNodePoolResources env c capi eks profile ids groups hop)"
  unfolding ensureDefaultNodePoolResources_def ensure_resource_set_def resolveNodePoolTemplateYAML_def get_config_map_def Let_def
  by (auto intro!: emits_intros emits_kar_event emits_config_map emits_kar_ensure assms simp: crs_fields_def split: sum.splits)

lemma ensures_restart:
  assumes "answered env c" "TrimSpace key \<in> set kar_annotation_keys"
    and "answered env c0" "restart_due env c0 capi (ns, name)"
  shows "ensures (kar_call_ok r env req) (case_sum (\<lambda>_. True) (\<lambda>x. answered env (fst x)))
    (restart_once env kc ns name key at c)"
proof -
  have "kar_call_ok r env req (Workload (PatchDeployment kc ns name (restart_patch at)))"
    using assms(3,4) by (auto simp: kar_ok_defs workload_call_ok_def)
  then have "emits (kar_call_ok r env req) (rolloutRestartDeployment env kc ns name at)"
    by (simp add: rolloutRestartDeployment_def workload_def)
  then show ?thesis
    unfolding restart_once_def
    using assms(1)
    by (auto intro!: ensures_after [of _ "rolloutRestartDeployment env kc ns name at"] ensures_case_result ensures_ret
        ensures_try [OF ensures_kar_annotation [OF assms(1,2)]] ensures_after emits_when emits_kar_event split: prod.splits)
qed

lemma trimmed_annotation_keys:
  "list_all (\<lambda>k. TrimSpace k = k) kar_annotation_keys"
  by code_simp

lemma annotation_key:
  "k \<in> set kar_annotation_keys \<Longrightarrow> TrimSpace k \<in> set kar_annotation_keys"
  using trimmed_annotation_keys by (auto simp: list_all_iff)

lemma emits_restarts:
  assumes "answered env c"
    and "coredns \<Longrightarrow> fargate_active env (om_Namespace (cl_meta c)) (safeFargateProfileBaseName capi @ ''-coredns'')"
    and "karp \<Longrightarrow> fargate_active env (om_Namespace (cl_meta c)) (safeFargateProfileBaseName capi @ ''-karpenter'')"
    and "flux \<Longrightarrow> chart_ready env (om_Namespace (cl_meta c)) capi"
  shows "emits (kar_call_ok r env req) (ensureWorkloadRolloutRestarts env c capi coredns karp flux)"
proof -
  let ?Q = "kar_call_ok r env req" and ?R = "case_sum (\<lambda>_. True) (\<lambda>x. answered env (fst x))"
  let ?b = "coredns \<and> \<not> hasNonEmptyAnnotation (om_Annotations (cl_meta c)) coreDNSRolloutRestartedAtAnnotationKey"
  let ?b' = "flux \<and> karp \<and> \<not> hasNonEmptyAnnotation (om_Annotations (cl_meta c)) karpenterRolloutRestartedAtAnnotationKey"
  have one: "ensures ?Q ?R (if ?b then restart_once env kc ''kube-system'' ''coredns'' coreDNSRolloutRestartedAtAnnotationKey at c'
      else ret (Inr (c', False)))" if "answered env c'" for kc at c'
    using that assms by (auto intro!: ensures_ret ensures_restart [of _ _ _ c capi] annotation_key
        simp: kar_annotation_keys_def restart_due_def Let_def)
  have two: "ensures ?Q ?R (if ?b' then restart_once env kc ''karpenter'' ''karpenter'' karpenterRolloutRestartedAtAnnotationKey at c'
      else ret (Inr (c', False)))" if "answered env c'" for kc at c'
    using that assms by (auto intro!: ensures_ret ensures_restart [of _ _ _ c capi] annotation_key
        simp: kar_annotation_keys_def restart_due_def Let_def)
  have run: "ensures ?Q (\<lambda>_. True)
     (try_bind (if ?b then restart_once env kc ''kube-system'' ''coredns'' coreDNSRolloutRestartedAtAnnotationKey at c
         else ret (Inr (c, False))) (\<lambda>(owner1, needs1).
      try_bind (if ?b' then restart_once env kc ''karpenter'' ''karpenter'' karpenterRolloutRestartedAtAnnotationKey at owner1
         else ret (Inr (owner1, False))) (\<lambda>(owner2, needs2).
       ret (Inr (owner2, needs1 \<or> needs2)))))" for kc at
    by (rule ensures_try [OF one [OF assms(1)]]) (auto intro!: ensures_try [OF two] ensures_ret)
  show ?thesis
    unfolding ensureWorkloadRolloutRestarts_def Let_def
    by (intro emits_if emits_ret emits_try emits_kubeconfig emits_case_prod emits_case_option emits_case_sum emits_new_client
        emits_bind emits_performI run [folded emits_ensures]) simp_all
qed

lemma ensures_kar_finish:
  assumes "answered env c" "kar_durations r" "0 < d"
    and "coredns \<Longrightarrow> fargate_active env (om_Namespace (cl_meta c)) (safeFargateProfileBaseName (kn_capi n) @ ''-coredns'')"
    and "karp \<Longrightarrow> fargate_active env (om_Namespace (cl_meta c)) (safeFargateProfileBaseName (kn_capi n) @ ''-karpenter'')"
    and "flux \<Longrightarrow> chart_ready env (om_Namespace (cl_meta c)) (kn_capi n)"
  shows "ensures (kar_call_ok r env req) comes_back (kar_finish r env c n coredns karp flux d)"
  unfolding kar_finish_def kar_now_def Let_def
  using assms(3) kar_durations_pos [OF assms(2)]
  by (auto intro!: ensures_after emits_restarts [OF assms(1,4-6)] emits_intros emits_kar_event ensures_ret
      split: sum.splits prod.splits)

lemma ensures_kar_node_pool:
  assumes "kar_laws env" "answered env c" "kar_durations r" "ensures (kar_call_ok r env req) comes_back rest"
  shows "ensures (kar_call_ok r env req) comes_back (kar_node_pool r env c n i groups rest)"
  unfolding kar_node_pool_def
  using assms by (auto intro!: ensures_after emits_node_pool ensures_kar_backoff ensures_ret split: sum.splits nodepool_error.splits)

lemma ensures_fargate:
  "ensures (kar_call_ok r env req) (case_sum (\<lambda>_. True) (\<lambda>b. b \<longrightarrow> fargate_active env ns name)) (isACKFargateProfileActive env ns name)"
  unfolding isACKFargateProfileActive_def
  by (auto intro!: ensures_bind [OF ensures_got] ensures_ret exI simp: fargate_active_def split: sum.splits)

lemma ensures_kar_deliver:
  assumes "kar_laws env" "answered env c" "kar_durations r" "0 < d"
  shows "ensures (kar_call_ok r env req) comes_back (kar_deliver r env c n i k groups d)"
  unfolding kar_deliver_def Let_def
  using assms kar_durations_pos [OF assms(3)]
  by (auto intro!: ensures_try [OF ensures_fargate] ensures_after emits_when emits_kar_event ensures_case_result ensures_kar_backoff
      ensures_try [OF ensures_kar_flux] ensures_kar_node_pool ensures_kar_finish)

lemma ensures_kar_bootstrap:
  assumes "kar_laws env" "answered env c" "kar_durations r"
  shows "ensures (kar_call_ok r env req) comes_back (kar_bootstrap r env c n i k)"
  unfolding kar_bootstrap_def Let_def
  using assms kar_durations_pos [OF assms(3)]
  by (auto intro!: ensures_after emits_when emits_kar_event ensures_kar_security_group ensures_case_result ensures_ret
      ensures_kar_thumbprints ensures_kar_resources ensures_kar_deliver)

lemma emits_validate: "emits (kar_call_ok r env req) (kar_validateFargateSubnets env region ids)"
  unfolding kar_validateFargateSubnets_def validateFargateSubnets_def load_aws_config_def describe_subnets_def
    describe_route_tables_def route_tables_of_def Let_def
  by (auto intro!: emits_intros split: option.splits sum.splits prod.splits)

lemma ensures_kar_subnets:
  assumes "kar_laws env" "answered env c" "kar_durations r"
  shows "ensures (kar_call_ok r env req) comes_back (kar_subnets r env c n i k)"
proof -
  have keys: "TrimSpace RegionAnnotationKey \<in> set kar_annotation_keys" "TrimSpace EKSClusterNameAnnotationKey \<in> set kar_annotation_keys"
    by (rule annotation_key, simp add: kar_annotation_keys_def)+
  show ?thesis
    unfolding kar_subnets_def
    using assms
    by (auto intro!: ensures_try [OF ensures_kar_annotation] ensures_after [OF emits_validate] ensures_case_result ensures_kar_backoff
        ensures_after emits_when emits_kar_event ensures_kar_bootstrap keys)
qed

lemma ensures_kar_enabled:
  assumes "kar_laws env" "answered env c" "kar_durations r"
  shows "ensures (kar_call_ok r env req) comes_back (kar_enabled r env c n)"
  unfolding kar_enabled_def
  using assms
  by (auto simp: Let_def eks_get_def intro!: ensures_try [OF ensures_kar_finalizer] ensures_try [OF ensures_kar_label] ensures_case_result ensures_ret
      ensures_kar_backoff ensures_after ensures_kar_subnets split: sum.splits prod.splits)

section \<open>The deletion\<close>

lemma ensures_conj: "ensures Q R m \<Longrightarrow> ensures Q S m \<Longrightarrow> ensures Q (\<lambda>a. R a \<and> S a) m"
  by (fastforce simp: ensures_def)

lemma ensures_outcome: "emits Q m \<Longrightarrow> ensures Q (\<lambda>x. \<exists>h. fst (run_state m h) = x) m"
  by (auto simp: emits_def ensures_def)

lemma emits_deletion_names: "emits (kar_call_ok r env req) (deletion_names env c capi eks ack)"
  unfolding deletion_names_def readWorkloadKubeconfigMetadata_def eks_get_def Let_def
  by (auto intro!: emits_intros split: sum.splits option.splits prod.splits)

lemma named_by_secretI:
  "ee_getSecret env h (object_key ns n) = Inr s \<Longrightarrow> SecretName capi = Inr n \<Longrightarrow>
   named_by_secret env ns capi (TrimSpace (str_get (om_Annotations (se_meta s)) EKSClusterNameAnnotationKey))"
  unfolding named_by_secret_def by (intro exI [of _ h] exI [of _ "object_key ns n"] exI [of _ s]) (simp add: object_key_def)

lemma ensures_secret_metadata:
  "ensures (kar_call_ok r env req)
     (case_sum (\<lambda>_. True) (case_option True (\<lambda>(region, name). named_by_secret env ns capi name)))
     (readWorkloadKubeconfigMetadata env ns capi)"
proof -
  have "ensures (kar_call_ok r env req)
      (\<lambda>got. case got of Inl _ \<Rightarrow> True | Inr s \<Rightarrow> \<exists>h. ee_getSecret env h k = Inr s) (perform (EksGetSecret k) (\<lambda>h. ee_getSecret env h k))" for k
    by (rule ensures_perform) (auto split: sum.split)
  note got = this
  show ?thesis
    unfolding readWorkloadKubeconfigMetadata_def
    by (auto intro!: ensures_case_result ensures_ret ensures_bind [OF got] intro: named_by_secretI split: sum.splits)
qed

lemma ensures_deletion_names:
  assumes "resolveClusterNames c = (capi, eks, ack)"
  shows "ensures (kar_call_ok r env req) (\<lambda>(region, name). deletion_outcome env c region name \<and> eks_name_of env c name)
    (deletion_names env c capi eks ack)"
proof -
  have "ensures (kar_call_ok r env req) (\<lambda>(region, name). eks_name_of env c name) (deletion_names env c capi eks ack)"
    unfolding deletion_names_def eks_get_def Let_def
  proof (rule ensures_bind [where R = "\<lambda>(region, name). eks_name_of env c name"], goal_cases)
    case 1
    show ?case
    proof (cases "TrimSpace (resolveRegion (ee_lib env) c None) = ''''")
      case False
      then show ?thesis by (auto intro!: ensures_ret simp: eks_name_of_def assms)
    next
      case True
      then show ?thesis
        by (auto intro!: ensures_bind [OF ensures_secret_metadata] ensures_ret
            simp: eks_name_of_def assms split: sum.splits option.splits)
    qed
  next
    case (2 x)
    then show ?case
      by (auto intro!: ensures_after emits_intros ensures_ret split: sum.splits)
  qed
  from ensures_conj [OF this ensures_outcome [OF emits_deletion_names]]
  show ?thesis
    by (rule ensures_weaken) (auto simp: deletion_outcome_def assms)
qed

lemma emits_suspend:
  assumes "kar_laws env" "deleting r env req c"
  shows "emits (kar_call_ok r env req) (suspendFluxResource env ns name g)"
proof -
  have ok: "kar_call_ok r env req (EksPatch u u')"
    if u: "ee_get env h g (object_key ns name) = Inr u" "isManagedByBootstrapper (om_Annotations (un_meta u))"
      "popMutationError (mustSetNestedField (ee_lib env) (JBool True) [''spec'', ''suspend''] u) = Inr u'" for h u u'
  proof -
    obtain m where "spec_of (un_Object u) = Some m" "u' = u\<lparr>un_Object := fmupd ''spec'' (JObj (fmupd ''suspend'' (JBool True) m)) (un_Object u)\<rparr>"
      using pop_set_spec [of "ee_lib env" "[(''suspend'', JBool True)]" u u'] assms(1) u(3) by (auto simp: kar_laws_def)
    then show ?thesis using u assms(2) by (auto simp: kar_ok_defs suspended_write_def)
  qed
  show ?thesis
    unfolding suspendFluxResource_def eks_get_def eks_write_def
    by (auto intro!: emits_intros emits_query intro: ok)
qed

lemma emits_suspend_flux:
  assumes "kar_laws env" "deleting r env req c"
  shows "emits (kar_call_ok r env req) (suspendFluxKarpenterOnDelete env c' capi)"
  unfolding suspendFluxKarpenterOnDelete_def Let_def
  by (intro emits_try emits_suspend [OF assms] emits_ret)

lemma emits_delete_collections:
  assumes "deleting r env req c" "set gs \<subseteq> {karpenterNodePoolGVR, karpenterNodeClaimGVR, karpenterEC2NodeClassGVR}"
  shows "emits (kar_call_ok r env req) (delete_collections env kc gs)"
  using assms(2)
proof (induction gs)
  case (Cons g gs)
  have "kar_call_ok r env req (Workload (DeleteCollection kc g))"
    using assms(1) Cons.prems by (auto simp: kar_ok_defs workload_call_ok_def)
  then show ?case
    using Cons by (auto simp: deleteCollection_def workload_def intro!: emits_intros split: sum.splits)
qed simp

lemma emits_stop:
  assumes "deleting r env req c"
  shows "emits (kar_call_ok r env req) (stopWorkloadKarpenterProvisioning write r env c' capi region eks ack)"
proof -
  have "kar_call_ok r env req (Workload (PatchDeployment kc karpenterNamespace karpenterDeploymentName (scale_patch 0)))" for kc
    using assms by (auto simp: kar_ok_defs workload_call_ok_def karpenterNamespace_def karpenterDeploymentName_def)
  then show ?thesis
    unfolding stopWorkloadKarpenterProvisioning_def getWorkloadRESTConfig_def token_rest_config_def scaleDeployment_def
      workload_def eks_get_def Let_def
    by (auto intro!: emits_intros emits_kubeconfig emits_new_client emits_delete_collections [OF assms]
        split: prod.splits option.splits sum.splits)
qed

lemma ensures_load_aws [kar_intros]: "emits (kar_call_ok r env req) (load_aws_config env region)"
  unfolding load_aws_config_def by (auto intro!: emits_intros)

lemma no_instancesI:
  "all_pages ''describe instances'' (ee_instancePages env h region name) = Inr reservations \<Longrightarrow>
   to_terminate (concat reservations) = [] \<Longrightarrow> shutting_down (concat reservations) = [] \<Longrightarrow> no_instances env region name"
  unfolding no_instances_def by blast

lemma no_interfacesI:
  "all_pages ''describe network interfaces'' (ee_networkInterfacePages env h region sgid) = Inr nis \<Longrightarrow>
   orphan_ids nis = [] \<Longrightarrow> no_interfaces env region sgid"
  unfolding no_interfaces_def by blast

lemma ensures_instances:
  assumes "deleting r env req c" "eks_name_of env c name"
  shows "ensures (kar_call_ok r env req)
    (case_sum (\<lambda>_. True) (\<lambda>(done, x). done \<longrightarrow> no_instances env (TrimSpace region) (TrimSpace name)))
    (cleanupKarpenterEC2Instances env region name)"
proof -
  let ?Q = "kar_call_ok r env req" and ?region = "TrimSpace region" and ?name = "TrimSpace name"
  have terminate: "emits ?Q (terminate_batches env ?region (to_terminate (concat reservations)) 0)"
    if "all_pages ''describe instances'' (ee_instancePages env h ?region ?name) = Inr reservations" for h reservations
    by (rule emits_terminate_batches)
      (use assms that instances_of_clusterI [OF that] in \<open>auto simp: kar_ok_defs aws_call_ok_def\<close>)
  have pages: "ensures ?Q (\<lambda>pages. \<exists>h. pages = ee_instancePages env h ?region ?name)
      (perform (Aws (DescribeInstances ?region ?name)) (\<lambda>h. ee_instancePages env h ?region ?name))"
    by (rule ensures_perform) auto
  show ?thesis
    unfolding cleanupKarpenterEC2Instances_def Let_def
    by (auto intro!: ensures_ret ensures_try_after [OF ensures_load_aws] ensures_bind [OF pages] ensures_case_result
        ensures_try_after [OF terminate] no_instancesI)
qed

lemma ensures_terminate_attempts:
  assumes "deleting r env req c" "eks_name_of env c name"
  shows "ensures (kar_call_ok r env req)
    (case_sum (\<lambda>_. True) (\<lambda>done. done \<longrightarrow> no_instances env (TrimSpace region) (TrimSpace name)))
    (terminate_attempts env region name k)"
proof (induction k)
  case 0
  show ?case by (simp add: ensures_ret)
next
  case (Suc k)
  show ?case
    unfolding terminate_attempts.simps
    by (rule ensures_try [OF ensures_instances [OF assms]])
      (auto intro!: ensures_ret ensures_after emits_when ensures_weaken [OF Suc.IH])
qed

lemma ensures_interfaces:
  assumes "deleting r env req c" "own_security_group env c sgid" "TrimSpace sgid = sgid"
  shows "ensures (kar_call_ok r env req)
    (case_sum (\<lambda>_. True) (\<lambda>(done, x). done \<longrightarrow> no_interfaces env (TrimSpace region) sgid))
    (cleanupOrphanCNINetworkInterfaces env region sgid)"
proof -
  let ?Q = "kar_call_ok r env req" and ?region = "TrimSpace region"
  have delete: "emits ?Q (delete_interfaces env ?region 0 (orphan_ids nis))"
    if "all_pages ''describe network interfaces'' (ee_networkInterfacePages env h ?region sgid) = Inr nis" for h nis
    by (rule emits_delete_interfaces)
      (use assms that orphan_of_groupI [OF that] in \<open>auto simp: kar_ok_defs aws_call_ok_def\<close>)
  have pages: "ensures ?Q (\<lambda>pages. \<exists>h. pages = ee_networkInterfacePages env h ?region sgid)
      (perform (Aws (DescribeNetworkInterfaces ?region sgid)) (\<lambda>h. ee_networkInterfacePages env h ?region sgid))"
    by (rule ensures_perform) auto
  show ?thesis
    unfolding cleanupOrphanCNINetworkInterfaces_def Let_def assms(3)
    by (auto intro!: ensures_ret ensures_try_after [OF ensures_load_aws] ensures_bind [OF pages] ensures_case_result
        ensures_try_after [OF delete] no_interfacesI)
qed

lemma ensures_orphans:
  assumes "deleting r env req c" "TrimSpace region \<noteq> ''''"
  shows "ensures (kar_call_ok r env req)
    (case_sum (\<lambda>_. True) (\<lambda>(done, x). done \<longrightarrow> no_orphans env c (TrimSpace region)))
    (cleanupOrphanCNINetworkInterfacesForNodeSecurityGroup env c region)"
proof -
  let ?k = "object_key (om_Namespace (cl_meta c)) (node_sg_name c)"
  have got: "ensures (kar_call_ok r env req) (\<lambda>got. \<exists>h. got = ee_get env h ackSecurityGroupGVK ?k) (eks_get env ackSecurityGroupGVK ?k)"
    unfolding eks_get_def by (rule ensures_perform) auto
  show ?thesis
    unfolding cleanupOrphanCNINetworkInterfacesForNodeSecurityGroup_def Let_def using assms(2)
  proof (simp only: if_False TrimSpace_idem, intro ensures_bind [OF got], elim exE, goal_cases)
    case (1 got h)
    have orphans: "no_orphans env c (TrimSpace region)" if "case ee_get env h ackSecurityGroupGVK ?k of
        Inl e \<Rightarrow> is_not_found e \<or> isNoMatchError e
      | Inr sg \<Rightarrow>
          let sgid = TrimSpace (fst (readNestedString (ee_lib env) (un_Object sg) [''status'', ''id''])) in
          \<not> isManagedByBootstrapper (om_Annotations (un_meta sg)) \<or> sgid = '''' \<or> no_interfaces env (TrimSpace region) sgid"
      using that unfolding no_orphans_def by blast
    show ?case
    proof (cases got)
      case (Inl e)
      then show ?thesis using orphans 1 by (auto intro!: ensures_ret)
    next
      case (Inr sg)
      let ?id = "TrimSpace (fst (readNestedString (ee_lib env) (un_Object sg) [''status'', ''id'']))"
      have sg: "ee_get env h ackSecurityGroupGVK ?k = Inr sg" using 1 Inr by simp
      have clean: "ensures (kar_call_ok r env req)
          (case_sum (\<lambda>_. True) (\<lambda>(done, x). done \<longrightarrow> no_orphans env c (TrimSpace region)))
          (cleanupOrphanCNINetworkInterfaces env (TrimSpace region) ?id)"
        if "isManagedByBootstrapper (om_Annotations (un_meta sg))" "?id \<noteq> ''''"
        by (rule ensures_weaken [OF ensures_interfaces [OF assms(1) own_security_groupI [OF sg that] TrimSpace_idem]])
          (use orphans sg in \<open>auto split: sum.splits\<close>)
      show ?thesis
        using Inr clean orphans sg by (auto intro!: ensures_ret)
    qed
  qed
qed

lemma ensures_clean_interfaces:
  assumes "deleting r env req c" "TrimSpace region \<noteq> ''''" "kar_durations r"
  shows "ensures (kar_call_ok r env req)
    (\<lambda>(x, done). if done then no_orphans env c (TrimSpace region) else 0 < requeue_after x) (clean_interfaces r env c region)"
  unfolding clean_interfaces_def Let_def
  using kar_durations_pos(1) [OF assms(3)]
  by (auto intro!: ensures_bind [OF ensures_orphans [OF assms(1,2)]] ensures_after emits_kar_event emits_when ensures_ret
      split: sum.splits)

lemma cleanedI:
  "deletion_outcome env c region name \<Longrightarrow> TrimSpace region = '''' \<or> TrimSpace name = '''' \<or>
     no_instances env (TrimSpace region) (TrimSpace name) \<and> no_orphans env c (TrimSpace region) \<Longrightarrow> cleaned env c"
  unfolding cleaned_def by blast

definition deletion_ends :: "eks_env \<Rightarrow> cluster \<Rightarrow> ctrl_result \<times> bool \<Rightarrow> bool" where
  "deletion_ends env c x \<longleftrightarrow> (if snd x then cleaned env c else 0 < requeue_after (fst x))"

lemma deletion_ends_simps [simp]:
  "deletion_ends env c (x, True) \<longleftrightarrow> cleaned env c" "deletion_ends env c (x, False) \<longleftrightarrow> 0 < requeue_after x"
  by (simp_all add: deletion_ends_def)

lemma ensures_deleting:
  assumes "kar_laws env" "deleting r env req c" "kar_durations r" "resolveClusterNames c = (capi, eks, ack)"
  shows "ensures (kar_call_ok r env req) (deletion_ends env c)
    (reconcileDeletingCluster write r env c capi eks ack)"
proof -
  let ?Q = "kar_call_ok r env req" and ?R = "deletion_ends env c"
  note again = kar_durations_pos(1) [OF assms(3)]
  have finish: "ensures ?Q ?R (clean_interfaces r env c region)"
    if "deletion_outcome env c region name" "TrimSpace region \<noteq> ''''" "no_instances env (TrimSpace region) (TrimSpace name)" for region name
    by (rule ensures_weaken [OF ensures_clean_interfaces [OF assms(2) that(2) assms(3)]])
      (use cleanedI [OF that(1)] that(3) in \<open>auto simp: deletion_ends_def split: if_splits\<close>)
  have instances: "ensures ?Q ?R (bind_eff (terminate_attempts env region name 3) (\<lambda>terminated. case terminated of
          Inl e \<Rightarrow> ret (requeue_in (kar_failureBackoff r), False)
        | Inr False \<Rightarrow> ret (requeue_in (kar_failureBackoff r), False)
        | Inr True \<Rightarrow> clean_interfaces r env c region))"
    if "deletion_outcome env c region name" "eks_name_of env c name" "TrimSpace region \<noteq> ''''" for region name
    by (rule ensures_bind [OF ensures_terminate_attempts [OF assms(2) that(2)]])
      (use finish [OF that(1,3)] again in \<open>auto intro!: ensures_ret split: sum.splits bool.splits\<close>)
  have names: "ensures ?Q ?R (bind_eff (deletion_names env c capi eks ack) (\<lambda>(region, eksClusterName).
      bind_eff (stopWorkloadKarpenterProvisioning write r env c capi region eksClusterName ack) (\<lambda>_.
      if TrimSpace region = '''' then ret (no_requeue, True)
      else if TrimSpace eksClusterName = '''' then ret (no_requeue, True)
      else bind_eff (terminate_attempts env region eksClusterName 3) (\<lambda>terminated. case terminated of
          Inl e \<Rightarrow> ret (requeue_in (kar_failureBackoff r), False)
        | Inr False \<Rightarrow> ret (requeue_in (kar_failureBackoff r), False)
        | Inr True \<Rightarrow> clean_interfaces r env c region))))"
    by (rule ensures_bind [OF ensures_deletion_names [OF assms(4)]])
      (auto intro!: ensures_after [OF emits_stop [OF assms(2)]] ensures_ret instances cleanedI)
  show ?thesis
    unfolding reconcileDeletingCluster_def Let_def
    by (rule ensures_after [OF emits_suspend_flux [OF assms(1,2)]])
      (use again names in \<open>auto intro!: ensures_ret ensures_after emits_when emits_kar_event split: sum.split\<close>)
qed

lemma ensures_remove_finalizer:
  assumes "kar_laws env" "deleting r env req c" "cleaned env c"
  shows "emits (kar_call_ok r env req) (removeCleanupFinalizer r env c)"
proof -
  obtain fs where fs: "lib_RemoveFinalizer (ee_lib env) (cl_meta c) (cleanupFinalizer r) = (cl_meta c)\<lparr>om_Finalizers := fs\<rparr>"
    "set fs = set (om_Finalizers (cl_meta c)) - {cleanupFinalizer r}"
    using assms(1) unfolding kar_laws_def finalizer_laws_def by metis
  have same: "set_meta (\<lambda>m. lib_RemoveFinalizer (ee_lib env) m (cleanupFinalizer r)) c = set_meta (\<lambda>m. m\<lparr>om_Finalizers := fs\<rparr>) c"
    using fs(1) by (simp add: set_meta_def)
  have "kar_patch_ok r c (set_meta (\<lambda>m. m\<lparr>om_Finalizers := fs\<rparr>) c)"
    using fs(2) by (auto simp: kar_patch_ok_def)
  moreover have "answered env c" using assms(2) by (auto simp: deleting_def answered_def)
  ultimately have "kar_call_ok r env req (EksPatchCluster c (set_meta (\<lambda>m. m\<lparr>om_Finalizers := fs\<rparr>) c))"
    using assms(2,3) by (simp add: kar_ok_defs)
  then show ?thesis
    unfolding removeCleanupFinalizer_def patch_finalizers_def same patch_cluster_def by (auto intro!: emits_intros)
qed

section \<open>Whole runs\<close>

definition run_ends :: "karpenter \<Rightarrow> eks_env \<Rightarrow> cluster \<Rightarrow> ctrl_result result \<Rightarrow> bool" where
  "run_ends r env c res \<longleftrightarrow>
     (if om_DeletionTimestamp (cl_meta c) \<noteq> None
      then cleanupFinalizer r \<in> set (om_Finalizers (cl_meta c)) \<longrightarrow> comes_back res \<or> cleaned env c
      else isKarpenterEnabled c \<longrightarrow> comes_back res)"

lemma ensures_kar_run:
  assumes "kar_laws env" "kar_durations r" "ee_getCluster env h req = Inr c"
  shows "ensures (kar_call_ok r env req) (run_ends r env c)
    (let (capi, eks, ack) = resolveClusterNames c in
         if om_DeletionTimestamp (cl_meta c) \<noteq> None then
           if \<not> lib_ContainsFinalizer (ee_lib env) (cl_meta c) (cleanupFinalizer r) then ret (Inr no_requeue)
           else bind_eff (reconcileDeletingCluster write r env c capi eks ack) (\<lambda>(result, done).
             if \<not> done then ret (Inr result)
             else try_bind (removeCleanupFinalizer r env c) (\<lambda>_. ret (Inr no_requeue)))
         else if \<not> isKarpenterEnabled c then ret (Inr no_requeue)
         else kar_enabled r env c \<lparr>kn_capi = capi, kn_eks = eks, kn_ack = ack\<rparr>)"
proof -
  obtain capi eks ack where names: "resolveClusterNames c = (capi, eks, ack)" by (metis prod_cases3)
  have answered: "answered env c" using assms(3) by (auto simp: answered_def)
  have has: "lib_ContainsFinalizer (ee_lib env) m f \<longleftrightarrow> f \<in> set (om_Finalizers m)" for m f
    using assms(1) unfolding kar_laws_def finalizer_laws_def by blast
  show ?thesis
  proof (cases "om_DeletionTimestamp (cl_meta c) \<noteq> None")
    case False
    then show ?thesis
      using ensures_weaken [OF ensures_kar_enabled [OF assms(1) answered assms(2)], of "run_ends r env c"]
      by (auto simp: names run_ends_def intro!: ensures_ret)
  next
    case True
    show ?thesis
    proof (cases "cleanupFinalizer r \<in> set (om_Finalizers (cl_meta c))")
      case False
      then show ?thesis using True by (simp add: names has ensures_ret run_ends_def)
    next
      case fin: True
      then have del: "deleting r env req c" using True assms(3) by (auto simp: deleting_def)
      have "ensures (kar_call_ok r env req) (run_ends r env c)
          (bind_eff (reconcileDeletingCluster write r env c capi eks ack) (\<lambda>(result, done).
             if \<not> done then ret (Inr result)
             else try_bind (removeCleanupFinalizer r env c) (\<lambda>_. ret (Inr no_requeue))))"
        by (rule ensures_bind [OF ensures_deleting [OF assms(1) del assms(2) names]])
          (use True in \<open>auto simp: run_ends_def intro!: ensures_ret ensures_try_after [OF ensures_remove_finalizer [OF assms(1) del]]\<close>)
      then show ?thesis using True fin by (simp add: names has)
    qed
  qed
qed

lemma wp_kar_Reconcile:
  assumes "kar_laws env" "kar_durations r"
  shows "wp (kar_Reconcile write r env req) (\<lambda>res h. list_all (kar_call_ok r env req) h \<and>
    (case ee_getCluster env [] req of Inl _ \<Rightarrow> True | Inr c \<Rightarrow> run_ends r env c res)) []"
proof (cases "ee_getCluster env [] req")
  case (Inl e)
  then show ?thesis by (simp add: kar_Reconcile_def kar_run_def)
next
  case (Inr c)
  note run = wp_mono [OF wp_ensures [OF ensures_kar_run [OF assms Inr, of "write"]]]
  show ?thesis
    unfolding kar_Reconcile_def kar_run_def wp_bind wp_perform Inr
    by (simp only: sum.case append_Nil) (rule run, auto)
qed


text \<open>
  C17. The finalizer of a cluster is taken away only from a cluster that is being deleted, and only
  after its region or EKS name could not be found out, or AWS listed no instance of it any more,
  neither running nor shutting down, and no orphaned interface of its security group was left. A run
  for such a cluster that does not get there fails or asks to be called again.
\<close>

theorem finalizer_kept_until_clean:
  fixes env :: eks_env and r :: karpenter
  assumes "kar_laws env" "0 \<le> kr_FailureBackoff r" "0 \<le> kr_SteadyStateRequeue r"
  shows "list_all (finalizer_ok r env req) (snd (run_state (kar_Reconcile marshal_config r env req) [])) \<and>
    (case ee_getCluster env [] req of
       Inl _ \<Rightarrow> True
     | Inr c \<Rightarrow> om_DeletionTimestamp (cl_meta c) \<noteq> None \<and> cleanupFinalizer r \<in> set (om_Finalizers (cl_meta c)) \<longrightarrow>
         comes_back (fst (run_state (kar_Reconcile marshal_config r env req) [])) \<or> cleaned env c)"
  using wp_kar_Reconcile [of env r marshal_config req] assms
  by (auto simp: wp_def kar_call_ok_def run_ends_def list_all_iff split: prod.splits sum.splits)

text \<open>
  A run for a cluster with Karpenter enabled that is not being deleted always comes back: it
  fails, so that the queue retries it, or asks to be called again after a positive time.
\<close>

theorem karpenter_comes_back:
  fixes env :: eks_env and r :: karpenter
  assumes "kar_laws env" "0 \<le> kr_FailureBackoff r" "0 \<le> kr_SteadyStateRequeue r"
    and "ee_getCluster env [] req = Inr c" "om_DeletionTimestamp (cl_meta c) = None" "isKarpenterEnabled c"
  shows "comes_back (fst (run_state (kar_Reconcile marshal_config r env req) []))"
  using wp_kar_Reconcile [of env r marshal_config req] assms
  by (auto simp: wp_def run_ends_def split: prod.splits)

section \<open>Witnesses\<close>

definition demo_enabled_cluster :: cluster where
  "demo_enabled_cluster =
     set_meta (\<lambda>m. m\<lparr>om_Labels := fmupd karpenterEnableLabelKey karpenterEnableLabelValue fmempty\<rparr>) demo_eks_cluster"

definition demo_deleted_cluster :: cluster where
  "demo_deleted_cluster =
     set_meta (\<lambda>m. m\<lparr>om_DeletionTimestamp := Some 1, om_Finalizers := [karpenterCleanupFinalizer]\<rparr>) demo_eks_cluster"

lemma demo_kar_laws: "kar_laws (demo_eks_env\<lparr>ee_getCluster := f\<rparr>)"
  using ref_lib_laws by (simp add: kar_laws_def demo_eks_env_def apilib_laws_def)


theorem finalizer_kept_until_clean_witness:
  "comes_back (fst (run_state (kar_Reconcile (\<lambda>_. Inr '''') demo_karpenter
      (demo_eks_env\<lparr>ee_getCluster := \<lambda>_ _. Inr demo_deleted_cluster\<rparr>) (object_key ''ns'' ''demo'')) [])) \<or>
   cleaned (demo_eks_env\<lparr>ee_getCluster := \<lambda>_ _. Inr demo_deleted_cluster\<rparr>) demo_deleted_cluster"
proof -
  have "cleanupFinalizer demo_karpenter = karpenterCleanupFinalizer"
    by (simp add: cleanupFinalizer_def demo_karpenter_def)
  then show ?thesis
    using finalizer_kept_until_clean [OF demo_kar_laws [of "\<lambda>_ _. Inr demo_deleted_cluster"], of demo_karpenter
        "object_key ''ns'' ''demo''" "\<lambda>_. Inr ''''"]
    by (simp add: demo_karpenter_def demo_deleted_cluster_def set_meta_def)
qed

theorem karpenter_comes_back_witness:
  "comes_back (fst (run_state (kar_Reconcile (\<lambda>_. Inr '''') demo_karpenter
      (demo_eks_env\<lparr>ee_getCluster := \<lambda>_ _. Inr demo_enabled_cluster\<rparr>) (object_key ''ns'' ''demo'')) []))"
proof (rule karpenter_comes_back [OF demo_kar_laws])
  show "isKarpenterEnabled demo_enabled_cluster"
    unfolding isKarpenterEnabled_def demo_enabled_cluster_def demo_eks_cluster_def new_meta_def set_meta_def by code_simp
qed (simp_all add: demo_karpenter_def demo_enabled_cluster_def demo_eks_cluster_def new_meta_def set_meta_def)

end
