(* ===== verification/KarpCalls.thy ===== *)
theory KarpCalls
  imports KarpSafety
begin

text \<open>
  What the EKS controllers do besides counting: a predicate of calls that holds of every call but
  those by which a run counts its outcome holds of all calls of the phases of a run. The phases of
  the Karpenter bootstrapper are gone through once, for every such predicate.
\<close>

section \<open>Counting an outcome\<close>

text \<open>The calls by which a run counts how it ended.\<close>

definition metered :: "eks_call \<Rightarrow> bool" where
  "metered w = (case w of RecordSuccessfulSync _ _ \<Rightarrow> True | RecordReconcileError _ \<Rightarrow> True | _ \<Rightarrow> False)"

lemma emits_upsert_managed:
  assumes "emits Q get" "\<And>y. emits Q (create y)" "\<And>y. emits Q (update y)" "\<And>y. emits Q (took y)"
  shows "emits Q (upsert_managed get create update took managed takeover mutate fresh)"
  unfolding upsert_managed_def Let_def
  by (intro emits_case_sum emits_if emits_try emits_bind emits_when emits_ret assms)

locale unmetered_calls =
  fixes Q :: "eks_call \<Rightarrow> bool"
  assumes unmetered: "\<not> metered w \<Longrightarrow> Q w"
begin

lemma calls [simp]:
  "Q (EksGetCluster k)" "Q (EksGet g k)" "Q (EksGetSecret k)" "Q (EksGetConfigMap k)"
  "Q (EksCreate u)" "Q (EksUpdate u)" "Q (EksPatch u u')" "Q (EksPatchCluster c c')"
  "Q (EksCreateConfigMap m)" "Q (EksUpdateConfigMap m)" "Q (EksCreateSecret s)" "Q (EksUpdateSecret s)"
  "Q (ShouldEmit a)" "Q (EksEvent k x y z)" "Q EksNow" "Q (RecordOwnershipConflict x y)"
  "Q (RecordTokenGenerationFailure x)" "Q (EksGenerateToken x y)"
  "Q (ValidateSubnets x ids)" "Q (ResolveThumbprints x)" "Q (Aws a')" "Q (Workload w)"
  by (simp_all add: unmetered metered_def)

lemma managed_upsert: "emits Q (upsertManagedUnstructured b env c g name fill)"
  unfolding upsertManagedUnstructured_def Let_def eks_get_def eks_write_def
  by (intro emits_intros emits_upsert_managed emits_eks_event) simp_all

section \<open>The phases of the Karpenter bootstrapper\<close>

lemma event [simp]: "emits Q (karpenter_event env c x y z)"
  unfolding karpenter_event_def by (rule emits_eks_event) simp_all

lemma backoff [simp]: "emits Q (kar_backoff r env c x y z)"
  unfolding kar_backoff_def by (auto intro!: emits_intros)

lemma conflict [simp]: "emits Q (kar_conflict r env c x y)"
  unfolding kar_conflict_def by (auto intro!: emits_intros)

lemma ensure: "emits Q (kar_ensure env c g name region fs)"
  unfolding kar_ensure_def by (rule managed_upsert)

lemma patches:
  "emits Q (ensureCleanupFinalizer r env c)" "emits Q (removeCleanupFinalizer r env c)"
  "emits Q (ensureClusterNameLabel env c)" "emits Q (ensureClusterAnnotation env c x y)"
  "emits Q (ensureTopologyStringSliceVariable env c x vs)"
  unfolding ensureCleanupFinalizer_def removeCleanupFinalizer_def patch_finalizers_def ensureClusterNameLabel_def
    ensureClusterAnnotation_def ensureTopologyStringSliceVariable_def patch_cluster_def Let_def
  by (auto intro!: emits_intros split: prod.splits sum.splits)

lemma aws:
  "emits Q (kar_validateFargateSubnets env region ids)" "emits Q (discoverVPCBySubnets env region ids)"
  "emits Q (resolveOIDCThumbprints env c url)" "emits Q (load_aws_config env region)"
  unfolding kar_validateFargateSubnets_def validateFargateSubnets_def load_aws_config_def describe_subnets_def
    describe_route_tables_def route_tables_of_def discoverVPCBySubnets_def resolveOIDCThumbprints_def
    defaultResolveOIDCThumbprints_def Let_def
  by (auto intro!: emits_intros split: option.splits sum.splits prod.splits list.splits)

lemma security_group: "emits Q (ensureNodeSecurityGroup env c region name ids)"
  unfolding ensureNodeSecurityGroup_def eks_get_def Let_def
  by (auto intro!: emits_intros aws ensure split: prod.splits sum.splits)

text \<open>The deletion.\<close>

lemma suspend: "emits Q (suspendFluxKarpenterOnDelete env c capi)"
  unfolding suspendFluxKarpenterOnDelete_def suspendFluxResource_def eks_get_def eks_write_def Let_def
  by (auto intro!: emits_intros)

lemma names: "emits Q (deletion_names env c capi eks ack)"
  unfolding deletion_names_def readWorkloadKubeconfigMetadata_def eks_get_def Let_def
  by (auto intro!: emits_intros split: sum.splits option.splits prod.splits)

lemma collections: "emits Q (delete_collections env kc gs)"
  by (induction gs) (auto simp: deleteCollection_def workload_def intro!: emits_intros split: sum.splits)

lemma stop: "emits Q (stopWorkloadKarpenterProvisioning write r env c capi region eks ack)"
  unfolding stopWorkloadKarpenterProvisioning_def getWorkloadRESTConfig_def token_rest_config_def scaleDeployment_def
    getWorkloadKubeconfigBytes_def new_client_def workload_def eks_get_def Let_def
  by (auto intro!: emits_intros collections split: prod.splits option.splits sum.splits)

lemma instances: "emits Q (cleanupKarpenterEC2Instances env region name)"
  unfolding cleanupKarpenterEC2Instances_def Let_def
  by (auto intro!: emits_intros aws emits_terminate_batches split: sum.splits prod.splits)

lemma attempts: "emits Q (terminate_attempts env region name j)"
  by (induction j) (auto intro!: emits_intros instances split: prod.splits)

lemma interfaces: "emits Q (clean_interfaces r env c region)"
  unfolding clean_interfaces_def Let_def
  by (intro emits_bind emits_cleanup_interfaces) (auto intro!: emits_intros split: sum.splits prod.splits)

lemma deleting: "emits Q (reconcileDeletingCluster write r env c capi eks ack)"
  unfolding reconcileDeletingCluster_def Let_def
  by (auto intro!: emits_intros suspend names stop attempts interfaces
      split: sum.splits bool.splits prod.splits)

text \<open>What is delivered to the workload cluster.\<close>

lemma flux: "emits Q (kar_flux r env c n values d)"
  unfolding kar_flux_def ensureFluxKarpenter_def eks_get_def Let_def
  by (auto intro!: emits_intros ensure event split: sum.splits)

lemma config_map: "emits Q (ensure_config_map env c name yaml)"
  unfolding ensure_config_map_def get_config_map_def eks_write_def Let_def
  by (auto intro!: emits_intros event split: sum.splits)

lemma node_pool: "emits Q (ensureDefaultNodePoolResources env c capi eks profile ids groups hop)"
  unfolding ensureDefaultNodePoolResources_def ensure_resource_set_def resolveNodePoolTemplateYAML_def
    get_config_map_def Let_def
  by (auto intro!: emits_intros config_map ensure event split: sum.splits)

lemma restart: "emits Q (restart_once env kc ns name key at c)"
  unfolding restart_once_def rolloutRestartDeployment_def workload_def
  by (auto intro!: emits_intros patches event split: sum.splits prod.splits)

lemma restarts: "emits Q (ensureWorkloadRolloutRestarts env c capi a b f)"
  unfolding ensureWorkloadRolloutRestarts_def getWorkloadKubeconfigBytes_def new_client_def Let_def
  by (auto intro!: emits_intros restart split: sum.splits prod.splits option.splits)

lemma fargate: "emits Q (isACKFargateProfileActive env ns name)"
  unfolding isACKFargateProfileActive_def eks_get_def
  by (auto intro!: emits_intros split: sum.splits)

text \<open>The phases that the rest of the run continues.\<close>

lemma step:
  assumes "emits Q ensure" "emits Q rest"
  shows "emits Q (kar_step r env c kind what name ensure rest)"
  unfolding kar_step_def by (intro emits_intros conflict assms)

lemma resources:
  assumes "emits Q rest"
  shows "emits Q (kar_resources r env c n k host thumbprints rest)"
  unfolding kar_resources_def kar_node_role_def kar_resource_defs Let_def
  by (auto intro!: step emits_intros ensure assms split: prod.splits)

lemma thumbprints:
  assumes "\<And>ts. emits Q (rest ts)"
  shows "emits Q (kar_thumbprints r env c url rest)"
  unfolding kar_thumbprints_def
  by (auto intro!: emits_intros aws backoff event assms split: sum.split thumbprint_error.split)

lemma node_group:
  assumes "\<And>c groups d. emits Q (rest c groups d)"
  shows "emits Q (kar_security_group r env c n i region d rest)"
  unfolding kar_security_group_def kar_inject_group_def
  by (auto intro!: emits_intros security_group patches backoff conflict event assms split: sum.split)

end

end
