(* ===== verification/Metrics.thy ===== *)
theory Metrics
  imports KarpCalls Rotator Ocm "HOL-Library.Multiset"
begin

text \<open>
  \<open>internal/controller/plugin/eks/metrics.go\<close>: the metrics of the EKS controllers, as the
  state that the calls of their runs change, and what the metrics then say of the runs.
\<close>

section \<open>The metrics\<close>

text \<open>
  Each vector has a value for each of its labels. A counter is a number of increments, a gauge the
  value last set; the library keeps them as floating point numbers, which are exact up to
  \<open>2 ^ 53\<close>.
\<close>

record metrics =
  reconcileErrorsTotal :: "string \<Rightarrow> nat"
  tokenGenerationFailuresTotal :: "string \<Rightarrow> nat"
  ownershipConflictsTotal :: "string \<times> string \<Rightarrow> nat"
  lastSuccessfulSyncUnix :: "string \<Rightarrow> int option"

definition no_metrics :: metrics where
  "no_metrics = \<lparr>reconcileErrorsTotal = (\<lambda>_. 0), tokenGenerationFailuresTotal = (\<lambda>_. 0),
     ownershipConflictsTotal = (\<lambda>_. 0), lastSuccessfulSyncUnix = (\<lambda>_. None)\<rparr>"

text \<open>What \<open>init\<close> registers, by name and labels; a name that is there already panics.\<close>

definition metrics_init :: "(string \<times> string list) list" where
  "metrics_init =
     [(''kany8s_eks_plugin_reconcile_errors_total'', [''controller'']),
      (''kany8s_eks_plugin_token_generation_failures_total'', [''controller'']),
      (''kany8s_eks_plugin_ownership_conflicts_total'', [''controller'', ''resource'']),
      (''kany8s_eks_plugin_last_successful_sync_unix_seconds'', [''controller''])]"

lemma metrics_registered_once: "distinct (map fst metrics_init)"
  by (simp add: metrics_init_def)

definition recordReconcileError :: "string \<Rightarrow> metrics \<Rightarrow> metrics" where
  "recordReconcileError controller m =
     (let l = TrimSpace controller in
      m\<lparr>reconcileErrorsTotal := (reconcileErrorsTotal m)(l := Suc (reconcileErrorsTotal m l))\<rparr>)"

definition recordTokenGenerationFailure :: "string \<Rightarrow> metrics \<Rightarrow> metrics" where
  "recordTokenGenerationFailure controller m =
     (let l = TrimSpace controller in
      m\<lparr>tokenGenerationFailuresTotal := (tokenGenerationFailuresTotal m)(l := Suc (tokenGenerationFailuresTotal m l))\<rparr>)"

definition recordOwnershipConflict :: "string \<Rightarrow> string \<Rightarrow> metrics \<Rightarrow> metrics" where
  "recordOwnershipConflict controller resource m =
     (let l = (TrimSpace controller, TrimSpace resource) in
      m\<lparr>ownershipConflictsTotal := (ownershipConflictsTotal m)(l := Suc (ownershipConflictsTotal m l))\<rparr>)"

text \<open>
  \<open>now.UTC().Unix()\<close>: the seconds since 1970, where a time is the number of nanoseconds
  since the first of January of the year 1.
\<close>

definition unix_seconds :: "time \<Rightarrow> int" where
  "unix_seconds t = t div 1000000000 - 62135596800"

definition recordSuccessfulSync :: "string \<Rightarrow> time \<Rightarrow> metrics \<Rightarrow> metrics" where
  "recordSuccessfulSync controller t m =
     m\<lparr>lastSuccessfulSyncUnix := (lastSuccessfulSyncUnix m)(TrimSpace controller \<mapsto> unix_seconds t)\<rparr>"

text \<open>What a call of a run does to the metrics of its process.\<close>

definition observe :: "eks_call \<Rightarrow> metrics \<Rightarrow> metrics" where
  "observe w = (case w of
       RecordReconcileError controller \<Rightarrow> recordReconcileError controller
     | RecordTokenGenerationFailure controller \<Rightarrow> recordTokenGenerationFailure controller
     | RecordOwnershipConflict controller resource \<Rightarrow> recordOwnershipConflict controller resource
     | RecordSuccessfulSync controller t \<Rightarrow> recordSuccessfulSync controller t
     | _ \<Rightarrow> id)"

definition errors_in :: "string \<Rightarrow> eks_call list \<Rightarrow> nat" where
  "errors_in l ws = length (filter (\<lambda>w. \<exists>x. w = RecordReconcileError x \<and> TrimSpace x = l) ws)"

lemma errors_in_simps [simp]:
  "errors_in l [] = 0" "errors_in l (ws @ vs) = errors_in l ws + errors_in l vs"
  "errors_in l (w # ws) = (if \<exists>x. w = RecordReconcileError x \<and> TrimSpace x = l then 1 else 0) + errors_in l ws"
  by (simp_all add: errors_in_def)

text \<open>The counter is the number of increments, in whatever order they are made.\<close>

lemma errors_observed:
  "reconcileErrorsTotal (fold observe ws m) l = reconcileErrorsTotal m l + errors_in l ws"
  by (induction ws arbitrary: m)
    (auto simp: observe_def recordReconcileError_def recordTokenGenerationFailure_def recordOwnershipConflict_def
      recordSuccessfulSync_def Let_def split: eks_call.splits)

lemma errors_in_mset: "mset ws = mset vs \<Longrightarrow> errors_in l ws = errors_in l vs"
  unfolding errors_in_def size_mset [symmetric] mset_filter by simp

section \<open>Runs and their errors\<close>

text \<open>A call other than the one that counts an error.\<close>

definition unfailed :: "eks_call \<Rightarrow> bool" where
  "unfailed w = (case w of RecordReconcileError _ \<Rightarrow> False | _ \<Rightarrow> True)"

lemma unfailed_sync [simp]: "unfailed (RecordSuccessfulSync x t)"
  by (simp add: unfailed_def)

interpretation unfailed: unmetered_calls unfailed
  by unfold_locales (simp add: unfailed_def metered_def split: eks_call.splits)

lemma unfailed_none: "list_all unfailed ws \<Longrightarrow> errors_in l ws = 0"
  by (auto simp: errors_in_def unfailed_def list_all_iff filter_empty_conv)

subsection \<open>The Karpenter bootstrapper\<close>

lemma unfailed_deliver: "emits unfailed (kar_deliver r env c n i k groups d)"
  unfolding kar_deliver_def kar_node_pool_def kar_finish_def kar_now_def Let_def
  by (auto intro!: emits_intros unfailed.fargate unfailed.flux unfailed.node_pool unfailed.restarts unfailed.backoff
      unfailed.event split: sum.split prod.splits nodepool_error.splits)

lemma unfailed_enabled: "emits unfailed (kar_enabled r env c n)"
  unfolding kar_enabled_def kar_subnets_def kar_bootstrap_def eks_get_def Let_def
  by (auto intro!: emits_intros unfailed.patches unfailed.aws unfailed.backoff unfailed.event unfailed.node_group
      unfailed.thumbprints unfailed.resources unfailed_deliver split: sum.split prod.splits)

lemma unfailed_kar_run: "emits unfailed (kar_run write r env req)"
  unfolding kar_run_def
  by (auto intro!: emits_intros unfailed.deleting unfailed.patches unfailed_enabled split: prod.splits)

subsection \<open>The rotator\<close>

lemma unfailed_secret: "emits unfailed (upsertManagedSecret env c name kc extra)"
  unfolding upsertManagedSecret_def eks_write_def Let_def
  by (intro emits_intros emits_upsert_managed) simp_all

lemma unfailed_rotator_event: "emits unfailed (rotator_event env c x y z)"
  unfolding rotator_event_def by (rule emits_eks_event) simp_all

lemma unfailed_rotator: "emits unfailed (rotator_body write r env req)"
  unfolding rotator_body_def rotate_def sync_secrets_def sync_exec_secret_def rotator_backoff_def rotator_now_def
    eks_get_def Let_def
  by (auto intro!: emits_intros unfailed_secret unfailed_rotator_event split: sum.split prod.splits)

subsection \<open>The OCM bootstrapper\<close>

lemma unfailed_ocm_event: "emits unfailed (ocm_event env c x y z)"
  unfolding ocm_event_def by (rule emits_eks_event) simp_all

lemma unfailed_ocm: "emits unfailed (ocm_Reconcile r env req)"
  unfolding ocm_Reconcile_def ocm_reconcile_enabled_def ocm_reconcile_ack_def ocm_reconcile_role_def ocm_backoff_def
    ensureOCMManagedClusterRole_def ocm_upsertManagedUnstructured_def ocm_ensureClusterNameLabel_def eks_get_def Let_def
  by (auto intro!: emits_intros unfailed.managed_upsert unfailed.patches unfailed_ocm_event split: sum.split prod.splits)

section \<open>What the counter says\<close>

text \<open>A run of one of the three EKS controllers; each meets the answers of an environment of its own.\<close>

datatype eks_run =
    RotatorRun "kube_config \<Rightarrow> string result" rotator eks_env object_key
  | KarpenterRun "kube_config \<Rightarrow> string result" karpenter eks_env object_key
  | OcmRun ocm eks_env object_key

definition outcome :: "eks_run \<Rightarrow> ctrl_result result \<times> eks_call list" where
  "outcome run = (case run of
       RotatorRun write r env req \<Rightarrow> run_state (rotator_Reconcile write r env req) []
     | KarpenterRun write r env req \<Rightarrow> run_state (kar_Reconcile write r env req) []
     | OcmRun r env req \<Rightarrow> run_state (ocm_Reconcile r env req) [])"

definition failed :: "eks_run \<Rightarrow> bool" where
  "failed run = isl (fst (outcome run))"

definition controller_of :: "eks_run \<Rightarrow> string" where
  "controller_of run = (case run of
       RotatorRun _ _ _ _ \<Rightarrow> metricControllerRotator
     | KarpenterRun _ _ _ _ \<Rightarrow> metricControllerBootstrapper
     | OcmRun _ _ _ \<Rightarrow> metricControllerOCMAWSIRSA)"

text \<open>
  The calls of runs that may overlap: the controllers of a process run beside each other, so that
  all that is known of their order is that each call is made once.
\<close>

definition interleaved :: "eks_run list \<Rightarrow> eks_call list \<Rightarrow> bool" where
  "interleaved runs ws \<longleftrightarrow> mset ws = mset (concat (map (\<lambda>run. snd (outcome run)) runs))"

lemma deferred_errors:
  assumes "emits unfailed m" "TrimSpace x = x"
    and "run_state (bind_eff m (\<lambda>res. bind_eff (when_eff (isl res) (emit (RecordReconcileError x))) (\<lambda>_. ret res))) [] = (res, ws)"
  shows "errors_in l ws = (if isl res \<and> x = l then 1 else 0)"
proof -
  obtain r h where m: "run_state m [] = (r, h)" by fastforce
  then have "errors_in l h = 0" using emits_run [OF assms(1)] unfailed_none by simp
  then show ?thesis using assms(2,3) m by (auto split: if_splits)
qed

lemma metric_controllers_trimmed:
  "TrimSpace metricControllerRotator = metricControllerRotator"
  "TrimSpace metricControllerBootstrapper = metricControllerBootstrapper"
  unfolding metricControllerRotator_def metricControllerBootstrapper_def by code_simp+

text \<open>The OCM bootstrapper counts none.\<close>

definition counts_errors :: "eks_run \<Rightarrow> bool" where
  "counts_errors run = (case run of OcmRun _ _ _ \<Rightarrow> False | _ \<Rightarrow> True)"

lemma errors_of_run:
  "errors_in l (snd (outcome run)) = (if failed run \<and> counts_errors run \<and> controller_of run = l then 1 else 0)"
proof (cases run)
  case (RotatorRun w r env req)
  then show ?thesis
    using deferred_errors [OF unfailed_rotator metric_controllers_trimmed(1), of w r env req]
    by (cases "outcome run") (simp add: outcome_def rotator_Reconcile_def failed_def counts_errors_def controller_of_def)
next
  case (KarpenterRun w r env req)
  then show ?thesis
    using deferred_errors [OF unfailed_kar_run metric_controllers_trimmed(2), of w r env req]
    by (cases "outcome run") (simp add: outcome_def kar_Reconcile_def failed_def counts_errors_def controller_of_def)
next
  case (OcmRun r env req)
  then show ?thesis
    using unfailed_none [OF emits_run [OF unfailed_ocm]] by (simp add: outcome_def counts_errors_def)
qed

lemma errors_of_runs:
  "errors_in l (concat (map (\<lambda>run. snd (outcome run)) runs)) =
     length (filter (\<lambda>run. failed run \<and> counts_errors run \<and> controller_of run = l) runs)"
  by (induction runs) (simp_all add: errors_of_run)

lemma metric_controllers_differ:
  "metricControllerRotator \<noteq> metricControllerBootstrapper" "metricControllerRotator \<noteq> metricControllerOCMAWSIRSA"
  "metricControllerBootstrapper \<noteq> metricControllerOCMAWSIRSA"
  by (simp_all add: metricControllerRotator_def metricControllerBootstrapper_def metricControllerOCMAWSIRSA_def)

text \<open>
  C34. Over any runs of the EKS controllers, beside each other in any interleaving and whatever the
  services answer each of them, \<open>kany8s_eks_plugin_reconcile_errors_total\<close> counts exactly the
  runs of the rotator and of the Karpenter bootstrapper that returned an error, under their
  controller. It stays as it was for the OCM bootstrapper, however many of its runs fail: that
  controller has no counterpart of the deferred count of the other two.
\<close>

theorem errors_counted:
  fixes m :: metrics
  assumes "interleaved runs ws"
  defines "counted \<equiv> reconcileErrorsTotal (fold observe ws m)"
    and "failures \<equiv> \<lambda>controller. length (filter (\<lambda>run. failed run \<and> controller_of run = controller) runs)"
  shows "counted metricControllerRotator = reconcileErrorsTotal m metricControllerRotator + failures metricControllerRotator \<and>
    counted metricControllerBootstrapper =
      reconcileErrorsTotal m metricControllerBootstrapper + failures metricControllerBootstrapper \<and>
    counted metricControllerOCMAWSIRSA = reconcileErrorsTotal m metricControllerOCMAWSIRSA"
proof -
  have counted: "counted l = reconcileErrorsTotal m l +
      length (filter (\<lambda>run. failed run \<and> counts_errors run \<and> controller_of run = l) runs)" for l
    using errors_in_mset [OF assms(1) [unfolded interleaved_def], of l] by (simp add: counted_def errors_observed errors_of_runs)
  have counting: "(failed run \<and> counts_errors run \<and> controller_of run = l) = (failed run \<and> controller_of run = l)"
    if "l \<noteq> metricControllerOCMAWSIRSA" for run l
    using that by (auto simp: counts_errors_def controller_of_def split: eks_run.splits)
  have ocm: "(failed run \<and> counts_errors run \<and> controller_of run = metricControllerOCMAWSIRSA) = False" for run
    using metric_controllers_differ by (auto simp: counts_errors_def controller_of_def split: eks_run.splits)
  show ?thesis
    using metric_controllers_differ by (simp add: counted failures_def counting ocm)
qed

text \<open>A run of each bootstrapper against an API server that does not answer.\<close>

definition unanswered_env :: eks_env where
  "unanswered_env = demo_eks_env\<lparr>ee_getCluster := \<lambda>_ _. Inl (errorf ''connection refused'')\<rparr>"

definition unanswered_runs :: "eks_run list" where
  "unanswered_runs = [KarpenterRun (\<lambda>_. Inr '''') demo_karpenter unanswered_env (object_key ''ns'' ''demo''),
     OcmRun \<lparr>oc_FailureBackoff = 0, oc_SteadyStateRequeue = 0\<rparr> unanswered_env (object_key ''ns'' ''demo'')]"

lemma unanswered_fail: "list_all failed unanswered_runs"
  by (simp add: unanswered_runs_def failed_def outcome_def kar_Reconcile_def kar_run_def ocm_Reconcile_def
      unanswered_env_def ignore_not_found_def is_not_found_def)

theorem errors_counted_witness:
  "\<exists>ws. interleaved unanswered_runs ws \<and> list_all failed unanswered_runs \<and>
     reconcileErrorsTotal (fold observe ws no_metrics) metricControllerBootstrapper = 1 \<and>
     reconcileErrorsTotal (fold observe ws no_metrics) metricControllerOCMAWSIRSA = 0"
proof -
  define ws where "ws = concat (map (\<lambda>run. snd (outcome run)) unanswered_runs)"
  have ws: "interleaved unanswered_runs ws" by (simp add: interleaved_def ws_def)
  have "length (filter (\<lambda>run. failed run \<and> controller_of run = metricControllerBootstrapper) unanswered_runs) = 1"
    using unanswered_fail metric_controllers_differ by (simp add: unanswered_runs_def controller_of_def)
  then show ?thesis
    using errors_counted [OF ws, of no_metrics] ws unanswered_fail by (auto simp: no_metrics_def)
qed

end
