(* ===== verification/Composition.thy ===== *)
theory Composition
  imports Rotator KarpSafety
begin

text \<open>
  What the controllers of the EKS plugin leave for each other in the API server: the annotations
  by which a bootstrapped cluster is found again when it is deleted, and the kubeconfig Secret that
  the rotator writes and the Karpenter bootstrapper reads.
\<close>

section \<open>The annotations of a bootstrapped cluster\<close>

text \<open>The cluster after the two annotations that \<open>kar_subnets\<close> writes.\<close>

definition bootstrapped :: "string \<Rightarrow> cluster \<Rightarrow> cluster" where
  "bootstrapped region c =
     set_meta (\<lambda>m. m\<lparr>om_Annotations := fmupd EKSClusterNameAnnotationKey (TrimSpace (fst (snd (resolveClusterNames c))))
       (fmupd RegionAnnotationKey (TrimSpace region) (om_Annotations m))\<rparr>) c"

lemma annotation_keys_differ:
  "EKSClusterNameAnnotationKey \<noteq> RegionAnnotationKey" "EKSClusterNameAnnotationKey \<noteq> ACKClusterNameAnnotationKey"
  "RegionAnnotationKey \<noteq> ACKClusterNameAnnotationKey"
  by (simp_all add: EKSClusterNameAnnotationKey_def RegionAnnotationKey_def ACKClusterNameAnnotationKey_def)

lemma resolved_eks_name:
  assumes "trimmed (om_Name (cl_meta c))" "om_Name (cl_meta c) \<noteq> ''''" "resolveClusterNames c = (capi, eks, ack)"
  shows "TrimSpace eks = eks" "eks \<noteq> ''''"
  using assms
  by (auto simp: resolveClusterNames_def defaultEKSClusterName_def Let_def trimmed_iff split: if_splits)

lemma resolve_bootstrapped:
  assumes "trimmed (om_Name (cl_meta c))" "om_Name (cl_meta c) \<noteq> ''''"
  shows "resolveClusterNames (bootstrapped region c) = resolveClusterNames c"
proof -
  obtain capi eks ack where names: "resolveClusterNames c = (capi, eks, ack)" by (metis prod_cases3)
  note eks = resolved_eks_name [OF assms names]
  have "resolveClusterNames (bootstrapped region c) = (capi, eks, ack)"
    using names eks annotation_keys_differ
    by (auto simp: resolveClusterNames_def bootstrapped_def set_meta_def Let_def defaultEKSClusterName_def
        split: if_splits)
  then show ?thesis by (simp add: names)
qed

text \<open>
  Bootstrapping fixes the names by which a cluster is cleaned up: with the annotations it
  writes, the cluster still resolves to the same names, and a deletion resolves the region and the
  EKS name the bootstrap used, whatever became of the kubeconfig Secret and of the ACK cluster.
\<close>

theorem bootstrap_fixes_names:
  assumes "trimmed (om_Name (cl_meta c))" "om_Name (cl_meta c) \<noteq> ''''" "TrimSpace region \<noteq> ''''"
    and "resolveClusterNames c = (capi, eks, ack)"
  shows "resolveClusterNames (bootstrapped region c) = (capi, eks, ack) \<and>
    fst (run_state (deletion_names env (bootstrapped region c) capi eks ack) h) = (TrimSpace region, eks)"
proof -
  have "resolveRegion lib (bootstrapped region c) None = TrimSpace region" for lib
    using assms(3) annotation_keys_differ
    by (simp add: resolveRegion_def bootstrapped_def set_meta_def)
  then show ?thesis
    using resolve_bootstrapped [OF assms(1,2)] assms(3,4) by (simp add: deletion_names_def Let_def)
qed

section \<open>The Secret of the rotator\<close>

lemma rotator_secret_fields:
  assumes "owner_laws lib" "own_secret lib c kc (probe_annotations expiration region eks) s0 = Inr s"
  shows "fmlookup (se_Data s) DataKey = Some kc"
    and "str_get (om_Annotations (se_meta s)) RegionAnnotationKey = region"
    and "str_get (om_Annotations (se_meta s)) EKSClusterNameAnnotationKey = eks"
proof -
  obtain rs where s: "s = (mutateManagedSecret c kc (probe_annotations expiration region eks) s0)\<lparr>se_meta :=
      (se_meta (mutateManagedSecret c kc (probe_annotations expiration region eks) s0))\<lparr>om_OwnerReferences := rs\<rparr>\<rparr>"
    by (rule own_secret_fields [OF assms])
  show "fmlookup (se_Data s) DataKey = Some kc"
    "str_get (om_Annotations (se_meta s)) RegionAnnotationKey = region"
    "str_get (om_Annotations (se_meta s)) EKSClusterNameAnnotationKey = eks"
    using annotation_keys_differ
    by (simp_all add: s mutateManagedSecret_def probe_annotations_def maps_copy_def str_get_def)
qed

text \<open>
  C35. What the rotator writes is what the bootstrapper reads: for a kubeconfig Secret as the
  rotator fills it in, the bootstrapper finds its region and EKS name for a deletion, takes its
  kubeconfig for the workload cluster, and the Helm release names this very Secret.
\<close>

theorem rotator_secret_feeds_bootstrapper:
  assumes "owner_laws (ee_lib env)" "kc \<noteq> ''''"
    and "own_secret (ee_lib env) c kc (probe_annotations expiration region eks) s0 = Inr s"
    and "SecretName capi = Inr name" "trimmed capi"
    and "ee_getSecret env h (object_key (om_Namespace (cl_meta c)) name) = Inr s"
  shows "fst (run_state (readWorkloadKubeconfigMetadata env (om_Namespace (cl_meta c)) capi) h) =
      Inr (Some (TrimSpace region, TrimSpace eks)) \<and>
    (\<exists>rotating. fst (run_state (getWorkloadKubeconfigBytes env c capi) h) = Inr (rotating, Some kc)) \<and>
    (''kubeConfig'', jobj [(''secretRef'', jobj [(''name'', JStr name)])]) \<in> set (helm_fields c capi repo helmValues)"
  using rotator_secret_fields [OF assms(1,3)] assms(2,4-6)
  by (auto simp: readWorkloadKubeconfigMetadata_def getWorkloadKubeconfigBytes_def Let_def str_get_def helm_fields_def
      SecretName_def trimmed_iff split: if_splits)

section \<open>Witnesses\<close>

theorem bootstrap_fixes_names_witness:
  "fst (run_state (deletion_names demo_eks_env (bootstrapped '' eu-west-1'' demo_eks_cluster) ''demo'' ''demo'' ''demo'') []) =
     (''eu-west-1'', ''demo'')"
proof -
  have name: "om_Name (cl_meta demo_eks_cluster) = ''demo''" by (simp add: demo_eks_cluster_def new_meta_def)
  have "trimmed ''demo''" unfolding trimmed_iff by code_simp
  moreover have "TrimSpace '' eu-west-1'' = ''eu-west-1''" by code_simp
  moreover have "resolveClusterNames demo_eks_cluster = (''demo'', ''demo'', ''demo'')"
    unfolding demo_eks_cluster_def new_meta_def by code_simp
  ultimately show ?thesis
    using bootstrap_fixes_names [of demo_eks_cluster "'' eu-west-1''" "''demo''" "''demo''" "''demo''" demo_eks_env "[]"] name
    by simp
qed

theorem rotator_secret_feeds_bootstrapper_witness:
  "\<exists>s. own_secret ref_lib demo_eks_cluster ''kc'' (probe_annotations 0 ''eu-west-1'' ''demo'')
       \<lparr>se_meta = new_meta ''ns'' ''demo-kubeconfig'', se_Type = '''', se_Data = fmempty\<rparr> = Inr s \<and>
     fst (run_state (readWorkloadKubeconfigMetadata (demo_eks_env\<lparr>ee_getSecret := \<lambda>_ _. Inr s\<rparr>) ''ns'' ''demo'') []) =
       Inr (Some (''eu-west-1'', ''demo''))"
proof -
  let ?s0 = "\<lparr>se_meta = new_meta ''ns'' ''demo-kubeconfig'', se_Type = '''', se_Data = fmempty\<rparr>"
  obtain s where s: "own_secret ref_lib demo_eks_cluster ''kc'' (probe_annotations 0 ''eu-west-1'' ''demo'') ?s0 = Inr s"
    by (auto simp: own_secret_def ref_lib_def ref_add_owner_def Let_def mutateManagedSecret_def new_meta_def)
  have laws: "owner_laws (ee_lib (demo_eks_env\<lparr>ee_getSecret := \<lambda>_ _. Inr s\<rparr>))"
    using ref_lib_laws by (simp add: apilib_laws_def demo_eks_env_def)
  have "trimmed ''demo''" "SecretName ''demo'' = Inr ''demo-kubeconfig''" unfolding trimmed_iff by code_simp+
  moreover have "TrimSpace ''eu-west-1'' = ''eu-west-1''" "TrimSpace ''demo'' = ''demo''" by code_simp+
  moreover have "ee_lib demo_eks_env = ref_lib" "om_Namespace (cl_meta demo_eks_cluster) = ''ns''"
    by (simp_all add: demo_eks_env_def demo_eks_cluster_def new_meta_def)
  ultimately show ?thesis
    using rotator_secret_feeds_bootstrapper [OF laws, of "''kc''" demo_eks_cluster 0 "''eu-west-1''" "''demo''" ?s0 s
        "''demo''" "''demo-kubeconfig''" "[]"] s
    by (intro exI [of _ s]) simp
qed

end
