(* ===== verification/Setup.thy ===== *)
theory Setup
  imports Karpenter Ocm Rotator
begin

text \<open>
  How the controllers are registered with the manager of controller-runtime
  (\<open>SetupWithManager\<close>, \<open>withOptionalWatch\<close>, \<open>ensureACKClusterNameIndex\<close>): the
  defaults they take, the watches they ask for, and where an event of a watched object leads. The
  manager is an environment that answers each call.
\<close>

section \<open>The manager\<close>

definition controlPlaneGroupVersion :: "string \<times> string" where
  "controlPlaneGroupVersion = (''controlplane.cluster.x-k8s.io'', ''v1alpha1'')"
definition infrastructureGroupVersion :: "string \<times> string" where
  "infrastructureGroupVersion = (''infrastructure.cluster.x-k8s.io'', ''v1alpha1'')"

definition kind_in :: "string \<times> string \<Rightarrow> string \<Rightarrow> gvk" where
  "kind_in gv kind = \<lparr>gvk_Group = fst gv, gvk_Version = snd gv, gvk_Kind = kind\<rparr>"

definition configMapGVK :: gvk where "configMapGVK = kind_in ('''', ''v1'') ''ConfigMap''"

text \<open>The functions that map an event to requests.\<close>

datatype event_mapper =
    ACKClusterForKarpenter | ACKClusterForOCM | ACKClusterForRotator | ManagedObject string

text \<open>\<open>For\<close>, \<open>Watches\<close>, and \<open>WatchesRawSource\<close> of a channel with its capacity.\<close>

datatype watch = ForKind gvk | WatchKind gvk event_mapper | WatchChannel nat

text \<open>
  A reconciler as it is handed to the manager: whether it has an event recorder, and what else it was
  given.
\<close>

datatype reconciler =
    ControlPlaneReconciler bool
  | KubeadmReconciler bool
  | ClusterReconciler
  | KarpenterReconciler bool karpenter
  | OcmReconciler bool ocm
  | RotatorReconciler bool rotator

text \<open>
  The options of the manager: its types, the metrics and webhook servers with the application
  protocols their TLS is restricted to and their certificates, the lease, the namespaces of the
  cache (none means all), and whether Secrets are read without the cache.
\<close>

record manager_options =
  mo_Scheme :: "string list"
  mo_MetricsBindAddress :: string
  mo_MetricsSecure :: bool
  mo_MetricsAuth :: bool
  mo_MetricsProtos :: "string list"
  mo_MetricsCert :: "(string \<times> string \<times> string) option"
  mo_WebhookServer :: "(string list \<times> (string \<times> string \<times> string) option) option"
  mo_ProbeBindAddress :: string
  mo_LeaderElection :: bool
  mo_LeaderElectionID :: string
  mo_Namespaces :: "string list"
  mo_UncachedSecrets :: bool

datatype manager_call =
    GetConfig
  | NewManager manager_options
  | NewTokenGenerator
  | IndexField gvk string
  | NewManagerDynamicClient
  | NewHTTPClient
  | NewDynamicRESTMapper
  | AddWatcher
  | CompleteController string reconciler "watch list"
  | CompleteWebhook gvk
  | AddHealthzCheck string
  | AddReadyzCheck string
  | StartManager

record manager_env =
  me_answer :: "manager_call list \<Rightarrow> manager_call \<Rightarrow> unit result"
  me_served :: "gvk \<Rightarrow> bool"

type_synonym 'a manager_eff = "(manager_call, 'a) eff"

definition mgr :: "manager_env \<Rightarrow> manager_call \<Rightarrow> unit result manager_eff" where
  "mgr me c = perform c (\<lambda>h. me_answer me h c)"

section \<open>The index and the optional watches\<close>

definition ensureACKClusterNameIndex :: "manager_env \<Rightarrow> unit result manager_eff" where
  "ensureACKClusterNameIndex me =
     bind_eff (mgr me (IndexField capiClusterGVK ackClusterNameIndexKey)) (\<lambda>r. case r of
       Inr _ \<Rightarrow> ret (Inr ())
     | Inl e \<Rightarrow>
         if str_contains (err_text e) ''already exists'' \<or> str_contains (err_text e) ''indexer conflict''
         then ret (Inr ())
         else ret (Inl (wrapf ''index CAPI Cluster by ACK cluster name'' e)))"

definition withOptionalWatch :: "manager_env \<Rightarrow> event_mapper \<Rightarrow> gvk \<Rightarrow> watch list \<Rightarrow> watch list" where
  "withOptionalWatch me f g b = (if \<not> me_served me g then b else b @ [WatchKind g f])"

section \<open>The controllers of the EKS plugin\<close>

definition kar_watches :: "manager_env \<Rightarrow> watch list" where
  "kar_watches me =
     (let b = withOptionalWatch me ACKClusterForKarpenter ackClusterGVK [ForKind capiClusterGVK];
          managed = ManagedObject karpenterManagedByValue
      in fold (withOptionalWatch me managed) kar_watched_kinds b @ [WatchKind configMapGVK managed])"

definition kar_SetupWithManager :: "manager_env \<Rightarrow> bool \<Rightarrow> karpenter \<Rightarrow> unit result manager_eff" where
  "kar_SetupWithManager me recorder r =
     try_bind (if \<not> kr_hasTokenGenerator r then mgr me NewTokenGenerator else ret (Inr ())) (\<lambda>_.
     let r' = r\<lparr>kr_hasTokenGenerator := True,
                kr_FailureBackoff := (if kr_FailureBackoff r = 0 then 30 * second else kr_FailureBackoff r),
                kr_SteadyStateRequeue := (if kr_SteadyStateRequeue r = 0 then 10 * minute else kr_SteadyStateRequeue r)\<rparr> in
     try_bind (ensureACKClusterNameIndex me) (\<lambda>_.
     mgr me (CompleteController ''eks-karpenter-bootstrapper'' (KarpenterReconciler recorder r') (kar_watches me))))"

definition ocm_watches :: "manager_env \<Rightarrow> watch list" where
  "ocm_watches me =
     withOptionalWatch me (ManagedObject ocmAWSIRSAManagedByValue) ackIAMRoleGVK
       (withOptionalWatch me ACKClusterForOCM ackClusterGVK [ForKind capiClusterGVK])"

definition ocm_SetupWithManager :: "manager_env \<Rightarrow> bool \<Rightarrow> ocm \<Rightarrow> unit result manager_eff" where
  "ocm_SetupWithManager me recorder r =
     (let r' = r\<lparr>oc_FailureBackoff := (if oc_FailureBackoff r = 0 then 30 * second else oc_FailureBackoff r),
                 oc_SteadyStateRequeue := (if oc_SteadyStateRequeue r = 0 then 10 * minute else oc_SteadyStateRequeue r)\<rparr> in
      try_bind (ensureACKClusterNameIndex me) (\<lambda>_.
      mgr me (CompleteController ''eks-ocm-awsirsa-bootstrapper'' (OcmReconciler recorder r') (ocm_watches me))))"

definition rotator_watches :: "manager_env \<Rightarrow> watch list" where
  "rotator_watches me = withOptionalWatch me ACKClusterForRotator ackClusterGVK [ForKind capiClusterGVK]"

definition zero_policy :: RequeuePolicy where
  "zero_policy = \<lparr>rp_RefreshBefore = 0, rp_MaxRefresh = 0, rp_FailureBackoff = 0, rp_ImmediateRequeue = 0\<rparr>"

definition rotator_SetupWithManager :: "manager_env \<Rightarrow> bool \<Rightarrow> rotator \<Rightarrow> unit result manager_eff" where
  "rotator_SetupWithManager me recorder r =
     try_bind (if \<not> rt_hasTokenGenerator r then mgr me NewTokenGenerator else ret (Inr ())) (\<lambda>_.
     let r' = r\<lparr>rt_hasTokenGenerator := True,
                rt_Policy := (if rt_Policy r = zero_policy then DefaultRequeuePolicy else rt_Policy r)\<rparr> in
     try_bind (ensureACKClusterNameIndex me) (\<lambda>_.
     mgr me (CompleteController ''eks-kubeconfig-rotator'' (RotatorReconciler recorder r') (rotator_watches me))))"

section \<open>The controllers and webhooks of the provider\<close>

text \<open>The watcher of backend objects runs under the manager and feeds a channel of 1024 events.\<close>

definition cp_SetupWithManager :: "manager_env \<Rightarrow> bool \<Rightarrow> unit result manager_eff" where
  "cp_SetupWithManager me recorder =
     try_bind (mgr me NewManagerDynamicClient) (\<lambda>_.
     try_bind (mgr me NewHTTPClient) (\<lambda>_.
     try_bind (mgr me NewDynamicRESTMapper) (\<lambda>_.
     try_bind (mgr me AddWatcher) (\<lambda>_.
     mgr me (CompleteController ''kany8scontrolplane'' (ControlPlaneReconciler recorder)
       [ForKind (kind_in controlPlaneGroupVersion ''Kany8sControlPlane''), WatchChannel 1024])))))"

definition kcp_SetupWithManager :: "manager_env \<Rightarrow> bool \<Rightarrow> unit result manager_eff" where
  "kcp_SetupWithManager me recorder = mgr me (CompleteController ''controlplane-kany8skubeadmcontrolplane'' (KubeadmReconciler recorder)
     [ForKind (kind_in controlPlaneGroupVersion ''Kany8sKubeadmControlPlane'')])"

definition ic_SetupWithManager :: "manager_env \<Rightarrow> unit result manager_eff" where
  "ic_SetupWithManager me = mgr me (CompleteController ''infrastructure-kany8scluster'' ClusterReconciler
     [ForKind (kind_in infrastructureGroupVersion ''Kany8sCluster'')])"

definition cp_SetupWebhookWithManager :: "manager_env \<Rightarrow> unit result manager_eff" where
  "cp_SetupWebhookWithManager me = mgr me (CompleteWebhook (kind_in controlPlaneGroupVersion ''Kany8sControlPlane''))"

definition template_SetupWebhookWithManager :: "manager_env \<Rightarrow> unit result manager_eff" where
  "template_SetupWebhookWithManager me =
     mgr me (CompleteWebhook (kind_in controlPlaneGroupVersion ''Kany8sControlPlaneTemplate''))"

section \<open>Where an event leads\<close>

definition map_event :: "eks_env \<Rightarrow> event_mapper \<Rightarrow> obj_meta \<Rightarrow> object_key list eks_eff" where
  "map_event env f m =
     (case f of
        ACKClusterForKarpenter \<Rightarrow> mapACKClusterToCAPIClustersForKarpenter env m
      | ACKClusterForOCM \<Rightarrow> mapACKClusterToCAPIClustersForOCM env m
      | ACKClusterForRotator \<Rightarrow> mapACKClusterToCAPIClusters isRotatorEnabled env m
      | ManagedObject mb \<Rightarrow> ret (mapManagedObjectToCAPICluster mb m))"

text \<open>
  The requests an event of an object of the kind \<open>g\<close> brings: every watch of the kind adds
  its own.
\<close>

fun event_requests :: "eks_env \<Rightarrow> watch list \<Rightarrow> gvk \<Rightarrow> obj_meta \<Rightarrow> object_key list eks_eff" where
  "event_requests env [] g m = ret []"
| "event_requests env (w # ws) g m =
     bind_eff (case w of
         ForKind k \<Rightarrow> ret (if k = g then [key_of m] else [])
       | WatchKind k f \<Rightarrow> if k = g then map_event env f m else ret []
       | WatchChannel n \<Rightarrow> ret [])
       (\<lambda>here. bind_eff (event_requests env ws g m) (\<lambda>rest. ret (here @ rest)))"

lemma withOptional_set:
  "set (fold (withOptionalWatch me f) gs b) = set b \<union> (\<lambda>g. WatchKind g f) ` {g \<in> set gs. me_served me g}"
  by (induction gs arbitrary: b) (auto simp: withOptionalWatch_def)

lemma managed_watch_requests:
  assumes "WatchKind g (ManagedObject mb) \<in> set ws" "k \<in> set (mapManagedObjectToCAPICluster mb m)"
  shows "k \<in> set (fst (run_state (event_requests env ws g m) h))"
  using assms
proof (induction ws arbitrary: h)
  case Nil
  then show ?case by simp
next
  case (Cons w ws)
  obtain a h1 where a: "run_state (case w of ForKind k \<Rightarrow> ret (if k = g then [key_of m] else [])
      | WatchKind k f \<Rightarrow> if k = g then map_event env f m else ret [] | WatchChannel n \<Rightarrow> ret []) h = (a, h1)"
    by fastforce
  obtain b h2 where b: "run_state (event_requests env ws g m) h1 = (b, h2)" by fastforce
  have run: "fst (run_state (event_requests env (w # ws) g m) h) = a @ b" using a b by simp
  show ?case
  proof (cases "w = WatchKind g (ManagedObject mb)")
    case True
    then show ?thesis using a Cons.prems(2) unfolding run by (simp add: map_event_def)
  next
    case False
    then show ?thesis using Cons.IH [of h1] Cons.prems b unfolding run by simp
  qed
qed

end
