(* ===== verification/Events.thy ===== *)
theory Events
  imports Setup KarpSafety
begin

text \<open>
  The Karpenter bootstrapper with its watches: every object it stores is of a kind it watches and
  carries the marks that lead an event of it back to the request that stored it.
\<close>

section \<open>Marks that lead back\<close>

definition proper_key :: "object_key \<Rightarrow> bool" where
  "proper_key k \<longleftrightarrow> trimmed (key_Name k) \<and> trimmed (key_Namespace k) \<and> key_Name k \<noteq> '''' \<and> key_Namespace k \<noteq> ''''"

lemma marked_leads_back:
  assumes "proper_key req" "is_managed_by mb (om_Annotations m)"
    and "fmlookup (om_Labels m) capiClusterNameLabelKey = Some (key_Name req)" "om_Namespace m = key_Namespace req"
  shows "mapManagedObjectToCAPICluster mb m = [req]"
proof -
  have "om_Labels m \<noteq> fmempty" using assms(3) by auto
  then show ?thesis
    using assms by (simp add: mapManagedObjectToCAPICluster_def proper_key_def str_get_def TrimSpace_id object_key_def Let_def)
qed

lemma managed_kind_watched:
  assumes "g \<in> set kar_watched_kinds" "me_served me g"
  shows "WatchKind g (ManagedObject karpenterManagedByValue) \<in> set (kar_watches me)"
  using assms by (simp add: kar_watches_def Let_def withOptional_set)

lemma config_map_watched: "WatchKind configMapGVK (ManagedObject karpenterManagedByValue) \<in> set (kar_watches me)"
  by (simp add: kar_watches_def Let_def)

section \<open>The server\<close>

text \<open>
  The API server answers a read with the object that was asked for, and every answer about a cluster
  is about the cluster of this request; names and namespaces have no blanks around them.
\<close>

definition faithful_reads :: "eks_env \<Rightarrow> object_key \<Rightarrow> bool" where
  "faithful_reads env req \<longleftrightarrow> proper_key req \<and>
     (\<forall>c. answered env c \<longrightarrow> key_of (cl_meta c) = req) \<and>
     (\<forall>h g k u. ee_get env h g k = Inr u \<longrightarrow> un_GVK u = g \<and> key_of (un_meta u) = k) \<and>
     (\<forall>h k cm. ee_getConfigMap env h k = Inr cm \<longrightarrow> key_of (cm_meta cm) = k)"

text \<open>Every event of what is stored requests this run again, as soon as the kind was served at the start.\<close>

definition reports_back :: "manager_env \<Rightarrow> eks_env \<Rightarrow> object_key \<Rightarrow> eks_call \<Rightarrow> bool" where
  "reports_back me env req w =
     (let back = (\<lambda>g m. \<forall>h. req \<in> set (fst (run_state (event_requests env (kar_watches me) g m) h))) in
      case w of
        EksCreate u \<Rightarrow> me_served me (un_GVK u) \<longrightarrow> back (un_GVK u) (un_meta u)
      | EksUpdate u \<Rightarrow> me_served me (un_GVK u) \<longrightarrow> back (un_GVK u) (un_meta u)
      | EksCreateConfigMap cm \<Rightarrow> back configMapGVK (cm_meta cm)
      | EksUpdateConfigMap cm \<Rightarrow> back configMapGVK (cm_meta cm)
      | _ \<Rightarrow> True)"

lemma object_reports_back:
  assumes "proper_key req" "g \<in> set kar_watched_kinds" "me_served me g" "object_of karpenterManagedByValue c u"
    and "key_of (cl_meta c) = req" "om_Namespace (un_meta u) = key_Namespace req"
  shows "req \<in> set (fst (run_state (event_requests env (kar_watches me) g (un_meta u)) h))"
  by (rule managed_watch_requests [OF managed_kind_watched [OF assms(2,3)]])
    (use assms in \<open>auto simp: marked_leads_back object_of_def key_of_def object_key_def\<close>)

lemma config_map_reports_back:
  assumes "proper_key req" "isManagedByBootstrapper (om_Annotations (cm_meta cm))"
    and "fmlookup (om_Labels (cm_meta cm)) capiClusterNameLabelKey = Some (key_Name req)"
    and "om_Namespace (cm_meta cm) = key_Namespace req"
  shows "req \<in> set (fst (run_state (event_requests env (kar_watches me) configMapGVK (cm_meta cm)) h))"
  by (rule managed_watch_requests [OF config_map_watched])
    (use assms in \<open>auto simp: marked_leads_back isManagedByBootstrapper_def\<close>)

lemma answered_key:
  assumes "faithful_reads env req" "answered env c"
  shows "key_of (cl_meta c) = req" "om_Name (cl_meta c) = key_Name req" "om_Namespace (cl_meta c) = key_Namespace req"
proof -
  show "key_of (cl_meta c) = req" using assms by (auto simp: faithful_reads_def)
  then show "om_Name (cl_meta c) = key_Name req" "om_Namespace (cl_meta c) = key_Namespace req"
    by (auto simp: key_of_def object_key_def)
qed

lemma updated_where_read:
  "faithful_reads env req \<Longrightarrow> updates_read env g k u \<Longrightarrow> un_GVK u = g \<and> key_of (un_meta u) = k"
  by (auto simp: faithful_reads_def updates_read_def)

lemma stored_where_read:
  assumes "faithful_reads env req" "config_map_ours env c cm"
  shows "om_Namespace (cm_meta cm) = om_Namespace (cl_meta c)"
proof -
  obtain h name old where "ee_getConfigMap env h (object_key (om_Namespace (cl_meta c)) name) = Inr old"
      "key_of (cm_meta cm) = key_of (cm_meta old)"
    using assms(2) by (auto simp: config_map_ours_def)
  then have "key_of (cm_meta cm) = object_key (om_Namespace (cl_meta c)) name"
    using assms(1) by (auto simp: faithful_reads_def)
  then show ?thesis by (simp add: key_of_def object_key_def)
qed

text \<open>Where the written object is: it has the marks, a watched kind and the namespace of the cluster.\<close>

lemma managed_object_reports_back:
  assumes "faithful_reads env req" "answered env c" "un_GVK u \<in> set kar_watched_kinds"
    and "object_of karpenterManagedByValue c u" "om_Namespace (un_meta u) = key_Namespace req"
    and "w = EksCreate u \<or> w = EksUpdate u"
  shows "reports_back me env req w"
proof -
  have "proper_key req" using assms(1) by (simp add: faithful_reads_def)
  then show ?thesis
    using object_reports_back [OF _ assms(3) _ assms(4) answered_key(1) [OF assms(1,2)] assms(5)] assms(6)
    by (auto simp: reports_back_def)
qed

lemma managed_config_map_reports_back:
  assumes "faithful_reads env req" "answered env c" "isManagedByBootstrapper (om_Annotations (cm_meta cm))"
    and "fmlookup (om_Labels (cm_meta cm)) capiClusterNameLabelKey = Some (om_Name (cl_meta c))"
    and "om_Namespace (cm_meta cm) = key_Namespace req"
    and "w = EksCreateConfigMap cm \<or> w = EksUpdateConfigMap cm"
  shows "reports_back me env req w"
proof -
  have "proper_key req" using assms(1) by (simp add: faithful_reads_def)
  then show ?thesis
    using config_map_reports_back [OF _ assms(3) _ assms(5)] assms(4,6) answered_key(2) [OF assms(1,2)]
    by (auto simp: reports_back_def)
qed

lemma write_reports_back:
  assumes "faithful_reads env req" "kar_write_ok r env req w"
  shows "reports_back me env req w"
proof (cases w)
  case (EksCreate u)
  then obtain c where c: "answered env c" "managed_write karpenterManagedByValue env c w" "un_GVK u \<in> set kar_watched_kinds"
    using assms(2) by (auto simp: kar_write_ok_def)
  then show ?thesis
    using EksCreate answered_key(3) [OF assms(1)]
    by (intro managed_object_reports_back [OF assms(1) c(1,3)]) (simp_all add: managed_write_def)
next
  case (EksUpdate u)
  then obtain c g name where c: "answered env c" "managed_write karpenterManagedByValue env c w"
      "g \<in> set kar_watched_kinds" "updates_read env g (object_key (om_Namespace (cl_meta c)) name) u"
    using assms(2) by (auto simp: kar_write_ok_def)
  then have "un_GVK u = g" "om_Namespace (un_meta u) = key_Namespace req"
    using updated_where_read [OF assms(1) c(4)] answered_key(3) [OF assms(1) c(1)]
    by (auto simp: key_of_def object_key_def)
  then show ?thesis
    using EksUpdate c by (intro managed_object_reports_back [OF assms(1) c(1)]) (auto simp: managed_write_def)
next
  case (EksCreateConfigMap cm)
  then obtain c where c: "answered env c" "config_map_of c cm" using assms(2) by (auto simp: kar_write_ok_def)
  then show ?thesis
    using EksCreateConfigMap answered_key(3) [OF assms(1)]
    by (intro managed_config_map_reports_back [OF assms(1) c(1)]) (simp_all add: config_map_of_def)
next
  case (EksUpdateConfigMap cm)
  then obtain c where c: "answered env c" "config_map_ours env c cm" using assms(2) by (auto simp: kar_write_ok_def)
  then have "om_Namespace (cm_meta cm) = key_Namespace req"
    using stored_where_read [OF assms(1)] answered_key(3) [OF assms(1)] by simp
  then show ?thesis
    using EksUpdateConfigMap c by (intro managed_config_map_reports_back [OF assms(1) c(1)]) (auto simp: config_map_ours_def)
qed (simp_all add: reports_back_def)


section \<open>Witness\<close>

text \<open>A server that holds one cluster with Karpenter enabled and nothing else.\<close>

definition lonely_server :: eks_env where
  "lonely_server = demo_eks_env\<lparr>
     ee_getCluster := \<lambda>_ k. if k = object_key ''ns'' ''demo'' then Inr demo_enabled_cluster else Inl (GoError NotFound ''not found''),
     ee_patchCluster := \<lambda>_ _ _. Inr demo_enabled_cluster,
     ee_get := \<lambda>_ _ _. Inl (GoError NotFound ''not found''),
     ee_getConfigMap := \<lambda>_ _. Inl (GoError NotFound ''not found'')\<rparr>"

lemma lonely_faithful: "faithful_reads lonely_server (object_key ''ns'' ''demo'')"
proof -
  have "trimmed ''ns''" "trimmed ''demo''" unfolding trimmed_iff by code_simp+
  then show ?thesis
    by (auto simp: faithful_reads_def proper_key_def answered_def lonely_server_def object_key_def key_of_def
        demo_enabled_cluster_def demo_eks_cluster_def new_meta_def set_meta_def split: if_splits)
qed


end
