(* ===== verification/GoDuration.thy ===== *)
theory GoDuration
  imports GoStrings
begin

text \<open>
  \<open>time.ParseDuration\<close> of Go's standard library, by which the commands read their intervals:
  unsigned 64-bit magnitudes with their overflow checks, and the fraction computed in \<open>float64\<close>.
\<close>

section \<open>The floating point fraction\<close>

text \<open>
  A positive \<open>float64\<close> is a mantissa and a power of two. Every operation rounds the exact
  result to 53 bits, to the even neighbour at a tie. The range of the exponent is left out: a value
  beyond it can only come from more than 300 digits after the period, where the fraction contributes
  nothing with either exponent range.
\<close>

type_synonym float64 = "nat \<times> int"

fun bit_size :: "nat \<Rightarrow> nat" where
  "bit_size n = (if n = 0 then 0 else Suc (bit_size (n div 2)))"

declare bit_size.simps [simp del]

definition round53 :: "nat \<Rightarrow> int \<Rightarrow> float64" where
  "round53 m e =
     (let k = bit_size m - 53; q = m div 2 ^ k; rest = m mod 2 ^ k in
      if k = 0 then (m, e)
      else if 2 ^ k < 2 * rest \<or> (2 * rest = 2 ^ k \<and> odd q) then (q + 1, e + int k)
      else (q, e + int k))"

definition float_of :: "nat \<Rightarrow> float64" where
  "float_of n = round53 n 0"

definition float_mul :: "float64 \<Rightarrow> float64 \<Rightarrow> float64" where
  "float_mul x y = round53 (fst x * fst y) (snd x + snd y)"

text \<open>The quotient with more than 53 bits, and a last bit that stands for the remainder.\<close>

definition float_div :: "float64 \<Rightarrow> float64 \<Rightarrow> float64" where
  "float_div x y =
     (let k = 55 + bit_size (fst y); n = fst x * 2 ^ k; q = n div fst y in
      round53 (2 * q + (if n mod fst y = 0 then 0 else 1)) (snd x - snd y - int k - 1))"

definition float_trunc :: "float64 \<Rightarrow> nat" where
  "float_trunc x = (if 0 \<le> snd x then fst x * 2 ^ nat (snd x) else fst x div 2 ^ nat (- snd x))"

section \<open>The parser\<close>

datatype duration_error = InvalidDuration | MissingUnit | UnknownUnit string

text \<open>The two spellings of the micro sign are their UTF-8 bytes.\<close>

definition unitMap :: "(string \<times> nat) list" where
  "unitMap =
     [(''ns'', 1), (''us'', 1000), ([CHR 0xC2, CHR 0xB5, CHR ''s''], 1000), ([CHR 0xCE, CHR 0xBC, CHR ''s''], 1000),
      (''ms'', 1000000), (''s'', 1000000000), (''m'', 60000000000), (''h'', 3600000000000)]"

fun leadingInt :: "nat \<Rightarrow> string \<Rightarrow> (nat \<times> string) option" where
  "leadingInt x [] = Some (x, [])"
| "leadingInt x (c # s) =
     (if \<not> is_digit c then Some (x, c # s)
      else if 2 ^ 63 div 10 < x then None
      else let y = x * 10 + digit_val c in
        if 2 ^ 63 < y then None else leadingInt y s)"

text \<open>Digits that no longer fit are skipped; \<open>scale\<close> grows with the digits that are kept.\<close>

fun leadingFraction :: "nat \<Rightarrow> float64 \<Rightarrow> bool \<Rightarrow> string \<Rightarrow> nat \<times> float64 \<times> string" where
  "leadingFraction x scale overflow [] = (x, scale, [])"
| "leadingFraction x scale overflow (c # s) =
     (if \<not> is_digit c then (x, scale, c # s)
      else if overflow then leadingFraction x scale True s
      else if (2 ^ 63 - 1) div 10 < x then leadingFraction x scale True s
      else let y = x * 10 + digit_val c in
        if 2 ^ 63 < y then leadingFraction x scale True s
        else leadingFraction y (float_mul scale (float_of 10)) False s)"

definition unit_char :: "char \<Rightarrow> bool" where
  "unit_char c \<longleftrightarrow> c \<noteq> CHR ''.'' \<and> \<not> is_digit c"

text \<open>One turn of the loop: the magnitude of a number with its unit, and what is left of the text.\<close>

definition duration_piece :: "string \<Rightarrow> duration_error + (nat \<times> string)" where
  "duration_piece s =
     (if s = [] \<or> \<not> (hd s = CHR ''.'' \<or> is_digit (hd s)) then Inl InvalidDuration
      else (case leadingInt 0 s of
        None \<Rightarrow> Inl InvalidDuration
      | Some (v, s1) \<Rightarrow>
          let pre = length s1 \<noteq> length s;
              dot = (s1 \<noteq> [] \<and> hd s1 = CHR ''.'');
              (f, scale, s2) = (if dot then leadingFraction 0 (float_of 1) False (tl s1) else (0, float_of 1, s1));
              post = (dot \<and> length s2 \<noteq> length (tl s1));
              u = takeWhile unit_char s2;
              s3 = dropWhile unit_char s2
          in if \<not> pre \<and> \<not> post then Inl InvalidDuration
             else if u = [] then Inl MissingUnit
             else (case map_of unitMap u of
               None \<Rightarrow> Inl (UnknownUnit u)
             | Some unit \<Rightarrow>
                 if 2 ^ 63 div unit < v then Inl InvalidDuration
                 else let v1 = v * unit;
                     v2 = (if 0 < f then v1 + float_trunc (float_mul (float_of f) (float_div (float_of unit) scale)) else v1)
                   in if 0 < f \<and> 2 ^ 63 < v2 then Inl InvalidDuration else Inr (v2, s3))))"

lemma leadingInt_shorter: "leadingInt x s = Some (v, t) \<Longrightarrow> length t \<le> length s"
  by (induction x s rule: leadingInt.induct) (auto simp: Let_def split: if_splits)

lemma leadingFraction_shorter: "leadingFraction x sc b s = (f, scale, t) \<Longrightarrow> length t \<le> length s"
  by (induction x sc b s rule: leadingFraction.induct) (auto simp: Let_def split: if_splits)

lemma duration_piece_shorter:
  assumes "duration_piece s = Inr (v, t)"
  shows "length t < length s"
proof -
  obtain w s1 where s1: "leadingInt 0 s = Some (w, s1)"
    using assms by (auto simp: duration_piece_def split: if_splits option.splits)
  let ?r = "if s1 \<noteq> [] \<and> hd s1 = CHR ''.'' then leadingFraction 0 (float_of 1) False (tl s1) else (0, float_of 1, s1)"
  obtain f sc s2 where s2: "?r = (f, sc, s2)" by (metis prod_cases3)
  have "length s2 \<le> length s1"
    using s2 leadingFraction_shorter [of 0 "float_of 1" False "tl s1" f sc s2] by (auto split: if_splits)
  moreover have "length s1 \<le> length s" by (rule leadingInt_shorter [OF s1])
  moreover have "takeWhile unit_char s2 \<noteq> []" "t = dropWhile unit_char s2"
    using assms by (auto simp: duration_piece_def s1 s2 Let_def split: if_splits option.splits)
  moreover from this have "length (dropWhile unit_char s2) < length s2"
    by (metis append_eq_conv_conj dropWhile_eq_drop length_append length_greater_0_conv less_add_same_cancel2 takeWhile_dropWhile_id)
  ultimately show ?thesis by simp
qed

text \<open>The loop over the pieces; \<open>d\<close> is the unsigned 64-bit sum, which may wrap around.\<close>

function duration_loop :: "nat \<Rightarrow> string \<Rightarrow> duration_error + nat" where
  "duration_loop d s =
     (if s = [] then Inr d
      else (case duration_piece s of
        Inl e \<Rightarrow> Inl e
      | Inr (v, t) \<Rightarrow>
          let d' = (d + v) mod 2 ^ 64 in
          if 2 ^ 63 < d' then Inl InvalidDuration else duration_loop d' t))"
  by pat_completeness auto
termination
  by (relation "measure (\<lambda>(d, s). length s)") (auto dest: duration_piece_shorter)

declare duration_loop.simps [simp del]

definition ParseDuration :: "string \<Rightarrow> duration_error + duration" where
  "ParseDuration s =
     (let neg = (s \<noteq> [] \<and> hd s = CHR ''-'');
          t = (if s \<noteq> [] \<and> (hd s = CHR ''-'' \<or> hd s = CHR ''+'') then tl s else s)
      in if t = ''0'' then Inr 0
         else if t = [] then Inl InvalidDuration
         else (case duration_loop 0 t of
           Inl e \<Rightarrow> Inl e
         | Inr d \<Rightarrow> if neg then Inr (- int d)
             else if 2 ^ 63 - 1 < d then Inl InvalidDuration
             else Inr (int d)))"

section \<open>Bounds\<close>

lemma duration_loop_bound: "d \<le> 2 ^ 63 \<Longrightarrow> duration_loop d s = Inr n \<Longrightarrow> n \<le> 2 ^ 63"
proof (induction d s rule: duration_loop.induct)
  case (1 d s)
  show ?case
  proof (cases "s = []")
    case True
    then show ?thesis using "1.prems" by (simp add: duration_loop.simps)
  next
    case False
    obtain v t where p: "duration_piece s = Inr (v, t)"
      using "1.prems"(2) False by (auto simp: duration_loop.simps [of d s] split: sum.splits)
    then have "\<not> 2 ^ 63 < (d + v) mod 2 ^ 64" "duration_loop ((d + v) mod 2 ^ 64) t = Inr n"
      using "1.prems"(2) False by (simp_all add: duration_loop.simps [of d s] Let_def split: if_splits)
    then show ?thesis using "1.IH" [OF False p] by (simp add: Let_def)
  qed
qed

lemma ParseDuration_cases:
  assumes "ParseDuration s = Inr d"
  obtains n where "n \<le> 2 ^ 63" "d = - int n" "has_prefix s ''-''"
    | n where "n \<le> 2 ^ 63 - 1" "d = int n" "\<not> has_prefix s ''-'' \<or> d = 0"
proof -
  let ?neg = "s \<noteq> [] \<and> hd s = CHR ''-''"
  let ?t = "if s \<noteq> [] \<and> (hd s = CHR ''-'' \<or> hd s = CHR ''+'') then tl s else s"
  have neg: "?neg \<longleftrightarrow> has_prefix s ''-''" by (cases s) (auto simp: has_prefix_def)
  show thesis
  proof (cases "?t = ''0''")
    case True
    then show thesis using assms that(2) [of 0] by (simp add: ParseDuration_def Let_def)
  next
    case False
    then have "?t \<noteq> []" using assms by (auto simp: ParseDuration_def Let_def split: if_splits)
    then obtain n where n: "duration_loop 0 ?t = Inr n"
      using assms False by (auto simp: ParseDuration_def Let_def split: sum.splits)
    then have "(if ?neg then Inr (- int n) else if 2 ^ 63 - 1 < n then Inl InvalidDuration else Inr (int n)) = Inr d"
      using assms False \<open>?t \<noteq> []\<close> unfolding ParseDuration_def Let_def by simp
    then show thesis
      using duration_loop_bound [OF _ n] neg that
      by (cases ?neg) (auto split: if_splits)
  qed
qed

section \<open>Texts of durations\<close>

lemma leadingInt_show:
  assumes "n \<le> 2 ^ 63"
  shows "leadingInt 0 (show_nat n @ t) = leadingInt n t"
  using assms
proof (induction n arbitrary: t rule: show_nat.induct)
  case (1 n)
  show ?case
  proof (cases "n < 10")
    case True
    then show ?thesis using "1.prems" by (simp add: show_nat.simps [of n] Let_def)
  next
    case False
    have "n div 10 \<le> 2 ^ 63 div 10" "n div 10 \<le> 2 ^ 63" using "1.prems" by (simp_all add: div_le_mono)
    then show ?thesis
      using False "1.IH" [OF False, of "digit_char n # t"] "1.prems"
      by (simp add: show_nat.simps [of n] Let_def)
  qed
qed

lemma leadingInt_stop: "t = [] \<or> \<not> is_digit (hd t) \<Longrightarrow> leadingInt n t = Some (n, t)"
  by (cases t) auto

text \<open>A text of whole numbers with units, such as the \<open>1h30m\<close> of a flag.\<close>

definition pieces_text :: "(nat \<times> string) list \<Rightarrow> string" where
  "pieces_text ps = concat (map (\<lambda>(n, u). show_nat n @ u) ps)"

definition pieces_sum :: "(nat \<times> string) list \<Rightarrow> nat" where
  "pieces_sum ps = sum_list (map (\<lambda>(n, u). n * (case map_of unitMap u of None \<Rightarrow> 0 | Some k \<Rightarrow> k)) ps)"


lemma leadingInt_overflow: "2 ^ 63 < n \<Longrightarrow> leadingInt 0 (show_nat n @ t) = None"
proof (induction n arbitrary: t rule: show_nat.induct)
  case (1 n)
  have big: "\<not> n < 10" using "1.prems" by simp
  show ?case
  proof (cases "2 ^ 63 < n div 10")
    case True
    then show ?thesis using "1.IH" [OF big True] big by (simp add: show_nat.simps [of n])
  next
    case False
    then have "leadingInt 0 (show_nat (n div 10) @ digit_char n # t) = leadingInt (n div 10) (digit_char n # t)"
      by (intro leadingInt_show) simp
    then show ?thesis using big "1.prems" by (simp add: show_nat.simps [of n] Let_def)
  qed
qed

lemma unitMap_text:
  assumes "map_of unitMap u = Some k"
  shows "list_all unit_char u" "u \<noteq> []" "0 < k"
  using assms by (auto simp: unitMap_def unit_char_def is_digit_def split: if_splits)

lemma show_nat_hd: "is_digit (hd (show_nat n @ t))" "show_nat n @ t \<noteq> []"
  using show_nat_digits [of n] by (cases "show_nat n", auto)+

text \<open>A rest that does not continue the unit.\<close>

definition piece_end :: "string \<Rightarrow> bool" where
  "piece_end t \<longleftrightarrow> t = [] \<or> is_digit (hd t)"

lemma unit_split:
  assumes "list_all unit_char u" "piece_end t"
  shows "takeWhile unit_char (u @ t) = u" "dropWhile unit_char (u @ t) = t"
  using assms
  by (cases t; simp add: list_all_iff piece_end_def unit_char_def takeWhile_append dropWhile_append)+

lemma piece_text:
  assumes "map_of unitMap u = Some k" "piece_end t"
  shows "duration_piece (show_nat n @ u @ t) =
    (if n * k \<le> 2 ^ 63 then Inr (n * k, t) else Inl InvalidDuration)"
proof (cases "n \<le> 2 ^ 63")
  case True
  note unit = unitMap_text [OF assms(1)]
  have "leadingInt 0 (show_nat n @ u @ t) = Some (n, u @ t)"
    unfolding leadingInt_show [OF True]
    by (rule leadingInt_stop) (use unit in \<open>cases u, auto simp: unit_char_def\<close>)
  moreover have "\<not> (u @ t \<noteq> [] \<and> hd (u @ t) = CHR ''.'')"
    using unit by (cases u) (auto simp: unit_char_def)
  moreover have "(2 ^ 63 div k < n) = (\<not> n * k \<le> 2 ^ 63)"
    using less_eq_div_iff_mult_less_eq [OF unit(3), of n "2 ^ 63"] by linarith
  ultimately show ?thesis
    using show_nat_hd [of n "u @ t"] show_nat_digits [of n]
    by (simp add: duration_piece_def unit_split [OF unit(1) assms(2)] unit(2) assms(1) Let_def)
next
  case False
  have "n \<le> n * k" using unitMap_text(3) [OF assms(1)] by simp
  then have "\<not> n * k \<le> 2 ^ 63" using False by linarith
  then show ?thesis
    using leadingInt_overflow [of n "u @ t"] show_nat_hd [of n "u @ t"] False
    by (simp add: duration_piece_def)
qed

definition plain_pieces :: "(nat \<times> string) list \<Rightarrow> bool" where
  "plain_pieces ps \<longleftrightarrow>
     list_all (\<lambda>(n, u). case map_of unitMap u of None \<Rightarrow> False | Some k \<Rightarrow> n * k \<noteq> 2 ^ 63) ps"

lemma pieces_text_end: "piece_end (pieces_text ps)"
proof (cases ps)
  case (Cons p qs)
  obtain n u where p: "p = (n, u)" by (cases p)
  show ?thesis using show_nat_hd(1) [of n "u @ pieces_text qs"] by (simp add: Cons p piece_end_def pieces_text_def)
qed (simp add: piece_end_def pieces_text_def)

lemma loop_pieces:
  "plain_pieces ps \<Longrightarrow> d \<le> 2 ^ 63 \<Longrightarrow> duration_loop d (pieces_text ps) =
     (if d + pieces_sum ps \<le> 2 ^ 63 then Inr (d + pieces_sum ps) else Inl InvalidDuration)"
proof (induction ps arbitrary: d)
  case Nil
  then show ?case by (simp add: pieces_text_def pieces_sum_def duration_loop.simps [of d "[]"])
next
  case (Cons p ps)
  obtain n u k where p: "p = (n, u)" "map_of unitMap u = Some k" "n * k \<noteq> 2 ^ 63" "plain_pieces ps"
    using Cons.prems(1) by (auto simp: plain_pieces_def split: option.splits)
  have shape: "pieces_text (p # ps) = show_nat n @ u @ pieces_text ps" "pieces_sum (p # ps) = n * k + pieces_sum ps"
    by (simp_all add: pieces_text_def pieces_sum_def p)
  show ?case
  proof (cases "n * k \<le> 2 ^ 63")
    case True
    then have "(d + n * k) mod 2 ^ 64 = d + n * k" using Cons.prems(2) p(3) by simp
    then show ?thesis
      using Cons.IH [OF p(4), of "d + n * k"] piece_text [OF p(2) pieces_text_end, of n ps] True show_nat_digits [of n]
      by (subst duration_loop.simps) (auto simp: shape Let_def add.assoc)
  next
    case False
    then show ?thesis
      using piece_text [OF p(2) pieces_text_end, of n ps] show_nat_hd [of n "u @ pieces_text ps"]
      by (subst duration_loop.simps) (simp add: shape)
  qed
qed

text \<open>
  A text of whole numbers with units is the sum of its parts, exactly as long as the sum fits the
  64-bit duration, and is refused otherwise; a minus sign in front negates it. Only parts of exactly
  \<open>2 ^ 63\<close> nanoseconds are left out: two of them wrap around to zero.
\<close>

lemma pieces_result:
  assumes "ps \<noteq> []" "plain_pieces ps"
  shows "ParseDuration (pieces_text ps) =
      (if pieces_sum ps \<le> 2 ^ 63 - 1 then Inr (int (pieces_sum ps)) else Inl InvalidDuration) \<and>
    ParseDuration (CHR ''-'' # pieces_text ps) =
      (if pieces_sum ps \<le> 2 ^ 63 then Inr (- int (pieces_sum ps)) else Inl InvalidDuration)"
proof -
  obtain n u qs where ps: "ps = (n, u) # qs" using assms(1) by (cases ps) auto
  obtain k where k: "map_of unitMap u = Some k" using assms(2) by (auto simp: plain_pieces_def ps split: option.splits)
  have shape: "pieces_text ps = show_nat n @ u @ pieces_text qs" by (simp add: ps pieces_text_def)
  have "\<not> list_all is_digit (pieces_text ps)"
    using unitMap_text [OF k] by (cases u) (auto simp: shape unit_char_def)
  then have zero: "pieces_text ps \<noteq> ''0''" by (auto simp: is_digit_def)
  have hd: "is_digit (hd (pieces_text ps))" "pieces_text ps \<noteq> []" unfolding shape by (rule show_nat_hd)+
  have sign: "hd (pieces_text ps) \<noteq> CHR ''-''" "hd (pieces_text ps) \<noteq> CHR ''+''"
    using hd(1) by (auto simp: is_digit_def)
  note loop = loop_pieces [OF assms(2), of 0]
  show ?thesis
    using zero hd(2) sign loop by (simp add: ParseDuration_def Let_def)
qed

lemma pieces_parse:
  "ps \<noteq> [] \<Longrightarrow> plain_pieces ps \<Longrightarrow> pieces_sum ps \<le> 2 ^ 63 - 1 \<Longrightarrow> ParseDuration (pieces_text ps) = Inr (int (pieces_sum ps))"
  using pieces_result [of ps] by simp

end
