(* ===== verification/GoFlag.thy ===== *)
theory GoFlag
  imports GoStrings
begin

text \<open>
  The package \<open>flag\<close> of Go's standard library, as far as the commands use it: \<open>flag.Parse\<close>
  with the flags of a command, which ends the process on a bad flag.
\<close>

text \<open>
  A flag is a boolean one, which takes its value only after an equals sign, or one with a value. Either
  sets something in the settings of the command; a value may be refused.
\<close>

datatype 's flag = BoolFlag "bool \<Rightarrow> 's \<Rightarrow> 's" | ValueFlag "string \<Rightarrow> 's \<Rightarrow> 's result"

text \<open>\<open>strconv.ParseBool\<close>.\<close>

definition ParseBool :: "string \<Rightarrow> bool option" where
  "ParseBool s =
     (if s \<in> {''1'', ''t'', ''T'', ''TRUE'', ''true'', ''True''} then Some True
      else if s \<in> {''0'', ''f'', ''F'', ''FALSE'', ''false'', ''False''} then Some False
      else None)"

text \<open>The end of \<open>flag.Parse\<close>: the process goes on, or it ends with a status.\<close>

datatype 's parsed = Parsed 's "string list" | ParseExit nat

definition usage_error :: nat where "usage_error = 2"

text \<open>
  The name of a flag and its value after the first equals sign, which is not looked for at the very
  beginning.
\<close>

definition split_flag :: "string \<Rightarrow> string \<times> string option" where
  "split_flag name =
     (let rest = dropWhile (\<lambda>c. c \<noteq> CHR ''='') (tl name) in
      if rest = [] then (name, None)
      else (hd name # takeWhile (\<lambda>c. c \<noteq> CHR ''='') (tl name), Some (tl rest)))"

text \<open>
  An argument: not a flag, the end of the flags, a flag with bad syntax, or a flag.
\<close>

datatype arg = NotAFlag | EndOfFlags | BadSyntax | FlagArg string "string option"

definition classify_arg :: "string \<Rightarrow> arg" where
  "classify_arg s =
     (if length s < 2 \<or> hd s \<noteq> CHR ''-'' then NotAFlag
      else if s = ''--'' then EndOfFlags
      else let name = (if s ! 1 = CHR ''-'' then drop 2 s else tl s) in
        if name = [] \<or> hd name = CHR ''-'' \<or> hd name = CHR ''='' then BadSyntax
        else FlagArg (fst (split_flag name)) (snd (split_flag name)))"

fun parse_flags :: "(string \<Rightarrow> 's flag option) \<Rightarrow> 's \<Rightarrow> string list \<Rightarrow> 's parsed" where
  "parse_flags formal s [] = Parsed s []"
| "parse_flags formal s (a # as) =
     (case classify_arg a of
        NotAFlag \<Rightarrow> Parsed s (a # as)
      | EndOfFlags \<Rightarrow> Parsed s as
      | BadSyntax \<Rightarrow> ParseExit usage_error
      | FlagArg name v \<Rightarrow>
          (case formal name of
             None \<Rightarrow> ParseExit (if name = ''help'' \<or> name = ''h'' then 0 else usage_error)
           | Some (BoolFlag put) \<Rightarrow>
               (case v of
                  None \<Rightarrow> parse_flags formal (put True s) as
                | Some x \<Rightarrow> (case ParseBool x of
                      None \<Rightarrow> ParseExit usage_error
                    | Some b \<Rightarrow> parse_flags formal (put b s) as))
           | Some (ValueFlag put) \<Rightarrow>
               (case v of
                  Some x \<Rightarrow> (case put x s of Inl _ \<Rightarrow> ParseExit usage_error | Inr s' \<Rightarrow> parse_flags formal s' as)
                | None \<Rightarrow>
                    (case as of
                       [] \<Rightarrow> ParseExit usage_error
                     | x # rest \<Rightarrow> (case put x s of
                           Inl _ \<Rightarrow> ParseExit usage_error
                         | Inr s' \<Rightarrow> parse_flags formal s' rest)))))"

text \<open>\<open>StringVar\<close> and \<open>BoolVar\<close>: every value is taken.\<close>

definition StringVar :: "(string \<Rightarrow> 's \<Rightarrow> 's) \<Rightarrow> 's flag" where
  "StringVar put = ValueFlag (\<lambda>v s. Inr (put v s))"

definition BoolVar :: "(bool \<Rightarrow> 's \<Rightarrow> 's) \<Rightarrow> 's flag" where
  "BoolVar put = BoolFlag put"

text \<open>
  The flags other packages add to the command line (the logging options of zap and the
  \<open>kubeconfig\<close> of controller-runtime) do not touch the settings; for each, whether it is
  boolean and which values it takes.
\<close>

type_synonym library_flags = "string \<Rightarrow> (bool \<times> (string \<Rightarrow> bool)) option"

definition with_library :: "library_flags \<Rightarrow> (string \<Rightarrow> 's flag option) \<Rightarrow> string \<Rightarrow> 's flag option" where
  "with_library lib own name =
     (case own name of
        Some f \<Rightarrow> Some f
      | None \<Rightarrow> (case lib name of
            None \<Rightarrow> None
          | Some (True, _) \<Rightarrow> Some (BoolFlag (\<lambda>_ s. s))
          | Some (False, ok) \<Rightarrow>
              Some (ValueFlag (\<lambda>v s. if ok v then Inr s else Inl (GoError OtherReason ''invalid value'')))))"

section \<open>Flags with their values\<close>

text \<open>The text of a flag with its value, \<open>--name=value\<close>.\<close>

definition flag_text :: "string \<Rightarrow> string \<Rightarrow> string" where
  "flag_text name v = ''--'' @ name @ CHR ''='' # v"

definition flag_name :: "string \<Rightarrow> bool" where
  "flag_name name \<longleftrightarrow> name \<noteq> [] \<and> hd name \<noteq> CHR ''-'' \<and> CHR ''='' \<notin> set name"

lemma split_flag_text:
  assumes "flag_name name"
  shows "split_flag (name @ CHR ''='' # v) = (name, Some v)" "split_flag name = (name, None)"
proof -
  obtain c cs where name: "name = c # cs" "CHR ''='' \<notin> set cs"
    using assms by (cases name) (auto simp: flag_name_def)
  have "takeWhile (\<lambda>c. c \<noteq> CHR ''='') (cs @ CHR ''='' # v) = cs"
    "dropWhile (\<lambda>c. c \<noteq> CHR ''='') (cs @ CHR ''='' # v) = CHR ''='' # v"
    "dropWhile (\<lambda>c. c \<noteq> CHR ''='') cs = []"
    using name(2) by (auto simp: takeWhile_append dropWhile_append)
  then show "split_flag (name @ CHR ''='' # v) = (name, Some v)" "split_flag name = (name, None)"
    by (simp_all add: split_flag_def name(1))
qed

lemma classify_flag_text:
  assumes "flag_name name"
  shows "classify_arg (flag_text name v) = FlagArg name (Some v)" "classify_arg (''--'' @ name) = FlagArg name None"
proof -
  have "hd (name @ t) = hd name" "name \<noteq> []" "hd name \<noteq> CHR ''-''" "hd name \<noteq> CHR ''=''" for t
    using assms by (cases name; auto simp: flag_name_def)+
  then show "classify_arg (flag_text name v) = FlagArg name (Some v)" "classify_arg (''--'' @ name) = FlagArg name None"
    using split_flag_text [OF assms] by (simp_all add: classify_arg_def flag_text_def)
qed

lemma parse_value_flag:
  assumes "flag_name name" "formal name = Some (ValueFlag put)"
  shows "parse_flags formal s (flag_text name v # as) =
    (case put v s of Inl _ \<Rightarrow> ParseExit usage_error | Inr s' \<Rightarrow> parse_flags formal s' as)"
  using classify_flag_text(1) [OF assms(1)] assms(2) by simp

lemma parse_bool_flag:
  assumes "flag_name name" "formal name = Some (BoolFlag put)"
  shows "parse_flags formal s (flag_text name v # as) =
      (case ParseBool v of None \<Rightarrow> ParseExit usage_error | Some b \<Rightarrow> parse_flags formal (put b s) as)"
    "parse_flags formal s ((''--'' @ name) # as) = parse_flags formal (put True s) as"
  using classify_flag_text [OF assms(1)] assms(2) by simp_all

end
