(* ===== verification/CommandLine.thy ===== *)
theory CommandLine
  imports Events GoDuration GoFlag
begin

text \<open>
  The three commands (\<open>cmd/main.go\<close>, \<open>cmd/eks-karpenter-bootstrapper/main.go\<close>,
  \<open>cmd/eks-kubeconfig-rotator/main.go\<close>): their flags, the options they give the manager, the
  controllers they register, and the status they end with. A run issues the calls of \<open>Setup\<close>;
  its value is the exit status.
\<close>

section \<open>Flags of the provider's manager\<close>

definition controllerGroupInfrastructure :: string where "controllerGroupInfrastructure = ''infrastructure''"
definition controllerGroupControlPlane :: string where "controllerGroupControlPlane = ''control-plane''"

record manager_settings =
  ms_metricsAddr :: string
  ms_probeAddr :: string
  ms_enableLeaderElection :: bool
  ms_secureMetrics :: bool
  ms_webhookCertPath :: string
  ms_webhookCertName :: string
  ms_webhookCertKey :: string
  ms_metricsCertPath :: string
  ms_metricsCertName :: string
  ms_metricsCertKey :: string
  ms_enableHTTP2 :: bool
  ms_enabledControllers :: "string list"

definition manager_defaults :: manager_settings where
  "manager_defaults = \<lparr>ms_metricsAddr = ''0'', ms_probeAddr = '':8081'', ms_enableLeaderElection = False,
     ms_secureMetrics = True, ms_webhookCertPath = '''', ms_webhookCertName = ''tls.crt'', ms_webhookCertKey = ''tls.key'',
     ms_metricsCertPath = '''', ms_metricsCertName = ''tls.crt'', ms_metricsCertKey = ''tls.key'',
     ms_enableHTTP2 = False, ms_enabledControllers = []\<rparr>"

text \<open>\<open>stringSliceFlag\<close>: every occurrence adds one value; \<open>String\<close> joins them.\<close>

definition slice_String :: "string list \<Rightarrow> string" where
  "slice_String s = str_join s '',''"

definition slice_Set :: "string \<Rightarrow> string list \<Rightarrow> string list result" where
  "slice_Set value0 s =
     (let value = TrimSpace value0 in
      if value = '''' then Inl (errorf ''enable-controller value must not be empty'') else Inr (s @ [value]))"

definition manager_flags :: "string \<Rightarrow> manager_settings flag option" where
  "manager_flags = map_of
     [(''metrics-bind-address'', StringVar (\<lambda>v s. s\<lparr>ms_metricsAddr := v\<rparr>)),
      (''health-probe-bind-address'', StringVar (\<lambda>v s. s\<lparr>ms_probeAddr := v\<rparr>)),
      (''leader-elect'', BoolVar (\<lambda>b s. s\<lparr>ms_enableLeaderElection := b\<rparr>)),
      (''metrics-secure'', BoolVar (\<lambda>b s. s\<lparr>ms_secureMetrics := b\<rparr>)),
      (''webhook-cert-path'', StringVar (\<lambda>v s. s\<lparr>ms_webhookCertPath := v\<rparr>)),
      (''webhook-cert-name'', StringVar (\<lambda>v s. s\<lparr>ms_webhookCertName := v\<rparr>)),
      (''webhook-cert-key'', StringVar (\<lambda>v s. s\<lparr>ms_webhookCertKey := v\<rparr>)),
      (''metrics-cert-path'', StringVar (\<lambda>v s. s\<lparr>ms_metricsCertPath := v\<rparr>)),
      (''metrics-cert-name'', StringVar (\<lambda>v s. s\<lparr>ms_metricsCertName := v\<rparr>)),
      (''metrics-cert-key'', StringVar (\<lambda>v s. s\<lparr>ms_metricsCertKey := v\<rparr>)),
      (''enable-http2'', BoolVar (\<lambda>b s. s\<lparr>ms_enableHTTP2 := b\<rparr>)),
      (''enable-controller'', ValueFlag (\<lambda>v s.
         map_sum id (\<lambda>vs. s\<lparr>ms_enabledControllers := vs\<rparr>) (slice_Set v (ms_enabledControllers s))))]"

fun enabledControllerSet :: "string list \<Rightarrow> (string, bool) fmap \<Rightarrow> (string, bool) fmap result" where
  "enabledControllerSet [] acc = Inr acc"
| "enabledControllerSet (v # vs) acc =
     (if v = controllerGroupInfrastructure \<or> v = controllerGroupControlPlane
      then enabledControllerSet vs (fmupd v True acc)
      else Inl (errorf (''unknown controller group '' @ quote v @ '' (supported: '' @ controllerGroupInfrastructure @ '', '' @
        controllerGroupControlPlane @ '')'')))"

section \<open>The manager of the provider\<close>

text \<open>The error of a call ends the process with status 1.\<close>

definition or_exit :: "unit result manager_eff \<Rightarrow> nat manager_eff \<Rightarrow> nat manager_eff" where
  "or_exit m k = bind_eff m (\<lambda>r. case r of Inl _ \<Rightarrow> ret 1 | Inr _ \<Rightarrow> k)"

definition serve_manager :: "manager_env \<Rightarrow> nat manager_eff" where
  "serve_manager me =
     or_exit (mgr me (AddHealthzCheck ''healthz''))
     (or_exit (mgr me (AddReadyzCheck ''readyz''))
     (or_exit (mgr me StartManager) (ret 0)))"

text \<open>\<open>http/1.1\<close> alone, unless HTTP/2 was asked for.\<close>

definition tls_protos :: "bool \<Rightarrow> string list" where
  "tls_protos enableHTTP2 = (if \<not> enableHTTP2 then [''http/1.1''] else [])"

definition cert_files :: "string \<Rightarrow> string \<Rightarrow> string \<Rightarrow> (string \<times> string \<times> string) option" where
  "cert_files path name key = (if length path > 0 then Some (path, name, key) else None)"

text \<open>Which groups run.\<close>

record groups =
  gr_all :: bool
  gr_infrastructure :: bool
  gr_controlPlane :: bool

definition groups_of :: "(string, bool) fmap \<Rightarrow> groups" where
  "groups_of enabledSet =
     (let on = (\<lambda>k. case fmlookup enabledSet k of None \<Rightarrow> False | Some b \<Rightarrow> b); runAll = (enabledSet = fmempty) in
      \<lparr>gr_all = runAll, gr_infrastructure = (runAll \<or> on controllerGroupInfrastructure),
       gr_controlPlane = (runAll \<or> on controllerGroupControlPlane)\<rparr>)"

definition manager_lease :: "groups \<Rightarrow> string" where
  "manager_lease g =
     (let i = ''4d5f86eb.cluster.x-k8s.io'' in
      if \<not> gr_all g \<and> gr_infrastructure g \<and> \<not> gr_controlPlane g then ''infrastructure.'' @ i
      else if \<not> gr_all g \<and> gr_controlPlane g \<and> \<not> gr_infrastructure g then ''control-plane.'' @ i
      else i)"

definition manager_scheme :: "string list" where
  "manager_scheme = [''client-go'', ''cluster.x-k8s.io'', ''bootstrap.cluster.x-k8s.io'', ''controlplane.cluster.x-k8s.io'',
     ''infrastructure.cluster.x-k8s.io'']"

definition manager_options_of :: "manager_settings \<Rightarrow> groups \<Rightarrow> manager_options" where
  "manager_options_of s g =
     \<lparr>mo_Scheme = manager_scheme,
      mo_MetricsBindAddress = ms_metricsAddr s, mo_MetricsSecure = ms_secureMetrics s, mo_MetricsAuth = ms_secureMetrics s,
      mo_MetricsProtos = tls_protos (ms_enableHTTP2 s),
      mo_MetricsCert = cert_files (ms_metricsCertPath s) (ms_metricsCertName s) (ms_metricsCertKey s),
      mo_WebhookServer = Some (tls_protos (ms_enableHTTP2 s),
        cert_files (ms_webhookCertPath s) (ms_webhookCertName s) (ms_webhookCertKey s)),
      mo_ProbeBindAddress = ms_probeAddr s, mo_LeaderElection = ms_enableLeaderElection s,
      mo_LeaderElectionID = manager_lease g, mo_Namespaces = [], mo_UncachedSecrets = True\<rparr>"

text \<open>The self-managed control plane controller is built without a recorder.\<close>

definition manager_start :: "manager_env \<Rightarrow> manager_settings \<times> groups \<Rightarrow> nat manager_eff" where
  "manager_start me = (\<lambda>(s, g).
     let group = (\<lambda>b steps rest. if b then foldr or_exit steps rest else rest) in
     or_exit (mgr me GetConfig)
     (or_exit (mgr me (NewManager (manager_options_of s g)))
     (group (gr_controlPlane g)
        [cp_SetupWithManager me True, kcp_SetupWithManager me False, cp_SetupWebhookWithManager me,
         template_SetupWebhookWithManager me]
     (group (gr_infrastructure g) [ic_SetupWithManager me]
     (serve_manager me)))))"

definition manager_main :: "library_flags \<Rightarrow> manager_env \<Rightarrow> string list \<Rightarrow> nat manager_eff" where
  "manager_main lib me args =
     (case parse_flags (with_library lib manager_flags) manager_defaults args of
        ParseExit n \<Rightarrow> ret n
      | Parsed s _ \<Rightarrow> (case enabledControllerSet (ms_enabledControllers s) fmempty of
            Inl _ \<Rightarrow> ret 2
          | Inr enabledSet \<Rightarrow> manager_start me (s, groups_of enabledSet)))"

section \<open>The commands of the EKS plugin\<close>

text \<open>The flags both commands have.\<close>

record plugin_settings =
  ps_metricsAddr :: string
  ps_probeAddr :: string
  ps_enableLeaderElection :: bool
  ps_secureMetrics :: bool
  ps_enableHTTP2 :: bool
  ps_watchNamespace :: string
  ps_failureBackoff :: string

record karpenter_settings = plugin_settings +
  ps_steadyStateRequeue :: string
  ps_karpenterChartVersion :: string
  ps_karpenterFeatureGatesJSON :: string

record rotator_settings = plugin_settings +
  ps_refreshBefore :: string
  ps_maxRefresh :: string

definition plugin_flags :: "(string \<times> 'a plugin_settings_scheme flag) list" where
  "plugin_flags =
     [(''metrics-bind-address'', StringVar (\<lambda>v s. s\<lparr>ps_metricsAddr := v\<rparr>)),
      (''health-probe-bind-address'', StringVar (\<lambda>v s. s\<lparr>ps_probeAddr := v\<rparr>)),
      (''leader-elect'', BoolVar (\<lambda>b s. s\<lparr>ps_enableLeaderElection := b\<rparr>)),
      (''metrics-secure'', BoolVar (\<lambda>b s. s\<lparr>ps_secureMetrics := b\<rparr>)),
      (''enable-http2'', BoolVar (\<lambda>b s. s\<lparr>ps_enableHTTP2 := b\<rparr>)),
      (''watch-namespace'', StringVar (\<lambda>v s. s\<lparr>ps_watchNamespace := v\<rparr>)),
      (''failure-backoff'', StringVar (\<lambda>v s. s\<lparr>ps_failureBackoff := v\<rparr>))]"

definition karpenter_defaults :: karpenter_settings where
  "karpenter_defaults = \<lparr>ps_metricsAddr = ''0'', ps_probeAddr = '':8081'', ps_enableLeaderElection = False,
     ps_secureMetrics = True, ps_enableHTTP2 = False, ps_watchNamespace = '''', ps_failureBackoff = ''30s'',
     ps_steadyStateRequeue = ''10m'', ps_karpenterChartVersion = '''', ps_karpenterFeatureGatesJSON = ''''\<rparr>"

definition karpenter_flags :: "string \<Rightarrow> karpenter_settings flag option" where
  "karpenter_flags = map_of (plugin_flags @
     [(''steady-state-requeue'', StringVar (\<lambda>v s. s\<lparr>ps_steadyStateRequeue := v\<rparr>)),
      (''karpenter-chart-version'', StringVar (\<lambda>v s. s\<lparr>ps_karpenterChartVersion := v\<rparr>)),
      (''karpenter-feature-gates-json'', StringVar (\<lambda>v s. s\<lparr>ps_karpenterFeatureGatesJSON := v\<rparr>))])"

definition rotator_defaults :: rotator_settings where
  "rotator_defaults = \<lparr>ps_metricsAddr = ''0'', ps_probeAddr = '':8081'', ps_enableLeaderElection = False,
     ps_secureMetrics = True, ps_enableHTTP2 = False, ps_watchNamespace = '''', ps_failureBackoff = ''30s'',
     ps_refreshBefore = ''5m'', ps_maxRefresh = ''10m''\<rparr>"

definition rotator_flags :: "string \<Rightarrow> rotator_settings flag option" where
  "rotator_flags = map_of (plugin_flags @
     [(''refresh-before'', StringVar (\<lambda>v s. s\<lparr>ps_refreshBefore := v\<rparr>)),
      (''max-refresh-interval'', StringVar (\<lambda>v s. s\<lparr>ps_maxRefresh := v\<rparr>))])"

definition plugin_options :: "'a plugin_settings_scheme \<Rightarrow> string \<Rightarrow> manager_options" where
  "plugin_options s lease =
     \<lparr>mo_Scheme = [''client-go'', ''cluster.x-k8s.io''],
      mo_MetricsBindAddress = ps_metricsAddr s, mo_MetricsSecure = ps_secureMetrics s, mo_MetricsAuth = ps_secureMetrics s,
      mo_MetricsProtos = tls_protos (ps_enableHTTP2 s), mo_MetricsCert = None, mo_WebhookServer = None,
      mo_ProbeBindAddress = ps_probeAddr s, mo_LeaderElection = ps_enableLeaderElection s, mo_LeaderElectionID = lease,
      mo_Namespaces = (if ps_watchNamespace s \<noteq> '''' then [ps_watchNamespace s] else []), mo_UncachedSecrets = True\<rparr>"

definition karpenter_lease :: string where "karpenter_lease = ''8b9ae7d0.cluster.x-k8s.io''"
definition rotator_lease :: string where "rotator_lease = ''f6b95f95.cluster.x-k8s.io''"

definition karpenter_options :: "karpenter_settings \<Rightarrow> manager_options" where
  "karpenter_options s = plugin_options s karpenter_lease"

definition rotator_options :: "rotator_settings \<Rightarrow> manager_options" where
  "rotator_options s = plugin_options s rotator_lease"

text \<open>The two reconcilers of the bootstrapper, from its flags.\<close>

definition karpenter_reconcilers ::
    "((string, bool) fmap \<Rightarrow> string list) \<Rightarrow> karpenter_settings \<Rightarrow> (karpenter \<times> ocm) option" where
  "karpenter_reconcilers order s =
     (case ParseDuration (ps_failureBackoff s) of
        Inl _ \<Rightarrow> None
      | Inr backoff \<Rightarrow> (case ParseDuration (ps_steadyStateRequeue s) of
          Inl _ \<Rightarrow> None
        | Inr steady \<Rightarrow> (case ParseKarpenterFeatureGatesJSON order (ps_karpenterFeatureGatesJSON s) of
            Inl _ \<Rightarrow> None
          | Inr gates \<Rightarrow> Some
             (\<lparr>kr_FailureBackoff = backoff, kr_SteadyStateRequeue = steady,
               kr_KarpenterChartTag = ps_karpenterChartVersion s, kr_KarpenterFeatureGates = gates,
               kr_CleanupFinalizer = '''', kr_hasTokenGenerator = False\<rparr>,
              \<lparr>oc_FailureBackoff = backoff, oc_SteadyStateRequeue = steady\<rparr>))))"

definition karpenter_start :: "manager_env \<Rightarrow> karpenter_settings \<times> karpenter \<times> ocm \<Rightarrow> nat manager_eff" where
  "karpenter_start me = (\<lambda>(s, r, oc).
     or_exit (mgr me GetConfig)
     (or_exit (mgr me (NewManager (karpenter_options s)))
     (or_exit (kar_SetupWithManager me True r)
     (or_exit (ocm_SetupWithManager me True oc)
     (serve_manager me)))))"

definition karpenter_main ::
    "((string, bool) fmap \<Rightarrow> string list) \<Rightarrow> library_flags \<Rightarrow> manager_env \<Rightarrow> string list \<Rightarrow> nat manager_eff" where
  "karpenter_main order lib me args =
     (case parse_flags (with_library lib karpenter_flags) karpenter_defaults args of
        ParseExit n \<Rightarrow> ret n
      | Parsed s _ \<Rightarrow> (case karpenter_reconcilers order s of
            None \<Rightarrow> ret 1
          | Some (r, oc) \<Rightarrow> karpenter_start me (s, r, oc)))"

text \<open>An error names the flag.\<close>

definition parsePolicy :: "string \<Rightarrow> string \<Rightarrow> string \<Rightarrow> (string \<times> duration_error) + RequeuePolicy" where
  "parsePolicy refreshBefore maxRefresh failureBackoff =
     (case ParseDuration refreshBefore of
        Inl e \<Rightarrow> Inl (''parse refresh-before'', e)
      | Inr before \<Rightarrow> (case ParseDuration maxRefresh of
          Inl e \<Rightarrow> Inl (''parse max-refresh-interval'', e)
        | Inr max_refresh \<Rightarrow> (case ParseDuration failureBackoff of
            Inl e \<Rightarrow> Inl (''parse failure-backoff'', e)
          | Inr backoff \<Rightarrow> Inr \<lparr>rp_RefreshBefore = before, rp_MaxRefresh = max_refresh, rp_FailureBackoff = backoff,
              rp_ImmediateRequeue = 0\<rparr>)))"

definition rotator_start :: "manager_env \<Rightarrow> rotator_settings \<times> RequeuePolicy \<Rightarrow> nat manager_eff" where
  "rotator_start me = (\<lambda>(s, policy).
     or_exit (mgr me GetConfig)
     (or_exit (mgr me (NewManager (rotator_options s)))
     (or_exit (rotator_SetupWithManager me True \<lparr>rt_hasTokenGenerator = False, rt_Policy = policy\<rparr>)
     (serve_manager me))))"

definition rotator_main :: "library_flags \<Rightarrow> manager_env \<Rightarrow> string list \<Rightarrow> nat manager_eff" where
  "rotator_main lib me args =
     (case parse_flags (with_library lib rotator_flags) rotator_defaults args of
        ParseExit n \<Rightarrow> ret n
      | Parsed s _ \<Rightarrow> (case parsePolicy (ps_refreshBefore s) (ps_maxRefresh s) (ps_failureBackoff s) of
            Inl _ \<Rightarrow> ret 1
          | Inr policy \<Rightarrow> rotator_start me (s, policy)))"

end
