(* ===== verification/Startup.thy ===== *)
theory Startup
  imports CommandLine
begin

text \<open>
  What the commands do, as plans: the calls a start makes in order, and that a start is its plan up to
  the first refused call. From this: nothing is started half, no two deployments fight over a lease,
  and the reconcilers get the intervals of the flags.
\<close>

section \<open>Plans\<close>

text \<open>A second registration of the index on one manager is no failure.\<close>

definition tolerated :: "manager_call \<Rightarrow> go_error \<Rightarrow> bool" where
  "tolerated c e \<longleftrightarrow> (\<exists>g k. c = IndexField g k) \<and>
     (str_contains (err_text e) ''already exists'' \<or> str_contains (err_text e) ''indexer conflict'')"

definition refused :: "manager_env \<Rightarrow> manager_call list \<Rightarrow> manager_call \<Rightarrow> bool" where
  "refused me h c = (case me_answer me h c of Inl e \<Rightarrow> \<not> tolerated c e | Inr _ \<Rightarrow> False)"

text \<open>The calls in order up to the first refused one; the exit status.\<close>

fun run_plan :: "manager_env \<Rightarrow> manager_call list \<Rightarrow> manager_call list \<Rightarrow> nat \<times> manager_call list" where
  "run_plan me [] h = (0, h)"
| "run_plan me (c # cs) h = (if refused me h c then (1, h @ [c]) else run_plan me cs (h @ [c]))"

lemma run_plan_append:
  "run_plan me (p @ q) h = (if fst (run_plan me p h) = 0 then run_plan me q (snd (run_plan me p h)) else run_plan me p h)"
  by (induction p arbitrary: h) auto

lemma run_plan_status: "fst (run_plan me p h) \<le> 1"
  by (induction p arbitrary: h) auto

lemma run_plan_trace: "\<exists>n \<le> length p. snd (run_plan me p h) = h @ take n p \<and> (fst (run_plan me p h) = 0 \<longrightarrow> n = length p)"
proof (induction p arbitrary: h)
  case (Cons c p)
  obtain n where n: "n \<le> length p" "snd (run_plan me p (h @ [c])) = (h @ [c]) @ take n p"
    "fst (run_plan me p (h @ [c])) = 0 \<longrightarrow> n = length p"
    using Cons.IH by blast
  show ?case
  proof (cases "refused me h c")
    case True
    then show ?thesis by (intro exI [of _ 1]) simp
  next
    case False
    then show ?thesis using n by (intro exI [of _ "Suc n"]) auto
  qed
qed simp

text \<open>A step of a start that makes the calls \<open>p\<close> and fails exactly if one of them is refused.\<close>

definition follows :: "manager_env \<Rightarrow> unit result manager_eff \<Rightarrow> manager_call list \<Rightarrow> bool" where
  "follows me m p \<longleftrightarrow> (\<forall>h. snd (run_state m h) = snd (run_plan me p h) \<and>
     (isl (fst (run_state m h)) \<longleftrightarrow> fst (run_plan me p h) \<noteq> 0))"

named_theorems follow_intros \<open>steps of a start and their plans\<close>

lemma follows_mgr [follow_intros]: "(\<And>g k. c \<noteq> IndexField g k) \<Longrightarrow> follows me (mgr me c) [c]"
  by (auto simp: follows_def mgr_def refused_def tolerated_def split: sum.splits)

lemma follows_ret [follow_intros]: "follows me (ret (Inr ())) []"
  by (simp add: follows_def)

lemma follows_index [follow_intros]:
  "follows me (ensureACKClusterNameIndex me) [IndexField capiClusterGVK ackClusterNameIndexKey]"
  by (auto simp: follows_def ensureACKClusterNameIndex_def mgr_def refused_def tolerated_def split: sum.splits)

lemma follows_try [follow_intros]:
  assumes "follows me m p" "\<And>x. follows me (k x) q"
  shows "follows me (try_bind m k) (p @ q)"
proof -
  have "snd (run_state (try_bind m k) h) = snd (run_plan me (p @ q) h) \<and>
      (isl (fst (run_state (try_bind m k) h)) \<longleftrightarrow> fst (run_plan me (p @ q) h) \<noteq> 0)" for h
  proof -
    obtain r h1 where r: "run_state m h = (r, h1)" by fastforce
    have p: "h1 = snd (run_plan me p h)" "isl r \<longleftrightarrow> fst (run_plan me p h) \<noteq> 0"
      using assms(1) r unfolding follows_def by (metis fst_conv snd_conv)+
    show ?thesis
    proof (cases r)
      case (Inl e)
      then show ?thesis using r p by (simp add: run_try_bind run_plan_append)
    next
      case (Inr x)
      then show ?thesis
        using r p assms(2) [of x] unfolding follows_def by (simp add: run_try_bind run_plan_append)
    qed
  qed
  then show ?thesis by (simp add: follows_def)
qed

lemma run_or_exit:
  assumes "follows me m p" "\<And>h. run_state k h = run_plan me q h"
  shows "run_state (or_exit m k) h = run_plan me (p @ q) h"
proof -
  obtain r h1 where r: "run_state m h = (r, h1)" by fastforce
  have p: "h1 = snd (run_plan me p h)" "isl r \<longleftrightarrow> fst (run_plan me p h) \<noteq> 0"
    using assms(1) r unfolding follows_def by (metis fst_conv snd_conv)+
  have "fst (run_plan me p h) \<noteq> 0 \<Longrightarrow> run_plan me p h = (1, h1)"
    using run_plan_status [of me p h] p(1) by (simp add: prod_eq_iff)
  then show ?thesis
    using r p assms(2) by (cases r) (simp_all add: or_exit_def run_plan_append)
qed

section \<open>A start that keeps to its plan\<close>

text \<open>
  The contract of the three starts: from any state they are their plan. The plan ends with the start of
  the manager, which it contains only there.
\<close>

locale planned_start =
  fixes start :: "manager_env \<Rightarrow> 'c \<Rightarrow> nat manager_eff"
    and before :: "manager_env \<Rightarrow> 'c \<Rightarrow> manager_call list"
  assumes keeps_plan: "run_state (start me c) h = run_plan me (before me c @ [StartManager]) h"
    and starts_last: "StartManager \<notin> set (before me c)"
begin

text \<open>A start that gets to the manager's loop has done everything before.\<close>

lemma started_after_everything:
  assumes "StartManager \<in> set (snd (run_state (start me c) []))"
  shows "snd (run_state (start me c) []) = before me c @ [StartManager]"
proof -
  let ?p = "before me c @ [StartManager]"
  obtain n where n: "n \<le> length ?p" "snd (run_state (start me c) []) = take n ?p"
    unfolding keeps_plan using run_plan_trace [of ?p me "[]"] by auto
  have "\<not> n \<le> length (before me c)"
    using assms starts_last [of me c] unfolding n(2) by (auto dest: in_set_takeD)
  then show ?thesis using n by simp
qed

text \<open>Otherwise the last call was refused and the status is 1.\<close>

lemma status_of_start: "fst (run_state (start me c) []) \<le> 1"
  unfolding keeps_plan by (rule run_plan_status)

lemma success_is_complete:
  assumes "fst (run_state (start me c) []) = 0"
  shows "snd (run_state (start me c) []) = before me c @ [StartManager]"
  using run_plan_trace [of "before me c @ [StartManager]" me "[]"] assms unfolding keeps_plan by auto

lemma only_planned:
  assumes "x \<in> set (snd (run_state (start me c) []))"
  shows "x \<in> set (before me c) \<or> x = StartManager"
proof -
  obtain n where "snd (run_state (start me c) []) = take n (before me c @ [StartManager])"
    unfolding keeps_plan using run_plan_trace [of "before me c @ [StartManager]" me "[]"] by auto
  then have "x \<in> set (before me c @ [StartManager])" using assms by (metis in_set_takeD)
  then show ?thesis by auto
qed

end

section \<open>The plans of the three commands\<close>

definition checks_plan :: "manager_call list" where
  "checks_plan = [AddHealthzCheck ''healthz'', AddReadyzCheck ''readyz'']"

lemma run_serve: "run_state (serve_manager me) h = run_plan me (checks_plan @ [StartManager]) h"
proof -
  have "run_state (serve_manager me) h =
      run_plan me ([AddHealthzCheck ''healthz''] @ [AddReadyzCheck ''readyz''] @ [StartManager] @ []) h"
    unfolding serve_manager_def by (intro run_or_exit follows_mgr) simp_all
  then show ?thesis by (simp add: checks_plan_def)
qed

definition control_plane_plan :: "manager_call list" where
  "control_plane_plan =
     [NewManagerDynamicClient, NewHTTPClient, NewDynamicRESTMapper, AddWatcher,
      CompleteController ''kany8scontrolplane'' (ControlPlaneReconciler True)
        [ForKind (kind_in controlPlaneGroupVersion ''Kany8sControlPlane''), WatchChannel 1024],
      CompleteController ''controlplane-kany8skubeadmcontrolplane'' (KubeadmReconciler False)
        [ForKind (kind_in controlPlaneGroupVersion ''Kany8sKubeadmControlPlane'')],
      CompleteWebhook (kind_in controlPlaneGroupVersion ''Kany8sControlPlane''),
      CompleteWebhook (kind_in controlPlaneGroupVersion ''Kany8sControlPlaneTemplate'')]"

definition infrastructure_plan :: "manager_call list" where
  "infrastructure_plan =
     [CompleteController ''infrastructure-kany8scluster'' ClusterReconciler
        [ForKind (kind_in infrastructureGroupVersion ''Kany8sCluster'')]]"

definition manager_plan :: "manager_env \<Rightarrow> manager_settings \<times> groups \<Rightarrow> manager_call list" where
  "manager_plan me = (\<lambda>(s, g).
     [GetConfig, NewManager (manager_options_of s g)] @
     (if gr_controlPlane g then control_plane_plan else []) @
     (if gr_infrastructure g then infrastructure_plan else []) @ checks_plan)"

lemma cp_follows: "follows me (cp_SetupWithManager me b) (
    [NewManagerDynamicClient] @ [NewHTTPClient] @ [NewDynamicRESTMapper] @ [AddWatcher] @
      [CompleteController ''kany8scontrolplane'' (ControlPlaneReconciler b)
        [ForKind (kind_in controlPlaneGroupVersion ''Kany8sControlPlane''), WatchChannel 1024]])"
  unfolding cp_SetupWithManager_def by (intro follow_intros) simp_all

lemma run_control_plane_group:
  assumes "\<And>h. run_state k h = run_plan me q h"
  shows "run_state (foldr or_exit [cp_SetupWithManager me True, kcp_SetupWithManager me False,
      cp_SetupWebhookWithManager me, template_SetupWebhookWithManager me] k) h = run_plan me (control_plane_plan @ q) h"
proof -
  have "run_state (foldr or_exit [cp_SetupWithManager me True, kcp_SetupWithManager me False,
      cp_SetupWebhookWithManager me, template_SetupWebhookWithManager me] k) h =
    run_plan me (([NewManagerDynamicClient] @ [NewHTTPClient] @ [NewDynamicRESTMapper] @ [AddWatcher] @
      [CompleteController ''kany8scontrolplane'' (ControlPlaneReconciler True)
        [ForKind (kind_in controlPlaneGroupVersion ''Kany8sControlPlane''), WatchChannel 1024]]) @
      [CompleteController ''controlplane-kany8skubeadmcontrolplane'' (KubeadmReconciler False)
        [ForKind (kind_in controlPlaneGroupVersion ''Kany8sKubeadmControlPlane'')]] @
      [CompleteWebhook (kind_in controlPlaneGroupVersion ''Kany8sControlPlane'')] @
      [CompleteWebhook (kind_in controlPlaneGroupVersion ''Kany8sControlPlaneTemplate'')] @ q) h"
    unfolding kcp_SetupWithManager_def cp_SetupWebhookWithManager_def template_SetupWebhookWithManager_def
      foldr.simps comp_def id_def
    by (intro run_or_exit cp_follows follows_mgr assms) simp_all
  then show ?thesis by (simp add: control_plane_plan_def)
qed

lemma run_manager_start: "run_state (manager_start me c) h = run_plan me (manager_plan me c @ [StartManager]) h"
proof -
  obtain s g where c: "c = (s, g)" by (cases c)
  let ?rest = "if gr_infrastructure g then foldr or_exit [ic_SetupWithManager me] (serve_manager me) else serve_manager me"
  have infra: "run_state ?rest h = run_plan me ((if gr_infrastructure g then infrastructure_plan else []) @
      checks_plan @ [StartManager]) h" for h
    using run_or_exit [OF follows_mgr run_serve] run_serve
    by (auto simp: ic_SetupWithManager_def infrastructure_plan_def)
  have control: "run_state (if gr_controlPlane g then foldr or_exit [cp_SetupWithManager me True,
        kcp_SetupWithManager me False, cp_SetupWebhookWithManager me, template_SetupWebhookWithManager me] ?rest else ?rest) h =
      run_plan me ((if gr_controlPlane g then control_plane_plan else []) @
        (if gr_infrastructure g then infrastructure_plan else []) @ checks_plan @ [StartManager]) h" for h
    using run_control_plane_group [OF infra] infra by (cases "gr_controlPlane g") simp_all
  have "run_state (manager_start me c) h = run_plan me ([GetConfig] @ [NewManager (manager_options_of s g)] @
      (if gr_controlPlane g then control_plane_plan else []) @ (if gr_infrastructure g then infrastructure_plan else []) @
      checks_plan @ [StartManager]) h"
    unfolding manager_start_def c prod.case Let_def
    by (intro run_or_exit follows_mgr control) simp_all
  then show ?thesis by (simp add: manager_plan_def c)
qed


definition kar_with_defaults :: "karpenter \<Rightarrow> karpenter" where
  "kar_with_defaults r = r\<lparr>kr_hasTokenGenerator := True, kr_FailureBackoff := kar_failureBackoff r,
     kr_SteadyStateRequeue := kar_steadyStateRequeue r\<rparr>"

definition ocm_with_defaults :: "ocm \<Rightarrow> ocm" where
  "ocm_with_defaults r = r\<lparr>oc_FailureBackoff := ocm_failureBackoff r, oc_SteadyStateRequeue := ocm_steadyStateRequeue r\<rparr>"

definition index_plan :: "manager_call list" where
  "index_plan = [IndexField capiClusterGVK ackClusterNameIndexKey]"

definition bootstrapper_plan :: "manager_env \<Rightarrow> karpenter_settings \<times> karpenter \<times> ocm \<Rightarrow> manager_call list" where
  "bootstrapper_plan me = (\<lambda>(s, r, oc).
     [GetConfig, NewManager (karpenter_options s)] @
     (if kr_hasTokenGenerator r then [] else [NewTokenGenerator]) @ index_plan @
     [CompleteController ''eks-karpenter-bootstrapper'' (KarpenterReconciler True (kar_with_defaults r)) (kar_watches me)] @
     index_plan @
     [CompleteController ''eks-ocm-awsirsa-bootstrapper'' (OcmReconciler True (ocm_with_defaults oc)) (ocm_watches me)] @
     checks_plan)"

lemma kar_follows:
  "follows me (kar_SetupWithManager me b r) ((if kr_hasTokenGenerator r then [] else [NewTokenGenerator]) @ index_plan @
     [CompleteController ''eks-karpenter-bootstrapper'' (KarpenterReconciler b (kar_with_defaults r)) (kar_watches me)])"
proof -
  have generator: "follows me (if \<not> kr_hasTokenGenerator r then mgr me NewTokenGenerator else ret (Inr ()))
      (if kr_hasTokenGenerator r then [] else [NewTokenGenerator])"
    by (auto intro: follow_intros)
  show ?thesis
    unfolding kar_SetupWithManager_def Let_def index_plan_def kar_with_defaults_def kar_failureBackoff_def kar_steadyStateRequeue_def
    by (intro follows_try generator follow_intros) simp_all
qed

lemma ocm_follows:
  "follows me (ocm_SetupWithManager me b r) (index_plan @
     [CompleteController ''eks-ocm-awsirsa-bootstrapper'' (OcmReconciler b (ocm_with_defaults r)) (ocm_watches me)])"
  unfolding ocm_SetupWithManager_def Let_def index_plan_def ocm_with_defaults_def ocm_failureBackoff_def ocm_steadyStateRequeue_def
  by (intro follow_intros) simp_all

lemma run_karpenter_start: "run_state (karpenter_start me c) h = run_plan me (bootstrapper_plan me c @ [StartManager]) h"
proof -
  obtain s r oc where c: "c = (s, r, oc)" by (metis prod_cases3)
  have "run_state (karpenter_start me c) h = run_plan me ([GetConfig] @ [NewManager (karpenter_options s)] @
      ((if kr_hasTokenGenerator r then [] else [NewTokenGenerator]) @ index_plan @
       [CompleteController ''eks-karpenter-bootstrapper'' (KarpenterReconciler True (kar_with_defaults r)) (kar_watches me)]) @
      (index_plan @
       [CompleteController ''eks-ocm-awsirsa-bootstrapper'' (OcmReconciler True (ocm_with_defaults oc)) (ocm_watches me)]) @
      checks_plan @ [StartManager]) h"
    unfolding karpenter_start_def c prod.case
    by (intro run_or_exit follows_mgr kar_follows ocm_follows run_serve) simp_all
  then show ?thesis by (simp add: bootstrapper_plan_def c)
qed

definition rotator_with_defaults :: "RequeuePolicy \<Rightarrow> rotator" where
  "rotator_with_defaults p = \<lparr>rt_hasTokenGenerator = True, rt_Policy = (if p = zero_policy then DefaultRequeuePolicy else p)\<rparr>"

definition rotator_plan :: "manager_env \<Rightarrow> rotator_settings \<times> RequeuePolicy \<Rightarrow> manager_call list" where
  "rotator_plan me = (\<lambda>(s, p).
     [GetConfig, NewManager (rotator_options s), NewTokenGenerator] @ index_plan @
     [CompleteController ''eks-kubeconfig-rotator'' (RotatorReconciler True (rotator_with_defaults p)) (rotator_watches me)] @
     checks_plan)"

lemma rotator_follows:
  "follows me (rotator_SetupWithManager me b \<lparr>rt_hasTokenGenerator = False, rt_Policy = p\<rparr>) ([NewTokenGenerator] @ index_plan @
     [CompleteController ''eks-kubeconfig-rotator'' (RotatorReconciler b (rotator_with_defaults p)) (rotator_watches me)])"
proof -
  have generator: "follows me (if \<not> rt_hasTokenGenerator \<lparr>rt_hasTokenGenerator = False, rt_Policy = p\<rparr>
      then mgr me NewTokenGenerator else ret (Inr ())) [NewTokenGenerator]"
    by (auto intro: follow_intros)
  have same: "\<lparr>rt_hasTokenGenerator = False, rt_Policy = p\<rparr>\<lparr>rt_hasTokenGenerator := True,
      rt_Policy := (if rt_Policy \<lparr>rt_hasTokenGenerator = False, rt_Policy = p\<rparr> = zero_policy then DefaultRequeuePolicy
        else rt_Policy \<lparr>rt_hasTokenGenerator = False, rt_Policy = p\<rparr>)\<rparr> = rotator_with_defaults p"
    by (simp add: rotator_with_defaults_def)
  show ?thesis
    unfolding rotator_SetupWithManager_def Let_def index_plan_def same
    by (intro follows_try generator follow_intros) simp_all
qed

lemma run_rotator_start: "run_state (rotator_start me c) h = run_plan me (rotator_plan me c @ [StartManager]) h"
proof -
  obtain s p where c: "c = (s, p)" by (cases c)
  have "run_state (rotator_start me c) h = run_plan me ([GetConfig] @ [NewManager (rotator_options s)] @
      ([NewTokenGenerator] @ index_plan @
       [CompleteController ''eks-kubeconfig-rotator'' (RotatorReconciler True (rotator_with_defaults p)) (rotator_watches me)]) @
      checks_plan @ [StartManager]) h"
    unfolding rotator_start_def c prod.case
    by (intro run_or_exit follows_mgr rotator_follows run_serve) simp_all
  then show ?thesis by (simp add: rotator_plan_def c)
qed

lemmas plan_defs = manager_plan_def bootstrapper_plan_def rotator_plan_def control_plane_plan_def infrastructure_plan_def
  checks_plan_def index_plan_def

interpretation provider: planned_start manager_start manager_plan
  by unfold_locales (auto simp: run_manager_start plan_defs split: prod.splits)

interpretation bootstrapper: planned_start karpenter_start bootstrapper_plan
  by unfold_locales (auto simp: run_karpenter_start plan_defs split: prod.splits)

interpretation rotator: planned_start rotator_start rotator_plan
  by unfold_locales (auto simp: run_rotator_start plan_defs split: prod.splits)

section \<open>What is started\<close>

fun controllers_in :: "manager_call list \<Rightarrow> string list" where
  "controllers_in [] = []"
| "controllers_in (c # cs) = (case c of CompleteController n r ws \<Rightarrow> n # controllers_in cs | _ \<Rightarrow> controllers_in cs)"

fun webhooks_in :: "manager_call list \<Rightarrow> string list" where
  "webhooks_in [] = []"
| "webhooks_in (c # cs) = (case c of CompleteWebhook g \<Rightarrow> gvk_Kind g # webhooks_in cs | _ \<Rightarrow> webhooks_in cs)"

fun lease_in :: "manager_call list \<Rightarrow> string" where
  "lease_in [] = ''''"
| "lease_in (c # cs) = (case c of NewManager mo \<Rightarrow> mo_LeaderElectionID mo | _ \<Rightarrow> lease_in cs)"

lemma calls_in_append [simp]:
  "controllers_in (xs @ ys) = controllers_in xs @ controllers_in ys"
  "webhooks_in (xs @ ys) = webhooks_in xs @ webhooks_in ys"
  by (induction xs) (auto split: manager_call.splits)

lemma enabled_set:
  "enabledControllerSet vs acc = Inr es \<Longrightarrow>
   (\<forall>k. fmlookup es k = (if k \<in> set vs then Some True else fmlookup acc k)) \<and>
   set vs \<subseteq> {controllerGroupInfrastructure, controllerGroupControlPlane}"
  by (induction vs arbitrary: acc) (auto split: if_splits)

lemma enabled_set_empty: "enabledControllerSet vs fmempty = Inr es \<Longrightarrow> es = fmempty \<longleftrightarrow> vs = []"
proof (cases vs)
  case (Cons v vs')
  assume "enabledControllerSet vs fmempty = Inr es"
  then have "fmlookup es v = Some True" using enabled_set [of vs fmempty es] by (simp add: Cons)
  then show ?thesis using Cons by auto
qed simp

text \<open>Whether the flags ask for a group.\<close>

definition asks_for :: "manager_settings \<Rightarrow> string \<Rightarrow> bool" where
  "asks_for s grp \<longleftrightarrow> ms_enabledControllers s = [] \<or> grp \<in> set (ms_enabledControllers s)"

lemma groups_asked_for:
  assumes "enabledControllerSet (ms_enabledControllers s) fmempty = Inr es"
  shows "gr_infrastructure (groups_of es) \<longleftrightarrow> asks_for s controllerGroupInfrastructure"
    "gr_controlPlane (groups_of es) \<longleftrightarrow> asks_for s controllerGroupControlPlane"
    "gr_all (groups_of es) \<longleftrightarrow> ms_enabledControllers s = []"
    "gr_infrastructure (groups_of es) \<or> gr_controlPlane (groups_of es)"
  using enabled_set [OF assms] enabled_set_empty [OF assms]
  by (cases "ms_enabledControllers s"; auto simp: groups_of_def Let_def asks_for_def)+

lemma provider_started:
  assumes "StartManager \<in> set (snd (run_state (manager_main lib me args) []))"
  obtains s rest es where "parse_flags (with_library lib manager_flags) manager_defaults args = Parsed s rest"
    "enabledControllerSet (ms_enabledControllers s) fmempty = Inr es"
    "snd (run_state (manager_main lib me args) []) = manager_plan me (s, groups_of es) @ [StartManager]"
proof (cases "parse_flags (with_library lib manager_flags) manager_defaults args")
  case (ParseExit n)
  then show thesis using assms by (simp add: manager_main_def)
next
  case (Parsed s rest)
  show thesis
  proof (cases "enabledControllerSet (ms_enabledControllers s) fmempty")
    case (Inl e)
    then show thesis using assms Parsed by (simp add: manager_main_def)
  next
    case (Inr es)
    then have main: "manager_main lib me args = manager_start me (s, groups_of es)" by (simp add: manager_main_def Parsed)
    show thesis
      using that [OF Parsed Inr] provider.started_after_everything assms unfolding main by blast
  qed
qed

text \<open>
  C38. The provider's manager is never started half: a process that starts it has set up, for every
  group its flags ask for (all without such a flag) and for no other, all controllers and, for the
  control plane, both admission webhooks, and after them the two health checks, all without a
  refusal; the options come from the flags.
\<close>

theorem provider_starts_complete:
  fixes me :: manager_env and lib :: library_flags
  assumes "StartManager \<in> set (snd (run_state (manager_main lib me args) []))"
  defines "t \<equiv> snd (run_state (manager_main lib me args) [])"
  shows "\<exists>s rest g calls. parse_flags (with_library lib manager_flags) manager_defaults args = Parsed s rest \<and>
    t = [GetConfig, NewManager (manager_options_of s g)] @ calls @ checks_plan @ [StartManager] \<and>
    controllers_in t =
      (if asks_for s ''control-plane'' then [''kany8scontrolplane'', ''controlplane-kany8skubeadmcontrolplane''] else []) @
      (if asks_for s ''infrastructure'' then [''infrastructure-kany8scluster''] else []) \<and>
    webhooks_in t = (if asks_for s ''control-plane'' then [''Kany8sControlPlane'', ''Kany8sControlPlaneTemplate''] else [])"
proof -
  obtain s rest es where run: "parse_flags (with_library lib manager_flags) manager_defaults args = Parsed s rest"
    "enabledControllerSet (ms_enabledControllers s) fmempty = Inr es"
    "t = manager_plan me (s, groups_of es) @ [StartManager]"
    by (rule provider_started [OF assms(1)]) (simp add: t_def)
  note asked = groups_asked_for [OF run(2), unfolded controllerGroupInfrastructure_def controllerGroupControlPlane_def]
  let ?calls = "(if gr_controlPlane (groups_of es) then control_plane_plan else []) @
    (if gr_infrastructure (groups_of es) then infrastructure_plan else [])"
  have "t = [GetConfig, NewManager (manager_options_of s (groups_of es))] @ ?calls @ checks_plan @ [StartManager]"
    unfolding run(3) manager_plan_def by simp
  moreover have "controllers_in t =
      (if asks_for s ''control-plane'' then [''kany8scontrolplane'', ''controlplane-kany8skubeadmcontrolplane''] else []) @
      (if asks_for s ''infrastructure'' then [''infrastructure-kany8scluster''] else []) \<and>
    webhooks_in t = (if asks_for s ''control-plane'' then [''Kany8sControlPlane'', ''Kany8sControlPlaneTemplate''] else [])"
    unfolding run(3) manager_plan_def
    by (simp add: asked control_plane_plan_def infrastructure_plan_def checks_plan_def kind_in_def)
  ultimately show ?thesis using run(1) by blast
qed

section \<open>Leases\<close>

datatype process = Provider "string list" | Bootstrapper "string list" | KubeconfigRotator "string list"

definition process_run ::
    "((string, bool) fmap \<Rightarrow> string list) \<Rightarrow> library_flags \<Rightarrow> manager_env \<Rightarrow> process \<Rightarrow> nat \<times> manager_call list" where
  "process_run order lib me p = (case p of
     Provider args \<Rightarrow> run_state (manager_main lib me args) []
   | Bootstrapper args \<Rightarrow> run_state (karpenter_main order lib me args) []
   | KubeconfigRotator args \<Rightarrow> run_state (rotator_main lib me args) [])"

lemma bootstrapper_started:
  assumes "x \<in> set (snd (run_state (karpenter_main order lib me args) []))"
  obtains s rest r oc where "parse_flags (with_library lib karpenter_flags) karpenter_defaults args = Parsed s rest"
    "karpenter_reconcilers order s = Some (r, oc)"
    "karpenter_main order lib me args = karpenter_start me (s, r, oc)"
    "x \<in> set (bootstrapper_plan me (s, r, oc)) \<or> x = StartManager"
proof (cases "parse_flags (with_library lib karpenter_flags) karpenter_defaults args")
  case (ParseExit n)
  then show thesis using assms by (simp add: karpenter_main_def)
next
  case (Parsed s rest)
  show thesis
  proof (cases "karpenter_reconcilers order s")
    case None
    then show thesis using assms Parsed by (simp add: karpenter_main_def)
  next
    case (Some rs)
    obtain r oc where rs: "rs = (r, oc)" by (cases rs)
    have main: "karpenter_main order lib me args = karpenter_start me (s, r, oc)" by (simp add: karpenter_main_def Parsed Some rs)
    show thesis
      using that [OF Parsed _ main bootstrapper.only_planned] Some rs assms unfolding main by simp
  qed
qed

lemma rotator_started:
  assumes "x \<in> set (snd (run_state (rotator_main lib me args) []))"
  obtains s rest p where "parse_flags (with_library lib rotator_flags) rotator_defaults args = Parsed s rest"
    "parsePolicy (ps_refreshBefore s) (ps_maxRefresh s) (ps_failureBackoff s) = Inr p"
    "rotator_main lib me args = rotator_start me (s, p)"
    "x \<in> set (rotator_plan me (s, p)) \<or> x = StartManager"
proof (cases "parse_flags (with_library lib rotator_flags) rotator_defaults args")
  case (ParseExit n)
  then show thesis using assms by (simp add: rotator_main_def)
next
  case (Parsed s rest)
  show thesis
  proof (cases "parsePolicy (ps_refreshBefore s) (ps_maxRefresh s) (ps_failureBackoff s)")
    case (Inl e)
    then show thesis using assms Parsed by (simp add: rotator_main_def)
  next
    case (Inr p)
    have main: "rotator_main lib me args = rotator_start me (s, p)" by (simp add: rotator_main_def Parsed Inr)
    show thesis
      using that [OF Parsed Inr main rotator.only_planned] assms unfolding main by simp
  qed
qed

text \<open>The lease and the controllers of a process that has started its manager: one of five kinds.\<close>

definition lease_rows :: "(string \<times> string list) list" where
  "lease_rows =
     [(''4d5f86eb.cluster.x-k8s.io'',
        [''kany8scontrolplane'', ''controlplane-kany8skubeadmcontrolplane'', ''infrastructure-kany8scluster'']),
      (''control-plane.4d5f86eb.cluster.x-k8s.io'', [''kany8scontrolplane'', ''controlplane-kany8skubeadmcontrolplane'']),
      (''infrastructure.4d5f86eb.cluster.x-k8s.io'', [''infrastructure-kany8scluster'']),
      (''8b9ae7d0.cluster.x-k8s.io'', [''eks-karpenter-bootstrapper'', ''eks-ocm-awsirsa-bootstrapper'']),
      (''f6b95f95.cluster.x-k8s.io'', [''eks-kubeconfig-rotator''])]"

lemma lease_rows_apart:
  "p \<in> set lease_rows \<Longrightarrow> q \<in> set lease_rows \<Longrightarrow> fst p = fst q \<longleftrightarrow> snd p = snd q"
  by (auto simp: lease_rows_def)

lemma started_row:
  assumes "StartManager \<in> set (snd (process_run order lib me p))"
  shows "(lease_in (snd (process_run order lib me p)), controllers_in (snd (process_run order lib me p))) \<in> set lease_rows"
proof (cases p)
  case (Provider args)
  then have start: "StartManager \<in> set (snd (run_state (manager_main lib me args) []))"
    using assms by (simp add: process_run_def)
  obtain s rest es where run: "enabledControllerSet (ms_enabledControllers s) fmempty = Inr es"
    "snd (run_state (manager_main lib me args) []) = manager_plan me (s, groups_of es) @ [StartManager]"
    by (rule provider_started [OF start])
  show ?thesis
    using groups_asked_for [OF run(1)]
    by (auto simp: Provider process_run_def run(2) manager_plan_def manager_options_of_def manager_lease_def
        control_plane_plan_def infrastructure_plan_def checks_plan_def lease_rows_def Let_def asks_for_def)
next
  case (Bootstrapper args)
  then have start: "StartManager \<in> set (snd (run_state (karpenter_main order lib me args) []))"
    using assms by (simp add: process_run_def)
  obtain s r oc where main: "karpenter_main order lib me args = karpenter_start me (s, r, oc)"
    by (rule bootstrapper_started [OF start])
  show ?thesis
    using bootstrapper.started_after_everything [OF start [unfolded main]]
    by (simp add: Bootstrapper process_run_def main bootstrapper_plan_def karpenter_options_def plugin_options_def karpenter_lease_def
        index_plan_def checks_plan_def lease_rows_def)
next
  case (KubeconfigRotator args)
  then have start: "StartManager \<in> set (snd (run_state (rotator_main lib me args) []))"
    using assms by (simp add: process_run_def)
  obtain s pol where main: "rotator_main lib me args = rotator_start me (s, pol)"
    by (rule rotator_started [OF start])
  show ?thesis
    using rotator.started_after_everything [OF start [unfolded main]]
    by (simp add: KubeconfigRotator process_run_def main rotator_plan_def rotator_options_def plugin_options_def rotator_lease_def
        index_plan_def checks_plan_def lease_rows_def)
qed

text \<open>
  C37. Two processes of any of the three commands that have started their managers use the same lease
  exactly if they run the same controllers: with leader election on, the deployments of a cluster do
  not wait for each other, and two copies of one deployment are never both active.
\<close>

theorem leases_separate_deployments:
  fixes me1 me2 :: manager_env and lib1 lib2 :: library_flags
  assumes "StartManager \<in> set (snd (process_run order1 lib1 me1 p1))"
    and "StartManager \<in> set (snd (process_run order2 lib2 me2 p2))"
  shows "lease_in (snd (process_run order1 lib1 me1 p1)) = lease_in (snd (process_run order2 lib2 me2 p2)) \<longleftrightarrow>
    controllers_in (snd (process_run order1 lib1 me1 p1)) = controllers_in (snd (process_run order2 lib2 me2 p2))"
  using lease_rows_apart [OF started_row [OF assms(1)] started_row [OF assms(2)]] by simp

section \<open>Intervals\<close>

lemma started_intervals:
  assumes "karpenter_reconcilers order s = Some (r, oc)"
  shows "ParseDuration (ps_failureBackoff s) = Inr (kr_FailureBackoff r)"
    "ParseDuration (ps_steadyStateRequeue s) = Inr (kr_SteadyStateRequeue r)"
  using assms by (auto simp: karpenter_reconcilers_def split: sum.splits)

lemma ParseDuration_nonneg: "ParseDuration s = Inr d \<Longrightarrow> \<not> has_prefix s ''-'' \<Longrightarrow> 0 \<le> d"
  by (erule ParseDuration_cases) auto

text \<open>
  C19. From the command line to the queue: if the flags give the two intervals without a minus sign,
  then every run of the Karpenter bootstrapper that the command has registered, for a cluster with
  Karpenter enabled that is not being deleted, fails or asks to be called again after a positive
  time.
\<close>

theorem started_bootstrapper_comes_back:
  fixes env :: eks_env and me :: manager_env and args :: "string list"
  assumes "CompleteController n (KarpenterReconciler b r) ws \<in> set (snd (run_state (karpenter_main order lib me args) []))"
    and "\<And>s rest. parse_flags (with_library lib karpenter_flags) karpenter_defaults args = Parsed s rest \<Longrightarrow>
      \<not> has_prefix (ps_failureBackoff s) ''-'' \<and> \<not> has_prefix (ps_steadyStateRequeue s) ''-''"
    and "kar_laws env" "ee_getCluster env [] req = Inr c" "om_DeletionTimestamp (cl_meta c) = None" "isKarpenterEnabled c"
  shows "comes_back (fst (run_state (kar_Reconcile marshal_config r env req) []))"
proof -
  obtain s rest r0 oc where run: "parse_flags (with_library lib karpenter_flags) karpenter_defaults args = Parsed s rest"
    "karpenter_reconcilers order s = Some (r0, oc)"
    "CompleteController n (KarpenterReconciler b r) ws \<in> set (bootstrapper_plan me (s, r0, oc)) \<or>
     CompleteController n (KarpenterReconciler b r) ws = StartManager"
    by (rule bootstrapper_started [OF assms(1)])
  then have r: "r = kar_with_defaults r0"
    by (auto simp: bootstrapper_plan_def index_plan_def checks_plan_def split: if_splits)
  have "kar_durations r0"
    using started_intervals [OF run(2)] assms(2) [OF run(1)] ParseDuration_nonneg by blast
  then have durations: "kar_durations r"
    unfolding r using kar_durations_pos [of r0] by (simp add: kar_with_defaults_def less_imp_le)
  show ?thesis
    using wp_kar_Reconcile [of env r marshal_config req] durations assms(3-)
    by (auto simp: wp_def run_ends_def split: prod.splits)
qed

section \<open>Witnesses\<close>

text \<open>A manager that refuses nothing, and the arguments of the deployments under \<open>config\<close>.\<close>

definition ready_manager :: manager_env where
  "ready_manager = \<lparr>me_answer = \<lambda>_ _. Inr (), me_served = \<lambda>_. True\<rparr>"

definition infrastructure_args :: "string list" where
  "infrastructure_args = [''--metrics-bind-address=:8443'', ''--leader-elect'', ''--health-probe-bind-address=:8081'',
     ''--enable-controller=infrastructure'']"

definition control_plane_args :: "string list" where
  "control_plane_args = [''--metrics-bind-address=:8443'', ''--leader-elect'', ''--health-probe-bind-address=:8081'',
     ''--enable-controller=control-plane'', ''--webhook-cert-path=/tmp/k8s-webhook-server/serving-certs'']"

definition bootstrapper_args :: "string list" where
  "bootstrapper_args = [''--leader-elect'', ''--metrics-bind-address=0'', ''--metrics-secure=false'',
     ''--health-probe-bind-address=:8081'', ''--failure-backoff=30s'', ''--steady-state-requeue=10m'']"

lemma never_refused [simp]: "\<not> refused ready_manager h c"
  by (simp add: refused_def ready_manager_def)

lemma run_plan_ready: "run_plan ready_manager p h = (0, h @ p)"
  by (induction p arbitrary: h) auto

lemma infrastructure_parsed:
  "parse_flags (with_library (\<lambda>_. None) manager_flags) manager_defaults infrastructure_args =
     Parsed (manager_defaults\<lparr>ms_metricsAddr := '':8443'', ms_enableLeaderElection := True, ms_enabledControllers := [''infrastructure'']\<rparr>) []"
  by code_simp

lemma control_plane_parsed:
  "parse_flags (with_library (\<lambda>_. None) manager_flags) manager_defaults control_plane_args =
     Parsed (manager_defaults\<lparr>ms_metricsAddr := '':8443'', ms_enableLeaderElection := True, ms_enabledControllers := [''control-plane''],
       ms_webhookCertPath := ''/tmp/k8s-webhook-server/serving-certs''\<rparr>) []"
  by code_simp

lemma bootstrapper_parsed:
  "parse_flags (with_library (\<lambda>_. None) karpenter_flags) karpenter_defaults bootstrapper_args =
     Parsed (karpenter_defaults\<lparr>ps_enableLeaderElection := True, ps_secureMetrics := False\<rparr>) []"
  by code_simp

lemma infrastructure_started:
  "StartManager \<in> set (snd (run_state (manager_main (\<lambda>_. None) ready_manager infrastructure_args) []))"
  by (simp add: manager_main_def infrastructure_parsed run_manager_start run_plan_ready controllerGroupInfrastructure_def)

lemma control_plane_started:
  "StartManager \<in> set (snd (run_state (manager_main (\<lambda>_. None) ready_manager control_plane_args) []))"
  by (simp add: manager_main_def control_plane_parsed run_manager_start run_plan_ready controllerGroupControlPlane_def
      controllerGroupInfrastructure_def)

theorem provider_starts_complete_witness:
  "\<exists>s rest g calls. parse_flags (with_library (\<lambda>_. None) manager_flags) manager_defaults infrastructure_args = Parsed s rest \<and>
    snd (run_state (manager_main (\<lambda>_. None) ready_manager infrastructure_args) []) =
      [GetConfig, NewManager (manager_options_of s g)] @ calls @ checks_plan @ [StartManager]"
  using provider_starts_complete [OF infrastructure_started] by blast

theorem leases_separate_deployments_witness:
  "lease_in (snd (process_run (\<lambda>_. []) (\<lambda>_. None) ready_manager (Provider infrastructure_args))) \<noteq>
   lease_in (snd (process_run (\<lambda>_. []) (\<lambda>_. None) ready_manager (Provider control_plane_args)))"
proof -
  have "controllers_in (snd (process_run (\<lambda>_. []) (\<lambda>_. None) ready_manager (Provider infrastructure_args))) =
      [''infrastructure-kany8scluster'']"
    by (simp add: process_run_def manager_main_def infrastructure_parsed run_manager_start run_plan_ready
        controllerGroupInfrastructure_def controllerGroupControlPlane_def groups_of_def manager_plan_def
        infrastructure_plan_def checks_plan_def Let_def)
  moreover have "controllers_in (snd (process_run (\<lambda>_. []) (\<lambda>_. None) ready_manager (Provider control_plane_args))) =
      [''kany8scontrolplane'', ''controlplane-kany8skubeadmcontrolplane'']"
    by (simp add: process_run_def manager_main_def control_plane_parsed run_manager_start run_plan_ready
        controllerGroupInfrastructure_def controllerGroupControlPlane_def groups_of_def manager_plan_def
        control_plane_plan_def checks_plan_def Let_def)
  ultimately show ?thesis
    using leases_separate_deployments [of "\<lambda>_. []" "\<lambda>_. None" ready_manager "Provider infrastructure_args"
        "\<lambda>_. []" "\<lambda>_. None" ready_manager "Provider control_plane_args"]
      infrastructure_started control_plane_started by (simp add: process_run_def)
qed

lemma default_intervals:
  "ParseDuration ''30s'' = Inr (30 * second)" "ParseDuration ''10m'' = Inr (10 * minute)"
proof -
  have shape: "pieces_text [(30, ''s'')] = ''30s''" "pieces_text [(10, ''m'')] = ''10m''" by code_simp+
  show "ParseDuration ''30s'' = Inr (30 * second)"
    by (subst shape(1) [symmetric], subst pieces_parse) (simp_all add: plain_pieces_def pieces_sum_def unitMap_def second_def)
  show "ParseDuration ''10m'' = Inr (10 * minute)"
    by (subst shape(2) [symmetric], subst pieces_parse) (simp_all add: plain_pieces_def pieces_sum_def unitMap_def minute_def second_def)
qed

definition shipped_karpenter :: karpenter where
  "shipped_karpenter = \<lparr>kr_FailureBackoff = 30 * second, kr_SteadyStateRequeue = 10 * minute, kr_KarpenterChartTag = '''',
     kr_KarpenterFeatureGates = fmempty, kr_CleanupFinalizer = '''', kr_hasTokenGenerator = True\<rparr>"

lemma shipped_registered:
  "CompleteController ''eks-karpenter-bootstrapper'' (KarpenterReconciler True shipped_karpenter) (kar_watches ready_manager) \<in>
     set (snd (run_state (karpenter_main (\<lambda>_. []) (\<lambda>_. None) ready_manager bootstrapper_args) []))"
proof -
  have "TrimSpace '''' = ''''" by code_simp
  then have "karpenter_reconcilers (\<lambda>_. []) (karpenter_defaults\<lparr>ps_enableLeaderElection := True, ps_secureMetrics := False\<rparr>) =
      Some (shipped_karpenter\<lparr>kr_hasTokenGenerator := False\<rparr>, \<lparr>oc_FailureBackoff = 30 * second, oc_SteadyStateRequeue = 10 * minute\<rparr>)"
    by (simp add: karpenter_reconcilers_def karpenter_defaults_def default_intervals ParseKarpenterFeatureGatesJSON_def
        shipped_karpenter_def)
  then show ?thesis
    by (simp add: karpenter_main_def bootstrapper_parsed run_karpenter_start run_plan_ready bootstrapper_plan_def
        kar_with_defaults_def kar_failureBackoff_def kar_steadyStateRequeue_def shipped_karpenter_def second_def minute_def)
qed

theorem started_bootstrapper_comes_back_witness:
  "comes_back (fst (run_state (kar_Reconcile (\<lambda>_. Inr '''') shipped_karpenter lonely_server (object_key ''ns'' ''demo'')) []))"
proof (rule started_bootstrapper_comes_back [OF shipped_registered])
  fix s rest
  assume "parse_flags (with_library (\<lambda>_. None) karpenter_flags) karpenter_defaults bootstrapper_args = Parsed s rest"
  then have "s = karpenter_defaults\<lparr>ps_enableLeaderElection := True, ps_secureMetrics := False\<rparr>"
    by (simp add: bootstrapper_parsed)
  then show "\<not> has_prefix (ps_failureBackoff s) ''-'' \<and> \<not> has_prefix (ps_steadyStateRequeue s) ''-''"
    by (simp add: karpenter_defaults_def has_prefix_def)
next
  show "kar_laws lonely_server"
    using ref_lib_laws by (simp add: kar_laws_def lonely_server_def demo_eks_env_def apilib_laws_def)
  show "isKarpenterEnabled demo_enabled_cluster"
    unfolding isKarpenterEnabled_def demo_enabled_cluster_def demo_eks_cluster_def new_meta_def set_meta_def by code_simp
qed (simp_all add: lonely_server_def demo_enabled_cluster_def demo_eks_cluster_def new_meta_def set_meta_def)

section \<open>A negative interval\<close>

definition negative_args :: "string list" where
  "negative_args = [''--failure-backoff=-30s'']"

lemma negative_parsed:
  "parse_flags (with_library (\<lambda>_. None) karpenter_flags) karpenter_defaults negative_args =
     Parsed (karpenter_defaults\<lparr>ps_failureBackoff := ''-30s''\<rparr>) []"
  by code_simp

lemma negative_registered:
  "CompleteController ''eks-karpenter-bootstrapper''
     (KarpenterReconciler True (shipped_karpenter\<lparr>kr_FailureBackoff := - 30 * second\<rparr>)) (kar_watches ready_manager) \<in>
     set (snd (run_state (karpenter_main (\<lambda>_. []) (\<lambda>_. None) ready_manager negative_args) []))"
proof -
  have shape: "CHR ''-'' # pieces_text [(30, ''s'')] = ''-30s''" by code_simp
  have "ParseDuration ''-30s'' = Inr (- 30 * second)"
    using pieces_result [of "[(30, ''s'')]"] unfolding shape
    by (simp add: plain_pieces_def pieces_sum_def unitMap_def second_def)
  moreover have "TrimSpace '''' = ''''" by code_simp
  ultimately have "karpenter_reconcilers (\<lambda>_. []) (karpenter_defaults\<lparr>ps_failureBackoff := ''-30s''\<rparr>) =
      Some (shipped_karpenter\<lparr>kr_FailureBackoff := - 30 * second, kr_hasTokenGenerator := False\<rparr>,
        \<lparr>oc_FailureBackoff = - 30 * second, oc_SteadyStateRequeue = 10 * minute\<rparr>)"
    by (simp add: karpenter_reconcilers_def karpenter_defaults_def default_intervals ParseKarpenterFeatureGatesJSON_def
        shipped_karpenter_def)
  then show ?thesis
    by (simp add: karpenter_main_def negative_parsed run_karpenter_start run_plan_ready bootstrapper_plan_def
        kar_with_defaults_def kar_failureBackoff_def kar_steadyStateRequeue_def shipped_karpenter_def second_def minute_def)
qed

lemma lonely_label: "\<exists>h1. run_state (ensureClusterNameLabel lonely_server demo_enabled_cluster) h = (Inr demo_enabled_cluster, h1)"
  by (simp add: ensureClusterNameLabel_def Let_def patch_cluster_def lonely_server_def)

lemma lonely_finalizer: "\<exists>h1. run_state (ensureCleanupFinalizer r lonely_server demo_enabled_cluster) h = (Inr demo_enabled_cluster, h1)"
  by (simp add: ensureCleanupFinalizer_def patch_finalizers_def patch_cluster_def lonely_server_def demo_eks_env_def
      ref_lib_def set_meta_def demo_enabled_cluster_def)

lemma lonely_waits:
  "fst (run_state (kar_Reconcile marshal_config r lonely_server (object_key ''ns'' ''demo'')) []) =
     Inr (requeue_in (kar_failureBackoff r))"
proof -
  have on: "isKarpenterEnabled demo_enabled_cluster" "om_DeletionTimestamp (cl_meta demo_enabled_cluster) = None"
    "cl_Topology demo_enabled_cluster = None"
    unfolding isKarpenterEnabled_def demo_enabled_cluster_def demo_eks_cluster_def new_meta_def set_meta_def by code_simp+
  obtain h1 where h1: "run_state (ensureCleanupFinalizer r lonely_server demo_enabled_cluster)
      [EksGetCluster (object_key ''ns'' ''demo'')] = (Inr demo_enabled_cluster, h1)"
    using lonely_finalizer by blast
  obtain h2 where h2: "run_state (ensureClusterNameLabel lonely_server demo_enabled_cluster) h1 = (Inr demo_enabled_cluster, h2)"
    using lonely_label by blast
  have "ee_getCluster lonely_server [] (object_key ''ns'' ''demo'') = Inr demo_enabled_cluster"
    by (simp add: lonely_server_def)
  then show ?thesis
    using on h1 h2
    by (simp add: kar_Reconcile_def kar_run_def kar_enabled_def kar_read_inputs_def kar_backoff_def run_try_bind
        split: prod.splits)
qed


text \<open>
  The intervals of the kubeconfig rotator's flags, written as whole numbers with units, are the
  sums of their parts, as long as each fits the 64-bit duration; otherwise the first that does not is
  refused by the name of its flag.
\<close>

theorem policy_of_flags:
  assumes "a \<noteq> []" "plain_pieces a" "b \<noteq> []" "plain_pieces b" "c \<noteq> []" "plain_pieces c"
  shows "parsePolicy (pieces_text a) (pieces_text b) (pieces_text c) =
    (if 2 ^ 63 - 1 < pieces_sum a then Inl (''parse refresh-before'', InvalidDuration)
     else if 2 ^ 63 - 1 < pieces_sum b then Inl (''parse max-refresh-interval'', InvalidDuration)
     else if 2 ^ 63 - 1 < pieces_sum c then Inl (''parse failure-backoff'', InvalidDuration)
     else Inr \<lparr>rp_RefreshBefore = int (pieces_sum a), rp_MaxRefresh = int (pieces_sum b),
       rp_FailureBackoff = int (pieces_sum c), rp_ImmediateRequeue = 0\<rparr>)"
  using pieces_result [OF assms(1,2)] pieces_result [OF assms(3,4)] pieces_result [OF assms(5,6)]
  by (simp add: parsePolicy_def)

theorem policy_of_flags_witness:
  "parsePolicy ''5m'' ''10m'' ''1h30m'' = Inr \<lparr>rp_RefreshBefore = 5 * minute, rp_MaxRefresh = 10 * minute,
     rp_FailureBackoff = 90 * minute, rp_ImmediateRequeue = 0\<rparr>"
proof -
  have shape: "pieces_text [(5, ''m'')] = ''5m''" "pieces_text [(10, ''m'')] = ''10m''"
    "pieces_text [(1, ''h''), (30, ''m'')] = ''1h30m''" by code_simp+
  show ?thesis
    using policy_of_flags [of "[(5, ''m'')]" "[(10, ''m'')]" "[(1, ''h''), (30, ''m'')]"]
    unfolding shape by (simp add: plain_pieces_def pieces_sum_def unitMap_def minute_def second_def)
qed

end
