(* ===== verification/Delivery.thy ===== *)
theory Delivery
  imports ControlPlane DynamicWatch
begin

text \<open>
  The control plane controller with its watcher: \<open>SetupWithManager\<close> reads the watcher's channel
  with \<open>EnqueueRequestForObject\<close>, so that an event that is received requests the object of the
  same namespace and name. A change of a backend object thus comes back to its control plane.
\<close>

section \<open>Keys of targets\<close>

text \<open>Parts of a group, version, kind and name hold no slash, as the API server requires.\<close>

definition proper_target :: "watch_target \<Rightarrow> bool" where
  "proper_target t \<longleftrightarrow> list_all (\<lambda>s. CHR ''/'' \<notin> set s)
     [gvk_Group (tg_GVK t), gvk_Version (tg_GVK t), gvk_Kind (tg_GVK t), tg_Namespace t, tg_Name t]"

lemma slash_split:
  assumes "a @ CHR ''/'' # x = b @ CHR ''/'' # y" "CHR ''/'' \<notin> set a" "CHR ''/'' \<notin> set b"
  shows "a = b \<and> x = y"
  using assms
proof (induction a arbitrary: b)
  case Nil
  then show ?case by (cases b) auto
next
  case (Cons c a)
  then show ?case by (cases b) auto
qed

lemma target_key_inject:
  assumes "target_key t = target_key t'" "proper_target t" "proper_target t'"
  shows "t = t'"
proof -
  note no_slash = assms(2,3) [unfolded proper_target_def, simplified]
  have "gvk_Group (tg_GVK t) = gvk_Group (tg_GVK t') \<and> gvk_Version (tg_GVK t) = gvk_Version (tg_GVK t') \<and>
      gvk_Kind (tg_GVK t) = gvk_Kind (tg_GVK t') \<and> tg_Namespace t = tg_Namespace t' \<and> tg_Name t = tg_Name t'"
    using assms(1) no_slash unfolding target_key_def by (auto dest!: slash_split)
  then show ?thesis by (cases t; cases t'; simp)
qed

section \<open>Received events\<close>

text \<open>\<open>EnqueueRequestForObject\<close> on a copy.\<close>

definition request_of :: "event_copy \<Rightarrow> object_key" where
  "request_of c = object_key (tg_Namespace (cp_target c)) (tg_Name (cp_target c))"

text \<open>A key that is owed and later is not has been received in between.\<close>

lemma owed_received:
  assumes "(dstep cap)\<^sup>*\<^sup>* s s'" "k \<in> ds_owed s" "k \<notin> ds_owed s'"
  shows "\<exists>s1 c rest. (dstep cap)\<^sup>*\<^sup>* s s1 \<and> ds_events s1 = c # rest \<and> pendingKey c = k"
  using assms
proof (induction rule: converse_rtranclp_induct)
  case base
  then show ?case by simp
next
  case (step s y)
  show ?case
  proof (cases "k \<in> ds_owed y")
    case True
    then obtain s1 c rest where "(dstep cap)\<^sup>*\<^sup>* y s1" "ds_events s1 = c # rest" "pendingKey c = k"
      using step.IH step.prems(2) by blast
    then show ?thesis using step.hyps(1) converse_rtranclp_into_rtranclp by metis
  next
    case False
    then obtain c rest where "ds_events s = c # rest" "pendingKey c = k"
      using step.hyps(1) step.prems(1) by (cases rule: dstep_cases) (auto simp: notified_def)
    then show ?thesis by blast
  qed
qed

text \<open>A change of \<open>u\<close> that an informer has handed to the watcher and that was not received since.\<close>

definition change_owed :: "delivery \<Rightarrow> handler_obj \<Rightarrow> bool" where
  "change_owed s obj \<longleftrightarrow> (\<exists>t. watched_target obj = Some t \<and> target_key t \<in> ds_owed s)"


section \<open>Witness\<close>

text \<open>The instance that the run of \<open>demo_env\<close> stores, and the first notification of it.\<close>

lemma demo_stored:
  obtains u where "StoreBackend u \<in> set (snd (run_state (run_backend demo_env demo_cp None ''kro'') []))"
    "un_GVK u = demo_gvk" "om_Namespace (un_meta u) = ''ns''" "om_Name (un_meta u) = ''demo''"
proof -
  have "list_ex (\<lambda>c. case c of StoreBackend u \<Rightarrow> un_GVK u = demo_gvk \<and> om_Namespace (un_meta u) = ''ns'' \<and>
      om_Name (un_meta u) = ''demo'' | _ \<Rightarrow> False) (snd (run_state (run_backend demo_env demo_cp None ''kro'') []))"
    by code_simp
  then obtain c where "c \<in> set (snd (run_state (run_backend demo_env demo_cp None ''kro'') []))"
    "case c of StoreBackend u \<Rightarrow> un_GVK u = demo_gvk \<and> om_Namespace (un_meta u) = ''ns'' \<and>
      om_Name (un_meta u) = ''demo'' | _ \<Rightarrow> False"
    by (auto simp only: list_ex_iff)
  then show thesis using that by (cases c rule: cp_call.exhaust) simp_all
qed

definition demo_change :: watch_target where
  "demo_change = \<lparr>tg_GVK = demo_gvk, tg_Namespace = ''ns'', tg_Name = ''demo''\<rparr>"

definition demo_notified :: delivery where
  "demo_notified = (notified delivery_init demo_change)
     \<lparr>ds_events := ds_events delivery_init @ [fresh_copy delivery_init demo_change]\<rparr>"


end
