(* ===== verification/Progress.thy ===== *)
theory Progress
  imports ControlPlane
begin

text \<open>
  What a reconcile of the control plane achieves: once the backend is ready and the kubeconfig
  it names can be read, one run makes the control plane ready, and on the way no status write
  touches what Ready said before.
\<close>

section \<open>Services that let a run through\<close>

text \<open>The API server stores what it is sent and answers with it.\<close>

definition accepts_writes :: "cp_env \<Rightarrow> bool" where
  "accepts_writes env \<longleftrightarrow>
     (\<forall>h b a. ce_patch env h b a = Inr a) \<and> (\<forall>h b a. ce_patchStatus env h b a = Inr a) \<and>
     (\<forall>h s. ce_storeTarget env h s = Inr s)"

text \<open>The Secret the backend names can be read in the namespace of the control plane and copied for its Cluster.\<close>

definition empty_target :: "Kany8sControlPlane \<Rightarrow> string \<Rightarrow> secret" where
  "empty_target cp name = \<lparr>se_meta = new_meta (om_Namespace (cp_meta cp)) name, se_Type = '''', se_Data = fmempty\<rparr>"

definition source_available :: "cp_env \<Rightarrow> Kany8sControlPlane \<Rightarrow> cluster \<Rightarrow> string \<Rightarrow> bool" where
  "source_available env cp c name \<longleftrightarrow>
     (\<exists>target. SecretName (om_Name (cl_meta c)) = Inr target \<and>
       (\<forall>h. \<exists>s kc. ce_getSecret env h (object_key (om_Namespace (cp_meta cp)) name) = Inr s \<and>
          fmlookup (se_Data s) DataKey = Some kc \<and> lib_clientcmd_Load (ce_lib env) kc = None \<and>
          (\<forall>h'. \<exists>old new. ce_readTarget env h' (empty_target cp target) = Inr old \<and>
             mutate_target (ce_lib env) cp c kc old = Inr new)))"

definition kubeconfig_available :: "cp_env \<Rightarrow> Kany8sControlPlane \<Rightarrow> cluster option result \<Rightarrow> unstructured \<Rightarrow> bool" where
  "kubeconfig_available env cp owner u \<longleftrightarrow>
     (\<exists>name f. lib_NestedString (ce_lib env) (un_Object u) [''status'', ''kubeconfigSecretRef'', ''name''] = Inr (name, f) \<and>
        (\<not> f \<or> name = '''' \<or>
         (\<exists>c ns g. owner = Inr (Some c) \<and> om_Namespace (cl_meta c) = om_Namespace (cp_meta cp) \<and>
            lib_NestedString (ce_lib env) (un_Object u) [''status'', ''kubeconfigSecretRef'', ''namespace''] = Inr (ns, g) \<and>
            (\<not> g \<or> ns = '''' \<or> ns = om_Namespace (cp_meta cp)) \<and> source_available env cp c name)))"

text \<open>What a backend answers when it is done.\<close>

definition backend_done :: "cp_env \<Rightarrow> Kany8sControlPlane \<Rightarrow> cluster option result \<Rightarrow> backend_outcome \<Rightarrow> APIEndpoint \<Rightarrow> bool" where
  "backend_done env cp owner out ep \<longleftrightarrow>
     is_Ready (bo_status out) \<and> is_Endpoint (bo_status out) \<noteq> '''' \<and>
     Parse (lib_ip_literal_error (ce_lib env)) (is_Endpoint (bo_status out)) = Inr ep \<and>
     (bo_initialized out \<or> bo_initializeOnEndpoint out) \<and> bo_ensureWatchErr out = None \<and>
     (bo_kubeconfigEnabled out \<longrightarrow> (\<exists>u. bo_instance out = Some u \<and> kubeconfig_available env cp owner u))"

section \<open>The way to the last write\<close>

text \<open>A call on the way: it leaves what Ready said, and the version reported.\<close>

definition keeps_ready :: "apilib \<Rightarrow> Kany8sControlPlane \<Rightarrow> cp_call \<Rightarrow> bool" where
  "keeps_ready lib cp c =
     (case c of
        PatchCPStatus b a \<Rightarrow> cond_status lib a conditionTypeReady = cond_status lib cp conditionTypeReady \<and>
          ct_Version (cp_Status a) = ct_Version (cp_Status cp)
      | UpdateCPStatus _ \<Rightarrow> False | _ \<Rightarrow> True)"

definition same_so_far :: "apilib \<Rightarrow> Kany8sControlPlane \<Rightarrow> Kany8sControlPlane \<Rightarrow> bool" where
  "same_so_far lib cp cp' \<longleftrightarrow> cond_status lib cp' conditionTypeReady = cond_status lib cp conditionTypeReady \<and>
     ct_Version (cp_Status cp') = ct_Version (cp_Status cp) \<and> cs_Version (cp_Spec cp') = cs_Version (cp_Spec cp)"

lemma same_so_far_refl [simp]: "same_so_far lib cp cp"
  by (simp add: same_so_far_def)

lemma keeps_ready_other [simp]:
  "keeps_ready lib cp (GetSecret k)" "keeps_ready lib cp (ReadTarget s)" "keeps_ready lib cp (StoreTarget s)"
  "keeps_ready lib cp (CPEvent x y z)" "keeps_ready lib cp (PatchCP b a)"
  by (simp_all add: keeps_ready_def)

abbreviation settled :: "apilib \<Rightarrow> Kany8sControlPlane \<Rightarrow> kubeconfig_outcome result \<Rightarrow> bool" where
  "settled lib cp \<equiv> \<lambda>r. \<exists>enabled cp'. r = Inr ((no_requeue, enabled), cp') \<and> same_so_far lib cp cp'"

lemma ensures_condition_settled:
  assumes "condition_laws (ce_lib env)" "accepts_writes env"
  shows "ensures (keeps_ready (ce_lib env) cp) (\<lambda>r. \<exists>cp'. r = Inr cp' \<and> same_so_far (ce_lib env) cp cp')
    (reconcileKubeconfigSecretCondition env cp status reason message eventType)"
proof -
  let ?cond = "observed_cond cp conditionTypeKubeconfigSecretReconciled status reason message"
  let ?cp = "set_status_cond (ce_lib env) cp ?cond"
  have same: "same_so_far (ce_lib env) cp ?cp"
    using find_set_cond(4) [OF assms(1), of cp ?cond conditionTypeReady]
    by (simp add: same_so_far_def cond_status_def) (simp add: set_status_cond_def)
  have patch: "ensures (keeps_ready (ce_lib env) cp) (\<lambda>r. r = Inr ?cp) (patch_cp_status env cp ?cp)"
    unfolding patch_cp_status_def
    by (rule ensures_perform) (use same assms(2) in \<open>auto simp: keeps_ready_def same_so_far_def accepts_writes_def\<close>)
  have event: "emits (keeps_ready (ce_lib env) cp) (when_eff b (cp_event env t r m))" for b t r m
    by (auto simp: cp_event_def intro!: emits_intros)
  show ?thesis
    unfolding reconcileKubeconfigSecretCondition_def Let_def
    by (rule ensures_try [OF patch])
      (auto simp: same intro!: ensures_bind [OF ensures_of_emits [OF event, where R = "\<lambda>_. True"]] ensures_ret)
qed

lemma ensures_copy_settled:
  assumes "condition_laws (ce_lib env)" "accepts_writes env" "fmlookup (se_Data s) DataKey = Some kc"
    and "lib_clientcmd_Load (ce_lib env) kc = None" "SecretName (om_Name (cl_meta c)) = Inr target"
    and "\<And>h. \<exists>old new. ce_readTarget env h (empty_target cp target) = Inr old \<and> mutate_target (ce_lib env) cp c kc old = Inr new"
  shows "ensures (keeps_ready (ce_lib env) cp) (settled (ce_lib env) cp) (copy_kubeconfig env cp c source s)"
proof -
  have stored: "ensures (keeps_ready (ce_lib env) cp) (\<lambda>r. \<not> isl r)
      (create_or_update (perform (ReadTarget (empty_target cp target)) (\<lambda>h. ce_readTarget env h (empty_target cp target)))
        (mutate_target (ce_lib env) cp c kc) (\<lambda>t. perform (StoreTarget t) (\<lambda>h. ce_storeTarget env h t)))"
    unfolding create_or_update_def
  proof (rule ensures_try [where R = "\<lambda>r. \<exists>old new. r = Inr old \<and> mutate_target (ce_lib env) cp c kc old = Inr new"], goal_cases)
    case 1
    show ?case by (rule ensures_perform) (use assms(6) in auto)
  next
    case (2 old)
    then show ?case using assms(2) by (auto simp: accepts_writes_def intro!: ensures_perform)
  qed auto
  show ?thesis
    unfolding copy_kubeconfig_def
    using assms(3-5)
    by (auto simp: Let_def empty_target_def [symmetric] intro!: ensures_try [OF stored] ensures_try [OF ensures_condition_settled [OF assms(1,2)]] ensures_ret)
qed

lemma ensures_kubeconfig_settled:
  assumes "condition_laws (ce_lib env)" "accepts_writes env" "kubeconfig_available env cp owner u"
  shows "ensures (keeps_ready (ce_lib env) cp) (settled (ce_lib env) cp) (reconcileKubeconfigSecret env cp (Some u) owner)"
proof -
  obtain name f where n: "lib_NestedString (ce_lib env) (un_Object u) [''status'', ''kubeconfigSecretRef'', ''name''] = Inr (name, f)"
      "\<not> f \<or> name = '''' \<or> (\<exists>c ns g. owner = Inr (Some c) \<and> om_Namespace (cl_meta c) = om_Namespace (cp_meta cp) \<and>
         lib_NestedString (ce_lib env) (un_Object u) [''status'', ''kubeconfigSecretRef'', ''namespace''] = Inr (ns, g) \<and>
         (\<not> g \<or> ns = '''' \<or> ns = om_Namespace (cp_meta cp)) \<and> source_available env cp c name)"
    using assms(3) unfolding kubeconfig_available_def by blast
  have source: "ensures (keeps_ready (ce_lib env) cp) (settled (ce_lib env) cp)
      (get_source_secret env cp c (om_Namespace (cp_meta cp)) name)" if available: "source_available env cp c name" for c
  proof -
    obtain target where target: "SecretName (om_Name (cl_meta c)) = Inr target"
        "\<And>h. \<exists>s kc. ce_getSecret env h (object_key (om_Namespace (cp_meta cp)) name) = Inr s \<and>
          fmlookup (se_Data s) DataKey = Some kc \<and> lib_clientcmd_Load (ce_lib env) kc = None \<and>
          (\<forall>h'. \<exists>old new. ce_readTarget env h' (empty_target cp target) = Inr old \<and>
             mutate_target (ce_lib env) cp c kc old = Inr new)"
      using available unfolding source_available_def by blast
    show ?thesis
      unfolding get_source_secret_def Let_def
    proof (rule ensures_bind [where R = "\<lambda>r. \<exists>s kc. r = Inr s \<and> fmlookup (se_Data s) DataKey = Some kc \<and>
        lib_clientcmd_Load (ce_lib env) kc = None \<and>
        (\<forall>h'. \<exists>old new. ce_readTarget env h' (empty_target cp target) = Inr old \<and>
           mutate_target (ce_lib env) cp c kc old = Inr new)"], goal_cases)
      case 1
      show ?case by (rule ensures_perform) (use target(2) in auto)
    next
      case (2 r)
      then show ?case using target(1) by (auto intro!: ensures_copy_settled assms(1,2))
    qed
  qed
  show ?thesis
  proof (cases "\<not> f \<or> name = ''''")
    case True
    then show ?thesis using n(1) by (auto simp: reconcileKubeconfigSecret_def intro!: ensures_ret)
  next
    case False
    then show ?thesis
      using n by (auto simp: reconcileKubeconfigSecret_def kubeconfig_for_owner_def Let_def intro!: source)
  qed
qed

text \<open>The endpoint is projected and the initialized flag is set.\<close>

lemma ensures_endpoint_projected:
  assumes "accepts_writes env" "backend_done env cp owner out ep" "same_so_far (ce_lib env) cp cp1"
  shows "ensures (keeps_ready (ce_lib env) cp)
    (\<lambda>r. \<exists>cp2. r = Inr (cp2, bo_status out, True, True) \<and> same_so_far (ce_lib env) cp cp2 \<and>
       cs_ControlPlaneEndpoint (cp_Spec cp2) = ep)
    (project_endpoint env cp1 (bo_status out))"
proof -
  let ?cp2 = "cp1\<lparr>cp_Spec := (cp_Spec cp1)\<lparr>cs_ControlPlaneEndpoint := ep\<rparr>\<rparr>"
  have patch: "ensures (keeps_ready (ce_lib env) cp) (\<lambda>r. r = Inr ?cp2) (patch_cp env cp1 ?cp2)"
    unfolding patch_cp_def by (rule ensures_perform) (use assms(1) in \<open>simp_all add: accepts_writes_def\<close>)
  have same: "same_so_far (ce_lib env) cp ?cp2"
    using assms(3) by (simp add: same_so_far_def cond_status_def find_cond_def)
  show ?thesis
    using assms(2,3) same
    by (auto simp: project_endpoint_def Let_def backend_done_def intro!: ensures_ret ensures_try [OF patch])
qed

lemma ensures_initialized:
  assumes "accepts_writes env" "same_so_far (ce_lib env) cp cp2"
  shows "ensures (keeps_ready (ce_lib env) cp)
    (\<lambda>r. \<exists>cp3. r = Inr cp3 \<and> same_so_far (ce_lib env) cp cp3 \<and> cp_Spec cp3 = cp_Spec cp2 \<and>
       ct_ControlPlaneInitialized (cp_Status cp3))
    (mark_initialized env cp2 True)"
proof -
  let ?cp3 = "cp2\<lparr>cp_Status := (cp_Status cp2)\<lparr>ct_ControlPlaneInitialized := True\<rparr>\<rparr>"
  have same: "same_so_far (ce_lib env) cp ?cp3"
    using assms(2) by (simp add: same_so_far_def cond_status_def)
  then show ?thesis
    using assms unfolding mark_initialized_def patch_cp_status_def
    by (auto simp: keeps_ready_def same_so_far_def accepts_writes_def intro!: ensures_ret ensures_perform)
qed

text \<open>The last write of a run that got this far.\<close>

definition made_ready :: "apilib \<Rightarrow> Kany8sControlPlane \<Rightarrow> APIEndpoint \<Rightarrow> Kany8sControlPlane \<Rightarrow> bool" where
  "made_ready lib cp ep cp' \<longleftrightarrow>
     cond_status lib cp' conditionTypeReady = Some ConditionTrue \<and> cond_status lib cp' conditionTypeCreating = None \<and>
     ct_ControlPlaneInitialized (cp_Status cp') \<and> cs_ControlPlaneEndpoint (cp_Spec cp') = ep \<and>
     ct_FailureReason (cp_Status cp') = None \<and> ct_FailureMessage (cp_Status cp') = None \<and>
     (cs_Version (cp_Spec cp) \<noteq> '''' \<longrightarrow> ct_Version (cp_Status cp') = cs_Version (cp_Spec cp))"

text \<open>A run from \<open>h\<close> that ends with that write.\<close>

definition ended_ready ::
    "apilib \<Rightarrow> Kany8sControlPlane \<Rightarrow> APIEndpoint \<Rightarrow> cp_call list \<Rightarrow> ctrl_result result \<Rightarrow> cp_call list \<Rightarrow> bool" where
  "ended_ready lib cp ep h r h' \<longleftrightarrow> r = Inr no_requeue \<and>
     (\<exists>t before after. h' = h @ t @ [PatchCPStatus before after] \<and> list_all (keeps_ready lib cp) t \<and>
        made_ready lib cp ep after)"

lemma wp_last_write:
  assumes "condition_laws (ce_lib env)" "accepts_writes env" "same_so_far (ce_lib env) cp cp3"
    and "ct_ControlPlaneInitialized (cp_Status cp3)" "cs_ControlPlaneEndpoint (cp_Spec cp3) = ep"
    and "list_all (keeps_ready (ce_lib env) cp) t"
  shows "wp (try_bind (reconcileConditionsAndFailure env cp3 st True) (\<lambda>_. ret (Inr no_requeue)))
    (ended_ready (ce_lib env) cp ep h) (h @ t)"
proof -
  have "made_ready (ce_lib env) cp ep (ready_status (ce_lib env) cp3 st)"
    using ready_status_correct [OF assms(1), of cp3 st] assms(3-5) by (simp add: made_ready_def same_so_far_def)
  then show ?thesis
    using assms(2,6)
    by (auto simp: reconcileConditionsAndFailure_def patch_cp_status_def conditions_and_failure_def accepts_writes_def
        ended_ready_def)
qed

lemma wp_finish_ready:
  assumes "condition_laws (ce_lib env)" "accepts_writes env" "backend_done env cp owner out ep"
  shows "wp (finish_reconcile env cp owner out) (ended_ready (ce_lib env) cp ep h) h"
proof -
  let ?lib = "ce_lib env"
  have k: "ensures (keeps_ready ?lib cp) (settled ?lib cp)
     (if bo_kubeconfigEnabled out then reconcileKubeconfigSecret env cp (bo_instance out) owner
      else ret (Inr ((no_requeue, False), cp)))"
    using assms(3) ensures_kubeconfig_settled [OF assms(1,2)]
    by (auto simp: backend_done_def intro!: ensures_ret)
  have i: "(bo_initialized out \<or> bo_initializeOnEndpoint out \<and> True \<and> is_Endpoint (bo_status out) \<noteq> '''') = True"
    "bo_ensureWatchErr out = None"
    using assms(3) by (auto simp: backend_done_def)
  show ?thesis
    unfolding finish_reconcile_def
  proof (rule wp_try_ensures [OF k], goal_cases)
    case (2 a t1)
    then obtain enabled cp1 where a: "a = ((no_requeue, enabled), cp1)" "same_so_far ?lib cp cp1" by auto
    note t1 = 2(2)
    show ?case
      unfolding a(1) prod.case
    proof (rule wp_try_ensures [OF ensures_endpoint_projected [OF assms(2,3) a(2)]], goal_cases)
      case (2 p t2)
      then obtain cp2 where p: "p = (cp2, bo_status out, True, True)" "same_so_far ?lib cp cp2"
          "cs_ControlPlaneEndpoint (cp_Spec cp2) = ep" by auto
      note t2 = 2(2)
      show ?case
        unfolding p(1) prod.case i(1)
      proof (rule wp_try_ensures [OF ensures_initialized [OF assms(2) p(2)]], goal_cases)
        case (2 cp3 t3)
        have o: "overall_status ?lib cp3 (bo_status out) True enabled no_requeue = (bo_status out, True)"
          by (simp add: overall_status_def)
        show ?case
          using wp_last_write [OF assms(1,2), of cp cp3 ep "t1 @ t2 @ t3"] 2 p(3) i(2) o t1 t2 by simp
      qed auto
    qed auto
  qed auto
qed

section \<open>Until the backend has answered\<close>

text \<open>Nothing of the control plane is written, unless the backend ends the reconcile.\<close>

definition quietly :: "cp_call list \<Rightarrow> cp_call list \<Rightarrow> bool" where
  "quietly h h' \<longleftrightarrow> (\<exists>t. h' = h @ t \<and> list_all no_cp_write t)"

definition quiet :: "cp_call list \<Rightarrow> backend_answer \<Rightarrow> cp_call list \<Rightarrow> bool" where
  "quiet h r h' \<longleftrightarrow> isl r \<or> quietly h h'"

lemma wp_quiet_ends: "wp (bind_eff m (\<lambda>x. ret (Inl x))) (quiet h) h'"
  unfolding wp_bind by (simp add: wp_def quiet_def split: prod.split)

lemma wp_quiet_ret: "quietly h h' \<Longrightarrow> wp (ret r) (quiet h) h'"
  by (simp add: quiet_def)

lemma wp_quiet_bind:
  assumes "emits no_cp_write m" "quietly h h'" "\<And>a h'. quietly h h' \<Longrightarrow> wp (k a) (quiet h) h'"
  shows "wp (bind_eff m k) (quiet h) h'"
proof -
  obtain a h2 where m: "run_state m h' = (a, h2)" by fastforce
  then have "quietly h h2" using emitsD [OF assms(1) m] assms(2) by (fastforce simp: quietly_def)
  then show ?thesis using m assms(3) by (simp add: wp_def)
qed

lemma emits_quiet [simp]:
  "emits no_cp_write (ensure_watch env g)" "emits no_cp_write (apply_backend env cp owner g spec)"
  "emits no_cp_write (ResolveInstanceGVK lib (\<lambda>n. perform (GetRGD n) (f n)) name)"
  by (auto simp: ensure_watch_def apply_backend_def ResolveInstanceGVK_def Let_def no_cp_write_def
      intro!: emits_intros split: prod.splits sum.splits)

lemma emits_kubeadm_quiet [simp]:
  "emits no_cp_write (create_or_update (perform (ReadKubeadm b) f) m (\<lambda>b. perform (StoreKubeadm b) (g b)))"
  by (auto simp: no_cp_write_def intro!: emits_intros)

lemma run_backend_quiet: "wp (run_backend env cp owner sel) (quiet h) h"
proof -
  note step = wp_quiet_bind wp_quiet_ret wp_quiet_ends
  have q: "quietly h h" by (simp add: quietly_def)
  have kro: "wp (reconcileKroBackend env cp owner ref) (quiet h) h" for ref
    unfolding reconcileKroBackend_def
    by (auto intro!: step q split: sum.split simp del: wp_bind wp_ret)
  have kubeadm: "wp (reconcileKubeadmBackend env cp owner k) (quiet h) h" for k
    unfolding reconcileKubeadmBackend_def by (intro step q) simp_all
  have external: "wp (reconcileExternalBackend env cp owner ext) (quiet h) h" for ext
    unfolding reconcileExternalBackend_def Let_def
    by (auto intro!: step q split: sum.split simp del: wp_bind wp_ret)
  show ?thesis
    unfolding run_backend_def Let_def
    using kro kubeadm external q by (auto intro!: wp_quiet_ret split: option.split simp del: wp_ret)
qed

section \<open>Properties\<close>

lemma cp_Reconcile_ends_ready:
  assumes "condition_laws (ce_lib env)" "accepts_writes env" "ce_getCP env [] req = Inr cp"
    and "selectedControlPlaneBackend (cp_Spec cp) = (sel, 1)"
    and "owner = ce_getOwner env [GetControlPlane req] (cp_meta cp)"
    and "fst (run_state (run_backend env cp (owner_or_nil owner) sel) [GetControlPlane req, GetOwnerCluster (cp_meta cp)]) = Inr out"
    and "backend_done env cp owner out ep"
  shows "\<exists>t before after. run_state (cp_Reconcile env req) [] = (Inr no_requeue, t @ [PatchCPStatus before after]) \<and>
    list_all (keeps_ready (ce_lib env) cp) t \<and> made_ready (ce_lib env) cp ep after"
proof -
  let ?h = "[GetControlPlane req, GetOwnerCluster (cp_meta cp)]"
  obtain h where b: "run_state (run_backend env cp (owner_or_nil owner) sel) ?h = (Inr out, h)"
    using assms(6) by (metis prod.collapse)
  then have "quietly ?h h" using run_backend_quiet [of env cp "owner_or_nil owner" sel ?h] by (simp add: wp_def quiet_def)
  then obtain u where u: "h = ?h @ u" "list_all no_cp_write u" by (auto simp: quietly_def)
  then have before: "list_all (keeps_ready (ce_lib env) cp) h"
    by (auto simp: keeps_ready_def no_cp_write_def list_all_iff split: cp_call.splits)
  obtain t before after where f: "run_state (finish_reconcile env cp owner out) h = (Inr no_requeue, h @ t @ [PatchCPStatus before after])"
      "list_all (keeps_ready (ce_lib env) cp) t" "made_ready (ce_lib env) cp ep after"
    using wp_finish_ready [OF assms(1,2,7), of h] by (fastforce simp: wp_def ended_ready_def split: prod.splits)
  have "run_state (cp_Reconcile env req) [] = (Inr no_requeue, (h @ t) @ [PatchCPStatus before after])"
    using assms(3-5) b f(1) by (simp add: cp_Reconcile_def)
  then show ?thesis using before f(2,3) by (intro exI [of _ "h @ t"] exI conjI) simp_all
qed

text \<open>
  C2. A ready backend makes the control plane ready: when the server stores what it is sent and
  the backend is done (it reports ready with an acceptable endpoint, its watch is set up, and the
  kubeconfig it may name can be read and copied in the namespace of the control plane), the run
  ends without an error and without asking for another one, and its last call writes a status
  that is Ready and no longer Creating, initialized, with the endpoint, without a failure and
  with the version of the spec. No write before it changes what Ready said or the version
  reported.
\<close>

theorem ready_backend_makes_ready:
  assumes "condition_laws (ce_lib env)" "accepts_writes env" "ce_getCP env [] req = Inr cp"
    and "selectedControlPlaneBackend (cp_Spec cp) = (sel, 1)"
    and "owner = ce_getOwner env [GetControlPlane req] (cp_meta cp)"
    and "fst (run_state (run_backend env cp (owner_or_nil owner) sel) [GetControlPlane req, GetOwnerCluster (cp_meta cp)]) = Inr out"
    and "backend_done env cp owner out ep"
  shows "\<exists>t before after. run_state (cp_Reconcile env req) [] = (Inr no_requeue, t @ [PatchCPStatus before after]) \<and>
    list_all (keeps_ready (ce_lib env) cp) t \<and> made_ready (ce_lib env) cp ep after"
  using assms by (rule cp_Reconcile_ends_ready)

section \<open>Witnesses\<close>

text \<open>Services in which the backend names a Secret, which is there.\<close>

definition ready_env :: cp_env where
  "ready_env = demo_env\<lparr>ce_getOwner := (\<lambda>_ _. Inr (Some demo_cluster)),
     ce_storeBackend := (\<lambda>_ u. Inr (u\<lparr>un_Object := fmupd ''status'' (JObj (fmap_of_list
       [(''ready'', JBool True), (''endpoint'', JStr ''https://h:443''),
        (''kubeconfigSecretRef'', JObj (fmap_of_list [(''name'', JStr ''source'')]))])) (un_Object u)\<rparr>)),
     ce_getSecret := (\<lambda>_ k. Inr \<lparr>se_meta = new_meta (key_Namespace k) (key_Name k), se_Type = SecretType,
       se_Data = fmap_of_list [(DataKey, ''kubeconfig'')]\<rparr>)\<rparr>"

definition ready_request :: object_key where
  "ready_request = object_key ''ns'' ''demo''"

lemma ready_env_backend:
  obtains out u where
    "fst (run_state (run_backend ready_env demo_cp (Some demo_cluster) ''kro'')
       [GetControlPlane ready_request, GetOwnerCluster (cp_meta demo_cp)]) = Inr out"
    "is_Ready (bo_status out)" "is_Endpoint (bo_status out) = ''https://h:443''" "bo_initializeOnEndpoint out"
    "bo_ensureWatchErr out = None" "bo_instance out = Some u"
    "lib_NestedString (ce_lib ready_env) (un_Object u) [''status'', ''kubeconfigSecretRef'', ''name''] = Inr (''source'', True)"
    "lib_NestedString (ce_lib ready_env) (un_Object u) [''status'', ''kubeconfigSecretRef'', ''namespace''] = Inr ('''', False)"
proof -
  have "case fst (run_state (run_backend ready_env demo_cp (Some demo_cluster) ''kro'')
       [GetControlPlane ready_request, GetOwnerCluster (cp_meta demo_cp)]) of Inl _ \<Rightarrow> False
    | Inr out \<Rightarrow> is_Ready (bo_status out) \<and> is_Endpoint (bo_status out) = ''https://h:443'' \<and> bo_initializeOnEndpoint out \<and>
       bo_ensureWatchErr out = None \<and> (case bo_instance out of None \<Rightarrow> False | Some u \<Rightarrow>
         lib_NestedString (ce_lib ready_env) (un_Object u) [''status'', ''kubeconfigSecretRef'', ''name''] = Inr (''source'', True) \<and>
         lib_NestedString (ce_lib ready_env) (un_Object u) [''status'', ''kubeconfigSecretRef'', ''namespace''] = Inr ('''', False))"
    by code_simp
  then show thesis using that by (auto split: sum.splits option.splits)
qed

lemma ready_env_source: "source_available ready_env demo_cp demo_cluster ''source''"
proof -
  have "\<exists>target. SecretName (om_Name (cl_meta demo_cluster)) = Inr target \<and>
      (\<exists>new. mutate_target ref_lib demo_cp demo_cluster ''kubeconfig'' (empty_target demo_cp target) = Inr new)"
  proof (intro exI conjI)
    show "SecretName (om_Name (cl_meta demo_cluster)) = Inr ''demo-kubeconfig''" by code_simp
    have "\<not> isl (mutate_target ref_lib demo_cp demo_cluster ''kubeconfig'' (empty_target demo_cp ''demo-kubeconfig''))"
      by code_simp
    then show "mutate_target ref_lib demo_cp demo_cluster ''kubeconfig'' (empty_target demo_cp ''demo-kubeconfig'') =
        Inr (projr (mutate_target ref_lib demo_cp demo_cluster ''kubeconfig'' (empty_target demo_cp ''demo-kubeconfig'')))"
      by (rule sum.collapse(2) [symmetric])
  qed
  then show ?thesis
    by (auto simp: source_available_def ready_env_def demo_env_def fmlookup_of_list) (simp_all add: ref_lib_def)
qed

theorem ready_backend_makes_ready_witness:
  "\<exists>before after. PatchCPStatus before after = last (snd (run_state (cp_Reconcile ready_env ready_request) [])) \<and>
     cond_status ref_lib after conditionTypeReady = Some ConditionTrue"
proof -
  obtain out u where out: "fst (run_state (run_backend ready_env demo_cp (Some demo_cluster) ''kro'')
       [GetControlPlane ready_request, GetOwnerCluster (cp_meta demo_cp)]) = Inr out"
    "is_Ready (bo_status out)" "is_Endpoint (bo_status out) = ''https://h:443''" "bo_initializeOnEndpoint out"
    "bo_ensureWatchErr out = None" "bo_instance out = Some u"
    "lib_NestedString (ce_lib ready_env) (un_Object u) [''status'', ''kubeconfigSecretRef'', ''name''] = Inr (''source'', True)"
    "lib_NestedString (ce_lib ready_env) (un_Object u) [''status'', ''kubeconfigSecretRef'', ''namespace''] = Inr ('''', False)"
    by (rule ready_env_backend)
  have lib: "ce_lib ready_env = ref_lib" "ce_getCP ready_env [] ready_request = Inr demo_cp"
    "ce_getOwner ready_env [GetControlPlane ready_request] (cp_meta demo_cp) = Inr (Some demo_cluster)"
    by (simp_all add: ready_env_def demo_env_def)
  have ns: "om_Namespace (cl_meta demo_cluster) = om_Namespace (cp_meta demo_cp)" by code_simp
  have "Parse (lib_ip_literal_error ref_lib) ''https://h:443'' = Inr \<lparr>ep_Host = ''h'', ep_Port = 443\<rparr>" by code_simp
  then have "backend_done ready_env demo_cp (Inr (Some demo_cluster)) out \<lparr>ep_Host = ''h'', ep_Port = 443\<rparr>"
    using out ns ready_env_source lib(1) by (auto simp: backend_done_def kubeconfig_available_def)
  moreover have "selectedControlPlaneBackend (cp_Spec demo_cp) = (''kro'', 1)" by code_simp
  moreover have "accepts_writes ready_env" by (simp add: accepts_writes_def ready_env_def demo_env_def)
  moreover have "condition_laws (ce_lib ready_env)" using demo_condition_laws(1) by (simp add: lib(1) demo_env_def)
  ultimately show ?thesis
    using ready_backend_makes_ready [of ready_env ready_request demo_cp "''kro''" "Inr (Some demo_cluster)" out] out(1) lib
    by (fastforce simp: owner_or_nil_def made_ready_def)
qed

end
