(* ===== verification/SelfManaged.thy ===== *)
theory SelfManaged
  imports Progress Kubeadm
begin

text \<open>
  The self-managed control plane behind the facade: what its controller writes on the
  \<open>Kany8sKubeadmControlPlane\<close> is what the facade reads as its backend's status.
\<close>

section \<open>What the facade reads\<close>

text \<open>The facade's fields of its backend leave the status and the endpoint as they are.\<close>

lemma mutate_kubeadm_keeps:
  assumes "mutate_kubeadm lib cp owner k b = Inr b'"
  shows "kcp_Status b' = kcp_Status b" "kp_ControlPlaneEndpoint (kcp_Spec b') = kp_ControlPlaneEndpoint (kcp_Spec b)"
  using assms by (auto simp: mutate_kubeadm_def split: sum.splits)

lemma kubeadm_status_read:
  assumes "kcp_status lib b conditionTypeReady = Some ConditionTrue"
  shows "is_Ready (kubeadmBackendStatusToInstanceStatus lib b)"
    "is_Endpoint (kubeadmBackendStatusToInstanceStatus lib b) = endpointToStatusString (kp_ControlPlaneEndpoint (kcp_Spec b))"
  using assms
  by (auto simp: kubeadmBackendStatusToInstanceStatus_def kcp_status_def Let_def split: option.splits)

text \<open>The server holds the object \<open>b\<close> of the facade's backend, and stores what the facade makes of it.\<close>

definition serves_backend :: "cp_env \<Rightarrow> Kany8sControlPlane \<Rightarrow> cluster option \<Rightarrow> Kany8sKubeadmControlPlane \<Rightarrow> bool" where
  "serves_backend env cp owner b \<longleftrightarrow>
     (\<forall>h. ce_readKubeadm env h (new_kubeadm_backend cp) = Inr b) \<and> (\<forall>h x. ce_storeKubeadm env h x = Inr x) \<and>
     (\<forall>k. cs_Kubeadm (cp_Spec cp) = Some k \<longrightarrow> \<not> isl (mutate_kubeadm (ce_lib env) cp owner k b)) \<and>
     (ce_hasWatcher env \<longrightarrow> (\<forall>h g. ce_ensureWatch env h g = None))"

lemma kubeadm_backend_done:
  assumes "serves_backend env cp (owner_or_nil owner) b" "cs_Kubeadm (cp_Spec cp) = Some k"
    and "kcp_status (ce_lib env) b conditionTypeReady = Some ConditionTrue" "kt_ControlPlaneInitialized (kcp_Status b)"
    and "ep = kp_ControlPlaneEndpoint (kcp_Spec b)" "\<forall>c \<in> set (ep_Host ep). host_char c" "valid_endpoint ep"
  obtains out where "fst (run_state (run_backend env cp (owner_or_nil owner) ''kubeadm'') h) = Inr out"
    "backend_done env cp owner out ep"
proof -
  obtain new where new: "mutate_kubeadm (ce_lib env) cp (owner_or_nil owner) k b = Inr new"
    using assms(1,2) by (cases "mutate_kubeadm (ce_lib env) cp (owner_or_nil owner) k b") (auto simp: serves_backend_def)
  note kept = mutate_kubeadm_keeps [OF new]
  have ready: "kcp_status (ce_lib env) new conditionTypeReady = Some ConditionTrue"
    using assms(3) kept(1) by (simp add: kcp_status_def)
  have str: "endpointToStatusString ep \<noteq> ''''"
    using assms(7) by (auto simp: endpointToStatusString_def valid_endpoint_def valid_port_def)
  let ?out = "\<lparr>bo_instance = None, bo_status = kubeadmBackendStatusToInstanceStatus (ce_lib env) new,
      bo_initialized = True, bo_initializeOnEndpoint = False, bo_ensureWatchErr = None, bo_kubeconfigEnabled = False\<rparr>"
  have "fst (run_state (run_backend env cp (owner_or_nil owner) ''kubeadm'') h) = Inr ?out"
    using assms(1,2,4) new kept(1)
    by (auto simp: run_backend_def ensure_watch_def reconcileKubeadmBackend_def create_or_update_def serves_backend_def run_try_bind Let_def
        split: prod.splits)
  moreover have "backend_done env cp owner ?out ep"
    using kubeadm_status_read [OF ready] kept(2) assms(5) str endpoint_roundtrip [OF assms(6,7)]
    by (simp add: backend_done_def)
  ultimately show thesis by (rule that)
qed


section \<open>Properties\<close>



section \<open>Witnesses\<close>

text \<open>A facade of the object \<open>b\<close>.\<close>

definition self_managed_cp :: Kany8sControlPlane where
  "self_managed_cp = demo_cp\<lparr>cp_Spec := (cp_Spec demo_cp)\<lparr>cs_ResourceGraphDefinitionRef := None,
     cs_Kubeadm := Some \<lparr>ks_Replicas = Some 1, ks_MachineTemplate = kp_MachineTemplate (kcp_Spec demo_kcp),
       ks_KubeadmConfigSpec = None\<rparr>\<rparr>\<rparr>"

definition facade_env :: "Kany8sKubeadmControlPlane \<Rightarrow> cp_env" where
  "facade_env b = demo_env\<lparr>ce_getCP := (\<lambda>_ _. Inr self_managed_cp), ce_readKubeadm := (\<lambda>_ _. Inr b)\<rparr>"

definition node_endpoint :: APIEndpoint where
  "node_endpoint = \<lparr>ep_Host = ''10.0.0.1'', ep_Port = 6443\<rparr>"

lemma demo_turned_ready:
  obtains b a where "PatchKcpStatus b a \<in> set (snd (run_state (kcp_Reconcile demo_kcp_env (object_key ''ns'' ''demo'')) []))"
    "kcp_status ref_lib a conditionTypeReady = Some ConditionTrue"
    "kcp_status ref_lib b conditionTypeReady \<noteq> Some ConditionTrue"
    "kp_ControlPlaneEndpoint (kcp_Spec a) = node_endpoint" "serves_backend (facade_env a) self_managed_cp None a"
proof -
  have "list_ex (\<lambda>c. case c of
      PatchKcpStatus b a \<Rightarrow> kcp_status ref_lib a conditionTypeReady = Some ConditionTrue \<and>
        kcp_status ref_lib b conditionTypeReady \<noteq> Some ConditionTrue \<and>
        kp_ControlPlaneEndpoint (kcp_Spec a) = node_endpoint \<and>
        \<not> isl (mutate_kubeadm ref_lib self_managed_cp None (the (cs_Kubeadm (cp_Spec self_managed_cp))) a)
    | _ \<Rightarrow> False) (snd (run_state (kcp_Reconcile demo_kcp_env (object_key ''ns'' ''demo'')) []))"
    by code_simp
  then obtain c where "c \<in> set (snd (run_state (kcp_Reconcile demo_kcp_env (object_key ''ns'' ''demo'')) []))" "case c of
      PatchKcpStatus b a \<Rightarrow> kcp_status ref_lib a conditionTypeReady = Some ConditionTrue \<and>
        kcp_status ref_lib b conditionTypeReady \<noteq> Some ConditionTrue \<and>
        kp_ControlPlaneEndpoint (kcp_Spec a) = node_endpoint \<and>
        \<not> isl (mutate_kubeadm ref_lib self_managed_cp None (the (cs_Kubeadm (cp_Spec self_managed_cp))) a)
    | _ \<Rightarrow> False"
    by (auto simp only: list_ex_iff)
  then obtain b a where c: "PatchKcpStatus b a \<in> set (snd (run_state (kcp_Reconcile demo_kcp_env (object_key ''ns'' ''demo'')) []))"
    "kcp_status ref_lib a conditionTypeReady = Some ConditionTrue"
    "kcp_status ref_lib b conditionTypeReady \<noteq> Some ConditionTrue"
    "kp_ControlPlaneEndpoint (kcp_Spec a) = node_endpoint"
    "\<not> isl (mutate_kubeadm ref_lib self_managed_cp None (the (cs_Kubeadm (cp_Spec self_managed_cp))) a)"
    by (cases c rule: kcp_call.exhaust) simp_all
  then have "cs_Kubeadm (cp_Spec self_managed_cp) = Some k \<Longrightarrow> \<not> isl (mutate_kubeadm ref_lib self_managed_cp None k a)" for k
    by simp
  then have "serves_backend (facade_env a) self_managed_cp None a"
    by (simp add: serves_backend_def facade_env_def demo_env_def)
  then show thesis using that c(1-4) by blast
qed


end
