(* ===== verification/KarpComplete.thy ===== *)
theory KarpComplete
  imports KarpCalls
begin

text \<open>
  What a run of the Karpenter bootstrapper has achieved when it gets as far as the workload
  cluster: the six AWS resources are in place as its own, with the fields that tie them together.
\<close>

section \<open>A resource in place\<close>

text \<open>
  The object is marked for the cluster and its spec has the fields of \<open>must\<close>. It is in
  place when the run created or updated it under this kind and name and the API server accepted
  that, or when the run found it so.
\<close>

definition wanted :: "cluster \<Rightarrow> (string \<times> json) list \<Rightarrow> unstructured \<Rightarrow> bool" where
  "wanted c must u \<longleftrightarrow> object_of karpenterManagedByValue c u \<and>
     (\<exists>m. spec_of (un_Object u) = Some m \<and> (\<forall>(k, v) \<in> set must. fmlookup m k = Some v))"

definition ran :: "eks_call list \<Rightarrow> eks_call \<Rightarrow> (eks_call list \<Rightarrow> bool) \<Rightarrow> bool" where
  "ran h w ok \<longleftrightarrow> (\<exists>before after. h = before @ w # after \<and> ok before)"

definition in_place :: "eks_env \<Rightarrow> cluster \<Rightarrow> gvk \<Rightarrow> string \<Rightarrow> (string \<times> json) list \<Rightarrow> eks_call list \<Rightarrow> bool" where
  "in_place env c g name must h \<longleftrightarrow>
     (let key = object_key (om_Namespace (cl_meta c)) name;
          accepted = (\<lambda>w. ran h w (\<lambda>before. ee_write env before w = Inr ())) in
      \<exists>u. wanted c must u \<and>
        (accepted (EksCreate u) \<and> un_GVK u = g \<and> key_of (un_meta u) = key \<or>
         accepted (EksUpdate u) \<and> updates_read env g key u \<or>
         ran h (EksGet g key) (\<lambda>before. ee_get env before g key = Inr u)))"

lemma ran_last: "ok before \<Longrightarrow> ran (before @ [w]) w ok" "ok (before @ [w0]) \<Longrightarrow> ran (before @ [w0, w]) w ok"
  unfolding ran_def by (rule exI [of _ before], simp) (rule exI [of _ "before @ [w0]"], simp)

lemma ran_more: "ran h w ok \<Longrightarrow> ran (h @ t) w ok"
  unfolding ran_def by (metis append.assoc append_Cons)

lemma in_place_more: "in_place env c g name must h \<Longrightarrow> in_place env c g name must (h @ t)"
  unfolding in_place_def Let_def by (blast intro: ran_more)

text \<open>What the upsert has done where it says that an object is managed.\<close>

lemma wp_upsert_managed:
  assumes "\<And>e y. gf h = Inl e \<Longrightarrow> mutate fresh = Inr y \<Longrightarrow> cf y (h @ [G]) = Inr () \<Longrightarrow> P (h @ [G, C y])"
    and "\<And>y. gf h = Inr y \<Longrightarrow> mutate y = Inr y \<Longrightarrow> P (h @ [G])"
    and "\<And>x y. gf h = Inr x \<Longrightarrow> mutate x = Inr y \<Longrightarrow> uf y (h @ [G]) = Inr () \<Longrightarrow> P (h @ [G, U y])"
    and took: "\<And>y h. P h \<Longrightarrow> wp (took y) (\<lambda>_. P) h"
  shows "wp (upsert_managed (perform G gf) (\<lambda>u. perform (C u) (cf u)) (\<lambda>u. perform (U u) (uf u)) took managed takeover mutate fresh)
    (\<lambda>r h'. case r of Inl _ \<Rightarrow> True | Inr x \<Rightarrow> ur_Managed x \<longrightarrow> P h') h"
  using assms(1-3) unfolding upsert_managed_def Let_def
  by (cases "gf h"; cases "mutate fresh") (auto split: sum.split intro!: wp_mono [OF took])

text \<open>The upsert that says an object is managed has put it in place.\<close>

lemma own_fill_wanted:
  assumes "kar_laws env" "fs \<noteq> []" "\<And>m. \<forall>(k, v) \<in> set must. fmlookup (upd_all fs m) k = Some v"
    and "own_unstructured (ee_lib env) c
      (fill_object (ee_lib env) karpenterManagedByValue region (om_Name (cl_meta c)) fs) u = Inr t"
  shows "wanted c must t" "un_GVK t = un_GVK u" "key_of (un_meta t) = key_of (un_meta u)"
proof -
  have laws: "set_nested_laws (ee_lib env)" "owner_laws (ee_lib env)"
    using assms(1) by (simp_all add: kar_laws_def)
  note object = own_fill_object [OF laws karpenter_trimmed assms(2,4)]
  show "wanted c must t" using object(1,6) assms(3) by (auto simp: wanted_def)
  show "un_GVK t = un_GVK u" "key_of (un_meta t) = key_of (un_meta u)" by (rule object)+
qed

text \<open>The three ways an object gets in place.\<close>

lemma in_place_created:
  "wanted c must u \<Longrightarrow> un_GVK u = g \<Longrightarrow> key_of (un_meta u) = object_key (om_Namespace (cl_meta c)) name \<Longrightarrow>
   ran h (EksCreate u) (\<lambda>before. ee_write env before (EksCreate u) = Inr ()) \<Longrightarrow> in_place env c g name must h"
  unfolding in_place_def Let_def by blast

lemma in_place_updated:
  "wanted c must u \<Longrightarrow> updates_read env g (object_key (om_Namespace (cl_meta c)) name) u \<Longrightarrow>
   ran h (EksUpdate u) (\<lambda>before. ee_write env before (EksUpdate u) = Inr ()) \<Longrightarrow> in_place env c g name must h"
  unfolding in_place_def Let_def by blast

lemma in_place_found:
  "wanted c must u \<Longrightarrow> ran h (EksGet g (object_key (om_Namespace (cl_meta c)) name))
     (\<lambda>before. ee_get env before g (object_key (om_Namespace (cl_meta c)) name) = Inr u) \<Longrightarrow> in_place env c g name must h"
  unfolding in_place_def Let_def by blast

lemma ensure_in_place:
  assumes "kar_laws env" "fs \<noteq> []" "\<And>m. \<forall>(k, v) \<in> set must. fmlookup (upd_all fs m) k = Some v"
  shows "wp (kar_ensure env c g name region fs) (\<lambda>r h'. r = Inr True \<longrightarrow> in_place env c g name must h') h"
proof -
  let ?key = "object_key (om_Namespace (cl_meta c)) name" and ?new = "new_unstructured g (om_Namespace (cl_meta c)) name"
  note filled = own_fill_wanted [OF assms]
  have fresh: "un_GVK ?new = g" "key_of (un_meta ?new) = ?key"
    by (simp_all add: new_unstructured_def new_meta_def key_of_def object_key_def)
  show ?thesis
    unfolding kar_ensure_def upsertManagedUnstructured_def eks_get_def eks_write_def karpenter_bootstrapper_def
      bootstrapper.simps Let_def wp_bind
  proof (rule wp_mono [OF wp_upsert_managed [where P = "in_place env c g name must"]])
    fix e y assume y: "own_unstructured (ee_lib env) c (fill_object (ee_lib env) karpenterManagedByValue region (om_Name (cl_meta c)) fs) ?new = Inr y"
      and ok: "ee_write env (h @ [EksGet g ?key]) (EksCreate y) = Inr ()"
    show "in_place env c g name must (h @ [EksGet g ?key, EksCreate y])"
      by (rule in_place_created [OF filled(1) [OF y]]) (use filled(2,3) [OF y] fresh ok in \<open>auto intro: ran_last\<close>)
  next
    fix y assume got: "ee_get env h g ?key = Inr y" and y: "own_unstructured (ee_lib env) c (fill_object (ee_lib env) karpenterManagedByValue region (om_Name (cl_meta c)) fs) y = Inr y"
    show "in_place env c g name must (h @ [EksGet g ?key])"
      by (rule in_place_found [OF filled(1) [OF y]]) (use got in \<open>auto intro: ran_last\<close>)
  next
    fix x y assume got: "ee_get env h g ?key = Inr x" and y: "own_unstructured (ee_lib env) c (fill_object (ee_lib env) karpenterManagedByValue region (om_Name (cl_meta c)) fs) x = Inr y"
      and ok: "ee_write env (h @ [EksGet g ?key]) (EksUpdate y) = Inr ()"
    show "in_place env c g name must (h @ [EksGet g ?key, EksUpdate y])"
      by (rule in_place_updated [OF filled(1) [OF y]])
        (use got filled(2,3) [OF y] ok in \<open>auto simp: updates_read_def intro: ran_last\<close>)
  next
    fix y h1 assume "in_place env c g name must h1"
    from in_place_more [OF this]
    show "wp (eks_emitEvent ctl env c ty rs msg) (\<lambda>_. in_place env c g name must) h1" for ctl ty rs msg
      using \<open>in_place env c g name must h1\<close> by (auto simp: eks_emitEvent_def Let_def)
  qed (auto split: sum.splits)
qed

section \<open>Resources that are tied together\<close>

lemma upd_all_covers:
  assumes "distinct (map fst fs)" "set must \<subseteq> set fs"
  shows "\<forall>(k, v) \<in> set must. fmlookup (upd_all fs m) k = Some v"
proof clarify
  fix k v assume "(k, v) \<in> set must"
  then have "map_of (rev fs) k = Some v"
    using assms by (intro map_of_is_SomeI) (auto simp: rev_map [symmetric])
  then show "fmlookup (upd_all fs m) k = Some v" by (simp add: upd_all_lookup)
qed

text \<open>
  The identity provider has the issuer of the cluster; the policy of the controller lets it pass
  the role of the nodes; the role of the controller trusts that provider, at the issuer's host, and
  carries that policy; the role of the nodes is EC2's to assume; the instance profile carries the
  role of the nodes, and the access entry admits its ARN to the ACK cluster.
\<close>

definition resources_in_place ::
    "eks_env \<Rightarrow> cluster \<Rightarrow> kar_names \<Rightarrow> kar_cluster \<Rightarrow> string \<Rightarrow> eks_call list \<Rightarrow> bool" where
  "resources_in_place env c n k issuerHostPath h \<longleftrightarrow>
     (let here = (\<lambda>g suffix must. in_place env c g (kn_capi n @ suffix) must h);
          provider = ''arn:aws:iam::'' @ kc_AccountID k @ '':oidc-provider/'' @ issuerHostPath;
          nodeRole = iam_role_arn (kc_AccountID k) (node_role_aws_name n)
      in here ackOIDCProviderGVK ''-oidc-provider''
           [(''url'', JStr (kc_IssuerURL k)), (''clientIDs'', JArr [JStr ''sts.amazonaws.com''])] \<and>
         here ackIAMPolicyGVK ''-karpenter-controller-policy''
           [(''policyDocument'',
             JStr (buildKarpenterControllerPolicyDocument (kc_Region k) (kc_AccountID k) (kn_eks n) nodeRole))] \<and>
         here ackIAMRoleGVK ''-karpenter-controller''
           [(''name'', JStr (controller_role_aws_name n)),
            (''assumeRolePolicyDocument'', JStr (buildKarpenterControllerAssumeRolePolicyDocument provider issuerHostPath)),
            (''policyRefs'', JArr [from_ref c (kn_capi n @ ''-karpenter-controller-policy'')])] \<and>
         here ackIAMRoleGVK ''-karpenter-node''
           [(''name'', JStr (node_role_aws_name n)), (''assumeRolePolicyDocument'', JStr ec2_assume_policy)] \<and>
         here ackIAMInstanceProfileGVK ''-karpenter-node-instance-profile''
           [(''roleRef'', from_ref c (kn_capi n @ ''-karpenter-node''))] \<and>
         here ackAccessEntryGVK ''-karpenter-node''
           [(''principalARN'', JStr nodeRole), (''clusterRef'', from_ref c (kn_ack n))])"

lemma resources_in_place_more:
  "resources_in_place env c n k i h \<Longrightarrow> resources_in_place env c n k i (h @ t)"
  unfolding resources_in_place_def Let_def by (blast intro: in_place_more)

section \<open>The successful sync\<close>

text \<open>A call other than the one that counts a successful sync.\<close>

definition uncounted :: "eks_call \<Rightarrow> bool" where
  "uncounted w = (case w of RecordSuccessfulSync _ _ \<Rightarrow> False | _ \<Rightarrow> True)"

text \<open>
  Where the run so far has counted no success and \<open>Pre\<close> holds of it, \<open>P\<close> holds at
  the end if one is counted.
\<close>

definition counts_only :: "(eks_call list \<Rightarrow> bool) \<Rightarrow> (eks_call list \<Rightarrow> bool) \<Rightarrow> ('a eks_eff) \<Rightarrow> bool" where
  "counts_only Pre P m \<longleftrightarrow>
     (\<forall>h. list_all uncounted h \<and> Pre h \<longrightarrow> wp m (\<lambda>_ h'. list_all uncounted h' \<or> P h') h)"

definition stable :: "(eks_call list \<Rightarrow> bool) \<Rightarrow> bool" where
  "stable Pre \<longleftrightarrow> (\<forall>h t. Pre h \<longrightarrow> Pre (h @ t))"

lemma counts_none: "emits uncounted m \<Longrightarrow> counts_only Pre P m"
  unfolding counts_only_def emits_ensures
  by (auto intro!: wp_mono [OF wp_ensures])

lemma counts_ret [simp]: "counts_only Pre P (ret a)"
  by (rule counts_none) simp

lemma counts_bind:
  assumes "stable Pre" "ensures uncounted R m" "\<And>a. R a \<Longrightarrow> counts_only Pre P (k a)"
  shows "counts_only Pre P (bind_eff m k)"
  unfolding counts_only_def wp_bind
proof (intro allI impI)
  fix h assume "list_all uncounted h \<and> Pre h"
  with assms(1,3) show "wp m (\<lambda>a. wp (k a) (\<lambda>_ h'. list_all uncounted h' \<or> P h')) h"
    by (intro wp_mono [OF wp_ensures [OF assms(2)]]) (auto simp: counts_only_def stable_def)
qed

lemma counts_try:
  assumes "stable Pre" "ensures uncounted (case_sum (\<lambda>_. True) R) m" "\<And>a. R a \<Longrightarrow> counts_only Pre P (k a)"
  shows "counts_only Pre P (try_bind m k)"
  unfolding try_bind_def
  by (rule counts_bind [OF assms(1,2)]) (auto split: sum.splits intro: assms(3))

lemma counts_after: "stable Pre \<Longrightarrow> emits uncounted m \<Longrightarrow> (\<And>a. counts_only Pre P (k a)) \<Longrightarrow> counts_only Pre P (bind_eff m k)"
  by (rule counts_bind [where R = "\<lambda>_. True"]) (auto simp: emits_ensures)

lemma counts_then:
  assumes "counts_only Pre P m" "stable P" "\<And>a. emits uncounted (k a)"
  shows "counts_only Pre P (bind_eff m k)"
  unfolding counts_only_def wp_bind
proof (intro allI impI)
  fix h assume "list_all uncounted h \<and> Pre h"
  then have "wp m (\<lambda>_ h'. list_all uncounted h' \<or> P h') h" using assms(1) by (simp add: counts_only_def)
  then show "wp m (\<lambda>a. wp (k a) (\<lambda>_ h'. list_all uncounted h' \<or> P h')) h"
    by (rule wp_mono, intro wp_mono [OF wp_ensures [OF ensures_of_emits [OF assms(3), where R = "\<lambda>_. True"]]])
      (use assms(2) in \<open>auto simp: stable_def\<close>)
qed

lemma countsD:
  assumes "counts_only (\<lambda>_. True) P m" "x \<in> set (snd (run_state m []))" "\<not> uncounted x"
  shows "P (snd (run_state m []))"
proof -
  obtain v h where run: "run_state m [] = (v, h)" by fastforce
  have "wp m (\<lambda>_ h'. list_all uncounted h' \<or> P h') []" using assms(1) by (simp add: counts_only_def)
  from wp_runD [OF this run] show ?thesis using assms(2,3) run by (auto simp: list_all_iff)
qed

lemma ensures_both: "ensures Q R m \<Longrightarrow> emits Q' m \<Longrightarrow> ensures Q' R m"
  by (fastforce simp: ensures_def emits_def)


lemma counts_case_result:
  "(\<And>e. x = Inl e \<Longrightarrow> counts_only Pre P (f e)) \<Longrightarrow> (\<And>a. x = Inr a \<Longrightarrow> counts_only Pre P (g a)) \<Longrightarrow>
   counts_only Pre P (case x of Inl e \<Rightarrow> f e | Inr a \<Rightarrow> g a)"
  by (cases x) simp_all

section \<open>What the phases count\<close>

lemma uncounted_simps [simp]: "uncounted (RecordReconcileError x)" "\<not> uncounted (RecordSuccessfulSync x time)"
  by (simp_all add: uncounted_def)

interpretation uncounted: unmetered_calls uncounted
  by unfold_locales (simp add: uncounted_def metered_def split: eks_call.splits)

section \<open>A run that counts a success\<close>

text \<open>
  The cluster the run was for, enabled and not being deleted; the ACK cluster it read, whose status
  gave the endpoint, the issuer, the account and the region; and the resources, in the namespace of
  the cluster as the API server last answered it.
\<close>

definition synced :: "eks_env \<Rightarrow> object_key \<Rightarrow> eks_call list \<Rightarrow> bool" where
  "synced env req h \<longleftrightarrow>
     (\<exists>c0 c1 c n k ack issuerHostPath.
        (\<exists>h0. ee_getCluster env h0 req = Inr c0) \<and> om_DeletionTimestamp (cl_meta c0) = None \<and> isKarpenterEnabled c0 \<and>
        (kn_capi n, kn_eks n, kn_ack n) = resolveClusterNames c0 \<and>
        answered env c1 \<and>
        (\<exists>h0. ee_get env h0 ackClusterGVK (object_key (om_Namespace (cl_meta c1)) (kn_ack n)) = Inr ack) \<and>
        kar_read_ack (ee_lib env) c1 (kn_ack n) ack = Inr k \<and>
        normalizeIssuerHostPath (ee_lib env) (kc_IssuerURL k) = Inr issuerHostPath \<and>
        answered env c \<and> resources_in_place env c n k issuerHostPath h)"

lemma counts_reached:
  assumes "emits (\<lambda>_. True) m" "\<And>h. Pre h \<Longrightarrow> P h" "stable P"
  shows "counts_only Pre P m"
  unfolding counts_only_def
proof (intro allI impI)
  fix h assume "list_all uncounted h \<and> Pre h"
  with assms(2,3) show "wp m (\<lambda>_ h'. list_all uncounted h' \<or> P h') h"
    by (intro wp_mono [OF wp_ensures [OF ensures_of_emits [OF assms(1), where R = "\<lambda>_. True"]]]) (auto simp: stable_def)
qed

lemma counts_step:
  assumes "stable Pre" "emits uncounted ensure" "\<And>h. wp ensure (\<lambda>r h'. r = Inr True \<longrightarrow> new h') h"
    and "counts_only (\<lambda>h. Pre h \<and> new h) P rest"
  shows "counts_only Pre P (kar_step r env c kind what name ensure rest)"
  unfolding counts_only_def kar_step_def wp_try_bind
proof (intro allI impI)
  fix h assume h: "list_all uncounted h \<and> Pre h"
  let ?Q = "\<lambda>_ h'. list_all uncounted h' \<or> P h'"
  have conflict: "wp (kar_conflict r env c kind msg) ?Q h1" if "list_all uncounted h1" for msg h1
    using counts_none [OF uncounted.conflict, of "\<lambda>_. True" P] that by (simp add: counts_only_def)
  have rest: "wp rest ?Q h1" if "list_all uncounted h1" "Pre h1" "new h1" for h1
    using assms(4) that by (simp add: counts_only_def)
  have "wp ensure (\<lambda>a h'. (\<exists>t. h' = h @ t \<and> list_all uncounted t) \<and> (a = Inr True \<longrightarrow> new h')) h"
    using wp_ensures [OF ensures_of_emits [OF assms(2), where R = "\<lambda>_. True"], of h] assms(3) [of h] by (simp add: wp_conj)
  then show "wp ensure (\<lambda>r' h'. case r' of Inl e \<Rightarrow> ?Q (Inl e) h'
      | Inr ok \<Rightarrow> wp (if \<not> ok then kar_conflict r env c kind (what @ '' '' @ om_Namespace (cl_meta c) @ ''/'' @ name @
         '' exists and is not managed by '' @ karpenterManagedByValue) else rest) ?Q h') h"
    by (rule wp_mono) (use h assms(1) in \<open>auto simp: stable_def intro!: conflict rest split: sum.split\<close>)
qed

lemma stable_True [simp]: "stable (\<lambda>_. True)"
  by (simp add: stable_def)

lemma stable_conj: "stable P \<Longrightarrow> stable Q \<Longrightarrow> stable (\<lambda>h. P h \<and> Q h)"
  by (simp add: stable_def)

lemma stable_in_place: "stable (in_place env c g name must)"
  by (simp add: stable_def in_place_more)

lemma counts_ensure:
  assumes "kar_laws env" "distinct (map fst fs)" "fs \<noteq> []" "set must \<subseteq> set fs"
    and "stable Pre" "counts_only (\<lambda>h. Pre h \<and> in_place env c g name must h) P rest"
  shows "counts_only Pre P (kar_step r env c kind what name (kar_ensure env c g name region fs) rest)"
  by (rule counts_step [OF assms(5) uncounted.ensure
        ensure_in_place [OF assms(1,3) upd_all_covers [OF assms(2,4)]] assms(6)])

lemma counts_weaken: "counts_only Q P m \<Longrightarrow> (\<And>h. Pre h \<Longrightarrow> Q h) \<Longrightarrow> counts_only Pre P m"
  by (auto simp: counts_only_def)

text \<open>The role of the nodes, and then the rest: what the topology adds to it leaves its name and trust.\<close>

lemma counts_kar_node_role:
  assumes "kar_laws env" "stable Pre"
    and "counts_only (\<lambda>h. Pre h \<and> in_place env c ackIAMRoleGVK (kn_capi n @ ''-karpenter-node'')
           [(''name'', JStr (node_role_aws_name n)), (''assumeRolePolicyDocument'', JStr ec2_assume_policy)] h) P rest"
  shows "counts_only Pre P (kar_node_role r env c n k rest)"
  unfolding kar_node_role_def kar_resource_defs Let_def
  by (auto intro!: counts_case_result counts_ensure [OF assms(1) _ _ _ assms(2,3)] split: prod.splits)

lemma counts_kar_resources:
  assumes "kar_laws env" "counts_only (resources_in_place env c n k host) P rest"
  shows "counts_only (\<lambda>_. True) P (kar_resources r env c n k host thumbprints rest)"
proof -
  let ?here = "\<lambda>g suffix must. in_place env c g (kn_capi n @ suffix) must"
  let ?provider = "''arn:aws:iam::'' @ kc_AccountID k @ '':oidc-provider/'' @ host"
  let ?role = "iam_role_arn (kc_AccountID k) (node_role_aws_name n)"
  let ?url = "[(''url'', JStr (kc_IssuerURL k)), (''clientIDs'', JArr [JStr ''sts.amazonaws.com''])]"
  let ?document = "[(''policyDocument'',
      JStr (buildKarpenterControllerPolicyDocument (kc_Region k) (kc_AccountID k) (kn_eks n) ?role))]"
  let ?trust = "[(''name'', JStr (controller_role_aws_name n)),
      (''assumeRolePolicyDocument'', JStr (buildKarpenterControllerAssumeRolePolicyDocument ?provider host)),
      (''policyRefs'', JArr [from_ref c (kn_capi n @ ''-karpenter-controller-policy'')])]"
  let ?carries = "[(''roleRef'', from_ref c (kn_capi n @ ''-karpenter-node''))]"
  let ?admits = "[(''principalARN'', JStr ?role), (''clusterRef'', from_ref c (kn_ack n))]"
  note step = counts_ensure [OF assms(1)] and stable = stable_True stable_conj stable_in_place
  show ?thesis
    unfolding kar_resources_def ensureOIDCProvider_def ensureIAMPolicy_def ensureIAMRoleForIRSA_def
      ensureIAMInstanceProfile_def ensureAccessEntry_def Let_def
    by (intro stable counts_kar_node_role [OF assms(1)] counts_weaken [OF assms(2)]
        step [where g = ackOIDCProviderGVK and must = ?url] step [where g = ackIAMPolicyGVK and must = ?document]
        step [where g = ackIAMRoleGVK and must = ?trust] step [where g = ackIAMInstanceProfileGVK and must = ?carries]
        step [where g = ackAccessEntryGVK and must = ?admits];
       simp add: oidc_fields_def resources_in_place_def Let_def)
qed


section \<open>The whole run\<close>

lemma syncedI:
  "ee_getCluster env h0 req = Inr c0 \<Longrightarrow> om_DeletionTimestamp (cl_meta c0) = None \<Longrightarrow> isKarpenterEnabled c0 \<Longrightarrow>
   (kn_capi n, kn_eks n, kn_ack n) = resolveClusterNames c0 \<Longrightarrow> answered env c1 \<Longrightarrow>
   ee_get env h1 ackClusterGVK (object_key (om_Namespace (cl_meta c1)) (kn_ack n)) = Inr ack \<Longrightarrow>
   kar_read_ack (ee_lib env) c1 (kn_ack n) ack = Inr k \<Longrightarrow>
   normalizeIssuerHostPath (ee_lib env) (kc_IssuerURL k) = Inr host \<Longrightarrow> answered env c \<Longrightarrow>
   resources_in_place env c n k host h \<Longrightarrow> synced env req h"
  unfolding synced_def by blast

lemma stable_synced [simp]: "stable (synced env req)"
  unfolding stable_def synced_def by (blast intro: resources_in_place_more)

lemma ensures_uncounted: "emits uncounted m \<Longrightarrow> ensures uncounted (\<lambda>_. True) m"
  by (simp add: emits_ensures)

lemma counts_deliver:
  assumes "kar_laws env" "answered env c" "kar_durations r" "0 < d"
    and "\<And>h. resources_in_place env c n k host h \<Longrightarrow> synced env req h"
  shows "counts_only (resources_in_place env c n k host) (synced env req) (kar_deliver r env c n i k groups d)"
proof (rule counts_reached [OF _ assms(5) stable_synced])
  show "emits (\<lambda>_. True) (kar_deliver r env c n i k groups d)"
    using ensures_kar_deliver [OF assms(1-4), of req n i k groups]
    by (fastforce simp: emits_ensures ensures_def list_all_iff)
qed

lemma counts_thumbprints:
  assumes "\<And>ts. counts_only (\<lambda>_. True) P (rest ts)"
  shows "counts_only (\<lambda>_. True) P (kar_thumbprints r env c url rest)"
  unfolding kar_thumbprints_def
  by (rule counts_after [OF stable_True uncounted.aws(3)])
    (auto intro!: counts_after counts_none [OF uncounted.backoff] assms split: sum.split thumbprint_error.split)

lemma counts_inject_group:
  assumes "answered env c" "kar_durations r" "\<And>c. answered env c \<Longrightarrow> counts_only (\<lambda>_. True) P (rest c)"
  shows "counts_only (\<lambda>_. True) P (kar_inject_group r env c i sgid rest)"
proof -
  have first: "ensures uncounted (case_sum (\<lambda>_. True) (\<lambda>x. answered env (fst x))) (ensureTopologyStringSliceVariable env c1 x vs)"
    if "answered env c1" for c1 x vs
    by (rule ensures_both [OF ensures_kar_topology [OF that, where r = r and req = undefined] uncounted.patches(5)])
  have second: "ensures uncounted (case_sum (\<lambda>_. True) (\<lambda>x. answered env (fst x)))
      (if b then ensureTopologyStringSliceVariable env c1 x vs else ret (Inr (c1, False)))" if "answered env c1" for b c1 x vs
    using first [OF that] that by (auto intro!: ensures_ret)
  show ?thesis
    unfolding kar_inject_group_def
    by (rule counts_try [OF stable_True first [OF assms(1)]])
      (auto intro!: counts_try [OF stable_True second] counts_after emits_when assms(3))
qed

lemma counts_security_group:
  assumes "kar_laws env" "answered env c" "kar_durations r" "0 < d"
    and "\<And>c groups d. answered env c \<Longrightarrow> 0 < d \<Longrightarrow> counts_only (\<lambda>_. True) P (rest c groups d)"
  shows "counts_only (\<lambda>_. True) P (kar_security_group r env c n i region d rest)"
  unfolding kar_security_group_def
  using assms kar_durations_pos [OF assms(3)]
  by (auto intro!: counts_after [OF stable_True uncounted.security_group] counts_none [OF uncounted.backoff]
      counts_none [OF uncounted.conflict] counts_after counts_inject_group split: sum.split)


lemma counts_bootstrap:
  assumes "kar_laws env" "answered env c" "kar_durations r"
    and "\<And>c host h. answered env c \<Longrightarrow> normalizeIssuerHostPath (ee_lib env) (kc_IssuerURL k) = Inr host \<Longrightarrow>
      resources_in_place env c n k host h \<Longrightarrow> synced env req h"
  shows "counts_only (\<lambda>_. True) (synced env req) (kar_bootstrap r env c n i k)"
  unfolding kar_bootstrap_def Let_def
  using assms kar_durations_pos [OF assms(3)]
  by (auto intro!: counts_after emits_when counts_security_group counts_case_result counts_thumbprints
      counts_kar_resources counts_deliver)

lemma counts_subnets:
  assumes "kar_laws env" "answered env c" "kar_durations r"
    and "\<And>c host h. answered env c \<Longrightarrow> normalizeIssuerHostPath (ee_lib env) (kc_IssuerURL k) = Inr host \<Longrightarrow>
      resources_in_place env c n k host h \<Longrightarrow> synced env req h"
  shows "counts_only (\<lambda>_. True) (synced env req) (kar_subnets r env c n i k)"
proof -
  have annotation: "ensures uncounted (case_sum (\<lambda>_. True) (\<lambda>x. answered env (fst x))) (ensureClusterAnnotation env c1 key v)"
    if "answered env c1" "key \<in> set kar_annotation_keys" for c1 key v
    by (rule ensures_both [OF ensures_kar_annotation [OF that(1) annotation_key [OF that(2)], where r = r and req = req]
          uncounted.patches(4)])
  have keys: "RegionAnnotationKey \<in> set kar_annotation_keys" "EKSClusterNameAnnotationKey \<in> set kar_annotation_keys"
    by (simp_all add: kar_annotation_keys_def)
  show ?thesis
    unfolding kar_subnets_def
    using assms
    by (auto intro!: counts_try [OF stable_True annotation] counts_after [OF stable_True uncounted.aws(1)] counts_case_result
        counts_none [OF uncounted.backoff] counts_after emits_when counts_bootstrap keys)
qed

lemma counts_enabled:
  assumes "kar_laws env" "kar_durations r" "ee_getCluster env h0 req = Inr c0" "om_DeletionTimestamp (cl_meta c0) = None"
    "isKarpenterEnabled c0" "(kn_capi n, kn_eks n, kn_ack n) = resolveClusterNames c0"
  shows "counts_only (\<lambda>_. True) (synced env req) (kar_enabled r env c0 n)"
proof -
  have answered: "answered env c0" using assms(3) by (auto simp: answered_def)
  note finalizer = ensures_both [OF ensures_kar_finalizer [OF assms(1), where r = r and req = req] uncounted.patches(1)]
    and label = ensures_both [OF ensures_kar_label [where r = r and req = req] uncounted.patches(3)]
  have got: "ensures uncounted (\<lambda>got. \<exists>h. got = ee_get env h g key) (eks_get env g key)" for g key
    unfolding eks_get_def by (rule ensures_perform) auto
  have "counts_only (\<lambda>_. True) (synced env req) (kar_subnets r env c n i k)"
    if "answered env c" "ee_get env h ackClusterGVK (object_key (om_Namespace (cl_meta c)) (kn_ack n)) = Inr ack"
      "kar_read_ack (ee_lib env) c (kn_ack n) ack = Inr k" for c h ack k i
    by (rule counts_subnets [OF assms(1) that(1) assms(2)]) (rule syncedI [OF assms(3-6) that])
  then show ?thesis
    unfolding kar_enabled_def Let_def
    by (auto intro!: counts_try [OF stable_True finalizer [OF answered]] counts_try [OF stable_True label]
        counts_bind [OF stable_True got] counts_case_result counts_none [OF uncounted.backoff] split: sum.splits prod.splits)
qed

lemma counts_kar_run:
  assumes "kar_laws env" "kar_durations r"
  shows "counts_only (\<lambda>_. True) (synced env req) (kar_run write r env req)"
proof -
  have got: "ensures uncounted (\<lambda>got. \<exists>h. got = ee_getCluster env h req) (perform (EksGetCluster req) (\<lambda>h. ee_getCluster env h req))"
    by (rule ensures_perform) auto
  have deleted: "counts_only (\<lambda>_. True) (synced env req) (bind_eff (reconcileDeletingCluster write r env c capi eks ack)
      (\<lambda>(result, done). if \<not> done then ret (Inr result)
        else try_bind (removeCleanupFinalizer r env c) (\<lambda>_. ret (Inr no_requeue))))" for c capi eks ack
    by (rule counts_none) (auto intro!: emits_intros uncounted.deleting uncounted.patches)
  show ?thesis
    unfolding kar_run_def
    by (rule counts_bind [OF stable_True got])
      (auto split: sum.splits prod.splits intro!: counts_case_result deleted intro: counts_enabled [OF assms])
qed

text \<open>
  C18. Whatever the API server, AWS and the workload cluster answer: where a run counts a successful
  sync, it was for an enabled cluster that is not being deleted, the ACK cluster was active and told
  its account, issuer and region, and the six AWS resources are in place and fit each other. Each was
  created or updated by this run, and the API server accepted the write, or was found as the run
  would have written it, marked as the bootstrapper's for this cluster: the identity provider has
  the issuer of the ACK cluster; the controller's role trusts that provider and carries the
  controller's policy, which names the nodes' role; the instance profile carries the nodes' role, and
  the access entry admits that same role to the ACK cluster.
\<close>

theorem successful_sync_is_complete:
  fixes env :: eks_env and r :: karpenter
  assumes "kar_laws env" "0 \<le> kr_FailureBackoff r" "0 \<le> kr_SteadyStateRequeue r"
    and "RecordSuccessfulSync name time \<in> set (snd (run_state (kar_Reconcile marshal_config r env req) []))"
  shows "synced env req (snd (run_state (kar_Reconcile marshal_config r env req) []))"
proof -
  have "counts_only (\<lambda>_. True) (synced env req) (kar_Reconcile marshal_config r env req)"
    unfolding kar_Reconcile_def
    by (rule counts_then [OF counts_kar_run]) (use assms in \<open>auto intro!: emits_intros\<close>)
  then show ?thesis by (rule countsD [OF _ assms(4)]) simp
qed


section \<open>A run that succeeds\<close>

definition running_cluster :: cluster where
  "running_cluster = demo_eks_cluster\<lparr>cl_meta := (new_meta ''ns'' ''demo'')\<lparr>om_Finalizers := [karpenterCleanupFinalizer],
       om_Labels := fmap_of_list [(karpenterEnableLabelKey, karpenterEnableLabelValue), (capiClusterNameLabelKey, ''demo'')],
       om_Annotations := fmap_of_list [(RegionAnnotationKey, ''eu-west-1''), (EKSClusterNameAnnotationKey, ''demo'')]\<rparr>,
     cl_Topology := Some
       [\<lparr>tv_Name = topologyNodeSubnetIDsVariableName, tv_Raw = marshal_strings [''subnet-1'']\<rparr>,
        \<lparr>tv_Name = topologyControlPlaneSecurityGroupIDsVariableName, tv_Raw = marshal_strings [''sg-1'']\<rparr>]\<rparr>"

definition running_names :: kar_names where
  "running_names = \<lparr>kn_capi = ''demo'', kn_eks = ''demo'', kn_ack = ''demo''\<rparr>"

definition running_inputs :: kar_inputs where
  "running_inputs = \<lparr>ki_NodeSubnetIDs = [''subnet-1''], ki_ControlPlaneSecurityGroupIDs = [''sg-1''],
     ki_NodeSecurityGroupIDs = [''sg-1''], ki_HopLimit = 0\<rparr>"

definition running_status :: kar_cluster where
  "running_status = \<lparr>kc_Endpoint = ''https://eks'', kc_IssuerURL = ''https://oidc/id'', kc_AccountID = ''123'',
     kc_Region = ''eu-west-1''\<rparr>"

definition running_ack :: unstructured where
  "running_ack = (new_unstructured ackClusterGVK ''ns'' ''demo'')\<lparr>un_Object := json_object
     [(''status'', jobj [(''endpoint'', JStr ''https://eks''), (''status'', JStr ''ACTIVE''),
        (''identity'', jobj [(''oidc'', jobj [(''issuer'', JStr ''https://oidc/id'')])]),
        (''ackResourceMetadata'', jobj [(''ownerAccountID'', JStr ''123''), (''region'', JStr ''eu-west-1'')])]),
      (''spec'', jobj [(''accessConfig'', jobj [(''authenticationMode'', JStr ''API_AND_CONFIG_MAP'')])])]\<rparr>"

text \<open>The ACK cluster is there, nothing else is, and every write is accepted; Flux is not installed.\<close>

definition running_env :: eks_env where
  "running_env = demo_eks_env\<lparr>ee_getCluster := \<lambda>_ _. Inr running_cluster,
     ee_get := \<lambda>_ g k. if g = ackClusterGVK then Inr running_ack else Inl (GoError NotFound ''not found''),
     ee_restMapper := Some (\<lambda>g. g \<noteq> fluxHelmReleaseGVK),
     ee_validateSubnets := Some (\<lambda>_ _ _. Inr \<lparr>sv_SubnetsWithoutNATDefaultRoute = [], sv_DistinctAZCount = 2\<rparr>)\<rparr>"


text \<open>What a program answers and that it counts a success, whatever was called before.\<close>

definition yields :: "'a eks_eff \<Rightarrow> 'a \<Rightarrow> bool" where
  "yields m a \<longleftrightarrow> (\<forall>h. fst (run_state m h) = a)"

definition counting :: "'a eks_eff \<Rightarrow> bool" where
  "counting m \<longleftrightarrow> (\<forall>h. RecordSuccessfulSync metricControllerBootstrapper 1 \<in> set (snd (run_state m h)))"

lemma yields_ret [simp]: "yields (ret a) b \<longleftrightarrow> a = b"
  by (simp add: yields_def)

lemma yields_unit [simp]: "yields m ()"
  by (simp add: yields_def)

lemma yields_perform: "(\<And>h. f h = a) \<Longrightarrow> yields (perform c f) a"
  by (simp add: yields_def perform_def)

lemma run_bind: "run_state (bind_eff m k) h = run_state (k (fst (run_state m h))) (snd (run_state m h))"
  by (simp split: prod.split)

lemma yields_bind: "yields m a \<Longrightarrow> yields (k a) b \<Longrightarrow> yields (bind_eff m k) b"
  unfolding yields_def run_bind by simp

lemma counting_bind: "yields m a \<Longrightarrow> counting (k a) \<Longrightarrow> counting (bind_eff m k)"
  unfolding yields_def counting_def run_bind by simp

lemma counting_any: "(\<And>a. counting (k a)) \<Longrightarrow> counting (bind_eff m k)"
  unfolding counting_def run_bind by simp

lemma counting_now: "counting (bind_eff (emit (RecordSuccessfulSync metricControllerBootstrapper 1)) (\<lambda>_. ret a))"
  by (simp add: counting_def run_bind emit_def perform_def)

lemma yields_try: "yields m (Inr a) \<Longrightarrow> yields (k a) b \<Longrightarrow> yields (try_bind m k) b"
  unfolding try_bind_def by (rule yields_bind) (assumption, simp)

lemma counting_try: "yields m (Inr a) \<Longrightarrow> counting (k a) \<Longrightarrow> counting (try_bind m k)"
  unfolding try_bind_def by (rule counting_bind) (assumption, simp)

lemma running_laws: "kar_laws running_env"
  using ref_lib_laws by (simp add: kar_laws_def running_env_def demo_eks_env_def apilib_laws_def)

lemma running_env_simps [simp]:
  "ee_lib running_env = ref_lib" "ee_getCluster running_env h k = Inr running_cluster"
  "ee_patchCluster running_env h b a = Inr a" "ee_write running_env h w = Inr ()" "ee_now running_env h = 1"
  "ee_get running_env h g k = (if g = ackClusterGVK then Inr running_ack else Inl (GoError NotFound ''not found''))"
  "ee_getConfigMap running_env h k = Inl (GoError NotFound ''not found'')"
  "ee_validateSubnets running_env = Some (\<lambda>_ _ _. Inr \<lparr>sv_SubnetsWithoutNATDefaultRoute = [], sv_DistinctAZCount = 2\<rparr>)"
  "kar_isAPIAvailable running_env g \<longleftrightarrow> g \<noteq> fluxHelmReleaseGVK"
  by (simp_all add: running_env_def demo_eks_env_def kar_isAPIAvailable_def)

text \<open>An object that is not there is created.\<close>

lemma fill_fresh:
  assumes "fs \<noteq> []"
  shows "\<exists>y. own_unstructured ref_lib c (fill_object ref_lib mb region cn fs) (new_unstructured g ns name) = Inr y"
proof -
  let ?u = "mark_object mb region cn (new_unstructured g ns name)"
  have "set_spec ref_lib fs ?u = ?u\<lparr>un_Object := fmupd ''spec'' (JObj (upd_all fs fmempty)) fmempty\<rparr>"
    using set_spec_ok [of ref_lib fs ?u fmempty] ref_lib_laws assms
    by (simp add: apilib_laws_def spec_of_def new_unstructured_def)
  then have "fmlookup (un_Object (set_spec ref_lib fs ?u)) mutationErrorObjectKey = None"
    by (simp add: mutationErrorObjectKey_def)
  then show ?thesis
    by (simp add: own_unstructured_def fill_object_mark popMutationError_def ref_lib_def ref_add_owner_def)
qed

lemma running_ensure:
  assumes "g \<noteq> ackClusterGVK" "fs \<noteq> []"
  shows "yields (kar_ensure running_env c g name region fs) (Inr True)"
proof -
  obtain y where y: "own_unstructured ref_lib c (fill_object ref_lib karpenterManagedByValue region (om_Name (cl_meta c)) fs)
      (new_unstructured g (om_Namespace (cl_meta c)) name) = Inr y"
    using fill_fresh [OF assms(2)] by blast
  show ?thesis
    unfolding kar_ensure_def upsertManagedUnstructured_def upsert_managed_def eks_get_def eks_write_def Let_def
    using assms(1) y
    by (simp add: yields_def run_bind perform_def try_bind_def is_not_found_def)
qed


text \<open>What the run reads.\<close>

lemma running_reads:
  "om_DeletionTimestamp (cl_meta running_cluster) = None" "isKarpenterEnabled running_cluster"
  "resolveClusterNames running_cluster = (''demo'', ''demo'', ''demo'')"
  "om_Namespace (cl_meta running_cluster) = ''ns''"
  "kar_read_inputs running_cluster = Inr (Inr running_inputs)"
  "kar_read_ack ref_lib running_cluster ''demo'' running_ack = Inr running_status"
  "normalizeIssuerHostPath ref_lib ''https://oidc/id'' = Inr ''oidc/id''"
  by code_simp+

lemma running_topology:
  "readTopologyStringSlice running_cluster topologyNodeRoleAdditionalPolicyARNsVariableName = Inr ([], False)"
  "readTopologyStringMap running_cluster topologyNodeRoleAdditionalInlinePoliciesVariableName = Inr (fmempty, False)"
  by code_simp+

lemma running_missing: "missingAPIs (kar_isAPIAvailable running_env) (required_apis running_inputs) = []"
  unfolding missingAPIs_def filter_empty_conv running_env_simps by code_simp

lemma running_keys:
  "TrimSpace RegionAnnotationKey = RegionAnnotationKey" "TrimSpace EKSClusterNameAnnotationKey = EKSClusterNameAnnotationKey"
  "TrimSpace ''eu-west-1'' = ''eu-west-1''" "TrimSpace ''demo'' = ''demo''"
  "om_Finalizers (cl_meta running_cluster) = [cleanupFinalizer demo_karpenter]"
  "str_get (om_Labels (cl_meta running_cluster)) capiClusterNameLabelKey = ''demo''"
  "om_Name (cl_meta running_cluster) = ''demo''"
  "str_get (om_Annotations (cl_meta running_cluster)) RegionAnnotationKey = ''eu-west-1''"
  "str_get (om_Annotations (cl_meta running_cluster)) EKSClusterNameAnnotationKey = ''demo''"
  "TrimSpace (str_get (om_Annotations (cl_meta running_cluster)) karpenterInterruptionQueueAnnotation) = ''''"
  "TrimSpace (str_get (om_Annotations (cl_meta running_cluster)) karpenterHelmValuesAnnotation) = ''''"
  "TrimSpace (str_get (om_Annotations (cl_meta running_cluster)) oidcThumbprintAutoAnnotation) = ''''"
  "TrimSpace (str_get (om_Annotations (cl_meta running_cluster)) karpenterNodePoolTemplateConfigMapAnnotation) = ''''"
  "RegionAnnotationKey \<noteq> ''''" "EKSClusterNameAnnotationKey \<noteq> ''''"
  by code_simp+

lemma running_maps: "om_Labels (cl_meta running_cluster) \<noteq> fmempty" "om_Annotations (cl_meta running_cluster) \<noteq> fmempty"
  using running_keys(6,8) by auto

lemma annotation_kept: "str_get m k = v \<Longrightarrow> v \<noteq> '''' \<Longrightarrow> fmupd k v m = m"
  by (rule fmap_ext) (auto simp: str_get_def split: option.splits)

lemma running_patches:
  "yields (ensureCleanupFinalizer demo_karpenter running_env running_cluster) (Inr running_cluster)"
  "yields (ensureClusterNameLabel running_env running_cluster) (Inr running_cluster)"
  "yields (ensureClusterAnnotation running_env running_cluster RegionAnnotationKey ''eu-west-1'') (Inr (running_cluster, False))"
  "yields (ensureClusterAnnotation running_env running_cluster EKSClusterNameAnnotationKey ''demo'') (Inr (running_cluster, False))"
  by (simp_all add: ensureCleanupFinalizer_def patch_finalizers_def ensureClusterNameLabel_def ensureClusterAnnotation_def
      Let_def running_keys running_maps set_meta_def ref_lib_def annotation_kept)

lemma running_values:
  "\<exists>v. resolveKarpenterHelmValues demo_karpenter ref_lib running_cluster ''demo'' ''https://eks'' role = Inr v"
  by (simp add: resolveKarpenterHelmValues_def Let_def running_keys running_maps)

lemma running_profiles: "yields (isACKFargateProfileActive running_env ns name) (Inr False)"
proof -
  have "ackFargateProfileGVK \<noteq> ackClusterGVK" by (simp add: ackFargateProfileGVK_def ackClusterGVK_def)
  then show ?thesis
    unfolding isACKFargateProfileActive_def eks_get_def
    by (intro yields_bind [OF yields_perform]) (auto simp: is_not_found_def)
qed

lemma running_kinds:
  "ackOIDCProviderGVK \<noteq> ackClusterGVK" "ackIAMPolicyGVK \<noteq> ackClusterGVK" "ackIAMRoleGVK \<noteq> ackClusterGVK"
  "ackIAMInstanceProfileGVK \<noteq> ackClusterGVK" "ackAccessEntryGVK \<noteq> ackClusterGVK" "clusterResourceSetGVK \<noteq> ackClusterGVK"
  by code_simp+

lemma running_node_pool:
  "yields (ensureDefaultNodePoolResources running_env running_cluster capi eks profile subnets groups hops) (Inr ())"
proof -
  have map: "yields (ensure_config_map running_env running_cluster name yaml) (Inr True)" for name yaml
    unfolding ensure_config_map_def get_config_map_def eks_write_def own_config_map_def Let_def
    by (simp add: yields_def run_bind is_not_found_def try_bind_def ref_lib_def ref_add_owner_def)
  have set: "yields (ensure_resource_set running_env running_cluster capi name) (Inr ())" for name
    unfolding ensure_resource_set_def Let_def
    by (rule yields_bind [OF running_ensure]) (auto simp: running_kinds crs_fields_def intro: yields_bind)
  show ?thesis
    unfolding ensureDefaultNodePoolResources_def resolveNodePoolTemplateYAML_def Let_def running_keys if_P [OF refl]
    by (rule yields_bind [of _ "Inr yaml" for yaml], simp, simp, rule yields_bind [OF yields_try [OF map]])
      (auto intro: set)
qed

lemma counting_first:
  assumes "counting m" "\<And>a. emits (\<lambda>_. True) (k a)"
  shows "counting (bind_eff m k)"
  unfolding counting_def run_bind
proof
  fix h
  obtain t where "snd (run_state (k (fst (run_state m h))) (snd (run_state m h))) = snd (run_state m h) @ t"
    using assms(2) unfolding emits_def by blast
  then show "RecordSuccessfulSync metricControllerBootstrapper 1
      \<in> set (snd (run_state (k (fst (run_state m h))) (snd (run_state m h))))"
    using assms(1) by (simp add: counting_def)
qed

lemma running_step:
  "yields ensure (Inr True) \<Longrightarrow> counting rest \<Longrightarrow> counting (kar_step r env c kind what name ensure rest)"
  unfolding kar_step_def by (rule counting_try, assumption, simp)

lemma running_finish: "counting (kar_finish r running_env c n x y z d)"
  unfolding kar_finish_def kar_now_def Let_def
  by (rule counting_any, rule counting_any, rule counting_bind [OF yields_perform], simp, rule counting_now)

lemma running_deliver: "counting (kar_deliver demo_karpenter running_env running_cluster running_names running_inputs running_status groups d)"
proof -
  have no_flux: "\<not> areAPIsAvailable running_env [fluxOCIRepositoryGVK, fluxHelmReleaseGVK]"
    by (simp add: areAPIsAvailable_def)
  have pool: "counting (kar_node_pool demo_karpenter running_env running_cluster running_names running_inputs groups
      (kar_finish demo_karpenter running_env running_cluster running_names x y z d'))" for x y z d'
    unfolding kar_node_pool_def using running_finish
    by (auto intro!: counting_bind [OF running_node_pool])
  obtain v where v: "resolveKarpenterHelmValues demo_karpenter ref_lib running_cluster ''demo'' ''https://eks''
      (iam_role_arn (kc_AccountID running_status) (controller_role_aws_name running_names)) = Inr v"
    using running_values by blast
  show ?thesis
    unfolding kar_deliver_def kar_flux_def Let_def if_P [OF no_flux]
    by (rule counting_try [OF running_profiles], rule counting_try [OF running_profiles], rule counting_any)
      (use v in \<open>auto simp: running_names_def running_status_def intro!: counting_try [of "ret (Inr x)" x for x] pool [unfolded running_names_def]\<close>)
qed

lemma running_resources:
  assumes "counting rest"
  shows "counting (kar_resources demo_karpenter running_env running_cluster running_names running_status host ts rest)"
  unfolding kar_resources_def kar_node_role_def kar_resource_defs Let_def running_topology
  by (simp add: assms running_step running_ensure running_kinds oidc_fields_def)

lemma running_bootstrap:
  "counting (kar_bootstrap demo_karpenter running_env running_cluster running_names running_inputs running_status)"
proof -
  have "yields (resolveOIDCThumbprints running_env running_cluster url) (Inr [])" for url
    unfolding resolveOIDCThumbprints_def Let_def running_keys by (simp add: EqualFold_def ToLower_def)
  then show ?thesis
    unfolding kar_bootstrap_def kar_security_group_def kar_thumbprints_def Let_def
    by (intro counting_any) (auto simp: running_inputs_def running_status_def running_reads
      intro!: counting_bind running_resources [unfolded running_status_def] running_deliver [unfolded running_status_def running_inputs_def])
qed

lemma running_subnets:
  "counting (kar_subnets demo_karpenter running_env running_cluster running_names running_inputs running_status)"
proof -
  have valid: "yields (kar_validateFargateSubnets running_env region ids)
      (Inr \<lparr>sv_SubnetsWithoutNATDefaultRoute = [], sv_DistinctAZCount = 2\<rparr>)" for region ids
    by (simp add: kar_validateFargateSubnets_def yields_def)
  have region: "yields (ensureClusterAnnotation running_env running_cluster RegionAnnotationKey (kc_Region running_status))
      (Inr (running_cluster, False))"
    and name: "yields (ensureClusterAnnotation running_env running_cluster EKSClusterNameAnnotationKey (kn_eks running_names))
      (Inr (running_cluster, False))"
    using running_patches(3,4) by (simp_all add: running_status_def running_names_def)
  show ?thesis
    unfolding kar_subnets_def
    by (rule counting_try [OF region], simp, rule counting_try [OF name], simp, rule counting_bind [OF valid], simp)
      (intro counting_any running_bootstrap)
qed

lemma running_enabled: "counting (kar_enabled demo_karpenter running_env running_cluster running_names)"
proof -
  have got: "yields (eks_get running_env ackClusterGVK k) (Inr running_ack)" for k
    unfolding eks_get_def by (rule yields_perform) simp
  have ack: "kar_read_ack ref_lib running_cluster (kn_ack running_names) running_ack = Inr running_status"
    by (simp add: running_names_def running_reads)
  show ?thesis
    unfolding kar_enabled_def Let_def
    by (rule counting_try [OF running_patches(1)], rule counting_try [OF running_patches(2)])
      (simp add: running_reads running_missing ack running_subnets counting_bind [OF got])
qed

lemma running_counts: "counting (kar_Reconcile write demo_karpenter running_env req)"
proof -
  have "counting (kar_run write demo_karpenter running_env req)"
    unfolding kar_run_def
    by (rule counting_bind [OF yields_perform], simp)
      (simp add: running_reads running_enabled [unfolded running_names_def])
  then show ?thesis
    unfolding kar_Reconcile_def by (rule counting_first) (auto intro!: emits_intros)
qed

theorem successful_sync_is_complete_witness:
  "synced running_env (object_key ''ns'' ''demo'')
     (snd (run_state (kar_Reconcile (\<lambda>_. Inr '''') demo_karpenter running_env (object_key ''ns'' ''demo'')) []))"
proof (rule successful_sync_is_complete [OF running_laws])
  show "RecordSuccessfulSync metricControllerBootstrapper 1 \<in>
      set (snd (run_state (kar_Reconcile (\<lambda>_. Inr '''') demo_karpenter running_env (object_key ''ns'' ''demo'')) []))"
    using running_counts by (simp add: counting_def)
qed (simp_all add: demo_karpenter_def)

end
