(* ===== verification/GoHeap.thy ===== *)
theory GoHeap
  imports Prelude
begin

text \<open>
  Memory with pointers and slices, and what it is to copy a value deeply: the copy reads as the
  original does, and nothing that is reachable from it was reachable before. A type of the program
  is described by what is valid, reachable and read in a value of it (\<open>go_type\<close>);
  pointers, slices and structs are built from the types they hold, and so are their copies.
\<close>

section \<open>Memory\<close>

text \<open>Addresses are given out in order; \<open>'c\<close> is what a cell holds.\<close>

type_synonym addr = nat

record 'c heap =
  hp_next :: addr
  hp_cells :: "addr \<Rightarrow> 'c option"

definition alloc :: "'c \<Rightarrow> 'c heap \<Rightarrow> addr \<times> 'c heap" where
  "alloc c h = (hp_next h, h\<lparr>hp_next := Suc (hp_next h), hp_cells := (hp_cells h)(hp_next h := Some c)\<rparr>)"

definition store :: "addr \<Rightarrow> 'c \<Rightarrow> 'c heap \<Rightarrow> 'c heap" where
  "store a c h = h\<lparr>hp_cells := (hp_cells h)(a := Some c)\<rparr>"

text \<open>Memory in which something was added and nothing changed.\<close>

definition grows :: "'c heap \<Rightarrow> 'c heap \<Rightarrow> bool" where
  "grows h h' \<longleftrightarrow> hp_next h \<le> hp_next h' \<and> (\<forall>a < hp_next h. hp_cells h' a = hp_cells h a)"

lemma grows_refl [simp]: "grows h h"
  by (simp add: grows_def)

lemma grows_trans: "grows h h1 \<Longrightarrow> grows h1 h2 \<Longrightarrow> grows h h2"
  by (simp add: grows_def)

lemma grows_alloc: "alloc c h = (a, h') \<Longrightarrow> grows h h'"
  by (auto simp: alloc_def grows_def)

lemma grows_store: "grows h h' \<Longrightarrow> hp_next h \<le> a \<Longrightarrow> grows h (store a c h')"
  by (auto simp: grows_def store_def)

section \<open>Types\<close>

text \<open>What a value reads as when its pointers are followed.\<close>

datatype 'v tree = Atom 'v | Nil_tree | Node "'v tree list"

record ('c, 'v, 'a) go_type =
  gt_valid :: "'c heap \<Rightarrow> 'a \<Rightarrow> bool"
  gt_foot :: "'c heap \<Rightarrow> 'a \<Rightarrow> addr set"
  gt_view :: "'c heap \<Rightarrow> 'a \<Rightarrow> 'v tree"

text \<open>What can be reached is allocated, and validity and reading depend on nothing else.\<close>

definition go_type_ok :: "('c, 'v, 'a) go_type \<Rightarrow> bool" where
  "go_type_ok T \<longleftrightarrow>
     (\<forall>h x. gt_valid T h x \<longrightarrow> gt_foot T h x \<subseteq> {..< hp_next h} \<and>
        (\<forall>h'. hp_next h \<le> hp_next h' \<and> (\<forall>a \<in> gt_foot T h x. hp_cells h' a = hp_cells h a) \<longrightarrow>
           gt_valid T h' x \<and> gt_foot T h' x = gt_foot T h x \<and> gt_view T h' x = gt_view T h x))"

lemma go_type_frame:
  assumes "go_type_ok T" "gt_valid T h x" "hp_next h \<le> hp_next h'"
    "\<And>a. a \<in> gt_foot T h x \<Longrightarrow> hp_cells h' a = hp_cells h a"
  shows "gt_valid T h' x" "gt_foot T h' x = gt_foot T h x" "gt_view T h' x = gt_view T h x"
  using assms unfolding go_type_ok_def by blast+

lemma go_type_foot: "go_type_ok T \<Longrightarrow> gt_valid T h x \<Longrightarrow> a \<in> gt_foot T h x \<Longrightarrow> a < hp_next h"
  unfolding go_type_ok_def by blast

lemma go_type_grows:
  assumes "go_type_ok T" "gt_valid T h x" "grows h h'"
  shows "gt_valid T h' x" "gt_foot T h' x = gt_foot T h x" "gt_view T h' x = gt_view T h x"
  using go_type_frame [OF assms(1,2), of h'] go_type_foot [OF assms(1,2)] assms(3) by (auto simp: grows_def)

definition plain_type :: "('a \<Rightarrow> 'v) \<Rightarrow> ('c, 'v, 'a) go_type" where
  "plain_type f = \<lparr>gt_valid = (\<lambda>_ _. True), gt_foot = (\<lambda>_ _. {}), gt_view = (\<lambda>_ x. Atom (f x))\<rparr>"

text \<open>A pointer; \<open>get\<close> reads a cell of the type it points to.\<close>

definition load :: "('c \<Rightarrow> 'a option) \<Rightarrow> 'c heap \<Rightarrow> addr \<Rightarrow> 'a option" where
  "load get h a = Option.bind (hp_cells h a) get"

definition pointer_type :: "('c \<Rightarrow> 'a option) \<Rightarrow> ('c, 'v, 'a) go_type \<Rightarrow> ('c, 'v, addr option) go_type" where
  "pointer_type get T =
     \<lparr>gt_valid = (\<lambda>h p. case p of None \<Rightarrow> True | Some a \<Rightarrow> a < hp_next h \<and>
        (case load get h a of None \<Rightarrow> False | Some v \<Rightarrow> gt_valid T h v)),
      gt_foot = (\<lambda>h p. case p of None \<Rightarrow> {} | Some a \<Rightarrow> insert a
        (case load get h a of None \<Rightarrow> {} | Some v \<Rightarrow> gt_foot T h v)),
      gt_view = (\<lambda>h p. case p of None \<Rightarrow> Nil_tree | Some a \<Rightarrow>
        (case load get h a of None \<Rightarrow> Nil_tree | Some v \<Rightarrow> Node [gt_view T h v]))\<rparr>"

text \<open>A slice: a part of an array.\<close>

record slice =
  sl_array :: addr
  sl_offset :: nat
  sl_length :: nat

definition elements :: "('c \<Rightarrow> 'a list option) \<Rightarrow> 'c heap \<Rightarrow> slice \<Rightarrow> 'a list option" where
  "elements get h s = map_option (\<lambda>xs. take (sl_length s) (drop (sl_offset s) xs)) (load get h (sl_array s))"

definition slice_type :: "('c \<Rightarrow> 'a list option) \<Rightarrow> ('c, 'v, 'a) go_type \<Rightarrow> ('c, 'v, slice option) go_type" where
  "slice_type get T =
     \<lparr>gt_valid = (\<lambda>h p. case p of None \<Rightarrow> True | Some s \<Rightarrow> sl_array s < hp_next h \<and>
        (case elements get h s of None \<Rightarrow> False
         | Some xs \<Rightarrow> length xs = sl_length s \<and> list_all (gt_valid T h) xs)),
      gt_foot = (\<lambda>h p. case p of None \<Rightarrow> {} | Some s \<Rightarrow> insert (sl_array s)
        (case elements get h s of None \<Rightarrow> {} | Some xs \<Rightarrow> \<Union>x \<in> set xs. gt_foot T h x)),
      gt_view = (\<lambda>h p. case p of None \<Rightarrow> Nil_tree | Some s \<Rightarrow>
        (case elements get h s of None \<Rightarrow> Nil_tree | Some xs \<Rightarrow> Node (map (gt_view T h) xs)))\<rparr>"

text \<open>A struct, as its fields.\<close>

definition field :: "('s \<Rightarrow> 'a) \<Rightarrow> ('c, 'v, 'a) go_type \<Rightarrow> ('c, 'v, 's) go_type" where
  "field sel T = \<lparr>gt_valid = (\<lambda>h x. gt_valid T h (sel x)), gt_foot = (\<lambda>h x. gt_foot T h (sel x)),
     gt_view = (\<lambda>h x. gt_view T h (sel x))\<rparr>"

definition struct_type :: "('c, 'v, 's) go_type list \<Rightarrow> ('c, 'v, 's) go_type" where
  "struct_type Fs =
     \<lparr>gt_valid = (\<lambda>h x. list_all (\<lambda>F. gt_valid F h x) Fs), gt_foot = (\<lambda>h x. \<Union>F \<in> set Fs. gt_foot F h x),
      gt_view = (\<lambda>h x. Node (map (\<lambda>F. gt_view F h x) Fs))\<rparr>"

lemma load_same: "hp_cells h' a = hp_cells h a \<Longrightarrow> load get h' a = load get h a"
  by (simp add: load_def)

lemma plain_type_ok: "go_type_ok (plain_type f)"
  by (simp add: go_type_ok_def plain_type_def)

lemma field_simps [simp]:
  "gt_valid (field sel T) h x = gt_valid T h (sel x)" "gt_foot (field sel T) h x = gt_foot T h (sel x)"
  "gt_view (field sel T) h x = gt_view T h (sel x)"
  by (simp_all add: field_def)

lemma go_type_okI:
  assumes "\<And>h x a. gt_valid T h x \<Longrightarrow> a \<in> gt_foot T h x \<Longrightarrow> a < hp_next h"
    and "\<And>h x h'. gt_valid T h x \<Longrightarrow> hp_next h \<le> hp_next h' \<Longrightarrow> \<forall>a \<in> gt_foot T h x. hp_cells h' a = hp_cells h a \<Longrightarrow>
      gt_valid T h' x \<and> gt_foot T h' x = gt_foot T h x \<and> gt_view T h' x = gt_view T h x"
  shows "go_type_ok T"
  unfolding go_type_ok_def using assms by blast

lemma field_ok:
  assumes "go_type_ok T"
  shows "go_type_ok (field sel T)"
proof (rule go_type_okI, unfold field_simps, goal_cases)
  case (1 h x a)
  then show ?case by (rule go_type_foot [OF assms])
next
  case (2 h x h')
  then show ?case using go_type_frame [OF assms 2(1,2)] by blast
qed

lemma struct_type_ok:
  fixes Fs :: "('c, 'v, 's) go_type list"
  assumes "\<And>F. F \<in> set Fs \<Longrightarrow> go_type_ok F"
  shows "go_type_ok (struct_type Fs)"
proof (rule go_type_okI)
  fix h x a assume "gt_valid (struct_type Fs) h x" "a \<in> gt_foot (struct_type Fs) h x"
  then show "a < hp_next h"
    using go_type_foot [OF assms] by (auto simp: struct_type_def list_all_iff)
next
  fix h x and h' :: "'c heap"
  assume valid: "gt_valid (struct_type Fs) h x" and nx: "hp_next h \<le> hp_next h'"
    and same: "\<forall>a \<in> gt_foot (struct_type Fs) h x. hp_cells h' a = hp_cells h a"
  have "gt_valid F h' x \<and> gt_foot F h' x = gt_foot F h x \<and> gt_view F h' x = gt_view F h x" if F: "F \<in> set Fs" for F
    using go_type_frame [OF assms [OF F] _ nx, of x] valid same F by (auto simp: struct_type_def list_all_iff)
  then show "gt_valid (struct_type Fs) h' x \<and> gt_foot (struct_type Fs) h' x = gt_foot (struct_type Fs) h x \<and>
      gt_view (struct_type Fs) h' x = gt_view (struct_type Fs) h x"
    by (simp add: struct_type_def list_all_iff)
qed

lemma pointer_type_ok:
  fixes T :: "('c, 'v, 'a) go_type"
  assumes "go_type_ok T"
  shows "go_type_ok (pointer_type get T)"
proof (rule go_type_okI)
  fix h p a assume "gt_valid (pointer_type get T) h p" "a \<in> gt_foot (pointer_type get T) h p"
  then show "a < hp_next h"
    using go_type_foot [OF assms] by (auto simp: pointer_type_def split: option.splits)
next
  fix h p and h' :: "'c heap"
  assume valid: "gt_valid (pointer_type get T) h p" and nx: "hp_next h \<le> hp_next h'"
    and same: "\<forall>a \<in> gt_foot (pointer_type get T) h p. hp_cells h' a = hp_cells h a"
  show "gt_valid (pointer_type get T) h' p \<and> gt_foot (pointer_type get T) h' p = gt_foot (pointer_type get T) h p \<and>
      gt_view (pointer_type get T) h' p = gt_view (pointer_type get T) h p"
  proof (cases p)
    case None
    then show ?thesis by (simp add: pointer_type_def)
  next
    case (Some a)
    then obtain v where v: "a < hp_next h" "load get h a = Some v" "gt_valid T h v"
      using valid by (auto simp: pointer_type_def split: option.splits)
    then have "load get h' a = Some v" using same Some by (simp add: pointer_type_def load_def)
    then show ?thesis
      using go_type_frame [OF assms v(3) nx] same v nx Some by (simp add: pointer_type_def)
  qed
qed

lemma slice_type_ok:
  fixes T :: "('c, 'v, 'a) go_type"
  assumes "go_type_ok T"
  shows "go_type_ok (slice_type get T)"
proof (rule go_type_okI)
  fix h p a assume "gt_valid (slice_type get T) h p" "a \<in> gt_foot (slice_type get T) h p"
  then show "a < hp_next h"
    using go_type_foot [OF assms] by (auto simp: slice_type_def list_all_iff split: option.splits)
next
  fix h p and h' :: "'c heap"
  assume valid: "gt_valid (slice_type get T) h p" and nx: "hp_next h \<le> hp_next h'"
    and same: "\<forall>a \<in> gt_foot (slice_type get T) h p. hp_cells h' a = hp_cells h a"
  show "gt_valid (slice_type get T) h' p \<and> gt_foot (slice_type get T) h' p = gt_foot (slice_type get T) h p \<and>
      gt_view (slice_type get T) h' p = gt_view (slice_type get T) h p"
  proof (cases p)
    case None
    then show ?thesis by (simp add: slice_type_def)
  next
    case (Some s)
    then obtain xs where xs: "sl_array s < hp_next h" "elements get h s = Some xs" "length xs = sl_length s"
      "\<And>x. x \<in> set xs \<Longrightarrow> gt_valid T h x"
      using valid by (auto simp: slice_type_def list_all_iff split: option.splits)
    then have "elements get h' s = Some xs" using same Some by (simp add: slice_type_def elements_def load_def)
    moreover have "gt_valid T h' x \<and> gt_foot T h' x = gt_foot T h x \<and> gt_view T h' x = gt_view T h x" if "x \<in> set xs" for x
      using go_type_frame [OF assms xs(4) [OF that] nx] same xs(2) that Some by (simp add: slice_type_def)
    ultimately show ?thesis using xs nx Some by (simp add: slice_type_def list_all_iff)
  qed
qed

section \<open>Copies\<close>

type_synonym ('c, 'a) copy = "'a \<Rightarrow> 'c heap \<Rightarrow> 'a \<times> 'c heap"

text \<open>An assignment; of a struct it copies its pointers, not what they point to.\<close>

definition assign :: "('c, 'a) copy" where
  "assign x h = (x, h)"

text \<open>
  \<open>if *in != nil { *out = new(T); (*in).DeepCopyInto(*out) }\<close>. The first assignment of
  the copy of a struct, \<open>*out = *in\<close>, is what the new cell holds at first.
\<close>

definition copy_pointer :: "('a \<Rightarrow> 'c) \<Rightarrow> ('c \<Rightarrow> 'a option) \<Rightarrow> ('c, 'a) copy \<Rightarrow> ('c, addr option) copy" where
  "copy_pointer mk get copy p h =
     (case Option.bind p (load get h) of
        None \<Rightarrow> (None, h)
      | Some v \<Rightarrow>
          let (a, h1) = alloc (mk v) h; (y, h2) = copy v h1
          in (Some a, store a (mk y) h2))"

fun copy_elements :: "('c, 'a) copy \<Rightarrow> 'a list \<Rightarrow> 'c heap \<Rightarrow> 'a list \<times> 'c heap" where
  "copy_elements copy [] h = ([], h)"
| "copy_elements copy (x # xs) h =
     (let (y, h1) = copy x h; (ys, h2) = copy_elements copy xs h1 in (y # ys, h2))"

text \<open>
  \<open>if *in != nil { *out = make([]T, len(*in)); for i := range *in { (*in)[i].DeepCopyInto(&(*out)[i]) } }\<close>.
\<close>

definition copy_slice :: "('a list \<Rightarrow> 'c) \<Rightarrow> ('c \<Rightarrow> 'a list option) \<Rightarrow> ('c, 'a) copy \<Rightarrow> ('c, slice option) copy" where
  "copy_slice mk get copy p h =
     (case Option.bind p (elements get h) of
        None \<Rightarrow> (None, h)
      | Some xs \<Rightarrow>
          let (a, h1) = alloc (mk xs) h; (ys, h2) = copy_elements copy xs h1
          in (Some \<lparr>sl_array = a, sl_offset = 0, sl_length = length xs\<rparr>, store a (mk ys) h2))"

text \<open>
  The copy of a struct: \<open>*out = *in\<close>, and then its steps, each of which writes one field.
\<close>

type_synonym ('c, 's) copy_step = "'s \<Rightarrow> 's \<times> 'c heap \<Rightarrow> 's \<times> 'c heap"

definition copy_field :: "('s \<Rightarrow> 'a) \<Rightarrow> (('a \<Rightarrow> 'a) \<Rightarrow> 's \<Rightarrow> 's) \<Rightarrow> ('c, 'a) copy \<Rightarrow> ('c, 's) copy_step" where
  "copy_field sel upd copy x = (\<lambda>(out, h). let (y, h') = copy (sel x) h in (upd (\<lambda>_. y) out, h'))"

definition copy_struct :: "('c, 's) copy_step list \<Rightarrow> ('c, 's) copy" where
  "copy_struct steps x h = fold (\<lambda>step. step x) steps (x, h)"

text \<open>A deep copy: it reads as the original does, and everything that is reachable from it is new.\<close>

definition copied :: "('c, 'v, 'a) go_type \<Rightarrow> 'a \<Rightarrow> 'c heap \<Rightarrow> 'a \<Rightarrow> 'c heap \<Rightarrow> bool" where
  "copied T x h y h' \<longleftrightarrow> grows h h' \<and> gt_valid T h' y \<and> gt_view T h' y = gt_view T h x \<and>
     (\<forall>a \<in> gt_foot T h' y. hp_next h \<le> a)"

definition deep_copies :: "('c, 'v, 'a) go_type \<Rightarrow> ('c, 'a) copy \<Rightarrow> bool" where
  "deep_copies T copy \<longleftrightarrow> go_type_ok T \<and>
     (\<forall>x h y h'. gt_valid T h x \<and> copy x h = (y, h') \<longrightarrow> copied T x h y h')"

lemma deep_copiesD: "deep_copies T copy \<Longrightarrow> gt_valid T h x \<Longrightarrow> copy x h = (y, h') \<Longrightarrow> copied T x h y h'"
  unfolding deep_copies_def by blast

lemma deep_copies_ok: "deep_copies T copy \<Longrightarrow> go_type_ok T"
  unfolding deep_copies_def by blast

lemma copied_later:
  assumes "go_type_ok T" "copied T x h y h1" "grows h1 h2"
  shows "copied T x h y h2"
  using go_type_grows [OF assms(1) _ assms(3), of y] assms(2,3) grows_trans [of h h1 h2]
  unfolding copied_def by auto

lemma copied_earlier:
  assumes "go_type_ok T" "gt_valid T h x" "grows h h1" "copied T x h1 y h2"
  shows "copied T x h y h2"
  using go_type_grows [OF assms(1-3)] assms(3,4) grows_trans [of h h1 h2]
  unfolding copied_def by (auto simp: grows_def intro: order_trans)

text \<open>Writing below the copy, at an address it does not use, leaves it what it is.\<close>

lemma copied_store:
  assumes "go_type_ok T" "copied T x h1 y h2" "a < hp_next h1" "hp_next h \<le> a" "grows h h1" "gt_valid T h x"
  shows "copied T x h y (store a c h2)"
proof -
  have y: "gt_valid T h2 y" "\<And>b. b \<in> gt_foot T h2 y \<Longrightarrow> hp_next h1 \<le> b"
    using assms(2) unfolding copied_def by blast+
  have same: "hp_cells (store a c h2) b = hp_cells h2 b" if "b \<in> gt_foot T h2 y" for b
    using y(2) [OF that] assms(3) by (simp add: store_def)
  have "hp_next h2 \<le> hp_next (store a c h2)" by (simp add: store_def)
  then have frame: "gt_valid T (store a c h2) y" "gt_foot T (store a c h2) y = gt_foot T h2 y"
    "gt_view T (store a c h2) y = gt_view T h2 y"
    using go_type_frame [OF assms(1) y(1), of "store a c h2"] same by blast+
  have "copied T x h y h2" by (rule copied_earlier [OF assms(1,6,5,2)])
  then have "grows h h2" "gt_view T h2 y = gt_view T h x" "\<forall>b \<in> gt_foot T h2 y. hp_next h \<le> b"
    unfolding copied_def by blast+
  then show ?thesis
    unfolding copied_def frame(2,3) by (intro conjI frame(1) grows_store assms(4))
qed

lemma assign_copies: "deep_copies (plain_type f) assign"
  unfolding deep_copies_def using plain_type_ok [of f] by (auto simp: copied_def assign_def plain_type_def)

lemma load_alloc: "alloc c h = (a, h') \<Longrightarrow> a = hp_next h \<and> hp_next h' = Suc a"
  by (auto simp: alloc_def)

lemma load_store [simp]: "load get (store a c h) a = get c"
  by (simp add: load_def store_def)

lemma next_store [simp]: "hp_next (store a c h) = hp_next h"
  by (simp add: store_def)

lemma pointer_copies:
  assumes "deep_copies T copy" "\<And>v. get (mk v) = Some v"
  shows "deep_copies (pointer_type get T) (copy_pointer mk get copy)"
  unfolding deep_copies_def
proof (intro conjI allI impI)
  show "go_type_ok (pointer_type get T)" by (rule pointer_type_ok [OF deep_copies_ok [OF assms(1)]])
next
  fix p h q h' assume *: "gt_valid (pointer_type get T) h p \<and> copy_pointer mk get copy p h = (q, h')"
  show "copied (pointer_type get T) p h q h'"
  proof (cases p)
    case None
    then show ?thesis using * by (simp add: copied_def pointer_type_def copy_pointer_def)
  next
    case (Some b)
    then obtain v where v: "load get h b = Some v" "gt_valid T h v"
      using * by (auto simp: pointer_type_def split: option.splits)
    obtain a h1 where a: "alloc (mk v) h = (a, h1)" by fastforce
    obtain y h2 where y: "copy v h1 = (y, h2)" by fastforce
    have q: "q = Some a" "h' = store a (mk y) h2"
      using * Some v(1) a y by (simp_all add: copy_pointer_def)
    note a' = load_alloc [OF a] and g = grows_alloc [OF a]
    have "copied T v h1 y h2"
      using deep_copiesD [OF assms(1) _ y] go_type_grows(1) [OF deep_copies_ok [OF assms(1)] v(2) g] by blast
    from copied_store [OF deep_copies_ok [OF assms(1)] this _ _ g v(2), of a "mk y"]
    have y': "copied T v h y h'" using a' q(2) by simp
    have "hp_next h \<le> a \<and> a < hp_next h'"
      using a' \<open>copied T v h1 y h2\<close> q(2) by (auto simp: copied_def grows_def)
    then show ?thesis
      using y' v Some q assms(2) by (auto simp: copied_def pointer_type_def)
  qed
qed

lemma elements_copied:
  assumes "deep_copies T copy"
  shows "list_all (gt_valid T h) xs \<Longrightarrow> copy_elements copy xs h = (ys, h') \<Longrightarrow>
    grows h h' \<and> list_all2 (\<lambda>x y. copied T x h y h') xs ys"
proof (induction xs arbitrary: h ys)
  case Nil
  then show ?case by simp
next
  case (Cons x xs)
  note ok = deep_copies_ok [OF assms]
  obtain y h1 where y: "copy x h = (y, h1)" by fastforce
  obtain zs where zs: "copy_elements copy xs h1 = (zs, h')" "ys = y # zs"
    using Cons.prems(2) y by (auto split: prod.splits)
  have 1: "copied T x h y h1" using deep_copiesD [OF assms _ y] Cons.prems(1) by simp
  then have g: "grows h h1" by (simp add: copied_def)
  have valid: "gt_valid T h z" if "z \<in> set xs" for z using Cons.prems(1) that by (simp add: list_all_iff)
  have rest: "grows h1 h' \<and> list_all2 (\<lambda>x y. copied T x h1 y h') xs zs"
    using Cons.IH [OF _ zs(1)] go_type_grows(1) [OF ok valid g] by (simp add: list_all_iff)
  then have "list_all2 (\<lambda>x y. copied T x h y h') xs zs"
    using copied_earlier [OF ok valid g] by (auto simp: list_all2_conv_all_nth)
  then show ?case
    using copied_later [OF ok 1] rest grows_trans [OF g] zs(2) by simp
qed

lemma slice_copies:
  assumes "deep_copies T copy" "\<And>v. get (mk v) = Some v"
  shows "deep_copies (slice_type get T) (copy_slice mk get copy)"
  unfolding deep_copies_def
proof (intro conjI allI impI)
  show "go_type_ok (slice_type get T)" by (rule slice_type_ok [OF deep_copies_ok [OF assms(1)]])
next
  note ok = deep_copies_ok [OF assms(1)]
  fix p h q h' assume *: "gt_valid (slice_type get T) h p \<and> copy_slice mk get copy p h = (q, h')"
  show "copied (slice_type get T) p h q h'"
  proof (cases p)
    case None
    then show ?thesis using * by (simp add: copied_def slice_type_def copy_slice_def)
  next
    case (Some s)
    then obtain xs where xs: "elements get h s = Some xs" "list_all (gt_valid T h) xs"
      using * by (auto simp: slice_type_def split: option.splits)
    obtain a h1 where a: "alloc (mk xs) h = (a, h1)" by fastforce
    obtain ys h2 where ys: "copy_elements copy xs h1 = (ys, h2)" by fastforce
    have q: "q = Some \<lparr>sl_array = a, sl_offset = 0, sl_length = length xs\<rparr>" "h' = store a (mk ys) h2"
      using * Some xs(1) a ys by (simp_all add: copy_slice_def)
    note a' = load_alloc [OF a] and g = grows_alloc [OF a]
    have valid: "gt_valid T h x" if "x \<in> set xs" for x using xs(2) that by (simp add: list_all_iff)
    have all: "grows h1 h2" "list_all2 (\<lambda>x y. copied T x h1 y h2) xs ys"
      using elements_copied [OF assms(1) _ ys] go_type_grows(1) [OF ok valid g] by (simp_all add: list_all_iff)
    have copied: "list_all2 (\<lambda>x y. copied T x h y h') xs ys"
      using all(2) copied_store [OF ok _ _ _ g valid, of _ _ h2 a "mk ys"] a' q(2)
      by (auto simp: list_all2_conv_all_nth)
    then have views: "map (gt_view T h') ys = map (gt_view T h) xs" "length ys = length xs"
      by (auto simp: list_all2_conv_all_nth copied_def intro: nth_equalityI)
    have each: "gt_valid T h' y \<and> (\<forall>b \<in> gt_foot T h' y. hp_next h \<le> b)" if "y \<in> set ys" for y
      using copied that by (auto simp: list_all2_conv_all_nth in_set_conv_nth copied_def)
    have "grows h h'" "hp_next h \<le> a" "a < hp_next h'"
      using grows_store [OF grows_trans [OF g all(1)], of a "mk ys"] a' all(1) q(2) by (auto simp: grows_def)
    moreover have "elements get h' \<lparr>sl_array = a, sl_offset = 0, sl_length = length xs\<rparr> = Some ys"
      using views(2) assms(2) q(2) by (simp add: elements_def)
    ultimately show ?thesis
      using xs Some q(1) views each by (auto simp: copied_def slice_type_def list_all_iff)
  qed
qed

section \<open>Structs\<close>

text \<open>A step that makes a deep copy of one field, and one that leaves a field alone.\<close>

definition step_copies :: "('c, 'v, 's) go_type \<Rightarrow> ('c, 's) copy_step \<Rightarrow> bool" where
  "step_copies F step \<longleftrightarrow> go_type_ok F \<and>
     (\<forall>x y h y' h'. gt_valid F h x \<and> step x (y, h) = (y', h') \<longrightarrow> copied F x h y' h')"

definition keeps :: "('c, 'v, 's) go_type \<Rightarrow> ('c, 's) copy_step \<Rightarrow> bool" where
  "keeps G step \<longleftrightarrow>
     (\<forall>x y h y' h'. step x (y, h) = (y', h') \<longrightarrow>
        (\<forall>k. gt_valid G k y' = gt_valid G k y \<and> gt_foot G k y' = gt_foot G k y \<and> gt_view G k y' = gt_view G k y))"

text \<open>Each field has its step, which leaves the other fields alone; the others are plain.\<close>

definition plain :: "('c, 'v, 's) go_type \<Rightarrow> bool" where
  "plain G \<longleftrightarrow> (\<forall>h h' x. gt_valid G h x \<and> gt_foot G h x = {} \<and> gt_view G h' x = gt_view G h x)"

fun fields_copied :: "('c, 'v, 's) go_type list \<Rightarrow> ('c, 's) copy_step list \<Rightarrow> ('c, 'v, 's) go_type list \<Rightarrow> bool" where
  "fields_copied [] [] Gs \<longleftrightarrow> list_all plain Gs"
| "fields_copied (F # Fs) (s # ss) Gs \<longleftrightarrow>
     step_copies F s \<and> list_all (\<lambda>G. keeps G s) (Fs @ Gs) \<and> list_all (keeps F) ss \<and> fields_copied Fs ss Gs"
| "fields_copied _ _ Gs \<longleftrightarrow> False"

lemma field_step:
  assumes "deep_copies T copy" "\<And>f s. sel (upd f s) = f (sel s)"
  shows "step_copies (field sel T) (copy_field sel upd copy)"
  unfolding step_copies_def
  using field_ok [OF deep_copies_ok [OF assms(1)]] deep_copiesD [OF assms(1)] assms(2)
  by (auto simp: copy_field_def copied_def split: prod.splits)

lemma field_keeps:
  "(\<And>f s. sel' (upd f s) = sel' s) \<Longrightarrow> keeps (field sel' T) (copy_field sel upd copy)"
  unfolding keeps_def by (auto simp: copy_field_def split: prod.splits)

lemma field_plain: "plain (field sel (plain_type f))"
  by (simp add: plain_def plain_type_def)

lemma keeps_fold:
  assumes "list_all (keeps G) ss" "fold (\<lambda>s. s x) ss (y, h) = (y', h')"
  shows "gt_valid G k y' = gt_valid G k y \<and> gt_foot G k y' = gt_foot G k y \<and> gt_view G k y' = gt_view G k y"
  using assms
proof (induction ss arbitrary: y h)
  case Nil
  then show ?case by simp
next
  case (Cons s ss)
  obtain y1 h1 where s: "s x (y, h) = (y1, h1)" by fastforce
  then have "gt_valid G k y1 = gt_valid G k y \<and> gt_foot G k y1 = gt_foot G k y \<and> gt_view G k y1 = gt_view G k y"
    using Cons.prems(1) unfolding list_all_iff keeps_def by (meson list.set_intros(1))
  then show ?case using Cons.IH [of y1 h1] Cons.prems s by simp
qed

lemma fields_copied_ok:
  "fields_copied Fs ss Gs \<Longrightarrow> F \<in> set Fs \<Longrightarrow> go_type_ok F"
  by (induction Fs ss Gs rule: fields_copied.induct) (auto simp: step_copies_def)

lemma fields_copied_plain:
  "fields_copied Fs ss Gs \<Longrightarrow> G \<in> set Gs \<Longrightarrow> plain G \<and> list_all (keeps G) ss"
  by (induction Fs ss Gs rule: fields_copied.induct) (auto simp: list_all_iff)

lemma copied_kept:
  assumes "copied F x h y h'" "\<And>k. gt_valid F k y' = gt_valid F k y \<and> gt_foot F k y' = gt_foot F k y \<and> gt_view F k y' = gt_view F k y"
  shows "copied F x h y' h'"
  using assms unfolding copied_def by simp

lemma plain_ok: "plain G \<Longrightarrow> go_type_ok G"
  unfolding plain_def go_type_ok_def by blast

lemma steps_copied:
  assumes "fields_copied Fs ss Gs" "\<And>F. F \<in> set Fs \<Longrightarrow> gt_valid F h x" "fold (\<lambda>s. s x) ss (y, h) = (y', h')"
  shows "grows h h' \<and> (\<forall>F \<in> set Fs. copied F x h y' h')"
  using assms
proof (induction Fs ss Gs arbitrary: y h rule: fields_copied.induct)
  case (2 F Fs s ss Gs)
  obtain y1 h1 where s: "s x (y, h) = (y1, h1)" by fastforce
  have F: "copied F x h y1 h1" using 2(2,3) s unfolding fields_copied.simps step_copies_def by force
  then have g: "grows h h1" by (simp add: copied_def)
  have rest: "fields_copied Fs ss Gs" using 2(2) by simp
  have valid: "gt_valid E h1 x" if "E \<in> set Fs" for E
    using go_type_grows(1) [OF fields_copied_ok [OF rest that] _ g] 2(3) that by simp
  have later: "grows h1 h' \<and> (\<forall>E \<in> set Fs. copied E x h1 y' h')"
    using 2(1) [OF rest valid, of y1] 2(4) s by simp
  have "copied F x h y' h1"
    using copied_kept [OF F] keeps_fold [of F ss x y1 h1 y' h'] 2(2,4) s by simp
  then have "copied F x h y' h'"
    using copied_later later fields_copied_ok [OF 2(2), of F] by force
  then show ?case
    using later g grows_trans [OF g] copied_earlier [OF fields_copied_ok [OF 2(2)] 2(3) g] by auto
qed auto

lemma struct_copies:
  assumes "fields_copied Fs ss Gs"
  shows "deep_copies (struct_type (Fs @ Gs)) (copy_struct ss)"
  unfolding deep_copies_def
proof (intro conjI allI impI)
  show "go_type_ok (struct_type (Fs @ Gs))"
    using fields_copied_ok [OF assms] fields_copied_plain [OF assms] plain_ok
    by (intro struct_type_ok) auto
next
  fix x h y h' assume *: "gt_valid (struct_type (Fs @ Gs)) h x \<and> copy_struct ss x h = (y, h')"
  then have fold: "fold (\<lambda>s. s x) ss (x, h) = (y, h')" by (simp add: copy_struct_def)
  have valid: "gt_valid F h x" if "F \<in> set Fs" for F using * that by (simp add: struct_type_def list_all_iff)
  note all = steps_copied [OF assms valid fold]
  have "gt_valid G h' y \<and> gt_foot G h' y = {} \<and> gt_view G h' y = gt_view G h x" if "G \<in> set Gs" for G
    using fields_copied_plain [OF assms that] keeps_fold [OF _ fold, of G h'] unfolding plain_def by metis
  then show "copied (struct_type (Fs @ Gs)) x h y h'"
    using all unfolding copied_def struct_type_def by (auto simp: list_all_iff)
qed

text \<open>For a struct of plain fields the assignment is a deep copy.\<close>

lemma assign_struct_copies: "list_all plain Gs \<Longrightarrow> deep_copies (struct_type Gs) assign"
  using struct_copies [of "[]" "[]" Gs] by (simp add: copy_struct_def [abs_def] assign_def [abs_def])

section \<open>Independence\<close>

text \<open>
  The original is untouched and shares no cell with the copy, so that no write through the one is
  seen through the other.
\<close>

lemma copies_independent:
  assumes "deep_copies T copy" "gt_valid T h x" "copy x h = (y, h')"
  shows "gt_view T h' y = gt_view T h x" "gt_view T h' x = gt_view T h x" "gt_foot T h' x \<inter> gt_foot T h' y = {}"
    and "a \<in> gt_foot T h' y \<Longrightarrow> gt_view T (store a c h') x = gt_view T h x"
    and "a \<in> gt_foot T h' x \<Longrightarrow> gt_view T (store a c h') y = gt_view T h x"
proof -
  note ok = deep_copies_ok [OF assms(1)]
  have copied: "copied T x h y h'" by (rule deep_copiesD [OF assms])
  then have g: "grows h h'" and view: "gt_view T h' y = gt_view T h x" and valid: "gt_valid T h' y"
    and new: "\<And>a. a \<in> gt_foot T h' y \<Longrightarrow> hp_next h \<le> a"
    by (auto simp: copied_def)
  note same = go_type_grows [OF ok assms(2) g]
  have old: "a < hp_next h" if "a \<in> gt_foot T h' x" for a
    using go_type_foot [OF ok assms(2)] that same(2) by simp
  show "gt_view T h' y = gt_view T h x" by (rule view)
  show "gt_view T h' x = gt_view T h x" by (rule same(3))
  show "gt_foot T h' x \<inter> gt_foot T h' y = {}" using old new by fastforce
  have other: "gt_view T (store a c h') z = gt_view T h' z" if "gt_valid T h' z" "a \<notin> gt_foot T h' z" for z
    by (rule go_type_frame(3) [OF ok that(1)]) (use that(2) in \<open>auto simp: store_def\<close>)
  show "a \<in> gt_foot T h' y \<Longrightarrow> gt_view T (store a c h') x = gt_view T h x"
    using other [OF same(1)] old new same(3) by fastforce
  show "a \<in> gt_foot T h' x \<Longrightarrow> gt_view T (store a c h') y = gt_view T h x"
    using other [OF valid] old new view by fastforce
qed

end
