(* ===== verification/ApiMemory.thy ===== *)
theory ApiMemory
  imports GoHeap ApiTypes
begin

text \<open>
  The API types as the code lays them out in memory, where pointers and slices are addresses: the
  structs, what a cell can hold, and the type of each struct by its fields. The values of other
  modules are a parameter, each with its \<open>DeepCopyInto\<close>, of which the law is that it copies
  deeply.
\<close>

section \<open>The structs in memory\<close>

record type_meta =
  tm_Kind :: string
  tm_APIVersion :: string

record mem_ResourceGraphDefinitionReference =
  mrr_Name :: string

record mem_Kany8sKubeadmControlPlaneMachineTemplate =
  mkm_InfrastructureRef :: contract_ref

record mem_Kany8sControlPlaneKubeadmSpec =
  mks_Replicas :: "addr option"
  mks_MachineTemplate :: mem_Kany8sKubeadmControlPlaneMachineTemplate
  mks_KubeadmConfigSpec :: "addr option"

record mem_Kany8sControlPlaneExternalBackendSpec =
  mxs_APIVersion :: string
  mxs_Kind :: string
  mxs_Spec :: "addr option"

record mem_Kany8sControlPlaneSpec =
  mcs_Replicas :: "addr option"
  mcs_Version :: string
  mcs_ResourceGraphDefinitionRef :: "addr option"
  mcs_KroSpec :: "addr option"
  mcs_Kubeadm :: "addr option"
  mcs_ExternalBackend :: "addr option"
  mcs_ControlPlaneEndpoint :: APIEndpoint

record mem_Kany8sControlPlaneInitializationStatus =
  mci_ControlPlaneInitialized :: bool

record mem_Kany8sControlPlaneStatus =
  mct_Version :: string
  mct_Initialization :: mem_Kany8sControlPlaneInitializationStatus
  mct_Conditions :: "slice option"
  mct_FailureReason :: "addr option"
  mct_FailureMessage :: "addr option"

record 'f mem_Kany8sControlPlane =
  mcp_TypeMeta :: type_meta
  mcp_ObjectMeta :: "'f"
  mcp_Spec :: mem_Kany8sControlPlaneSpec
  mcp_Status :: mem_Kany8sControlPlaneStatus

record 'f mem_Kany8sControlPlaneList =
  mcl_TypeMeta :: type_meta
  mcl_ListMeta :: "'f"
  mcl_Items :: "slice option"

record mem_Kany8sControlPlaneTemplateResourceSpec =
  mts_ResourceGraphDefinitionRef :: "addr option"
  mts_KroSpec :: "addr option"
  mts_Kubeadm :: "addr option"
  mts_ExternalBackend :: "addr option"

record 'f mem_Kany8sControlPlaneTemplateResource =
  mtr_ObjectMeta :: "'f"
  mtr_Spec :: mem_Kany8sControlPlaneTemplateResourceSpec

record 'f mem_Kany8sControlPlaneTemplateSpec =
  mtt_Template :: "'f mem_Kany8sControlPlaneTemplateResource"

record 'f mem_Kany8sControlPlaneTemplate =
  mtp_TypeMeta :: type_meta
  mtp_ObjectMeta :: "'f"
  mtp_Spec :: "'f mem_Kany8sControlPlaneTemplateSpec"

record 'f mem_Kany8sControlPlaneTemplateList =
  mtl_TypeMeta :: type_meta
  mtl_ListMeta :: "'f"
  mtl_Items :: "slice option"

record mem_Kany8sKubeadmControlPlaneSpec =
  mkc_Version :: string
  mkc_Replicas :: "addr option"
  mkc_MachineTemplate :: mem_Kany8sKubeadmControlPlaneMachineTemplate
  mkc_KubeadmConfigSpec :: "addr option"
  mkc_ControlPlaneEndpoint :: APIEndpoint

record mem_Kany8sKubeadmControlPlaneInitializationStatus =
  mki_ControlPlaneInitialized :: bool

record mem_Kany8sKubeadmControlPlaneStatus =
  mkt_Version :: string
  mkt_Initialization :: mem_Kany8sKubeadmControlPlaneInitializationStatus
  mkt_Conditions :: "slice option"
  mkt_FailureReason :: "addr option"
  mkt_FailureMessage :: "addr option"

record 'f mem_Kany8sKubeadmControlPlane =
  mkp_TypeMeta :: type_meta
  mkp_ObjectMeta :: "'f"
  mkp_Spec :: mem_Kany8sKubeadmControlPlaneSpec
  mkp_Status :: mem_Kany8sKubeadmControlPlaneStatus

record 'f mem_Kany8sKubeadmControlPlaneList =
  mkl_TypeMeta :: type_meta
  mkl_ListMeta :: "'f"
  mkl_Items :: "slice option"

record mem_infra_ResourceGraphDefinitionReference =
  mir_Name :: string

record mem_Kany8sClusterSpec =
  mis_ResourceGraphDefinitionRef :: "addr option"
  mis_KroSpec :: "addr option"

record mem_Kany8sClusterInitializationStatus =
  mii_Provisioned :: bool

record mem_Kany8sClusterStatus =
  mit_Initialization :: mem_Kany8sClusterInitializationStatus
  mit_Conditions :: "slice option"
  mit_FailureReason :: "addr option"
  mit_FailureMessage :: "addr option"

record 'f mem_Kany8sCluster =
  mic_TypeMeta :: type_meta
  mic_ObjectMeta :: "'f"
  mic_Spec :: mem_Kany8sClusterSpec
  mic_Status :: mem_Kany8sClusterStatus

record 'f mem_Kany8sClusterList =
  mil_TypeMeta :: type_meta
  mil_ListMeta :: "'f"
  mil_Items :: "slice option"

record mem_Kany8sClusterTemplateResourceSpec =
  mxr_ResourceGraphDefinitionRef :: "addr option"
  mxr_KroSpec :: "addr option"

record 'f mem_Kany8sClusterTemplateResource =
  mxc_ObjectMeta :: "'f"
  mxc_Spec :: mem_Kany8sClusterTemplateResourceSpec

record 'f mem_Kany8sClusterTemplateSpec =
  mxt_Template :: "'f mem_Kany8sClusterTemplateResource"

record 'f mem_Kany8sClusterTemplate =
  mxp_TypeMeta :: type_meta
  mxp_ObjectMeta :: "'f"
  mxp_Spec :: "'f mem_Kany8sClusterTemplateSpec"

record 'f mem_Kany8sClusterTemplateList =
  mxl_TypeMeta :: type_meta
  mxl_ListMeta :: "'f"
  mxl_Items :: "slice option"

text \<open>What a cell holds: a value of one of these types, an array, or a value of another module.\<close>

datatype 'f cell =
    CInt32 (un_CInt32: "32 word")
  | CString (un_CString: string)
  | CJSON (un_CJSON: 'f)
  | CKubeadmConfigSpec (un_CKubeadmConfigSpec: 'f)
  | CConditions (un_CConditions: "'f list")
  | COpaque (un_COpaque: 'f)
  | CResourceGraphDefinitionReference (un_CResourceGraphDefinitionReference: mem_ResourceGraphDefinitionReference)
  | CKany8sKubeadmControlPlaneMachineTemplate (un_CKany8sKubeadmControlPlaneMachineTemplate: mem_Kany8sKubeadmControlPlaneMachineTemplate)
  | CKany8sControlPlaneKubeadmSpec (un_CKany8sControlPlaneKubeadmSpec: mem_Kany8sControlPlaneKubeadmSpec)
  | CKany8sControlPlaneExternalBackendSpec (un_CKany8sControlPlaneExternalBackendSpec: mem_Kany8sControlPlaneExternalBackendSpec)
  | CKany8sControlPlaneSpec (un_CKany8sControlPlaneSpec: mem_Kany8sControlPlaneSpec)
  | CKany8sControlPlaneInitializationStatus (un_CKany8sControlPlaneInitializationStatus: mem_Kany8sControlPlaneInitializationStatus)
  | CKany8sControlPlaneStatus (un_CKany8sControlPlaneStatus: mem_Kany8sControlPlaneStatus)
  | CKany8sControlPlane (un_CKany8sControlPlane: "'f mem_Kany8sControlPlane")
  | CKany8sControlPlaneList (un_CKany8sControlPlaneList: "'f mem_Kany8sControlPlaneList")
  | CKany8sControlPlaneTemplateResourceSpec (un_CKany8sControlPlaneTemplateResourceSpec: mem_Kany8sControlPlaneTemplateResourceSpec)
  | CKany8sControlPlaneTemplateResource (un_CKany8sControlPlaneTemplateResource: "'f mem_Kany8sControlPlaneTemplateResource")
  | CKany8sControlPlaneTemplateSpec (un_CKany8sControlPlaneTemplateSpec: "'f mem_Kany8sControlPlaneTemplateSpec")
  | CKany8sControlPlaneTemplate (un_CKany8sControlPlaneTemplate: "'f mem_Kany8sControlPlaneTemplate")
  | CKany8sControlPlaneTemplateList (un_CKany8sControlPlaneTemplateList: "'f mem_Kany8sControlPlaneTemplateList")
  | CKany8sKubeadmControlPlaneSpec (un_CKany8sKubeadmControlPlaneSpec: mem_Kany8sKubeadmControlPlaneSpec)
  | CKany8sKubeadmControlPlaneInitializationStatus (un_CKany8sKubeadmControlPlaneInitializationStatus: mem_Kany8sKubeadmControlPlaneInitializationStatus)
  | CKany8sKubeadmControlPlaneStatus (un_CKany8sKubeadmControlPlaneStatus: mem_Kany8sKubeadmControlPlaneStatus)
  | CKany8sKubeadmControlPlane (un_CKany8sKubeadmControlPlane: "'f mem_Kany8sKubeadmControlPlane")
  | CKany8sKubeadmControlPlaneList (un_CKany8sKubeadmControlPlaneList: "'f mem_Kany8sKubeadmControlPlaneList")
  | Cinfra_ResourceGraphDefinitionReference (un_Cinfra_ResourceGraphDefinitionReference: mem_infra_ResourceGraphDefinitionReference)
  | CKany8sClusterSpec (un_CKany8sClusterSpec: mem_Kany8sClusterSpec)
  | CKany8sClusterInitializationStatus (un_CKany8sClusterInitializationStatus: mem_Kany8sClusterInitializationStatus)
  | CKany8sClusterStatus (un_CKany8sClusterStatus: mem_Kany8sClusterStatus)
  | CKany8sCluster (un_CKany8sCluster: "'f mem_Kany8sCluster")
  | CKany8sClusterList (un_CKany8sClusterList: "'f mem_Kany8sClusterList")
  | CKany8sClusterTemplateResourceSpec (un_CKany8sClusterTemplateResourceSpec: mem_Kany8sClusterTemplateResourceSpec)
  | CKany8sClusterTemplateResource (un_CKany8sClusterTemplateResource: "'f mem_Kany8sClusterTemplateResource")
  | CKany8sClusterTemplateSpec (un_CKany8sClusterTemplateSpec: "'f mem_Kany8sClusterTemplateSpec")
  | CKany8sClusterTemplate (un_CKany8sClusterTemplate: "'f mem_Kany8sClusterTemplate")
  | CKany8sClusterTemplateList (un_CKany8sClusterTemplateList: "'f mem_Kany8sClusterTemplateList")
  | CKany8sControlPlanes (un_CKany8sControlPlanes: "'f mem_Kany8sControlPlane list")
  | CKany8sControlPlaneTemplates (un_CKany8sControlPlaneTemplates: "'f mem_Kany8sControlPlaneTemplate list")
  | CKany8sKubeadmControlPlanes (un_CKany8sKubeadmControlPlanes: "'f mem_Kany8sKubeadmControlPlane list")
  | CKany8sClusters (un_CKany8sClusters: "'f mem_Kany8sCluster list")
  | CKany8sClusterTemplates (un_CKany8sClusterTemplates: "'f mem_Kany8sClusterTemplate list")

definition get_CInt32 :: "'f cell \<Rightarrow> (32 word) option" where
  "get_CInt32 c = (if is_CInt32 c then Some (un_CInt32 c) else None)"
definition get_CString :: "'f cell \<Rightarrow> string option" where
  "get_CString c = (if is_CString c then Some (un_CString c) else None)"
definition get_CJSON :: "'f cell \<Rightarrow> 'f option" where
  "get_CJSON c = (if is_CJSON c then Some (un_CJSON c) else None)"
definition get_CKubeadmConfigSpec :: "'f cell \<Rightarrow> 'f option" where
  "get_CKubeadmConfigSpec c = (if is_CKubeadmConfigSpec c then Some (un_CKubeadmConfigSpec c) else None)"
definition get_CConditions :: "'f cell \<Rightarrow> ('f list) option" where
  "get_CConditions c = (if is_CConditions c then Some (un_CConditions c) else None)"
definition get_CResourceGraphDefinitionReference :: "'f cell \<Rightarrow> mem_ResourceGraphDefinitionReference option" where
  "get_CResourceGraphDefinitionReference c = (if is_CResourceGraphDefinitionReference c then Some (un_CResourceGraphDefinitionReference c) else None)"
definition get_CKany8sKubeadmControlPlaneMachineTemplate :: "'f cell \<Rightarrow> mem_Kany8sKubeadmControlPlaneMachineTemplate option" where
  "get_CKany8sKubeadmControlPlaneMachineTemplate c = (if is_CKany8sKubeadmControlPlaneMachineTemplate c then Some (un_CKany8sKubeadmControlPlaneMachineTemplate c) else None)"
definition get_CKany8sControlPlaneKubeadmSpec :: "'f cell \<Rightarrow> mem_Kany8sControlPlaneKubeadmSpec option" where
  "get_CKany8sControlPlaneKubeadmSpec c = (if is_CKany8sControlPlaneKubeadmSpec c then Some (un_CKany8sControlPlaneKubeadmSpec c) else None)"
definition get_CKany8sControlPlaneExternalBackendSpec :: "'f cell \<Rightarrow> mem_Kany8sControlPlaneExternalBackendSpec option" where
  "get_CKany8sControlPlaneExternalBackendSpec c = (if is_CKany8sControlPlaneExternalBackendSpec c then Some (un_CKany8sControlPlaneExternalBackendSpec c) else None)"
definition get_CKany8sControlPlaneSpec :: "'f cell \<Rightarrow> mem_Kany8sControlPlaneSpec option" where
  "get_CKany8sControlPlaneSpec c = (if is_CKany8sControlPlaneSpec c then Some (un_CKany8sControlPlaneSpec c) else None)"
definition get_CKany8sControlPlaneInitializationStatus :: "'f cell \<Rightarrow> mem_Kany8sControlPlaneInitializationStatus option" where
  "get_CKany8sControlPlaneInitializationStatus c = (if is_CKany8sControlPlaneInitializationStatus c then Some (un_CKany8sControlPlaneInitializationStatus c) else None)"
definition get_CKany8sControlPlaneStatus :: "'f cell \<Rightarrow> mem_Kany8sControlPlaneStatus option" where
  "get_CKany8sControlPlaneStatus c = (if is_CKany8sControlPlaneStatus c then Some (un_CKany8sControlPlaneStatus c) else None)"
definition get_CKany8sControlPlane :: "'f cell \<Rightarrow> ('f mem_Kany8sControlPlane) option" where
  "get_CKany8sControlPlane c = (if is_CKany8sControlPlane c then Some (un_CKany8sControlPlane c) else None)"
definition get_CKany8sControlPlaneList :: "'f cell \<Rightarrow> ('f mem_Kany8sControlPlaneList) option" where
  "get_CKany8sControlPlaneList c = (if is_CKany8sControlPlaneList c then Some (un_CKany8sControlPlaneList c) else None)"
definition get_CKany8sControlPlaneTemplateResourceSpec :: "'f cell \<Rightarrow> mem_Kany8sControlPlaneTemplateResourceSpec option" where
  "get_CKany8sControlPlaneTemplateResourceSpec c = (if is_CKany8sControlPlaneTemplateResourceSpec c then Some (un_CKany8sControlPlaneTemplateResourceSpec c) else None)"
definition get_CKany8sControlPlaneTemplateResource :: "'f cell \<Rightarrow> ('f mem_Kany8sControlPlaneTemplateResource) option" where
  "get_CKany8sControlPlaneTemplateResource c = (if is_CKany8sControlPlaneTemplateResource c then Some (un_CKany8sControlPlaneTemplateResource c) else None)"
definition get_CKany8sControlPlaneTemplateSpec :: "'f cell \<Rightarrow> ('f mem_Kany8sControlPlaneTemplateSpec) option" where
  "get_CKany8sControlPlaneTemplateSpec c = (if is_CKany8sControlPlaneTemplateSpec c then Some (un_CKany8sControlPlaneTemplateSpec c) else None)"
definition get_CKany8sControlPlaneTemplate :: "'f cell \<Rightarrow> ('f mem_Kany8sControlPlaneTemplate) option" where
  "get_CKany8sControlPlaneTemplate c = (if is_CKany8sControlPlaneTemplate c then Some (un_CKany8sControlPlaneTemplate c) else None)"
definition get_CKany8sControlPlaneTemplateList :: "'f cell \<Rightarrow> ('f mem_Kany8sControlPlaneTemplateList) option" where
  "get_CKany8sControlPlaneTemplateList c = (if is_CKany8sControlPlaneTemplateList c then Some (un_CKany8sControlPlaneTemplateList c) else None)"
definition get_CKany8sKubeadmControlPlaneSpec :: "'f cell \<Rightarrow> mem_Kany8sKubeadmControlPlaneSpec option" where
  "get_CKany8sKubeadmControlPlaneSpec c = (if is_CKany8sKubeadmControlPlaneSpec c then Some (un_CKany8sKubeadmControlPlaneSpec c) else None)"
definition get_CKany8sKubeadmControlPlaneInitializationStatus :: "'f cell \<Rightarrow> mem_Kany8sKubeadmControlPlaneInitializationStatus option" where
  "get_CKany8sKubeadmControlPlaneInitializationStatus c = (if is_CKany8sKubeadmControlPlaneInitializationStatus c then Some (un_CKany8sKubeadmControlPlaneInitializationStatus c) else None)"
definition get_CKany8sKubeadmControlPlaneStatus :: "'f cell \<Rightarrow> mem_Kany8sKubeadmControlPlaneStatus option" where
  "get_CKany8sKubeadmControlPlaneStatus c = (if is_CKany8sKubeadmControlPlaneStatus c then Some (un_CKany8sKubeadmControlPlaneStatus c) else None)"
definition get_CKany8sKubeadmControlPlane :: "'f cell \<Rightarrow> ('f mem_Kany8sKubeadmControlPlane) option" where
  "get_CKany8sKubeadmControlPlane c = (if is_CKany8sKubeadmControlPlane c then Some (un_CKany8sKubeadmControlPlane c) else None)"
definition get_CKany8sKubeadmControlPlaneList :: "'f cell \<Rightarrow> ('f mem_Kany8sKubeadmControlPlaneList) option" where
  "get_CKany8sKubeadmControlPlaneList c = (if is_CKany8sKubeadmControlPlaneList c then Some (un_CKany8sKubeadmControlPlaneList c) else None)"
definition get_Cinfra_ResourceGraphDefinitionReference :: "'f cell \<Rightarrow> mem_infra_ResourceGraphDefinitionReference option" where
  "get_Cinfra_ResourceGraphDefinitionReference c = (if is_Cinfra_ResourceGraphDefinitionReference c then Some (un_Cinfra_ResourceGraphDefinitionReference c) else None)"
definition get_CKany8sClusterSpec :: "'f cell \<Rightarrow> mem_Kany8sClusterSpec option" where
  "get_CKany8sClusterSpec c = (if is_CKany8sClusterSpec c then Some (un_CKany8sClusterSpec c) else None)"
definition get_CKany8sClusterInitializationStatus :: "'f cell \<Rightarrow> mem_Kany8sClusterInitializationStatus option" where
  "get_CKany8sClusterInitializationStatus c = (if is_CKany8sClusterInitializationStatus c then Some (un_CKany8sClusterInitializationStatus c) else None)"
definition get_CKany8sClusterStatus :: "'f cell \<Rightarrow> mem_Kany8sClusterStatus option" where
  "get_CKany8sClusterStatus c = (if is_CKany8sClusterStatus c then Some (un_CKany8sClusterStatus c) else None)"
definition get_CKany8sCluster :: "'f cell \<Rightarrow> ('f mem_Kany8sCluster) option" where
  "get_CKany8sCluster c = (if is_CKany8sCluster c then Some (un_CKany8sCluster c) else None)"
definition get_CKany8sClusterList :: "'f cell \<Rightarrow> ('f mem_Kany8sClusterList) option" where
  "get_CKany8sClusterList c = (if is_CKany8sClusterList c then Some (un_CKany8sClusterList c) else None)"
definition get_CKany8sClusterTemplateResourceSpec :: "'f cell \<Rightarrow> mem_Kany8sClusterTemplateResourceSpec option" where
  "get_CKany8sClusterTemplateResourceSpec c = (if is_CKany8sClusterTemplateResourceSpec c then Some (un_CKany8sClusterTemplateResourceSpec c) else None)"
definition get_CKany8sClusterTemplateResource :: "'f cell \<Rightarrow> ('f mem_Kany8sClusterTemplateResource) option" where
  "get_CKany8sClusterTemplateResource c = (if is_CKany8sClusterTemplateResource c then Some (un_CKany8sClusterTemplateResource c) else None)"
definition get_CKany8sClusterTemplateSpec :: "'f cell \<Rightarrow> ('f mem_Kany8sClusterTemplateSpec) option" where
  "get_CKany8sClusterTemplateSpec c = (if is_CKany8sClusterTemplateSpec c then Some (un_CKany8sClusterTemplateSpec c) else None)"
definition get_CKany8sClusterTemplate :: "'f cell \<Rightarrow> ('f mem_Kany8sClusterTemplate) option" where
  "get_CKany8sClusterTemplate c = (if is_CKany8sClusterTemplate c then Some (un_CKany8sClusterTemplate c) else None)"
definition get_CKany8sClusterTemplateList :: "'f cell \<Rightarrow> ('f mem_Kany8sClusterTemplateList) option" where
  "get_CKany8sClusterTemplateList c = (if is_CKany8sClusterTemplateList c then Some (un_CKany8sClusterTemplateList c) else None)"
definition get_CKany8sControlPlanes :: "'f cell \<Rightarrow> ('f mem_Kany8sControlPlane list) option" where
  "get_CKany8sControlPlanes c = (if is_CKany8sControlPlanes c then Some (un_CKany8sControlPlanes c) else None)"
definition get_CKany8sControlPlaneTemplates :: "'f cell \<Rightarrow> ('f mem_Kany8sControlPlaneTemplate list) option" where
  "get_CKany8sControlPlaneTemplates c = (if is_CKany8sControlPlaneTemplates c then Some (un_CKany8sControlPlaneTemplates c) else None)"
definition get_CKany8sKubeadmControlPlanes :: "'f cell \<Rightarrow> ('f mem_Kany8sKubeadmControlPlane list) option" where
  "get_CKany8sKubeadmControlPlanes c = (if is_CKany8sKubeadmControlPlanes c then Some (un_CKany8sKubeadmControlPlanes c) else None)"
definition get_CKany8sClusters :: "'f cell \<Rightarrow> ('f mem_Kany8sCluster list) option" where
  "get_CKany8sClusters c = (if is_CKany8sClusters c then Some (un_CKany8sClusters c) else None)"
definition get_CKany8sClusterTemplates :: "'f cell \<Rightarrow> ('f mem_Kany8sClusterTemplate list) option" where
  "get_CKany8sClusterTemplates c = (if is_CKany8sClusterTemplates c then Some (un_CKany8sClusterTemplates c) else None)"

lemma get_cell [simp]:
  "get_CInt32 (CInt32 v_CInt32) = Some v_CInt32"
  "get_CString (CString v_CString) = Some v_CString"
  "get_CJSON (CJSON v_CJSON) = Some v_CJSON"
  "get_CKubeadmConfigSpec (CKubeadmConfigSpec v_CKubeadmConfigSpec) = Some v_CKubeadmConfigSpec"
  "get_CConditions (CConditions v_CConditions) = Some v_CConditions"
  "get_CResourceGraphDefinitionReference (CResourceGraphDefinitionReference v_CResourceGraphDefinitionReference) = Some v_CResourceGraphDefinitionReference"
  "get_CKany8sKubeadmControlPlaneMachineTemplate (CKany8sKubeadmControlPlaneMachineTemplate v_CKany8sKubeadmControlPlaneMachineTemplate) = Some v_CKany8sKubeadmControlPlaneMachineTemplate"
  "get_CKany8sControlPlaneKubeadmSpec (CKany8sControlPlaneKubeadmSpec v_CKany8sControlPlaneKubeadmSpec) = Some v_CKany8sControlPlaneKubeadmSpec"
  "get_CKany8sControlPlaneExternalBackendSpec (CKany8sControlPlaneExternalBackendSpec v_CKany8sControlPlaneExternalBackendSpec) = Some v_CKany8sControlPlaneExternalBackendSpec"
  "get_CKany8sControlPlaneSpec (CKany8sControlPlaneSpec v_CKany8sControlPlaneSpec) = Some v_CKany8sControlPlaneSpec"
  "get_CKany8sControlPlaneInitializationStatus (CKany8sControlPlaneInitializationStatus v_CKany8sControlPlaneInitializationStatus) = Some v_CKany8sControlPlaneInitializationStatus"
  "get_CKany8sControlPlaneStatus (CKany8sControlPlaneStatus v_CKany8sControlPlaneStatus) = Some v_CKany8sControlPlaneStatus"
  "get_CKany8sControlPlane (CKany8sControlPlane v_CKany8sControlPlane) = Some v_CKany8sControlPlane"
  "get_CKany8sControlPlaneList (CKany8sControlPlaneList v_CKany8sControlPlaneList) = Some v_CKany8sControlPlaneList"
  "get_CKany8sControlPlaneTemplateResourceSpec (CKany8sControlPlaneTemplateResourceSpec v_CKany8sControlPlaneTemplateResourceSpec) = Some v_CKany8sControlPlaneTemplateResourceSpec"
  "get_CKany8sControlPlaneTemplateResource (CKany8sControlPlaneTemplateResource v_CKany8sControlPlaneTemplateResource) = Some v_CKany8sControlPlaneTemplateResource"
  "get_CKany8sControlPlaneTemplateSpec (CKany8sControlPlaneTemplateSpec v_CKany8sControlPlaneTemplateSpec) = Some v_CKany8sControlPlaneTemplateSpec"
  "get_CKany8sControlPlaneTemplate (CKany8sControlPlaneTemplate v_CKany8sControlPlaneTemplate) = Some v_CKany8sControlPlaneTemplate"
  "get_CKany8sControlPlaneTemplateList (CKany8sControlPlaneTemplateList v_CKany8sControlPlaneTemplateList) = Some v_CKany8sControlPlaneTemplateList"
  "get_CKany8sKubeadmControlPlaneSpec (CKany8sKubeadmControlPlaneSpec v_CKany8sKubeadmControlPlaneSpec) = Some v_CKany8sKubeadmControlPlaneSpec"
  "get_CKany8sKubeadmControlPlaneInitializationStatus (CKany8sKubeadmControlPlaneInitializationStatus v_CKany8sKubeadmControlPlaneInitializationStatus) = Some v_CKany8sKubeadmControlPlaneInitializationStatus"
  "get_CKany8sKubeadmControlPlaneStatus (CKany8sKubeadmControlPlaneStatus v_CKany8sKubeadmControlPlaneStatus) = Some v_CKany8sKubeadmControlPlaneStatus"
  "get_CKany8sKubeadmControlPlane (CKany8sKubeadmControlPlane v_CKany8sKubeadmControlPlane) = Some v_CKany8sKubeadmControlPlane"
  "get_CKany8sKubeadmControlPlaneList (CKany8sKubeadmControlPlaneList v_CKany8sKubeadmControlPlaneList) = Some v_CKany8sKubeadmControlPlaneList"
  "get_Cinfra_ResourceGraphDefinitionReference (Cinfra_ResourceGraphDefinitionReference v_Cinfra_ResourceGraphDefinitionReference) = Some v_Cinfra_ResourceGraphDefinitionReference"
  "get_CKany8sClusterSpec (CKany8sClusterSpec v_CKany8sClusterSpec) = Some v_CKany8sClusterSpec"
  "get_CKany8sClusterInitializationStatus (CKany8sClusterInitializationStatus v_CKany8sClusterInitializationStatus) = Some v_CKany8sClusterInitializationStatus"
  "get_CKany8sClusterStatus (CKany8sClusterStatus v_CKany8sClusterStatus) = Some v_CKany8sClusterStatus"
  "get_CKany8sCluster (CKany8sCluster v_CKany8sCluster) = Some v_CKany8sCluster"
  "get_CKany8sClusterList (CKany8sClusterList v_CKany8sClusterList) = Some v_CKany8sClusterList"
  "get_CKany8sClusterTemplateResourceSpec (CKany8sClusterTemplateResourceSpec v_CKany8sClusterTemplateResourceSpec) = Some v_CKany8sClusterTemplateResourceSpec"
  "get_CKany8sClusterTemplateResource (CKany8sClusterTemplateResource v_CKany8sClusterTemplateResource) = Some v_CKany8sClusterTemplateResource"
  "get_CKany8sClusterTemplateSpec (CKany8sClusterTemplateSpec v_CKany8sClusterTemplateSpec) = Some v_CKany8sClusterTemplateSpec"
  "get_CKany8sClusterTemplate (CKany8sClusterTemplate v_CKany8sClusterTemplate) = Some v_CKany8sClusterTemplate"
  "get_CKany8sClusterTemplateList (CKany8sClusterTemplateList v_CKany8sClusterTemplateList) = Some v_CKany8sClusterTemplateList"
  "get_CKany8sControlPlanes (CKany8sControlPlanes v_CKany8sControlPlanes) = Some v_CKany8sControlPlanes"
  "get_CKany8sControlPlaneTemplates (CKany8sControlPlaneTemplates v_CKany8sControlPlaneTemplates) = Some v_CKany8sControlPlaneTemplates"
  "get_CKany8sKubeadmControlPlanes (CKany8sKubeadmControlPlanes v_CKany8sKubeadmControlPlanes) = Some v_CKany8sKubeadmControlPlanes"
  "get_CKany8sClusters (CKany8sClusters v_CKany8sClusters) = Some v_CKany8sClusters"
  "get_CKany8sClusterTemplates (CKany8sClusterTemplates v_CKany8sClusterTemplates) = Some v_CKany8sClusterTemplates"
  by (simp_all add: get_CInt32_def get_CString_def get_CJSON_def get_CKubeadmConfigSpec_def get_CConditions_def get_CResourceGraphDefinitionReference_def get_CKany8sKubeadmControlPlaneMachineTemplate_def get_CKany8sControlPlaneKubeadmSpec_def get_CKany8sControlPlaneExternalBackendSpec_def get_CKany8sControlPlaneSpec_def get_CKany8sControlPlaneInitializationStatus_def get_CKany8sControlPlaneStatus_def get_CKany8sControlPlane_def get_CKany8sControlPlaneList_def get_CKany8sControlPlaneTemplateResourceSpec_def get_CKany8sControlPlaneTemplateResource_def get_CKany8sControlPlaneTemplateSpec_def get_CKany8sControlPlaneTemplate_def get_CKany8sControlPlaneTemplateList_def get_CKany8sKubeadmControlPlaneSpec_def get_CKany8sKubeadmControlPlaneInitializationStatus_def get_CKany8sKubeadmControlPlaneStatus_def get_CKany8sKubeadmControlPlane_def get_CKany8sKubeadmControlPlaneList_def get_Cinfra_ResourceGraphDefinitionReference_def get_CKany8sClusterSpec_def get_CKany8sClusterInitializationStatus_def get_CKany8sClusterStatus_def get_CKany8sCluster_def get_CKany8sClusterList_def get_CKany8sClusterTemplateResourceSpec_def get_CKany8sClusterTemplateResource_def get_CKany8sClusterTemplateSpec_def get_CKany8sClusterTemplate_def get_CKany8sClusterTemplateList_def get_CKany8sControlPlanes_def get_CKany8sControlPlaneTemplates_def get_CKany8sKubeadmControlPlanes_def get_CKany8sClusters_def get_CKany8sClusterTemplates_def)

text \<open>The values without pointers.\<close>

datatype atom =
    AString string
  | AInt32 "32 word"
  | ABool bool
  | AEndpoint APIEndpoint
  | ARef contract_ref
  | ATypeMeta type_meta

text \<open>The types of other modules: what they are in memory, and their \<open>DeepCopyInto\<close>.\<close>

record 'f foreign =
  fo_type :: "('f cell, atom, 'f) go_type"
  fo_copy :: "('f cell, 'f) copy"

record 'f deepcopy_lib =
  dl_ObjectMeta :: "'f foreign"
  dl_ListMeta :: "'f foreign"
  dl_TemplateMeta :: "'f foreign"
  dl_Condition :: "'f foreign"
  dl_JSON :: "'f foreign"
  dl_KubeadmConfigSpec :: "'f foreign"

definition deepcopy_lib_ok :: "'f deepcopy_lib \<Rightarrow> bool" where
  "deepcopy_lib_ok lib \<longleftrightarrow> list_all (\<lambda>F. deep_copies (fo_type F) (fo_copy F))
     [dl_ObjectMeta lib, dl_ListMeta lib, dl_TemplateMeta lib, dl_Condition lib, dl_JSON lib, dl_KubeadmConfigSpec lib]"

section \<open>The types\<close>

definition ResourceGraphDefinitionReference_type :: "'f deepcopy_lib \<Rightarrow> ('f cell, atom, mem_ResourceGraphDefinitionReference) go_type" where
  "ResourceGraphDefinitionReference_type lib = struct_type (
    [] @
    [field mrr_Name (plain_type AString)])"

definition Kany8sKubeadmControlPlaneMachineTemplate_type :: "'f deepcopy_lib \<Rightarrow> ('f cell, atom, mem_Kany8sKubeadmControlPlaneMachineTemplate) go_type" where
  "Kany8sKubeadmControlPlaneMachineTemplate_type lib = struct_type (
    [field mkm_InfrastructureRef (plain_type ARef)] @
    [])"

definition Kany8sControlPlaneKubeadmSpec_type :: "'f deepcopy_lib \<Rightarrow> ('f cell, atom, mem_Kany8sControlPlaneKubeadmSpec) go_type" where
  "Kany8sControlPlaneKubeadmSpec_type lib = struct_type (
    [field mks_Replicas (pointer_type get_CInt32 (plain_type AInt32)),
     field mks_MachineTemplate (Kany8sKubeadmControlPlaneMachineTemplate_type lib),
     field mks_KubeadmConfigSpec (pointer_type get_CKubeadmConfigSpec (fo_type (dl_KubeadmConfigSpec lib)))] @
    [])"

definition Kany8sControlPlaneExternalBackendSpec_type :: "'f deepcopy_lib \<Rightarrow> ('f cell, atom, mem_Kany8sControlPlaneExternalBackendSpec) go_type" where
  "Kany8sControlPlaneExternalBackendSpec_type lib = struct_type (
    [field mxs_Spec (pointer_type get_CJSON (fo_type (dl_JSON lib)))] @
    [field mxs_APIVersion (plain_type AString), field mxs_Kind (plain_type AString)])"

definition Kany8sControlPlaneSpec_type :: "'f deepcopy_lib \<Rightarrow> ('f cell, atom, mem_Kany8sControlPlaneSpec) go_type" where
  "Kany8sControlPlaneSpec_type lib = struct_type (
    [field mcs_Replicas (pointer_type get_CInt32 (plain_type AInt32)),
     field mcs_ResourceGraphDefinitionRef (pointer_type get_CResourceGraphDefinitionReference (ResourceGraphDefinitionReference_type lib)),
     field mcs_KroSpec (pointer_type get_CJSON (fo_type (dl_JSON lib))),
     field mcs_Kubeadm (pointer_type get_CKany8sControlPlaneKubeadmSpec (Kany8sControlPlaneKubeadmSpec_type lib)),
     field mcs_ExternalBackend (pointer_type get_CKany8sControlPlaneExternalBackendSpec (Kany8sControlPlaneExternalBackendSpec_type lib)),
     field mcs_ControlPlaneEndpoint (plain_type AEndpoint)] @
    [field mcs_Version (plain_type AString)])"

definition Kany8sControlPlaneInitializationStatus_type :: "'f deepcopy_lib \<Rightarrow> ('f cell, atom, mem_Kany8sControlPlaneInitializationStatus) go_type" where
  "Kany8sControlPlaneInitializationStatus_type lib = struct_type (
    [] @
    [field mci_ControlPlaneInitialized (plain_type ABool)])"

definition Kany8sControlPlaneStatus_type :: "'f deepcopy_lib \<Rightarrow> ('f cell, atom, mem_Kany8sControlPlaneStatus) go_type" where
  "Kany8sControlPlaneStatus_type lib = struct_type (
    [field mct_Initialization (Kany8sControlPlaneInitializationStatus_type lib),
     field mct_Conditions (slice_type get_CConditions (fo_type (dl_Condition lib))),
     field mct_FailureReason (pointer_type get_CString (plain_type AString)),
     field mct_FailureMessage (pointer_type get_CString (plain_type AString))] @
    [field mct_Version (plain_type AString)])"

definition Kany8sControlPlane_type :: "'f deepcopy_lib \<Rightarrow> ('f cell, atom, 'f mem_Kany8sControlPlane) go_type" where
  "Kany8sControlPlane_type lib = struct_type (
    [field mcp_TypeMeta (plain_type ATypeMeta),
     field mcp_ObjectMeta (fo_type (dl_ObjectMeta lib)),
     field mcp_Spec (Kany8sControlPlaneSpec_type lib),
     field mcp_Status (Kany8sControlPlaneStatus_type lib)] @
    [])"

definition Kany8sControlPlaneList_type :: "'f deepcopy_lib \<Rightarrow> ('f cell, atom, 'f mem_Kany8sControlPlaneList) go_type" where
  "Kany8sControlPlaneList_type lib = struct_type (
    [field mcl_TypeMeta (plain_type ATypeMeta),
     field mcl_ListMeta (fo_type (dl_ListMeta lib)),
     field mcl_Items (slice_type get_CKany8sControlPlanes (Kany8sControlPlane_type lib))] @
    [])"

definition Kany8sControlPlaneTemplateResourceSpec_type :: "'f deepcopy_lib \<Rightarrow> ('f cell, atom, mem_Kany8sControlPlaneTemplateResourceSpec) go_type" where
  "Kany8sControlPlaneTemplateResourceSpec_type lib = struct_type (
    [field mts_ResourceGraphDefinitionRef (pointer_type get_CResourceGraphDefinitionReference (ResourceGraphDefinitionReference_type lib)),
     field mts_KroSpec (pointer_type get_CJSON (fo_type (dl_JSON lib))),
     field mts_Kubeadm (pointer_type get_CKany8sControlPlaneKubeadmSpec (Kany8sControlPlaneKubeadmSpec_type lib)),
     field mts_ExternalBackend (pointer_type get_CKany8sControlPlaneExternalBackendSpec (Kany8sControlPlaneExternalBackendSpec_type lib))] @
    [])"

definition Kany8sControlPlaneTemplateResource_type :: "'f deepcopy_lib \<Rightarrow> ('f cell, atom, 'f mem_Kany8sControlPlaneTemplateResource) go_type" where
  "Kany8sControlPlaneTemplateResource_type lib = struct_type (
    [field mtr_ObjectMeta (fo_type (dl_TemplateMeta lib)),
     field mtr_Spec (Kany8sControlPlaneTemplateResourceSpec_type lib)] @
    [])"

definition Kany8sControlPlaneTemplateSpec_type :: "'f deepcopy_lib \<Rightarrow> ('f cell, atom, 'f mem_Kany8sControlPlaneTemplateSpec) go_type" where
  "Kany8sControlPlaneTemplateSpec_type lib = struct_type (
    [field mtt_Template (Kany8sControlPlaneTemplateResource_type lib)] @
    [])"

definition Kany8sControlPlaneTemplate_type :: "'f deepcopy_lib \<Rightarrow> ('f cell, atom, 'f mem_Kany8sControlPlaneTemplate) go_type" where
  "Kany8sControlPlaneTemplate_type lib = struct_type (
    [field mtp_TypeMeta (plain_type ATypeMeta),
     field mtp_ObjectMeta (fo_type (dl_ObjectMeta lib)),
     field mtp_Spec (Kany8sControlPlaneTemplateSpec_type lib)] @
    [])"

definition Kany8sControlPlaneTemplateList_type :: "'f deepcopy_lib \<Rightarrow> ('f cell, atom, 'f mem_Kany8sControlPlaneTemplateList) go_type" where
  "Kany8sControlPlaneTemplateList_type lib = struct_type (
    [field mtl_TypeMeta (plain_type ATypeMeta),
     field mtl_ListMeta (fo_type (dl_ListMeta lib)),
     field mtl_Items (slice_type get_CKany8sControlPlaneTemplates (Kany8sControlPlaneTemplate_type lib))] @
    [])"

definition Kany8sKubeadmControlPlaneSpec_type :: "'f deepcopy_lib \<Rightarrow> ('f cell, atom, mem_Kany8sKubeadmControlPlaneSpec) go_type" where
  "Kany8sKubeadmControlPlaneSpec_type lib = struct_type (
    [field mkc_Replicas (pointer_type get_CInt32 (plain_type AInt32)),
     field mkc_MachineTemplate (Kany8sKubeadmControlPlaneMachineTemplate_type lib),
     field mkc_KubeadmConfigSpec (pointer_type get_CKubeadmConfigSpec (fo_type (dl_KubeadmConfigSpec lib))),
     field mkc_ControlPlaneEndpoint (plain_type AEndpoint)] @
    [field mkc_Version (plain_type AString)])"

definition Kany8sKubeadmControlPlaneInitializationStatus_type :: "'f deepcopy_lib \<Rightarrow> ('f cell, atom, mem_Kany8sKubeadmControlPlaneInitializationStatus) go_type" where
  "Kany8sKubeadmControlPlaneInitializationStatus_type lib = struct_type (
    [] @
    [field mki_ControlPlaneInitialized (plain_type ABool)])"

definition Kany8sKubeadmControlPlaneStatus_type :: "'f deepcopy_lib \<Rightarrow> ('f cell, atom, mem_Kany8sKubeadmControlPlaneStatus) go_type" where
  "Kany8sKubeadmControlPlaneStatus_type lib = struct_type (
    [field mkt_Initialization (Kany8sKubeadmControlPlaneInitializationStatus_type lib),
     field mkt_Conditions (slice_type get_CConditions (fo_type (dl_Condition lib))),
     field mkt_FailureReason (pointer_type get_CString (plain_type AString)),
     field mkt_FailureMessage (pointer_type get_CString (plain_type AString))] @
    [field mkt_Version (plain_type AString)])"

definition Kany8sKubeadmControlPlane_type :: "'f deepcopy_lib \<Rightarrow> ('f cell, atom, 'f mem_Kany8sKubeadmControlPlane) go_type" where
  "Kany8sKubeadmControlPlane_type lib = struct_type (
    [field mkp_TypeMeta (plain_type ATypeMeta),
     field mkp_ObjectMeta (fo_type (dl_ObjectMeta lib)),
     field mkp_Spec (Kany8sKubeadmControlPlaneSpec_type lib),
     field mkp_Status (Kany8sKubeadmControlPlaneStatus_type lib)] @
    [])"

definition Kany8sKubeadmControlPlaneList_type :: "'f deepcopy_lib \<Rightarrow> ('f cell, atom, 'f mem_Kany8sKubeadmControlPlaneList) go_type" where
  "Kany8sKubeadmControlPlaneList_type lib = struct_type (
    [field mkl_TypeMeta (plain_type ATypeMeta),
     field mkl_ListMeta (fo_type (dl_ListMeta lib)),
     field mkl_Items (slice_type get_CKany8sKubeadmControlPlanes (Kany8sKubeadmControlPlane_type lib))] @
    [])"

definition infra_ResourceGraphDefinitionReference_type :: "'f deepcopy_lib \<Rightarrow> ('f cell, atom, mem_infra_ResourceGraphDefinitionReference) go_type" where
  "infra_ResourceGraphDefinitionReference_type lib = struct_type (
    [] @
    [field mir_Name (plain_type AString)])"

definition Kany8sClusterSpec_type :: "'f deepcopy_lib \<Rightarrow> ('f cell, atom, mem_Kany8sClusterSpec) go_type" where
  "Kany8sClusterSpec_type lib = struct_type (
    [field mis_ResourceGraphDefinitionRef (pointer_type get_Cinfra_ResourceGraphDefinitionReference (infra_ResourceGraphDefinitionReference_type lib)),
     field mis_KroSpec (pointer_type get_CJSON (fo_type (dl_JSON lib)))] @
    [])"

definition Kany8sClusterInitializationStatus_type :: "'f deepcopy_lib \<Rightarrow> ('f cell, atom, mem_Kany8sClusterInitializationStatus) go_type" where
  "Kany8sClusterInitializationStatus_type lib = struct_type (
    [] @
    [field mii_Provisioned (plain_type ABool)])"

definition Kany8sClusterStatus_type :: "'f deepcopy_lib \<Rightarrow> ('f cell, atom, mem_Kany8sClusterStatus) go_type" where
  "Kany8sClusterStatus_type lib = struct_type (
    [field mit_Initialization (Kany8sClusterInitializationStatus_type lib),
     field mit_Conditions (slice_type get_CConditions (fo_type (dl_Condition lib))),
     field mit_FailureReason (pointer_type get_CString (plain_type AString)),
     field mit_FailureMessage (pointer_type get_CString (plain_type AString))] @
    [])"

definition Kany8sCluster_type :: "'f deepcopy_lib \<Rightarrow> ('f cell, atom, 'f mem_Kany8sCluster) go_type" where
  "Kany8sCluster_type lib = struct_type (
    [field mic_TypeMeta (plain_type ATypeMeta),
     field mic_ObjectMeta (fo_type (dl_ObjectMeta lib)),
     field mic_Spec (Kany8sClusterSpec_type lib),
     field mic_Status (Kany8sClusterStatus_type lib)] @
    [])"

definition Kany8sClusterList_type :: "'f deepcopy_lib \<Rightarrow> ('f cell, atom, 'f mem_Kany8sClusterList) go_type" where
  "Kany8sClusterList_type lib = struct_type (
    [field mil_TypeMeta (plain_type ATypeMeta),
     field mil_ListMeta (fo_type (dl_ListMeta lib)),
     field mil_Items (slice_type get_CKany8sClusters (Kany8sCluster_type lib))] @
    [])"

definition Kany8sClusterTemplateResourceSpec_type :: "'f deepcopy_lib \<Rightarrow> ('f cell, atom, mem_Kany8sClusterTemplateResourceSpec) go_type" where
  "Kany8sClusterTemplateResourceSpec_type lib = struct_type (
    [field mxr_ResourceGraphDefinitionRef (pointer_type get_Cinfra_ResourceGraphDefinitionReference (infra_ResourceGraphDefinitionReference_type lib)),
     field mxr_KroSpec (pointer_type get_CJSON (fo_type (dl_JSON lib)))] @
    [])"

definition Kany8sClusterTemplateResource_type :: "'f deepcopy_lib \<Rightarrow> ('f cell, atom, 'f mem_Kany8sClusterTemplateResource) go_type" where
  "Kany8sClusterTemplateResource_type lib = struct_type (
    [field mxc_ObjectMeta (fo_type (dl_TemplateMeta lib)),
     field mxc_Spec (Kany8sClusterTemplateResourceSpec_type lib)] @
    [])"

definition Kany8sClusterTemplateSpec_type :: "'f deepcopy_lib \<Rightarrow> ('f cell, atom, 'f mem_Kany8sClusterTemplateSpec) go_type" where
  "Kany8sClusterTemplateSpec_type lib = struct_type (
    [field mxt_Template (Kany8sClusterTemplateResource_type lib)] @
    [])"

definition Kany8sClusterTemplate_type :: "'f deepcopy_lib \<Rightarrow> ('f cell, atom, 'f mem_Kany8sClusterTemplate) go_type" where
  "Kany8sClusterTemplate_type lib = struct_type (
    [field mxp_TypeMeta (plain_type ATypeMeta),
     field mxp_ObjectMeta (fo_type (dl_ObjectMeta lib)),
     field mxp_Spec (Kany8sClusterTemplateSpec_type lib)] @
    [])"

definition Kany8sClusterTemplateList_type :: "'f deepcopy_lib \<Rightarrow> ('f cell, atom, 'f mem_Kany8sClusterTemplateList) go_type" where
  "Kany8sClusterTemplateList_type lib = struct_type (
    [field mxl_TypeMeta (plain_type ATypeMeta),
     field mxl_ListMeta (fo_type (dl_ListMeta lib)),
     field mxl_Items (slice_type get_CKany8sClusterTemplates (Kany8sClusterTemplate_type lib))] @
    [])"

end
