(* ===== verification/DeepCopy.thy ===== *)
theory DeepCopy
  imports ApiMemory
begin

text \<open>
  The deep copies of the API types (\<open>zz_generated.deepcopy.go\<close> of both API packages), the
  accessors of their conditions and their registration with the scheme. The other theories treat
  objects as values, so that \<open>before := cp.DeepCopy()\<close> is just another name for the value;
  this theory shows that the copies justify that: a copy reads as its original and shares no memory
  with it.
\<close>

section \<open>The generated copies\<close>

text \<open>
  Each step is one statement of \<open>DeepCopyInto\<close>, in the order of the code; the assignment
  \<open>*out = *in\<close> is the start of \<open>copy_struct\<close>.
\<close>

definition ResourceGraphDefinitionReference_DeepCopyInto :: "'f deepcopy_lib \<Rightarrow> ('f cell, mem_ResourceGraphDefinitionReference) copy" where
  "ResourceGraphDefinitionReference_DeepCopyInto lib = copy_struct
    []"

definition ResourceGraphDefinitionReference_DeepCopy :: "'f deepcopy_lib \<Rightarrow> ('f cell, addr option) copy" where
  "ResourceGraphDefinitionReference_DeepCopy lib = copy_pointer CResourceGraphDefinitionReference get_CResourceGraphDefinitionReference (ResourceGraphDefinitionReference_DeepCopyInto lib)"

definition Kany8sKubeadmControlPlaneMachineTemplate_DeepCopyInto :: "'f deepcopy_lib \<Rightarrow> ('f cell, mem_Kany8sKubeadmControlPlaneMachineTemplate) copy" where
  "Kany8sKubeadmControlPlaneMachineTemplate_DeepCopyInto lib = copy_struct
    [copy_field mkm_InfrastructureRef mkm_InfrastructureRef_update assign]"

definition Kany8sKubeadmControlPlaneMachineTemplate_DeepCopy :: "'f deepcopy_lib \<Rightarrow> ('f cell, addr option) copy" where
  "Kany8sKubeadmControlPlaneMachineTemplate_DeepCopy lib = copy_pointer CKany8sKubeadmControlPlaneMachineTemplate get_CKany8sKubeadmControlPlaneMachineTemplate (Kany8sKubeadmControlPlaneMachineTemplate_DeepCopyInto lib)"

definition Kany8sControlPlaneKubeadmSpec_DeepCopyInto :: "'f deepcopy_lib \<Rightarrow> ('f cell, mem_Kany8sControlPlaneKubeadmSpec) copy" where
  "Kany8sControlPlaneKubeadmSpec_DeepCopyInto lib = copy_struct
    [copy_field mks_Replicas mks_Replicas_update (copy_pointer CInt32 get_CInt32 assign),
     copy_field mks_MachineTemplate mks_MachineTemplate_update assign,
     copy_field mks_KubeadmConfigSpec mks_KubeadmConfigSpec_update (copy_pointer CKubeadmConfigSpec get_CKubeadmConfigSpec (fo_copy (dl_KubeadmConfigSpec lib)))]"

definition Kany8sControlPlaneKubeadmSpec_DeepCopy :: "'f deepcopy_lib \<Rightarrow> ('f cell, addr option) copy" where
  "Kany8sControlPlaneKubeadmSpec_DeepCopy lib = copy_pointer CKany8sControlPlaneKubeadmSpec get_CKany8sControlPlaneKubeadmSpec (Kany8sControlPlaneKubeadmSpec_DeepCopyInto lib)"

definition Kany8sControlPlaneExternalBackendSpec_DeepCopyInto :: "'f deepcopy_lib \<Rightarrow> ('f cell, mem_Kany8sControlPlaneExternalBackendSpec) copy" where
  "Kany8sControlPlaneExternalBackendSpec_DeepCopyInto lib = copy_struct
    [copy_field mxs_Spec mxs_Spec_update (copy_pointer CJSON get_CJSON (fo_copy (dl_JSON lib)))]"

definition Kany8sControlPlaneExternalBackendSpec_DeepCopy :: "'f deepcopy_lib \<Rightarrow> ('f cell, addr option) copy" where
  "Kany8sControlPlaneExternalBackendSpec_DeepCopy lib = copy_pointer CKany8sControlPlaneExternalBackendSpec get_CKany8sControlPlaneExternalBackendSpec (Kany8sControlPlaneExternalBackendSpec_DeepCopyInto lib)"

definition Kany8sControlPlaneSpec_DeepCopyInto :: "'f deepcopy_lib \<Rightarrow> ('f cell, mem_Kany8sControlPlaneSpec) copy" where
  "Kany8sControlPlaneSpec_DeepCopyInto lib = copy_struct
    [copy_field mcs_Replicas mcs_Replicas_update (copy_pointer CInt32 get_CInt32 assign),
     copy_field mcs_ResourceGraphDefinitionRef mcs_ResourceGraphDefinitionRef_update (copy_pointer CResourceGraphDefinitionReference get_CResourceGraphDefinitionReference assign),
     copy_field mcs_KroSpec mcs_KroSpec_update (copy_pointer CJSON get_CJSON (fo_copy (dl_JSON lib))),
     copy_field mcs_Kubeadm mcs_Kubeadm_update (copy_pointer CKany8sControlPlaneKubeadmSpec get_CKany8sControlPlaneKubeadmSpec (Kany8sControlPlaneKubeadmSpec_DeepCopyInto lib)),
     copy_field mcs_ExternalBackend mcs_ExternalBackend_update (copy_pointer CKany8sControlPlaneExternalBackendSpec get_CKany8sControlPlaneExternalBackendSpec (Kany8sControlPlaneExternalBackendSpec_DeepCopyInto lib)),
     copy_field mcs_ControlPlaneEndpoint mcs_ControlPlaneEndpoint_update assign]"

definition Kany8sControlPlaneSpec_DeepCopy :: "'f deepcopy_lib \<Rightarrow> ('f cell, addr option) copy" where
  "Kany8sControlPlaneSpec_DeepCopy lib = copy_pointer CKany8sControlPlaneSpec get_CKany8sControlPlaneSpec (Kany8sControlPlaneSpec_DeepCopyInto lib)"

definition Kany8sControlPlaneInitializationStatus_DeepCopyInto :: "'f deepcopy_lib \<Rightarrow> ('f cell, mem_Kany8sControlPlaneInitializationStatus) copy" where
  "Kany8sControlPlaneInitializationStatus_DeepCopyInto lib = copy_struct
    []"

definition Kany8sControlPlaneInitializationStatus_DeepCopy :: "'f deepcopy_lib \<Rightarrow> ('f cell, addr option) copy" where
  "Kany8sControlPlaneInitializationStatus_DeepCopy lib = copy_pointer CKany8sControlPlaneInitializationStatus get_CKany8sControlPlaneInitializationStatus (Kany8sControlPlaneInitializationStatus_DeepCopyInto lib)"

definition Kany8sControlPlaneStatus_DeepCopyInto :: "'f deepcopy_lib \<Rightarrow> ('f cell, mem_Kany8sControlPlaneStatus) copy" where
  "Kany8sControlPlaneStatus_DeepCopyInto lib = copy_struct
    [copy_field mct_Initialization mct_Initialization_update assign,
     copy_field mct_Conditions mct_Conditions_update (copy_slice CConditions get_CConditions (fo_copy (dl_Condition lib))),
     copy_field mct_FailureReason mct_FailureReason_update (copy_pointer CString get_CString assign),
     copy_field mct_FailureMessage mct_FailureMessage_update (copy_pointer CString get_CString assign)]"

definition Kany8sControlPlaneStatus_DeepCopy :: "'f deepcopy_lib \<Rightarrow> ('f cell, addr option) copy" where
  "Kany8sControlPlaneStatus_DeepCopy lib = copy_pointer CKany8sControlPlaneStatus get_CKany8sControlPlaneStatus (Kany8sControlPlaneStatus_DeepCopyInto lib)"

definition Kany8sControlPlane_DeepCopyInto :: "'f deepcopy_lib \<Rightarrow> ('f cell, 'f mem_Kany8sControlPlane) copy" where
  "Kany8sControlPlane_DeepCopyInto lib = copy_struct
    [copy_field mcp_TypeMeta mcp_TypeMeta_update assign,
     copy_field mcp_ObjectMeta mcp_ObjectMeta_update (fo_copy (dl_ObjectMeta lib)),
     copy_field mcp_Spec mcp_Spec_update (Kany8sControlPlaneSpec_DeepCopyInto lib),
     copy_field mcp_Status mcp_Status_update (Kany8sControlPlaneStatus_DeepCopyInto lib)]"

definition Kany8sControlPlane_DeepCopy :: "'f deepcopy_lib \<Rightarrow> ('f cell, addr option) copy" where
  "Kany8sControlPlane_DeepCopy lib = copy_pointer CKany8sControlPlane get_CKany8sControlPlane (Kany8sControlPlane_DeepCopyInto lib)"

definition Kany8sControlPlaneList_DeepCopyInto :: "'f deepcopy_lib \<Rightarrow> ('f cell, 'f mem_Kany8sControlPlaneList) copy" where
  "Kany8sControlPlaneList_DeepCopyInto lib = copy_struct
    [copy_field mcl_TypeMeta mcl_TypeMeta_update assign,
     copy_field mcl_ListMeta mcl_ListMeta_update (fo_copy (dl_ListMeta lib)),
     copy_field mcl_Items mcl_Items_update (copy_slice CKany8sControlPlanes get_CKany8sControlPlanes (Kany8sControlPlane_DeepCopyInto lib))]"

definition Kany8sControlPlaneList_DeepCopy :: "'f deepcopy_lib \<Rightarrow> ('f cell, addr option) copy" where
  "Kany8sControlPlaneList_DeepCopy lib = copy_pointer CKany8sControlPlaneList get_CKany8sControlPlaneList (Kany8sControlPlaneList_DeepCopyInto lib)"

definition Kany8sControlPlaneTemplateResourceSpec_DeepCopyInto :: "'f deepcopy_lib \<Rightarrow> ('f cell, mem_Kany8sControlPlaneTemplateResourceSpec) copy" where
  "Kany8sControlPlaneTemplateResourceSpec_DeepCopyInto lib = copy_struct
    [copy_field mts_ResourceGraphDefinitionRef mts_ResourceGraphDefinitionRef_update (copy_pointer CResourceGraphDefinitionReference get_CResourceGraphDefinitionReference assign),
     copy_field mts_KroSpec mts_KroSpec_update (copy_pointer CJSON get_CJSON (fo_copy (dl_JSON lib))),
     copy_field mts_Kubeadm mts_Kubeadm_update (copy_pointer CKany8sControlPlaneKubeadmSpec get_CKany8sControlPlaneKubeadmSpec (Kany8sControlPlaneKubeadmSpec_DeepCopyInto lib)),
     copy_field mts_ExternalBackend mts_ExternalBackend_update (copy_pointer CKany8sControlPlaneExternalBackendSpec get_CKany8sControlPlaneExternalBackendSpec (Kany8sControlPlaneExternalBackendSpec_DeepCopyInto lib))]"

definition Kany8sControlPlaneTemplateResourceSpec_DeepCopy :: "'f deepcopy_lib \<Rightarrow> ('f cell, addr option) copy" where
  "Kany8sControlPlaneTemplateResourceSpec_DeepCopy lib = copy_pointer CKany8sControlPlaneTemplateResourceSpec get_CKany8sControlPlaneTemplateResourceSpec (Kany8sControlPlaneTemplateResourceSpec_DeepCopyInto lib)"

definition Kany8sControlPlaneTemplateResource_DeepCopyInto :: "'f deepcopy_lib \<Rightarrow> ('f cell, 'f mem_Kany8sControlPlaneTemplateResource) copy" where
  "Kany8sControlPlaneTemplateResource_DeepCopyInto lib = copy_struct
    [copy_field mtr_ObjectMeta mtr_ObjectMeta_update (fo_copy (dl_TemplateMeta lib)),
     copy_field mtr_Spec mtr_Spec_update (Kany8sControlPlaneTemplateResourceSpec_DeepCopyInto lib)]"

definition Kany8sControlPlaneTemplateResource_DeepCopy :: "'f deepcopy_lib \<Rightarrow> ('f cell, addr option) copy" where
  "Kany8sControlPlaneTemplateResource_DeepCopy lib = copy_pointer CKany8sControlPlaneTemplateResource get_CKany8sControlPlaneTemplateResource (Kany8sControlPlaneTemplateResource_DeepCopyInto lib)"

definition Kany8sControlPlaneTemplateSpec_DeepCopyInto :: "'f deepcopy_lib \<Rightarrow> ('f cell, 'f mem_Kany8sControlPlaneTemplateSpec) copy" where
  "Kany8sControlPlaneTemplateSpec_DeepCopyInto lib = copy_struct
    [copy_field mtt_Template mtt_Template_update (Kany8sControlPlaneTemplateResource_DeepCopyInto lib)]"

definition Kany8sControlPlaneTemplateSpec_DeepCopy :: "'f deepcopy_lib \<Rightarrow> ('f cell, addr option) copy" where
  "Kany8sControlPlaneTemplateSpec_DeepCopy lib = copy_pointer CKany8sControlPlaneTemplateSpec get_CKany8sControlPlaneTemplateSpec (Kany8sControlPlaneTemplateSpec_DeepCopyInto lib)"

definition Kany8sControlPlaneTemplate_DeepCopyInto :: "'f deepcopy_lib \<Rightarrow> ('f cell, 'f mem_Kany8sControlPlaneTemplate) copy" where
  "Kany8sControlPlaneTemplate_DeepCopyInto lib = copy_struct
    [copy_field mtp_TypeMeta mtp_TypeMeta_update assign,
     copy_field mtp_ObjectMeta mtp_ObjectMeta_update (fo_copy (dl_ObjectMeta lib)),
     copy_field mtp_Spec mtp_Spec_update (Kany8sControlPlaneTemplateSpec_DeepCopyInto lib)]"

definition Kany8sControlPlaneTemplate_DeepCopy :: "'f deepcopy_lib \<Rightarrow> ('f cell, addr option) copy" where
  "Kany8sControlPlaneTemplate_DeepCopy lib = copy_pointer CKany8sControlPlaneTemplate get_CKany8sControlPlaneTemplate (Kany8sControlPlaneTemplate_DeepCopyInto lib)"

definition Kany8sControlPlaneTemplateList_DeepCopyInto :: "'f deepcopy_lib \<Rightarrow> ('f cell, 'f mem_Kany8sControlPlaneTemplateList) copy" where
  "Kany8sControlPlaneTemplateList_DeepCopyInto lib = copy_struct
    [copy_field mtl_TypeMeta mtl_TypeMeta_update assign,
     copy_field mtl_ListMeta mtl_ListMeta_update (fo_copy (dl_ListMeta lib)),
     copy_field mtl_Items mtl_Items_update (copy_slice CKany8sControlPlaneTemplates get_CKany8sControlPlaneTemplates (Kany8sControlPlaneTemplate_DeepCopyInto lib))]"

definition Kany8sControlPlaneTemplateList_DeepCopy :: "'f deepcopy_lib \<Rightarrow> ('f cell, addr option) copy" where
  "Kany8sControlPlaneTemplateList_DeepCopy lib = copy_pointer CKany8sControlPlaneTemplateList get_CKany8sControlPlaneTemplateList (Kany8sControlPlaneTemplateList_DeepCopyInto lib)"

definition Kany8sKubeadmControlPlaneSpec_DeepCopyInto :: "'f deepcopy_lib \<Rightarrow> ('f cell, mem_Kany8sKubeadmControlPlaneSpec) copy" where
  "Kany8sKubeadmControlPlaneSpec_DeepCopyInto lib = copy_struct
    [copy_field mkc_Replicas mkc_Replicas_update (copy_pointer CInt32 get_CInt32 assign),
     copy_field mkc_MachineTemplate mkc_MachineTemplate_update assign,
     copy_field mkc_KubeadmConfigSpec mkc_KubeadmConfigSpec_update (copy_pointer CKubeadmConfigSpec get_CKubeadmConfigSpec (fo_copy (dl_KubeadmConfigSpec lib))),
     copy_field mkc_ControlPlaneEndpoint mkc_ControlPlaneEndpoint_update assign]"

definition Kany8sKubeadmControlPlaneSpec_DeepCopy :: "'f deepcopy_lib \<Rightarrow> ('f cell, addr option) copy" where
  "Kany8sKubeadmControlPlaneSpec_DeepCopy lib = copy_pointer CKany8sKubeadmControlPlaneSpec get_CKany8sKubeadmControlPlaneSpec (Kany8sKubeadmControlPlaneSpec_DeepCopyInto lib)"

definition Kany8sKubeadmControlPlaneInitializationStatus_DeepCopyInto :: "'f deepcopy_lib \<Rightarrow> ('f cell, mem_Kany8sKubeadmControlPlaneInitializationStatus) copy" where
  "Kany8sKubeadmControlPlaneInitializationStatus_DeepCopyInto lib = copy_struct
    []"

definition Kany8sKubeadmControlPlaneInitializationStatus_DeepCopy :: "'f deepcopy_lib \<Rightarrow> ('f cell, addr option) copy" where
  "Kany8sKubeadmControlPlaneInitializationStatus_DeepCopy lib = copy_pointer CKany8sKubeadmControlPlaneInitializationStatus get_CKany8sKubeadmControlPlaneInitializationStatus (Kany8sKubeadmControlPlaneInitializationStatus_DeepCopyInto lib)"

definition Kany8sKubeadmControlPlaneStatus_DeepCopyInto :: "'f deepcopy_lib \<Rightarrow> ('f cell, mem_Kany8sKubeadmControlPlaneStatus) copy" where
  "Kany8sKubeadmControlPlaneStatus_DeepCopyInto lib = copy_struct
    [copy_field mkt_Initialization mkt_Initialization_update assign,
     copy_field mkt_Conditions mkt_Conditions_update (copy_slice CConditions get_CConditions (fo_copy (dl_Condition lib))),
     copy_field mkt_FailureReason mkt_FailureReason_update (copy_pointer CString get_CString assign),
     copy_field mkt_FailureMessage mkt_FailureMessage_update (copy_pointer CString get_CString assign)]"

definition Kany8sKubeadmControlPlaneStatus_DeepCopy :: "'f deepcopy_lib \<Rightarrow> ('f cell, addr option) copy" where
  "Kany8sKubeadmControlPlaneStatus_DeepCopy lib = copy_pointer CKany8sKubeadmControlPlaneStatus get_CKany8sKubeadmControlPlaneStatus (Kany8sKubeadmControlPlaneStatus_DeepCopyInto lib)"

definition Kany8sKubeadmControlPlane_DeepCopyInto :: "'f deepcopy_lib \<Rightarrow> ('f cell, 'f mem_Kany8sKubeadmControlPlane) copy" where
  "Kany8sKubeadmControlPlane_DeepCopyInto lib = copy_struct
    [copy_field mkp_TypeMeta mkp_TypeMeta_update assign,
     copy_field mkp_ObjectMeta mkp_ObjectMeta_update (fo_copy (dl_ObjectMeta lib)),
     copy_field mkp_Spec mkp_Spec_update (Kany8sKubeadmControlPlaneSpec_DeepCopyInto lib),
     copy_field mkp_Status mkp_Status_update (Kany8sKubeadmControlPlaneStatus_DeepCopyInto lib)]"

definition Kany8sKubeadmControlPlane_DeepCopy :: "'f deepcopy_lib \<Rightarrow> ('f cell, addr option) copy" where
  "Kany8sKubeadmControlPlane_DeepCopy lib = copy_pointer CKany8sKubeadmControlPlane get_CKany8sKubeadmControlPlane (Kany8sKubeadmControlPlane_DeepCopyInto lib)"

definition Kany8sKubeadmControlPlaneList_DeepCopyInto :: "'f deepcopy_lib \<Rightarrow> ('f cell, 'f mem_Kany8sKubeadmControlPlaneList) copy" where
  "Kany8sKubeadmControlPlaneList_DeepCopyInto lib = copy_struct
    [copy_field mkl_TypeMeta mkl_TypeMeta_update assign,
     copy_field mkl_ListMeta mkl_ListMeta_update (fo_copy (dl_ListMeta lib)),
     copy_field mkl_Items mkl_Items_update (copy_slice CKany8sKubeadmControlPlanes get_CKany8sKubeadmControlPlanes (Kany8sKubeadmControlPlane_DeepCopyInto lib))]"

definition Kany8sKubeadmControlPlaneList_DeepCopy :: "'f deepcopy_lib \<Rightarrow> ('f cell, addr option) copy" where
  "Kany8sKubeadmControlPlaneList_DeepCopy lib = copy_pointer CKany8sKubeadmControlPlaneList get_CKany8sKubeadmControlPlaneList (Kany8sKubeadmControlPlaneList_DeepCopyInto lib)"

definition infra_ResourceGraphDefinitionReference_DeepCopyInto :: "'f deepcopy_lib \<Rightarrow> ('f cell, mem_infra_ResourceGraphDefinitionReference) copy" where
  "infra_ResourceGraphDefinitionReference_DeepCopyInto lib = copy_struct
    []"

definition infra_ResourceGraphDefinitionReference_DeepCopy :: "'f deepcopy_lib \<Rightarrow> ('f cell, addr option) copy" where
  "infra_ResourceGraphDefinitionReference_DeepCopy lib = copy_pointer Cinfra_ResourceGraphDefinitionReference get_Cinfra_ResourceGraphDefinitionReference (infra_ResourceGraphDefinitionReference_DeepCopyInto lib)"

definition Kany8sClusterSpec_DeepCopyInto :: "'f deepcopy_lib \<Rightarrow> ('f cell, mem_Kany8sClusterSpec) copy" where
  "Kany8sClusterSpec_DeepCopyInto lib = copy_struct
    [copy_field mis_ResourceGraphDefinitionRef mis_ResourceGraphDefinitionRef_update (copy_pointer Cinfra_ResourceGraphDefinitionReference get_Cinfra_ResourceGraphDefinitionReference assign),
     copy_field mis_KroSpec mis_KroSpec_update (copy_pointer CJSON get_CJSON (fo_copy (dl_JSON lib)))]"

definition Kany8sClusterSpec_DeepCopy :: "'f deepcopy_lib \<Rightarrow> ('f cell, addr option) copy" where
  "Kany8sClusterSpec_DeepCopy lib = copy_pointer CKany8sClusterSpec get_CKany8sClusterSpec (Kany8sClusterSpec_DeepCopyInto lib)"

definition Kany8sClusterInitializationStatus_DeepCopyInto :: "'f deepcopy_lib \<Rightarrow> ('f cell, mem_Kany8sClusterInitializationStatus) copy" where
  "Kany8sClusterInitializationStatus_DeepCopyInto lib = copy_struct
    []"

definition Kany8sClusterInitializationStatus_DeepCopy :: "'f deepcopy_lib \<Rightarrow> ('f cell, addr option) copy" where
  "Kany8sClusterInitializationStatus_DeepCopy lib = copy_pointer CKany8sClusterInitializationStatus get_CKany8sClusterInitializationStatus (Kany8sClusterInitializationStatus_DeepCopyInto lib)"

definition Kany8sClusterStatus_DeepCopyInto :: "'f deepcopy_lib \<Rightarrow> ('f cell, mem_Kany8sClusterStatus) copy" where
  "Kany8sClusterStatus_DeepCopyInto lib = copy_struct
    [copy_field mit_Initialization mit_Initialization_update assign,
     copy_field mit_Conditions mit_Conditions_update (copy_slice CConditions get_CConditions (fo_copy (dl_Condition lib))),
     copy_field mit_FailureReason mit_FailureReason_update (copy_pointer CString get_CString assign),
     copy_field mit_FailureMessage mit_FailureMessage_update (copy_pointer CString get_CString assign)]"

definition Kany8sClusterStatus_DeepCopy :: "'f deepcopy_lib \<Rightarrow> ('f cell, addr option) copy" where
  "Kany8sClusterStatus_DeepCopy lib = copy_pointer CKany8sClusterStatus get_CKany8sClusterStatus (Kany8sClusterStatus_DeepCopyInto lib)"

definition Kany8sCluster_DeepCopyInto :: "'f deepcopy_lib \<Rightarrow> ('f cell, 'f mem_Kany8sCluster) copy" where
  "Kany8sCluster_DeepCopyInto lib = copy_struct
    [copy_field mic_TypeMeta mic_TypeMeta_update assign,
     copy_field mic_ObjectMeta mic_ObjectMeta_update (fo_copy (dl_ObjectMeta lib)),
     copy_field mic_Spec mic_Spec_update (Kany8sClusterSpec_DeepCopyInto lib),
     copy_field mic_Status mic_Status_update (Kany8sClusterStatus_DeepCopyInto lib)]"

definition Kany8sCluster_DeepCopy :: "'f deepcopy_lib \<Rightarrow> ('f cell, addr option) copy" where
  "Kany8sCluster_DeepCopy lib = copy_pointer CKany8sCluster get_CKany8sCluster (Kany8sCluster_DeepCopyInto lib)"

definition Kany8sClusterList_DeepCopyInto :: "'f deepcopy_lib \<Rightarrow> ('f cell, 'f mem_Kany8sClusterList) copy" where
  "Kany8sClusterList_DeepCopyInto lib = copy_struct
    [copy_field mil_TypeMeta mil_TypeMeta_update assign,
     copy_field mil_ListMeta mil_ListMeta_update (fo_copy (dl_ListMeta lib)),
     copy_field mil_Items mil_Items_update (copy_slice CKany8sClusters get_CKany8sClusters (Kany8sCluster_DeepCopyInto lib))]"

definition Kany8sClusterList_DeepCopy :: "'f deepcopy_lib \<Rightarrow> ('f cell, addr option) copy" where
  "Kany8sClusterList_DeepCopy lib = copy_pointer CKany8sClusterList get_CKany8sClusterList (Kany8sClusterList_DeepCopyInto lib)"

definition Kany8sClusterTemplateResourceSpec_DeepCopyInto :: "'f deepcopy_lib \<Rightarrow> ('f cell, mem_Kany8sClusterTemplateResourceSpec) copy" where
  "Kany8sClusterTemplateResourceSpec_DeepCopyInto lib = copy_struct
    [copy_field mxr_ResourceGraphDefinitionRef mxr_ResourceGraphDefinitionRef_update (copy_pointer Cinfra_ResourceGraphDefinitionReference get_Cinfra_ResourceGraphDefinitionReference assign),
     copy_field mxr_KroSpec mxr_KroSpec_update (copy_pointer CJSON get_CJSON (fo_copy (dl_JSON lib)))]"

definition Kany8sClusterTemplateResourceSpec_DeepCopy :: "'f deepcopy_lib \<Rightarrow> ('f cell, addr option) copy" where
  "Kany8sClusterTemplateResourceSpec_DeepCopy lib = copy_pointer CKany8sClusterTemplateResourceSpec get_CKany8sClusterTemplateResourceSpec (Kany8sClusterTemplateResourceSpec_DeepCopyInto lib)"

definition Kany8sClusterTemplateResource_DeepCopyInto :: "'f deepcopy_lib \<Rightarrow> ('f cell, 'f mem_Kany8sClusterTemplateResource) copy" where
  "Kany8sClusterTemplateResource_DeepCopyInto lib = copy_struct
    [copy_field mxc_ObjectMeta mxc_ObjectMeta_update (fo_copy (dl_TemplateMeta lib)),
     copy_field mxc_Spec mxc_Spec_update (Kany8sClusterTemplateResourceSpec_DeepCopyInto lib)]"

definition Kany8sClusterTemplateResource_DeepCopy :: "'f deepcopy_lib \<Rightarrow> ('f cell, addr option) copy" where
  "Kany8sClusterTemplateResource_DeepCopy lib = copy_pointer CKany8sClusterTemplateResource get_CKany8sClusterTemplateResource (Kany8sClusterTemplateResource_DeepCopyInto lib)"

definition Kany8sClusterTemplateSpec_DeepCopyInto :: "'f deepcopy_lib \<Rightarrow> ('f cell, 'f mem_Kany8sClusterTemplateSpec) copy" where
  "Kany8sClusterTemplateSpec_DeepCopyInto lib = copy_struct
    [copy_field mxt_Template mxt_Template_update (Kany8sClusterTemplateResource_DeepCopyInto lib)]"

definition Kany8sClusterTemplateSpec_DeepCopy :: "'f deepcopy_lib \<Rightarrow> ('f cell, addr option) copy" where
  "Kany8sClusterTemplateSpec_DeepCopy lib = copy_pointer CKany8sClusterTemplateSpec get_CKany8sClusterTemplateSpec (Kany8sClusterTemplateSpec_DeepCopyInto lib)"

definition Kany8sClusterTemplate_DeepCopyInto :: "'f deepcopy_lib \<Rightarrow> ('f cell, 'f mem_Kany8sClusterTemplate) copy" where
  "Kany8sClusterTemplate_DeepCopyInto lib = copy_struct
    [copy_field mxp_TypeMeta mxp_TypeMeta_update assign,
     copy_field mxp_ObjectMeta mxp_ObjectMeta_update (fo_copy (dl_ObjectMeta lib)),
     copy_field mxp_Spec mxp_Spec_update (Kany8sClusterTemplateSpec_DeepCopyInto lib)]"

definition Kany8sClusterTemplate_DeepCopy :: "'f deepcopy_lib \<Rightarrow> ('f cell, addr option) copy" where
  "Kany8sClusterTemplate_DeepCopy lib = copy_pointer CKany8sClusterTemplate get_CKany8sClusterTemplate (Kany8sClusterTemplate_DeepCopyInto lib)"

definition Kany8sClusterTemplateList_DeepCopyInto :: "'f deepcopy_lib \<Rightarrow> ('f cell, 'f mem_Kany8sClusterTemplateList) copy" where
  "Kany8sClusterTemplateList_DeepCopyInto lib = copy_struct
    [copy_field mxl_TypeMeta mxl_TypeMeta_update assign,
     copy_field mxl_ListMeta mxl_ListMeta_update (fo_copy (dl_ListMeta lib)),
     copy_field mxl_Items mxl_Items_update (copy_slice CKany8sClusterTemplates get_CKany8sClusterTemplates (Kany8sClusterTemplate_DeepCopyInto lib))]"

definition Kany8sClusterTemplateList_DeepCopy :: "'f deepcopy_lib \<Rightarrow> ('f cell, addr option) copy" where
  "Kany8sClusterTemplateList_DeepCopy lib = copy_pointer CKany8sClusterTemplateList get_CKany8sClusterTemplateList (Kany8sClusterTemplateList_DeepCopyInto lib)"

section \<open>Objects behind the interface\<close>

text \<open>
  A \<open>runtime.Object\<close>: a pointer with its type; \<open>None\<close>, further below, is the nil interface.
\<close>

datatype runtime_object =
    Kany8sControlPlaneObject "addr option"
  | Kany8sControlPlaneListObject "addr option"
  | Kany8sControlPlaneTemplateObject "addr option"
  | Kany8sControlPlaneTemplateListObject "addr option"
  | Kany8sKubeadmControlPlaneObject "addr option"
  | Kany8sKubeadmControlPlaneListObject "addr option"
  | Kany8sClusterObject "addr option"
  | Kany8sClusterListObject "addr option"
  | Kany8sClusterTemplateObject "addr option"
  | Kany8sClusterTemplateListObject "addr option"

definition Kany8sControlPlane_DeepCopyObject ::
    "'f deepcopy_lib \<Rightarrow> addr option \<Rightarrow> 'f cell heap \<Rightarrow> runtime_object option \<times> 'f cell heap" where
  "Kany8sControlPlane_DeepCopyObject lib p h =
     (case Kany8sControlPlane_DeepCopy lib p h of
        (Some c, h') \<Rightarrow> (Some (Kany8sControlPlaneObject (Some c)), h')
      | (None, h') \<Rightarrow> (None, h'))"

definition Kany8sControlPlaneList_DeepCopyObject ::
    "'f deepcopy_lib \<Rightarrow> addr option \<Rightarrow> 'f cell heap \<Rightarrow> runtime_object option \<times> 'f cell heap" where
  "Kany8sControlPlaneList_DeepCopyObject lib p h =
     (case Kany8sControlPlaneList_DeepCopy lib p h of
        (Some c, h') \<Rightarrow> (Some (Kany8sControlPlaneListObject (Some c)), h')
      | (None, h') \<Rightarrow> (None, h'))"

definition Kany8sControlPlaneTemplate_DeepCopyObject ::
    "'f deepcopy_lib \<Rightarrow> addr option \<Rightarrow> 'f cell heap \<Rightarrow> runtime_object option \<times> 'f cell heap" where
  "Kany8sControlPlaneTemplate_DeepCopyObject lib p h =
     (case Kany8sControlPlaneTemplate_DeepCopy lib p h of
        (Some c, h') \<Rightarrow> (Some (Kany8sControlPlaneTemplateObject (Some c)), h')
      | (None, h') \<Rightarrow> (None, h'))"

definition Kany8sControlPlaneTemplateList_DeepCopyObject ::
    "'f deepcopy_lib \<Rightarrow> addr option \<Rightarrow> 'f cell heap \<Rightarrow> runtime_object option \<times> 'f cell heap" where
  "Kany8sControlPlaneTemplateList_DeepCopyObject lib p h =
     (case Kany8sControlPlaneTemplateList_DeepCopy lib p h of
        (Some c, h') \<Rightarrow> (Some (Kany8sControlPlaneTemplateListObject (Some c)), h')
      | (None, h') \<Rightarrow> (None, h'))"

definition Kany8sKubeadmControlPlane_DeepCopyObject ::
    "'f deepcopy_lib \<Rightarrow> addr option \<Rightarrow> 'f cell heap \<Rightarrow> runtime_object option \<times> 'f cell heap" where
  "Kany8sKubeadmControlPlane_DeepCopyObject lib p h =
     (case Kany8sKubeadmControlPlane_DeepCopy lib p h of
        (Some c, h') \<Rightarrow> (Some (Kany8sKubeadmControlPlaneObject (Some c)), h')
      | (None, h') \<Rightarrow> (None, h'))"

definition Kany8sKubeadmControlPlaneList_DeepCopyObject ::
    "'f deepcopy_lib \<Rightarrow> addr option \<Rightarrow> 'f cell heap \<Rightarrow> runtime_object option \<times> 'f cell heap" where
  "Kany8sKubeadmControlPlaneList_DeepCopyObject lib p h =
     (case Kany8sKubeadmControlPlaneList_DeepCopy lib p h of
        (Some c, h') \<Rightarrow> (Some (Kany8sKubeadmControlPlaneListObject (Some c)), h')
      | (None, h') \<Rightarrow> (None, h'))"

definition Kany8sCluster_DeepCopyObject ::
    "'f deepcopy_lib \<Rightarrow> addr option \<Rightarrow> 'f cell heap \<Rightarrow> runtime_object option \<times> 'f cell heap" where
  "Kany8sCluster_DeepCopyObject lib p h =
     (case Kany8sCluster_DeepCopy lib p h of
        (Some c, h') \<Rightarrow> (Some (Kany8sClusterObject (Some c)), h')
      | (None, h') \<Rightarrow> (None, h'))"

definition Kany8sClusterList_DeepCopyObject ::
    "'f deepcopy_lib \<Rightarrow> addr option \<Rightarrow> 'f cell heap \<Rightarrow> runtime_object option \<times> 'f cell heap" where
  "Kany8sClusterList_DeepCopyObject lib p h =
     (case Kany8sClusterList_DeepCopy lib p h of
        (Some c, h') \<Rightarrow> (Some (Kany8sClusterListObject (Some c)), h')
      | (None, h') \<Rightarrow> (None, h'))"

definition Kany8sClusterTemplate_DeepCopyObject ::
    "'f deepcopy_lib \<Rightarrow> addr option \<Rightarrow> 'f cell heap \<Rightarrow> runtime_object option \<times> 'f cell heap" where
  "Kany8sClusterTemplate_DeepCopyObject lib p h =
     (case Kany8sClusterTemplate_DeepCopy lib p h of
        (Some c, h') \<Rightarrow> (Some (Kany8sClusterTemplateObject (Some c)), h')
      | (None, h') \<Rightarrow> (None, h'))"

definition Kany8sClusterTemplateList_DeepCopyObject ::
    "'f deepcopy_lib \<Rightarrow> addr option \<Rightarrow> 'f cell heap \<Rightarrow> runtime_object option \<times> 'f cell heap" where
  "Kany8sClusterTemplateList_DeepCopyObject lib p h =
     (case Kany8sClusterTemplateList_DeepCopy lib p h of
        (Some c, h') \<Rightarrow> (Some (Kany8sClusterTemplateListObject (Some c)), h')
      | (None, h') \<Rightarrow> (None, h'))"

text \<open>The method of the interface, by the type of the object.\<close>

definition DeepCopyObject ::
    "'f deepcopy_lib \<Rightarrow> runtime_object \<Rightarrow> 'f cell heap \<Rightarrow> runtime_object option \<times> 'f cell heap" where
  "DeepCopyObject lib ob h =
     (case ob of
        Kany8sControlPlaneObject p \<Rightarrow> Kany8sControlPlane_DeepCopyObject lib p h
      | Kany8sControlPlaneListObject p \<Rightarrow> Kany8sControlPlaneList_DeepCopyObject lib p h
      | Kany8sControlPlaneTemplateObject p \<Rightarrow> Kany8sControlPlaneTemplate_DeepCopyObject lib p h
      | Kany8sControlPlaneTemplateListObject p \<Rightarrow> Kany8sControlPlaneTemplateList_DeepCopyObject lib p h
      | Kany8sKubeadmControlPlaneObject p \<Rightarrow> Kany8sKubeadmControlPlane_DeepCopyObject lib p h
      | Kany8sKubeadmControlPlaneListObject p \<Rightarrow> Kany8sKubeadmControlPlaneList_DeepCopyObject lib p h
      | Kany8sClusterObject p \<Rightarrow> Kany8sCluster_DeepCopyObject lib p h
      | Kany8sClusterListObject p \<Rightarrow> Kany8sClusterList_DeepCopyObject lib p h
      | Kany8sClusterTemplateObject p \<Rightarrow> Kany8sClusterTemplate_DeepCopyObject lib p h
      | Kany8sClusterTemplateListObject p \<Rightarrow> Kany8sClusterTemplateList_DeepCopyObject lib p h)"

definition object_pointer :: "runtime_object \<Rightarrow> addr option" where
  "object_pointer ob = (case ob of Kany8sControlPlaneObject p \<Rightarrow> p | Kany8sControlPlaneListObject p \<Rightarrow> p | Kany8sControlPlaneTemplateObject p \<Rightarrow> p | Kany8sControlPlaneTemplateListObject p \<Rightarrow> p | Kany8sKubeadmControlPlaneObject p \<Rightarrow> p | Kany8sKubeadmControlPlaneListObject p \<Rightarrow> p | Kany8sClusterObject p \<Rightarrow> p | Kany8sClusterListObject p \<Rightarrow> p | Kany8sClusterTemplateObject p \<Rightarrow> p | Kany8sClusterTemplateListObject p \<Rightarrow> p)"

text \<open>An object of the same type with another pointer.\<close>

definition with_pointer :: "addr option \<Rightarrow> runtime_object \<Rightarrow> runtime_object" where
  "with_pointer q ob = (case ob of
        Kany8sControlPlaneObject _ \<Rightarrow> Kany8sControlPlaneObject q
      | Kany8sControlPlaneListObject _ \<Rightarrow> Kany8sControlPlaneListObject q
      | Kany8sControlPlaneTemplateObject _ \<Rightarrow> Kany8sControlPlaneTemplateObject q
      | Kany8sControlPlaneTemplateListObject _ \<Rightarrow> Kany8sControlPlaneTemplateListObject q
      | Kany8sKubeadmControlPlaneObject _ \<Rightarrow> Kany8sKubeadmControlPlaneObject q
      | Kany8sKubeadmControlPlaneListObject _ \<Rightarrow> Kany8sKubeadmControlPlaneListObject q
      | Kany8sClusterObject _ \<Rightarrow> Kany8sClusterObject q
      | Kany8sClusterListObject _ \<Rightarrow> Kany8sClusterListObject q
      | Kany8sClusterTemplateObject _ \<Rightarrow> Kany8sClusterTemplateObject q
      | Kany8sClusterTemplateListObject _ \<Rightarrow> Kany8sClusterTemplateListObject q)"

text \<open>What an object is in memory: what its pointer is, at its type.\<close>

definition object_type :: "'f deepcopy_lib \<Rightarrow> runtime_object \<Rightarrow> ('f cell, atom, addr option) go_type" where
  "object_type lib ob = (case ob of
        Kany8sControlPlaneObject _ \<Rightarrow> pointer_type get_CKany8sControlPlane (Kany8sControlPlane_type lib)
      | Kany8sControlPlaneListObject _ \<Rightarrow> pointer_type get_CKany8sControlPlaneList (Kany8sControlPlaneList_type lib)
      | Kany8sControlPlaneTemplateObject _ \<Rightarrow> pointer_type get_CKany8sControlPlaneTemplate (Kany8sControlPlaneTemplate_type lib)
      | Kany8sControlPlaneTemplateListObject _ \<Rightarrow> pointer_type get_CKany8sControlPlaneTemplateList (Kany8sControlPlaneTemplateList_type lib)
      | Kany8sKubeadmControlPlaneObject _ \<Rightarrow> pointer_type get_CKany8sKubeadmControlPlane (Kany8sKubeadmControlPlane_type lib)
      | Kany8sKubeadmControlPlaneListObject _ \<Rightarrow> pointer_type get_CKany8sKubeadmControlPlaneList (Kany8sKubeadmControlPlaneList_type lib)
      | Kany8sClusterObject _ \<Rightarrow> pointer_type get_CKany8sCluster (Kany8sCluster_type lib)
      | Kany8sClusterListObject _ \<Rightarrow> pointer_type get_CKany8sClusterList (Kany8sClusterList_type lib)
      | Kany8sClusterTemplateObject _ \<Rightarrow> pointer_type get_CKany8sClusterTemplate (Kany8sClusterTemplate_type lib)
      | Kany8sClusterTemplateListObject _ \<Rightarrow> pointer_type get_CKany8sClusterTemplateList (Kany8sClusterTemplateList_type lib))"

definition object_copy :: "'f deepcopy_lib \<Rightarrow> runtime_object \<Rightarrow> ('f cell, addr option) copy" where
  "object_copy lib ob = (case ob of
        Kany8sControlPlaneObject _ \<Rightarrow> Kany8sControlPlane_DeepCopy lib
      | Kany8sControlPlaneListObject _ \<Rightarrow> Kany8sControlPlaneList_DeepCopy lib
      | Kany8sControlPlaneTemplateObject _ \<Rightarrow> Kany8sControlPlaneTemplate_DeepCopy lib
      | Kany8sControlPlaneTemplateListObject _ \<Rightarrow> Kany8sControlPlaneTemplateList_DeepCopy lib
      | Kany8sKubeadmControlPlaneObject _ \<Rightarrow> Kany8sKubeadmControlPlane_DeepCopy lib
      | Kany8sKubeadmControlPlaneListObject _ \<Rightarrow> Kany8sKubeadmControlPlaneList_DeepCopy lib
      | Kany8sClusterObject _ \<Rightarrow> Kany8sCluster_DeepCopy lib
      | Kany8sClusterListObject _ \<Rightarrow> Kany8sClusterList_DeepCopy lib
      | Kany8sClusterTemplateObject _ \<Rightarrow> Kany8sClusterTemplate_DeepCopy lib
      | Kany8sClusterTemplateListObject _ \<Rightarrow> Kany8sClusterTemplateList_DeepCopy lib)"

section \<open>They copy deeply\<close>

lemma foreign_copies:
  assumes "deepcopy_lib_ok lib"
  shows "deep_copies (fo_type (dl_ObjectMeta lib)) (fo_copy (dl_ObjectMeta lib))"
    "deep_copies (fo_type (dl_ListMeta lib)) (fo_copy (dl_ListMeta lib))"
    "deep_copies (fo_type (dl_TemplateMeta lib)) (fo_copy (dl_TemplateMeta lib))"
    "deep_copies (fo_type (dl_Condition lib)) (fo_copy (dl_Condition lib))"
    "deep_copies (fo_type (dl_JSON lib)) (fo_copy (dl_JSON lib))"
    "deep_copies (fo_type (dl_KubeadmConfigSpec lib)) (fo_copy (dl_KubeadmConfigSpec lib))"
  using assms by (simp_all add: deepcopy_lib_ok_def)

lemmas copy_rules = field_step field_keeps field_plain pointer_copies slice_copies assign_copies foreign_copies

lemma ResourceGraphDefinitionReference_copies: "deepcopy_lib_ok lib \<Longrightarrow> deep_copies (ResourceGraphDefinitionReference_type lib) (ResourceGraphDefinitionReference_DeepCopyInto lib)"
  unfolding ResourceGraphDefinitionReference_type_def ResourceGraphDefinitionReference_DeepCopyInto_def
  by (rule struct_copies) (simp, (intro conjI copy_rules ; simp)?)

lemma ResourceGraphDefinitionReference_assigned: "deep_copies (ResourceGraphDefinitionReference_type lib) assign"
  unfolding ResourceGraphDefinitionReference_type_def by (simp add: assign_struct_copies field_plain)

lemma Kany8sKubeadmControlPlaneMachineTemplate_copies: "deepcopy_lib_ok lib \<Longrightarrow> deep_copies (Kany8sKubeadmControlPlaneMachineTemplate_type lib) (Kany8sKubeadmControlPlaneMachineTemplate_DeepCopyInto lib)"
  unfolding Kany8sKubeadmControlPlaneMachineTemplate_type_def Kany8sKubeadmControlPlaneMachineTemplate_DeepCopyInto_def
  by (rule struct_copies) (simp, (intro conjI copy_rules ; simp)?)

lemma Kany8sKubeadmControlPlaneMachineTemplate_assigned: "deep_copies (Kany8sKubeadmControlPlaneMachineTemplate_type lib) assign"
  unfolding Kany8sKubeadmControlPlaneMachineTemplate_type_def by (simp add: assign_struct_copies field_plain)

lemma Kany8sControlPlaneKubeadmSpec_copies: "deepcopy_lib_ok lib \<Longrightarrow> deep_copies (Kany8sControlPlaneKubeadmSpec_type lib) (Kany8sControlPlaneKubeadmSpec_DeepCopyInto lib)"
  unfolding Kany8sControlPlaneKubeadmSpec_type_def Kany8sControlPlaneKubeadmSpec_DeepCopyInto_def
  by (rule struct_copies) (simp, (intro conjI copy_rules Kany8sKubeadmControlPlaneMachineTemplate_assigned; simp)?)

lemma Kany8sControlPlaneExternalBackendSpec_copies: "deepcopy_lib_ok lib \<Longrightarrow> deep_copies (Kany8sControlPlaneExternalBackendSpec_type lib) (Kany8sControlPlaneExternalBackendSpec_DeepCopyInto lib)"
  unfolding Kany8sControlPlaneExternalBackendSpec_type_def Kany8sControlPlaneExternalBackendSpec_DeepCopyInto_def
  by (rule struct_copies) (simp, (intro conjI copy_rules ; simp)?)

lemma Kany8sControlPlaneSpec_copies: "deepcopy_lib_ok lib \<Longrightarrow> deep_copies (Kany8sControlPlaneSpec_type lib) (Kany8sControlPlaneSpec_DeepCopyInto lib)"
  unfolding Kany8sControlPlaneSpec_type_def Kany8sControlPlaneSpec_DeepCopyInto_def
  by (rule struct_copies) (simp, (intro conjI copy_rules Kany8sControlPlaneExternalBackendSpec_copies Kany8sControlPlaneKubeadmSpec_copies ResourceGraphDefinitionReference_assigned; simp)?)

lemma Kany8sControlPlaneInitializationStatus_copies: "deepcopy_lib_ok lib \<Longrightarrow> deep_copies (Kany8sControlPlaneInitializationStatus_type lib) (Kany8sControlPlaneInitializationStatus_DeepCopyInto lib)"
  unfolding Kany8sControlPlaneInitializationStatus_type_def Kany8sControlPlaneInitializationStatus_DeepCopyInto_def
  by (rule struct_copies) (simp, (intro conjI copy_rules ; simp)?)

lemma Kany8sControlPlaneInitializationStatus_assigned: "deep_copies (Kany8sControlPlaneInitializationStatus_type lib) assign"
  unfolding Kany8sControlPlaneInitializationStatus_type_def by (simp add: assign_struct_copies field_plain)

lemma Kany8sControlPlaneStatus_copies: "deepcopy_lib_ok lib \<Longrightarrow> deep_copies (Kany8sControlPlaneStatus_type lib) (Kany8sControlPlaneStatus_DeepCopyInto lib)"
  unfolding Kany8sControlPlaneStatus_type_def Kany8sControlPlaneStatus_DeepCopyInto_def
  by (rule struct_copies) (simp, (intro conjI copy_rules Kany8sControlPlaneInitializationStatus_assigned; simp)?)

lemma Kany8sControlPlane_copies: "deepcopy_lib_ok lib \<Longrightarrow> deep_copies (Kany8sControlPlane_type lib) (Kany8sControlPlane_DeepCopyInto lib)"
  unfolding Kany8sControlPlane_type_def Kany8sControlPlane_DeepCopyInto_def
  by (rule struct_copies) (simp, (intro conjI copy_rules Kany8sControlPlaneSpec_copies Kany8sControlPlaneStatus_copies; simp)?)

lemma Kany8sControlPlaneList_copies: "deepcopy_lib_ok lib \<Longrightarrow> deep_copies (Kany8sControlPlaneList_type lib) (Kany8sControlPlaneList_DeepCopyInto lib)"
  unfolding Kany8sControlPlaneList_type_def Kany8sControlPlaneList_DeepCopyInto_def
  by (rule struct_copies) (simp, (intro conjI copy_rules Kany8sControlPlane_copies; simp)?)

lemma Kany8sControlPlaneTemplateResourceSpec_copies: "deepcopy_lib_ok lib \<Longrightarrow> deep_copies (Kany8sControlPlaneTemplateResourceSpec_type lib) (Kany8sControlPlaneTemplateResourceSpec_DeepCopyInto lib)"
  unfolding Kany8sControlPlaneTemplateResourceSpec_type_def Kany8sControlPlaneTemplateResourceSpec_DeepCopyInto_def
  by (rule struct_copies) (simp, (intro conjI copy_rules Kany8sControlPlaneExternalBackendSpec_copies Kany8sControlPlaneKubeadmSpec_copies ResourceGraphDefinitionReference_assigned; simp)?)

lemma Kany8sControlPlaneTemplateResource_copies: "deepcopy_lib_ok lib \<Longrightarrow> deep_copies (Kany8sControlPlaneTemplateResource_type lib) (Kany8sControlPlaneTemplateResource_DeepCopyInto lib)"
  unfolding Kany8sControlPlaneTemplateResource_type_def Kany8sControlPlaneTemplateResource_DeepCopyInto_def
  by (rule struct_copies) (simp, (intro conjI copy_rules Kany8sControlPlaneTemplateResourceSpec_copies; simp)?)

lemma Kany8sControlPlaneTemplateSpec_copies: "deepcopy_lib_ok lib \<Longrightarrow> deep_copies (Kany8sControlPlaneTemplateSpec_type lib) (Kany8sControlPlaneTemplateSpec_DeepCopyInto lib)"
  unfolding Kany8sControlPlaneTemplateSpec_type_def Kany8sControlPlaneTemplateSpec_DeepCopyInto_def
  by (rule struct_copies) (simp, (intro conjI copy_rules Kany8sControlPlaneTemplateResource_copies; simp)?)

lemma Kany8sControlPlaneTemplate_copies: "deepcopy_lib_ok lib \<Longrightarrow> deep_copies (Kany8sControlPlaneTemplate_type lib) (Kany8sControlPlaneTemplate_DeepCopyInto lib)"
  unfolding Kany8sControlPlaneTemplate_type_def Kany8sControlPlaneTemplate_DeepCopyInto_def
  by (rule struct_copies) (simp, (intro conjI copy_rules Kany8sControlPlaneTemplateSpec_copies; simp)?)

lemma Kany8sControlPlaneTemplateList_copies: "deepcopy_lib_ok lib \<Longrightarrow> deep_copies (Kany8sControlPlaneTemplateList_type lib) (Kany8sControlPlaneTemplateList_DeepCopyInto lib)"
  unfolding Kany8sControlPlaneTemplateList_type_def Kany8sControlPlaneTemplateList_DeepCopyInto_def
  by (rule struct_copies) (simp, (intro conjI copy_rules Kany8sControlPlaneTemplate_copies; simp)?)

lemma Kany8sKubeadmControlPlaneSpec_copies: "deepcopy_lib_ok lib \<Longrightarrow> deep_copies (Kany8sKubeadmControlPlaneSpec_type lib) (Kany8sKubeadmControlPlaneSpec_DeepCopyInto lib)"
  unfolding Kany8sKubeadmControlPlaneSpec_type_def Kany8sKubeadmControlPlaneSpec_DeepCopyInto_def
  by (rule struct_copies) (simp, (intro conjI copy_rules Kany8sKubeadmControlPlaneMachineTemplate_assigned; simp)?)

lemma Kany8sKubeadmControlPlaneInitializationStatus_copies: "deepcopy_lib_ok lib \<Longrightarrow> deep_copies (Kany8sKubeadmControlPlaneInitializationStatus_type lib) (Kany8sKubeadmControlPlaneInitializationStatus_DeepCopyInto lib)"
  unfolding Kany8sKubeadmControlPlaneInitializationStatus_type_def Kany8sKubeadmControlPlaneInitializationStatus_DeepCopyInto_def
  by (rule struct_copies) (simp, (intro conjI copy_rules ; simp)?)

lemma Kany8sKubeadmControlPlaneInitializationStatus_assigned: "deep_copies (Kany8sKubeadmControlPlaneInitializationStatus_type lib) assign"
  unfolding Kany8sKubeadmControlPlaneInitializationStatus_type_def by (simp add: assign_struct_copies field_plain)

lemma Kany8sKubeadmControlPlaneStatus_copies: "deepcopy_lib_ok lib \<Longrightarrow> deep_copies (Kany8sKubeadmControlPlaneStatus_type lib) (Kany8sKubeadmControlPlaneStatus_DeepCopyInto lib)"
  unfolding Kany8sKubeadmControlPlaneStatus_type_def Kany8sKubeadmControlPlaneStatus_DeepCopyInto_def
  by (rule struct_copies) (simp, (intro conjI copy_rules Kany8sKubeadmControlPlaneInitializationStatus_assigned; simp)?)

lemma Kany8sKubeadmControlPlane_copies: "deepcopy_lib_ok lib \<Longrightarrow> deep_copies (Kany8sKubeadmControlPlane_type lib) (Kany8sKubeadmControlPlane_DeepCopyInto lib)"
  unfolding Kany8sKubeadmControlPlane_type_def Kany8sKubeadmControlPlane_DeepCopyInto_def
  by (rule struct_copies) (simp, (intro conjI copy_rules Kany8sKubeadmControlPlaneSpec_copies Kany8sKubeadmControlPlaneStatus_copies; simp)?)

lemma Kany8sKubeadmControlPlaneList_copies: "deepcopy_lib_ok lib \<Longrightarrow> deep_copies (Kany8sKubeadmControlPlaneList_type lib) (Kany8sKubeadmControlPlaneList_DeepCopyInto lib)"
  unfolding Kany8sKubeadmControlPlaneList_type_def Kany8sKubeadmControlPlaneList_DeepCopyInto_def
  by (rule struct_copies) (simp, (intro conjI copy_rules Kany8sKubeadmControlPlane_copies; simp)?)

lemma infra_ResourceGraphDefinitionReference_copies: "deepcopy_lib_ok lib \<Longrightarrow> deep_copies (infra_ResourceGraphDefinitionReference_type lib) (infra_ResourceGraphDefinitionReference_DeepCopyInto lib)"
  unfolding infra_ResourceGraphDefinitionReference_type_def infra_ResourceGraphDefinitionReference_DeepCopyInto_def
  by (rule struct_copies) (simp, (intro conjI copy_rules ; simp)?)

lemma infra_ResourceGraphDefinitionReference_assigned: "deep_copies (infra_ResourceGraphDefinitionReference_type lib) assign"
  unfolding infra_ResourceGraphDefinitionReference_type_def by (simp add: assign_struct_copies field_plain)

lemma Kany8sClusterSpec_copies: "deepcopy_lib_ok lib \<Longrightarrow> deep_copies (Kany8sClusterSpec_type lib) (Kany8sClusterSpec_DeepCopyInto lib)"
  unfolding Kany8sClusterSpec_type_def Kany8sClusterSpec_DeepCopyInto_def
  by (rule struct_copies) (simp, (intro conjI copy_rules infra_ResourceGraphDefinitionReference_assigned; simp)?)

lemma Kany8sClusterInitializationStatus_copies: "deepcopy_lib_ok lib \<Longrightarrow> deep_copies (Kany8sClusterInitializationStatus_type lib) (Kany8sClusterInitializationStatus_DeepCopyInto lib)"
  unfolding Kany8sClusterInitializationStatus_type_def Kany8sClusterInitializationStatus_DeepCopyInto_def
  by (rule struct_copies) (simp, (intro conjI copy_rules ; simp)?)

lemma Kany8sClusterInitializationStatus_assigned: "deep_copies (Kany8sClusterInitializationStatus_type lib) assign"
  unfolding Kany8sClusterInitializationStatus_type_def by (simp add: assign_struct_copies field_plain)

lemma Kany8sClusterStatus_copies: "deepcopy_lib_ok lib \<Longrightarrow> deep_copies (Kany8sClusterStatus_type lib) (Kany8sClusterStatus_DeepCopyInto lib)"
  unfolding Kany8sClusterStatus_type_def Kany8sClusterStatus_DeepCopyInto_def
  by (rule struct_copies) (simp, (intro conjI copy_rules Kany8sClusterInitializationStatus_assigned; simp)?)

lemma Kany8sCluster_copies: "deepcopy_lib_ok lib \<Longrightarrow> deep_copies (Kany8sCluster_type lib) (Kany8sCluster_DeepCopyInto lib)"
  unfolding Kany8sCluster_type_def Kany8sCluster_DeepCopyInto_def
  by (rule struct_copies) (simp, (intro conjI copy_rules Kany8sClusterSpec_copies Kany8sClusterStatus_copies; simp)?)

lemma Kany8sClusterList_copies: "deepcopy_lib_ok lib \<Longrightarrow> deep_copies (Kany8sClusterList_type lib) (Kany8sClusterList_DeepCopyInto lib)"
  unfolding Kany8sClusterList_type_def Kany8sClusterList_DeepCopyInto_def
  by (rule struct_copies) (simp, (intro conjI copy_rules Kany8sCluster_copies; simp)?)

lemma Kany8sClusterTemplateResourceSpec_copies: "deepcopy_lib_ok lib \<Longrightarrow> deep_copies (Kany8sClusterTemplateResourceSpec_type lib) (Kany8sClusterTemplateResourceSpec_DeepCopyInto lib)"
  unfolding Kany8sClusterTemplateResourceSpec_type_def Kany8sClusterTemplateResourceSpec_DeepCopyInto_def
  by (rule struct_copies) (simp, (intro conjI copy_rules infra_ResourceGraphDefinitionReference_assigned; simp)?)

lemma Kany8sClusterTemplateResource_copies: "deepcopy_lib_ok lib \<Longrightarrow> deep_copies (Kany8sClusterTemplateResource_type lib) (Kany8sClusterTemplateResource_DeepCopyInto lib)"
  unfolding Kany8sClusterTemplateResource_type_def Kany8sClusterTemplateResource_DeepCopyInto_def
  by (rule struct_copies) (simp, (intro conjI copy_rules Kany8sClusterTemplateResourceSpec_copies; simp)?)

lemma Kany8sClusterTemplateSpec_copies: "deepcopy_lib_ok lib \<Longrightarrow> deep_copies (Kany8sClusterTemplateSpec_type lib) (Kany8sClusterTemplateSpec_DeepCopyInto lib)"
  unfolding Kany8sClusterTemplateSpec_type_def Kany8sClusterTemplateSpec_DeepCopyInto_def
  by (rule struct_copies) (simp, (intro conjI copy_rules Kany8sClusterTemplateResource_copies; simp)?)

lemma Kany8sClusterTemplate_copies: "deepcopy_lib_ok lib \<Longrightarrow> deep_copies (Kany8sClusterTemplate_type lib) (Kany8sClusterTemplate_DeepCopyInto lib)"
  unfolding Kany8sClusterTemplate_type_def Kany8sClusterTemplate_DeepCopyInto_def
  by (rule struct_copies) (simp, (intro conjI copy_rules Kany8sClusterTemplateSpec_copies; simp)?)

lemma Kany8sClusterTemplateList_copies: "deepcopy_lib_ok lib \<Longrightarrow> deep_copies (Kany8sClusterTemplateList_type lib) (Kany8sClusterTemplateList_DeepCopyInto lib)"
  unfolding Kany8sClusterTemplateList_type_def Kany8sClusterTemplateList_DeepCopyInto_def
  by (rule struct_copies) (simp, (intro conjI copy_rules Kany8sClusterTemplate_copies; simp)?)

section \<open>The objects\<close>

lemmas type_copies = Kany8sControlPlane_copies Kany8sControlPlaneList_copies Kany8sControlPlaneTemplate_copies
  Kany8sControlPlaneTemplateList_copies Kany8sKubeadmControlPlane_copies Kany8sKubeadmControlPlaneList_copies
  Kany8sCluster_copies Kany8sClusterList_copies Kany8sClusterTemplate_copies Kany8sClusterTemplateList_copies

lemmas object_copy_defs = Kany8sControlPlane_DeepCopy_def Kany8sControlPlaneList_DeepCopy_def
  Kany8sControlPlaneTemplate_DeepCopy_def Kany8sControlPlaneTemplateList_DeepCopy_def
  Kany8sKubeadmControlPlane_DeepCopy_def Kany8sKubeadmControlPlaneList_DeepCopy_def Kany8sCluster_DeepCopy_def
  Kany8sClusterList_DeepCopy_def Kany8sClusterTemplate_DeepCopy_def Kany8sClusterTemplateList_DeepCopy_def

lemmas object_method_defs = Kany8sControlPlane_DeepCopyObject_def Kany8sControlPlaneList_DeepCopyObject_def
  Kany8sControlPlaneTemplate_DeepCopyObject_def Kany8sControlPlaneTemplateList_DeepCopyObject_def
  Kany8sKubeadmControlPlane_DeepCopyObject_def Kany8sKubeadmControlPlaneList_DeepCopyObject_def
  Kany8sCluster_DeepCopyObject_def Kany8sClusterList_DeepCopyObject_def Kany8sClusterTemplate_DeepCopyObject_def
  Kany8sClusterTemplateList_DeepCopyObject_def

lemma object_copies: "deepcopy_lib_ok lib \<Longrightarrow> deep_copies (object_type lib ob) (object_copy lib ob)"
  by (cases ob) (auto simp: object_type_def object_copy_def object_copy_defs intro!: pointer_copies type_copies)

lemma DeepCopyObject_pointer:
  "DeepCopyObject lib ob h = (case object_copy lib ob (object_pointer ob) h of
     (Some a, h') \<Rightarrow> (Some (with_pointer (Some a) ob), h') | (None, h') \<Rightarrow> (None, h'))"
  by (cases ob) (simp_all add: DeepCopyObject_def object_copy_def object_pointer_def with_pointer_def object_method_defs
      split: prod.split option.split)

lemma object_type_same: "object_type lib (with_pointer q ob) = object_type lib ob"
  by (cases ob) (simp_all add: object_type_def with_pointer_def)

lemma pointer_with [simp]: "object_pointer (with_pointer q ob) = q"
  by (cases ob) (simp_all add: object_pointer_def with_pointer_def)

lemma object_copy_nil:
  "object_copy lib ob p h = (q, h') \<Longrightarrow> gt_valid (object_type lib ob) h p \<Longrightarrow> (q = None \<longleftrightarrow> p = None) \<and> (p = None \<longrightarrow> h' = h)"
  by (cases ob; cases p)
    (auto simp: object_copy_def object_copy_defs copy_pointer_def object_type_def pointer_type_def split: option.splits prod.splits)

section \<open>Conditions and registration\<close>

text \<open>
  \<open>GetConditions\<close> hands out the slice of the object itself, \<open>SetConditions\<close> stores the
  slice it is given: both share the array with the caller.
\<close>

definition Kany8sControlPlane_GetConditions :: "'f mem_Kany8sControlPlane \<Rightarrow> slice option" where
  "Kany8sControlPlane_GetConditions r = mct_Conditions (mcp_Status r)"

definition Kany8sControlPlane_SetConditions :: "slice option \<Rightarrow> 'f mem_Kany8sControlPlane \<Rightarrow> 'f mem_Kany8sControlPlane" where
  "Kany8sControlPlane_SetConditions cs r = r\<lparr>mcp_Status := (mcp_Status r)\<lparr>mct_Conditions := cs\<rparr>\<rparr>"

definition Kany8sKubeadmControlPlane_GetConditions :: "'f mem_Kany8sKubeadmControlPlane \<Rightarrow> slice option" where
  "Kany8sKubeadmControlPlane_GetConditions r = mkt_Conditions (mkp_Status r)"

definition Kany8sKubeadmControlPlane_SetConditions ::
    "slice option \<Rightarrow> 'f mem_Kany8sKubeadmControlPlane \<Rightarrow> 'f mem_Kany8sKubeadmControlPlane" where
  "Kany8sKubeadmControlPlane_SetConditions cs r = r\<lparr>mkp_Status := (mkp_Status r)\<lparr>mkt_Conditions := cs\<rparr>\<rparr>"

definition Kany8sCluster_GetConditions :: "'f mem_Kany8sCluster \<Rightarrow> slice option" where
  "Kany8sCluster_GetConditions r = mit_Conditions (mic_Status r)"

definition Kany8sCluster_SetConditions :: "slice option \<Rightarrow> 'f mem_Kany8sCluster \<Rightarrow> 'f mem_Kany8sCluster" where
  "Kany8sCluster_SetConditions cs r = r\<lparr>mic_Status := (mic_Status r)\<lparr>mit_Conditions := cs\<rparr>\<rparr>"

text \<open>The array of the conditions is memory of the object, so that a deep copy has its own.\<close>

lemma conditions_reachable:
  "Kany8sControlPlane_GetConditions c = Some s \<Longrightarrow> sl_array s \<in> gt_foot (Kany8sControlPlane_type lib) h c"
  "Kany8sKubeadmControlPlane_GetConditions k = Some s \<Longrightarrow> sl_array s \<in> gt_foot (Kany8sKubeadmControlPlane_type lib) h k"
  "Kany8sCluster_GetConditions i = Some s \<Longrightarrow> sl_array s \<in> gt_foot (Kany8sCluster_type lib) h i"
  by (simp_all add: Kany8sControlPlane_GetConditions_def Kany8sKubeadmControlPlane_GetConditions_def
      Kany8sCluster_GetConditions_def Kany8sControlPlane_type_def Kany8sControlPlaneStatus_type_def
      Kany8sKubeadmControlPlane_type_def Kany8sKubeadmControlPlaneStatus_type_def Kany8sCluster_type_def
      Kany8sClusterStatus_type_def struct_type_def slice_type_def)

text \<open>What the \<open>init\<close> functions register, under the group version of their package.\<close>

definition kany8scontrolplane_types_init :: "gvk list" where
  "kany8scontrolplane_types_init = map ControlPlaneWithKind [''Kany8sControlPlane'', ''Kany8sControlPlaneList'']"

definition kany8scontrolplanetemplate_types_init :: "gvk list" where
  "kany8scontrolplanetemplate_types_init =
     map ControlPlaneWithKind [''Kany8sControlPlaneTemplate'', ''Kany8sControlPlaneTemplateList'']"

definition kany8skubeadmcontrolplane_types_init :: "gvk list" where
  "kany8skubeadmcontrolplane_types_init =
     map ControlPlaneWithKind [''Kany8sKubeadmControlPlane'', ''Kany8sKubeadmControlPlaneList'']"

definition kany8scluster_types_init :: "gvk list" where
  "kany8scluster_types_init = map InfrastructureWithKind [''Kany8sCluster'', ''Kany8sClusterList'']"

definition kany8sclustertemplate_types_init :: "gvk list" where
  "kany8sclustertemplate_types_init = map InfrastructureWithKind [''Kany8sClusterTemplate'', ''Kany8sClusterTemplateList'']"

text \<open>The kind under which the scheme knows an object: the name of its Go type.\<close>

definition object_gvk :: "runtime_object \<Rightarrow> gvk" where
  "object_gvk ob = (case ob of
        Kany8sControlPlaneObject _ \<Rightarrow> ControlPlaneWithKind ''Kany8sControlPlane''
      | Kany8sControlPlaneListObject _ \<Rightarrow> ControlPlaneWithKind ''Kany8sControlPlaneList''
      | Kany8sControlPlaneTemplateObject _ \<Rightarrow> ControlPlaneWithKind ''Kany8sControlPlaneTemplate''
      | Kany8sControlPlaneTemplateListObject _ \<Rightarrow> ControlPlaneWithKind ''Kany8sControlPlaneTemplateList''
      | Kany8sKubeadmControlPlaneObject _ \<Rightarrow> ControlPlaneWithKind ''Kany8sKubeadmControlPlane''
      | Kany8sKubeadmControlPlaneListObject _ \<Rightarrow> ControlPlaneWithKind ''Kany8sKubeadmControlPlaneList''
      | Kany8sClusterObject _ \<Rightarrow> InfrastructureWithKind ''Kany8sCluster''
      | Kany8sClusterListObject _ \<Rightarrow> InfrastructureWithKind ''Kany8sClusterList''
      | Kany8sClusterTemplateObject _ \<Rightarrow> InfrastructureWithKind ''Kany8sClusterTemplate''
      | Kany8sClusterTemplateListObject _ \<Rightarrow> InfrastructureWithKind ''Kany8sClusterTemplateList'')"

definition registered_kinds :: "gvk list" where
  "registered_kinds = kany8scontrolplane_types_init @ kany8scontrolplanetemplate_types_init @
     kany8skubeadmcontrolplane_types_init @ kany8scluster_types_init @ kany8sclustertemplate_types_init"

lemmas registered_kinds_defs = registered_kinds_def kany8scontrolplane_types_init_def
  kany8scontrolplanetemplate_types_init_def kany8skubeadmcontrolplane_types_init_def kany8scluster_types_init_def
  kany8sclustertemplate_types_init_def ControlPlaneWithKind_def ControlPlaneGroupVersion_def InfrastructureWithKind_def

text \<open>No kind is registered twice, and the registered kinds are those of the objects.\<close>

lemma registered_once: "distinct registered_kinds"
  by (simp add: registered_kinds_defs)

lemma registered_objects: "range object_gvk = set registered_kinds"
proof
  show "range object_gvk \<subseteq> set registered_kinds"
  proof clarify
    fix ob show "object_gvk ob \<in> set registered_kinds"
      by (cases ob) (simp_all add: object_gvk_def registered_kinds_defs)
  qed
  have "object_gvk (Kany8sControlPlaneObject p) \<in> range object_gvk" for p by blast
  then show "set registered_kinds \<subseteq> range object_gvk"
    unfolding registered_kinds_def kany8scontrolplane_types_init_def kany8scontrolplanetemplate_types_init_def
      kany8skubeadmcontrolplane_types_init_def kany8scluster_types_init_def kany8sclustertemplate_types_init_def
    using rangeI [of object_gvk "Kany8sControlPlaneObject None"] rangeI [of object_gvk "Kany8sControlPlaneListObject None"]
      rangeI [of object_gvk "Kany8sControlPlaneTemplateObject None"] rangeI [of object_gvk "Kany8sControlPlaneTemplateListObject None"]
      rangeI [of object_gvk "Kany8sKubeadmControlPlaneObject None"] rangeI [of object_gvk "Kany8sKubeadmControlPlaneListObject None"]
      rangeI [of object_gvk "Kany8sClusterObject None"] rangeI [of object_gvk "Kany8sClusterListObject None"]
      rangeI [of object_gvk "Kany8sClusterTemplateObject None"] rangeI [of object_gvk "Kany8sClusterTemplateListObject None"]
    by (simp add: object_gvk_def)
qed

text \<open>A copy is an object of the same registered kind.\<close>

lemma object_gvk_with: "object_gvk (with_pointer q ob) = object_gvk ob"
  by (cases ob) (simp_all add: object_gvk_def with_pointer_def)

text \<open>What can be reached from an object, and what it reads as.\<close>

definition reachable :: "'f deepcopy_lib \<Rightarrow> 'f cell heap \<Rightarrow> runtime_object \<Rightarrow> addr set" where
  "reachable lib h ob = gt_foot (object_type lib ob) h (object_pointer ob)"

definition reads :: "'f deepcopy_lib \<Rightarrow> 'f cell heap \<Rightarrow> runtime_object \<Rightarrow> atom tree" where
  "reads lib h ob = gt_view (object_type lib ob) h (object_pointer ob)"

definition well_formed :: "'f deepcopy_lib \<Rightarrow> 'f cell heap \<Rightarrow> runtime_object \<Rightarrow> bool" where
  "well_formed lib h ob \<longleftrightarrow> gt_valid (object_type lib ob) h (object_pointer ob)"

text \<open>
  C36. \<open>DeepCopyObject\<close> of every API type of the repository, where \<open>DeepCopyInto\<close> of the
  types of other modules copies deeply: a nil pointer gives the nil interface, and not a
  non-nil interface that holds a nil pointer. Any other object gives an object of its own type
  that reads as the original does, while the original is what it was; no cell can be reached from
  both; and whatever is then written to a cell of the one leaves the other as it was.
\<close>

theorem deep_copy_is_independent:
  assumes "deepcopy_lib_ok lib" "well_formed lib h ob" "DeepCopyObject lib ob h = (r, h')"
  shows "case r of
      None \<Rightarrow> object_pointer ob = None \<and> h' = h
    | Some copy \<Rightarrow>
        object_pointer ob \<noteq> None \<and> (\<exists>a. copy = with_pointer (Some a) ob) \<and>
        reads lib h' copy = reads lib h ob \<and> reads lib h' ob = reads lib h ob \<and>
        reachable lib h' ob \<inter> reachable lib h' copy = {} \<and>
        (\<forall>a c. (a \<in> reachable lib h' copy \<longrightarrow> reads lib (store a c h') ob = reads lib h ob) \<and>
           (a \<in> reachable lib h' ob \<longrightarrow> reads lib (store a c h') copy = reads lib h ob))"
proof -
  obtain q k where q: "object_copy lib ob (object_pointer ob) h = (q, k)" by fastforce
  have valid: "gt_valid (object_type lib ob) h (object_pointer ob)" using assms(2) by (simp add: well_formed_def)
  note nil = object_copy_nil [OF q valid] and copy = copies_independent [OF object_copies [OF assms(1)] valid q]
  show ?thesis
  proof (cases q)
    case None
    then show ?thesis using assms(3) q nil by (simp add: DeepCopyObject_pointer)
  next
    case (Some a)
    then have r: "r = Some (with_pointer q ob)" "h' = k"
      using assms(3) q by (simp_all add: DeepCopyObject_pointer)
    show ?thesis
      unfolding r option.case reads_def reachable_def object_type_same pointer_with
      using copy nil Some by auto
  qed
qed

section \<open>A control plane in memory\<close>

text \<open>
  Values of other modules that are pointers to a text, copied as such; a control plane with
  replicas, a reference and a \<open>kroSpec\<close> at addresses of their own.
\<close>

definition demo_foreign :: "addr option foreign" where
  "demo_foreign = \<lparr>fo_type = pointer_type get_CString (plain_type AString), fo_copy = copy_pointer CString get_CString assign\<rparr>"

definition demo_deepcopy_lib :: "addr option deepcopy_lib" where
  "demo_deepcopy_lib = \<lparr>dl_ObjectMeta = demo_foreign, dl_ListMeta = demo_foreign, dl_TemplateMeta = demo_foreign,
     dl_Condition = demo_foreign, dl_JSON = demo_foreign, dl_KubeadmConfigSpec = demo_foreign\<rparr>"

definition demo_memory :: "addr option cell heap" where
  "demo_memory = \<lparr>hp_next = 5, hp_cells =
     [0 \<mapsto> CKany8sControlPlane \<lparr>mcp_TypeMeta = \<lparr>tm_Kind = ''Kany8sControlPlane'', tm_APIVersion = ''v1alpha1''\<rparr>,
        mcp_ObjectMeta = None,
        mcp_Spec = \<lparr>mcs_Replicas = Some 1, mcs_Version = ''v1.34.0'', mcs_ResourceGraphDefinitionRef = Some 2,
          mcs_KroSpec = Some 3, mcs_Kubeadm = None, mcs_ExternalBackend = None, mcs_ControlPlaneEndpoint = no_endpoint\<rparr>,
        mcp_Status = \<lparr>mct_Version = '''', mct_Initialization = \<lparr>mci_ControlPlaneInitialized = False\<rparr>,
          mct_Conditions = None, mct_FailureReason = None, mct_FailureMessage = None\<rparr>\<rparr>,
      1 \<mapsto> CInt32 3, 2 \<mapsto> CResourceGraphDefinitionReference \<lparr>mrr_Name = ''rgd''\<rparr>,
      3 \<mapsto> CJSON (Some 4), 4 \<mapsto> CString ''{}'']\<rparr>"

lemma demo_foreign_copies: "deepcopy_lib_ok demo_deepcopy_lib"
  by (simp add: deepcopy_lib_ok_def demo_deepcopy_lib_def demo_foreign_def pointer_copies assign_copies)

lemmas demo_memory_simps = demo_memory_def demo_deepcopy_lib_def demo_foreign_def Kany8sControlPlane_type_def
  Kany8sControlPlaneSpec_type_def Kany8sControlPlaneStatus_type_def Kany8sControlPlaneInitializationStatus_type_def
  ResourceGraphDefinitionReference_type_def struct_type_def pointer_type_def slice_type_def plain_type_def load_def

lemma demo_well_formed: "well_formed demo_deepcopy_lib demo_memory (Kany8sControlPlaneObject (Some 0))"
  by (simp add: well_formed_def object_type_def object_pointer_def demo_memory_simps)

theorem deep_copy_is_independent_witness:
  "\<exists>copy h'. DeepCopyObject demo_deepcopy_lib (Kany8sControlPlaneObject (Some 0)) demo_memory = (Some copy, h') \<and>
     reads demo_deepcopy_lib h' copy = reads demo_deepcopy_lib demo_memory (Kany8sControlPlaneObject (Some 0)) \<and>
     reachable demo_deepcopy_lib h' (Kany8sControlPlaneObject (Some 0)) \<inter> reachable demo_deepcopy_lib h' copy = {}"
proof -
  obtain r h' where run: "DeepCopyObject demo_deepcopy_lib (Kany8sControlPlaneObject (Some 0)) demo_memory = (r, h')"
    by fastforce
  show ?thesis
    using deep_copy_is_independent [OF demo_foreign_copies demo_well_formed run] run
    by (cases r) (auto simp: object_pointer_def)
qed

end
