(* ===== verification/Spec2Isabelle.thy ===== *)
theory Spec2Isabelle
  imports Prelude GoStrings GoUrl Endpoint K8sModel Kro Kubeconfig EksCore EventDedupe
    DynamicWatch ApiTypes Webhook ControlPlane InfraCluster Kubeadm EksCommon Rotator Md5
    AwsModel GoJson Sha AckObjects Ocm
    Ec2 KarpValues KarpPolicy Workload KarpResources Karpenter
    KarpSafety KarpCalls Metrics Composition Setup Events GoDuration GoFlag CommandLine Startup Delivery Progress SelfManaged KarpComplete
    GoHeap ApiMemory DeepCopy
begin

text \<open>
  A model of kany8s, a Cluster API control plane and infrastructure provider that drives
  provider-specific backends through kro.

  \<^bold>\<open>The program.\<close> A \<open>Kany8sControlPlane\<close> chooses one of three backends: an instance
  of a kro ResourceGraphDefinition, an external custom resource, or the self-managed
  \<open>Kany8sKubeadmControlPlane\<close>. Its controller stores the backend object, watches its kind,
  and projects the normalized status (ready, endpoint, reason, message, terminal) into the
  control plane contract of the Cluster API: the endpoint in the spec, the initialized flag, the
  conditions and failure fields, and the kubeconfig Secret. The \<open>Kany8sCluster\<close> controller
  does the same for the infrastructure half. The EKS plugin runs beside them and mints
  kubeconfigs for EKS clusters. The controllers share no memory; they meet in the API server.

  \<^bold>\<open>The modelling.\<close> A reconcile is a program over the calls it makes: a value of the state
  monad whose state is the history of the calls, where each call is answered by a function of
  the history that is a field of an environment record. A theorem that quantifies over the
  environment holds for every behaviour of the API server, of the other controllers and of
  conflicts and failures of any call. Errors are the left side of a sum. Objects are records;
  an update of the server's is the answer of the call, with which the code's variable is
  overwritten, as the client library does. Machine integers are words where the width matters
  (ports, generations, replicas), durations are nanoseconds.

  \<^bold>\<open>The theories.\<close>
  \<^item> \<open>Prelude\<close>: Go errors, programs over calls with their weakest preconditions, \<open>emits\<close>
    (every call satisfies a predicate) and \<open>ensures\<close> (and every result does), maps, durations.
  \<^item> \<open>GoStrings\<close>, \<open>GoUrl\<close>: what the code uses of \<open>strings\<close>, \<open>strconv\<close>,
    \<open>fmt\<close> and \<open>net/url\<close>, byte for byte.
  \<^item> \<open>K8sModel\<close>: JSON documents, metadata, conditions, and the record \<open>apilib\<close> of the
    Kubernetes and Cluster API library functions the code calls, with their documented laws; the
    laws are shown to hold of a reference instance.
  \<^item> \<open>Kro\<close> (\<open>internal/kro\<close>), \<open>Endpoint\<close> (\<open>internal/endpoint\<close>),
    \<open>Kubeconfig\<close> (\<open>internal/kubeconfig\<close>): the pure contracts.
  \<^item> \<open>EksCore\<close> (\<open>internal/plugin/eks\<close>): annotations, refresh policy, kubeconfigs.
  \<^item> \<open>EventDedupe\<close> (\<open>internal/controller/plugin/eks/event_dedupe.go\<close>): the bounded cache
    of reported events, over an arbitrary iteration order of Go's maps.
  \<^item> \<open>DynamicWatch\<close> (\<open>internal/dynamicwatch\<close>): registration of informers, and the
    delivery of events as a step relation of handlers, flusher and consumer.
  \<^item> \<open>ApiTypes\<close> (\<open>api/\<close>), \<open>Webhook\<close>: the resources and their validators, with the
    interface \<open>backend_selector\<close> of a backend choice, interpreted for both webhooks and, in
    \<open>ControlPlane\<close>, for the controller.
  \<^item> \<open>ControlPlane\<close> (\<open>internal/controller/kany8scontrolplane_controller.go\<close>),
    \<open>InfraCluster\<close> (\<open>internal/controller/infrastructure\<close>), \<open>Kubeadm\<close>
    (\<open>internal/controller/controlplane\<close>): the three reconcilers, in the order of their
    operations, then what their calls may be.
  \<^item> \<open>EksCommon\<close> (\<open>internal/controller/plugin/eks\<close>): what the EKS controllers share:
    their calls, the names of a cluster, the mapping of ACK events, and the managed upsert with
    its interface \<open>managed_object\<close>. \<open>Rotator\<close> (\<open>rotator_controller.go\<close>): the
    kubeconfig rotator.
  \<^item> \<open>Md5\<close>, \<open>Sha\<close>, \<open>GoJson\<close>: what the EKS controllers use of \<open>crypto/md5\<close>,
    \<open>crypto/sha256\<close>, \<open>crypto/sha1\<close> and \<open>encoding/json\<close> (texts, their reading and the
    decoding into Go types), with the round trip of a document through its text.
  \<^item> \<open>AwsModel\<close>: the values of the AWS and workload cluster interfaces. \<open>AckObjects\<close>: how
    the bootstrappers fill in, own and tag the objects they store; the managed upsert is shown
    to refine an ownership protocol. \<open>Ocm\<close> (\<open>ocm_awsirsa_bootstrapper_controller.go\<close>):
    the OCM bootstrapper.
  \<^item> The Karpenter bootstrapper (\<open>karpenter_bootstrapper_controller.go\<close> and the three
    files beside it): \<open>Ec2\<close> (subnet validation, clean-up of instances and interfaces),
    \<open>KarpValues\<close> (Helm values, topology variables), \<open>KarpPolicy\<close> (policy documents and
    the node pool manifest), \<open>Workload\<close> (restarts and the end of provisioning in the workload
    cluster), \<open>KarpResources\<close> (the stored resources, the OIDC thumbprint) and
    \<open>Karpenter\<close> (the reconciler). \<open>KarpSafety\<close> shows what a whole run may do,
    \<open>KarpComplete\<close> what it has achieved when it counts a success, with a run that does.
    \<open>KarpCalls\<close> goes through the phases of a run for any predicate of calls, with the
    interface \<open>unmetered_calls\<close>; \<open>Metrics\<close> (\<open>metrics.go\<close>) shows which runs
    the counter of errors counts.
  \<^item> \<open>Composition\<close>: what the EKS controllers leave for each other in the API server.
    \<open>Delivery\<close>: a change of a backend object comes back, through the watcher, to the control
    plane that stored it. \<open>Progress\<close>: what one run of the control plane reaches once its
    backend is done, the counterpart of what a run may write at all; \<open>SelfManaged\<close> composes it with the
    self-managed controller.
  \<^item> \<open>Setup\<close> (\<open>SetupWithManager\<close> of the six controllers, the webhooks, the index):
    the watches and the requests their events bring; \<open>Events\<close> shows that what the Karpenter
    bootstrapper stores leads back to it. \<open>GoDuration\<close>, \<open>GoFlag\<close>: the parser of
    durations, with its 64-bit overflow and its floating point fractions, and of the command line.
    \<open>CommandLine\<close> (\<open>cmd/\<close>): the three commands; \<open>Startup\<close> gives the start
    of each as a plan of calls, with the interface \<open>planned_start\<close>, and shows what is started,
    which leases are held and which intervals the reconcilers get.
  \<^item> \<open>GoHeap\<close>: memory with pointers and slices, types as what is valid, reachable and read in
    their values, and the combinators of deep copies with their laws. \<open>ApiMemory\<close>: the API
    types as they lie in memory. \<open>DeepCopy\<close> (\<open>zz_generated.deepcopy.go\<close> of both API
    packages, and the \<open>init\<close> functions of the types): every generated copy, statement by
    statement. A copy reads as its original and shares no memory with it, which is why the other
    theories may treat an object as a value and \<open>DeepCopy\<close> as the identity.

  \<^bold>\<open>What is shown.\<close> Safety of whole runs: Ready and initialized are only reported on the
  backend's word, writes stay within their scope and namespace, stored objects carry the fields
  the facade enforces. Progress: a run that leaves an object unfinished asks for another. The
  pure parts are characterised on every branch, with round trips for endpoints and kinds. The
  event path loses no notification in any interleaving.

  \<^bold>\<open>Bounds.\<close> There is no fuel: every loop of the modelled code is structural or has a
  measure. The delivery model has no bound on the number of objects or steps.

  \<^bold>\<open>Left out.\<close> Log lines, the Prometheus registry, the registry behind the scheme,
  and the guards against nil objects inside helpers whose only caller passes an object. The libraries are parameters.
  The flags that zap and controller-runtime add to the command line are a parameter of the commands.
\<close>

end
